(* ===== verification/Prelude.thy ===== *)
theory Prelude
  imports Main "HOL-Library.Word"
begin

text \<open>
  Shared vocabulary of the development: Go results and faults, machine integers written
  out on \<^typ>\<open>int\<close>, fixed-size chunks of a byte file, and the lemmas about them that the
  component theories use.  Nothing here models a particular line of the program.
\<close>

section \<open>Results and faults\<close>

text \<open>
  A Go function that returns \<open>(x, err)\<close> is a function into \<open>'a result\<close>: \<open>Inl (Err m)\<close> is the
  returned error, with its message, and \<open>Inl (Panic m)\<close> is a run-time panic, an explicit
  \<open>panic(...)\<close> or a \<open>log.Fatal\<close>, which no caller of this program recovers from.
  A function that mutates a state returns the new state beside its result, so that what an
  early return has already changed stays visible.
\<close>

datatype fault = Err string | Panic string

type_synonym 'a result = "fault + 'a"
type_synonym byte = "8 word"
type_synonym bytes = "byte list"

fun is_panic :: "'a result \<Rightarrow> bool" where
  "is_panic (Inl (Panic m)) = True"
| "is_panic _ = False"

lemma is_panic_Inl [simp]: "is_panic (Inl e) \<longleftrightarrow> (\<exists>m. e = Panic m)"
  by (cases e) simp_all

text \<open>\<open>thenR\<close> and \<open>thenS\<close> are the \<open>if err != nil { return err }\<close> of the source, on a pure
  result and on a result with a state.\<close>

definition thenR :: "'a result \<Rightarrow> ('a \<Rightarrow> 'b result) \<Rightarrow> 'b result" where
  "thenR r k = (case r of Inl e \<Rightarrow> Inl e | Inr x \<Rightarrow> k x)"

definition thenS :: "'s \<times> 'a result \<Rightarrow> ('s \<Rightarrow> 'a \<Rightarrow> 's \<times> 'b result) \<Rightarrow> 's \<times> 'b result" where
  "thenS m k = (case m of (s, r) \<Rightarrow> (case r of Inl e \<Rightarrow> (s, Inl e) | Inr x \<Rightarrow> k s x))"

lemma thenR_simps [simp]:
  "thenR (Inl e) k = Inl e" "thenR (Inr x) k = k x"
  by (simp_all add: thenR_def)

lemma thenS_simps [simp]:
  "thenS (s, Inl e) k = (s, Inl e)" "thenS (s, Inr x) k = k s x"
  by (simp_all add: thenS_def)

lemma thenR_eq_Inr: "thenR r k = Inr y \<longleftrightarrow> (\<exists>x. r = Inr x \<and> k x = Inr y)"
  by (cases r) auto

lemma thenS_eq_Inr:
  "thenS m k = (s', Inr y) \<longleftrightarrow> (\<exists>s x. m = (s, Inr x) \<and> k s x = (s', Inr y))"
  by (cases m; cases "snd m") auto

lemma fst_thenS_cases:
  assumes "\<And>s x. m = (s, Inr x) \<Longrightarrow> P (fst (k s x))"
    and "\<And>s e. m = (s, Inl e) \<Longrightarrow> P s"
  shows "P (fst (thenS m k))"
  using assms by (cases m; cases "snd m") auto

section \<open>Machine integers\<close>

text \<open>
  A Go \<open>int64\<close> is an \<^typ>\<open>int\<close>.  Where an argument of the API can make an operation overflow,
  the two's complement wrap-around is written out with \<open>wrap64\<close>; \<open>u32\<close> is the conversion to
  \<open>uint32\<close>.
\<close>

definition wrap64 :: "int \<Rightarrow> int" where
  "wrap64 x = (x + 2 ^ 63) mod 2 ^ 64 - 2 ^ 63"

definition u32 :: "int \<Rightarrow> int" where
  "u32 x = x mod 2 ^ 32"

lemma wrap64_id: "- (2 ^ 63) \<le> x \<Longrightarrow> x < 2 ^ 63 \<Longrightarrow> wrap64 x = x"
  by (simp add: wrap64_def)

lemma wrap64_range: "- (2 ^ 63) \<le> wrap64 x \<and> wrap64 x < 2 ^ 63"
  using pos_mod_bound [of "2 ^ 64" "x + 2 ^ 63"] pos_mod_sign [of "2 ^ 64" "x + 2 ^ 63"]
  by (simp add: wrap64_def)

lemma wrap64_overflow: "2 ^ 63 \<le> x \<Longrightarrow> x < 2 ^ 64 \<Longrightarrow> wrap64 x = x - 2 ^ 64"
proof -
  assume x: "2 ^ 63 \<le> x" "x < 2 ^ 64"
  have "(x + 2 ^ 63) mod 2 ^ 64 = (x + 2 ^ 63 - 2 ^ 64) mod 2 ^ 64"
    by (rule minus_mod_self2 [symmetric])
  also have "\<dots> = x + 2 ^ 63 - 2 ^ 64"
    using x by (intro mod_pos_pos_trivial) simp_all
  finally show ?thesis by (simp add: wrap64_def)
qed

lemma u32_id: "0 \<le> x \<Longrightarrow> x < 2 ^ 32 \<Longrightarrow> u32 x = x"
  by (simp add: u32_def)

section \<open>Fixed-size chunks of a byte list\<close>

definition chunk :: "nat \<Rightarrow> nat \<Rightarrow> 'a list \<Rightarrow> 'a list" where
  "chunk n i bs = take n (drop (i * n) bs)"

lemma chunk_in_range: "i < m \<Longrightarrow> i * n + n \<le> m * (n::nat)"
  by (metis Suc_leI add.commute mult_Suc mult_le_mono1)

lemma length_chunk: "length bs = m * n \<Longrightarrow> i < m \<Longrightarrow> length (chunk n i bs) = n"
  using chunk_in_range [of i m n] by (simp add: chunk_def)

lemma chunk_append_old:
  assumes "length bs = m * n" "i < m"
  shows "chunk n i (bs @ raw) = chunk n i bs"
  using chunk_in_range [OF assms(2), of n] assms(1) by (simp add: chunk_def)

lemma chunk_append_new:
  "length bs = m * n \<Longrightarrow> length raw = n \<Longrightarrow> chunk n m (bs @ raw) = raw"
  by (simp add: chunk_def)

lemma chunk_append_shift:
  "length bs = m * n \<Longrightarrow> m \<le> i \<Longrightarrow> chunk n i (bs @ cs) = chunk n (i - m) cs"
  by (simp add: chunk_def diff_mult_distrib)

lemma chunk_take: "i < m \<Longrightarrow> chunk n i (take (m * n) bs) = chunk n i bs"
  using chunk_in_range [of i m n] by (simp add: chunk_def drop_take min_def)

lemma chunk_0: "chunk n 0 bs = take n bs"
  by (simp add: chunk_def)

lemma chunk_Suc: "chunk n (Suc i) bs = chunk n i (drop n bs)"
  by (simp add: chunk_def add.commute)

lemma chunk_map: "chunk n i (map f bs) = map f (chunk n i bs)"
  by (simp add: chunk_def take_map drop_map)

section \<open>Association of a key with a list element\<close>

text \<open>The \<open>for _, x := range xs { if p(x) { return x } }\<close> search of the source.\<close>

lemma find_Some_mem: "List.find p xs = Some x \<Longrightarrow> x \<in> set xs \<and> p x"
  by (induction xs) (auto split: if_splits)

lemma find_None_all: "List.find p xs = None \<longleftrightarrow> (\<forall>x \<in> set xs. \<not> p x)"
  by (induction xs) auto

end
