(* ===== verification/Strconv.thy ===== *)
theory Strconv
  imports Prelude
begin

text \<open>
  The parts of Go's \<open>strconv\<close> and \<open>strings\<close> the program uses to print and parse keys and
  messages: \<open>Itoa\<close>, \<open>ParseUint(s, 10, 32)\<close>, \<open>Split\<close> and \<open>HasSuffix\<close>, with their round trips.
\<close>

section \<open>Printing numbers\<close>

fun nat_digits :: "nat \<Rightarrow> string" where
  "nat_digits n =
     (if n < 10 then [char_of (48 + n)] else nat_digits (n div 10) @ [char_of (48 + n mod 10)])"

declare nat_digits.simps [simp del]

definition Itoa :: "int \<Rightarrow> string" where
  "Itoa i = (if i < 0 then CHR ''-'' # nat_digits (nat (- i)) else nat_digits (nat i))"

section \<open>Parsing numbers\<close>

definition digit_val :: "char \<Rightarrow> nat option" where
  "digit_val c = (let k = of_char c :: nat in if 48 \<le> k \<and> k \<le> 57 then Some (k - 48) else None)"

fun parse_digits :: "nat \<Rightarrow> string \<Rightarrow> nat result" where
  "parse_digits n [] = Inr n"
| "parse_digits n (c # cs) =
     (case digit_val c of None \<Rightarrow> Inl (Err ''invalid syntax'')
      | Some d \<Rightarrow> (if 10 * n + d > 2 ^ 32 - 1 then Inl (Err ''value out of range'')
                  else parse_digits (10 * n + d) cs))"

definition ParseUint32 :: "string \<Rightarrow> nat result" where
  "ParseUint32 s = (if s = [] then Inl (Err ''invalid syntax'') else parse_digits 0 s)"

lemma digit_val_char [simp]: "d < 10 \<Longrightarrow> digit_val (char_of (48 + d :: nat)) = Some d"
  by (simp add: digit_val_def)

lemma nat_digits_not_Nil [simp]: "nat_digits n \<noteq> []"
  by (subst nat_digits.simps) simp

lemma nat_digits_chars: "c \<in> set (nat_digits n) \<Longrightarrow> \<exists>d<10. c = char_of (48 + d :: nat)"
proof (induction n rule: nat_digits.induct)
  case (1 n)
  show ?case
  proof (cases "n < 10")
    case True
    with "1.prems" show ?thesis by (subst (asm) nat_digits.simps) auto
  next
    case False
    then have "nat_digits n = nat_digits (n div 10) @ [char_of (48 + n mod 10)]"
      by (subst nat_digits.simps) simp
    with "1.prems" consider "c \<in> set (nat_digits (n div 10))" | "c = char_of (48 + n mod 10)"
      by auto
    then show ?thesis
      using "1.IH" [OF False] by cases (auto intro: exI [of _ "n mod 10"])
  qed
qed

lemma parse_digits_append:
  "parse_digits n (s @ [c]) =
     (case parse_digits n s of Inl e \<Rightarrow> Inl e | Inr m \<Rightarrow> parse_digits m [c])"
  by (induction s arbitrary: n) (auto split: option.splits)

lemma parse_nat_digits: "n < 2 ^ 32 \<Longrightarrow> parse_digits 0 (nat_digits n) = Inr n"
proof (induction n rule: nat_digits.induct)
  case (1 n)
  show ?case
  proof (cases "n < 10")
    case True
    then show ?thesis by (subst nat_digits.simps) simp
  next
    case False
    have "parse_digits 0 (nat_digits (n div 10)) = Inr (n div 10)"
      using False 1 by simp
    moreover have "10 * (n div 10) + n mod 10 = n"
      by simp
    ultimately show ?thesis
      using False "1.prems" by (subst nat_digits.simps) (simp add: parse_digits_append)
  qed
qed

lemma ParseUint32_Itoa: "0 \<le> i \<Longrightarrow> i < 2 ^ 32 \<Longrightarrow> ParseUint32 (Itoa i) = Inr (nat i)"
  by (simp add: ParseUint32_def Itoa_def parse_nat_digits nat_less_iff)

lemma ParseUint32_bound: "ParseUint32 s = Inr n \<Longrightarrow> n < 2 ^ 32"
proof -
  have "parse_digits m s = Inr n \<Longrightarrow> m < 2 ^ 32 \<Longrightarrow> n < 2 ^ 32" for m
    by (induction s arbitrary: m) (auto split: option.splits if_splits)
  then show "ParseUint32 s = Inr n \<Longrightarrow> n < 2 ^ 32"
    by (auto simp: ParseUint32_def split: if_splits)
qed

text \<open>\<open>strconv.Atoi\<close>: a sign, then digits, in the range of an \<open>int64\<close>.\<close>

fun parse_dec :: "nat \<Rightarrow> string \<Rightarrow> nat option" where
  "parse_dec n [] = Some n"
| "parse_dec n (c # cs) = (case digit_val c of None \<Rightarrow> None | Some d \<Rightarrow> parse_dec (10 * n + d) cs)"

definition Atoi :: "string \<Rightarrow> int result" where
  "Atoi s =
     (let neg = (s \<noteq> [] \<and> s ! 0 = CHR ''-''); ds = (if s \<noteq> [] \<and> s ! 0 \<in> {CHR ''-'', CHR ''+''} then tl s else s) in
      if ds = [] then Inl (Err ''invalid syntax'')
      else
        (case parse_dec 0 ds of None \<Rightarrow> Inl (Err ''invalid syntax'')
         | Some n \<Rightarrow>
             (let i = (if neg then - int n else int n) in
              if - (2 ^ 63) \<le> i \<and> i < 2 ^ 63 then Inr i else Inl (Err ''value out of range''))))"

lemma parse_dec_append:
  "parse_dec n (s @ [c]) = (case parse_dec n s of None \<Rightarrow> None | Some m \<Rightarrow> parse_dec m [c])"
  by (induction s arbitrary: n) (auto split: option.splits)

lemma parse_dec_digits: "parse_dec 0 (nat_digits n) = Some n"
proof (induction n rule: nat_digits.induct)
  case (1 n)
  then show ?case
    by (cases "n < 10") (subst nat_digits.simps, simp add: parse_dec_append)+
qed

lemma Atoi_Itoa: "0 \<le> i \<Longrightarrow> i < 2 ^ 63 \<Longrightarrow> Atoi (Itoa i) = Inr i"
proof -
  assume i: "0 \<le> i" "i < 2 ^ 63"
  obtain c cs where c: "nat_digits (nat i) = c # cs"
    using nat_digits_not_Nil by (cases "nat_digits (nat i)") auto
  obtain d :: nat where "d < 10" "c = char_of (48 + d)"
    using nat_digits_chars [of c "nat i"] c by auto
  then have "digit_val c = Some d" by simp
  then have "c \<noteq> CHR ''-''" "c \<noteq> CHR ''+''"
    by (auto simp: digit_val_def)
  then show ?thesis
    using i c parse_dec_digits [of "nat i"] by (simp add: Atoi_def Itoa_def)
qed

section \<open>Splitting strings\<close>

text \<open>\<open>strings.Split(s, sep)\<close> for a separator of one byte.\<close>

fun Split :: "char \<Rightarrow> string \<Rightarrow> string list" where
  "Split sep [] = [[]]"
| "Split sep (c # cs) =
     (if c = sep then [] # Split sep cs
      else (case Split sep cs of [] \<Rightarrow> [[c]] | p # ps \<Rightarrow> (c # p) # ps))"

lemma Split_not_Nil [simp]: "Split sep s \<noteq> []"
  by (cases s) (auto split: list.splits)

lemma Split_no_sep: "sep \<notin> set s \<Longrightarrow> Split sep s = [s]"
  by (induction s) auto

lemma Split_append:
  "sep \<notin> set a \<Longrightarrow> Split sep (a @ sep # b) = a # Split sep b"
  by (induction a) auto

lemma colon_notin_digits: "CHR '':'' \<notin> set (nat_digits n)"
proof
  assume "CHR '':'' \<in> set (nat_digits n)"
  then obtain d where d: "d < 10" "CHR '':'' = (char_of (48 + d :: nat) :: char)"
    using nat_digits_chars by blast
  have "of_char (char_of (48 + d :: nat) :: char) = 48 + d"
    using d(1) by simp
  then have "of_char (CHR '':'') = (48 + d :: nat)"
    using d(2) by simp
  then show False
    using d(1) by simp
qed

lemma Split_colon_Itoa:
  "CHR '':'' \<notin> set a \<Longrightarrow> 0 \<le> i \<Longrightarrow> Split (CHR '':'') (a @ '':'' @ Itoa i) = [a, Itoa i]"
  by (simp add: Split_append Itoa_def Split_no_sep colon_notin_digits)

definition HasSuffix :: "string \<Rightarrow> string \<Rightarrow> bool" where
  "HasSuffix s suf \<longleftrightarrow> length suf \<le> length s \<and> drop (length s - length suf) s = suf"

end
