(* ===== verification/Hex_Hash.thy ===== *)
theory Hex_Hash
  imports Prelude
begin

text \<open>
  Hex strings and block hashes.  \<open>EncodeToString\<close> and \<open>DecodeString\<close> are the two functions of
  Go's \<open>encoding/hex\<close> that the program calls; \<open>reverseHash\<close> and \<open>StringRev\<close> are those of
  \<open>electrumx/headers.go\<close>, which print a wire hash in the customary reversed byte order.
  The lemmas give the print/parse round trip and show that the in-place swapping loop is
  list reversal.
\<close>

section \<open>encoding/hex\<close>

definition hextable :: string where
  "hextable = ''0123456789abcdef''"

definition EncodeToString :: "bytes \<Rightarrow> string" where
  "EncodeToString bs = concat (map (\<lambda>b. [hextable ! (unat b div 16), hextable ! (unat b mod 16)]) bs)"

definition fromHexChar :: "char \<Rightarrow> nat option" where
  "fromHexChar c =
     (let k = of_char c :: nat in
      if 48 \<le> k \<and> k \<le> 57 then Some (k - 48)
      else if 97 \<le> k \<and> k \<le> 102 then Some (k - 97 + 10)
      else if 65 \<le> k \<and> k \<le> 70 then Some (k - 65 + 10)
      else None)"

fun DecodeString :: "string \<Rightarrow> bytes result" where
  "DecodeString [] = Inr []"
| "DecodeString [c] =
     (if fromHexChar c = None then Inl (Err ''invalid byte'') else Inl (Err ''odd length hex string''))"
| "DecodeString (c # d # cs) =
     (case fromHexChar c of None \<Rightarrow> Inl (Err ''invalid byte'')
      | Some x \<Rightarrow> (case fromHexChar d of None \<Rightarrow> Inl (Err ''invalid byte'')
      | Some y \<Rightarrow> (case DecodeString cs of Inl e \<Rightarrow> Inl e
      | Inr bs \<Rightarrow> Inr (of_nat (16 * x + y) # bs))))"

lemma fromHexChar_hextable: "i < 16 \<Longrightarrow> fromHexChar (hextable ! i) = Some i"
proof -
  assume "i < 16"
  then have "i \<in> {0, 1, 2, 3, 4, 5, 6, 7, 8, 9, 10, 11, 12, 13, 14, 15}"
    by (simp only: insert_iff empty_iff) arith
  then show ?thesis
    by (elim insertE emptyE) (simp_all add: hextable_def fromHexChar_def)
qed

lemma EncodeToString_Nil [simp]: "EncodeToString [] = []"
  by (simp add: EncodeToString_def)

lemma EncodeToString_Cons [simp]:
  "EncodeToString (b # bs) =
     hextable ! (unat b div 16) # hextable ! (unat b mod 16) # EncodeToString bs"
  by (simp add: EncodeToString_def)

lemma length_EncodeToString [simp]: "length (EncodeToString bs) = 2 * length bs"
  by (induction bs) simp_all

lemma byte_digits: "of_nat (16 * (unat b div 16) + unat b mod 16) = (b :: byte)"
  by simp

lemma Decode_Encode [simp]: "DecodeString (EncodeToString bs) = Inr bs"
proof (induction bs)
  case Nil
  then show ?case by simp
next
  case (Cons b bs)
  have "unat b div 16 < 16"
    using unsigned_less [of b, where 'a = nat] by simp
  then show ?case
    using Cons by (simp add: fromHexChar_hextable byte_digits del: of_nat_add of_nat_mult)
qed

lemma length_DecodeString: "DecodeString s = Inr bs \<Longrightarrow> length s = 2 * length bs"
  by (induction s arbitrary: bs rule: DecodeString.induct)
    (auto split: option.splits sum.splits if_splits)

lemma DecodeString_no_panic: "DecodeString s \<noteq> Inl (Panic m)"
  by (induction s rule: DecodeString.induct) (auto split: option.splits sum.splits)

lemma Encode_inj: "EncodeToString bs = EncodeToString cs \<longleftrightarrow> bs = cs"
  by (metis Decode_Encode sum.inject(2))

section \<open>Wire hashes\<close>

text \<open>A \<open>WireHash\<close> is \<open>[HashSize]byte\<close>: a byte list whose length is \<open>HashSize\<close>.\<close>

definition HashSize :: nat where
  "HashSize = 32"

type_synonym WireHash = bytes

text \<open>The loop swaps the two ends and moves inwards until the indices meet.\<close>

function reverse_loop :: "bytes \<Rightarrow> nat \<Rightarrow> nat \<Rightarrow> bytes" where
  "reverse_loop arr left right =
     (if left < right
      then reverse_loop (arr[left := arr ! right, right := arr ! left]) (left + 1) (right - 1)
      else arr)"
  by pat_completeness auto
termination
  by (relation "measure (\<lambda>(arr, left, right). right - left)") auto

declare reverse_loop.simps [simp del]

definition reverseHash :: "WireHash \<Rightarrow> WireHash" where
  "reverseHash arr = reverse_loop arr 0 (HashSize - 1)"

definition StringRev :: "WireHash \<Rightarrow> string" where
  "StringRev wh = EncodeToString (reverseHash wh)"

lemma length_reverse_loop [simp]: "length (reverse_loop arr l r) = length arr"
  by (induction arr l r rule: reverse_loop.induct)
    (subst reverse_loop.simps, simp)

text \<open>Invariant of the loop: it mirrors the positions from \<open>left\<close> to \<open>right\<close> and leaves the rest.\<close>

lemma reverse_loop_nth:
  "r < length arr \<Longrightarrow> l + r + 1 = length arr \<Longrightarrow> i < length arr \<Longrightarrow>
   reverse_loop arr l r ! i =
     (if l \<le> i \<and> i \<le> r then arr ! (length arr - 1 - i) else arr ! i)"
proof (induction arr l r arbitrary: i rule: reverse_loop.induct)
  case (1 arr l r)
  show ?case
  proof (cases "l < r")
    case True
    define arr' where "arr' = arr[l := arr ! r, r := arr ! l]"
    have len: "length arr' = length arr" by (simp add: arr'_def)
    have step: "reverse_loop arr l r = reverse_loop arr' (l + 1) (r - 1)"
      using True by (subst reverse_loop.simps) (simp add: arr'_def)
    have IH: "reverse_loop arr' (l + 1) (r - 1) ! i =
        (if l + 1 \<le> i \<and> i \<le> r - 1 then arr' ! (length arr' - 1 - i) else arr' ! i)"
      unfolding arr'_def using "1.prems" True by (intro "1.IH") auto
    have at: "arr' ! j = (if j = r then arr ! l else if j = l then arr ! r else arr ! j)"
      if "j < length arr" for j
      using that True "1.prems" by (auto simp: arr'_def nth_list_update)
    have j: "length arr - 1 - i < length arr" "length arr - 1 - i = l + r - i"
      using "1.prems" by auto
    have "reverse_loop arr l r ! i =
        (if l + 1 \<le> i \<and> i \<le> r - 1 then arr' ! (length arr - 1 - i) else arr' ! i)"
      by (simp only: step IH len)
    then show ?thesis
      using True "1.prems" j by (auto simp: at)
  next
    case False
    then have "length arr - 1 - i = i" if "l \<le> i" "i \<le> r"
      using that "1.prems" by auto
    then show ?thesis
      using False by (subst reverse_loop.simps) auto
  qed
qed

lemma reverseHash_rev: "length wh = HashSize \<Longrightarrow> reverseHash wh = rev wh"
  by (rule nth_equalityI)
    (simp_all add: reverseHash_def reverse_loop_nth rev_nth HashSize_def)

lemma length_reverseHash [simp]: "length (reverseHash wh) = length wh"
  by (simp add: reverseHash_def)

text \<open>The in-place swapping loop of \<open>reverseHash\<close> reverses a 32-byte hash, so applying it twice
  gives the hash back, and \<open>StringRev\<close> prints 64 hex digits that parse to the reversed bytes: the
  printed form determines the hash.\<close>

theorem StringRev_parses_back:
  assumes "length wh = HashSize"
  shows "DecodeString (StringRev wh) = Inr (rev wh) \<and> length (StringRev wh) = 64 \<and>
    reverseHash (reverseHash wh) = wh"
  using assms by (simp add: StringRev_def reverseHash_rev) (simp add: HashSize_def)

theorem StringRev_parses_back_witness:
  "DecodeString (StringRev (replicate 31 0 @ [171])) = Inr (171 # replicate 31 0)"
  using StringRev_parses_back [of "replicate 31 0 @ [171]"] by (simp add: HashSize_def)

end
