(* ===== verification/Datastore.thy ===== *)
theory Datastore
  imports Strconv Hex_Hash
begin

text \<open>
  The data model of the wallet, \<open>wallet/datastore.go\<close> and \<open>wallet/util.go\<close>: outpoints and their text
  form, utxos, stxos, transactions, key paths and subscriptions, the Go interfaces of the datastore
  as records of operations, and the abstract store the two database packages implement.
  A \<open>chainhash.Hash\<close> is a byte list; btcd's text form of it is the parameter \<open>hash_lib\<close>.
\<close>

section \<open>Coins\<close>

definition CoinType_String :: "int \<Rightarrow> string" where
  "CoinType_String c =
     (if c = 0 then ''Bitcoin'' else if c = 145 then ''Bitcoin Cash'' else if c = 133 then ''Zcash''
      else if c = 136 then ''Firo'' else if c = 1 then ''Litecoin'' else if c = 60 then ''Ethereum''
      else if c = 1000000 then ''Testnet Bitcoin'' else if c = 1000145 then ''Testnet Bitcoin Cash''
      else if c = 1000133 then ''Testnet Zcash'' else if c = 1000001 then ''Testnet Litecoin''
      else if c = 1000060 then ''Testnet Ethereum'' else [])"

definition CoinType_CurrencyCode :: "int \<Rightarrow> string" where
  "CoinType_CurrencyCode c =
     (if c = 0 then ''BTC'' else if c = 145 then ''BCH'' else if c = 133 then ''ZEC''
      else if c = 136 then ''FIRO'' else if c = 1 then ''LTC'' else if c = 60 then ''ETH''
      else if c = 1000000 then ''TBTC'' else if c = 1000145 then ''TBCH''
      else if c = 1000133 then ''TZEC'' else if c = 1000136 then ''TFIRO''
      else if c = 1000001 then ''TLTC'' else if c = 1000060 then ''TETH'' else [])"

section \<open>Outpoints\<close>

type_synonym hash = bytes

record OutPoint =
  OpHash :: hash
  OpIndex :: "32 word"

record hash_lib =
  HashString :: "hash \<Rightarrow> string"
  NewHashFromStr :: "string \<Rightarrow> hash result"

definition OutPoint_String :: "hash_lib \<Rightarrow> OutPoint \<Rightarrow> string" where
  "OutPoint_String H op = HashString H (OpHash op) @ '':'' @ Itoa (uint (OpIndex op))"

definition NewOutPointFromString :: "hash_lib \<Rightarrow> string \<Rightarrow> OutPoint result" where
  "NewOutPointFromString H outpoint =
     (let parts = Split (CHR '':'') outpoint in
      if length parts \<noteq> 2 then Inl (Err ''outpoint should be of the form txid:index'')
      else
        thenR (NewHashFromStr H (parts ! 0)) (\<lambda>hash.
        case ParseUint32 (parts ! 1) of
          Inl _ \<Rightarrow> Inl (Err ''invalid output index'')
        | Inr outputIndex \<Rightarrow> Inr \<lparr>OpHash = hash, OpIndex = of_nat outputIndex\<rparr>))"

definition NewOutPoint :: "hash_lib \<Rightarrow> string \<Rightarrow> 32 word \<Rightarrow> OutPoint result" where
  "NewOutPoint H txid out =
     thenR (NewHashFromStr H txid) (\<lambda>hash. Inr \<lparr>OpHash = hash, OpIndex = out\<rparr>)"

definition outPointsEqual :: "OutPoint \<Rightarrow> OutPoint \<Rightarrow> bool" where
  "outPointsEqual a b = (if OpHash a \<noteq> OpHash b then False else OpIndex a = OpIndex b)"

definition wf_op :: "OutPoint \<Rightarrow> bool" where
  "wf_op op \<longleftrightarrow> length (OpHash op) = 32"

lemma outPointsEqual_eq [simp]: "outPointsEqual a b \<longleftrightarrow> a = b"
  by (cases a; cases b) (simp add: outPointsEqual_def)

lemma uint32_bound: "uint (w :: 32 word) < 4294967296"
  using uint_lt2p [of w] by simp

text \<open>What btcd documents of \<open>Hash.String\<close> and \<open>NewHashFromStr\<close>: a hash is printed without a colon and
  parses back; what parses is a hash.\<close>

locale hash_codec =
  fixes H :: hash_lib
  assumes parse_print: "length h = 32 \<Longrightarrow> NewHashFromStr H (HashString H h) = Inr h"
    and no_colon: "CHR '':'' \<notin> set (HashString H h)"
    and parse_length: "NewHashFromStr H s = Inr h \<Longrightarrow> length h = 32"
begin

lemma outpoint_parse_print: "wf_op op \<Longrightarrow> NewOutPointFromString H (OutPoint_String H op) = Inr op"
  by (cases op)
    (simp add: wf_op_def OutPoint_String_def NewOutPointFromString_def
      Split_colon_Itoa [OF no_colon, simplified] parse_print ParseUint32_Itoa uint32_bound)

lemma OutPoint_String_eq:
  "wf_op a \<Longrightarrow> wf_op b \<Longrightarrow> OutPoint_String H a = OutPoint_String H b \<longleftrightarrow> a = b"
  using outpoint_parse_print by (metis sum.inject(2))

lemma HashString_eq: "length a = 32 \<Longrightarrow> length b = 32 \<Longrightarrow> HashString H a = HashString H b \<longleftrightarrow> a = b"
  using parse_print by (metis sum.inject(2))

lemma NewOutPoint_wf: "NewOutPoint H txid out = Inr op \<Longrightarrow> wf_op op \<and> OpIndex op = out"
  by (auto simp: NewOutPoint_def thenR_eq_Inr wf_op_def parse_length)

lemma NewOutPointFromString_wf: "NewOutPointFromString H s = Inr op \<Longrightarrow> wf_op op"
  by (cases "ParseUint32 (Split (CHR '':'') s ! 1)")
    (auto simp: NewOutPointFromString_def thenR_eq_Inr wf_op_def parse_length Let_def
      split: if_splits)

end

text \<open>The codec of \<open>chainhash\<close>: the hex digits of the reversed bytes; parsing pads short strings.\<close>

definition chainhash_lib :: hash_lib where
  "chainhash_lib = \<lparr>HashString = (\<lambda>h. EncodeToString (rev h)),
     NewHashFromStr = (\<lambda>s. if 64 < length s then Inl (Err ''max hash string length is 64 bytes'')
       else thenR (DecodeString ((if even (length s) then [] else ''0'') @ s))
         (\<lambda>bs. Inr (rev bs @ replicate (32 - length bs) 0)))\<rparr>"

lemma hextable_no_colon: "i < 16 \<Longrightarrow> hextable ! i \<noteq> CHR '':''"
  using fromHexChar_hextable [of i] by (auto simp: fromHexChar_def)

lemma EncodeToString_no_colon: "CHR '':'' \<notin> set (EncodeToString bs)"
proof (induction bs)
  case (Cons b bs)
  have "unat b div 16 < 16" "unat b mod 16 < 16"
    using unsigned_less [of b, where 'a = nat] by simp_all
  then show ?case
    using Cons hextable_no_colon [of "unat b div 16"] hextable_no_colon [of "unat b mod 16"] by simp
qed simp

interpretation chainhash: hash_codec chainhash_lib
proof unfold_locales
  fix s h
  assume "NewHashFromStr chainhash_lib s = Inr h"
  then obtain bs where bs: "length s \<le> 64" "h = rev bs @ replicate (32 - length bs) 0"
    "DecodeString ((if even (length s) then [] else ''0'') @ s) = Inr bs"
    by (auto simp: chainhash_lib_def thenR_eq_Inr split: if_splits)
  have "2 * length bs = length ((if even (length s) then [] else ''0'') @ s)"
    using length_DecodeString [OF bs(3)] by simp
  then have "length bs \<le> 32"
    using bs(1) by (auto split: if_splits elim: oddE)
  then show "length h = 32"
    by (simp add: bs(2))
qed (simp_all add: chainhash_lib_def EncodeToString_no_colon)

text \<open>An outpoint is stored as the string \<open>hash:index\<close>, which parses back to it; so the string
  identifies the outpoint, and it can be the key of a coin in the database.\<close>

theorem outpoint_roundtrip:
  assumes "hash_codec H" and "wf_op op"
  shows "NewOutPointFromString H (OutPoint_String H op) = Inr op \<and>
    (\<forall>op'. wf_op op' \<longrightarrow> OutPoint_String H op' = OutPoint_String H op \<longrightarrow> op' = op)"
  using assms by (auto simp: hash_codec.outpoint_parse_print hash_codec.OutPoint_String_eq)

definition ex_op :: OutPoint where
  "ex_op = \<lparr>OpHash = replicate 31 7 @ [171], OpIndex = 3\<rparr>"

theorem outpoint_roundtrip_witness:
  "NewOutPointFromString chainhash_lib (OutPoint_String chainhash_lib ex_op) = Inr ex_op"
  using outpoint_roundtrip [OF chainhash.hash_codec_axioms, of ex_op] by (simp add: ex_op_def wf_op_def)

section \<open>Coins of the wallet\<close>

record Utxo =
  Op :: OutPoint
  AtHeight :: int
  UValue :: int
  ScriptPubkey :: bytes
  WatchOnly :: bool
  Frozen :: bool

text \<open>\<open>IsEqual\<close> compares pointers' targets; a nil argument equals a nil receiver only.\<close>

definition Utxo_IsEqual :: "Utxo \<Rightarrow> Utxo \<Rightarrow> bool" where
  "Utxo_IsEqual utxo alt =
     (if OpHash (Op utxo) \<noteq> OpHash (Op alt) then False
      else if OpIndex (Op utxo) \<noteq> OpIndex (Op alt) then False
      else if AtHeight utxo \<noteq> AtHeight alt then False
      else if UValue utxo \<noteq> UValue alt then False
      else if ScriptPubkey utxo \<noteq> ScriptPubkey alt then False
      else True)"

record Stxo =
  SUtxo :: Utxo
  SpendHeight :: int
  SpendTxid :: hash

definition Stxo_IsEqual :: "Stxo \<Rightarrow> Stxo \<Rightarrow> bool" where
  "Stxo_IsEqual stxo alt =
     (if \<not> Utxo_IsEqual (SUtxo stxo) (SUtxo alt) then False
      else if SpendHeight stxo \<noteq> SpendHeight alt then False
      else if SpendTxid stxo \<noteq> SpendTxid alt then False
      else True)"

text \<open>A \<open>time.Time\<close> is its number of nanoseconds since 1970.  The fields of \<open>Txn\<close> the datastores never
  fill (confirmations, status, addresses, outputs) are left out.\<close>

record Txn =
  Txid :: string
  TValue :: int
  Height :: int
  Timestamp :: int
  TWatchOnly :: bool
  Bytes :: bytes

type_synonym KeyChange = int

definition EXTERNAL :: KeyChange where
  "EXTERNAL = 0"

definition INTERNAL :: KeyChange where
  "INTERNAL = 1"

record KeyPath =
  Change :: KeyChange
  Index :: int

record Subscription =
  PkScript :: string
  ElectrumScripthash :: string
  Address :: string

definition Subscription_IsEqual :: "Subscription \<Rightarrow> Subscription \<Rightarrow> bool" where
  "Subscription_IsEqual s alt =
     (if PkScript alt \<noteq> PkScript s then False
      else if ElectrumScripthash alt \<noteq> ElectrumScripthash s then False
      else if Address alt \<noteq> Address s then False
      else True)"

lemma Utxo_IsEqual_iff: "Utxo_IsEqual u v \<longleftrightarrow> v = u\<lparr>WatchOnly := WatchOnly v, Frozen := Frozen v\<rparr>"
  by (cases u; cases v) (auto simp: Utxo_IsEqual_def)

lemma Subscription_IsEqual_eq: "Subscription_IsEqual s t \<longleftrightarrow> s = t"
  by (cases s; cases t) (auto simp: Subscription_IsEqual_def)

definition wf_utxo :: "Utxo \<Rightarrow> bool" where
  "wf_utxo u \<longleftrightarrow> wf_op (Op u)"

definition wf_stxo :: "Stxo \<Rightarrow> bool" where
  "wf_stxo s \<longleftrightarrow> wf_utxo (SUtxo s) \<and> length (SpendTxid s) = 32"

section \<open>The datastore interfaces\<close>

text \<open>A Go interface value is the record of its methods; all of them work on the one database \<open>'ds\<close>.\<close>

record 'ds Utxos =
  U_Put :: "Utxo \<Rightarrow> 'ds \<Rightarrow> 'ds \<times> unit result"
  U_GetAll :: "'ds \<Rightarrow> Utxo list result"
  U_SetWatchOnly :: "Utxo \<Rightarrow> 'ds \<Rightarrow> 'ds \<times> unit result"
  U_Freeze :: "Utxo \<Rightarrow> 'ds \<Rightarrow> 'ds \<times> unit result"
  U_UnFreeze :: "Utxo \<Rightarrow> 'ds \<Rightarrow> 'ds \<times> unit result"
  U_Delete :: "Utxo \<Rightarrow> 'ds \<Rightarrow> 'ds \<times> unit result"

record 'ds Stxos =
  S_Put :: "Stxo \<Rightarrow> 'ds \<Rightarrow> 'ds \<times> unit result"
  S_GetAll :: "'ds \<Rightarrow> Stxo list result"
  S_Delete :: "Stxo \<Rightarrow> 'ds \<Rightarrow> 'ds \<times> unit result"

record 'ds Txns =
  T_Put :: "bytes \<Rightarrow> string \<Rightarrow> int \<Rightarrow> int \<Rightarrow> int \<Rightarrow> bool \<Rightarrow> 'ds \<Rightarrow> 'ds \<times> unit result"
  T_Get :: "string \<Rightarrow> 'ds \<Rightarrow> Txn result"
  T_GetAll :: "bool \<Rightarrow> 'ds \<Rightarrow> Txn list result"
  T_UpdateHeight :: "string \<Rightarrow> int \<Rightarrow> int \<Rightarrow> 'ds \<Rightarrow> 'ds \<times> unit result"
  T_Delete :: "string \<Rightarrow> 'ds \<Rightarrow> 'ds \<times> unit result"

record 'ds Keys =
  K_Put :: "bytes \<Rightarrow> KeyPath \<Rightarrow> 'ds \<Rightarrow> 'ds \<times> unit result"
  K_MarkKeyAsUsed :: "bytes \<Rightarrow> 'ds \<Rightarrow> 'ds \<times> unit result"
  K_GetLastKeyIndex :: "KeyChange \<Rightarrow> 'ds \<Rightarrow> (int \<times> bool) result"
  K_GetPathForKey :: "bytes \<Rightarrow> 'ds \<Rightarrow> KeyPath result"
  K_GetUnused :: "KeyChange \<Rightarrow> 'ds \<Rightarrow> int list result"
  K_GetAll :: "'ds \<Rightarrow> KeyPath list result"
  K_GetLookaheadWindows :: "'ds \<Rightarrow> (KeyChange \<rightharpoonup> int)"

record 'ds Subscriptions =
  Sub_Put :: "Subscription \<Rightarrow> 'ds \<Rightarrow> 'ds \<times> unit result"
  Sub_Get :: "string \<Rightarrow> 'ds \<Rightarrow> Subscription result"
  Sub_GetElectrumScripthash :: "string \<Rightarrow> 'ds \<Rightarrow> Subscription result"
  Sub_GetAll :: "'ds \<Rightarrow> Subscription list result"
  Sub_Delete :: "string \<Rightarrow> 'ds \<Rightarrow> 'ds \<times> unit result"

record 'ds Enc =
  PutEncrypted :: "bytes \<Rightarrow> string \<Rightarrow> 'ds \<Rightarrow> 'ds \<times> unit result"
  GetDecrypted :: "string \<Rightarrow> 'ds \<Rightarrow> bytes result"

record 'ds Cfg =
  PutCreationDate :: "int \<Rightarrow> 'ds \<Rightarrow> 'ds \<times> unit result"
  GetCreationDate :: "'ds \<Rightarrow> int result"

record 'ds Datastore =
  DS_Cfg :: "'ds Cfg"
  DS_Enc :: "'ds Enc"
  DS_Utxos :: "'ds Utxos"
  DS_Stxos :: "'ds Stxos"
  DS_Txns :: "'ds Txns"
  DS_Keys :: "'ds Keys"
  DS_Subscriptions :: "'ds Subscriptions"

end
