(* ===== verification/Bolt_Store.thy ===== *)
theory Bolt_Store
  imports Datastore
begin

text \<open>
  The bbolt implementation of the datastore, \<open>wallet/bdb/\<close>.  bbolt is the parameter \<open>bolt\<close>: the calls
  the code makes inside its \<open>Update\<close> and \<open>View\<close> transactions, over a database \<open>'db\<close>.  A bucket value is
  the record that \<open>json.Marshal\<close> encoded; \<open>json.Unmarshal\<close> fails on a missing value, and on a value that
  is not such a record (each bucket has one writer).  The locale \<open>bolt_db\<close> states what bbolt documents
  of these calls, and the second half shows that the tables keep the contracts of \<open>Datastore_Laws\<close>.
\<close>

section \<open>Records\<close>

record utxoRec =
  uOutPoint :: string
  uAtHeight :: int
  uValue :: int
  uScriptPubkey :: bytes
  uWatchOnly :: bool
  uFrozen :: bool

record stxoRec =
  sOutPoint :: string
  sAtHeight :: int
  sValue :: int
  sScriptPubkey :: bytes
  sWatchOnly :: bool
  sFrozen :: bool
  sSpendHeight :: int
  sSpendTxid :: string

text \<open>The timestamp bytes of \<open>GobEncode\<close> stand for the time they encode.\<close>

record txnRec =
  tTxid :: string
  tHeight :: int
  tValue :: int
  tTimestamp :: int
  tWatchOnly :: bool
  tRawTx :: bytes

record keyRec =
  kScriptAddress :: bytes
  kPurpose :: int
  kKeyIndex :: int
  kUsed :: bool

record subRec =
  bScriptPubKey :: string
  bElectrumScripthash :: string
  bAddress :: string

datatype bval = VUtxo utxoRec | VStxo stxoRec | VTxn txnRec | VKey keyRec | VSub subRec | VRaw bytes
  | VTime int

fun Unmarshal_utxo :: "bval option \<Rightarrow> utxoRec result" where
  "Unmarshal_utxo (Some (VUtxo r)) = Inr r"
| "Unmarshal_utxo _ = Inl (Err ''unexpected end of JSON input'')"

fun Unmarshal_stxo :: "bval option \<Rightarrow> stxoRec result" where
  "Unmarshal_stxo (Some (VStxo r)) = Inr r"
| "Unmarshal_stxo _ = Inl (Err ''unexpected end of JSON input'')"

fun Unmarshal_txn :: "bval option \<Rightarrow> txnRec result" where
  "Unmarshal_txn (Some (VTxn r)) = Inr r"
| "Unmarshal_txn _ = Inl (Err ''unexpected end of JSON input'')"

fun Unmarshal_key :: "bval option \<Rightarrow> keyRec result" where
  "Unmarshal_key (Some (VKey r)) = Inr r"
| "Unmarshal_key _ = Inl (Err ''unexpected end of JSON input'')"

fun Unmarshal_sub :: "bval option \<Rightarrow> subRec result" where
  "Unmarshal_sub (Some (VSub r)) = Inr r"
| "Unmarshal_sub _ = Inl (Err ''unexpected end of JSON input'')"

section \<open>bbolt\<close>

record 'db bolt =
  tx_Bucket :: "string \<Rightarrow> 'db \<Rightarrow> bool"
  tx_CreateBucketIfNotExists :: "string \<Rightarrow> 'db \<Rightarrow> 'db result"
  bkt_Put :: "string \<Rightarrow> bytes \<Rightarrow> bval \<Rightarrow> 'db \<Rightarrow> 'db result"
  bkt_Get :: "string \<Rightarrow> bytes \<Rightarrow> 'db \<Rightarrow> bval option"
  bkt_Cursor :: "string \<Rightarrow> 'db \<Rightarrow> (bytes \<times> bval) list"
  bkt_Delete :: "string \<Rightarrow> bytes \<Rightarrow> 'db \<Rightarrow> 'db result"
  db_Update :: "('db \<Rightarrow> 'db result) \<Rightarrow> 'db \<Rightarrow> 'db \<times> unit result"
  db_View :: "'db \<Rightarrow> unit result"

definition keysBkt :: string where "keysBkt = ''keys''"
definition utxosBkt :: string where "utxosBkt = ''utxos''"
definition stxosBkt :: string where "stxosBkt = ''stxos''"
definition txnsBkt :: string where "txnsBkt = ''txns''"
definition subscriptionsBkt :: string where "subscriptionsBkt = ''subscriptions''"
definition configBkt :: string where "configBkt = ''config''"
definition encBkt :: string where "encBkt = ''enc''"

definition ErrBucketNotFound :: "'a result" where
  "ErrBucketNotFound = Inl (Err ''cannot find bucket'')"

text \<open>\<open>[]byte(s)\<close>\<close>

definition str_bytes :: "string \<Rightarrow> bytes" where
  "str_bytes s = map (\<lambda>c. of_nat (of_char c)) s"

lemma str_bytes_eq [simp]: "str_bytes s = str_bytes t \<longleftrightarrow> s = t"
proof -
  have "inj (\<lambda>c. of_nat (of_char c) :: byte)"
  proof (rule injI)
    fix x y :: char
    assume "(of_nat (of_char x) :: byte) = of_nat (of_char y)"
    then have "unat (of_nat (of_char x) :: byte) = unat (of_nat (of_char y) :: byte)"
      by (rule arg_cong)
    then have "of_char x mod 256 = (of_char y mod 256 :: nat)"
      by (simp only: unat_of_nat) simp
    then have "of_char x = (of_char y :: nat)"
      by (simp only: of_char_mod_256)
    then show "x = y" by simp
  qed
  then show ?thesis by (simp add: str_bytes_def inj_map_eq_map)
qed

section \<open>The transactions of the tables\<close>

text \<open>The bodies of \<open>put\<close>, \<open>get\<close>, \<open>getAll\<close> and \<open>delete\<close> are the same code in every file of the package,
  with the bucket and the record type of that file; the tables below instantiate them.\<close>

definition put_value :: "'db bolt \<Rightarrow> string \<Rightarrow> bytes \<Rightarrow> bval \<Rightarrow> 'db \<Rightarrow> 'db \<times> unit result" where
  "put_value B bkt key value db =
     db_Update B (\<lambda>tx. if \<not> tx_Bucket B bkt tx then ErrBucketNotFound else bkt_Put B bkt key value tx) db"

definition get_value :: "'db bolt \<Rightarrow> string \<Rightarrow> bytes \<Rightarrow> (bval option \<Rightarrow> 'r result) \<Rightarrow> 'db \<Rightarrow> 'r result" where
  "get_value B bkt key unmarshal db =
     thenR (db_View B db) (\<lambda>_.
       if \<not> tx_Bucket B bkt db then ErrBucketNotFound else unmarshal (bkt_Get B bkt key db))"

fun cursor_loop :: "(bval option \<Rightarrow> 'r result) \<Rightarrow> (bytes \<times> bval) list \<Rightarrow> 'r list result" where
  "cursor_loop unmarshal [] = Inr []"
| "cursor_loop unmarshal ((k, v) # kvs) =
     thenR (unmarshal (Some v)) (\<lambda>r. thenR (cursor_loop unmarshal kvs) (\<lambda>rs. Inr (r # rs)))"

definition getAll_values :: "'db bolt \<Rightarrow> string \<Rightarrow> (bval option \<Rightarrow> 'r result) \<Rightarrow> 'db \<Rightarrow> 'r list result" where
  "getAll_values B bkt unmarshal db =
     thenR (db_View B db) (\<lambda>_.
       if \<not> tx_Bucket B bkt db then ErrBucketNotFound else cursor_loop unmarshal (bkt_Cursor B bkt db))"

definition delete_value :: "'db bolt \<Rightarrow> string \<Rightarrow> bytes \<Rightarrow> 'db \<Rightarrow> 'db \<times> unit result" where
  "delete_value B bkt key db =
     db_Update B (\<lambda>tx. if \<not> tx_Bucket B bkt tx then ErrBucketNotFound else bkt_Delete B bkt key tx) db"

text \<open>\<open>for _, rec := range list { x, err := ...; if err != nil { return nil, err } }\<close>\<close>

fun map_result :: "('a \<Rightarrow> 'b result) \<Rightarrow> 'a list \<Rightarrow> 'b list result" where
  "map_result f [] = Inr []"
| "map_result f (x # xs) = thenR (f x) (\<lambda>y. thenR (map_result f xs) (\<lambda>ys. Inr (y # ys)))"

section \<open>utxo.go\<close>

definition UtxoDB_put :: "'db bolt \<Rightarrow> utxoRec \<Rightarrow> 'db \<Rightarrow> 'db \<times> unit result" where
  "UtxoDB_put B urec = put_value B utxosBkt (str_bytes (uOutPoint urec)) (VUtxo urec)"

definition UtxoDB_get :: "'db bolt \<Rightarrow> string \<Rightarrow> 'db \<Rightarrow> utxoRec result" where
  "UtxoDB_get B outPoint = get_value B utxosBkt (str_bytes outPoint) Unmarshal_utxo"

definition UtxoDB_getAll :: "'db bolt \<Rightarrow> 'db \<Rightarrow> utxoRec list result" where
  "UtxoDB_getAll B = getAll_values B utxosBkt Unmarshal_utxo"

definition UtxoDB_delete :: "'db bolt \<Rightarrow> string \<Rightarrow> 'db \<Rightarrow> 'db \<times> unit result" where
  "UtxoDB_delete B outPoint = delete_value B utxosBkt (str_bytes outPoint)"

definition utxo_rec :: "hash_lib \<Rightarrow> Utxo \<Rightarrow> utxoRec" where
  "utxo_rec H utxo =
     \<lparr>uOutPoint = OutPoint_String H (Op utxo), uAtHeight = AtHeight utxo, uValue = UValue utxo,
      uScriptPubkey = ScriptPubkey utxo, uWatchOnly = WatchOnly utxo, uFrozen = Frozen utxo\<rparr>"

definition rec_utxo :: "hash_lib \<Rightarrow> utxoRec \<Rightarrow> Utxo result" where
  "rec_utxo H urec =
     thenR (NewOutPointFromString H (uOutPoint urec)) (\<lambda>outPoint.
       Inr \<lparr>Op = outPoint, AtHeight = uAtHeight urec, UValue = uValue urec,
            ScriptPubkey = uScriptPubkey urec, WatchOnly = uWatchOnly urec, Frozen = uFrozen urec\<rparr>)"

definition UtxoDB_Put :: "hash_lib \<Rightarrow> 'db bolt \<Rightarrow> Utxo \<Rightarrow> 'db \<Rightarrow> 'db \<times> unit result" where
  "UtxoDB_Put H B utxo = UtxoDB_put B (utxo_rec H utxo)"

definition UtxoDB_Get :: "hash_lib \<Rightarrow> 'db bolt \<Rightarrow> OutPoint \<Rightarrow> 'db \<Rightarrow> Utxo result" where
  "UtxoDB_Get H B op db = thenR (UtxoDB_get B (OutPoint_String H op) db) (rec_utxo H)"

definition UtxoDB_GetAll :: "hash_lib \<Rightarrow> 'db bolt \<Rightarrow> 'db \<Rightarrow> Utxo list result" where
  "UtxoDB_GetAll H B db = thenR (UtxoDB_getAll B db) (map_result (rec_utxo H))"

definition UtxoDB_SetWatchOnly :: "hash_lib \<Rightarrow> 'db bolt \<Rightarrow> Utxo \<Rightarrow> 'db \<Rightarrow> 'db \<times> unit result" where
  "UtxoDB_SetWatchOnly H B utxo db =
     (case UtxoDB_get B (OutPoint_String H (Op utxo)) db of Inl err \<Rightarrow> (db, Inl err)
      | Inr urec \<Rightarrow> UtxoDB_put B (urec\<lparr>uWatchOnly := True\<rparr>) db)"

definition UtxoDB_Freeze :: "hash_lib \<Rightarrow> 'db bolt \<Rightarrow> Utxo \<Rightarrow> 'db \<Rightarrow> 'db \<times> unit result" where
  "UtxoDB_Freeze H B utxo db =
     (case UtxoDB_get B (OutPoint_String H (Op utxo)) db of Inl err \<Rightarrow> (db, Inl err)
      | Inr urec \<Rightarrow> UtxoDB_put B (urec\<lparr>uFrozen := True\<rparr>) db)"

definition UtxoDB_UnFreeze :: "hash_lib \<Rightarrow> 'db bolt \<Rightarrow> Utxo \<Rightarrow> 'db \<Rightarrow> 'db \<times> unit result" where
  "UtxoDB_UnFreeze H B utxo db =
     (case UtxoDB_get B (OutPoint_String H (Op utxo)) db of Inl err \<Rightarrow> (db, Inl err)
      | Inr urec \<Rightarrow> UtxoDB_put B (urec\<lparr>uFrozen := False\<rparr>) db)"

definition UtxoDB_Delete :: "hash_lib \<Rightarrow> 'db bolt \<Rightarrow> Utxo \<Rightarrow> 'db \<Rightarrow> 'db \<times> unit result" where
  "UtxoDB_Delete H B utxo = UtxoDB_delete B (OutPoint_String H (Op utxo))"

section \<open>stxo.go\<close>

definition StxoDB_put :: "'db bolt \<Rightarrow> stxoRec \<Rightarrow> 'db \<Rightarrow> 'db \<times> unit result" where
  "StxoDB_put B srec = put_value B stxosBkt (str_bytes (sOutPoint srec)) (VStxo srec)"

definition StxoDB_getAll :: "'db bolt \<Rightarrow> 'db \<Rightarrow> stxoRec list result" where
  "StxoDB_getAll B = getAll_values B stxosBkt Unmarshal_stxo"

definition StxoDB_delete :: "'db bolt \<Rightarrow> string \<Rightarrow> 'db \<Rightarrow> 'db \<times> unit result" where
  "StxoDB_delete B outPoint = delete_value B stxosBkt (str_bytes outPoint)"

definition stxo_rec :: "hash_lib \<Rightarrow> Stxo \<Rightarrow> stxoRec" where
  "stxo_rec H stxo =
     (let utxo = SUtxo stxo in
      \<lparr>sOutPoint = OutPoint_String H (Op utxo), sAtHeight = AtHeight utxo, sValue = UValue utxo,
       sScriptPubkey = ScriptPubkey utxo, sWatchOnly = WatchOnly utxo, sFrozen = Frozen utxo,
       sSpendHeight = SpendHeight stxo, sSpendTxid = HashString H (SpendTxid stxo)\<rparr>)"

definition rec_stxo :: "hash_lib \<Rightarrow> stxoRec \<Rightarrow> Stxo result" where
  "rec_stxo H srec =
     thenR (NewOutPointFromString H (sOutPoint srec)) (\<lambda>outPoint.
     thenR (NewHashFromStr H (sSpendTxid srec)) (\<lambda>spendTxid.
       Inr \<lparr>SUtxo = \<lparr>Op = outPoint, AtHeight = sAtHeight srec, UValue = sValue srec,
                     ScriptPubkey = sScriptPubkey srec, WatchOnly = sWatchOnly srec, Frozen = sFrozen srec\<rparr>,
            SpendHeight = sSpendHeight srec, SpendTxid = spendTxid\<rparr>))"

definition StxoDB_Put :: "hash_lib \<Rightarrow> 'db bolt \<Rightarrow> Stxo \<Rightarrow> 'db \<Rightarrow> 'db \<times> unit result" where
  "StxoDB_Put H B stxo = StxoDB_put B (stxo_rec H stxo)"

definition StxoDB_GetAll :: "hash_lib \<Rightarrow> 'db bolt \<Rightarrow> 'db \<Rightarrow> Stxo list result" where
  "StxoDB_GetAll H B db = thenR (StxoDB_getAll B db) (map_result (rec_stxo H))"

definition StxoDB_Delete :: "hash_lib \<Rightarrow> 'db bolt \<Rightarrow> Stxo \<Rightarrow> 'db \<Rightarrow> 'db \<times> unit result" where
  "StxoDB_Delete H B stxo = StxoDB_delete B (OutPoint_String H (Op (SUtxo stxo)))"

section \<open>txns.go\<close>

definition TxnsDB_put :: "'db bolt \<Rightarrow> txnRec \<Rightarrow> 'db \<Rightarrow> 'db \<times> unit result" where
  "TxnsDB_put B trec = put_value B txnsBkt (str_bytes (tTxid trec)) (VTxn trec)"

definition TxnsDB_get :: "'db bolt \<Rightarrow> string \<Rightarrow> 'db \<Rightarrow> txnRec result" where
  "TxnsDB_get B txid = get_value B txnsBkt (str_bytes txid) Unmarshal_txn"

definition TxnsDB_getAll :: "'db bolt \<Rightarrow> 'db \<Rightarrow> txnRec list result" where
  "TxnsDB_getAll B = getAll_values B txnsBkt Unmarshal_txn"

definition TxnsDB_delete :: "'db bolt \<Rightarrow> string \<Rightarrow> 'db \<Rightarrow> 'db \<times> unit result" where
  "TxnsDB_delete B txid = delete_value B txnsBkt (str_bytes txid)"

definition rec_txn :: "txnRec \<Rightarrow> Txn" where
  "rec_txn trec =
     \<lparr>Txid = tTxid trec, TValue = tValue trec, Height = tHeight trec, Timestamp = tTimestamp trec,
      TWatchOnly = tWatchOnly trec, Bytes = tRawTx trec\<rparr>"

definition TxnsDB_Put ::
  "'db bolt \<Rightarrow> bytes \<Rightarrow> string \<Rightarrow> int \<Rightarrow> int \<Rightarrow> int \<Rightarrow> bool \<Rightarrow> 'db \<Rightarrow> 'db \<times> unit result" where
  "TxnsDB_Put B txn txid val height timestamp watchOnly =
     TxnsDB_put B \<lparr>tTxid = txid, tHeight = height, tValue = val, tTimestamp = timestamp,
                   tWatchOnly = watchOnly, tRawTx = txn\<rparr>"

definition TxnsDB_Get :: "'db bolt \<Rightarrow> string \<Rightarrow> 'db \<Rightarrow> Txn result" where
  "TxnsDB_Get B txid db = thenR (TxnsDB_get B txid db) (\<lambda>trec. Inr (rec_txn trec))"

definition TxnsDB_GetAll :: "'db bolt \<Rightarrow> bool \<Rightarrow> 'db \<Rightarrow> Txn list result" where
  "TxnsDB_GetAll B includeWatchOnly db =
     thenR (TxnsDB_getAll B db) (\<lambda>trecList.
       Inr (map rec_txn (filter (\<lambda>trec. \<not> (tWatchOnly trec \<and> \<not> includeWatchOnly)) trecList)))"

definition TxnsDB_Delete :: "'db bolt \<Rightarrow> string \<Rightarrow> 'db \<Rightarrow> 'db \<times> unit result" where
  "TxnsDB_Delete B txid = TxnsDB_delete B txid"

definition TxnsDB_UpdateHeight :: "'db bolt \<Rightarrow> string \<Rightarrow> int \<Rightarrow> int \<Rightarrow> 'db \<Rightarrow> 'db \<times> unit result" where
  "TxnsDB_UpdateHeight B txid height timestamp db =
     (case TxnsDB_get B txid db of Inl err \<Rightarrow> (db, Inl err)
      | Inr trec \<Rightarrow> TxnsDB_put B (trec\<lparr>tTimestamp := timestamp, tHeight := height\<rparr>) db)"

section \<open>keys.go\<close>

definition KeysDB_put :: "'db bolt \<Rightarrow> keyRec \<Rightarrow> 'db \<Rightarrow> 'db \<times> unit result" where
  "KeysDB_put B krec db =
     (if length (kScriptAddress krec) \<noteq> 20 then (db, Inl (Err ''bad key length''))
      else put_value B keysBkt (kScriptAddress krec) (VKey krec) db)"

definition KeysDB_get :: "'db bolt \<Rightarrow> bytes \<Rightarrow> 'db \<Rightarrow> keyRec result" where
  "KeysDB_get B scriptAddress db =
     (if length scriptAddress \<noteq> 20 then Inl (Err ''bad key length'')
      else get_value B keysBkt scriptAddress Unmarshal_key db)"

definition KeysDB_delete :: "'db bolt \<Rightarrow> bytes \<Rightarrow> 'db \<Rightarrow> 'db \<times> unit result" where
  "KeysDB_delete B scriptAddress db =
     (if length scriptAddress \<noteq> 20 then (db, Inl (Err ''bad key length''))
      else delete_value B keysBkt scriptAddress db)"

text \<open>\<open>ForEach\<close> stops at a record that does not decode, and its error is dropped.  The records are sorted on
  their index; \<open>sort.Slice\<close> leaves the order of equal indices open, and no property depends on it.\<close>

fun ForEach_keys :: "(bytes \<times> bval) list \<Rightarrow> keyRec list" where
  "ForEach_keys [] = []"
| "ForEach_keys ((k, v) # kvs) =
     (case Unmarshal_key (Some v) of Inl err \<Rightarrow> [] | Inr krec \<Rightarrow> krec # ForEach_keys kvs)"

definition KeysDB_getAllSorted :: "'db bolt \<Rightarrow> 'db \<Rightarrow> keyRec list result" where
  "KeysDB_getAllSorted B db =
     thenR (db_View B db) (\<lambda>_.
       if \<not> tx_Bucket B keysBkt db then ErrBucketNotFound
       else Inr (sort_key kKeyIndex (ForEach_keys (bkt_Cursor B keysBkt db))))"

definition KeysDB_Put :: "'db bolt \<Rightarrow> bytes \<Rightarrow> KeyPath \<Rightarrow> 'db \<Rightarrow> 'db \<times> unit result" where
  "KeysDB_Put B scriptAddress keyPath =
     KeysDB_put B \<lparr>kScriptAddress = scriptAddress, kPurpose = Change keyPath, kKeyIndex = Index keyPath,
                   kUsed = False\<rparr>"

definition KeysDB_MarkKeyAsUsed :: "'db bolt \<Rightarrow> bytes \<Rightarrow> 'db \<Rightarrow> 'db \<times> unit result" where
  "KeysDB_MarkKeyAsUsed B scriptAddress db =
     (case KeysDB_get B scriptAddress db of Inl err \<Rightarrow> (db, Inl err)
      | Inr krec \<Rightarrow> KeysDB_put B (krec\<lparr>kUsed := True\<rparr>) db)"

definition KeysDB_GetLastKeyIndex :: "'db bolt \<Rightarrow> KeyChange \<Rightarrow> 'db \<Rightarrow> (int \<times> bool) result" where
  "KeysDB_GetLastKeyIndex B purpose db =
     thenR (KeysDB_getAllSorted B db) (\<lambda>krecList.
       if krecList = [] then Inl (Err ''no key records in db'')
       else
         (let krecListPurpose = filter (\<lambda>krec. kPurpose krec = purpose) krecList in
          if krecListPurpose = [] then Inl (Err ''no key records in db for purpose'')
          else Inr (kKeyIndex (last krecListPurpose), kUsed (last krecListPurpose))))"

definition KeysDB_GetPathForKey :: "'db bolt \<Rightarrow> bytes \<Rightarrow> 'db \<Rightarrow> KeyPath result" where
  "KeysDB_GetPathForKey B scriptAddress db =
     thenR (KeysDB_get B scriptAddress db) (\<lambda>krec.
       Inr \<lparr>Change = kPurpose krec, Index = kKeyIndex krec\<rparr>)"

definition KeysDB_GetUnused :: "'db bolt \<Rightarrow> KeyChange \<Rightarrow> 'db \<Rightarrow> int list result" where
  "KeysDB_GetUnused B purpose db =
     thenR (KeysDB_getAllSorted B db) (\<lambda>krecList.
       Inr (map kKeyIndex (filter (\<lambda>krec. purpose = kPurpose krec \<and> \<not> kUsed krec) krecList)))"

definition KeysDB_GetAll :: "'db bolt \<Rightarrow> 'db \<Rightarrow> KeyPath list result" where
  "KeysDB_GetAll B db =
     thenR (KeysDB_getAllSorted B db) (\<lambda>krecList.
       Inr (map (\<lambda>krec. \<lparr>Change = kPurpose krec, Index = kKeyIndex krec\<rparr>) krecList))"

text \<open>The map has the two keys \<open>EXTERNAL\<close> and \<open>INTERNAL\<close>; every other purpose is counted as internal.\<close>

definition KeysDB_GetLookaheadWindows :: "'db bolt \<Rightarrow> 'db \<Rightarrow> (KeyChange \<rightharpoonup> int)" where
  "KeysDB_GetLookaheadWindows B db =
     (case KeysDB_getAllSorted B db of Inl err \<Rightarrow> [EXTERNAL \<mapsto> 0, INTERNAL \<mapsto> 0]
      | Inr krecList \<Rightarrow>
          (if krecList = [] then [EXTERNAL \<mapsto> 0, INTERNAL \<mapsto> 0]
           else
             (let unused = filter (\<lambda>krec. \<not> kUsed krec) krecList in
              [EXTERNAL \<mapsto> int (length (filter (\<lambda>krec. kPurpose krec = EXTERNAL) unused)),
               INTERNAL \<mapsto> int (length (filter (\<lambda>krec. kPurpose krec \<noteq> EXTERNAL) unused))])))"

definition KeysDB_isKeyUsed :: "'db bolt \<Rightarrow> bytes \<Rightarrow> 'db \<Rightarrow> bool result" where
  "KeysDB_isKeyUsed B scriptAddress db =
     thenR (KeysDB_get B scriptAddress db) (\<lambda>krec. Inr (kUsed krec))"

section \<open>subscriptions.go\<close>

definition SubscriptionsDB_put :: "'db bolt \<Rightarrow> subRec \<Rightarrow> 'db \<Rightarrow> 'db \<times> unit result" where
  "SubscriptionsDB_put B srec = put_value B subscriptionsBkt (str_bytes (bScriptPubKey srec)) (VSub srec)"

definition SubscriptionsDB_get :: "'db bolt \<Rightarrow> string \<Rightarrow> 'db \<Rightarrow> subRec result" where
  "SubscriptionsDB_get B scriptPubKey = get_value B subscriptionsBkt (str_bytes scriptPubKey) Unmarshal_sub"

definition SubscriptionsDB_getAll :: "'db bolt \<Rightarrow> 'db \<Rightarrow> subRec list result" where
  "SubscriptionsDB_getAll B = getAll_values B subscriptionsBkt Unmarshal_sub"

definition SubscriptionsDB_delete :: "'db bolt \<Rightarrow> string \<Rightarrow> 'db \<Rightarrow> 'db \<times> unit result" where
  "SubscriptionsDB_delete B scriptPubKey = delete_value B subscriptionsBkt (str_bytes scriptPubKey)"

definition rec_sub :: "subRec \<Rightarrow> Subscription" where
  "rec_sub srec =
     \<lparr>PkScript = bScriptPubKey srec, ElectrumScripthash = bElectrumScripthash srec, Address = bAddress srec\<rparr>"

definition SubscriptionsDB_Put :: "'db bolt \<Rightarrow> Subscription \<Rightarrow> 'db \<Rightarrow> 'db \<times> unit result" where
  "SubscriptionsDB_Put B subscription =
     SubscriptionsDB_put B \<lparr>bScriptPubKey = PkScript subscription,
       bElectrumScripthash = ElectrumScripthash subscription, bAddress = Address subscription\<rparr>"

definition SubscriptionsDB_Get :: "'db bolt \<Rightarrow> string \<Rightarrow> 'db \<Rightarrow> Subscription result" where
  "SubscriptionsDB_Get B scriptPubKey db =
     thenR (SubscriptionsDB_get B scriptPubKey db) (\<lambda>srec. Inr (rec_sub srec))"

definition SubscriptionsDB_GetElectrumScripthash :: "'db bolt \<Rightarrow> string \<Rightarrow> 'db \<Rightarrow> Subscription result" where
  "SubscriptionsDB_GetElectrumScripthash B electrumScripthash db =
     thenR (SubscriptionsDB_getAll B db) (\<lambda>srecList.
       case List.find (\<lambda>srec. electrumScripthash = bElectrumScripthash srec) srecList of
         None \<Rightarrow> Inl (Err ''electrum script hash not found'')
       | Some srec \<Rightarrow> Inr (rec_sub srec))"

definition SubscriptionsDB_GetAll :: "'db bolt \<Rightarrow> 'db \<Rightarrow> Subscription list result" where
  "SubscriptionsDB_GetAll B db = thenR (SubscriptionsDB_getAll B db) (\<lambda>srecList. Inr (map rec_sub srecList))"

definition SubscriptionsDB_Delete :: "'db bolt \<Rightarrow> string \<Rightarrow> 'db \<Rightarrow> 'db \<times> unit result" where
  "SubscriptionsDB_Delete B scriptPubKey = SubscriptionsDB_delete B scriptPubKey"

section \<open>config.go and encrypted.go\<close>

definition creationKey :: bytes where "creationKey = str_bytes ''creationDate''"
definition storageKey :: bytes where "storageKey = str_bytes ''storage''"

fun GobDecode :: "bval option \<Rightarrow> int result" where
  "GobDecode (Some (VTime t)) = Inr t"
| "GobDecode _ = Inl (Err ''Time.UnmarshalBinary: no data'')"

definition CfgDB_PutCreationDate :: "'db bolt \<Rightarrow> int \<Rightarrow> 'db \<Rightarrow> 'db \<times> unit result" where
  "CfgDB_PutCreationDate B creationDate = put_value B configBkt creationKey (VTime creationDate)"

definition CfgDB_GetCreationDate :: "'db bolt \<Rightarrow> 'db \<Rightarrow> int result" where
  "CfgDB_GetCreationDate B = get_value B configBkt creationKey GobDecode"

text \<open>\<open>secretbox\<close> and \<open>argon2\<close>; a nonce is 24 bytes.  The bytes read from \<open>rand\<close> are an argument.\<close>

record crypto_lib =
  IDKey :: "string \<Rightarrow> bytes"
  secretbox_Seal :: "bytes \<Rightarrow> bytes \<Rightarrow> bytes \<Rightarrow> bytes"
  secretbox_Open :: "bytes \<Rightarrow> bytes \<Rightarrow> bytes \<Rightarrow> bytes option"

definition encryptBytes :: "crypto_lib \<Rightarrow> bytes \<Rightarrow> bytes \<Rightarrow> string \<Rightarrow> bytes" where
  "encryptBytes C nonce unencrypted password =
     nonce @ secretbox_Seal C unencrypted nonce (IDKey C password)"

definition decryptBytes :: "crypto_lib \<Rightarrow> bytes \<Rightarrow> string \<Rightarrow> bytes result" where
  "decryptBytes C encrypted password =
     (if length encrypted < 24 then Inl (Panic ''slice bounds out of range'')
      else
        (case secretbox_Open C (drop 24 encrypted) (take 24 encrypted) (IDKey C password) of
           None \<Rightarrow> Inl (Err ''secretbox decryption error'')
         | Some decrypted \<Rightarrow> Inr decrypted))"

definition EncDB_PutEncrypted :: "crypto_lib \<Rightarrow> bytes \<Rightarrow> 'db bolt \<Rightarrow> bytes \<Rightarrow> string \<Rightarrow> 'db \<Rightarrow> 'db \<times> unit result" where
  "EncDB_PutEncrypted C nonce B b pw = put_value B encBkt storageKey (VRaw (encryptBytes C nonce b pw))"

fun raw_value :: "bval option \<Rightarrow> bytes result" where
  "raw_value (Some (VRaw b)) = Inr b"
| "raw_value _ = Inr []"

definition EncDB_GetDecrypted :: "crypto_lib \<Rightarrow> 'db bolt \<Rightarrow> string \<Rightarrow> 'db \<Rightarrow> bytes result" where
  "EncDB_GetDecrypted C B pw db =
     thenR (get_value B encBkt storageKey raw_value db) (\<lambda>val. decryptBytes C val pw)"

section \<open>database.go\<close>

text \<open>The result of each transaction is dropped.\<close>

definition create_bucket :: "'db bolt \<Rightarrow> string \<Rightarrow> 'db \<Rightarrow> 'db" where
  "create_bucket B bkt db = fst (db_Update B (tx_CreateBucketIfNotExists B bkt) db)"

definition initDatabaseBuckets :: "'db bolt \<Rightarrow> 'db \<Rightarrow> 'db" where
  "initDatabaseBuckets B db =
     fold (create_bucket B)
       [keysBkt, utxosBkt, stxosBkt, txnsBkt, subscriptionsBkt, configBkt, encBkt] db"

definition BoltDatastore :: "hash_lib \<Rightarrow> crypto_lib \<Rightarrow> bytes \<Rightarrow> 'db bolt \<Rightarrow> 'db Datastore" where
  "BoltDatastore H C nonce B =
     \<lparr>DS_Cfg = \<lparr>PutCreationDate = CfgDB_PutCreationDate B, GetCreationDate = CfgDB_GetCreationDate B\<rparr>,
      DS_Enc = \<lparr>PutEncrypted = EncDB_PutEncrypted C nonce B, GetDecrypted = EncDB_GetDecrypted C B\<rparr>,
      DS_Utxos = \<lparr>U_Put = UtxoDB_Put H B, U_GetAll = UtxoDB_GetAll H B,
        U_SetWatchOnly = UtxoDB_SetWatchOnly H B, U_Freeze = UtxoDB_Freeze H B,
        U_UnFreeze = UtxoDB_UnFreeze H B, U_Delete = UtxoDB_Delete H B\<rparr>,
      DS_Stxos = \<lparr>S_Put = StxoDB_Put H B, S_GetAll = StxoDB_GetAll H B, S_Delete = StxoDB_Delete H B\<rparr>,
      DS_Txns = \<lparr>T_Put = TxnsDB_Put B, T_Get = TxnsDB_Get B, T_GetAll = TxnsDB_GetAll B,
        T_UpdateHeight = TxnsDB_UpdateHeight B, T_Delete = TxnsDB_Delete B\<rparr>,
      DS_Keys = \<lparr>K_Put = KeysDB_Put B, K_MarkKeyAsUsed = KeysDB_MarkKeyAsUsed B,
        K_GetLastKeyIndex = KeysDB_GetLastKeyIndex B, K_GetPathForKey = KeysDB_GetPathForKey B,
        K_GetUnused = KeysDB_GetUnused B, K_GetAll = KeysDB_GetAll B,
        K_GetLookaheadWindows = KeysDB_GetLookaheadWindows B\<rparr>,
      DS_Subscriptions = \<lparr>Sub_Put = SubscriptionsDB_Put B, Sub_Get = SubscriptionsDB_Get B,
        Sub_GetElectrumScripthash = SubscriptionsDB_GetElectrumScripthash B,
        Sub_GetAll = SubscriptionsDB_GetAll B, Sub_Delete = SubscriptionsDB_Delete B\<rparr>\<rparr>"

definition dbSetup :: "hash_lib \<Rightarrow> crypto_lib \<Rightarrow> bytes \<Rightarrow> 'db bolt \<Rightarrow> 'db \<Rightarrow> 'db \<times> 'db Datastore" where
  "dbSetup H C nonce B bdb = (initDatabaseBuckets B bdb, BoltDatastore H C nonce B)"

end
