(* ===== verification/Sqlite_Store.thy ===== *)
theory Sqlite_Store
  imports Bolt_Store
begin

text \<open>
  The sqlite datastore of \<open>wallet/db\<close>.  Sqlite and \<open>database/sql\<close> are a parameter: for each table
  the statements the code runs on it, with its conditions and assignments as functions on the rows.  Every
  column is written by these statements alone and with one type, so \<open>Scan\<close> of a column does not fail.
\<close>

section \<open>Rows and the database\<close>

record keysRow =
  k_scriptAddress :: string
  k_purpose :: int
  k_keyIndex :: int
  k_used :: int

record utxosRow =
  u_outpoint :: string
  u_value :: int
  u_height :: int
  u_scriptPubKey :: string
  u_watchOnly :: int
  u_frozen :: int

record stxosRow =
  s_outpoint :: string
  s_value :: int
  s_height :: int
  s_scriptPubKey :: string
  s_watchOnly :: int
  s_spendHeight :: int
  s_spendTxid :: string

record txnsRow =
  t_txid :: string
  t_value :: int
  t_height :: int
  t_timestamp :: int
  t_watchOnly :: int
  t_tx :: bytes

record subscriptionsRow =
  b_scriptPubKey :: string
  b_electrumScripthash :: string
  b_address :: string

text \<open>The one date in the table \<open>config\<close> is an RFC 3339 text without a fraction, given here by its second.\<close>

record configRow =
  g_key :: string
  g_value :: int

record encRow =
  e_key :: string
  e_value :: bytes

text \<open>\<open>insert or replace\<close>, \<open>insert\<close>, \<open>update\<close> and \<open>delete\<close> with the assignments and the condition, and two
  \<open>select\<close>s: the rows in an order that sqlite chooses, and in the order of their row ids.\<close>

record ('r, 'db) sql_table =
  sql_replace :: "'r \<Rightarrow> 'db \<Rightarrow> 'db result"
  sql_insert :: "'r \<Rightarrow> 'db \<Rightarrow> 'db result"
  sql_update :: "('r \<Rightarrow> bool) \<Rightarrow> ('r \<Rightarrow> 'r) \<Rightarrow> 'db \<Rightarrow> 'db result"
  sql_delete :: "('r \<Rightarrow> bool) \<Rightarrow> 'db \<Rightarrow> 'db result"
  sql_select :: "('r \<Rightarrow> bool) \<Rightarrow> 'db \<Rightarrow> 'r list result"
  sql_select_rowid :: "('r \<Rightarrow> bool) \<Rightarrow> 'db \<Rightarrow> 'r list result"

text \<open>\<open>sql_Commit S old new\<close> is what the database holds after the commit of a transaction that made \<open>new\<close>
  of \<open>old\<close>; its error is never looked at.\<close>

record 'db sqldb =
  sql_Begin :: "'db \<Rightarrow> unit result"
  sql_Prepare :: "'db \<Rightarrow> unit result"
  sql_Commit :: "'db \<Rightarrow> 'db \<Rightarrow> 'db"
  create_tables :: "'db \<Rightarrow> 'db result"
  keys_table :: "(keysRow, 'db) sql_table"
  utxos_table :: "(utxosRow, 'db) sql_table"
  stxos_table :: "(stxosRow, 'db) sql_table"
  txns_table :: "(txnsRow, 'db) sql_table"
  subscriptions_table :: "(subscriptionsRow, 'db) sql_table"
  config_table :: "(configRow, 'db) sql_table"
  enc_table :: "(encRow, 'db) sql_table"

section \<open>Running statements\<close>

text \<open>A statement of its own, and one in a transaction.  Where the code drops the error of \<open>Begin\<close> or \<open>Prepare\<close>
  the nil pointer is used.\<close>

definition sql_exec :: "('db \<Rightarrow> 'db result) \<Rightarrow> 'db \<Rightarrow> 'db \<times> unit result" where
  "sql_exec stmt db = (case stmt db of Inl err \<Rightarrow> (db, Inl err) | Inr db' \<Rightarrow> (db', Inr ()))"

definition sql_nil :: "'b result" where
  "sql_nil = Inl (Panic ''nil pointer dereference'')"

definition sql_tx :: "'db sqldb \<Rightarrow> bool \<Rightarrow> bool \<Rightarrow> ('db \<Rightarrow> 'db result) \<Rightarrow> 'db \<Rightarrow> 'db \<times> unit result" where
  "sql_tx S checkBegin checkPrepare stmt db =
     (case sql_Begin S db of
        Inl err \<Rightarrow> (db, if checkBegin then Inl err else sql_nil)
      | Inr _ \<Rightarrow>
          (case sql_Prepare S db of
             Inl err \<Rightarrow> (db, if checkPrepare then Inl err else sql_nil)
           | Inr _ \<Rightarrow>
               (case stmt db of
                  Inl err \<Rightarrow> (db, Inl err)
                | Inr db' \<Rightarrow> (sql_Commit S db db', Inr ()))))"

text \<open>\<open>QueryRow(...).Scan(...)\<close> takes the first row.\<close>

definition first_row :: "'r list result \<Rightarrow> 'r result" where
  "first_row rows = thenR rows (\<lambda>rs. case rs of [] \<Rightarrow> Inl (Err ''sql: no rows in result set'') | r # _ \<Rightarrow> Inr r)"

definition sql_row :: "'db sqldb \<Rightarrow> ('db \<Rightarrow> 'r list result) \<Rightarrow> 'db \<Rightarrow> 'r result" where
  "sql_row S query db = thenR (sql_Prepare S db) (\<lambda>_. first_row (query db))"

text \<open>A loop over the rows; \<open>None\<close> is \<open>continue\<close>.\<close>

fun scan_rows :: "('r \<Rightarrow> 'a option result) \<Rightarrow> 'r list \<Rightarrow> 'a list result" where
  "scan_rows f [] = Inr []"
| "scan_rows f (r # rs) =
     thenR (f r) (\<lambda>a. thenR (scan_rows f rs) (\<lambda>ret. Inr (case a of None \<Rightarrow> ret | Some x \<Rightarrow> x # ret)))"

definition sql_bit :: "bool \<Rightarrow> int" where
  "sql_bit b = (if b then 1 else 0)"

section \<open>utxo.go\<close>

definition utxo_row :: "hash_lib \<Rightarrow> Utxo \<Rightarrow> utxosRow" where
  "utxo_row H utxo =
     \<lparr>u_outpoint = OutPoint_String H (Op utxo), u_value = UValue utxo, u_height = AtHeight utxo,
      u_scriptPubKey = EncodeToString (ScriptPubkey utxo), u_watchOnly = sql_bit (WatchOnly utxo), u_frozen = sql_bit (Frozen utxo)\<rparr>"

definition UtxoDB_Put_sql :: "hash_lib \<Rightarrow> 'db sqldb \<Rightarrow> Utxo \<Rightarrow> 'db \<Rightarrow> 'db \<times> unit result" where
  "UtxoDB_Put_sql H S utxo = sql_tx S False True (sql_replace (utxos_table S) (utxo_row H utxo))"

definition row_utxo :: "hash_lib \<Rightarrow> utxosRow \<Rightarrow> Utxo option result" where
  "row_utxo H row =
     (let s = Split (CHR '':'') (u_outpoint row) in
      if length s < 2 then Inr None
      else
        (case NewHashFromStr H (s ! 0) of Inl err \<Rightarrow> Inr None
         | Inr shaHash \<Rightarrow>
             (case Atoi (s ! 1) of Inl err \<Rightarrow> Inr None
              | Inr index \<Rightarrow>
                  (case DecodeString (u_scriptPubKey row) of Inl err \<Rightarrow> Inr None
                   | Inr scriptBytes \<Rightarrow>
                       Inr (Some \<lparr>Op = \<lparr>OpHash = shaHash, OpIndex = of_int index\<rparr>, AtHeight = u_height row,
                         UValue = u_value row, ScriptPubkey = scriptBytes, WatchOnly = (u_watchOnly row = 1),
                         Frozen = (u_frozen row = 1)\<rparr>)))))"

definition UtxoDB_GetAll_sql :: "hash_lib \<Rightarrow> 'db sqldb \<Rightarrow> 'db \<Rightarrow> Utxo list result" where
  "UtxoDB_GetAll_sql H S db = thenR (sql_select (utxos_table S) (\<lambda>_. True) db) (scan_rows (row_utxo H))"

definition UtxoDB_SetWatchOnly_sql :: "hash_lib \<Rightarrow> 'db sqldb \<Rightarrow> Utxo \<Rightarrow> 'db \<Rightarrow> 'db \<times> unit result" where
  "UtxoDB_SetWatchOnly_sql H S utxo =
     sql_exec (sql_update (utxos_table S) (\<lambda>r. u_outpoint r = OutPoint_String H (Op utxo)) (\<lambda>r. r\<lparr>u_watchOnly := 1\<rparr>))"

definition UtxoDB_Freeze_sql :: "hash_lib \<Rightarrow> 'db sqldb \<Rightarrow> Utxo \<Rightarrow> 'db \<Rightarrow> 'db \<times> unit result" where
  "UtxoDB_Freeze_sql H S utxo =
     sql_exec (sql_update (utxos_table S) (\<lambda>r. u_outpoint r = OutPoint_String H (Op utxo)) (\<lambda>r. r\<lparr>u_frozen := 1\<rparr>))"

definition UtxoDB_UnFreeze_sql :: "hash_lib \<Rightarrow> 'db sqldb \<Rightarrow> Utxo \<Rightarrow> 'db \<Rightarrow> 'db \<times> unit result" where
  "UtxoDB_UnFreeze_sql H S utxo =
     sql_exec (sql_update (utxos_table S) (\<lambda>r. u_outpoint r = OutPoint_String H (Op utxo)) (\<lambda>r. r\<lparr>u_frozen := 0\<rparr>))"

definition UtxoDB_Delete_sql :: "hash_lib \<Rightarrow> 'db sqldb \<Rightarrow> Utxo \<Rightarrow> 'db \<Rightarrow> 'db \<times> unit result" where
  "UtxoDB_Delete_sql H S utxo = sql_exec (sql_delete (utxos_table S) (\<lambda>r. u_outpoint r = OutPoint_String H (Op utxo)))"

section \<open>stxo.go\<close>

text \<open>The table has no column for the frozen flag.\<close>

definition stxo_row :: "hash_lib \<Rightarrow> Stxo \<Rightarrow> stxosRow" where
  "stxo_row H stxo =
     (let utxo = SUtxo stxo in
      \<lparr>s_outpoint = OutPoint_String H (Op utxo), s_value = UValue utxo, s_height = AtHeight utxo,
       s_scriptPubKey = EncodeToString (ScriptPubkey utxo), s_watchOnly = sql_bit (WatchOnly utxo),
       s_spendHeight = SpendHeight stxo, s_spendTxid = HashString H (SpendTxid stxo)\<rparr>)"

definition StxoDB_Put_sql :: "hash_lib \<Rightarrow> 'db sqldb \<Rightarrow> Stxo \<Rightarrow> 'db \<Rightarrow> 'db \<times> unit result" where
  "StxoDB_Put_sql H S stxo = sql_tx S False True (sql_replace (stxos_table S) (stxo_row H stxo))"

text \<open>Here the number of parts is not looked at before the second one is used.\<close>

definition row_stxo :: "hash_lib \<Rightarrow> stxosRow \<Rightarrow> Stxo option result" where
  "row_stxo H row =
     (let s = Split (CHR '':'') (s_outpoint row) in
      case NewHashFromStr H (s ! 0) of Inl err \<Rightarrow> Inr None
      | Inr shaHash \<Rightarrow>
          if length s < 2 then Inl (Panic ''index out of range'')
          else
            (case Atoi (s ! 1) of Inl err \<Rightarrow> Inr None
             | Inr index \<Rightarrow>
                 (case NewHashFromStr H (s_spendTxid row) of Inl err \<Rightarrow> Inr None
                  | Inr spentHash \<Rightarrow>
                      (case DecodeString (s_scriptPubKey row) of Inl err \<Rightarrow> Inr None
                       | Inr scriptBytes \<Rightarrow>
                           Inr (Some \<lparr>SUtxo = \<lparr>Op = \<lparr>OpHash = shaHash, OpIndex = of_int index\<rparr>, AtHeight = s_height row,
                               UValue = s_value row, ScriptPubkey = scriptBytes, WatchOnly = (s_watchOnly row > 0),
                               Frozen = False\<rparr>,
                             SpendHeight = s_spendHeight row, SpendTxid = spentHash\<rparr>)))))"

definition StxoDB_GetAll_sql :: "hash_lib \<Rightarrow> 'db sqldb \<Rightarrow> 'db \<Rightarrow> Stxo list result" where
  "StxoDB_GetAll_sql H S db = thenR (sql_select (stxos_table S) (\<lambda>_. True) db) (scan_rows (row_stxo H))"

definition StxoDB_Delete_sql :: "hash_lib \<Rightarrow> 'db sqldb \<Rightarrow> Stxo \<Rightarrow> 'db \<Rightarrow> 'db \<times> unit result" where
  "StxoDB_Delete_sql H S stxo =
     sql_exec (sql_delete (stxos_table S) (\<lambda>r. s_outpoint r = OutPoint_String H (Op (SUtxo stxo))))"

section \<open>txns.go\<close>

text \<open>\<open>t.Unix()\<close> and \<open>time.Unix(s, 0)\<close>; a time is a number of nanoseconds.\<close>

definition Unix :: "int \<Rightarrow> int" where
  "Unix t = t div 10 ^ 9"

definition time_Unix :: "int \<Rightarrow> int" where
  "time_Unix s = s * 10 ^ 9"

definition TxnsDB_Put_sql ::
  "'db sqldb \<Rightarrow> bytes \<Rightarrow> string \<Rightarrow> int \<Rightarrow> int \<Rightarrow> int \<Rightarrow> bool \<Rightarrow> 'db \<Rightarrow> 'db \<times> unit result" where
  "TxnsDB_Put_sql S txn txid val height timestamp watchOnly =
     sql_tx S True True (sql_replace (txns_table S)
       \<lparr>t_txid = txid, t_value = val, t_height = height, t_timestamp = Unix timestamp, t_watchOnly = sql_bit watchOnly, t_tx = txn\<rparr>)"

definition row_txn :: "txnsRow \<Rightarrow> Txn" where
  "row_txn r =
     \<lparr>Txid = t_txid r, TValue = t_value r, Height = t_height r, Timestamp = time_Unix (t_timestamp r),
      TWatchOnly = (t_watchOnly r > 0), Bytes = t_tx r\<rparr>"

definition TxnsDB_Get_sql :: "'db sqldb \<Rightarrow> string \<Rightarrow> 'db \<Rightarrow> Txn result" where
  "TxnsDB_Get_sql S txid db =
     thenR (sql_row S (sql_select (txns_table S) (\<lambda>r. t_txid r = txid)) db) (\<lambda>r. Inr ((row_txn r)\<lparr>Txid := txid\<rparr>))"

definition TxnsDB_GetAll_sql :: "'db sqldb \<Rightarrow> bool \<Rightarrow> 'db \<Rightarrow> Txn list result" where
  "TxnsDB_GetAll_sql S includeWatchOnly db =
     thenR (sql_select (txns_table S) (\<lambda>_. True) db)
       (scan_rows (\<lambda>r. Inr (if t_watchOnly r > 0 \<and> \<not> includeWatchOnly then None else Some (row_txn r))))"

definition TxnsDB_Delete_sql :: "'db sqldb \<Rightarrow> string \<Rightarrow> 'db \<Rightarrow> 'db \<times> unit result" where
  "TxnsDB_Delete_sql S txid = sql_exec (sql_delete (txns_table S) (\<lambda>r. t_txid r = txid))"

definition TxnsDB_UpdateHeight_sql :: "'db sqldb \<Rightarrow> string \<Rightarrow> int \<Rightarrow> int \<Rightarrow> 'db \<Rightarrow> 'db \<times> unit result" where
  "TxnsDB_UpdateHeight_sql S txid height timestamp =
     sql_tx S True True (sql_update (txns_table S) (\<lambda>r. t_txid r = txid)
       (\<lambda>r. r\<lparr>t_height := height, t_timestamp := Unix timestamp\<rparr>))"

section \<open>keys.go\<close>

text \<open>A key is inserted, not replaced: a second row for its script address is refused by the primary key.\<close>

definition KeysDB_Put_sql :: "'db sqldb \<Rightarrow> bytes \<Rightarrow> KeyPath \<Rightarrow> 'db \<Rightarrow> 'db \<times> unit result" where
  "KeysDB_Put_sql S scriptAddress keyPath =
     sql_tx S True False (sql_insert (keys_table S)
       \<lparr>k_scriptAddress = EncodeToString scriptAddress, k_purpose = Change keyPath, k_keyIndex = Index keyPath, k_used = 0\<rparr>)"

definition KeysDB_MarkKeyAsUsed_sql :: "'db sqldb \<Rightarrow> bytes \<Rightarrow> 'db \<Rightarrow> 'db \<times> unit result" where
  "KeysDB_MarkKeyAsUsed_sql S scriptAddress =
     sql_tx S True True (sql_update (keys_table S) (\<lambda>r. k_scriptAddress r = EncodeToString scriptAddress) (\<lambda>r. r\<lparr>k_used := 1\<rparr>))"

definition KeysDB_GetLastKeyIndex_sql :: "'db sqldb \<Rightarrow> KeyChange \<Rightarrow> 'db \<Rightarrow> (int \<times> bool) result" where
  "KeysDB_GetLastKeyIndex_sql S purpose db =
     thenR (sql_row S (\<lambda>db. thenR (sql_select_rowid (keys_table S) (\<lambda>r. k_purpose r = purpose) db) (\<lambda>rs. Inr (rev rs))) db)
       (\<lambda>r. Inr (k_keyIndex r, k_used r \<noteq> 0))"

definition KeysDB_GetPathForKey_sql :: "'db sqldb \<Rightarrow> bytes \<Rightarrow> 'db \<Rightarrow> KeyPath result" where
  "KeysDB_GetPathForKey_sql S scriptAddress db =
     thenR (sql_Prepare S db) (\<lambda>_.
       (case first_row (sql_select (keys_table S)
               (\<lambda>r. k_scriptAddress r = EncodeToString scriptAddress \<and> k_purpose r \<noteq> - 1) db) of
          Inl err \<Rightarrow> Inl (Err ''key not found'')
        | Inr r \<Rightarrow> Inr \<lparr>Change = k_purpose r, Index = k_keyIndex r\<rparr>))"

definition KeysDB_GetUnused_sql :: "'db sqldb \<Rightarrow> KeyChange \<Rightarrow> 'db \<Rightarrow> int list result" where
  "KeysDB_GetUnused_sql S purpose db =
     thenR (sql_select_rowid (keys_table S) (\<lambda>r. k_purpose r = purpose \<and> k_used r = 0) db) (\<lambda>rows. Inr (map k_keyIndex rows))"

definition KeysDB_GetAll_sql :: "'db sqldb \<Rightarrow> 'db \<Rightarrow> KeyPath list result" where
  "KeysDB_GetAll_sql S db =
     thenR (sql_select (keys_table S) (\<lambda>_. True) db) (\<lambda>rows.
       Inr (map (\<lambda>r. \<lparr>Change = k_purpose r, Index = k_keyIndex r\<rparr>) rows))"

text \<open>The unused keys behind the last used one; a query that fails leaves its purpose out.\<close>

fun lookahead_windows :: "'db sqldb \<Rightarrow> 'db \<Rightarrow> int list \<Rightarrow> (KeyChange \<rightharpoonup> int) \<Rightarrow> (KeyChange \<rightharpoonup> int)" where
  "lookahead_windows S db [] windows = windows"
| "lookahead_windows S db (i # is') windows =
     (case sql_select_rowid (keys_table S) (\<lambda>r. k_purpose r = i) db of
        Inl err \<Rightarrow> lookahead_windows S db is' windows
      | Inr rows \<Rightarrow>
          lookahead_windows S db is' (windows(i \<mapsto> int (length (takeWhile (\<lambda>r. k_used r = 0) (rev rows))))))"

definition KeysDB_GetLookaheadWindows_sql :: "'db sqldb \<Rightarrow> 'db \<Rightarrow> (KeyChange \<rightharpoonup> int)" where
  "KeysDB_GetLookaheadWindows_sql S db = lookahead_windows S db [0, 1] Map.empty"

section \<open>subscriptions.go\<close>

definition sub_row :: "Subscription \<Rightarrow> subscriptionsRow" where
  "sub_row s = \<lparr>b_scriptPubKey = PkScript s, b_electrumScripthash = ElectrumScripthash s, b_address = Address s\<rparr>"

definition row_sub :: "subscriptionsRow \<Rightarrow> Subscription" where
  "row_sub r = \<lparr>PkScript = b_scriptPubKey r, ElectrumScripthash = b_electrumScripthash r, Address = b_address r\<rparr>"

definition SubscriptionsDB_Put_sql :: "'db sqldb \<Rightarrow> Subscription \<Rightarrow> 'db \<Rightarrow> 'db \<times> unit result" where
  "SubscriptionsDB_Put_sql S subscription = sql_tx S False True (sql_replace (subscriptions_table S) (sub_row subscription))"

definition SubscriptionsDB_Get_sql :: "'db sqldb \<Rightarrow> string \<Rightarrow> 'db \<Rightarrow> Subscription result" where
  "SubscriptionsDB_Get_sql S scriptPubKey db =
     thenR (sql_row S (sql_select (subscriptions_table S) (\<lambda>r. b_scriptPubKey r = scriptPubKey)) db) (\<lambda>r.
       Inr ((row_sub r)\<lparr>PkScript := scriptPubKey\<rparr>))"

definition SubscriptionsDB_GetElectrumScripthash_sql :: "'db sqldb \<Rightarrow> string \<Rightarrow> 'db \<Rightarrow> Subscription result" where
  "SubscriptionsDB_GetElectrumScripthash_sql S electrumScripthash db =
     thenR (sql_row S (sql_select (subscriptions_table S) (\<lambda>r. b_electrumScripthash r = electrumScripthash)) db) (\<lambda>r.
       Inr ((row_sub r)\<lparr>ElectrumScripthash := electrumScripthash\<rparr>))"

definition SubscriptionsDB_GetAll_sql :: "'db sqldb \<Rightarrow> 'db \<Rightarrow> Subscription list result" where
  "SubscriptionsDB_GetAll_sql S db =
     thenR (sql_select (subscriptions_table S) (\<lambda>_. True) db) (\<lambda>rows. Inr (map row_sub rows))"

definition SubscriptionsDB_Delete_sql :: "'db sqldb \<Rightarrow> string \<Rightarrow> 'db \<Rightarrow> 'db \<times> unit result" where
  "SubscriptionsDB_Delete_sql S scriptPubKey =
     sql_exec (sql_delete (subscriptions_table S) (\<lambda>r. b_scriptPubKey r = scriptPubKey))"

section \<open>config.go and encrypted.go\<close>

text \<open>\<open>Format(time.RFC3339)\<close> drops the fraction of the second.\<close>

definition CfgDB_PutCreationDate_sql :: "'db sqldb \<Rightarrow> int \<Rightarrow> 'db \<Rightarrow> 'db \<times> unit result" where
  "CfgDB_PutCreationDate_sql S creationDate =
     sql_tx S True True (sql_replace (config_table S) \<lparr>g_key = ''creationDate'', g_value = Unix creationDate\<rparr>)"

definition CfgDB_GetCreationDate_sql :: "'db sqldb \<Rightarrow> 'db \<Rightarrow> int result" where
  "CfgDB_GetCreationDate_sql S db =
     thenR (sql_row S (sql_select (config_table S) (\<lambda>r. g_key r = ''creationDate'')) db) (\<lambda>r. Inr (time_Unix (g_value r)))"

text \<open>\<open>encryptBytes\<close> and \<open>decryptBytes\<close> are those of \<open>wallet/bdb\<close>, repeated in the source.\<close>

definition EncDB_PutEncrypted_sql :: "crypto_lib \<Rightarrow> bytes \<Rightarrow> 'db sqldb \<Rightarrow> bytes \<Rightarrow> string \<Rightarrow> 'db \<Rightarrow> 'db \<times> unit result" where
  "EncDB_PutEncrypted_sql C nonce S b pw =
     sql_tx S True True (sql_replace (enc_table S) \<lparr>e_key = ''storage'', e_value = encryptBytes C nonce b pw\<rparr>)"

definition EncDB_GetDecrypted_sql :: "crypto_lib \<Rightarrow> 'db sqldb \<Rightarrow> string \<Rightarrow> 'db \<Rightarrow> bytes result" where
  "EncDB_GetDecrypted_sql C S pw db =
     thenR (sql_row S (sql_select (enc_table S) (\<lambda>r. e_key r = ''storage'')) db) (\<lambda>r. decryptBytes C (e_value r) pw)"

section \<open>database.go\<close>

text \<open>The error of making the tables is dropped by \<open>Create\<close>.\<close>

definition initDatabaseTables_sql :: "'db sqldb \<Rightarrow> 'db \<Rightarrow> 'db \<times> unit result" where
  "initDatabaseTables_sql S = sql_exec (create_tables S)"

definition SQLiteDatastore :: "hash_lib \<Rightarrow> crypto_lib \<Rightarrow> bytes \<Rightarrow> 'db sqldb \<Rightarrow> 'db Datastore" where
  "SQLiteDatastore H C nonce S =
     \<lparr>DS_Cfg = \<lparr>PutCreationDate = CfgDB_PutCreationDate_sql S, GetCreationDate = CfgDB_GetCreationDate_sql S\<rparr>,
      DS_Enc = \<lparr>PutEncrypted = EncDB_PutEncrypted_sql C nonce S, GetDecrypted = EncDB_GetDecrypted_sql C S\<rparr>,
      DS_Utxos = \<lparr>U_Put = UtxoDB_Put_sql H S, U_GetAll = UtxoDB_GetAll_sql H S,
        U_SetWatchOnly = UtxoDB_SetWatchOnly_sql H S, U_Freeze = UtxoDB_Freeze_sql H S,
        U_UnFreeze = UtxoDB_UnFreeze_sql H S, U_Delete = UtxoDB_Delete_sql H S\<rparr>,
      DS_Stxos = \<lparr>S_Put = StxoDB_Put_sql H S, S_GetAll = StxoDB_GetAll_sql H S, S_Delete = StxoDB_Delete_sql H S\<rparr>,
      DS_Txns = \<lparr>T_Put = TxnsDB_Put_sql S, T_Get = TxnsDB_Get_sql S, T_GetAll = TxnsDB_GetAll_sql S,
        T_UpdateHeight = TxnsDB_UpdateHeight_sql S, T_Delete = TxnsDB_Delete_sql S\<rparr>,
      DS_Keys = \<lparr>K_Put = KeysDB_Put_sql S, K_MarkKeyAsUsed = KeysDB_MarkKeyAsUsed_sql S,
        K_GetLastKeyIndex = KeysDB_GetLastKeyIndex_sql S, K_GetPathForKey = KeysDB_GetPathForKey_sql S,
        K_GetUnused = KeysDB_GetUnused_sql S, K_GetAll = KeysDB_GetAll_sql S,
        K_GetLookaheadWindows = KeysDB_GetLookaheadWindows_sql S\<rparr>,
      DS_Subscriptions = \<lparr>Sub_Put = SubscriptionsDB_Put_sql S, Sub_Get = SubscriptionsDB_Get_sql S,
        Sub_GetElectrumScripthash = SubscriptionsDB_GetElectrumScripthash_sql S,
        Sub_GetAll = SubscriptionsDB_GetAll_sql S, Sub_Delete = SubscriptionsDB_Delete_sql S\<rparr>\<rparr>"

definition Create_sql :: "hash_lib \<Rightarrow> crypto_lib \<Rightarrow> bytes \<Rightarrow> 'db sqldb \<Rightarrow> 'db \<Rightarrow> 'db \<times> 'db Datastore" where
  "Create_sql H C nonce S conn = (fst (initDatabaseTables_sql S conn), SQLiteDatastore H C nonce S)"

end
