(* ===== verification/Store_Laws.thy ===== *)
theory Store_Laws
  imports Datastore
begin

text \<open>
  What the wallet relies on of a datastore: an abstract store of five maps, the encrypted blob and the creation date, and one locale per
  interface with the effect of each operation on it.  An operation that returns an error leaves the
  abstract store as it was.  The database packages interpret the locales, the wallet uses them.
\<close>

section \<open>The abstract store\<close>

record abs_store =
  aUtxos :: "OutPoint \<rightharpoonup> Utxo"
  aStxos :: "OutPoint \<rightharpoonup> Stxo"
  aTxns :: "string \<rightharpoonup> Txn"
  aKeys :: "bytes \<rightharpoonup> KeyPath \<times> bool"
  aSubs :: "string \<rightharpoonup> Subscription"
  aEnc :: "bytes option"
  aCfg :: "int option"

definition alter :: "('k \<rightharpoonup> 'v) \<Rightarrow> 'k \<Rightarrow> ('v \<Rightarrow> 'v) \<Rightarrow> ('k \<rightharpoonup> 'v)" where
  "alter m k f = m(k := map_option f (m k))"

lemma alter_absent [simp]: "m k = None \<Longrightarrow> alter m k f = m"
  by (auto simp: alter_def)

lemma alter_present: "m k = Some v \<Longrightarrow> alter m k f = m(k \<mapsto> f v)"
  by (simp add: alter_def)

lemma dom_alter [simp]: "dom (alter m k f) = dom m"
  by (auto simp: alter_def split: if_splits)

text \<open>A list read back from a table: every row once.\<close>

definition lists_map :: "('a \<Rightarrow> 'k) \<Rightarrow> 'a list \<Rightarrow> ('k \<rightharpoonup> 'a) \<Rightarrow> bool" where
  "lists_map idx xs m \<longleftrightarrow> distinct (map idx xs) \<and> (\<forall>k a. m k = Some a \<longleftrightarrow> a \<in> set xs \<and> idx a = k)"

lemma lists_map_mem: "lists_map idx xs m \<Longrightarrow> x \<in> set xs \<Longrightarrow> m (idx x) = Some x"
  by (simp add: lists_map_def)

lemma lists_map_dom: "lists_map idx xs m \<Longrightarrow> dom m = idx ` set xs"
  by (auto simp: lists_map_def)

lemma lists_map_finite: "lists_map idx xs m \<Longrightarrow> finite (dom m)"
  by (simp add: lists_map_dom)

section \<open>The interfaces\<close>

locale utxo_store =
  fixes I :: "'ds Utxos" and A :: "'ds \<Rightarrow> abs_store" and inv :: "'ds \<Rightarrow> bool"
  assumes U_Put: "inv d \<Longrightarrow> wf_utxo u \<Longrightarrow> U_Put I u d = (d', r) \<Longrightarrow>
      inv d' \<and> A d' = (if isl r then A d else (A d)\<lparr>aUtxos := (aUtxos (A d))(Op u \<mapsto> u)\<rparr>)"
    and U_Freeze: "inv d \<Longrightarrow> wf_utxo u \<Longrightarrow> U_Freeze I u d = (d', r) \<Longrightarrow>
      inv d' \<and> A d' = (if isl r then A d
        else (A d)\<lparr>aUtxos := alter (aUtxos (A d)) (Op u) (\<lambda>v. v\<lparr>Frozen := True\<rparr>)\<rparr>)"
    and U_UnFreeze: "inv d \<Longrightarrow> wf_utxo u \<Longrightarrow> U_UnFreeze I u d = (d', r) \<Longrightarrow>
      inv d' \<and> A d' = (if isl r then A d
        else (A d)\<lparr>aUtxos := alter (aUtxos (A d)) (Op u) (\<lambda>v. v\<lparr>Frozen := False\<rparr>)\<rparr>)"
    and U_SetWatchOnly: "inv d \<Longrightarrow> wf_utxo u \<Longrightarrow> U_SetWatchOnly I u d = (d', r) \<Longrightarrow>
      inv d' \<and> A d' = (if isl r then A d
        else (A d)\<lparr>aUtxos := alter (aUtxos (A d)) (Op u) (\<lambda>v. v\<lparr>WatchOnly := True\<rparr>)\<rparr>)"
    and U_Delete: "inv d \<Longrightarrow> wf_utxo u \<Longrightarrow> U_Delete I u d = (d', r) \<Longrightarrow>
      inv d' \<and> A d' = (if isl r then A d else (A d)\<lparr>aUtxos := (aUtxos (A d))(Op u := None)\<rparr>)"
    and U_GetAll: "inv d \<Longrightarrow> U_GetAll I d = Inr us \<Longrightarrow> lists_map Op us (aUtxos (A d))"
    and U_wf: "inv d \<Longrightarrow> aUtxos (A d) op = Some u \<Longrightarrow> wf_utxo u"
begin

lemma U_GetAll_wf: "inv d \<Longrightarrow> U_GetAll I d = Inr us \<Longrightarrow> u \<in> set us \<Longrightarrow> wf_utxo u"
  using U_GetAll lists_map_mem U_wf by metis

end

locale stxo_store =
  fixes I :: "'ds Stxos" and A :: "'ds \<Rightarrow> abs_store" and inv :: "'ds \<Rightarrow> bool"
    and norm :: "Stxo \<Rightarrow> Stxo"
  assumes S_Put: "inv d \<Longrightarrow> wf_stxo s \<Longrightarrow> S_Put I s d = (d', r) \<Longrightarrow>
      inv d' \<and> A d' = (if isl r then A d
        else (A d)\<lparr>aStxos := (aStxos (A d))(Op (SUtxo s) \<mapsto> norm s)\<rparr>)"
    and S_Delete: "inv d \<Longrightarrow> wf_stxo s \<Longrightarrow> S_Delete I s d = (d', r) \<Longrightarrow>
      inv d' \<and> A d' = (if isl r then A d else (A d)\<lparr>aStxos := (aStxos (A d))(Op (SUtxo s) := None)\<rparr>)"
    and S_GetAll: "inv d \<Longrightarrow> S_GetAll I d = Inr ss \<Longrightarrow> lists_map (\<lambda>s. Op (SUtxo s)) ss (aStxos (A d))"
    and S_wf: "inv d \<Longrightarrow> aStxos (A d) op = Some s \<Longrightarrow> wf_stxo s"
    and S_norm: "\<exists>b. norm s = s\<lparr>SUtxo := (SUtxo s)\<lparr>Frozen := b\<rparr>\<rparr>"
    and S_norm_idem: "norm (norm s) = norm s"

locale txn_store =
  fixes I :: "'ds Txns" and A :: "'ds \<Rightarrow> abs_store" and inv :: "'ds \<Rightarrow> bool"
    and trunc :: "int \<Rightarrow> int"
  assumes T_Put: "inv d \<Longrightarrow> T_Put I raw txid val h t wo d = (d', r) \<Longrightarrow>
      inv d' \<and> A d' = (if isl r then A d
        else (A d)\<lparr>aTxns := (aTxns (A d))(txid \<mapsto> \<lparr>Txid = txid, TValue = val, Height = h,
          Timestamp = trunc t, TWatchOnly = wo, Bytes = raw\<rparr>)\<rparr>)"
    and T_UpdateHeight: "inv d \<Longrightarrow> T_UpdateHeight I txid h t d = (d', r) \<Longrightarrow>
      inv d' \<and> A d' = (if isl r then A d
        else (A d)\<lparr>aTxns := alter (aTxns (A d)) txid (\<lambda>x. x\<lparr>Height := h, Timestamp := trunc t\<rparr>)\<rparr>)"
    and T_Delete: "inv d \<Longrightarrow> T_Delete I txid d = (d', r) \<Longrightarrow>
      inv d' \<and> A d' = (if isl r then A d else (A d)\<lparr>aTxns := (aTxns (A d))(txid := None)\<rparr>)"
    and T_Get: "inv d \<Longrightarrow> T_Get I txid d = Inr x \<Longrightarrow> aTxns (A d) txid = Some x"
    and T_GetAll: "inv d \<Longrightarrow> T_GetAll I all d = Inr xs \<Longrightarrow>
      lists_map Txid xs (\<lambda>k. case aTxns (A d) k of None \<Rightarrow> None
                             | Some x \<Rightarrow> if TWatchOnly x \<and> \<not> all then None else Some x)"

text \<open>Keys are put under fresh script addresses, with indices growing per purpose.\<close>

definition unused_keys :: "abs_store \<Rightarrow> KeyChange \<Rightarrow> bytes set" where
  "unused_keys a p = {sa. \<exists>i. aKeys a sa = Some (\<lparr>Change = p, Index = i\<rparr>, False)}"

definition next_key :: "abs_store \<Rightarrow> KeyPath \<Rightarrow> bool" where
  "next_key a kp \<longleftrightarrow>
     (\<forall>sa i u. aKeys a sa = Some (\<lparr>Change = Change kp, Index = i\<rparr>, u) \<longrightarrow> i < Index kp)"

locale key_store =
  fixes I :: "'ds Keys" and A :: "'ds \<Rightarrow> abs_store" and inv :: "'ds \<Rightarrow> bool"
  assumes K_Put: "inv d \<Longrightarrow> length sa = 20 \<Longrightarrow> aKeys (A d) sa = None \<Longrightarrow> next_key (A d) kp \<Longrightarrow>
      Change kp \<in> {EXTERNAL, INTERNAL} \<Longrightarrow> K_Put I sa kp d = (d', r) \<Longrightarrow>
      inv d' \<and> A d' = (if isl r then A d else (A d)\<lparr>aKeys := (aKeys (A d))(sa \<mapsto> (kp, False))\<rparr>)"
    and K_MarkKeyAsUsed: "inv d \<Longrightarrow> K_MarkKeyAsUsed I sa d = (d', r) \<Longrightarrow>
      inv d' \<and> A d' = (if isl r then A d
        else (A d)\<lparr>aKeys := alter (aKeys (A d)) sa (\<lambda>(kp, u). (kp, True))\<rparr>)"
    and K_GetLastKeyIndex: "inv d \<Longrightarrow> K_GetLastKeyIndex I p d = Inr (i, u) \<Longrightarrow>
      (\<exists>sa. aKeys (A d) sa = Some (\<lparr>Change = p, Index = i\<rparr>, u)) \<and> next_key (A d) \<lparr>Change = p, Index = i + 1\<rparr>"
    and K_no_key: "inv d \<Longrightarrow> K_GetLastKeyIndex I p d = Inl e \<Longrightarrow> next_key (A d) \<lparr>Change = p, Index = 0\<rparr>"
    and K_GetPathForKey: "inv d \<Longrightarrow> K_GetPathForKey I sa d = Inr kp \<Longrightarrow> \<exists>u. aKeys (A d) sa = Some (kp, u)"
    and K_GetUnused: "inv d \<Longrightarrow> K_GetUnused I p d = Inr is \<Longrightarrow>
      set is = {i. \<exists>sa. aKeys (A d) sa = Some (\<lparr>Change = p, Index = i\<rparr>, False)}"
    and K_GetAll: "inv d \<Longrightarrow> K_GetAll I d = Inr kps \<Longrightarrow> set kps = fst ` ran (aKeys (A d))"
    and K_windows: "inv d \<Longrightarrow> K_GetLookaheadWindows I d p = Some n \<Longrightarrow>
      0 \<le> n \<and> n \<le> int (card (unused_keys (A d) p))"
    and K_windows_dom: "inv d \<Longrightarrow> dom (K_GetLookaheadWindows I d) = {EXTERNAL, INTERNAL}"
    and K_finite: "inv d \<Longrightarrow> finite (dom (aKeys (A d)))"
    and K_wf: "inv d \<Longrightarrow> aKeys (A d) sa = Some (kp, u) \<Longrightarrow>
      length sa = 20 \<and> Change kp \<in> {EXTERNAL, INTERNAL}"
begin

lemma finite_unused: "inv d \<Longrightarrow> finite (unused_keys (A d) p)"
  by (rule finite_subset [OF _ K_finite]) (auto simp: unused_keys_def)

end

locale sub_store =
  fixes I :: "'ds Subscriptions" and A :: "'ds \<Rightarrow> abs_store" and inv :: "'ds \<Rightarrow> bool"
  assumes Sub_Put: "inv d \<Longrightarrow> Sub_Put I s d = (d', r) \<Longrightarrow>
      inv d' \<and> A d' = (if isl r then A d else (A d)\<lparr>aSubs := (aSubs (A d))(PkScript s \<mapsto> s)\<rparr>)"
    and Sub_Delete: "inv d \<Longrightarrow> Sub_Delete I k d = (d', r) \<Longrightarrow>
      inv d' \<and> A d' = (if isl r then A d else (A d)\<lparr>aSubs := (aSubs (A d))(k := None)\<rparr>)"
    and Sub_Get: "inv d \<Longrightarrow> Sub_Get I k d = Inr s \<Longrightarrow> aSubs (A d) k = Some s"
    and Sub_GetElectrumScripthash: "inv d \<Longrightarrow> Sub_GetElectrumScripthash I e d = Inr s \<Longrightarrow>
      ElectrumScripthash s = e \<and> aSubs (A d) (PkScript s) = Some s"
    and Sub_GetAll: "inv d \<Longrightarrow> Sub_GetAll I d = Inr ss \<Longrightarrow> lists_map PkScript ss (aSubs (A d))"

text \<open>\<open>opens\<close> is what decryption gives for a stored blob; \<open>same_key pw pw'\<close> says that two passwords derive one
  key.\<close>

locale enc_store =
  fixes I :: "'ds Enc" and A :: "'ds \<Rightarrow> abs_store" and inv :: "'ds \<Rightarrow> bool"
    and opens :: "bytes \<Rightarrow> string \<Rightarrow> bytes result" and same_key :: "string \<Rightarrow> string \<Rightarrow> bool"
  assumes E_Put: "inv d \<Longrightarrow> PutEncrypted I b pw d = (d', r) \<Longrightarrow>
      inv d' \<and> (if isl r then A d' = A d
        else (\<exists>raw. A d' = (A d)\<lparr>aEnc := Some raw\<rparr> \<and> opens raw pw = Inr b \<and>
               (\<forall>pw'. \<not> same_key pw pw' \<longrightarrow> isl (opens raw pw'))))"
    and E_Get: "inv d \<Longrightarrow> aEnc (A d) = Some raw \<Longrightarrow> GetDecrypted I pw d = opens raw pw"
    and E_Get_none: "inv d \<Longrightarrow> aEnc (A d) = None \<Longrightarrow> isl (GetDecrypted I pw d)"

text \<open>\<open>dtrunc\<close> is the precision the date is stored with.\<close>

locale cfg_store =
  fixes I :: "'ds Cfg" and A :: "'ds \<Rightarrow> abs_store" and inv :: "'ds \<Rightarrow> bool" and dtrunc :: "int \<Rightarrow> int"
  assumes C_Put: "inv d \<Longrightarrow> PutCreationDate I t d = (d', r) \<Longrightarrow>
      inv d' \<and> A d' = (if isl r then A d else (A d)\<lparr>aCfg := Some (dtrunc t)\<rparr>)"
    and C_Get: "inv d \<Longrightarrow> aCfg (A d) = Some t \<Longrightarrow> GetCreationDate I d = Inr t"

end
