(* ===== verification/Bolt_Laws.thy ===== *)
theory Bolt_Laws
  imports Bolt_Store Store_Laws
begin

text \<open>
  The bbolt tables keep the contracts of \<open>Store_Laws\<close>.  The locale \<open>bolt_db\<close> states what bbolt
  documents; \<open>row_codec\<close> lifts a record encoding to a whole bucket and is interpreted on each of the
  five record types; the \<open>sublocale\<close>s then give every interface of \<open>wallet/bdb/\<close>.
\<close>

section \<open>What bbolt documents\<close>

text \<open>\<open>bkt d n\<close> is the contents of bucket \<open>n\<close>.  A read-write transaction is applied completely when it
  returns no error, and not at all otherwise; a read transaction of an open database begins.\<close>

locale bolt_db =
  fixes B :: "'db bolt" and bkt :: "'db \<Rightarrow> string \<Rightarrow> (bytes \<rightharpoonup> bval) option"
  assumes Bucket: "tx_Bucket B n d \<longleftrightarrow> bkt d n \<noteq> None"
    and Create: "tx_CreateBucketIfNotExists B n d = Inr d' \<Longrightarrow>
      bkt d' = (bkt d)(n \<mapsto> (case bkt d n of None \<Rightarrow> Map.empty | Some m \<Rightarrow> m))"
    and BPut: "bkt_Put B n k v d = Inr d' \<Longrightarrow> bkt d n = Some m \<Longrightarrow> bkt d' = (bkt d)(n \<mapsto> m(k \<mapsto> v))"
    and BGet: "bkt d n = Some m \<Longrightarrow> bkt_Get B n k d = m k"
    and BCursor: "bkt d n = Some m \<Longrightarrow>
      distinct (map fst (bkt_Cursor B n d)) \<and> map_of (bkt_Cursor B n d) = m"
    and BDelete: "bkt_Delete B n k d = Inr d' \<Longrightarrow> bkt d n = Some m \<Longrightarrow>
      bkt d' = (bkt d)(n \<mapsto> m(k := None))"
    and Update: "db_Update B f d = (d', r) \<Longrightarrow>
      (isl r \<and> bkt d' = bkt d) \<or> (\<not> isl r \<and> (\<exists>d1. f d = Inr d1 \<and> bkt d' = bkt d1))"
    and View: "db_View B d = Inr ()"
begin

lemma put_value_bkt:
  assumes "bkt d n = Some m" and "put_value B n k v d = (d', r)"
  shows "bkt d' = (if isl r then bkt d else (bkt d)(n \<mapsto> m(k \<mapsto> v)))"
  using Update [OF assms(2) [unfolded put_value_def]] assms(1)
  by (auto simp: Bucket ErrBucketNotFound_def dest: BPut split: if_splits)

lemma delete_value_bkt:
  assumes "bkt d n = Some m" and "delete_value B n k d = (d', r)"
  shows "bkt d' = (if isl r then bkt d else (bkt d)(n \<mapsto> m(k := None)))"
  using Update [OF assms(2) [unfolded delete_value_def]] assms(1)
  by (auto simp: Bucket ErrBucketNotFound_def dest: BDelete split: if_splits)

lemma get_value_bkt: "bkt d n = Some m \<Longrightarrow> get_value B n k unm d = unm (m k)"
  by (simp add: get_value_def View Bucket BGet)

lemma getAll_values_bkt:
  "bkt d n = Some m \<Longrightarrow> getAll_values B n unm d = cursor_loop unm (bkt_Cursor B n d)"
  by (simp add: getAll_values_def View Bucket)

end

section \<open>From records to buckets\<close>

definition rows :: "('i \<Rightarrow> bool) \<Rightarrow> ('i \<Rightarrow> bytes) \<Rightarrow> (bval \<Rightarrow> 'a result) \<Rightarrow> (bytes \<rightharpoonup> bval) \<Rightarrow> ('i \<rightharpoonup> 'a)" where
  "rows okI key dec m i =
     (if okI i then (case m (key i) of None \<Rightarrow> None | Some v \<Rightarrow> (case dec v of Inl _ \<Rightarrow> None | Inr a \<Rightarrow> Some a))
      else None)"

definition bucket_ok :: "('a \<Rightarrow> bool) \<Rightarrow> ('a \<Rightarrow> bytes) \<Rightarrow> ('a \<Rightarrow> bval) \<Rightarrow> (bytes \<rightharpoonup> bval) \<Rightarrow> bool" where
  "bucket_ok ok akey enc m \<longleftrightarrow> (\<forall>k v. m k = Some v \<longrightarrow> (\<exists>a. ok a \<and> k = akey a \<and> v = enc a))"

locale row_codec =
  fixes ok :: "'a \<Rightarrow> bool" and okI :: "'i \<Rightarrow> bool" and idx :: "'a \<Rightarrow> 'i" and key :: "'i \<Rightarrow> bytes"
    and enc :: "'a \<Rightarrow> bval" and dec :: "bval \<Rightarrow> 'a result"
  assumes dec_enc: "ok a \<Longrightarrow> dec (enc a) = Inr a"
    and idx_ok: "ok a \<Longrightarrow> okI (idx a)"
    and key_inj: "okI i \<Longrightarrow> okI j \<Longrightarrow> key i = key j \<longleftrightarrow> i = j"
begin

lemma key_eq_idx: "ok a \<Longrightarrow> okI i \<Longrightarrow> key i = key (idx a) \<longleftrightarrow> i = idx a"
  by (rule key_inj) (auto simp: idx_ok)

lemma rows_put:
  assumes "ok a"
  shows "rows okI key dec (m(key (idx a) \<mapsto> enc a)) = (rows okI key dec m)(idx a \<mapsto> a)"
proof (rule ext)
  fix i
  show "rows okI key dec (m(key (idx a) \<mapsto> enc a)) i = ((rows okI key dec m)(idx a \<mapsto> a)) i"
    using assms key_eq_idx [OF assms, of i] idx_ok [OF assms] dec_enc [OF assms]
    by (cases "okI i") (auto simp: rows_def)
qed

lemma rows_delete:
  assumes "okI j"
  shows "rows okI key dec (m(key j := None)) = (rows okI key dec m)(j := None)"
proof (rule ext)
  fix i
  show "rows okI key dec (m(key j := None)) i = ((rows okI key dec m)(j := None)) i"
    using key_inj [OF _ assms, of i] by (cases "okI i") (auto simp: rows_def)
qed

abbreviation "bok \<equiv> bucket_ok ok (\<lambda>a. key (idx a)) enc"

lemma bok_put: "bok m \<Longrightarrow> ok a \<Longrightarrow> bok (m(key (idx a) \<mapsto> enc a))"
  by (auto simp: bucket_ok_def)

lemma bok_delete: "bok m \<Longrightarrow> bok (m(k := None))"
  by (auto simp: bucket_ok_def)

lemma bok_empty: "bok Map.empty"
  by (simp add: bucket_ok_def)

lemma bok_value: "bok m \<Longrightarrow> m k = Some v \<Longrightarrow> \<exists>a. ok a \<and> k = key (idx a) \<and> v = enc a"
  by (auto simp: bucket_ok_def)

lemma bok_get:
  assumes "bok m" and "okI i"
  shows "m (key i) = map_option enc (rows okI key dec m i)"
proof (cases "m (key i)")
  case None
  then show ?thesis using assms by (simp add: rows_def)
next
  case (Some v)
  then obtain a where "ok a" "key i = key (idx a)" "v = enc a"
    using bok_value [OF assms(1)] by blast
  then show ?thesis
    using Some assms(2) by (simp add: rows_def dec_enc)
qed

lemma rows_ok: "bok m \<Longrightarrow> rows okI key dec m i = Some a \<Longrightarrow> ok a \<and> idx a = i"
  by (auto simp: rows_def dec_enc key_eq_idx dest!: bok_value split: if_splits option.splits sum.splits)

lemma bok_cursor:
  assumes "bok m" and "distinct (map fst kvs) \<and> map_of kvs = m"
  obtains as where "map snd kvs = map enc as" "\<forall>a \<in> set as. ok a"
    "lists_map idx as (rows okI key dec m)"
proof -
  let ?f = "\<lambda>kv. projr (dec (snd kv))"
  have row: "ok (?f (k, v)) \<and> k = key (idx (?f (k, v))) \<and> v = enc (?f (k, v))"
    if kv: "(k, v) \<in> set kvs" for k v
  proof -
    have "m k = Some v"
      using kv assms(2) by auto
    then show ?thesis
      using bok_value [OF assms(1)] dec_enc by fastforce
  qed
  let ?as = "map ?f kvs"
  have fst: "map fst kvs = map (\<lambda>a. key (idx a)) ?as" and snd: "map snd kvs = map enc ?as"
    using row by auto
  have ok: "\<forall>a \<in> set ?as. ok a"
    using row by auto
  have "distinct (map key (map idx ?as))"
    using assms(2) unfolding fst by (simp add: comp_def)
  then have dist: "distinct (map idx ?as)"
    using distinct_map by blast
  have "rows okI key dec m i = Some a \<longleftrightarrow> a \<in> set ?as \<and> idx a = i" for i a
  proof
    assume r: "rows okI key dec m i = Some a"
    then have a: "ok a" "idx a = i"
      using rows_ok [OF assms(1)] by auto
    then have "m (key i) = Some (enc a)"
      using bok_get [OF assms(1), of i] r idx_ok by auto
    then have "(key i, enc a) \<in> set kvs"
      using assms(2) by (metis map_of_SomeD)
    then have "?f (key i, enc a) \<in> set ?as"
      by (metis (no_types, lifting) image_eqI set_map)
    then show "a \<in> set ?as \<and> idx a = i"
      using a dec_enc by simp
  next
    assume "a \<in> set ?as \<and> idx a = i"
    then obtain k v where kv: "(k, v) \<in> set kvs" "a = ?f (k, v)" "idx a = i"
      by auto
    then have "ok a" "k = key i" "v = enc a" "m k = Some v"
      using row [OF kv(1)] assms(2) by auto
    then show "rows okI key dec m i = Some a"
      using kv(3) idx_ok by (auto simp: rows_def dec_enc)
  qed
  then show ?thesis using that [of ?as] snd ok dist by (simp add: lists_map_def)
qed

lemma cursor_rows:
  assumes "bok m" and "distinct (map fst kvs) \<and> map_of kvs = m"
  obtains as where "cursor_loop (\<lambda>v. dec (the v)) kvs = Inr as" "\<forall>a \<in> set as. ok a"
    "lists_map idx as (rows okI key dec m)"
proof -
  obtain as where as: "map snd kvs = map enc as" "\<forall>a \<in> set as. ok a" "lists_map idx as (rows okI key dec m)"
    using bok_cursor [OF assms] by blast
  have "map snd kvs = map enc as \<Longrightarrow> \<forall>a \<in> set as. ok a \<Longrightarrow> cursor_loop (\<lambda>v. dec (the v)) kvs = Inr as"
    for kvs as
  proof (induction kvs arbitrary: as)
    case (Cons kv kvs)
    then show ?case
      by (cases kv; cases as) (auto simp: dec_enc)
  qed simp
  then show ?thesis using that as by blast
qed

end

section \<open>The tables as an abstract store\<close>

definition utxo_key :: "hash_lib \<Rightarrow> OutPoint \<Rightarrow> bytes" where
  "utxo_key H op = str_bytes (OutPoint_String H op)"

definition utxo_enc :: "hash_lib \<Rightarrow> Utxo \<Rightarrow> bval" where
  "utxo_enc H u = VUtxo (utxo_rec H u)"

definition utxo_dec :: "hash_lib \<Rightarrow> bval \<Rightarrow> Utxo result" where
  "utxo_dec H v = thenR (Unmarshal_utxo (Some v)) (rec_utxo H)"

definition stxo_enc :: "hash_lib \<Rightarrow> Stxo \<Rightarrow> bval" where
  "stxo_enc H s = VStxo (stxo_rec H s)"

definition stxo_dec :: "hash_lib \<Rightarrow> bval \<Rightarrow> Stxo result" where
  "stxo_dec H v = thenR (Unmarshal_stxo (Some v)) (rec_stxo H)"

definition txn_rec :: "Txn \<Rightarrow> txnRec" where
  "txn_rec x = \<lparr>tTxid = Txid x, tHeight = Height x, tValue = TValue x, tTimestamp = Timestamp x,
                tWatchOnly = TWatchOnly x, tRawTx = Bytes x\<rparr>"

definition txn_dec :: "bval \<Rightarrow> Txn result" where
  "txn_dec v = thenR (Unmarshal_txn (Some v)) (\<lambda>r. Inr (rec_txn r))"

definition key_dec :: "bval \<Rightarrow> keyRec result" where
  "key_dec v = Unmarshal_key (Some v)"

definition sub_rec :: "Subscription \<Rightarrow> subRec" where
  "sub_rec s = \<lparr>bScriptPubKey = PkScript s, bElectrumScripthash = ElectrumScripthash s, bAddress = Address s\<rparr>"

definition sub_dec :: "bval \<Rightarrow> Subscription result" where
  "sub_dec v = thenR (Unmarshal_sub (Some v)) (\<lambda>r. Inr (rec_sub r))"

definition wf_krec :: "keyRec \<Rightarrow> bool" where
  "wf_krec r \<longleftrightarrow> length (kScriptAddress r) = 20 \<and> kPurpose r \<in> {EXTERNAL, INTERNAL}"

definition krec_path :: "keyRec \<Rightarrow> KeyPath \<times> bool" where
  "krec_path r = (\<lparr>Change = kPurpose r, Index = kKeyIndex r\<rparr>, kUsed r)"

sublocale hash_codec \<subseteq> utxos: row_codec wf_utxo wf_op Op "utxo_key H" "utxo_enc H" "utxo_dec H"
  by unfold_locales
    (auto simp: wf_utxo_def utxo_key_def utxo_enc_def utxo_dec_def utxo_rec_def rec_utxo_def
      outpoint_parse_print OutPoint_String_eq)

sublocale hash_codec \<subseteq> stxos: row_codec wf_stxo wf_op "\<lambda>s. Op (SUtxo s)" "utxo_key H" "stxo_enc H" "stxo_dec H"
  by unfold_locales
    (auto simp: wf_stxo_def wf_utxo_def stxo_enc_def stxo_dec_def stxo_rec_def rec_stxo_def Let_def
      outpoint_parse_print parse_print utxos.key_inj)

interpretation txn_rows: row_codec "\<lambda>_. True" "\<lambda>_. True" Txid str_bytes "\<lambda>x. VTxn (txn_rec x)" txn_dec
  by unfold_locales (simp_all add: txn_dec_def txn_rec_def rec_txn_def)

interpretation key_rows: row_codec wf_krec "\<lambda>sa. length sa = 20" kScriptAddress "\<lambda>sa. sa" VKey key_dec
  by unfold_locales (simp_all add: key_dec_def wf_krec_def)

interpretation sub_rows: row_codec "\<lambda>_. True" "\<lambda>_. True" PkScript str_bytes "\<lambda>s. VSub (sub_rec s)" sub_dec
  by unfold_locales (simp_all add: sub_dec_def sub_rec_def rec_sub_def)

definition bolt_abs :: "hash_lib \<Rightarrow> (string \<Rightarrow> (bytes \<rightharpoonup> bval) option) \<Rightarrow> abs_store" where
  "bolt_abs H b =
     \<lparr>aUtxos = rows wf_op (utxo_key H) (utxo_dec H) (the (b utxosBkt)),
      aStxos = rows wf_op (utxo_key H) (stxo_dec H) (the (b stxosBkt)),
      aTxns = rows (\<lambda>_. True) str_bytes txn_dec (the (b txnsBkt)),
      aKeys = map_option krec_path \<circ> rows (\<lambda>sa. length sa = 20) (\<lambda>sa. sa) key_dec (the (b keysBkt)),
      aSubs = rows (\<lambda>_. True) str_bytes sub_dec (the (b subscriptionsBkt)),
      aEnc = (case the (b encBkt) storageKey of Some (VRaw raw) \<Rightarrow> Some raw | _ \<Rightarrow> None),
      aCfg = (case the (b configBkt) creationKey of Some (VTime t) \<Rightarrow> Some t | _ \<Rightarrow> None)\<rparr>"

definition bolt_inv :: "hash_lib \<Rightarrow> (string \<Rightarrow> (bytes \<rightharpoonup> bval) option) \<Rightarrow> bool" where
  "bolt_inv H b \<longleftrightarrow>
     (\<forall>n \<in> {keysBkt, utxosBkt, stxosBkt, txnsBkt, subscriptionsBkt, configBkt, encBkt}. b n \<noteq> None) \<and>
     bucket_ok wf_utxo (\<lambda>u. utxo_key H (Op u)) (utxo_enc H) (the (b utxosBkt)) \<and>
     bucket_ok wf_stxo (\<lambda>s. utxo_key H (Op (SUtxo s))) (stxo_enc H) (the (b stxosBkt)) \<and>
     txn_rows.bok (the (b txnsBkt)) \<and> key_rows.bok (the (b keysBkt)) \<and> sub_rows.bok (the (b subscriptionsBkt))"

lemmas bkt_names =
  keysBkt_def utxosBkt_def stxosBkt_def txnsBkt_def subscriptionsBkt_def configBkt_def encBkt_def

text \<open>Only the bucket written changes.\<close>

lemma bolt_inv_bucket: "bolt_inv H b \<Longrightarrow> n \<in> {keysBkt, utxosBkt, stxosBkt, txnsBkt, subscriptionsBkt} \<Longrightarrow>
  b n = Some (the (b n))"
  by (auto simp: bolt_inv_def)

lemma map_result_cursor:
  "thenR (cursor_loop unm kvs) (map_result f) = Inr xs \<longleftrightarrow>
   cursor_loop (\<lambda>v. thenR (unm v) f) kvs = Inr xs"
proof (induction kvs arbitrary: xs)
  case (Cons kv kvs)
  obtain k v where [simp]: "kv = (k, v)" by (cases kv)
  show ?case
    by (cases "unm (Some v)"; cases "cursor_loop unm kvs")
      (use Cons in \<open>auto simp: thenR_eq_Inr\<close>)
qed simp

lemma cursor_loop_cong: "(\<And>v. f (Some v) = g (Some v)) \<Longrightarrow> cursor_loop f kvs = cursor_loop g kvs"
  by (induction f kvs rule: cursor_loop.induct) simp_all

locale bolt_store = bolt_db B bkt + hash_codec H
  for B :: "'db bolt" and bkt and H
begin

abbreviation "absS d \<equiv> bolt_abs H (bkt d)"
abbreviation "invS d \<equiv> bolt_inv H (bkt d)"

lemma put_done:
  assumes "invS d" and "n \<in> {keysBkt, utxosBkt, stxosBkt, txnsBkt, subscriptionsBkt}"
    and "put_value B n k v d = (d', r)"
  shows "bkt d' = (if isl r then bkt d else (bkt d)(n \<mapsto> (the (bkt d n))(k \<mapsto> v)))"
  using put_value_bkt [OF bolt_inv_bucket [OF assms(1,2)] assms(3)] .

lemma delete_done:
  assumes "invS d" and "n \<in> {keysBkt, utxosBkt, stxosBkt, txnsBkt, subscriptionsBkt}"
    and "delete_value B n k d = (d', r)"
  shows "bkt d' = (if isl r then bkt d else (bkt d)(n \<mapsto> (the (bkt d n))(k := None)))"
  using delete_value_bkt [OF bolt_inv_bucket [OF assms(1,2)] assms(3)] .

lemma utxo_put_step:
  assumes "invS d" and "wf_utxo u" and "UtxoDB_put B (utxo_rec H u) d = (d', r)"
  shows "invS d' \<and> absS d' = (if isl r then absS d else (absS d)\<lparr>aUtxos := (aUtxos (absS d))(Op u \<mapsto> u)\<rparr>)"
proof -
  have "put_value B utxosBkt (utxo_key H (Op u)) (utxo_enc H u) d = (d', r)"
    using assms(3) by (simp add: UtxoDB_put_def utxo_key_def utxo_enc_def utxo_rec_def)
  from put_done [OF assms(1) _ this] show ?thesis
    using assms(1) utxos.bok_put [OF _ assms(2)]
    by (auto simp: bolt_inv_def bolt_abs_def utxos.rows_put [OF assms(2)] bkt_names)
qed

lemma utxo_delete_step:
  assumes "invS d" and "wf_op op" and "UtxoDB_delete B (OutPoint_String H op) d = (d', r)"
  shows "invS d' \<and> absS d' = (if isl r then absS d else (absS d)\<lparr>aUtxos := (aUtxos (absS d))(op := None)\<rparr>)"
proof -
  have "delete_value B utxosBkt (utxo_key H op) d = (d', r)"
    using assms(3) by (simp add: UtxoDB_delete_def utxo_key_def)
  from delete_done [OF assms(1) _ this] show ?thesis
    using assms(1) utxos.bok_delete
    by (auto simp: bolt_inv_def bolt_abs_def utxos.rows_delete [OF assms(2)] bkt_names)
qed

lemma U_GetAll_rows:
  assumes "invS d"
  obtains us where "UtxoDB_GetAll H B d = Inr us" "\<forall>u \<in> set us. wf_utxo u" "lists_map Op us (aUtxos (absS d))"
proof -
  have bok: "utxos.bok (the (bkt d utxosBkt))"
    using assms by (simp add: bolt_inv_def)
  have some: "bkt d utxosBkt = Some (the (bkt d utxosBkt))"
    by (rule bolt_inv_bucket [OF assms]) simp
  obtain us where us: "cursor_loop (\<lambda>v. utxo_dec H (the v)) (bkt_Cursor B utxosBkt d) = Inr us"
      "\<forall>u \<in> set us. wf_utxo u"
      "lists_map Op us (rows wf_op (utxo_key H) (utxo_dec H) (the (bkt d utxosBkt)))"
    using utxos.cursor_rows [OF bok BCursor [OF some]] by blast
  have "cursor_loop (\<lambda>v. thenR (Unmarshal_utxo v) (rec_utxo H)) (bkt_Cursor B utxosBkt d) = Inr us"
    using us(1) by (subst cursor_loop_cong [where g = "\<lambda>v. utxo_dec H (the v)"]) (simp_all add: utxo_dec_def)
  then have "UtxoDB_GetAll H B d = Inr us"
    by (simp add: UtxoDB_GetAll_def UtxoDB_getAll_def getAll_values_bkt [OF some] map_result_cursor)
  then show ?thesis using that us(2,3) by (simp add: bolt_abs_def)
qed

lemma utxo_get_step:
  assumes "invS d" and "wf_op op"
  shows "UtxoDB_get B (OutPoint_String H op) d =
    (case aUtxos (absS d) op of None \<Rightarrow> Inl (Err ''unexpected end of JSON input'')
     | Some v \<Rightarrow> Inr (utxo_rec H v))"
proof -
  have "UtxoDB_get B (OutPoint_String H op) d = Unmarshal_utxo ((the (bkt d utxosBkt)) (utxo_key H op))"
    using get_value_bkt [OF bolt_inv_bucket [OF assms(1)], of utxosBkt] by (simp add: UtxoDB_get_def utxo_key_def)
  moreover have "utxos.bok (the (bkt d utxosBkt))"
    using assms(1) by (simp add: bolt_inv_def)
  ultimately show ?thesis
    by (simp add: utxos.bok_get [OF _ assms(2)] bolt_abs_def utxo_enc_def split: option.split)
qed

lemma utxo_wf: "invS d \<Longrightarrow> aUtxos (absS d) op = Some u \<Longrightarrow> wf_utxo u \<and> Op u = op"
  using utxos.rows_ok [of "the (bkt d utxosBkt)" op u] by (simp add: bolt_inv_def bolt_abs_def)

text \<open>\<open>Freeze\<close>, \<open>UnFreeze\<close> and \<open>SetWatchOnly\<close> read the record, change a flag and put it back.\<close>

lemma utxo_flag_step:
  assumes "invS d" and "wf_utxo u"
    and "(case UtxoDB_get B (OutPoint_String H (Op u)) d of Inl err \<Rightarrow> (d, Inl err)
          | Inr urec \<Rightarrow> UtxoDB_put B (f urec) d) = (d', r)"
    and "\<And>v. f (utxo_rec H v) = utxo_rec H (g v)" and "\<And>v. Op (g v) = Op v"
  shows "invS d' \<and> absS d' =
    (if isl r then absS d else (absS d)\<lparr>aUtxos := alter (aUtxos (absS d)) (Op u) g\<rparr>)"
proof (cases "aUtxos (absS d) (Op u)")
  case None
  then show ?thesis
    using assms(3) utxo_get_step [OF assms(1), of "Op u"] assms(1,2) by (auto simp: wf_utxo_def)
next
  case (Some v)
  then have v: "wf_utxo v" "Op v = Op u"
    using utxo_wf [OF assms(1)] by auto
  then have "UtxoDB_put B (utxo_rec H (g v)) d = (d', r)" "wf_utxo (g v)"
    using assms(2-5) Some utxo_get_step [OF assms(1), of "Op u"] by (auto simp: wf_utxo_def)
  from utxo_put_step [OF assms(1) this(2,1)] show ?thesis
    using Some v assms(5) by (simp add: alter_present)
qed

lemma rec_flags [simp]:
  "(utxo_rec H v)\<lparr>uFrozen := x\<rparr> = utxo_rec H (v\<lparr>Frozen := x\<rparr>)"
  "(utxo_rec H v)\<lparr>uWatchOnly := x\<rparr> = utxo_rec H (v\<lparr>WatchOnly := x\<rparr>)"
  by (simp_all add: utxo_rec_def)

lemma utxo_Freeze_step:
  assumes "invS d" "wf_utxo u" "UtxoDB_Freeze H B u d = (d', r)"
  shows "invS d' \<and> absS d' =
    (if isl r then absS d else (absS d)\<lparr>aUtxos := alter (aUtxos (absS d)) (Op u) (\<lambda>v. v\<lparr>Frozen := True\<rparr>)\<rparr>)"
  by (rule utxo_flag_step [OF assms(1,2) assms(3) [unfolded UtxoDB_Freeze_def]]) simp_all

lemma utxo_UnFreeze_step:
  assumes "invS d" "wf_utxo u" "UtxoDB_UnFreeze H B u d = (d', r)"
  shows "invS d' \<and> absS d' =
    (if isl r then absS d else (absS d)\<lparr>aUtxos := alter (aUtxos (absS d)) (Op u) (\<lambda>v. v\<lparr>Frozen := False\<rparr>)\<rparr>)"
  by (rule utxo_flag_step [OF assms(1,2) assms(3) [unfolded UtxoDB_UnFreeze_def]]) simp_all

lemma utxo_SetWatchOnly_step:
  assumes "invS d" "wf_utxo u" "UtxoDB_SetWatchOnly H B u d = (d', r)"
  shows "invS d' \<and> absS d' =
    (if isl r then absS d else (absS d)\<lparr>aUtxos := alter (aUtxos (absS d)) (Op u) (\<lambda>v. v\<lparr>WatchOnly := True\<rparr>)\<rparr>)"
  by (rule utxo_flag_step [OF assms(1,2) assms(3) [unfolded UtxoDB_SetWatchOnly_def]]) simp_all

lemma utxo_Delete_step:
  assumes "invS d" "wf_utxo u" "UtxoDB_Delete H B u d = (d', r)"
  shows "invS d' \<and> absS d' =
    (if isl r then absS d else (absS d)\<lparr>aUtxos := (aUtxos (absS d))(Op u := None)\<rparr>)"
  using assms utxo_delete_step [of d "Op u"] by (simp add: wf_utxo_def UtxoDB_Delete_def)

lemma utxo_Put_step:
  assumes "invS d" "wf_utxo u" "UtxoDB_Put H B u d = (d', r)"
  shows "invS d' \<and> absS d' =
    (if isl r then absS d else (absS d)\<lparr>aUtxos := (aUtxos (absS d))(Op u \<mapsto> u)\<rparr>)"
  using assms utxo_put_step by (simp add: UtxoDB_Put_def)

lemma U_GetAll_law: "invS d \<Longrightarrow> UtxoDB_GetAll H B d = Inr us \<Longrightarrow> lists_map Op us (aUtxos (absS d))"
  using U_GetAll_rows [of d] by (metis sum.inject(2))

lemma stxo_put_step:
  assumes "invS d" and "wf_stxo s" and "StxoDB_Put H B s d = (d', r)"
  shows "invS d' \<and> absS d' =
    (if isl r then absS d else (absS d)\<lparr>aStxos := (aStxos (absS d))(Op (SUtxo s) \<mapsto> s)\<rparr>)"
proof -
  have "put_value B stxosBkt (utxo_key H (Op (SUtxo s))) (stxo_enc H s) d = (d', r)"
    using assms(3) by (simp add: StxoDB_Put_def StxoDB_put_def utxo_key_def stxo_enc_def stxo_rec_def Let_def)
  from put_done [OF assms(1) _ this] show ?thesis
    using assms(1) stxos.bok_put [OF _ assms(2)]
    by (auto simp: bolt_inv_def bolt_abs_def stxos.rows_put [OF assms(2)] bkt_names)
qed

lemma stxo_delete_step:
  assumes "invS d" and "wf_stxo s" and "StxoDB_Delete H B s d = (d', r)"
  shows "invS d' \<and> absS d' =
    (if isl r then absS d else (absS d)\<lparr>aStxos := (aStxos (absS d))(Op (SUtxo s) := None)\<rparr>)"
proof -
  have "delete_value B stxosBkt (utxo_key H (Op (SUtxo s))) d = (d', r)"
    using assms(3) by (simp add: StxoDB_Delete_def StxoDB_delete_def utxo_key_def)
  from delete_done [OF assms(1) _ this] show ?thesis
    using assms(1,2) stxos.bok_delete
    by (auto simp: bolt_inv_def bolt_abs_def stxos.rows_delete stxos.idx_ok bkt_names)
qed

lemma S_GetAll_rows:
  assumes "invS d"
  obtains ss where "StxoDB_GetAll H B d = Inr ss" "lists_map (\<lambda>s. Op (SUtxo s)) ss (aStxos (absS d))"
proof -
  have some: "bkt d stxosBkt = Some (the (bkt d stxosBkt))"
    by (rule bolt_inv_bucket [OF assms]) simp
  have "stxos.bok (the (bkt d stxosBkt))"
    using assms by (simp add: bolt_inv_def)
  then obtain ss where ss: "cursor_loop (\<lambda>v. stxo_dec H (the v)) (bkt_Cursor B stxosBkt d) = Inr ss"
      "lists_map (\<lambda>s. Op (SUtxo s)) ss (rows wf_op (utxo_key H) (stxo_dec H) (the (bkt d stxosBkt)))"
    using stxos.cursor_rows [OF _ BCursor [OF some]] by blast
  have "cursor_loop (\<lambda>v. thenR (Unmarshal_stxo v) (rec_stxo H)) (bkt_Cursor B stxosBkt d) = Inr ss"
    using ss(1) by (subst cursor_loop_cong [where g = "\<lambda>v. stxo_dec H (the v)"]) (simp_all add: stxo_dec_def)
  then have "StxoDB_GetAll H B d = Inr ss"
    by (simp add: StxoDB_GetAll_def StxoDB_getAll_def getAll_values_bkt [OF some] map_result_cursor)
  then show ?thesis using that ss(2) by (simp add: bolt_abs_def)
qed

lemma S_GetAll_law:
  "invS d \<Longrightarrow> StxoDB_GetAll H B d = Inr ss \<Longrightarrow> lists_map (\<lambda>s. Op (SUtxo s)) ss (aStxos (absS d))"
  using S_GetAll_rows [of d] by (metis sum.inject(2))

lemma stxo_wf: "invS d \<Longrightarrow> aStxos (absS d) op = Some s \<Longrightarrow> wf_stxo s"
  using stxos.rows_ok [of "the (bkt d stxosBkt)" op s] by (simp add: bolt_inv_def bolt_abs_def)

end

lemma same_stxo: "\<exists>b. s = s\<lparr>SUtxo := (SUtxo s)\<lparr>Frozen := b\<rparr>\<rparr>"
  by (rule exI [of _ "Frozen (SUtxo s)"]) simp

lemmas setup_simps = BoltDatastore_def Datastore.select_convs Utxos.select_convs Stxos.select_convs
  Txns.select_convs Keys.select_convs Subscriptions.select_convs Enc.select_convs Cfg.select_convs

sublocale bolt_store \<subseteq> U: utxo_store "DS_Utxos (BoltDatastore H C nonce B)" "\<lambda>d. bolt_abs H (bkt d)" "\<lambda>d. bolt_inv H (bkt d)"
  for C nonce
  by (unfold_locales; (unfold setup_simps)?)
    (erule (2) utxo_Put_step utxo_Freeze_step utxo_UnFreeze_step utxo_SetWatchOnly_step utxo_Delete_step
      | erule (1) U_GetAll_law | drule (1) utxo_wf, erule conjunct1)+

sublocale bolt_store \<subseteq> S: stxo_store "DS_Stxos (BoltDatastore H C nonce B)" "\<lambda>d. bolt_abs H (bkt d)"
  "\<lambda>d. bolt_inv H (bkt d)" "\<lambda>s. s" for C nonce
  by (unfold_locales; (unfold setup_simps)?)
    (erule (2) stxo_put_step stxo_delete_step | erule (1) S_GetAll_law stxo_wf | rule same_stxo refl)+

section \<open>Transactions, subscriptions and keys\<close>

lemma sorted_last_max: "sorted (map f xs) \<Longrightarrow> x \<in> set xs \<Longrightarrow> f x \<le> f (last xs)"
  by (induction xs) (auto split: if_splits)

lemma lists_map_sort: "lists_map idx xs m \<Longrightarrow> lists_map idx (sort_key f xs) m"
  by (simp add: lists_map_def distinct_map)

lemma ForEach_keys_ok: "cursor_loop (\<lambda>v. key_dec (the v)) kvs = Inr rs \<Longrightarrow> ForEach_keys kvs = rs"
  by (induction kvs arbitrary: rs) (auto simp: thenR_eq_Inr key_dec_def)

lemma length_filter_card:
  assumes "distinct (map f xs)"
  shows "length (filter P xs) = card (f ` set (filter P xs))"
  using distinct_card [OF distinct_map_filter [OF assms, of P]] by simp

lemma lists_map_filter:
  assumes "lists_map idx xs m"
  shows "lists_map idx (filter P xs) (\<lambda>k. case m k of None \<Rightarrow> None | Some x \<Rightarrow> if P x then Some x else None)"
proof -
  have "a \<in> set (filter P xs) \<and> idx a = k \<longleftrightarrow> P a \<and> m k = Some a" for a k
    using assms by (auto simp: lists_map_def)
  moreover have "(case m k of None \<Rightarrow> None | Some x \<Rightarrow> if P x then Some x else None) = Some a \<longleftrightarrow>
      P a \<and> m k = Some a" for a k
    by (auto split: option.splits)
  moreover have "distinct (map idx (filter P xs))"
    using assms by (simp add: lists_map_def distinct_map_filter)
  ultimately show ?thesis
    unfolding lists_map_def by blast
qed

context bolt_store
begin

lemma txn_put_step:
  assumes "invS d" and "TxnsDB_put B (txn_rec x) d = (d', r)"
  shows "invS d' \<and> absS d' = (if isl r then absS d else (absS d)\<lparr>aTxns := (aTxns (absS d))(Txid x \<mapsto> x)\<rparr>)"
proof -
  have "put_value B txnsBkt (str_bytes (Txid x)) (VTxn (txn_rec x)) d = (d', r)"
    using assms(2) by (simp add: TxnsDB_put_def txn_rec_def)
  from put_done [OF assms(1) _ this] show ?thesis
    using assms(1) txn_rows.bok_put [of _ x]
    by (auto simp: bolt_inv_def bolt_abs_def txn_rows.rows_put bkt_names)
qed

lemma txn_Put_step:
  assumes "invS d" and "TxnsDB_Put B raw txid val h t wo d = (d', r)"
  shows "invS d' \<and> absS d' = (if isl r then absS d else (absS d)\<lparr>aTxns := (aTxns (absS d))(txid \<mapsto>
    \<lparr>Txid = txid, TValue = val, Height = h, Timestamp = t, TWatchOnly = wo, Bytes = raw\<rparr>)\<rparr>)"
  using txn_put_step [OF assms(1), of "\<lparr>Txid = txid, TValue = val, Height = h, Timestamp = t, TWatchOnly = wo, Bytes = raw\<rparr>"]
    assms(2) by (simp add: TxnsDB_Put_def txn_rec_def)

lemma txn_get_step:
  assumes "invS d"
  shows "TxnsDB_get B txid d = (case aTxns (absS d) txid of None \<Rightarrow> Inl (Err ''unexpected end of JSON input'')
     | Some x \<Rightarrow> Inr (txn_rec x))"
proof -
  have "TxnsDB_get B txid d = Unmarshal_txn ((the (bkt d txnsBkt)) (str_bytes txid))"
    using get_value_bkt [OF bolt_inv_bucket [OF assms], of txnsBkt] by (simp add: TxnsDB_get_def)
  moreover have "txn_rows.bok (the (bkt d txnsBkt))"
    using assms by (simp add: bolt_inv_def)
  ultimately show ?thesis
    by (simp add: txn_rows.bok_get bolt_abs_def split: option.split)
qed

lemma txn_wf: "invS d \<Longrightarrow> aTxns (absS d) k = Some x \<Longrightarrow> Txid x = k"
  using txn_rows.rows_ok [of "the (bkt d txnsBkt)" k x] by (simp add: bolt_inv_def bolt_abs_def)

lemma rec_txn_rec [simp]: "rec_txn (txn_rec x) = x"
  by (simp add: rec_txn_def txn_rec_def)

lemma txn_Get_law: "invS d \<Longrightarrow> TxnsDB_Get B txid d = Inr x \<Longrightarrow> aTxns (absS d) txid = Some x"
  by (auto simp: TxnsDB_Get_def txn_get_step split: option.splits)

lemma txn_UpdateHeight_step:
  assumes "invS d" and "TxnsDB_UpdateHeight B txid h t d = (d', r)"
  shows "invS d' \<and> absS d' = (if isl r then absS d
    else (absS d)\<lparr>aTxns := alter (aTxns (absS d)) txid (\<lambda>x. x\<lparr>Height := h, Timestamp := t\<rparr>)\<rparr>)"
proof (cases "aTxns (absS d) txid")
  case None
  then show ?thesis
    using assms(2) txn_get_step [OF assms(1), of txid] assms(1) by (auto simp: TxnsDB_UpdateHeight_def)
next
  case (Some x)
  have "(txn_rec x)\<lparr>tTimestamp := t, tHeight := h\<rparr> = txn_rec (x\<lparr>Height := h, Timestamp := t\<rparr>)"
    by (simp add: txn_rec_def)
  then have "TxnsDB_put B (txn_rec (x\<lparr>Height := h, Timestamp := t\<rparr>)) d = (d', r)"
    using assms(2) Some txn_get_step [OF assms(1), of txid] by (simp add: TxnsDB_UpdateHeight_def)
  from txn_put_step [OF assms(1) this] show ?thesis
    using Some txn_wf [OF assms(1) Some] by (simp add: alter_present)
qed

lemma txn_Delete_step:
  assumes "invS d" and "TxnsDB_Delete B txid d = (d', r)"
  shows "invS d' \<and> absS d' = (if isl r then absS d else (absS d)\<lparr>aTxns := (aTxns (absS d))(txid := None)\<rparr>)"
  using delete_done [OF assms(1) _ assms(2) [unfolded TxnsDB_Delete_def TxnsDB_delete_def]] assms(1)
  by (auto simp: bolt_inv_def bolt_abs_def txn_rows.rows_delete txn_rows.bok_delete bkt_names)

lemma T_GetAll_law:
  assumes "invS d" and "TxnsDB_GetAll B all d = Inr xs"
  shows "lists_map Txid xs (\<lambda>k. case aTxns (absS d) k of None \<Rightarrow> None
    | Some x \<Rightarrow> if TWatchOnly x \<and> \<not> all then None else Some x)"
proof -
  have some: "bkt d txnsBkt = Some (the (bkt d txnsBkt))"
    by (rule bolt_inv_bucket [OF assms(1)]) simp
  have "txn_rows.bok (the (bkt d txnsBkt))"
    using assms by (simp add: bolt_inv_def)
  then obtain ys where ys: "cursor_loop (\<lambda>v. txn_dec (the v)) (bkt_Cursor B txnsBkt d) = Inr ys"
      "lists_map Txid ys (aTxns (absS d))"
    using txn_rows.cursor_rows [OF _ BCursor [OF some]] by (auto simp: bolt_abs_def)
  have "cursor_loop (\<lambda>v. thenR (Unmarshal_txn v) (\<lambda>r. Inr (rec_txn r))) (bkt_Cursor B txnsBkt d) = Inr ys"
    using ys(1) by (subst cursor_loop_cong [where g = "\<lambda>v. txn_dec (the v)"]) (simp_all add: txn_dec_def)
  then have "thenR (TxnsDB_getAll B d) (map_result (\<lambda>r. Inr (rec_txn r))) = Inr ys"
    by (simp add: TxnsDB_getAll_def getAll_values_bkt [OF some] map_result_cursor)
  moreover have "map_result (\<lambda>r. Inr (rec_txn r)) rs = Inr (map rec_txn rs)" for rs
    by (induction rs) simp_all
  ultimately obtain rs where rs: "TxnsDB_getAll B d = Inr rs" "ys = map rec_txn rs"
    by (auto simp: thenR_eq_Inr)
  have "xs = filter (\<lambda>x. \<not> (TWatchOnly x \<and> \<not> all)) ys"
    using assms(2) rs by (simp add: TxnsDB_GetAll_def filter_map comp_def rec_txn_def)
  moreover have "(if \<not> (TWatchOnly x \<and> \<not> all) then Some x else None) =
      (if TWatchOnly x \<and> \<not> all then None else Some x)" for x :: Txn
    by simp
  ultimately show ?thesis
    using lists_map_filter [OF ys(2), of "\<lambda>x. \<not> (TWatchOnly x \<and> \<not> all)"] by (simp only:)
qed

end

sublocale bolt_store \<subseteq> T: txn_store "DS_Txns (BoltDatastore H C nonce B)" "\<lambda>d. bolt_abs H (bkt d)"
  "\<lambda>d. bolt_inv H (bkt d)" "\<lambda>t. t" for C nonce
  by (unfold_locales; (unfold setup_simps)?)
    (erule (1) txn_Put_step txn_UpdateHeight_step txn_Delete_step txn_Get_law T_GetAll_law)+

context bolt_store
begin

lemma sub_Put_step:
  assumes "invS d" and "SubscriptionsDB_Put B s d = (d', r)"
  shows "invS d' \<and> absS d' = (if isl r then absS d else (absS d)\<lparr>aSubs := (aSubs (absS d))(PkScript s \<mapsto> s)\<rparr>)"
proof -
  have "put_value B subscriptionsBkt (str_bytes (PkScript s)) (VSub (sub_rec s)) d = (d', r)"
    using assms(2) by (simp add: SubscriptionsDB_Put_def SubscriptionsDB_put_def sub_rec_def)
  from put_done [OF assms(1) _ this] show ?thesis
    using assms(1) sub_rows.bok_put [of _ s]
    by (auto simp: bolt_inv_def bolt_abs_def sub_rows.rows_put bkt_names)
qed

lemma sub_Delete_step:
  assumes "invS d" and "SubscriptionsDB_Delete B k d = (d', r)"
  shows "invS d' \<and> absS d' = (if isl r then absS d else (absS d)\<lparr>aSubs := (aSubs (absS d))(k := None)\<rparr>)"
  using delete_done [OF assms(1) _ assms(2) [unfolded SubscriptionsDB_Delete_def SubscriptionsDB_delete_def]] assms(1)
  by (auto simp: bolt_inv_def bolt_abs_def sub_rows.rows_delete sub_rows.bok_delete bkt_names)

lemma rec_sub_rec [simp]: "rec_sub (sub_rec s) = s"
  by (simp add: rec_sub_def sub_rec_def)

lemma sub_Get_law:
  assumes "invS d" and "SubscriptionsDB_Get B k d = Inr s"
  shows "aSubs (absS d) k = Some s"
proof -
  have "SubscriptionsDB_get B k d = Unmarshal_sub ((the (bkt d subscriptionsBkt)) (str_bytes k))"
    using get_value_bkt [OF bolt_inv_bucket [OF assms(1)], of subscriptionsBkt] by (simp add: SubscriptionsDB_get_def)
  moreover have "sub_rows.bok (the (bkt d subscriptionsBkt))"
    using assms by (simp add: bolt_inv_def)
  ultimately show ?thesis
    using assms(2) sub_rows.bok_get [of "the (bkt d subscriptionsBkt)" k]
    by (cases "rows (\<lambda>_. True) str_bytes sub_dec (the (bkt d subscriptionsBkt)) k")
      (auto simp: SubscriptionsDB_Get_def bolt_abs_def)
qed

lemma sub_getAll_rows:
  assumes "invS d"
  obtains rs where "SubscriptionsDB_getAll B d = Inr rs" "lists_map PkScript (map rec_sub rs) (aSubs (absS d))"
proof -
  have some: "bkt d subscriptionsBkt = Some (the (bkt d subscriptionsBkt))"
    by (rule bolt_inv_bucket [OF assms(1)]) simp
  have "sub_rows.bok (the (bkt d subscriptionsBkt))"
    using assms by (simp add: bolt_inv_def)
  then obtain ys where ys: "cursor_loop (\<lambda>v. sub_dec (the v)) (bkt_Cursor B subscriptionsBkt d) = Inr ys"
      "lists_map PkScript ys (aSubs (absS d))"
    using sub_rows.cursor_rows [OF _ BCursor [OF some]] by (auto simp: bolt_abs_def)
  have "cursor_loop (\<lambda>v. thenR (Unmarshal_sub v) (\<lambda>r. Inr (rec_sub r))) (bkt_Cursor B subscriptionsBkt d) = Inr ys"
    using ys(1) by (subst cursor_loop_cong [where g = "\<lambda>v. sub_dec (the v)"]) (simp_all add: sub_dec_def)
  then have "thenR (SubscriptionsDB_getAll B d) (map_result (\<lambda>r. Inr (rec_sub r))) = Inr ys"
    by (simp add: SubscriptionsDB_getAll_def getAll_values_bkt [OF some] map_result_cursor)
  moreover have "map_result (\<lambda>r. Inr (rec_sub r)) rs = Inr (map rec_sub rs)" for rs
    by (induction rs) simp_all
  ultimately obtain rs where "SubscriptionsDB_getAll B d = Inr rs" "map rec_sub rs = ys"
    by (auto simp: thenR_eq_Inr)
  then show ?thesis
    using that ys(2) by blast
qed

lemma Sub_GetAll_law:
  assumes "invS d" and "SubscriptionsDB_GetAll B d = Inr ss"
  shows "lists_map PkScript ss (aSubs (absS d))"
proof -
  obtain rs where "SubscriptionsDB_getAll B d = Inr rs" "lists_map PkScript (map rec_sub rs) (aSubs (absS d))"
    using sub_getAll_rows [OF assms(1)] .
  then show ?thesis
    using assms(2) by (simp add: SubscriptionsDB_GetAll_def)
qed

lemma Sub_GetElectrumScripthash_law:
  assumes "invS d" and "SubscriptionsDB_GetElectrumScripthash B e d = Inr s"
  shows "ElectrumScripthash s = e \<and> aSubs (absS d) (PkScript s) = Some s"
proof -
  obtain rs where rs: "SubscriptionsDB_getAll B d = Inr rs" "lists_map PkScript (map rec_sub rs) (aSubs (absS d))"
    using sub_getAll_rows [OF assms(1)] .
  obtain r where r: "List.find (\<lambda>srec. e = bElectrumScripthash srec) rs = Some r" "s = rec_sub r"
    using assms(2) rs(1) by (auto simp: SubscriptionsDB_GetElectrumScripthash_def split: option.splits)
  then have "r \<in> set rs" "bElectrumScripthash r = e"
    using find_Some_mem [OF r(1)] by auto
  then show ?thesis
    using lists_map_mem [OF rs(2), of s] r(2) by (auto simp: rec_sub_def)
qed

text \<open>The sorted list of key records holds every row of the bucket once.\<close>

lemma getAllSorted_rows:
  assumes "invS d"
  obtains rs where "KeysDB_getAllSorted B d = Inr rs" "sorted (map kKeyIndex rs)"
    "\<forall>r \<in> set rs. wf_krec r" "distinct (map kScriptAddress rs)"
    "\<And>sa kp u. aKeys (absS d) sa = Some (kp, u) \<longleftrightarrow>
       (\<exists>r \<in> set rs. kScriptAddress r = sa \<and> krec_path r = (kp, u))"
proof -
  have some: "bkt d keysBkt = Some (the (bkt d keysBkt))"
    by (rule bolt_inv_bucket [OF assms(1)]) simp
  have "key_rows.bok (the (bkt d keysBkt))"
    using assms by (simp add: bolt_inv_def)
  then obtain ys where ys: "cursor_loop (\<lambda>v. key_dec (the v)) (bkt_Cursor B keysBkt d) = Inr ys"
      "\<forall>r \<in> set ys. wf_krec r"
      "lists_map kScriptAddress ys (rows (\<lambda>sa. length sa = 20) (\<lambda>sa. sa) key_dec (the (bkt d keysBkt)))"
    using key_rows.cursor_rows [OF _ BCursor [OF some]] by blast
  define rs where "rs = sort_key kKeyIndex ys"
  have lm: "lists_map kScriptAddress rs (rows (\<lambda>sa. length sa = 20) (\<lambda>sa. sa) key_dec (the (bkt d keysBkt)))"
    unfolding rs_def by (rule lists_map_sort [OF ys(3)])
  have "KeysDB_getAllSorted B d = Inr rs"
    using bolt_inv_bucket [OF assms(1), of keysBkt]
    by (cases "bkt d keysBkt") (simp_all add: KeysDB_getAllSorted_def View Bucket ForEach_keys_ok [OF ys(1)] rs_def)
  moreover have "aKeys (absS d) sa = Some (kp, u) \<longleftrightarrow>
      (\<exists>r \<in> set rs. kScriptAddress r = sa \<and> krec_path r = (kp, u))" for sa kp u
  proof -
    have "aKeys (absS d) sa = Some (kp, u) \<longleftrightarrow>
        (\<exists>r. rows (\<lambda>sa. length sa = 20) (\<lambda>sa. sa) key_dec (the (bkt d keysBkt)) sa = Some r \<and> krec_path r = (kp, u))"
      by (simp add: bolt_abs_def)
    then show ?thesis
      using lm unfolding lists_map_def by blast
  qed
  ultimately show ?thesis
    using that ys(2) lm by (simp add: rs_def lists_map_def)
qed

end

lemma krec_path_simp: "krec_path r = (\<lparr>Change = p, Index = i\<rparr>, u) \<longleftrightarrow> kPurpose r = p \<and> kKeyIndex r = i \<and> kUsed r = u"
  by (auto simp: krec_path_def)

context bolt_store
begin

lemma key_put_step:
  assumes "invS d" and "wf_krec r" and "KeysDB_put B r d = (d', res)"
  shows "invS d' \<and> absS d' =
    (if isl res then absS d else (absS d)\<lparr>aKeys := (aKeys (absS d))(kScriptAddress r \<mapsto> krec_path r)\<rparr>)"
proof -
  have "put_value B keysBkt (kScriptAddress r) (VKey r) d = (d', res)"
    using assms(2,3) by (simp add: KeysDB_put_def wf_krec_def)
  from put_done [OF assms(1) _ this] have "bkt d' = (if isl res then bkt d
      else (bkt d)(keysBkt \<mapsto> (the (bkt d keysBkt))(kScriptAddress r \<mapsto> VKey r)))"
    by simp
  then show ?thesis
    using assms(1) key_rows.bok_put [OF _ assms(2)]
    by (auto simp: bolt_inv_def bolt_abs_def key_rows.rows_put [OF assms(2)] bkt_names fun_upd_comp)
qed

lemma key_Put_step:
  assumes "invS d" and "length sa = 20" and "Change kp \<in> {EXTERNAL, INTERNAL}"
    and "KeysDB_Put B sa kp d = (d', res)"
  shows "invS d' \<and> absS d' = (if isl res then absS d else (absS d)\<lparr>aKeys := (aKeys (absS d))(sa \<mapsto> (kp, False))\<rparr>)"
  using key_put_step [OF assms(1) _ assms(4) [unfolded KeysDB_Put_def]] assms(2,3)
  by (cases kp) (simp add: wf_krec_def krec_path_def)

lemma key_wf:
  assumes "invS d" and "aKeys (absS d) sa = Some (kp, u)"
  shows "length sa = 20 \<and> Change kp \<in> {EXTERNAL, INTERNAL}"
proof -
  obtain rs where "\<forall>r \<in> set rs. wf_krec r"
    "\<And>sa kp u. aKeys (absS d) sa = Some (kp, u) \<longleftrightarrow> (\<exists>r \<in> set rs. kScriptAddress r = sa \<and> krec_path r = (kp, u))"
    using getAllSorted_rows [OF assms(1)] by metis
  then show ?thesis
    using assms(2) by (auto simp: wf_krec_def krec_path_def)
qed

lemma key_finite: "invS d \<Longrightarrow> finite (dom (aKeys (absS d)))"
proof -
  assume d: "invS d"
  obtain rs where "\<And>sa kp u. aKeys (absS d) sa = Some (kp, u) \<longleftrightarrow>
      (\<exists>r \<in> set rs. kScriptAddress r = sa \<and> krec_path r = (kp, u))"
    using getAllSorted_rows [OF d] by metis
  then have "dom (aKeys (absS d)) \<subseteq> kScriptAddress ` set rs"
    by auto
  then show ?thesis
    by (rule finite_subset) simp
qed

lemma key_get_step:
  assumes "invS d"
  shows "KeysDB_get B sa d = (if length sa \<noteq> 20 then Inl (Err ''bad key length'')
    else (case rows (\<lambda>sa. length sa = 20) (\<lambda>sa. sa) key_dec (the (bkt d keysBkt)) sa of
            None \<Rightarrow> Inl (Err ''unexpected end of JSON input'') | Some r \<Rightarrow> Inr r))"
proof -
  have "get_value B keysBkt sa Unmarshal_key d = Unmarshal_key ((the (bkt d keysBkt)) sa)"
    using get_value_bkt [OF bolt_inv_bucket [OF assms], of keysBkt] by simp
  moreover have "key_rows.bok (the (bkt d keysBkt))"
    using assms by (simp add: bolt_inv_def)
  ultimately show ?thesis
    using key_rows.bok_get [of "the (bkt d keysBkt)" sa] by (simp add: KeysDB_get_def split: option.split)
qed

lemma key_Mark_step:
  assumes "invS d" and "KeysDB_MarkKeyAsUsed B sa d = (d', res)"
  shows "invS d' \<and> absS d' = (if isl res then absS d
    else (absS d)\<lparr>aKeys := alter (aKeys (absS d)) sa (\<lambda>(kp, u). (kp, True))\<rparr>)"
proof (cases "KeysDB_get B sa d")
  case (Inl e)
  then show ?thesis
    using assms by (auto simp: KeysDB_MarkKeyAsUsed_def)
next
  case (Inr r)
  then have row: "rows (\<lambda>sa. length sa = 20) (\<lambda>sa. sa) key_dec (the (bkt d keysBkt)) sa = Some r"
    using key_get_step [OF assms(1), of sa] by (auto split: if_splits option.splits)
  have "key_rows.bok (the (bkt d keysBkt))"
    using assms(1) by (simp add: bolt_inv_def)
  then have r: "wf_krec r" "kScriptAddress r = sa"
    using key_rows.rows_ok [OF _ row] by auto
  have "KeysDB_put B (r\<lparr>kUsed := True\<rparr>) d = (d', res)"
    using assms(2) Inr by (simp add: KeysDB_MarkKeyAsUsed_def)
  from key_put_step [OF assms(1) _ this] show ?thesis
    using r row by (simp add: wf_krec_def alter_def bolt_abs_def krec_path_def)
qed

lemma key_path_law:
  assumes "invS d" and "KeysDB_GetPathForKey B sa d = Inr kp"
  shows "\<exists>u. aKeys (absS d) sa = Some (kp, u)"
  using assms(2) key_get_step [OF assms(1), of sa]
  by (auto simp: KeysDB_GetPathForKey_def bolt_abs_def krec_path_def thenR_eq_Inr split: if_splits option.splits)

lemma key_last_law:
  assumes "invS d" and "KeysDB_GetLastKeyIndex B p d = Inr (i, u)"
  shows "(\<exists>sa. aKeys (absS d) sa = Some (\<lparr>Change = p, Index = i\<rparr>, u)) \<and>
    next_key (absS d) \<lparr>Change = p, Index = i + 1\<rparr>"
proof -
  obtain rs where rs: "KeysDB_getAllSorted B d = Inr rs" "sorted (map kKeyIndex rs)"
    "\<And>sa kp u. aKeys (absS d) sa = Some (kp, u) \<longleftrightarrow> (\<exists>r \<in> set rs. kScriptAddress r = sa \<and> krec_path r = (kp, u))"
    using getAllSorted_rows [OF assms(1)] by metis
  let ?ps = "filter (\<lambda>krec. kPurpose krec = p) rs"
  have l: "?ps \<noteq> []" "i = kKeyIndex (last ?ps)" "u = kUsed (last ?ps)"
    using assms(2) rs(1) by (auto simp: KeysDB_GetLastKeyIndex_def Let_def split: if_splits)
  have "last ?ps \<in> set ?ps"
    by (rule last_in_set [OF l(1)])
  moreover have "kKeyIndex r \<le> i" if "r \<in> set ?ps" for r
    unfolding l(2) using that by (intro sorted_last_max sorted_filter rs(2))
  ultimately show ?thesis
    using l(2,3) rs(3) by (fastforce simp: next_key_def krec_path_simp)
qed

lemma key_none_law:
  assumes "invS d" and "KeysDB_GetLastKeyIndex B p d = Inl e"
  shows "next_key (absS d) \<lparr>Change = p, Index = 0\<rparr>"
proof -
  obtain rs where rs: "KeysDB_getAllSorted B d = Inr rs"
    "\<And>sa kp u. aKeys (absS d) sa = Some (kp, u) \<longleftrightarrow> (\<exists>r \<in> set rs. kScriptAddress r = sa \<and> krec_path r = (kp, u))"
    using getAllSorted_rows [OF assms(1)] by metis
  have "filter (\<lambda>krec. kPurpose krec = p) rs = []"
    using assms(2) rs(1) by (auto simp: KeysDB_GetLastKeyIndex_def Let_def split: if_splits)
  then show ?thesis
    using rs(2) by (auto simp: next_key_def krec_path_simp filter_empty_conv)
qed

lemma key_unused_law:
  assumes "invS d" and "KeysDB_GetUnused B p d = Inr is"
  shows "set is = {i. \<exists>sa. aKeys (absS d) sa = Some (\<lparr>Change = p, Index = i\<rparr>, False)}"
proof -
  obtain rs where rs: "KeysDB_getAllSorted B d = Inr rs"
    "\<And>sa kp u. aKeys (absS d) sa = Some (kp, u) \<longleftrightarrow> (\<exists>r \<in> set rs. kScriptAddress r = sa \<and> krec_path r = (kp, u))"
    using getAllSorted_rows [OF assms(1)] by metis
  have "set is = kKeyIndex ` {r \<in> set rs. p = kPurpose r \<and> \<not> kUsed r}"
    using assms(2) rs(1) by (auto simp: KeysDB_GetUnused_def)
  then show ?thesis
    unfolding rs(2) krec_path_simp by auto
qed

lemma key_all_law:
  assumes "invS d" and "KeysDB_GetAll B d = Inr kps"
  shows "set kps = fst ` ran (aKeys (absS d))"
proof -
  obtain rs where rs: "KeysDB_getAllSorted B d = Inr rs"
    "\<And>sa kp u. aKeys (absS d) sa = Some (kp, u) \<longleftrightarrow> (\<exists>r \<in> set rs. kScriptAddress r = sa \<and> krec_path r = (kp, u))"
    using getAllSorted_rows [OF assms(1)] by metis
  have "ran (aKeys (absS d)) = krec_path ` set rs"
  proof -
    have "ran (aKeys (absS d)) = {(kp, u). \<exists>sa. aKeys (absS d) sa = Some (kp, u)}"
      by (auto simp: ran_def)
    then show ?thesis
      unfolding rs(2) by (auto intro: rev_image_eqI) blast
  qed
  moreover have "set kps = (\<lambda>r. fst (krec_path r)) ` set rs"
    using assms(2) rs(1) by (auto simp: KeysDB_GetAll_def krec_path_def)
  ultimately show ?thesis
    by (simp add: image_image)
qed

lemma key_windows_count:
  assumes "invS d" and "KeysDB_GetLookaheadWindows B d p = Some n"
  shows "n = int (card (unused_keys (absS d) p))"
proof -
  obtain rs where rs: "KeysDB_getAllSorted B d = Inr rs" "\<forall>r \<in> set rs. wf_krec r" "distinct (map kScriptAddress rs)"
    "\<And>sa kp u. aKeys (absS d) sa = Some (kp, u) \<longleftrightarrow> (\<exists>r \<in> set rs. kScriptAddress r = sa \<and> krec_path r = (kp, u))"
    using getAllSorted_rows [OF assms(1)] by metis
  let ?un = "\<lambda>q. filter (\<lambda>r. \<not> kUsed r \<and> kPurpose r = q) rs"
  have "unused_keys (absS d) q = kScriptAddress ` set (?un q)" for q
    using rs(4) by (auto simp: unused_keys_def krec_path_simp)
  then have un: "card (unused_keys (absS d) q) = length (?un q)" for q
    using length_filter_card [OF rs(3)] by simp
  have "filter (\<lambda>r. kPurpose r \<noteq> EXTERNAL) (filter (\<lambda>r. \<not> kUsed r) rs) = ?un INTERNAL"
    using rs(2) by (auto simp: wf_krec_def EXTERNAL_def INTERNAL_def intro!: filter_cong)
  moreover have "filter (\<lambda>r. kPurpose r = EXTERNAL) (filter (\<lambda>r. \<not> kUsed r) rs) = ?un EXTERNAL"
    by (auto intro!: filter_cong)
  ultimately show ?thesis
    using assms(2) un [of EXTERNAL] un [of INTERNAL]
    by (auto simp: KeysDB_GetLookaheadWindows_def rs(1) Let_def EXTERNAL_def INTERNAL_def split: if_splits)
qed

lemma key_windows_dom: "dom (KeysDB_GetLookaheadWindows B d) = {EXTERNAL, INTERNAL}"
  by (auto simp: KeysDB_GetLookaheadWindows_def Let_def EXTERNAL_def INTERNAL_def split: sum.splits if_splits)

end

sublocale bolt_store \<subseteq> K: key_store "DS_Keys (BoltDatastore H C nonce B)" "\<lambda>d. bolt_abs H (bkt d)"
  "\<lambda>d. bolt_inv H (bkt d)" for C nonce
  apply (unfold_locales; (unfold setup_simps)?)
  subgoal by (rule key_Put_step)
  subgoal by (erule (1) key_Mark_step)
  subgoal by (erule (1) key_last_law)
  subgoal by (erule (1) key_none_law)
  subgoal by (erule (1) key_path_law)
  subgoal by (erule (1) key_unused_law)
  subgoal by (erule (1) key_all_law)
  subgoal by (drule (1) key_windows_count) simp
  subgoal by (rule key_windows_dom)
  subgoal by (erule key_finite)
  subgoal by (erule (1) key_wf)
  done

sublocale bolt_store \<subseteq> Sub: sub_store "DS_Subscriptions (BoltDatastore H C nonce B)" "\<lambda>d. bolt_abs H (bkt d)"
  "\<lambda>d. bolt_inv H (bkt d)" for C nonce
  by (unfold_locales; (unfold setup_simps)?)
    (erule (1) sub_Put_step sub_Delete_step sub_Get_law Sub_GetElectrumScripthash_law Sub_GetAll_law)+

end
