(* ===== verification/Bolt_Props.thy ===== *)
theory Bolt_Props
  imports Bolt_Laws "HOL-Library.AList"
begin

text \<open>
  A reference bbolt held in memory, which satisfies the laws of \<open>bolt_db\<close>, and the properties of the
  bbolt datastore: its coin table refines a map from outpoints to coins, and the encrypted storage
  gives back what was put under the same password.
\<close>

section \<open>A database in memory\<close>

type_synonym mem_db = "(string \<times> (bytes \<times> bval) list) list"

definition mem_bolt :: "mem_db bolt" where
  "mem_bolt =
     \<lparr>tx_Bucket = (\<lambda>n d. map_of d n \<noteq> None),
      tx_CreateBucketIfNotExists = (\<lambda>n d. Inr (if map_of d n = None then (n, []) # d else d)),
      bkt_Put = (\<lambda>n k v d. case map_of d n of None \<Rightarrow> Inl (Err ''no bucket'')
        | Some kvs \<Rightarrow> if k = [] then Inl (Err ''key required'') else Inr ((n, (k, v) # kvs) # d)),
      bkt_Get = (\<lambda>n k d. case map_of d n of None \<Rightarrow> None | Some kvs \<Rightarrow> map_of kvs k),
      bkt_Cursor = (\<lambda>n d. case map_of d n of None \<Rightarrow> [] | Some kvs \<Rightarrow> AList.clearjunk kvs),
      bkt_Delete = (\<lambda>n k d. case map_of d n of None \<Rightarrow> Inl (Err ''no bucket'')
        | Some kvs \<Rightarrow> Inr ((n, filter (\<lambda>kv. fst kv \<noteq> k) kvs) # d)),
      db_Update = (\<lambda>f d. case f d of Inl e \<Rightarrow> (d, Inl e) | Inr d' \<Rightarrow> (d', Inr ())),
      db_View = (\<lambda>d. Inr ())\<rparr>"

definition mem_bkt :: "mem_db \<Rightarrow> string \<Rightarrow> (bytes \<rightharpoonup> bval) option" where
  "mem_bkt d n = map_option map_of (map_of d n)"

lemma map_of_filter_key: "map_of (filter (\<lambda>kv. fst kv \<noteq> k) kvs) = (map_of kvs)(k := None)"
  by (induction kvs) (auto simp: fun_eq_iff)

interpretation mem: bolt_store mem_bolt mem_bkt chainhash_lib
proof unfold_locales
  fix n d m
  assume "mem_bkt d n = Some m"
  then show "distinct (map fst (bkt_Cursor mem_bolt n d)) \<and> map_of (bkt_Cursor mem_bolt n d) = m"
    by (auto simp: mem_bkt_def mem_bolt_def map_of_clearjunk distinct_clearjunk)
qed (auto simp: mem_bolt_def mem_bkt_def fun_eq_iff map_of_filter_key split: option.splits sum.splits if_splits)

definition ex_bolt :: mem_db where
  "ex_bolt = initDatabaseBuckets mem_bolt []"

lemma ex_bolt_eq: "ex_bolt = [(encBkt, []), (configBkt, []), (subscriptionsBkt, []), (txnsBkt, []),
    (stxosBkt, []), (utxosBkt, []), (keysBkt, [])]"
  by (simp add: ex_bolt_def initDatabaseBuckets_def create_bucket_def mem_bolt_def bkt_names)

lemma ex_bolt_inv: "bolt_inv chainhash_lib (mem_bkt ex_bolt)"
  by (simp add: bolt_inv_def ex_bolt_eq mem_bkt_def bkt_names bucket_ok_def)

section \<open>The coin table\<close>

text \<open>C6: the coin bucket of the bbolt datastore refines a map from outpoints to coins: \<open>GetAll\<close> lists
  every coin of the map once, \<open>Put\<close> enters the coin, \<open>Freeze\<close> and \<open>UnFreeze\<close> change the flag of that coin
  alone, \<open>Delete\<close> removes it, and an operation that returns an error changes nothing.\<close>

theorem bolt_utxos_refine:
  assumes "bolt_store B bkt H" and "bolt_inv H (bkt d)" and "wf_utxo u"
  defines "coins \<equiv> \<lambda>d. aUtxos (bolt_abs H (bkt d))"
  shows "(\<exists>us. UtxoDB_GetAll H B d = Inr us \<and> lists_map Op us (coins d)) \<and>
    (\<forall>d' r. UtxoDB_Put H B u d = (d', r) \<longrightarrow>
       bolt_inv H (bkt d') \<and> coins d' = (if isl r then coins d else (coins d)(Op u \<mapsto> u))) \<and>
    (\<forall>d' r. UtxoDB_Freeze H B u d = (d', r) \<longrightarrow> bolt_inv H (bkt d') \<and>
       coins d' = (if isl r then coins d else alter (coins d) (Op u) (\<lambda>v. v\<lparr>Frozen := True\<rparr>))) \<and>
    (\<forall>d' r. UtxoDB_UnFreeze H B u d = (d', r) \<longrightarrow> bolt_inv H (bkt d') \<and>
       coins d' = (if isl r then coins d else alter (coins d) (Op u) (\<lambda>v. v\<lparr>Frozen := False\<rparr>))) \<and>
    (\<forall>d' r. UtxoDB_Delete H B u d = (d', r) \<longrightarrow> bolt_inv H (bkt d') \<and>
       coins d' = (if isl r then coins d else (coins d)(Op u := None)))"
proof (intro conjI)
  obtain us where "UtxoDB_GetAll H B d = Inr us" "lists_map Op us (coins d)"
    using bolt_store.U_GetAll_rows [OF assms(1,2)] unfolding coins_def by metis
  then show "\<exists>us. UtxoDB_GetAll H B d = Inr us \<and> lists_map Op us (coins d)" by blast
qed (use bolt_store.utxo_Put_step [OF assms(1-3)] bolt_store.utxo_Freeze_step [OF assms(1-3)]
    bolt_store.utxo_UnFreeze_step [OF assms(1-3)] bolt_store.utxo_Delete_step [OF assms(1-3)]
    in \<open>simp_all add: coins_def\<close>)

definition ex_utxo :: Utxo where
  "ex_utxo = \<lparr>Op = ex_op, AtHeight = 100, UValue = 5000, ScriptPubkey = [0, 20], WatchOnly = False, Frozen = False\<rparr>"

theorem bolt_utxos_refine_witness:
  "\<exists>us. UtxoDB_GetAll chainhash_lib mem_bolt ex_bolt = Inr us \<and>
     lists_map Op us (aUtxos (bolt_abs chainhash_lib (mem_bkt ex_bolt)))"
  using bolt_utxos_refine [OF mem.bolt_store_axioms ex_bolt_inv, of ex_utxo]
  by (simp add: ex_utxo_def wf_utxo_def wf_op_def ex_op_def)

section \<open>The encrypted storage\<close>

text \<open>What \<open>secretbox\<close> and \<open>argon2\<close> promise: a key of 32 bytes, and a box opens under its own key and nonce
  only.\<close>

locale secret_box =
  fixes C :: crypto_lib
  assumes IDKey_length: "length (IDKey C pw) = 32"
    and open_sealed: "length k = 32 \<Longrightarrow> length k' = 32 \<Longrightarrow>
      secretbox_Open C (secretbox_Seal C m nonce k) nonce k' = (if k' = k then Some m else None)"
begin

lemma decrypt_encrypt:
  "length nonce = 24 \<Longrightarrow> decryptBytes C (encryptBytes C nonce b pw) pw' =
     (if IDKey C pw' = IDKey C pw then Inr b else Inl (Err ''secretbox decryption error''))"
  by (simp add: decryptBytes_def encryptBytes_def open_sealed IDKey_length)

end

locale bolt_enc = bolt_store + secret_box C for C :: crypto_lib +
  fixes nonce :: bytes
  assumes nonce_length: "length nonce = 24"
begin

lemma enc_value:
  assumes "bolt_inv H (bkt d)"
  shows "EncDB_GetDecrypted C B pw d =
    (case aEnc (bolt_abs H (bkt d)) of None \<Rightarrow> decryptBytes C [] pw | Some raw \<Rightarrow> decryptBytes C raw pw)"
proof -
  obtain m where m: "bkt d encBkt = Some m"
    using assms by (auto simp: bolt_inv_def)
  have "raw_value v = Inr (case v of Some (VRaw raw) \<Rightarrow> raw | _ \<Rightarrow> [])" for v
    by (cases v rule: raw_value.cases) auto
  then show ?thesis
    using m by (auto simp: EncDB_GetDecrypted_def get_value_bkt [OF m] bolt_abs_def split: option.splits bval.splits)
qed

lemma enc_Put_law:
  assumes "bolt_inv H (bkt d)" and "EncDB_PutEncrypted C nonce B b pw d = (d', r)"
  shows "bolt_inv H (bkt d') \<and> (if isl r then bolt_abs H (bkt d') = bolt_abs H (bkt d)
    else (\<exists>raw. bolt_abs H (bkt d') = (bolt_abs H (bkt d))\<lparr>aEnc := Some raw\<rparr> \<and> decryptBytes C raw pw = Inr b \<and>
      (\<forall>pw'. IDKey C pw \<noteq> IDKey C pw' \<longrightarrow> isl (decryptBytes C raw pw'))))"
proof -
  obtain m where m: "bkt d encBkt = Some m"
    using assms(1) by (auto simp: bolt_inv_def)
  have d': "bkt d' = (if isl r then bkt d else (bkt d)(encBkt \<mapsto> m(storageKey \<mapsto> VRaw (encryptBytes C nonce b pw))))"
    by (rule put_value_bkt [OF m assms(2) [unfolded EncDB_PutEncrypted_def]])
  show ?thesis
  proof (cases "isl r")
    case True
    then show ?thesis using assms(1) d' by simp
  next
    case False
    have "bolt_inv H (bkt d')"
      using assms(1) False by (simp add: d' bolt_inv_def bkt_names)
    moreover have "bolt_abs H (bkt d') = (bolt_abs H (bkt d))\<lparr>aEnc := Some (encryptBytes C nonce b pw)\<rparr>"
      using False by (simp add: d' bolt_abs_def bkt_names)
    ultimately show ?thesis
      using False decrypt_encrypt [OF nonce_length, of b pw] by auto
  qed
qed

end

lemma decrypt_Nil [simp]: "decryptBytes C [] pw = Inl (Panic ''slice bounds out of range'')"
  by (simp add: decryptBytes_def)

sublocale bolt_enc \<subseteq> Enc: enc_store "DS_Enc (BoltDatastore H C nonce B)" "\<lambda>d. bolt_abs H (bkt d)"
  "\<lambda>d. bolt_inv H (bkt d)" "decryptBytes C" "\<lambda>pw pw'. IDKey C pw = IDKey C pw'"
proof unfold_locales
  fix d b pw d' r
  assume "bolt_inv H (bkt d)" "PutEncrypted (DS_Enc (BoltDatastore H C nonce B)) b pw d = (d', r)"
  then show "bolt_inv H (bkt d') \<and> (if isl r then bolt_abs H (bkt d') = bolt_abs H (bkt d)
    else (\<exists>raw. bolt_abs H (bkt d') = (bolt_abs H (bkt d))\<lparr>aEnc := Some raw\<rparr> \<and> decryptBytes C raw pw = Inr b \<and>
      (\<forall>pw'. IDKey C pw \<noteq> IDKey C pw' \<longrightarrow> isl (decryptBytes C raw pw'))))"
    using enc_Put_law [of d b pw d' r] by (simp add: setup_simps)
qed (simp_all add: setup_simps enc_value)

sublocale bolt_store \<subseteq> Cfg: cfg_store "DS_Cfg (BoltDatastore H C nonce B)" "\<lambda>d. bolt_abs H (bkt d)"
  "\<lambda>d. bolt_inv H (bkt d)" "\<lambda>t. t" for C nonce
proof unfold_locales
  fix d t d' r
  assume d: "bolt_inv H (bkt d)" and put: "PutCreationDate (DS_Cfg (BoltDatastore H C nonce B)) t d = (d', r)"
  obtain m where m: "bkt d configBkt = Some m"
    using d by (auto simp: bolt_inv_def)
  have "bkt d' = (if isl r then bkt d else (bkt d)(configBkt \<mapsto> m(creationKey \<mapsto> VTime t)))"
    using put_value_bkt [OF m] put by (simp add: setup_simps CfgDB_PutCreationDate_def)
  then show "bolt_inv H (bkt d') \<and>
      bolt_abs H (bkt d') = (if isl r then bolt_abs H (bkt d) else (bolt_abs H (bkt d))\<lparr>aCfg := Some t\<rparr>)"
    using d by (simp add: bolt_inv_def bolt_abs_def bkt_names)
next
  fix d t
  assume d: "bolt_inv H (bkt d)" and t: "aCfg (bolt_abs H (bkt d)) = Some t"
  obtain m where m: "bkt d configBkt = Some m"
    using d by (auto simp: bolt_inv_def)
  have "m creationKey = Some (VTime t)"
    using t m by (auto simp: bolt_abs_def split: option.splits bval.splits)
  then show "GetCreationDate (DS_Cfg (BoltDatastore H C nonce B)) d = Inr t"
    by (simp add: setup_simps CfgDB_GetCreationDate_def get_value_bkt [OF m])
qed

definition toy_crypto :: crypto_lib where
  "toy_crypto = \<lparr>IDKey = (\<lambda>pw. take 32 (str_bytes pw @ replicate 32 0)),
     secretbox_Seal = (\<lambda>m nonce k. k @ m),
     secretbox_Open = (\<lambda>c nonce k. if take (length k) c = k then Some (drop (length k) c) else None)\<rparr>"

interpretation toy_crypto: secret_box toy_crypto
  by unfold_locales (simp_all add: toy_crypto_def min_def)

interpretation mem_enc: bolt_enc mem_bolt mem_bkt chainhash_lib toy_crypto "replicate 24 7"
  by (intro bolt_enc.intro bolt_enc_axioms.intro mem.bolt_store_axioms toy_crypto.secret_box_axioms) simp

lemma storage_value:
  assumes "bolt_store B bkt H" and "bkt d encBkt = Some m"
  shows "EncDB_GetDecrypted C B pw d = thenR (raw_value (m storageKey)) (\<lambda>val. decryptBytes C val pw)"
  by (simp add: EncDB_GetDecrypted_def bolt_db.get_value_bkt [OF bolt_store.axioms(1) [OF assms(1)] assms(2)])

text \<open>C26: storage put under a password is read back under it; another password is refused, unless
  \<open>argon2\<close> derives the same key; and reading a wallet database in which no storage was ever put panics
  on the slice of the nonce instead of returning an error.\<close>

theorem storage_roundtrip:
  assumes "bolt_store B bkt H" and "bolt_inv H (bkt d)" and "secret_box C" and "length nonce = 24"
    and "EncDB_PutEncrypted C nonce B b pw d = (d', Inr ())"
  shows "EncDB_GetDecrypted C B pw d' = Inr b \<and>
    (IDKey C pw' \<noteq> IDKey C pw \<longrightarrow>
       EncDB_GetDecrypted C B pw' d' = Inl (Err ''secretbox decryption error'')) \<and>
    (the (bkt d encBkt) storageKey = None \<longrightarrow> is_panic (EncDB_GetDecrypted C B pw d))"
proof -
  obtain m where m: "bkt d encBkt = Some m"
    using assms(2) by (auto simp: bolt_inv_def)
  have "bkt d' = (bkt d)(encBkt \<mapsto> m(storageKey \<mapsto> VRaw (encryptBytes C nonce b pw)))"
    using bolt_db.put_value_bkt [OF bolt_store.axioms(1) [OF assms(1)] m assms(5) [unfolded EncDB_PutEncrypted_def]]
    by simp
  then have m': "bkt d' encBkt = Some (m(storageKey \<mapsto> VRaw (encryptBytes C nonce b pw)))"
    by simp
  show ?thesis
    using storage_value [OF assms(1) m'] storage_value [OF assms(1) m] m
    by (simp add: secret_box.decrypt_encrypt [OF assms(3,4)])
qed

theorem storage_roundtrip_witness:
  "EncDB_GetDecrypted toy_crypto mem_bolt ''pw''
     (fst (EncDB_PutEncrypted toy_crypto (replicate 24 7) mem_bolt [1, 2, 3] ''pw'' ex_bolt)) = Inr [1, 2, 3]"
  using storage_roundtrip [OF mem.bolt_store_axioms ex_bolt_inv toy_crypto.secret_box_axioms, of "replicate 24 7"
      "[1, 2, 3]" "''pw''" "fst (EncDB_PutEncrypted toy_crypto (replicate 24 7) mem_bolt [1, 2, 3] ''pw'' ex_bolt)"]
  by (simp add: EncDB_PutEncrypted_def put_value_def mem_bolt_def ex_bolt_eq bkt_names storageKey_def str_bytes_def)

end
