(* ===== verification/Sqlite_Laws.thy ===== *)
theory Sqlite_Laws
  imports Sqlite_Store Bolt_Props "HOL-Library.Multiset"
begin

text \<open>
  The sqlite tables keep the contracts of \<open>Store_Laws\<close> too.  \<open>sql_table_laws\<close> states what sqlite documents of
  a table with a primary key, \<open>sql_codec\<close> lifts the reading and writing of one row to a whole table and is
  interpreted on each kind of row, and the \<open>sublocale\<close>s give every interface of \<open>wallet/db\<close>.
\<close>

section \<open>What sqlite documents\<close>

text \<open>The rows of each table, in the order of their row ids.\<close>

record sql_tabs =
  tKeys :: "keysRow list"
  tUtxos :: "utxosRow list"
  tStxos :: "stxosRow list"
  tTxns :: "txnsRow list"
  tSubs :: "subscriptionsRow list"
  tConfig :: "configRow list"
  tEnc :: "encRow list"

definition replace_row :: "('r \<Rightarrow> 'p) \<Rightarrow> 'r \<Rightarrow> 'r list \<Rightarrow> 'r list" where
  "replace_row pk r trows = filter (\<lambda>x. pk x \<noteq> pk r) trows @ [r]"

text \<open>\<open>insert or replace\<close> removes the row with the key and adds the new one behind all others, \<open>insert\<close>
  refuses a key that is there.  A statement that fails changes nothing; a query of an open database gives
  the rows that meet its condition.\<close>

locale sql_table_laws =
  fixes T :: "('r, 'db) sql_table" and tabs :: "'db \<Rightarrow> sql_tabs" and trows :: "sql_tabs \<Rightarrow> 'r list"
    and trows_update :: "('r list \<Rightarrow> 'r list) \<Rightarrow> sql_tabs \<Rightarrow> sql_tabs" and pk :: "'r \<Rightarrow> string"
  assumes Replace: "sql_replace T r d = Inr d' \<Longrightarrow> tabs d' = trows_update (\<lambda>_. replace_row pk r (trows (tabs d))) (tabs d)"
    and Insert: "sql_insert T r d = Inr d' \<Longrightarrow> pk r \<notin> pk ` set (trows (tabs d)) \<and>
      tabs d' = trows_update (\<lambda>_. trows (tabs d) @ [r]) (tabs d)"
    and SUpdate: "(\<And>r. pk (f r) = pk r) \<Longrightarrow> sql_update T P f d = Inr d' \<Longrightarrow>
      tabs d' = trows_update (\<lambda>_. map (\<lambda>r. if P r then f r else r) (trows (tabs d))) (tabs d)"
    and SDelete: "sql_delete T P d = Inr d' \<Longrightarrow> tabs d' = trows_update (\<lambda>_. filter (\<lambda>r. \<not> P r) (trows (tabs d))) (tabs d)"
    and Select: "\<exists>rs. sql_select T P d = Inr rs \<and> mset rs = mset (filter P (trows (tabs d)))"
    and Select_rowid: "sql_select_rowid T P d = Inr (filter P (trows (tabs d)))"

text \<open>A transaction that is committed stays; preparing a statement of an open database succeeds.\<close>

locale sqlite_db =
  keys: sql_table_laws "keys_table S" tabs tKeys tKeys_update k_scriptAddress +
  utxos: sql_table_laws "utxos_table S" tabs tUtxos tUtxos_update u_outpoint +
  stxos: sql_table_laws "stxos_table S" tabs tStxos tStxos_update s_outpoint +
  txns: sql_table_laws "txns_table S" tabs tTxns tTxns_update t_txid +
  subs: sql_table_laws "subscriptions_table S" tabs tSubs tSubs_update b_scriptPubKey +
  config: sql_table_laws "config_table S" tabs tConfig tConfig_update g_key +
  enc: sql_table_laws "enc_table S" tabs tEnc tEnc_update e_key
  for S :: "'db sqldb" and tabs :: "'db \<Rightarrow> sql_tabs" +
  assumes Prepare: "sql_Prepare S d = Inr ()"
    and Commit: "tabs (sql_Commit S d d') = tabs d'"
begin

lemma sql_tx_effect:
  "sql_tx S b1 b2 stmt d = (d', r) \<Longrightarrow> isl r \<and> d' = d \<or> \<not> isl r \<and> (\<exists>d1. stmt d = Inr d1 \<and> tabs d' = tabs d1)"
proof -
  assume run: "sql_tx S b1 b2 stmt d = (d', r)"
  show ?thesis
  proof (cases "sql_Begin S d")
    case (Inl err)
    then have "r = (if b1 then Inl err else sql_nil)" "d' = d"
      using run by (simp_all add: sql_tx_def)
    then show ?thesis by (simp add: sql_nil_def)
  next
    case (Inr u)
    then have "(d', r) = (case stmt d of Inl err \<Rightarrow> (d, Inl err) | Inr d1 \<Rightarrow> (sql_Commit S d d1, Inr ()))"
      using run by (simp add: sql_tx_def Prepare)
    then show ?thesis
      by (cases "stmt d") (simp_all add: Commit)
  qed
qed

lemma sql_exec_effect: "sql_exec stmt d = (d', r) \<Longrightarrow> isl r \<and> d' = d \<or> \<not> isl r \<and> stmt d = Inr d'"
  by (auto simp: sql_exec_def split: sum.splits)

lemma sql_row_first: "sql_row S q d = first_row (q d)"
  by (simp add: sql_row_def Prepare)

end

section \<open>From records to tables\<close>

definition row_map :: "('a \<Rightarrow> 'i) \<Rightarrow> ('r \<Rightarrow> 'a option) \<Rightarrow> 'r list \<Rightarrow> ('i \<rightharpoonup> 'a)" where
  "row_map idx dec trows = map_of (map (\<lambda>a. (idx a, a)) (map (the \<circ> dec) trows))"

definition rows_ok :: "('a \<Rightarrow> bool) \<Rightarrow> ('a \<Rightarrow> 'i) \<Rightarrow> ('a \<Rightarrow> 'r) \<Rightarrow> 'r list \<Rightarrow> bool" where
  "rows_ok ok idx enc trows \<longleftrightarrow> (\<exists>as. trows = map enc as \<and> (\<forall>a \<in> set as. ok a) \<and> distinct (map idx as))"

lemma map_of_self: "distinct (map idx as) \<Longrightarrow> map_of (map (\<lambda>a. (idx a, a)) as) k = Some a \<longleftrightarrow> a \<in> set as \<and> idx a = k"
  by (subst map_of_eq_Some_iff) (auto simp: comp_def)

lemma map_of_self_filter: "map_of (map (\<lambda>a. (idx a, a)) (filter (\<lambda>a. idx a \<noteq> i) as)) = (map_of (map (\<lambda>a. (idx a, a)) as))(i := None)"
  by (induction as) auto

lemma map_of_self_new:
  "i \<notin> idx ` set as \<Longrightarrow> idx a = i \<Longrightarrow> map_of (map (\<lambda>a. (idx a, a)) (as @ [a])) = (map_of (map (\<lambda>a. (idx a, a)) as))(i \<mapsto> a)"
  by (induction as) auto

lemma map_of_self_update:
  "(\<And>v. v \<in> set as \<Longrightarrow> idx (g v) = idx v) \<Longrightarrow>
    map_of (map (\<lambda>a. (idx a, a)) (map (\<lambda>v. if idx v = i then g v else v) as)) = alter (map_of (map (\<lambda>a. (idx a, a)) as)) i g"
  by (induction as) (auto simp: alter_def)

lemma lists_map_self: "distinct (map idx as) \<Longrightarrow> lists_map idx as (map_of (map (\<lambda>a. (idx a, a)) as))"
  by (simp add: lists_map_def map_of_self)

lemma filter_self: "distinct (map idx as) \<Longrightarrow> a \<in> set as \<Longrightarrow> idx a = i \<Longrightarrow> filter (\<lambda>v. idx v = i) as = [a]"
proof (induction as)
  case (Cons b as)
  show ?case
  proof (cases "idx b = i")
    case True
    then have "\<forall>v \<in> set as. idx v \<noteq> i"
      using Cons.prems(1) by (metis distinct.simps(2) image_eqI list.set_map list.simps(9))
    then show ?thesis
      using True Cons.prems(2,3) by (auto simp: filter_empty_conv)
  next
    case False
    then show ?thesis
      using Cons by auto
  qed
qed simp

locale sql_codec =
  fixes ok :: "'a \<Rightarrow> bool" and idx :: "'a \<Rightarrow> 'i" and enc :: "'a \<Rightarrow> 'r" and dec :: "'r \<Rightarrow> 'a option" and pk :: "'r \<Rightarrow> 'p"
  assumes dec_enc: "ok a \<Longrightarrow> dec (enc a) = Some a"
    and pk_eq: "ok a \<Longrightarrow> ok b \<Longrightarrow> pk (enc a) = pk (enc b) \<longleftrightarrow> idx a = idx b"
begin

abbreviation "okrows \<equiv> rows_ok ok idx enc"
abbreviation "rmap \<equiv> row_map idx dec"

lemma rmap_enc: "\<forall>a \<in> set as. ok a \<Longrightarrow> rmap (map enc as) = map_of (map (\<lambda>a. (idx a, a)) as)"
proof -
  assume "\<forall>a \<in> set as. ok a"
  then have "map (the \<circ> dec) (map enc as) = as"
    by (induction as) (simp_all add: dec_enc)
  then show ?thesis by (simp add: row_map_def)
qed

lemma okrows_empty: "okrows []"
  by (simp add: rows_ok_def)

lemma filter_enc: "\<forall>a \<in> set as. ok a \<Longrightarrow> (\<And>v. ok v \<Longrightarrow> P (enc v) \<longleftrightarrow> Q v) \<Longrightarrow> filter P (map enc as) = map enc (filter Q as)"
  by (induction as) auto

lemma okrows_delete:
  assumes "okrows rs" and P: "\<And>v. ok v \<Longrightarrow> P (enc v) \<longleftrightarrow> idx v = i"
  shows "okrows (filter (\<lambda>r. \<not> P r) rs)" "rmap (filter (\<lambda>r. \<not> P r) rs) = (rmap rs)(i := None)"
proof -
  obtain as where as: "rs = map enc as" "\<forall>a \<in> set as. ok a" "distinct (map idx as)"
    using assms(1) by (auto simp: rows_ok_def)
  have f: "filter (\<lambda>r. \<not> P r) rs = map enc (filter (\<lambda>v. idx v \<noteq> i) as)"
    unfolding as(1) by (rule filter_enc [OF as(2)]) (simp add: P)
  show "okrows (filter (\<lambda>r. \<not> P r) rs)"
    unfolding rows_ok_def f using as by (intro exI [of _ "filter (\<lambda>v. idx v \<noteq> i) as"]) (simp add: distinct_map_filter)
  show "rmap (filter (\<lambda>r. \<not> P r) rs) = (rmap rs)(i := None)"
    unfolding f unfolding as(1) using as(2) by (simp add: rmap_enc map_of_self_filter)
qed

lemma okrows_new:
  assumes "okrows rs" "ok a" "pk (enc a) \<notin> pk ` set rs"
  shows "okrows (rs @ [enc a])" "rmap (rs @ [enc a]) = (rmap rs)(idx a \<mapsto> a)"
proof -
  obtain as where as: "rs = map enc as" "\<forall>a \<in> set as. ok a" "distinct (map idx as)"
    using assms(1) by (auto simp: rows_ok_def)
  have new: "idx a \<notin> idx ` set as"
    using assms(2,3) as(2) pk_eq by (auto simp: as(1))
  have f: "rs @ [enc a] = map enc (as @ [a])"
    by (simp add: as(1))
  have ok: "\<forall>b \<in> set (as @ [a]). ok b"
    using as(2) assms(2) by auto
  show "okrows (rs @ [enc a])"
    unfolding rows_ok_def f using as new assms(2) by (intro exI [of _ "as @ [a]"]) auto
  show "rmap (rs @ [enc a]) = (rmap rs)(idx a \<mapsto> a)"
    unfolding f rmap_enc [OF ok] unfolding as(1) rmap_enc [OF as(2)] by (rule map_of_self_new [OF new refl])
qed

lemma okrows_replace:
  assumes "okrows rs" "ok a"
  shows "okrows (replace_row pk (enc a) rs)" "rmap (replace_row pk (enc a) rs) = (rmap rs)(idx a \<mapsto> a)"
proof -
  have P: "ok v \<Longrightarrow> pk (enc v) = pk (enc a) \<longleftrightarrow> idx v = idx a" for v
    by (rule pk_eq [OF _ assms(2)])
  note d = okrows_delete [OF assms(1), of "\<lambda>r. pk r = pk (enc a)", OF P]
  have "pk (enc a) \<notin> pk ` set (filter (\<lambda>r. pk r \<noteq> pk (enc a)) rs)"
    by auto
  from okrows_new [OF d(1) assms(2) this] d(2)
  show "okrows (replace_row pk (enc a) rs)" "rmap (replace_row pk (enc a) rs) = (rmap rs)(idx a \<mapsto> a)"
    by (simp_all add: replace_row_def)
qed

lemma okrows_update:
  assumes "okrows rs" and P: "\<And>v. ok v \<Longrightarrow> P (enc v) \<longleftrightarrow> idx v = i"
    and f: "\<And>v. ok v \<Longrightarrow> f (enc v) = enc (g v) \<and> ok (g v) \<and> idx (g v) = idx v"
  shows "okrows (map (\<lambda>r. if P r then f r else r) rs)" "rmap (map (\<lambda>r. if P r then f r else r) rs) = alter (rmap rs) i g"
proof -
  obtain as where as: "rs = map enc as" "\<forall>a \<in> set as. ok a" "distinct (map idx as)"
    using assms(1) by (auto simp: rows_ok_def)
  let ?as = "map (\<lambda>v. if idx v = i then g v else v) as"
  have m: "map (\<lambda>r. if P r then f r else r) rs = map enc ?as"
    using as(2) by (simp add: as(1) P f)
  have ok: "\<forall>a \<in> set ?as. ok a"
    using as(2) f by auto
  have mi: "map idx ?as = map idx as"
    using as(2) f by auto
  have d: "distinct (map idx ?as)"
    unfolding mi by (rule as(3))
  show "okrows (map (\<lambda>r. if P r then f r else r) rs)"
    unfolding rows_ok_def m using ok d by blast
  show "rmap (map (\<lambda>r. if P r then f r else r) rs) = alter (rmap rs) i g"
    unfolding m rmap_enc [OF ok] unfolding as(1) rmap_enc [OF as(2)] using as(2) f
    by (intro map_of_self_update) auto
qed

lemma okrows_list:
  assumes "okrows rs" "mset rs' = mset rs"
  obtains as where "rs' = map enc as" "\<forall>a \<in> set as. ok a" "lists_map idx as (rmap rs)"
proof -
  obtain as where as: "rs = map enc as" "\<forall>a \<in> set as. ok a" "distinct (map idx as)"
    using assms(1) by (auto simp: rows_ok_def)
  let ?bs = "map (the \<circ> dec) rs'"
  have mem: "set rs' = set rs"
    using assms(2) by (rule mset_eq_setD)
  have bs: "rs' = map enc ?bs"
    using mem as(2) by (auto simp: as(1) dec_enc intro!: map_idI [symmetric])
  have dec: "map (the \<circ> dec) rs = as"
    using as(2) unfolding as(1) by (induction as) (simp_all add: dec_enc)
  have perm: "mset ?bs = mset as"
    using assms(2) dec by (metis mset_map)
  have ok: "\<forall>a \<in> set ?bs. ok a"
    using mset_eq_setD [OF perm] as(2) by simp
  have "mset (map idx ?bs) = mset (map idx as)"
    using perm by (simp only: mset_map)
  then have "distinct (map idx ?bs)"
    using as(3) by (metis mset_eq_imp_distinct_iff)
  moreover have "lists_map idx as (rmap rs)"
    unfolding as(1) rmap_enc [OF as(2)] by (rule lists_map_self [OF as(3)])
  ultimately have "lists_map idx ?bs (rmap rs)"
    using mset_eq_setD [OF perm] by (simp add: lists_map_def)
  with bs ok show ?thesis by (rule that)
qed

lemma okrows_get: "okrows rs \<Longrightarrow> rmap rs i = Some a \<Longrightarrow> ok a \<and> idx a = i"
  by (erule okrows_list [OF _ refl]) (auto simp: lists_map_def)

lemma okrows_mem: "okrows rs \<Longrightarrow> r \<in> set rs \<longleftrightarrow> (\<exists>i a. rmap rs i = Some a \<and> r = enc a)"
  by (erule okrows_list [OF _ refl]) (auto simp: lists_map_def)

lemma okrows_distinct: "okrows rs \<Longrightarrow> distinct rs"
proof -
  assume "okrows rs"
  then obtain as where as: "rs = map enc as" "\<forall>a \<in> set as. ok a" "distinct (map idx as)"
    by (auto simp: rows_ok_def)
  have "inj_on enc (set as)"
    using as(2) dec_enc by (metis inj_onI option.inject)
  then show "distinct rs"
    unfolding as(1) distinct_map using as(3) by (auto simp: distinct_map)
qed

lemma okrows_lookup:
  assumes "okrows rs" and P: "\<And>v. ok v \<Longrightarrow> P (enc v) \<longleftrightarrow> idx v = i" and "mset rs' = mset (filter P rs)"
  shows "first_row (Inr rs') = (case rmap rs i of None \<Rightarrow> Inl (Err ''sql: no rows in result set'') | Some a \<Rightarrow> Inr (enc a))"
proof -
  obtain as where as: "rs = map enc as" "\<forall>a \<in> set as. ok a" "distinct (map idx as)"
    using assms(1) by (auto simp: rows_ok_def)
  have f: "filter P rs = map enc (filter (\<lambda>v. idx v = i) as)"
    unfolding as(1) by (rule filter_enc [OF as(2)]) (rule P)
  show ?thesis
  proof (cases "rmap rs i")
    case None
    then have "filter (\<lambda>v. idx v = i) as = []"
      unfolding as(1) rmap_enc [OF as(2)] using as(3) by (force simp: map_of_eq_None_iff filter_empty_conv)
    then show ?thesis
      using assms(3) f None by (simp add: first_row_def)
  next
    case (Some a)
    then have a: "a \<in> set as" "idx a = i"
      unfolding as(1) rmap_enc [OF as(2)] using map_of_self [OF as(3)] by auto
    have "filter (\<lambda>v. idx v = i) as = [a]"
      by (rule filter_self [OF as(3) a])
    then have "rs' = [enc a]"
      using assms(3) f by simp
    then show ?thesis
      using Some by (simp add: first_row_def)
  qed
qed

end

lemma scan_rows_enc: "(\<And>a. a \<in> set as \<Longrightarrow> f (enc a) = Inr (Some a)) \<Longrightarrow> scan_rows f (map enc as) = Inr as"
  by (induction as) simp_all

lemma scan_rows_filter:
  "(\<And>a. a \<in> set as \<Longrightarrow> f (enc a) = Inr (if Q a then Some a else None)) \<Longrightarrow> scan_rows f (map enc as) = Inr (filter Q as)"
  by (induction as) simp_all

section \<open>The rows of each table\<close>

definition scanned_row :: "('r \<Rightarrow> 'a option result) \<Rightarrow> 'r \<Rightarrow> 'a option" where
  "scanned_row f r = (case f r of Inl _ \<Rightarrow> None | Inr a \<Rightarrow> a)"

definition thawed :: "Stxo \<Rightarrow> Stxo" where
  "thawed s = s\<lparr>SUtxo := (SUtxo s)\<lparr>Frozen := False\<rparr>\<rparr>"

definition in_seconds :: "int \<Rightarrow> int" where
  "in_seconds t = time_Unix (Unix t)"

definition txn_row :: "Txn \<Rightarrow> txnsRow" where
  "txn_row x = \<lparr>t_txid = Txid x, t_value = TValue x, t_height = Height x, t_timestamp = Unix (Timestamp x),
     t_watchOnly = sql_bit (TWatchOnly x), t_tx = Bytes x\<rparr>"

type_synonym key_item = "bytes \<times> KeyPath \<times> bool"

definition key_row :: "key_item \<Rightarrow> keysRow" where
  "key_row k = (case k of (sa, kp, u) \<Rightarrow>
     \<lparr>k_scriptAddress = EncodeToString sa, k_purpose = Change kp, k_keyIndex = Index kp, k_used = sql_bit u\<rparr>)"

definition row_key :: "keysRow \<Rightarrow> key_item option" where
  "row_key r = (case DecodeString (k_scriptAddress r) of Inl _ \<Rightarrow> None
     | Inr sa \<Rightarrow> Some (sa, \<lparr>Change = k_purpose r, Index = k_keyIndex r\<rparr>, k_used r \<noteq> 0))"

definition wf_key :: "key_item \<Rightarrow> bool" where
  "wf_key k \<longleftrightarrow> length (fst k) = 20 \<and> Change (fst (snd k)) \<in> {EXTERNAL, INTERNAL}"

lemma bit_simps [simp]: "sql_bit b = 1 \<longleftrightarrow> b" "sql_bit b = 0 \<longleftrightarrow> \<not> b" "0 < sql_bit b \<longleftrightarrow> b"
  by (simp_all add: sql_bit_def)

lemma row_keys [simp]:
  "u_outpoint (utxo_row H u) = OutPoint_String H (Op u)" "s_outpoint (stxo_row H s) = OutPoint_String H (Op (SUtxo s))"
  "t_txid (txn_row x) = Txid x" "k_scriptAddress (key_row k) = EncodeToString (fst k)" "b_scriptPubKey (sub_row b) = PkScript b"
  by (simp_all add: utxo_row_def stxo_row_def txn_row_def key_row_def sub_row_def Let_def split_def)

lemma in_seconds_simps [simp]: "Unix (in_seconds t) = Unix t" "in_seconds (in_seconds t) = in_seconds t"
  by (simp_all add: in_seconds_def Unix_def time_Unix_def)

lemma thawed_simps [simp]: "thawed (thawed s) = thawed s" "\<not> Frozen (SUtxo (thawed s))" "Op (SUtxo (thawed s)) = Op (SUtxo s)"
  "wf_stxo (thawed s) \<longleftrightarrow> wf_stxo s" "stxo_row H (thawed s) = stxo_row H s"
  by (simp_all add: thawed_def wf_stxo_def wf_utxo_def stxo_row_def Let_def)

lemma thawed_same: "\<not> Frozen (SUtxo s) \<Longrightarrow> thawed s = s"
  by (simp add: thawed_def)

context hash_codec
begin

lemma Split_outpoint: "Split (CHR '':'') (OutPoint_String H op) = [HashString H (OpHash op), Itoa (uint (OpIndex op))]"
  by (simp add: OutPoint_String_def Split_colon_Itoa [OF no_colon, simplified])

lemma Atoi_index: "Atoi (Itoa (uint (w :: 32 word))) = Inr (uint w)"
  using uint32_bound [of w] by (intro Atoi_Itoa) simp_all

lemma row_utxo_row: "wf_utxo u \<Longrightarrow> row_utxo H (utxo_row H u) = Inr (Some u)"
  by (simp add: row_utxo_def utxo_row_def Split_outpoint Atoi_index parse_print wf_utxo_def wf_op_def Let_def)

lemma row_stxo_row: "wf_stxo s \<Longrightarrow> row_stxo H (stxo_row H s) = Inr (Some (thawed s))"
  by (simp add: row_stxo_def stxo_row_def Split_outpoint Atoi_index parse_print wf_stxo_def wf_utxo_def wf_op_def Let_def
      thawed_def)

end

sublocale hash_codec \<subseteq> sutxos: sql_codec wf_utxo Op "utxo_row H" "scanned_row (row_utxo H)" u_outpoint
  by unfold_locales
    (simp_all add: scanned_row_def row_utxo_row OutPoint_String_eq wf_utxo_def [THEN iffD1])

sublocale hash_codec \<subseteq> sstxos: sql_codec "\<lambda>s. wf_stxo s \<and> \<not> Frozen (SUtxo s)" "\<lambda>s. Op (SUtxo s)" "stxo_row H"
  "scanned_row (row_stxo H)" s_outpoint
  by unfold_locales
    (auto simp: scanned_row_def row_stxo_row OutPoint_String_eq thawed_same wf_stxo_def wf_utxo_def)

interpretation stxns: sql_codec "\<lambda>x. in_seconds (Timestamp x) = Timestamp x" Txid txn_row "\<lambda>r. Some (row_txn r)" t_txid
  by unfold_locales (simp_all add: txn_row_def row_txn_def in_seconds_def)

interpretation skeys: sql_codec wf_key fst key_row row_key k_scriptAddress
  by unfold_locales (auto simp: key_row_def row_key_def Encode_inj split_def prod_eq_iff)

interpretation ssubs: sql_codec "\<lambda>_. True" PkScript sub_row "\<lambda>r. Some (row_sub r)" b_scriptPubKey
  by unfold_locales (simp_all add: sub_row_def row_sub_def)

section \<open>The tables as an abstract store\<close>

definition only_value :: "('r \<Rightarrow> bool) \<Rightarrow> ('r \<Rightarrow> 'v) \<Rightarrow> 'r list \<Rightarrow> 'v option" where
  "only_value P f trows = map_option f (List.find P trows)"

definition sqlite_abs :: "hash_lib \<Rightarrow> sql_tabs \<Rightarrow> abs_store" where
  "sqlite_abs H t =
     \<lparr>aUtxos = row_map Op (scanned_row (row_utxo H)) (tUtxos t),
      aStxos = row_map (\<lambda>s. Op (SUtxo s)) (scanned_row (row_stxo H)) (tStxos t),
      aTxns = row_map Txid (\<lambda>r. Some (row_txn r)) (tTxns t),
      aKeys = map_option snd \<circ> row_map fst row_key (tKeys t),
      aSubs = row_map PkScript (\<lambda>r. Some (row_sub r)) (tSubs t),
      aEnc = only_value (\<lambda>r. e_key r = ''storage'') e_value (tEnc t),
      aCfg = only_value (\<lambda>r. g_key r = ''creationDate'') (\<lambda>r. time_Unix (g_value r)) (tConfig t)\<rparr>"

text \<open>The indices of each purpose grow with the row ids.\<close>

definition growing :: "keysRow list \<Rightarrow> bool" where
  "growing trows \<longleftrightarrow> sorted_wrt (\<lambda>r r'. k_purpose r = k_purpose r' \<longrightarrow> k_keyIndex r < k_keyIndex r') trows"

definition sqlite_inv :: "hash_lib \<Rightarrow> sql_tabs \<Rightarrow> bool" where
  "sqlite_inv H t \<longleftrightarrow>
     rows_ok wf_utxo Op (utxo_row H) (tUtxos t) \<and>
     rows_ok (\<lambda>s. wf_stxo s \<and> \<not> Frozen (SUtxo s)) (\<lambda>s. Op (SUtxo s)) (stxo_row H) (tStxos t) \<and>
     rows_ok (\<lambda>x. in_seconds (Timestamp x) = Timestamp x) Txid txn_row (tTxns t) \<and>
     rows_ok wf_key fst key_row (tKeys t) \<and> growing (tKeys t) \<and>
     rows_ok (\<lambda>_. True) PkScript sub_row (tSubs t) \<and>
     distinct (map e_key (tEnc t)) \<and> distinct (map g_key (tConfig t))"

lemmas sql_simps = SQLiteDatastore_def

end
