(* ===== verification/Sqlite_Datastore.thy ===== *)
theory Sqlite_Datastore
  imports Sqlite_Laws
begin

text \<open>
  Every interface of the sqlite datastore over the tables: the effect of each operation of \<open>wallet/db\<close> on the
  abstract store, and the locales of \<open>Store_Laws\<close> for \<open>SQLiteDatastore\<close>.
\<close>

lemma KeyPath_eta [simp]: "\<lparr>Change = Change kp, Index = Index kp\<rparr> = kp"
  by (cases kp) simp

lemma if_not_swap: "(if \<not> b then x else y) = (if b then y else x)"
  by simp

lemma sorted_wrt_last: "sorted_wrt R xs \<Longrightarrow> x \<in> set xs \<Longrightarrow> x = last xs \<or> R x (last xs)"
  by (induction xs) auto

lemma last_run: "sorted_wrt (\<lambda>x y. f x < (f y :: int)) xs \<Longrightarrow>
    set (takeWhile Q (rev xs)) = {x \<in> set xs. Q x \<and> (\<forall>y \<in> set xs. \<not> Q y \<longrightarrow> f y < f x)}"
  by (induction xs rule: rev_induct) (auto simp: sorted_wrt_append)

lemma find_self: "distinct (map pk xs) \<Longrightarrow> (\<And>r. P r \<longleftrightarrow> pk r = k) \<Longrightarrow>
    filter P xs = (case List.find P xs of None \<Rightarrow> [] | Some r \<Rightarrow> [r])"
proof (cases "List.find P xs")
  case None
  then have "filter P xs = []"
    by (simp add: find_None_iff filter_empty_conv)
  then show ?thesis by (simp add: None)
next
  case (Some r)
  assume xs: "distinct (map pk xs)" and P: "\<And>r. P r \<longleftrightarrow> pk r = k"
  have "P = (\<lambda>r. pk r = k)"
    using P by blast
  moreover have "r \<in> set xs" "P r"
    using find_Some_iff [of P xs r] Some by auto
  ultimately show ?thesis
    using filter_self [OF xs, of r k] P Some by simp
qed

lemma first_row_find:
  assumes "distinct (map pk xs)" "\<And>r. P r \<longleftrightarrow> pk r = k" "mset rs = mset (filter P xs)"
  shows "first_row (Inr rs) = (case List.find P xs of None \<Rightarrow> Inl (Err ''sql: no rows in result set'') | Some r \<Rightarrow> Inr r)"
  using assms(3) unfolding find_self [OF assms(1,2)] by (auto simp: first_row_def split: option.splits)

lemma only_value_replace:
  "(\<And>x. P x \<longleftrightarrow> pk x = pk r) \<Longrightarrow> only_value P f (replace_row pk r xs) = Some (f r)"
  by (induction xs) (auto simp: only_value_def replace_row_def)

lemma distinct_replace_row: "distinct (map pk xs) \<Longrightarrow> distinct (map pk (replace_row pk r xs))"
  by (auto simp: replace_row_def distinct_map_filter)

locale sqlite_store = sqlite_db S tabs + hash_codec H
  for S :: "'db sqldb" and tabs and H
begin

abbreviation "sabs d \<equiv> sqlite_abs H (tabs d)"
abbreviation "sinv d \<equiv> sqlite_inv H (tabs d)"

text \<open>A statement, in a transaction or by itself, has its effect or leaves everything as it was.\<close>

lemma tx_step:
  assumes "sinv d" and "sql_tx S b1 b2 stmt d = (d', r)"
    and "\<And>d1. stmt d = Inr d1 \<Longrightarrow> sinv d1 \<and> sabs d1 = a"
  shows "sinv d' \<and> sabs d' = (if isl r then sabs d else a)"
proof (cases "isl r")
  case True
  then show ?thesis using sql_tx_effect [OF assms(2)] assms(1) by auto
next
  case False
  then obtain d1 where "stmt d = Inr d1" "tabs d' = tabs d1"
    using sql_tx_effect [OF assms(2)] by auto
  then show ?thesis using assms(3) False by simp
qed

lemma exec_step:
  assumes "sinv d" and "sql_exec stmt d = (d', r)" and "\<And>d1. stmt d = Inr d1 \<Longrightarrow> sinv d1 \<and> sabs d1 = a"
  shows "sinv d' \<and> sabs d' = (if isl r then sabs d else a)"
  using sql_exec_effect [OF assms(2)] assms(1,3) by auto

section \<open>Coins\<close>

lemma sutxo_replace:
  assumes "sinv d" "wf_utxo u" "sql_replace (utxos_table S) (utxo_row H u) d = Inr d1"
  shows "sinv d1 \<and> sabs d1 = (sabs d)\<lparr>aUtxos := (aUtxos (sabs d))(Op u \<mapsto> u)\<rparr>"
  using sutxos.okrows_replace [OF _ assms(2), of "tUtxos (tabs d)"] assms(1)
  by (simp add: utxos.Replace [OF assms(3)] sqlite_inv_def sqlite_abs_def)

lemma sutxo_update:
  assumes "sinv d" "wf_utxo u" "sql_update (utxos_table S) (\<lambda>r. u_outpoint r = OutPoint_String H (Op u)) f d = Inr d1"
    and "\<And>r. u_outpoint (f r) = u_outpoint r" and "\<And>v. f (utxo_row H v) = utxo_row H (g v) \<and> Op (g v) = Op v"
  shows "sinv d1 \<and> sabs d1 = (sabs d)\<lparr>aUtxos := alter (aUtxos (sabs d)) (Op u) g\<rparr>"
proof -
  have "wf_utxo v \<Longrightarrow> u_outpoint (utxo_row H v) = OutPoint_String H (Op u) \<longleftrightarrow> Op v = Op u" for v
    using assms(2) by (simp add: wf_utxo_def OutPoint_String_eq)
  moreover have "wf_utxo v \<Longrightarrow> f (utxo_row H v) = utxo_row H (g v) \<and> wf_utxo (g v) \<and> Op (g v) = Op v" for v
    using assms(5) [of v] by (simp add: wf_utxo_def)
  ultimately show ?thesis
    using sutxos.okrows_update [of "tUtxos (tabs d)" "\<lambda>r. u_outpoint r = OutPoint_String H (Op u)" "Op u" f g] assms(1)
    by (simp add: utxos.SUpdate [OF assms(4,3)] sqlite_inv_def sqlite_abs_def)
qed

lemma sutxo_delete:
  assumes "sinv d" "wf_utxo u" "sql_delete (utxos_table S) (\<lambda>r. u_outpoint r = OutPoint_String H (Op u)) d = Inr d1"
  shows "sinv d1 \<and> sabs d1 = (sabs d)\<lparr>aUtxos := (aUtxos (sabs d))(Op u := None)\<rparr>"
proof -
  have "wf_utxo v \<Longrightarrow> u_outpoint (utxo_row H v) = OutPoint_String H (Op u) \<longleftrightarrow> Op v = Op u" for v
    using assms(2) by (simp add: wf_utxo_def OutPoint_String_eq)
  then show ?thesis
    using sutxos.okrows_delete [of "tUtxos (tabs d)" "\<lambda>r. u_outpoint r = OutPoint_String H (Op u)" "Op u"] assms(1)
    by (simp add: utxos.SDelete [OF assms(3)] sqlite_inv_def sqlite_abs_def)
qed

lemma sutxo_GetAll:
  assumes "sinv d"
  obtains us where "UtxoDB_GetAll_sql H S d = Inr us" "lists_map Op us (aUtxos (sabs d))" "\<forall>u \<in> set us. wf_utxo u"
proof -
  obtain rs where rs: "sql_select (utxos_table S) (\<lambda>_. True) d = Inr rs" "mset rs = mset (tUtxos (tabs d))"
    using utxos.Select [of "\<lambda>_. True" d] by auto
  obtain us where us: "rs = map (utxo_row H) us" "\<forall>u \<in> set us. wf_utxo u" "lists_map Op us (aUtxos (sabs d))"
    using sutxos.okrows_list [OF _ rs(2)] assms by (auto simp: sqlite_inv_def sqlite_abs_def)
  have "scan_rows (row_utxo H) rs = Inr us"
    unfolding us(1) using us(2) by (intro scan_rows_enc row_utxo_row) auto
  then show ?thesis
    using that [OF _ us(3,2)] rs(1) by (simp add: UtxoDB_GetAll_sql_def)
qed

lemma sutxo_Put_step: "sinv d \<Longrightarrow> wf_utxo u \<Longrightarrow> UtxoDB_Put_sql H S u d = (d', r) \<Longrightarrow>
    sinv d' \<and> sabs d' = (if isl r then sabs d else (sabs d)\<lparr>aUtxos := (aUtxos (sabs d))(Op u \<mapsto> u)\<rparr>)"
  unfolding UtxoDB_Put_sql_def by (rule tx_step) (assumption | rule sutxo_replace)+

lemma sutxo_Freeze_step: "sinv d \<Longrightarrow> wf_utxo u \<Longrightarrow> UtxoDB_Freeze_sql H S u d = (d', r) \<Longrightarrow> sinv d' \<and>
    sabs d' = (if isl r then sabs d else (sabs d)\<lparr>aUtxos := alter (aUtxos (sabs d)) (Op u) (\<lambda>v. v\<lparr>Frozen := True\<rparr>)\<rparr>)"
  unfolding UtxoDB_Freeze_sql_def by (rule exec_step) (assumption | rule sutxo_update | simp add: utxo_row_def sql_bit_def)+

lemma sutxo_UnFreeze_step: "sinv d \<Longrightarrow> wf_utxo u \<Longrightarrow> UtxoDB_UnFreeze_sql H S u d = (d', r) \<Longrightarrow> sinv d' \<and>
    sabs d' = (if isl r then sabs d else (sabs d)\<lparr>aUtxos := alter (aUtxos (sabs d)) (Op u) (\<lambda>v. v\<lparr>Frozen := False\<rparr>)\<rparr>)"
  unfolding UtxoDB_UnFreeze_sql_def by (rule exec_step) (assumption | rule sutxo_update | simp add: utxo_row_def sql_bit_def)+

lemma sutxo_SetWatchOnly_step: "sinv d \<Longrightarrow> wf_utxo u \<Longrightarrow> UtxoDB_SetWatchOnly_sql H S u d = (d', r) \<Longrightarrow> sinv d' \<and>
    sabs d' = (if isl r then sabs d else (sabs d)\<lparr>aUtxos := alter (aUtxos (sabs d)) (Op u) (\<lambda>v. v\<lparr>WatchOnly := True\<rparr>)\<rparr>)"
  unfolding UtxoDB_SetWatchOnly_sql_def by (rule exec_step) (assumption | rule sutxo_update | simp add: utxo_row_def sql_bit_def)+

lemma sutxo_Delete_step: "sinv d \<Longrightarrow> wf_utxo u \<Longrightarrow> UtxoDB_Delete_sql H S u d = (d', r) \<Longrightarrow>
    sinv d' \<and> sabs d' = (if isl r then sabs d else (sabs d)\<lparr>aUtxos := (aUtxos (sabs d))(Op u := None)\<rparr>)"
  unfolding UtxoDB_Delete_sql_def by (rule exec_step) (assumption | rule sutxo_delete)+

lemma sutxo_wf: "sinv d \<Longrightarrow> aUtxos (sabs d) op = Some u \<Longrightarrow> wf_utxo u"
  by (erule sutxo_GetAll) (auto simp: lists_map_def)

section \<open>Spent coins\<close>

lemma sstxo_key: "wf_stxo s \<Longrightarrow> wf_stxo v \<and> \<not> Frozen (SUtxo v) \<Longrightarrow>
    s_outpoint (stxo_row H v) = OutPoint_String H (Op (SUtxo s)) \<longleftrightarrow> Op (SUtxo v) = Op (SUtxo s)"
  by (simp add: wf_stxo_def wf_utxo_def OutPoint_String_eq)

lemma sstxo_Put_step:
  assumes "sinv d" "wf_stxo s" "StxoDB_Put_sql H S s d = (d', r)"
  shows "sinv d' \<and> sabs d' = (if isl r then sabs d
    else (sabs d)\<lparr>aStxos := (aStxos (sabs d))(Op (SUtxo s) \<mapsto> thawed s)\<rparr>)"
  using assms(1) assms(3) [unfolded StxoDB_Put_sql_def]
proof (rule tx_step)
  fix d1
  assume r: "sql_replace (stxos_table S) (stxo_row H s) d = Inr d1"
  have "wf_stxo (thawed s) \<and> \<not> Frozen (SUtxo (thawed s))"
    using assms(2) by simp
  from sstxos.okrows_replace [OF _ this, of "tStxos (tabs d)"] assms(1)
  show "sinv d1 \<and> sabs d1 = (sabs d)\<lparr>aStxos := (aStxos (sabs d))(Op (SUtxo s) \<mapsto> thawed s)\<rparr>"
    by (simp add: stxos.Replace [OF r] sqlite_inv_def sqlite_abs_def)
qed

lemma sstxo_Delete_step:
  assumes "sinv d" "wf_stxo s" "StxoDB_Delete_sql H S s d = (d', r)"
  shows "sinv d' \<and> sabs d' = (if isl r then sabs d else (sabs d)\<lparr>aStxos := (aStxos (sabs d))(Op (SUtxo s) := None)\<rparr>)"
  using assms(1) assms(3) [unfolded StxoDB_Delete_sql_def]
proof (rule exec_step)
  fix d1
  assume r: "sql_delete (stxos_table S) (\<lambda>r. s_outpoint r = OutPoint_String H (Op (SUtxo s))) d = Inr d1"
  show "sinv d1 \<and> sabs d1 = (sabs d)\<lparr>aStxos := (aStxos (sabs d))(Op (SUtxo s) := None)\<rparr>"
    using sstxos.okrows_delete [OF _ sstxo_key [OF assms(2)], of "tStxos (tabs d)"] assms(1)
    by (simp add: stxos.SDelete [OF r] sqlite_inv_def sqlite_abs_def)
qed

lemma sstxo_GetAll:
  assumes "sinv d"
  obtains ss where "StxoDB_GetAll_sql H S d = Inr ss" "lists_map (\<lambda>s. Op (SUtxo s)) ss (aStxos (sabs d))"
    "\<forall>s \<in> set ss. wf_stxo s \<and> \<not> Frozen (SUtxo s)"
proof -
  obtain rs where rs: "sql_select (stxos_table S) (\<lambda>_. True) d = Inr rs" "mset rs = mset (tStxos (tabs d))"
    using stxos.Select [of "\<lambda>_. True" d] by auto
  obtain ss where ss: "rs = map (stxo_row H) ss" "\<forall>s \<in> set ss. wf_stxo s \<and> \<not> Frozen (SUtxo s)"
      "lists_map (\<lambda>s. Op (SUtxo s)) ss (aStxos (sabs d))"
    using sstxos.okrows_list [OF _ rs(2)] assms by (auto simp: sqlite_inv_def sqlite_abs_def)
  have "scan_rows (row_stxo H) rs = Inr ss"
    unfolding ss(1) using ss(2) by (intro scan_rows_enc) (simp add: row_stxo_row thawed_same)
  then show ?thesis
    using that [OF _ ss(3,2)] rs(1) by (simp add: StxoDB_GetAll_sql_def)
qed

lemma sstxo_wf: "sinv d \<Longrightarrow> aStxos (sabs d) op = Some s \<Longrightarrow> wf_stxo s \<and> \<not> Frozen (SUtxo s)"
  by (erule sstxo_GetAll) (auto simp: lists_map_def)

section \<open>Transactions\<close>

lemma stxn_Put_step:
  assumes "sinv d" "TxnsDB_Put_sql S raw txid val h t wo d = (d', r)"
  shows "sinv d' \<and> sabs d' = (if isl r then sabs d else (sabs d)\<lparr>aTxns := (aTxns (sabs d))(txid \<mapsto>
    \<lparr>Txid = txid, TValue = val, Height = h, Timestamp = in_seconds t, TWatchOnly = wo, Bytes = raw\<rparr>)\<rparr>)"
  using assms(1) assms(2) [unfolded TxnsDB_Put_sql_def]
proof (rule tx_step)
  let ?x = "\<lparr>Txid = txid, TValue = val, Height = h, Timestamp = in_seconds t, TWatchOnly = wo, Bytes = raw\<rparr>"
  fix d1
  assume "sql_replace (txns_table S) \<lparr>t_txid = txid, t_value = val, t_height = h, t_timestamp = Unix t, t_watchOnly = sql_bit wo,
      t_tx = raw\<rparr> d = Inr d1"
  then have r: "sql_replace (txns_table S) (txn_row ?x) d = Inr d1"
    by (simp add: txn_row_def)
  from stxns.okrows_replace [of "tTxns (tabs d)" ?x] assms(1)
  show "sinv d1 \<and> sabs d1 = (sabs d)\<lparr>aTxns := (aTxns (sabs d))(txid \<mapsto> ?x)\<rparr>"
    by (simp add: txns.Replace [OF r] sqlite_inv_def sqlite_abs_def)
qed

lemma stxn_UpdateHeight_step:
  assumes "sinv d" "TxnsDB_UpdateHeight_sql S txid h t d = (d', r)"
  shows "sinv d' \<and> sabs d' = (if isl r then sabs d
    else (sabs d)\<lparr>aTxns := alter (aTxns (sabs d)) txid (\<lambda>x. x\<lparr>Height := h, Timestamp := in_seconds t\<rparr>)\<rparr>)"
  using assms(1) assms(2) [unfolded TxnsDB_UpdateHeight_sql_def]
proof (rule tx_step)
  let ?f = "\<lambda>r. r\<lparr>t_height := h, t_timestamp := Unix t\<rparr>" and ?g = "\<lambda>x. x\<lparr>Height := h, Timestamp := in_seconds t\<rparr>"
  fix d1
  assume r: "sql_update (txns_table S) (\<lambda>r. t_txid r = txid) ?f d = Inr d1"
  have "?f (txn_row x) = txn_row (?g x)" for x
    by (simp add: txn_row_def)
  with stxns.okrows_update [of "tTxns (tabs d)" "\<lambda>r. t_txid r = txid" txid ?f ?g] assms(1)
  show "sinv d1 \<and> sabs d1 = (sabs d)\<lparr>aTxns := alter (aTxns (sabs d)) txid ?g\<rparr>"
    by (simp add: txns.SUpdate [OF _ r] sqlite_inv_def sqlite_abs_def)
qed

lemma stxn_Delete_step:
  assumes "sinv d" "TxnsDB_Delete_sql S txid d = (d', r)"
  shows "sinv d' \<and> sabs d' = (if isl r then sabs d else (sabs d)\<lparr>aTxns := (aTxns (sabs d))(txid := None)\<rparr>)"
  using assms(1) assms(2) [unfolded TxnsDB_Delete_sql_def]
proof (rule exec_step)
  fix d1
  assume r: "sql_delete (txns_table S) (\<lambda>r. t_txid r = txid) d = Inr d1"
  from stxns.okrows_delete [of "tTxns (tabs d)" "\<lambda>r. t_txid r = txid" txid] assms(1)
  show "sinv d1 \<and> sabs d1 = (sabs d)\<lparr>aTxns := (aTxns (sabs d))(txid := None)\<rparr>"
    by (simp add: txns.SDelete [OF r] sqlite_inv_def sqlite_abs_def)
qed

lemma stxn_Get: "sinv d \<Longrightarrow> TxnsDB_Get_sql S txid d =
    (case aTxns (sabs d) txid of None \<Rightarrow> Inl (Err ''sql: no rows in result set'') | Some x \<Rightarrow> Inr x)"
proof -
  assume inv: "sinv d"
  obtain rs where rs: "sql_select (txns_table S) (\<lambda>r. t_txid r = txid) d = Inr rs"
      "mset rs = mset (filter (\<lambda>r. t_txid r = txid) (tTxns (tabs d)))"
    using txns.Select [of "\<lambda>r. t_txid r = txid" d] by auto
  have ok: "stxns.okrows (tTxns (tabs d))"
    using inv by (simp add: sqlite_inv_def)
  have first: "first_row (Inr rs) = (case aTxns (sabs d) txid of None \<Rightarrow> Inl (Err ''sql: no rows in result set'')
      | Some a \<Rightarrow> Inr (txn_row a))"
    using stxns.okrows_lookup [OF ok _ rs(2), of txid] by (simp add: sqlite_abs_def)
  have "(row_txn (txn_row x))\<lparr>Txid := txid\<rparr> = x" if "aTxns (sabs d) txid = Some x" for x
  proof -
    have "in_seconds (Timestamp x) = Timestamp x" "Txid x = txid"
      using stxns.okrows_get [OF ok, of txid x] that by (simp_all add: sqlite_abs_def)
    then show ?thesis by (simp add: row_txn_def txn_row_def in_seconds_def)
  qed
  then show ?thesis
    by (simp add: TxnsDB_Get_sql_def sql_row_first rs(1) first split: option.split)
qed

lemma stxn_GetAll:
  assumes "sinv d"
  obtains xs where "TxnsDB_GetAll_sql S every d = Inr xs"
    "lists_map Txid xs (\<lambda>k. case aTxns (sabs d) k of None \<Rightarrow> None | Some x \<Rightarrow> if TWatchOnly x \<and> \<not> every then None else Some x)"
proof -
  obtain rs where rs: "sql_select (txns_table S) (\<lambda>_. True) d = Inr rs" "mset rs = mset (tTxns (tabs d))"
    using txns.Select [of "\<lambda>_. True" d] by auto
  obtain as where as: "rs = map txn_row as" "\<forall>a \<in> set as. in_seconds (Timestamp a) = Timestamp a"
      "lists_map Txid as (aTxns (sabs d))"
    using stxns.okrows_list [OF _ rs(2)] assms by (auto simp: sqlite_inv_def sqlite_abs_def)
  have "scan_rows (\<lambda>r. Inr (if t_watchOnly r > 0 \<and> \<not> every then None else Some (row_txn r))) rs =
      Inr (filter (\<lambda>x. \<not> (TWatchOnly x \<and> \<not> every)) as)"
    unfolding as(1) using as(2) by (intro scan_rows_filter) (auto simp: txn_row_def row_txn_def in_seconds_def)
  then have "TxnsDB_GetAll_sql S every d = Inr (filter (\<lambda>x. \<not> (TWatchOnly x \<and> \<not> every)) as)"
    using rs(1) by (simp add: TxnsDB_GetAll_sql_def)
  then show ?thesis
    by (rule that) (use lists_map_filter [OF as(3), of "\<lambda>x. \<not> (TWatchOnly x \<and> \<not> every)"] in \<open>simp only: if_not_swap\<close>)
qed

section \<open>Keys\<close>

text \<open>The rows of the table are the keys of the abstract store.\<close>

lemma skey_rows:
  assumes "sinv d"
  shows "r \<in> set (tKeys (tabs d)) \<longleftrightarrow> (\<exists>sa kp u. aKeys (sabs d) sa = Some (kp, u) \<and> r = key_row (sa, kp, u))"
proof -
  have ok: "skeys.okrows (tKeys (tabs d))"
    using assms by (simp add: sqlite_inv_def)
  have "skeys.rmap (tKeys (tabs d)) sa = Some a \<longleftrightarrow> fst a = sa \<and> aKeys (sabs d) sa = Some (snd a)" for sa a
    using skeys.okrows_get [OF ok] by (fastforce simp: sqlite_abs_def)
  then show ?thesis
    using skeys.okrows_mem [OF ok, of r] by force
qed

lemma skey_wf: "sinv d \<Longrightarrow> aKeys (sabs d) sa = Some (kp, u) \<Longrightarrow> length sa = 20 \<and> Change kp \<in> {EXTERNAL, INTERNAL}"
  using skeys.okrows_get [of "tKeys (tabs d)" sa] by (auto simp: sqlite_inv_def sqlite_abs_def wf_key_def)

lemma skey_growing: "sinv d \<Longrightarrow> sorted_wrt (\<lambda>r r'. k_purpose r = k_purpose r' \<longrightarrow> k_keyIndex r < k_keyIndex r') (tKeys (tabs d))"
  by (simp add: sqlite_inv_def growing_def)

lemma skey_Put_step:
  assumes "sinv d" "length sa = 20" "next_key (sabs d) kp" "Change kp \<in> {EXTERNAL, INTERNAL}" "KeysDB_Put_sql S sa kp d = (d', r)"
  shows "sinv d' \<and> sabs d' = (if isl r then sabs d else (sabs d)\<lparr>aKeys := (aKeys (sabs d))(sa \<mapsto> (kp, False))\<rparr>)"
  using assms(1) assms(5) [unfolded KeysDB_Put_sql_def]
proof (rule tx_step)
  let ?k = "(sa, kp, False)"
  fix d1
  assume "sql_insert (keys_table S)
      \<lparr>k_scriptAddress = EncodeToString sa, k_purpose = Change kp, k_keyIndex = Index kp, k_used = 0\<rparr> d = Inr d1"
  then have r: "sql_insert (keys_table S) (key_row ?k) d = Inr d1"
    by (simp add: key_row_def sql_bit_def)
  have ok: "skeys.okrows (tKeys (tabs d))" "wf_key ?k"
    using assms(1,2,4) by (simp_all add: sqlite_inv_def wf_key_def)
  have grow: "growing (tKeys (tabs d) @ [key_row ?k])"
    using skey_growing [OF assms(1)] assms(3)
    by (auto simp: growing_def sorted_wrt_append skey_rows [OF assms(1)] key_row_def next_key_def)
      (metis (full_types) KeyPath.surjective old.unit.exhaust)
  show "sinv d1 \<and> sabs d1 = (sabs d)\<lparr>aKeys := (aKeys (sabs d))(sa \<mapsto> (kp, False))\<rparr>"
    using skeys.okrows_new [OF ok] keys.Insert [OF r] assms(1) grow
    by (auto simp: sqlite_inv_def sqlite_abs_def fun_eq_iff)
qed

lemma skey_Mark_step:
  assumes "sinv d" "KeysDB_MarkKeyAsUsed_sql S sa d = (d', r)"
  shows "sinv d' \<and> sabs d' = (if isl r then sabs d
    else (sabs d)\<lparr>aKeys := alter (aKeys (sabs d)) sa (\<lambda>(kp, u). (kp, True))\<rparr>)"
  using assms(1) assms(2) [unfolded KeysDB_MarkKeyAsUsed_sql_def]
proof (rule tx_step)
  let ?P = "\<lambda>r. k_scriptAddress r = EncodeToString sa" and ?f = "\<lambda>r. r\<lparr>k_used := 1\<rparr>" and ?g = "\<lambda>(sa, kp, u). (sa, kp, True)"
  fix d1
  assume r: "sql_update (keys_table S) ?P ?f d = Inr d1"
  have P: "wf_key k \<Longrightarrow> ?P (key_row k) \<longleftrightarrow> fst k = sa" for k
    by (simp add: Encode_inj)
  have f: "wf_key k \<Longrightarrow> ?f (key_row k) = key_row (?g k) \<and> wf_key (?g k) \<and> fst (?g k) = fst k" for k
    by (auto simp: key_row_def sql_bit_def wf_key_def split: prod.splits)
  note u = skeys.okrows_update [OF _ P f, of "tKeys (tabs d)"]
  have grow: "growing (map (\<lambda>r. if ?P r then ?f r else r) (tKeys (tabs d)))"
    using skey_growing [OF assms(1)] by (auto simp: growing_def sorted_wrt_map elim!: sorted_wrt_mono_rel [rotated] split: if_splits)
  have "map_option snd \<circ> alter m sa ?g = alter (map_option snd \<circ> m) sa (\<lambda>(kp, u). (kp, True))" for m :: "bytes \<rightharpoonup> key_item"
    by (auto simp: fun_eq_iff alter_def option.map_comp comp_def split_def)
  then show "sinv d1 \<and> sabs d1 = (sabs d)\<lparr>aKeys := alter (aKeys (sabs d)) sa (\<lambda>(kp, u). (kp, True))\<rparr>"
    using u grow assms(1) by (simp add: keys.SUpdate [OF _ r] sqlite_inv_def sqlite_abs_def)
qed

lemma key_row_simps [simp]: "k_purpose (key_row (sa, kp, u)) = Change kp" "k_keyIndex (key_row (sa, kp, u)) = Index kp"
  "k_used (key_row (sa, kp, u)) = sql_bit u"
  by (simp_all add: key_row_def)

text \<open>The keys of one purpose, in the order of their indices.\<close>

definition purpose_rows :: "'db \<Rightarrow> int \<Rightarrow> keysRow list" where
  "purpose_rows d p = filter (\<lambda>r. k_purpose r = p) (tKeys (tabs d))"

lemma purpose_rows_sorted: "sinv d \<Longrightarrow> sorted_wrt (\<lambda>r r'. k_keyIndex r < k_keyIndex r') (purpose_rows d p)"
  unfolding purpose_rows_def
  by (rule sorted_wrt_mono_rel [OF _ sorted_wrt_filter [OF skey_growing]]) auto

lemma purpose_rows_mem: "sinv d \<Longrightarrow> r \<in> set (purpose_rows d p) \<longleftrightarrow>
    (\<exists>sa i u. aKeys (sabs d) sa = Some (\<lparr>Change = p, Index = i\<rparr>, u) \<and> r = key_row (sa, \<lparr>Change = p, Index = i\<rparr>, u))"
proof -
  assume inv: "sinv d"
  have "(\<exists>sa kp u. aKeys (sabs d) sa = Some (kp, u) \<and> r = key_row (sa, kp, u)) \<and> k_purpose r = p \<longleftrightarrow>
      (\<exists>sa i u. aKeys (sabs d) sa = Some (\<lparr>Change = p, Index = i\<rparr>, u) \<and> r = key_row (sa, \<lparr>Change = p, Index = i\<rparr>, u))"
    (is "?l \<longleftrightarrow> ?r")
  proof
    assume ?l
    then obtain sa kp u where k: "aKeys (sabs d) sa = Some (kp, u)" "r = key_row (sa, kp, u)" "Change kp = p"
      by auto
    then have "kp = \<lparr>Change = p, Index = Index kp\<rparr>" by simp
    with k show ?r by metis
  next
    assume ?r
    then show ?l by force
  qed
  then show ?thesis
    by (simp add: purpose_rows_def skey_rows [OF inv])
qed

lemma skey_GetLast: "KeysDB_GetLastKeyIndex_sql S p d =
    (if purpose_rows d p = [] then Inl (Err ''sql: no rows in result set'')
     else Inr (k_keyIndex (last (purpose_rows d p)), k_used (last (purpose_rows d p)) \<noteq> 0))"
proof -
  have "first_row (Inr (rev rs)) = (if rs = [] then Inl (Err ''sql: no rows in result set'') else Inr (last rs))" for rs :: "keysRow list"
    by (cases rs rule: rev_cases) (simp_all add: first_row_def)
  then show ?thesis
    by (simp add: KeysDB_GetLastKeyIndex_sql_def sql_row_first keys.Select_rowid purpose_rows_def)
qed

lemma skey_last:
  assumes "sinv d" "KeysDB_GetLastKeyIndex_sql S p d = Inr (i, u)"
  shows "(\<exists>sa. aKeys (sabs d) sa = Some (\<lparr>Change = p, Index = i\<rparr>, u)) \<and> next_key (sabs d) \<lparr>Change = p, Index = i + 1\<rparr>"
proof -
  let ?z = "last (purpose_rows d p)"
  have ne: "purpose_rows d p \<noteq> []" and z: "k_keyIndex ?z = i" "u \<longleftrightarrow> k_used ?z \<noteq> 0"
    using assms(2) by (auto simp: skey_GetLast split: if_splits)
  from last_in_set [OF ne] obtain sa j v where
      "aKeys (sabs d) sa = Some (\<lparr>Change = p, Index = j\<rparr>, v)" "?z = key_row (sa, \<lparr>Change = p, Index = j\<rparr>, v)"
    unfolding purpose_rows_mem [OF assms(1)] by blast
  then have "aKeys (sabs d) sa = Some (\<lparr>Change = p, Index = i\<rparr>, u)"
    using z by simp
  moreover have "j < i + 1" if "aKeys (sabs d) sa' = Some (\<lparr>Change = p, Index = j\<rparr>, v)" for sa' j v
  proof -
    have "key_row (sa', \<lparr>Change = p, Index = j\<rparr>, v) \<in> set (purpose_rows d p)"
      unfolding purpose_rows_mem [OF assms(1)] using that by blast
    from sorted_wrt_last [OF purpose_rows_sorted [OF assms(1)] this] z(1) show ?thesis
      by (metis key_row_simps(2) KeyPath.select_convs(2) add_le_less_mono le_less less_add_one less_trans)
  qed
  ultimately show ?thesis
    by (auto simp: next_key_def)
qed

lemma skey_none: "sinv d \<Longrightarrow> KeysDB_GetLastKeyIndex_sql S p d = Inl e \<Longrightarrow> next_key (sabs d) \<lparr>Change = p, Index = 0\<rparr>"
proof -
  assume inv: "sinv d" and "KeysDB_GetLastKeyIndex_sql S p d = Inl e"
  then have "set (purpose_rows d p) = {}"
    by (auto simp: skey_GetLast split: if_splits)
  then show ?thesis
    unfolding next_key_def by (auto simp: purpose_rows_mem [OF inv] set_eq_iff)
qed

lemma skey_GetPath: "sinv d \<Longrightarrow> KeysDB_GetPathForKey_sql S sa d = Inr kp \<Longrightarrow> \<exists>u. aKeys (sabs d) sa = Some (kp, u)"
proof -
  assume inv: "sinv d" and get: "KeysDB_GetPathForKey_sql S sa d = Inr kp"
  let ?P = "\<lambda>r. k_scriptAddress r = EncodeToString sa \<and> k_purpose r \<noteq> - 1"
  obtain rs where rs: "sql_select (keys_table S) ?P d = Inr rs" "mset rs = mset (filter ?P (tKeys (tabs d)))"
    using keys.Select [of ?P d] by auto
  have P: "wf_key k \<Longrightarrow> ?P (key_row k) \<longleftrightarrow> fst k = sa" for k
    by (cases k) (auto simp: wf_key_def Encode_inj EXTERNAL_def INTERNAL_def)
  have "skeys.okrows (tKeys (tabs d))"
    using inv by (simp add: sqlite_inv_def)
  from skeys.okrows_lookup [OF this P rs(2)] get obtain k where k: "skeys.rmap (tKeys (tabs d)) sa = Some k"
      "kp = \<lparr>Change = k_purpose (key_row k), Index = k_keyIndex (key_row k)\<rparr>"
    by (auto simp: KeysDB_GetPathForKey_sql_def Prepare rs(1) split: option.splits)
  then have "kp = fst (snd k)"
    by (cases k) simp
  then show ?thesis
    using k(1) by (auto simp: sqlite_abs_def intro!: exI [of _ "snd (snd k)"])
qed

lemma skey_GetUnused: "sinv d \<Longrightarrow> KeysDB_GetUnused_sql S p d = Inr js \<Longrightarrow>
    set js = {i. \<exists>sa. aKeys (sabs d) sa = Some (\<lparr>Change = p, Index = i\<rparr>, False)}"
proof -
  assume inv: "sinv d" and "KeysDB_GetUnused_sql S p d = Inr js"
  then have "js = map k_keyIndex (filter (\<lambda>r. k_used r = 0) (purpose_rows d p))"
    by (simp add: KeysDB_GetUnused_sql_def keys.Select_rowid purpose_rows_def filter_filter conj_commute)
  then show ?thesis
    by (force simp: purpose_rows_mem [OF inv] image_iff)
qed

lemma skey_GetAll: "sinv d \<Longrightarrow> KeysDB_GetAll_sql S d = Inr kps \<Longrightarrow> set kps = fst ` ran (aKeys (sabs d))"
proof -
  assume inv: "sinv d" and get: "KeysDB_GetAll_sql S d = Inr kps"
  obtain rs where rs: "sql_select (keys_table S) (\<lambda>_. True) d = Inr rs" "mset rs = mset (tKeys (tabs d))"
    using keys.Select [of "\<lambda>_. True" d] by auto
  have "set kps = (\<lambda>r. \<lparr>Change = k_purpose r, Index = k_keyIndex r\<rparr>) ` set (tKeys (tabs d))"
    using get mset_eq_setD [OF rs(2)] by (simp add: KeysDB_GetAll_sql_def rs(1)) auto
  also have "\<dots> = {kp. \<exists>sa u. aKeys (sabs d) sa = Some (kp, u)}" (is "?l = ?r")
  proof (intro set_eqI iffI)
    fix kp
    assume "kp \<in> ?l"
    then obtain r where "r \<in> set (tKeys (tabs d))" "kp = \<lparr>Change = k_purpose r, Index = k_keyIndex r\<rparr>" by blast
    then show "kp \<in> ?r"
      unfolding skey_rows [OF inv] by (auto, blast)
  next
    fix kp
    assume "kp \<in> ?r"
    then obtain sa u where "aKeys (sabs d) sa = Some (kp, u)" by blast
    then have "key_row (sa, kp, u) \<in> set (tKeys (tabs d))"
      unfolding skey_rows [OF inv] by blast
    then show "kp \<in> ?l"
      by (rule rev_image_eqI) simp
  qed
  also have "\<dots> = fst ` ran (aKeys (sabs d))"
    by (force simp: ran_def)
  finally show ?thesis .
qed

text \<open>The window of a purpose counts the unused keys above its last used one.\<close>

definition keys_above :: "'db \<Rightarrow> int \<Rightarrow> bytes set" where
  "keys_above d p = {sa. \<exists>i. aKeys (sabs d) sa = Some (\<lparr>Change = p, Index = i\<rparr>, False) \<and>
     (\<forall>sa' j. aKeys (sabs d) sa' = Some (\<lparr>Change = p, Index = j\<rparr>, True) \<longrightarrow> j < i)}"

lemma skey_finite: "sinv d \<Longrightarrow> finite (dom (aKeys (sabs d)))"
proof -
  assume "sinv d"
  have "dom (aKeys (sabs d)) = dom (skeys.rmap (tKeys (tabs d)))"
    by (auto simp: sqlite_abs_def dom_def)
  then show ?thesis
    by (simp add: row_map_def finite_dom_map_of)
qed

lemma skey_last_run:
  assumes "sinv d"
  shows "length (takeWhile (\<lambda>r. k_used r = 0) (rev (purpose_rows d p))) = card (keys_above d p)"
proof -
  let ?L = "takeWhile (\<lambda>r. k_used r = 0) (rev (purpose_rows d p))" and ?a = "aKeys (sabs d)"
  have "distinct (tKeys (tabs d))"
    using assms by (simp add: sqlite_inv_def skeys.okrows_distinct)
  then have dist: "distinct ?L"
    by (simp add: distinct_takeWhile purpose_rows_def)
  have img: "set ?L = (\<lambda>sa. key_row (sa, fst (the (?a sa)), False)) ` keys_above d p"
  proof (intro set_eqI iffI)
    fix r
    assume "r \<in> set ?L"
    then have r: "r \<in> set (purpose_rows d p)" "k_used r = 0" "\<forall>y \<in> set (purpose_rows d p). k_used y \<noteq> 0 \<longrightarrow> k_keyIndex y < k_keyIndex r"
      unfolding last_run [OF purpose_rows_sorted [OF assms]] by auto
    then obtain sa i where sa: "?a sa = Some (\<lparr>Change = p, Index = i\<rparr>, False)" "r = key_row (sa, \<lparr>Change = p, Index = i\<rparr>, False)"
      unfolding purpose_rows_mem [OF assms] by auto
    have "j < i" if "?a sa' = Some (\<lparr>Change = p, Index = j\<rparr>, True)" for sa' j
    proof -
      have "key_row (sa', \<lparr>Change = p, Index = j\<rparr>, True) \<in> set (purpose_rows d p)"
        unfolding purpose_rows_mem [OF assms] using that by blast
      from bspec [OF r(3) this] show ?thesis by (simp add: sa(2) sql_bit_def)
    qed
    then have "sa \<in> keys_above d p"
      using sa(1) by (auto simp: keys_above_def)
    then show "r \<in> (\<lambda>sa. key_row (sa, fst (the (?a sa)), False)) ` keys_above d p"
      by (rule rev_image_eqI) (simp add: sa)
  next
    fix r
    assume "r \<in> (\<lambda>sa. key_row (sa, fst (the (?a sa)), False)) ` keys_above d p"
    then obtain sa i where sa: "?a sa = Some (\<lparr>Change = p, Index = i\<rparr>, False)" "r = key_row (sa, \<lparr>Change = p, Index = i\<rparr>, False)"
        "\<forall>sa' j. ?a sa' = Some (\<lparr>Change = p, Index = j\<rparr>, True) \<longrightarrow> j < i"
      by (auto simp: keys_above_def)
    have "k_keyIndex y < i" if "y \<in> set (purpose_rows d p)" "k_used y \<noteq> 0" for y
      using that sa(3) unfolding purpose_rows_mem [OF assms] by auto
    moreover have "r \<in> set (purpose_rows d p)"
      unfolding purpose_rows_mem [OF assms] using sa(1,2) by blast
    ultimately show "r \<in> set ?L"
      unfolding last_run [OF purpose_rows_sorted [OF assms]] by (simp add: sa(2))
  qed
  have "inj_on (\<lambda>sa. key_row (sa, fst (the (?a sa)), False)) (keys_above d p)"
    by (auto simp: inj_on_def key_row_def Encode_inj)
  from card_image [OF this] show ?thesis
    unfolding distinct_card [OF dist, symmetric] img .
qed

lemma skey_windows: "sinv d \<Longrightarrow> KeysDB_GetLookaheadWindows_sql S d =
    [0 \<mapsto> int (card (keys_above d 0)), 1 \<mapsto> int (card (keys_above d 1))]"
  using skey_last_run [of d 0] skey_last_run [of d 1]
  by (simp add: KeysDB_GetLookaheadWindows_sql_def keys.Select_rowid purpose_rows_def)

lemma skey_above_unused: "sinv d \<Longrightarrow> card (keys_above d p) \<le> card (unused_keys (sabs d) p)"
proof (rule card_mono)
  assume "sinv d"
  from skey_finite [OF this] show "finite (unused_keys (sabs d) p)"
    by (rule rev_finite_subset) (auto simp: unused_keys_def)
qed (auto simp: keys_above_def unused_keys_def)

section \<open>Subscriptions\<close>

lemma ssub_Put_step:
  assumes "sinv d" "SubscriptionsDB_Put_sql S s d = (d', r)"
  shows "sinv d' \<and> sabs d' = (if isl r then sabs d else (sabs d)\<lparr>aSubs := (aSubs (sabs d))(PkScript s \<mapsto> s)\<rparr>)"
  using assms(1) assms(2) [unfolded SubscriptionsDB_Put_sql_def]
proof (rule tx_step)
  fix d1
  assume r: "sql_replace (subscriptions_table S) (sub_row s) d = Inr d1"
  from ssubs.okrows_replace [of "tSubs (tabs d)" s] assms(1)
  show "sinv d1 \<and> sabs d1 = (sabs d)\<lparr>aSubs := (aSubs (sabs d))(PkScript s \<mapsto> s)\<rparr>"
    by (simp add: subs.Replace [OF r] sqlite_inv_def sqlite_abs_def)
qed

lemma ssub_Delete_step:
  assumes "sinv d" "SubscriptionsDB_Delete_sql S k d = (d', r)"
  shows "sinv d' \<and> sabs d' = (if isl r then sabs d else (sabs d)\<lparr>aSubs := (aSubs (sabs d))(k := None)\<rparr>)"
  using assms(1) assms(2) [unfolded SubscriptionsDB_Delete_sql_def]
proof (rule exec_step)
  fix d1
  assume r: "sql_delete (subscriptions_table S) (\<lambda>r. b_scriptPubKey r = k) d = Inr d1"
  from ssubs.okrows_delete [of "tSubs (tabs d)" "\<lambda>r. b_scriptPubKey r = k" k] assms(1)
  show "sinv d1 \<and> sabs d1 = (sabs d)\<lparr>aSubs := (aSubs (sabs d))(k := None)\<rparr>"
    by (simp add: subs.SDelete [OF r] sqlite_inv_def sqlite_abs_def)
qed

lemma row_sub_row [simp]: "row_sub (sub_row s) = s"
  by (simp add: row_sub_def sub_row_def)

lemma ssub_Get: "sinv d \<Longrightarrow> SubscriptionsDB_Get_sql S k d = Inr s \<Longrightarrow> aSubs (sabs d) k = Some s"
proof -
  assume inv: "sinv d" and get: "SubscriptionsDB_Get_sql S k d = Inr s"
  let ?P = "\<lambda>r. b_scriptPubKey r = k"
  obtain rs where rs: "sql_select (subscriptions_table S) ?P d = Inr rs" "mset rs = mset (filter ?P (tSubs (tabs d)))"
    using subs.Select [of ?P d] by auto
  have ok: "ssubs.okrows (tSubs (tabs d))"
    using inv by (simp add: sqlite_inv_def)
  from ssubs.okrows_lookup [OF ok _ rs(2), of k] get obtain a where
      "ssubs.rmap (tSubs (tabs d)) k = Some a" "s = a\<lparr>PkScript := k\<rparr>"
    by (auto simp: SubscriptionsDB_Get_sql_def sql_row_first rs(1) split: option.splits)
  then show ?thesis
    using ssubs.okrows_get [OF ok] by (auto simp: sqlite_abs_def)
qed

lemma ssub_list:
  assumes "sinv d" "mset rs = mset (filter P (tSubs (tabs d)))" "r \<in> set rs"
  shows "P r \<and> aSubs (sabs d) (PkScript (row_sub r)) = Some (row_sub r)"
proof -
  have ok: "ssubs.okrows (tSubs (tabs d))"
    using assms(1) by (simp add: sqlite_inv_def)
  have "r \<in> set (tSubs (tabs d))" "P r"
    using mset_eq_setD [OF assms(2)] assms(3) by auto
  then obtain i a where "ssubs.rmap (tSubs (tabs d)) i = Some a" "r = sub_row a"
    using ssubs.okrows_mem [OF ok] by blast
  then show ?thesis
    using ssubs.okrows_get [OF ok] \<open>P r\<close> by (auto simp: sqlite_abs_def)
qed

lemma ssub_GetElectrumScripthash: "sinv d \<Longrightarrow> SubscriptionsDB_GetElectrumScripthash_sql S e d = Inr s \<Longrightarrow>
    ElectrumScripthash s = e \<and> aSubs (sabs d) (PkScript s) = Some s"
proof -
  assume inv: "sinv d" and get: "SubscriptionsDB_GetElectrumScripthash_sql S e d = Inr s"
  let ?P = "\<lambda>r. b_electrumScripthash r = e"
  obtain rs where rs: "sql_select (subscriptions_table S) ?P d = Inr rs" "mset rs = mset (filter ?P (tSubs (tabs d)))"
    using subs.Select [of ?P d] by auto
  obtain r rs' where r: "rs = r # rs'" "s = (row_sub r)\<lparr>ElectrumScripthash := e\<rparr>"
    using get by (cases rs) (auto simp: SubscriptionsDB_GetElectrumScripthash_sql_def sql_row_first rs(1) first_row_def)
  have "?P r \<and> aSubs (sabs d) (PkScript (row_sub r)) = Some (row_sub r)"
    by (rule ssub_list [OF inv rs(2)]) (simp add: r(1))
  then have "ElectrumScripthash (row_sub r) = e" "aSubs (sabs d) (PkScript (row_sub r)) = Some (row_sub r)"
    by (simp_all add: row_sub_def)
  moreover from this(1) have "s = row_sub r"
    by (simp add: r(2))
  ultimately show ?thesis by simp
qed

lemma ssub_GetAll: "sinv d \<Longrightarrow> SubscriptionsDB_GetAll_sql S d = Inr ss \<Longrightarrow> lists_map PkScript ss (aSubs (sabs d))"
proof -
  assume inv: "sinv d" and get: "SubscriptionsDB_GetAll_sql S d = Inr ss"
  obtain rs where rs: "sql_select (subscriptions_table S) (\<lambda>_. True) d = Inr rs" "mset rs = mset (tSubs (tabs d))"
    using subs.Select [of "\<lambda>_. True" d] by auto
  have "ssubs.okrows (tSubs (tabs d))"
    using inv by (simp add: sqlite_inv_def)
  from ssubs.okrows_list [OF this rs(2)] obtain as where as: "rs = map sub_row as"
      "lists_map PkScript as (ssubs.rmap (tSubs (tabs d)))" by blast
  have "ss = as"
    using get by (simp add: SubscriptionsDB_GetAll_sql_def rs(1) as(1) comp_def)
  then show ?thesis
    using as(2) by (simp add: sqlite_abs_def)
qed

section \<open>The creation date\<close>

lemma scfg_Put_step:
  assumes "sinv d" "CfgDB_PutCreationDate_sql S t d = (d', r)"
  shows "sinv d' \<and> sabs d' = (if isl r then sabs d else (sabs d)\<lparr>aCfg := Some (in_seconds t)\<rparr>)"
  using assms(1) assms(2) [unfolded CfgDB_PutCreationDate_sql_def]
proof (rule tx_step)
  fix d1
  assume r: "sql_replace (config_table S) \<lparr>g_key = ''creationDate'', g_value = Unix t\<rparr> d = Inr d1"
  show "sinv d1 \<and> sabs d1 = (sabs d)\<lparr>aCfg := Some (in_seconds t)\<rparr>"
    using assms(1) by (simp add: config.Replace [OF r] sqlite_inv_def sqlite_abs_def only_value_replace distinct_replace_row
        in_seconds_def)
qed

lemma scfg_Get: "sinv d \<Longrightarrow> aCfg (sabs d) = Some t \<Longrightarrow> CfgDB_GetCreationDate_sql S d = Inr t"
proof -
  assume inv: "sinv d" and t: "aCfg (sabs d) = Some t"
  let ?P = "\<lambda>r. g_key r = ''creationDate''"
  obtain rs where rs: "sql_select (config_table S) ?P d = Inr rs" "mset rs = mset (filter ?P (tConfig (tabs d)))"
    using config.Select [of ?P d] by auto
  have "distinct (map g_key (tConfig (tabs d)))"
    using inv by (simp add: sqlite_inv_def)
  from first_row_find [OF this _ rs(2)] t show ?thesis
    by (auto simp: CfgDB_GetCreationDate_sql_def sql_row_first rs(1) sqlite_abs_def only_value_def)
qed

section \<open>The encrypted storage\<close>

lemma senc_Put_step:
  assumes "sinv d" "EncDB_PutEncrypted_sql C nonce S b pw d = (d', r)"
  shows "sinv d' \<and> sabs d' = (if isl r then sabs d else (sabs d)\<lparr>aEnc := Some (encryptBytes C nonce b pw)\<rparr>)"
  using assms(1) assms(2) [unfolded EncDB_PutEncrypted_sql_def]
proof (rule tx_step)
  fix d1
  assume r: "sql_replace (enc_table S) \<lparr>e_key = ''storage'', e_value = encryptBytes C nonce b pw\<rparr> d = Inr d1"
  show "sinv d1 \<and> sabs d1 = (sabs d)\<lparr>aEnc := Some (encryptBytes C nonce b pw)\<rparr>"
    using assms(1) by (simp add: enc.Replace [OF r] sqlite_inv_def sqlite_abs_def only_value_replace distinct_replace_row)
qed

lemma senc_Get: "sinv d \<Longrightarrow> EncDB_GetDecrypted_sql C S pw d =
    (case aEnc (sabs d) of None \<Rightarrow> Inl (Err ''sql: no rows in result set'') | Some raw \<Rightarrow> decryptBytes C raw pw)"
proof -
  assume inv: "sinv d"
  let ?P = "\<lambda>r. e_key r = ''storage''"
  obtain rs where rs: "sql_select (enc_table S) ?P d = Inr rs" "mset rs = mset (filter ?P (tEnc (tabs d)))"
    using enc.Select [of ?P d] by auto
  have "distinct (map e_key (tEnc (tabs d)))"
    using inv by (simp add: sqlite_inv_def)
  from first_row_find [OF this _ rs(2)] show ?thesis
    by (simp add: EncDB_GetDecrypted_sql_def sql_row_first rs(1) sqlite_abs_def only_value_def split: option.split)
qed

end

section \<open>The interfaces\<close>

lemmas sql_datastore_simps = SQLiteDatastore_def Datastore.select_convs Utxos.select_convs Stxos.select_convs
  Txns.select_convs Keys.select_convs Subscriptions.select_convs Enc.select_convs Cfg.select_convs

sublocale sqlite_store \<subseteq> SU: utxo_store "DS_Utxos (SQLiteDatastore H C nonce S)" "\<lambda>d. sqlite_abs H (tabs d)"
  "\<lambda>d. sqlite_inv H (tabs d)" for C nonce
proof (unfold_locales; (unfold sql_datastore_simps)?)
  fix d us
  assume "sinv d" "UtxoDB_GetAll_sql H S d = Inr us"
  then show "lists_map Op us (aUtxos (sabs d))"
    by (metis sutxo_GetAll sum.inject(2))
qed (rule sutxo_Put_step sutxo_Freeze_step sutxo_UnFreeze_step sutxo_SetWatchOnly_step sutxo_Delete_step sutxo_wf; assumption)+

sublocale sqlite_store \<subseteq> SS: stxo_store "DS_Stxos (SQLiteDatastore H C nonce S)" "\<lambda>d. sqlite_abs H (tabs d)"
  "\<lambda>d. sqlite_inv H (tabs d)" thawed for C nonce
proof (unfold_locales; (unfold sql_datastore_simps)?)
  fix d ss
  assume "sinv d" "StxoDB_GetAll_sql H S d = Inr ss"
  then show "lists_map (\<lambda>s. Op (SUtxo s)) ss (aStxos (sabs d))"
    by (metis sstxo_GetAll sum.inject(2))
next
  show "wf_stxo s" if "sinv d" "aStxos (sabs d) op = Some s" for d op s
    using sstxo_wf that by blast
  show "\<exists>b. thawed s = s\<lparr>SUtxo := (SUtxo s)\<lparr>Frozen := b\<rparr>\<rparr>" for s
    by (auto simp: thawed_def)
qed (rule sstxo_Put_step sstxo_Delete_step thawed_simps; assumption?)+

sublocale sqlite_store \<subseteq> ST: txn_store "DS_Txns (SQLiteDatastore H C nonce S)" "\<lambda>d. sqlite_abs H (tabs d)"
  "\<lambda>d. sqlite_inv H (tabs d)" in_seconds for C nonce
proof (unfold_locales; (unfold sql_datastore_simps)?)
  fix d every xs
  assume inv: "sinv d" and get: "TxnsDB_GetAll_sql S every d = Inr xs"
  obtain ys where "TxnsDB_GetAll_sql S every d = Inr ys" "lists_map Txid ys (\<lambda>k. case aTxns (sabs d) k of None \<Rightarrow> None
      | Some x \<Rightarrow> if TWatchOnly x \<and> \<not> every then None else Some x)"
    by (rule stxn_GetAll [OF inv])
  then show "lists_map Txid xs (\<lambda>k. case aTxns (sabs d) k of None \<Rightarrow> None
      | Some x \<Rightarrow> if TWatchOnly x \<and> \<not> every then None else Some x)"
    using get by simp
next
  show "aTxns (sabs d) txid = Some x" if "sinv d" "TxnsDB_Get_sql S txid d = Inr x" for d txid x
    using stxn_Get [OF that(1), of txid] that(2) by (simp split: option.splits)
qed (rule stxn_Put_step stxn_UpdateHeight_step stxn_Delete_step; assumption)+

sublocale sqlite_store \<subseteq> SK: key_store "DS_Keys (SQLiteDatastore H C nonce S)" "\<lambda>d. sqlite_abs H (tabs d)"
  "\<lambda>d. sqlite_inv H (tabs d)" for C nonce
proof (unfold_locales; (unfold sql_datastore_simps)?)
  fix d p n
  assume inv: "sinv d" and n: "KeysDB_GetLookaheadWindows_sql S d p = Some n"
  then have "n = int (card (keys_above d p))"
    by (auto simp: skey_windows split: if_splits)
  then show "0 \<le> n \<and> n \<le> int (card (unused_keys (sabs d) p))"
    using skey_above_unused [OF inv] by simp
next
  show "dom (KeysDB_GetLookaheadWindows_sql S d) = {EXTERNAL, INTERNAL}" if "sinv d" for d
    by (auto simp: skey_windows [OF that] EXTERNAL_def INTERNAL_def)
qed (rule skey_Put_step skey_Mark_step skey_last skey_none skey_GetPath skey_GetUnused skey_GetAll skey_finite skey_wf; assumption)+

sublocale sqlite_store \<subseteq> SB: sub_store "DS_Subscriptions (SQLiteDatastore H C nonce S)" "\<lambda>d. sqlite_abs H (tabs d)"
  "\<lambda>d. sqlite_inv H (tabs d)" for C nonce
  by (unfold_locales; (unfold sql_datastore_simps)?)
    (rule ssub_Put_step ssub_Delete_step ssub_Get ssub_GetElectrumScripthash ssub_GetAll; assumption)+

sublocale sqlite_store \<subseteq> SC: cfg_store "DS_Cfg (SQLiteDatastore H C nonce S)" "\<lambda>d. sqlite_abs H (tabs d)"
  "\<lambda>d. sqlite_inv H (tabs d)" in_seconds for C nonce
  by (unfold_locales; (unfold sql_datastore_simps)?) (rule scfg_Put_step scfg_Get; assumption)+

locale sqlite_enc = sqlite_store + secret_box C for C :: crypto_lib +
  fixes nonce :: bytes
  assumes nonce_length: "length nonce = 24"

sublocale sqlite_enc \<subseteq> SE: enc_store "DS_Enc (SQLiteDatastore H C nonce S)" "\<lambda>d. sqlite_abs H (tabs d)"
  "\<lambda>d. sqlite_inv H (tabs d)" "decryptBytes C" "\<lambda>pw pw'. IDKey C pw = IDKey C pw'"
proof (unfold_locales; (unfold sql_datastore_simps)?)
  fix d b pw d' r
  assume "sinv d" "EncDB_PutEncrypted_sql C nonce S b pw d = (d', r)"
  then show "sinv d' \<and> (if isl r then sabs d' = sabs d
    else (\<exists>raw. sabs d' = (sabs d)\<lparr>aEnc := Some raw\<rparr> \<and> decryptBytes C raw pw = Inr b \<and>
      (\<forall>pw'. IDKey C pw \<noteq> IDKey C pw' \<longrightarrow> isl (decryptBytes C raw pw'))))"
    using senc_Put_step [of d C nonce b pw d' r] by (cases "isl r") (auto simp: decrypt_encrypt [OF nonce_length])
qed (simp_all add: senc_Get)

end
