(* ===== verification/Key_Manager.thy ===== *)
theory Key_Manager
  imports Store_Laws
begin

text \<open>
  The HD key manager of \<open>wallet/wltbtc/keys.go\<close> (the same code in \<open>wltdash\<close> and \<open>wltfiro\<close>): BIP44
  derivation, fresh and unused keys, and the lookahead window.  \<open>hdkeychain\<close> is the parameter
  \<open>hd_lib\<close>; the key table is a \<open>Keys\<close> interface.  An operation that may loop forever returns an option,
  \<open>None\<close> for not returning.
\<close>

section \<open>Runs that may not return\<close>

type_synonym ('s, 'a) run = "('s \<times> 'a result) option"

definition thenO :: "('s, 'a) run \<Rightarrow> ('s \<Rightarrow> 'a \<Rightarrow> ('s, 'b) run) \<Rightarrow> ('s, 'b) run" where
  "thenO m k = (case m of None \<Rightarrow> None
     | Some (s, r) \<Rightarrow> (case r of Inl e \<Rightarrow> Some (s, Inl e) | Inr x \<Rightarrow> k s x))"

lemma thenO_simps [simp]:
  "thenO None k = None" "thenO (Some (s, Inl e)) k = Some (s, Inl e)" "thenO (Some (s, Inr x)) k = k s x"
  by (simp_all add: thenO_def)

lemma thenO_eq_Inr:
  "thenO m k = Some (s', Inr y) \<longleftrightarrow> (\<exists>s x. m = Some (s, Inr x) \<and> k s x = Some (s', Inr y))"
  by (cases m; cases "snd (the m)") (auto simp: thenO_def)

lemma read_eq_Inr:
  "(case r of Inl e \<Rightarrow> Some (s, Inl e) | Inr x \<Rightarrow> k x) = Some (s', Inr y) \<longleftrightarrow>
   (\<exists>x. r = Inr x \<and> k x = Some (s', Inr y))"
  by (cases r) auto

section \<open>Keys\<close>

text \<open>\<open>ScriptAddress\<close> is \<open>Address(params)\<close> followed by its \<open>ScriptAddress()\<close>.\<close>

record 'k hd_lib =
  Derive :: "'k \<Rightarrow> int \<Rightarrow> 'k result"
  ScriptAddress :: "'k \<Rightarrow> bytes result"

definition HardenedKeyStart :: int where
  "HardenedKeyStart = 2 ^ 31"

definition GAP_LIMIT :: int where
  "GAP_LIMIT = 10"

record 'k KeyManager =
  internalKey :: 'k
  externalKey :: 'k

definition Bip44Derivation :: "'k hd_lib \<Rightarrow> 'k \<Rightarrow> ('k \<times> 'k) result" where
  "Bip44Derivation hdk masterPrivKey =
     thenR (Derive hdk masterPrivKey (HardenedKeyStart + 44)) (\<lambda>fourtyFour.
     thenR (Derive hdk fourtyFour (HardenedKeyStart + 0)) (\<lambda>bitcoin.
     thenR (Derive hdk bitcoin (HardenedKeyStart + 0)) (\<lambda>account.
     thenR (Derive hdk account 0) (\<lambda>external.
     thenR (Derive hdk account 1) (\<lambda>internal. Inr (internal, external))))))"

definition generateChildKey :: "'k hd_lib \<Rightarrow> 'k KeyManager \<Rightarrow> KeyChange \<Rightarrow> int \<Rightarrow> 'k result" where
  "generateChildKey hdk km purpose index =
     (if purpose = EXTERNAL then Derive hdk (externalKey km) index
      else if purpose = INTERNAL then Derive hdk (internalKey km) index
      else Inl (Err ''unknown key purpose''))"

definition GetUnusedKey :: "'k hd_lib \<Rightarrow> 'ds Keys \<Rightarrow> 'k KeyManager \<Rightarrow> KeyChange \<Rightarrow> 'ds \<Rightarrow> 'k result" where
  "GetUnusedKey hdk K km purpose ds =
     thenR (K_GetUnused K purpose ds) (\<lambda>i.
       if i = [] then Inl (Err ''no unused keys in database'')
       else generateChildKey hdk km purpose (u32 (i ! 0)))"

text \<open>The loop of \<open>GetFreshKey\<close> goes on until an index derives.\<close>

partial_function (option) fresh_loop ::
  "'k hd_lib \<Rightarrow> 'k KeyManager \<Rightarrow> KeyChange \<Rightarrow> int \<Rightarrow> ('k \<times> int) option" where
  "fresh_loop hdk km purpose index =
     (case generateChildKey hdk km purpose (u32 index) of
        Inr childKey \<Rightarrow> Some (childKey, index)
      | Inl err \<Rightarrow> fresh_loop hdk km purpose (index + 1))"

definition start_index :: "'ds Keys \<Rightarrow> KeyChange \<Rightarrow> 'ds \<Rightarrow> int" where
  "start_index K purpose ds =
     (case K_GetLastKeyIndex K purpose ds of Inl err \<Rightarrow> 0 | Inr (index, _) \<Rightarrow> index + 1)"

definition GetFreshKey :: "'k hd_lib \<Rightarrow> 'ds Keys \<Rightarrow> 'k KeyManager \<Rightarrow> KeyChange \<Rightarrow> 'ds \<Rightarrow> ('ds, 'k) run" where
  "GetFreshKey hdk K km purpose ds =
     (case fresh_loop hdk km purpose (start_index K purpose ds) of
        None \<Rightarrow> None
      | Some (childKey, index) \<Rightarrow>
          (case ScriptAddress hdk childKey of
             Inl err \<Rightarrow> Some (ds, Inl err)
           | Inr addr \<Rightarrow>
               (case K_Put K addr \<lparr>Change = purpose, Index = index\<rparr> ds of
                  (ds', Inl err) \<Rightarrow> Some (ds', Inl err)
                | (ds', Inr _) \<Rightarrow> Some (ds', Inr childKey))))"

fun fresh_times :: "nat \<Rightarrow> 'k hd_lib \<Rightarrow> 'ds Keys \<Rightarrow> 'k KeyManager \<Rightarrow> KeyChange \<Rightarrow> 'ds \<Rightarrow> ('ds, unit) run" where
  "fresh_times 0 hdk K km purpose ds = Some (ds, Inr ())"
| "fresh_times (Suc n) hdk K km purpose ds =
     thenO (GetFreshKey hdk K km purpose ds) (\<lambda>ds _. fresh_times n hdk K km purpose ds)"

text \<open>Go ranges over a map in any order: \<open>order\<close> lists the purposes in the order taken.\<close>

fun lookahead_loop ::
  "KeyChange list \<Rightarrow> (KeyChange \<rightharpoonup> int) \<Rightarrow> 'k hd_lib \<Rightarrow> 'ds Keys \<Rightarrow> 'k KeyManager \<Rightarrow> 'ds \<Rightarrow> ('ds, unit) run" where
  "lookahead_loop [] lookaheadWindows hdk K km ds = Some (ds, Inr ())"
| "lookahead_loop (purpose # order) lookaheadWindows hdk K km ds =
     (case lookaheadWindows purpose of
        None \<Rightarrow> lookahead_loop order lookaheadWindows hdk K km ds
      | Some window \<Rightarrow>
          (if window < GAP_LIMIT
           then thenO (fresh_times (nat (GAP_LIMIT - window)) hdk K km purpose ds)
                  (\<lambda>ds _. lookahead_loop order lookaheadWindows hdk K km ds)
           else lookahead_loop order lookaheadWindows hdk K km ds))"

definition lookahead ::
  "KeyChange list \<Rightarrow> 'k hd_lib \<Rightarrow> 'ds Keys \<Rightarrow> 'k KeyManager \<Rightarrow> 'ds \<Rightarrow> ('ds, unit) run" where
  "lookahead order hdk K km ds = lookahead_loop order (K_GetLookaheadWindows K ds) hdk K km ds"

definition NewKeyManager ::
  "KeyChange list \<Rightarrow> 'k hd_lib \<Rightarrow> 'ds Keys \<Rightarrow> 'k \<Rightarrow> 'ds \<Rightarrow> ('ds, 'k KeyManager) run" where
  "NewKeyManager order hdk K masterPrivKey ds =
     (case Bip44Derivation hdk masterPrivKey of Inl err \<Rightarrow> Some (ds, Inl err)
      | Inr (internal, external) \<Rightarrow>
          (let km = \<lparr>internalKey = internal, externalKey = external\<rparr> in
           thenO (lookahead order hdk K km ds) (\<lambda>ds _. Some (ds, Inr km))))"

text \<open>Keys that do not derive are skipped.\<close>

fun keys_of :: "'k hd_lib \<Rightarrow> 'k KeyManager \<Rightarrow> KeyPath list \<Rightarrow> 'k list" where
  "keys_of hdk km [] = []"
| "keys_of hdk km (path # keyPaths) =
     (case generateChildKey hdk km (Change path) (u32 (Index path)) of
        Inl err \<Rightarrow> keys_of hdk km keyPaths
      | Inr k \<Rightarrow> k # keys_of hdk km keyPaths)"

definition GetKeys :: "'k hd_lib \<Rightarrow> 'ds Keys \<Rightarrow> 'k KeyManager \<Rightarrow> 'ds \<Rightarrow> 'k list" where
  "GetKeys hdk K km ds =
     (case K_GetAll K ds of Inl err \<Rightarrow> [] | Inr keyPaths \<Rightarrow> keys_of hdk km keyPaths)"

definition GetKeyForScript :: "'k hd_lib \<Rightarrow> 'ds Keys \<Rightarrow> 'k KeyManager \<Rightarrow> bytes \<Rightarrow> 'ds \<Rightarrow> 'k result" where
  "GetKeyForScript hdk K km scriptAddress ds =
     thenR (K_GetPathForKey K scriptAddress ds) (\<lambda>keyPath.
       generateChildKey hdk km (Change keyPath) (u32 (Index keyPath)))"

definition MarkKeyAsUsed ::
  "KeyChange list \<Rightarrow> 'k hd_lib \<Rightarrow> 'ds Keys \<Rightarrow> 'k KeyManager \<Rightarrow> bytes \<Rightarrow> 'ds \<Rightarrow> ('ds, unit) run" where
  "MarkKeyAsUsed order hdk K km scriptAddress ds =
     (case K_MarkKeyAsUsed K scriptAddress ds of
        (ds', Inl err) \<Rightarrow> Some (ds', Inl err)
      | (ds', Inr _) \<Rightarrow> lookahead order hdk K km ds')"

section \<open>The loop\<close>

text \<open>\<open>first_key i j k\<close>: \<open>j\<close> is the first index from \<open>i\<close> on that derives, and \<open>k\<close> is its key.\<close>

definition first_key :: "'k hd_lib \<Rightarrow> 'k KeyManager \<Rightarrow> KeyChange \<Rightarrow> int \<Rightarrow> int \<Rightarrow> 'k \<Rightarrow> bool" where
  "first_key hdk km p i j k \<longleftrightarrow> i \<le> j \<and> generateChildKey hdk km p (u32 j) = Inr k \<and>
     (\<forall>m. i \<le> m \<longrightarrow> m < j \<longrightarrow> isl (generateChildKey hdk km p (u32 m)))"

lemma fresh_loop_first: "fresh_loop hdk km p i = Some y \<Longrightarrow> first_key hdk km p i (snd y) (fst y)"
proof (rule fresh_loop.raw_induct [where P = "\<lambda>hdk km p i y. first_key hdk km p i (snd y) (fst y)"])
  fix loop and hdk :: "'k hd_lib" and km p i y
  assume IH: "\<And>hdk km p i y. loop hdk km p i = Some y \<Longrightarrow> first_key hdk km p i (snd y) (fst y)"
    and run: "(case generateChildKey hdk km p (u32 i) of Inl err \<Rightarrow> loop hdk km p (i + 1)
      | Inr childKey \<Rightarrow> Some (childKey, i)) = Some y"
  show "first_key hdk km p i (snd y) (fst y)"
  proof (cases "generateChildKey hdk km p (u32 i)")
    case (Inr k)
    then show ?thesis using run by (auto simp: first_key_def)
  next
    case (Inl e)
    then have "first_key hdk km p (i + 1) (snd y) (fst y)"
      using run IH by simp
    moreover have "isl (generateChildKey hdk km p (u32 m))" if "i \<le> m" "m < snd y" for m
      using that Inl calculation by (cases "m = i") (auto simp: first_key_def)
    ultimately show ?thesis by (auto simp: first_key_def)
  qed
qed

lemma fresh_loop_returns: "first_key hdk km p i j k \<Longrightarrow> fresh_loop hdk km p i = Some (k, j)"
proof (induction "nat (j - i)" arbitrary: i)
  case 0
  then have "i = j" by (auto simp: first_key_def)
  then show ?case using 0 by (subst fresh_loop.simps) (simp add: first_key_def)
next
  case (Suc n)
  then have "isl (generateChildKey hdk km p (u32 i))" "first_key hdk km p (i + 1) j k" "n = nat (j - (i + 1))"
    by (auto simp: first_key_def)
  then show ?case
    using Suc.hyps(1) by (subst fresh_loop.simps) (auto simp: isl_def)
qed

lemma first_key_exists:
  assumes "i \<le> j" and "\<not> isl (generateChildKey hdk km p (u32 j))"
  shows "\<exists>m k. first_key hdk km p i m k"
  using assms
proof (induction "nat (j - i)" arbitrary: i)
  case 0
  then have "i = j" by simp
  then show ?case using 0 by (cases "generateChildKey hdk km p (u32 j)") (auto simp: first_key_def)
next
  case (Suc n)
  show ?case
  proof (cases "generateChildKey hdk km p (u32 i)")
    case (Inr k)
    then have "first_key hdk km p i i k" by (simp add: first_key_def)
    then show ?thesis by blast
  next
    case (Inl e)
    have "i < j" using Suc.hyps(2) by simp
    then have "\<exists>m k. first_key hdk km p (i + 1) m k"
      using Suc.hyps(2) Suc.prems by (intro Suc.hyps(1)) auto
    then obtain m k where mk: "first_key hdk km p (i + 1) m k"
      by blast
    have "isl (generateChildKey hdk km p (u32 x))" if "i \<le> x" "x < m" for x
      using that mk Inl by (cases "x = i") (auto simp: first_key_def)
    then have "first_key hdk km p i m k"
      using mk by (auto simp: first_key_def)
    then show ?thesis by blast
  qed
qed

lemma unknown_purpose: "p \<notin> {EXTERNAL, INTERNAL} \<Longrightarrow> isl (generateChildKey hdk km p i)"
  by (simp add: generateChildKey_def)


section \<open>The lookahead window\<close>

text \<open>Two key paths never give the same 20-byte script address, and of two neighbouring indices one
  derives (an invalid key has probability about \<open>2 ^ -127\<close>).\<close>

locale hd_keys =
  fixes hdk :: "'k hd_lib" and km :: "'k KeyManager"
  assumes address: "generateChildKey hdk km p i = Inr k \<Longrightarrow> \<exists>sa. ScriptAddress hdk k = Inr sa \<and> length sa = 20"
    and address_inj: "generateChildKey hdk km p i = Inr k \<Longrightarrow> generateChildKey hdk km q j = Inr l \<Longrightarrow>
      0 \<le> i \<Longrightarrow> i < 2 ^ 32 \<Longrightarrow> 0 \<le> j \<Longrightarrow> j < 2 ^ 32 \<Longrightarrow>
      ScriptAddress hdk k = ScriptAddress hdk l \<Longrightarrow> p = q \<and> i = j"
    and neighbour: "p \<in> {EXTERNAL, INTERNAL} \<Longrightarrow> 0 \<le> i \<Longrightarrow> i + 1 < 2 ^ 32 \<Longrightarrow>
      \<not> isl (generateChildKey hdk km p i) \<or> \<not> isl (generateChildKey hdk km p (i + 1))"

text \<open>Every stored key is derived from its path, and there is room for \<open>n\<close> more below \<open>2 ^ 32\<close>.\<close>

definition derived :: "'k hd_lib \<Rightarrow> 'k KeyManager \<Rightarrow> abs_store \<Rightarrow> bool" where
  "derived hdk km a \<longleftrightarrow>
     (\<forall>sa kp u. aKeys a sa = Some (kp, u) \<longrightarrow>
        (\<exists>k. generateChildKey hdk km (Change kp) (Index kp) = Inr k \<and> ScriptAddress hdk k = Inr sa))"

definition room :: "nat \<Rightarrow> abs_store \<Rightarrow> bool" where
  "room n a \<longleftrightarrow> n < 2 ^ 30 \<and>
     (\<forall>sa kp u. aKeys a sa = Some (kp, u) \<longrightarrow> 0 \<le> Index kp \<and> Index kp + 2 * int n + 2 \<le> 2 ^ 32)"

definition grows :: "abs_store \<Rightarrow> abs_store \<Rightarrow> bool" where
  "grows a a' \<longleftrightarrow> a' = a\<lparr>aKeys := aKeys a'\<rparr> \<and> aKeys a \<subseteq>\<^sub>m aKeys a'"

lemma grows_refl [simp]: "grows a a"
  by (simp add: grows_def)

lemma grows_trans: "grows a b \<Longrightarrow> grows b c \<Longrightarrow> grows a c"
  unfolding grows_def by (metis abs_store.surjective abs_store.update_convs(4) map_le_trans)

lemma grows_unused: "grows a a' \<Longrightarrow> unused_keys a p \<subseteq> unused_keys a' p"
  unfolding grows_def unused_keys_def by (auto simp: map_le_def dom_def) (metis option.distinct(1))

lemma room_mono: "room n a \<Longrightarrow> m \<le> n \<Longrightarrow> room m a"
  by (fastforce simp: room_def)

locale wallet_keys = key_store K A inv + hd_keys hdk km
  for K :: "'ds Keys" and A and inv and hdk :: "'k hd_lib" and km
begin

lemma next_start:
  assumes "inv ds" and "room (Suc n) (A ds)"
  shows "next_key (A ds) \<lparr>Change = p, Index = start_index K p ds\<rparr> \<and> 0 \<le> start_index K p ds \<and>
    start_index K p ds + 2 * int n + 3 \<le> 2 ^ 32"
proof (cases "K_GetLastKeyIndex K p ds")
  case (Inl e)
  then show ?thesis
    using K_no_key [OF assms(1) Inl] assms(2) by (simp add: start_index_def room_def)
next
  case (Inr iu)
  obtain i u where [simp]: "iu = (i, u)" by (cases iu)
  have l: "\<exists>sa. aKeys (A ds) sa = Some (\<lparr>Change = p, Index = i\<rparr>, u)"
    "next_key (A ds) \<lparr>Change = p, Index = i + 1\<rparr>"
    using K_GetLastKeyIndex [OF assms(1)] Inr by auto
  then have "0 \<le> i \<and> i + 2 * int (Suc n) + 2 \<le> 2 ^ 32"
    using assms(2) by (fastforce simp: room_def)
  then show ?thesis
    using Inr l(2) by (simp add: start_index_def)
qed

lemma u32_small: "0 \<le> i \<Longrightarrow> i < 2 ^ 32 \<Longrightarrow> u32 i = i"
  by (rule u32_id)

lemma fresh_found:
  assumes "inv ds" and "room (Suc n) (A ds)" and "p \<in> {EXTERNAL, INTERNAL}"
  obtains k j where "fresh_loop hdk km p (start_index K p ds) = Some (k, j)"
    "generateChildKey hdk km p j = Inr k" "next_key (A ds) \<lparr>Change = p, Index = j\<rparr>"
    "0 \<le> j" "j + 2 * int n + 2 \<le> 2 ^ 32"
proof -
  let ?s = "start_index K p ds"
  have s: "next_key (A ds) \<lparr>Change = p, Index = ?s\<rparr>" "0 \<le> ?s" "?s + 2 * int n + 3 \<le> 2 ^ 32"
    using next_start [OF assms(1,2)] by auto
  have "\<not> isl (generateChildKey hdk km p ?s) \<or> \<not> isl (generateChildKey hdk km p (?s + 1))"
    using neighbour [OF assms(3) s(2)] s(3) by simp
  then obtain j0 where j0: "?s \<le> j0" "j0 \<le> ?s + 1" "\<not> isl (generateChildKey hdk km p (u32 j0))"
  proof (elim disjE)
    assume "\<not> isl (generateChildKey hdk km p ?s)"
    then show ?thesis using that [of ?s] u32_small [of ?s] s by simp
  next
    assume "\<not> isl (generateChildKey hdk km p (?s + 1))"
    then show ?thesis using that [of "?s + 1"] u32_small [of "?s + 1"] s by simp
  qed
  then obtain j k where jk: "first_key hdk km p ?s j k"
    using first_key_exists [OF j0(1,3)] by blast
  then have "j \<le> j0"
    using j0 by (auto simp: first_key_def not_le)
  then have j: "?s \<le> j" "j \<le> ?s + 1"
    using jk j0(2) by (auto simp: first_key_def)
  show ?thesis
  proof (rule that [OF fresh_loop_returns [OF jk]])
    show "generateChildKey hdk km p j = Inr k"
      using jk j s u32_small [of j] by (simp add: first_key_def)
    show "next_key (A ds) \<lparr>Change = p, Index = j\<rparr>"
      using s(1) j(1) by (fastforce simp: next_key_def)
  qed (use j s in simp_all)
qed

definition ok_keys :: "nat \<Rightarrow> 'ds \<Rightarrow> bool" where
  "ok_keys n ds \<longleftrightarrow> inv ds \<and> derived hdk km (A ds) \<and> room n (A ds)"

lemma unused_put:
  assumes "aKeys a sa = None"
  shows "unused_keys (a\<lparr>aKeys := (aKeys a)(sa \<mapsto> (\<lparr>Change = p, Index = j\<rparr>, False))\<rparr>) q =
    (if q = p then insert sa (unused_keys a q) else unused_keys a q)"
  using assms by (auto simp: unused_keys_def)

lemma GetFreshKey_step:
  assumes "ok_keys (Suc n) ds" and "p \<in> {EXTERNAL, INTERNAL}"
  obtains ds' r where "GetFreshKey hdk K km p ds = Some (ds', r)" "ok_keys n ds'" "grows (A ds) (A ds')"
    "isl r \<or> card (unused_keys (A ds') p) = Suc (card (unused_keys (A ds) p))"
proof -
  have ds: "inv ds" "derived hdk km (A ds)" "room (Suc n) (A ds)"
    using assms(1) by (auto simp: ok_keys_def)
  obtain k j where kj: "fresh_loop hdk km p (start_index K p ds) = Some (k, j)"
      "generateChildKey hdk km p j = Inr k" "next_key (A ds) \<lparr>Change = p, Index = j\<rparr>"
      "0 \<le> j" "j + 2 * int n + 2 \<le> 2 ^ 32"
    using fresh_found [OF ds(1,3) assms(2)] .
  obtain sa where sa: "ScriptAddress hdk k = Inr sa" "length sa = 20"
    using address [OF kj(2)] by blast
  have fresh: "aKeys (A ds) sa = None"
  proof (rule ccontr)
    assume "aKeys (A ds) sa \<noteq> None"
    then obtain kp u where kpu: "aKeys (A ds) sa = Some (kp, u)" by auto
    then obtain k' where k': "generateChildKey hdk km (Change kp) (Index kp) = Inr k'" "ScriptAddress hdk k' = Inr sa"
      using ds(2) by (auto simp: derived_def)
    have "0 \<le> Index kp \<and> Index kp < 2 ^ 32"
      using kpu ds(3) by (fastforce simp: room_def)
    then have "Change kp = p \<and> Index kp = j"
      using address_inj [OF k'(1) kj(2)] k'(2) sa(1) kj(4,5) by simp
    then show False
      using kj(3) kpu by (cases kp) (auto simp: next_key_def)
  qed
  obtain ds' r where put: "K_Put K sa \<lparr>Change = p, Index = j\<rparr> ds = (ds', r)"
    by (cases "K_Put K sa \<lparr>Change = p, Index = j\<rparr> ds")
  have step: "inv ds' \<and> A ds' = (if isl r then A ds
      else (A ds)\<lparr>aKeys := (aKeys (A ds))(sa \<mapsto> (\<lparr>Change = p, Index = j\<rparr>, False))\<rparr>)"
    using K_Put [OF ds(1) sa(2) fresh kj(3) _ put] assms(2) by simp
  have grow: "grows (A ds) (A ds')"
    using step fresh by (auto simp: grows_def map_le_def)
  have "derived hdk km (A ds')"
    using step ds(2) kj(2) sa(1) by (auto simp: derived_def)
  moreover have "room n (A ds')"
    using step room_mono [OF ds(3), of n] kj(4,5) ds(3) by (auto simp: room_def split: if_splits)
  moreover have "GetFreshKey hdk K km p ds = Some (ds', if isl r then Inl (projl r) else Inr k)"
    by (cases r) (simp_all add: GetFreshKey_def kj(1) sa(1) put)
  moreover have "isl r \<or> card (unused_keys (A ds') p) = Suc (card (unused_keys (A ds) p))"
    using step fresh finite_unused [OF ds(1)] unused_put [OF fresh, of p j p]
    by (auto simp: unused_keys_def)
  ultimately show ?thesis
    using that [of ds' "if isl r then Inl (projl r) else Inr k"] step grow by (auto simp: ok_keys_def)
qed

lemma unused_mono: "grows a (A ds) \<Longrightarrow> inv ds \<Longrightarrow> card (unused_keys a p) \<le> card (unused_keys (A ds) p)"
  by (rule card_mono [OF finite_unused grows_unused])

lemma fresh_times_step:
  assumes "ok_keys (m + n) ds" and "p \<in> {EXTERNAL, INTERNAL}"
  shows "\<exists>ds' r. fresh_times m hdk K km p ds = Some (ds', r) \<and> ok_keys n ds' \<and> grows (A ds) (A ds') \<and>
    (isl r \<or> m + card (unused_keys (A ds) p) \<le> card (unused_keys (A ds') p))"
  using assms(1)
proof (induction m arbitrary: ds)
  case (Suc m)
  obtain ds1 r1 where 1: "GetFreshKey hdk K km p ds = Some (ds1, r1)" "ok_keys (m + n) ds1"
      "grows (A ds) (A ds1)" "isl r1 \<or> card (unused_keys (A ds1) p) = Suc (card (unused_keys (A ds) p))"
    using GetFreshKey_step [OF _ assms(2), of "m + n" ds] Suc.prems by auto
  show ?case
  proof (cases r1)
    case (Inl e)
    have "ok_keys n ds1"
      using 1(2) room_mono [of "m + n" "A ds1" n] by (simp add: ok_keys_def)
    then show ?thesis using Inl 1 by auto
  next
    case (Inr k)
    then show ?thesis
      using Suc.IH [OF 1(2)] 1 grows_trans [OF 1(3)] by fastforce
  qed
qed simp

lemma windows_grow:
  assumes "grows (A ds) (A ds1)" and "inv ds1"
    and "\<forall>q \<in> Q. \<exists>w. windows q = Some w \<and> 0 \<le> w \<and> w \<le> int (card (unused_keys (A ds) q))"
  shows "\<forall>q \<in> Q. \<exists>w. windows q = Some w \<and> 0 \<le> w \<and> w \<le> int (card (unused_keys (A ds1) q))"
proof
  fix q
  assume "q \<in> Q"
  then obtain w where "windows q = Some w" "0 \<le> w" "w \<le> int (card (unused_keys (A ds) q))"
    using assms(3) by blast
  then show "\<exists>w. windows q = Some w \<and> 0 \<le> w \<and> w \<le> int (card (unused_keys (A ds1) q))"
    using unused_mono [OF assms(1,2), of q] by auto
qed

lemma lookahead_loop_step:
  assumes "ok_keys (10 * length order + n) ds" and "set order \<subseteq> {EXTERNAL, INTERNAL}"
    and "\<forall>p \<in> set order. \<exists>w. windows p = Some w \<and> 0 \<le> w \<and> w \<le> int (card (unused_keys (A ds) p))"
  shows "\<exists>ds' r. lookahead_loop order windows hdk K km ds = Some (ds', r) \<and> ok_keys n ds' \<and>
    grows (A ds) (A ds') \<and> (isl r \<or> (\<forall>p \<in> set order. GAP_LIMIT \<le> int (card (unused_keys (A ds') p))))"
  using assms
proof (induction order arbitrary: ds)
  case (Cons p order)
  obtain w where w: "windows p = Some w" "0 \<le> w" "w \<le> int (card (unused_keys (A ds) p))"
    using Cons.prems(3) by auto
  define m where "m = (if w < GAP_LIMIT then nat (GAP_LIMIT - w) else 0)"
  have m: "m \<le> 10" "GAP_LIMIT \<le> int m + w"
    using w(2) by (auto simp: m_def GAP_LIMIT_def)
  have "ok_keys (m + (10 * length order + n)) ds"
    using Cons.prems(1) room_mono [of "10 * length (p # order) + n" "A ds" "m + (10 * length order + n)"] m(1)
    by (simp add: ok_keys_def)
  from fresh_times_step [OF this, of p] obtain ds1 r1 where 1: "fresh_times m hdk K km p ds = Some (ds1, r1)"
      "ok_keys (10 * length order + n) ds1" "grows (A ds) (A ds1)"
      "isl r1 \<or> m + card (unused_keys (A ds) p) \<le> card (unused_keys (A ds1) p)"
    using Cons.prems(2) by auto
  have run: "lookahead_loop (p # order) windows hdk K km ds =
      thenO (fresh_times m hdk K km p ds) (\<lambda>ds _. lookahead_loop order windows hdk K km ds)"
    using w(1) by (simp add: m_def)
  show ?case
  proof (cases r1)
    case (Inl e)
    have "ok_keys n ds1"
      using 1(2) room_mono [of "10 * length order + n" "A ds1" n] by (simp add: ok_keys_def)
    then show ?thesis using Inl 1 run by auto
  next
    case (Inr k)
    have inv1: "inv ds1"
      using 1(2) by (simp add: ok_keys_def)
    have full: "GAP_LIMIT \<le> int (card (unused_keys (A ds1) p))"
      using 1(4) Inr m(2) w(3) by simp
    have "\<forall>q \<in> set order. \<exists>w. windows q = Some w \<and> 0 \<le> w \<and> w \<le> int (card (unused_keys (A ds1) q))"
      by (rule windows_grow [OF 1(3) inv1]) (use Cons.prems(3) in simp)
    then obtain ds2 r2 where 2: "lookahead_loop order windows hdk K km ds1 = Some (ds2, r2)" "ok_keys n ds2"
        "grows (A ds1) (A ds2)" "isl r2 \<or> (\<forall>p \<in> set order. GAP_LIMIT \<le> int (card (unused_keys (A ds2) p)))"
      using Cons.IH [OF 1(2)] Cons.prems(2) by auto
    have "inv ds2"
      using 2(2) by (simp add: ok_keys_def)
    then have "GAP_LIMIT \<le> int (card (unused_keys (A ds2) p))"
      using full unused_mono [OF 2(3), of p] by simp
    then show ?thesis
      using 1 2 Inr run grows_trans [OF 1(3) 2(3)] by auto
  qed
qed simp

lemma lookahead_step:
  assumes "ok_keys (20 + n) ds" and "set order = {EXTERNAL, INTERNAL}" and "length order = 2"
  shows "\<exists>ds' r. lookahead order hdk K km ds = Some (ds', r) \<and> ok_keys n ds' \<and> grows (A ds) (A ds') \<and>
    (isl r \<or> (\<forall>p \<in> {EXTERNAL, INTERNAL}. GAP_LIMIT \<le> int (card (unused_keys (A ds') p))))"
proof -
  have ds: "inv ds"
    using assms(1) by (simp add: ok_keys_def)
  have "\<forall>p \<in> set order. \<exists>w. K_GetLookaheadWindows K ds p = Some w \<and> 0 \<le> w \<and> w \<le> int (card (unused_keys (A ds) p))"
  proof
    fix p
    assume "p \<in> set order"
    then have "p \<in> dom (K_GetLookaheadWindows K ds)"
      using K_windows_dom [OF ds] assms(2) by simp
    then obtain w where "K_GetLookaheadWindows K ds p = Some w" by auto
    then show "\<exists>w. K_GetLookaheadWindows K ds p = Some w \<and> 0 \<le> w \<and> w \<le> int (card (unused_keys (A ds) p))"
      using K_windows [OF ds] by blast
  qed
  then show ?thesis
    using lookahead_loop_step [of order n ds] assms by (simp add: lookahead_def)
qed

lemma Mark_step:
  assumes "ok_keys (20 + n) ds" and "set order = {EXTERNAL, INTERNAL}" and "length order = 2"
  shows "\<exists>ds' r. MarkKeyAsUsed order hdk K km sa ds = Some (ds', r) \<and> ok_keys n ds' \<and>
    A ds' = (A ds)\<lparr>aKeys := aKeys (A ds')\<rparr> \<and> (isl r \<or> ((\<forall>p \<in> {EXTERNAL, INTERNAL}. GAP_LIMIT \<le> int (card (unused_keys (A ds') p))) \<and>
       (\<forall>kp u. aKeys (A ds) sa = Some (kp, u) \<longrightarrow> aKeys (A ds') sa = Some (kp, True))))"
proof -
  obtain ds1 r1 where mark: "K_MarkKeyAsUsed K sa ds = (ds1, r1)"
    by (cases "K_MarkKeyAsUsed K sa ds")
  have ds: "inv ds" "derived hdk km (A ds)" "room (20 + n) (A ds)"
    using assms(1) by (auto simp: ok_keys_def)
  have step: "inv ds1 \<and> A ds1 = (if isl r1 then A ds
      else (A ds)\<lparr>aKeys := alter (aKeys (A ds)) sa (\<lambda>(kp, u). (kp, True))\<rparr>)"
    using K_MarkKeyAsUsed [OF ds(1) mark] .
  have old: "\<exists>u'. aKeys (A ds) s = Some (kp, u')" if "aKeys (A ds1) s = Some (kp, u)" for s kp u
    using that step by (auto simp: alter_def split: if_splits)
  have ok1: "ok_keys (20 + n) ds1"
    using step ds(2,3) old unfolding ok_keys_def derived_def room_def by blast
  show ?thesis
  proof (cases r1)
    case (Inl e)
    then show ?thesis
      using mark ok1 room_mono [of "20 + n" "A ds1" n] step by (auto simp: MarkKeyAsUsed_def ok_keys_def)
  next
    case (Inr x)
    obtain ds2 r2 where look: "lookahead order hdk K km ds1 = Some (ds2, r2)" "ok_keys n ds2" "grows (A ds1) (A ds2)"
        "isl r2 \<or> (\<forall>p \<in> {EXTERNAL, INTERNAL}. GAP_LIMIT \<le> int (card (unused_keys (A ds2) p)))"
      using lookahead_step [OF ok1 assms(2,3)] by blast
    have "aKeys (A ds2) sa = Some (kp, True)" if "aKeys (A ds) sa = Some (kp, u)" for kp u
    proof -
      have "aKeys (A ds1) sa = Some (kp, True)"
        using step Inr that by (simp add: alter_def)
      then show ?thesis
        using look(3) by (auto simp: grows_def map_le_def dom_def) (metis option.distinct(1))
    qed
    moreover have "A ds2 = (A ds)\<lparr>aKeys := aKeys (A ds2)\<rparr>"
      using look(3) step Inr by (simp add: grows_def)
    ultimately show ?thesis
      using mark Inr look by (auto simp: MarkKeyAsUsed_def)
  qed
qed

end

end
