(* ===== verification/Tx_Store.thy ===== *)
theory Tx_Store
  imports Key_Manager
begin

text \<open>
  The transaction store of \<open>wallet/wltbtc/txstore.go\<close> with the helpers of \<open>wallet/wltbtc/util.go\<close>:
  adding a transaction, finding double spends, and marking a transaction as dead.  btcd's wire,
  address and script packages are the parameter \<open>wire_lib\<close>.
\<close>

section \<open>Transactions\<close>

record TxIn =
  PreviousOutPoint :: OutPoint
  SignatureScript :: bytes
  Witness :: "bytes list"
  Sequence :: "32 word"

record TxOut =
  OValue :: int
  OPkScript :: bytes

record MsgTx =
  Version :: int
  TxIns :: "TxIn list"
  TxOuts :: "TxOut list"
  LockTime :: "32 word"

text \<open>\<open>'a\<close> is a \<open>btcutil.Address\<close>; \<open>ExtractPkScriptAddrs\<close> gives the addresses a script pays.
  \<open>Deserialize\<close> fills a transaction as far as it gets, and returns its error beside it.\<close>

record 'a wire_lib =
  TxHash :: "MsgTx \<Rightarrow> hash"
  CheckTransactionSanity :: "MsgTx \<Rightarrow> unit result"
  Deserialize :: "bytes \<Rightarrow> MsgTx \<times> unit result"
  BtcEncode :: "MsgTx \<Rightarrow> bytes"
  NewAddressWitnessPubKeyHash :: "bytes \<Rightarrow> 'a result"
  AddrScriptAddress :: "'a \<Rightarrow> bytes"
  PayToAddrScript :: "'a \<Rightarrow> bytes result"
  ExtractPkScriptAddrs :: "bytes \<Rightarrow> 'a list result"

definition newWireTx :: "'a wire_lib \<Rightarrow> bytes \<Rightarrow> bool \<Rightarrow> MsgTx result" where
  "newWireTx W b checkIo =
     (case Deserialize W b of
        (tx, err) \<Rightarrow>
          if checkIo \<and> TxIns tx = [] then Inl (Err ''tx: no inputs'')
          else if checkIo \<and> TxOuts tx = [] then Inl (Err ''tx: no outputs'')
          else thenR err (\<lambda>_. Inr tx))"

section \<open>The store\<close>

record ('ds, 'a) TxStore =
  store_ds :: 'ds
  adrs :: "'a list"
  txids :: "string \<rightharpoonup> int"

text \<open>What a store is built on: the datastore, the keys, and the libraries.\<close>

record ('ds, 'k, 'a) tx_env =
  te_ds :: "'ds Datastore"
  te_hdk :: "'k hd_lib"
  te_km :: "'k KeyManager"
  te_order :: "KeyChange list"
  te_hash :: hash_lib
  te_wire :: "'a wire_lib"

abbreviation "utxos_of E \<equiv> DS_Utxos (te_ds E)"
abbreviation "stxos_of E \<equiv> DS_Stxos (te_ds E)"
abbreviation "txns_of E \<equiv> DS_Txns (te_ds E)"
abbreviation "txid_string E h \<equiv> HashString (te_hash E) h"
abbreviation "tx_hash E tx \<equiv> TxHash (te_wire E) tx"

fun segwit_addresses :: "('ds, 'k, 'a) tx_env \<Rightarrow> 'k list \<Rightarrow> 'a list" where
  "segwit_addresses E [] = []"
| "segwit_addresses E (k # ks) =
     (case ScriptAddress (te_hdk E) k of
        Inl err \<Rightarrow> segwit_addresses E ks
      | Inr script \<Rightarrow>
          (case NewAddressWitnessPubKeyHash (te_wire E) script of
             Inl swerr \<Rightarrow> segwit_addresses E ks
           | Inr segwitAddress \<Rightarrow> segwitAddress # segwit_addresses E ks))"

text \<open>The error of \<open>GetAll\<close> is dropped: no transaction is entered then.\<close>

definition PopulateAdrs :: "('ds, 'k, 'a) tx_env \<Rightarrow> ('ds, 'a) TxStore \<Rightarrow> ('ds, 'a) TxStore" where
  "PopulateAdrs E ts =
     (let keys = GetKeys (te_hdk E) (DS_Keys (te_ds E)) (te_km E) (store_ds ts);
          txns = (case T_GetAll (txns_of E) True (store_ds ts) of Inl _ \<Rightarrow> [] | Inr xs \<Rightarrow> xs) in
      ts\<lparr>adrs := segwit_addresses E keys,
         txids := fold (\<lambda>t m. m(Txid t \<mapsto> Height t)) txns (txids ts)\<rparr>)"

definition NewTxStore :: "('ds, 'k, 'a) tx_env \<Rightarrow> 'ds \<Rightarrow> ('ds, 'a) TxStore" where
  "NewTxStore E db = PopulateAdrs E \<lparr>store_ds = db, adrs = [], txids = Map.empty\<rparr>"

section \<open>Double spends\<close>

text \<open>The inner loops: every input of the argument that also occurs in the stored transaction appends its
  id once.\<close>

definition double_of :: "('ds, 'k, 'a) tx_env \<Rightarrow> MsgTx \<Rightarrow> MsgTx \<Rightarrow> hash list" where
  "double_of E argTx msgTx =
     (let compTxid = tx_hash E msgTx in
      map (\<lambda>_. compTxid)
        (filter (\<lambda>argIn. list_ex (\<lambda>compIn.
            outPointsEqual (PreviousOutPoint argIn) (PreviousOutPoint compIn) \<and> compTxid \<noteq> tx_hash E argTx)
          (TxIns msgTx)) (TxIns argTx)))"

fun double_loop :: "('ds, 'k, 'a) tx_env \<Rightarrow> MsgTx \<Rightarrow> Txn list \<Rightarrow> hash list result" where
  "double_loop E argTx [] = Inr []"
| "double_loop E argTx (compTx # txs) =
     (if Height compTx < 0 then double_loop E argTx txs
      else
        thenR (newWireTx (te_wire E) (Bytes compTx) True) (\<lambda>msgTx.
        thenR (double_loop E argTx txs) (\<lambda>dubs. Inr (double_of E argTx msgTx @ dubs))))"

definition CheckDoubleSpends :: "('ds, 'k, 'a) tx_env \<Rightarrow> MsgTx \<Rightarrow> 'ds \<Rightarrow> hash list result" where
  "CheckDoubleSpends E argTx ds = thenR (T_GetAll (txns_of E) True ds) (double_loop E argTx)"

section \<open>Marking a transaction as dead\<close>

text \<open>The recursion follows the spends of the dead transaction's outputs.  One unit of fuel pays for one
  level; \<open>None\<close> is running out.  \<open>now\<close> is \<open>time.Now()\<close>.\<close>

definition markStxoAsDead :: "('ds, 'k, 'a) tx_env \<Rightarrow> int \<Rightarrow> Stxo \<Rightarrow> 'ds \<Rightarrow> 'ds \<times> unit result" where
  "markStxoAsDead E now s ds =
     thenS (S_Delete (stxos_of E) s ds) (\<lambda>ds _.
       T_UpdateHeight (txns_of E) (txid_string E (SpendTxid s)) (- 1) now ds)"

definition delete_dead :: "('ds, 'k, 'a) tx_env \<Rightarrow> hash \<Rightarrow> Utxo list \<Rightarrow> 'ds \<Rightarrow> 'ds \<times> unit result" where
  "delete_dead E txid us ds =
     foldl (\<lambda>acc u. thenS acc (\<lambda>ds _.
        if txid = OpHash (Op u) then U_Delete (utxos_of E) u ds else (ds, Inr ()))) (ds, Inr ()) us"

definition unspend :: "('ds, 'k, 'a) tx_env \<Rightarrow> int \<Rightarrow> hash \<Rightarrow> Stxo \<Rightarrow> 'ds \<Rightarrow> 'ds \<times> unit result" where
  "unspend E now txid s ds =
     (if txid = SpendTxid s
      then thenS (markStxoAsDead E now s ds) (\<lambda>ds _. U_Put (utxos_of E) (SUtxo s) ds)
      else (ds, Inr ()))"

fun dead_loop ::
  "(hash \<Rightarrow> 'ds \<Rightarrow> ('ds, unit) run) \<Rightarrow> ('ds, 'k, 'a) tx_env \<Rightarrow> int \<Rightarrow> hash \<Rightarrow> Stxo list \<Rightarrow> 'ds \<Rightarrow> ('ds, unit) run" where
  "dead_loop rec E now txid [] ds = Some (ds, Inr ())"
| "dead_loop rec E now txid (s # ss) ds =
     thenO (Some (unspend E now txid s ds)) (\<lambda>ds _.
     thenO (if txid = OpHash (Op (SUtxo s))
            then thenO (Some (markStxoAsDead E now s ds)) (\<lambda>ds _. rec (SpendTxid s) ds)
            else Some (ds, Inr ())) (\<lambda>ds _.
     dead_loop rec E now txid ss ds))"

fun markAsDead :: "nat \<Rightarrow> ('ds, 'k, 'a) tx_env \<Rightarrow> int \<Rightarrow> hash \<Rightarrow> 'ds \<Rightarrow> ('ds, unit) run" where
  "markAsDead 0 E now txid ds = None"
| "markAsDead (Suc fuel) E now txid ds =
     (case S_GetAll (stxos_of E) ds of Inl err \<Rightarrow> Some (ds, Inl err)
      | Inr stxos \<Rightarrow>
          thenO (dead_loop (markAsDead fuel E now) E now txid stxos ds) (\<lambda>ds _.
          (case U_GetAll (utxos_of E) ds of Inl err \<Rightarrow> Some (ds, Inl err)
           | Inr utxos \<Rightarrow>
               thenO (Some (delete_dead E txid utxos ds)) (\<lambda>ds _.
                 Some (fst (T_UpdateHeight (txns_of E) (txid_string E txid) (- 1) now ds), Inr ())))))"

section \<open>Adding a transaction\<close>

definition extractScriptAddress :: "'a wire_lib \<Rightarrow> bytes \<Rightarrow> bytes result" where
  "extractScriptAddress W script =
     thenR (ExtractPkScriptAddrs W script) (\<lambda>addrs.
       if addrs = [] then Inl (Err ''unknown script'') else Inr (AddrScriptAddress W (addrs ! 0)))"

fun pay_scripts :: "'a wire_lib \<Rightarrow> 'a list \<Rightarrow> bytes list result" where
  "pay_scripts W [] = Inr []"
| "pay_scripts W (a # as) =
     thenR (PayToAddrScript W a) (\<lambda>script. thenR (pay_scripts W as) (\<lambda>scripts. Inr (script # scripts)))"

text \<open>What the loops carry: the store's database, the value and hits so far, and the watch-only flag.\<close>

record tally =
  t_value :: int
  t_hits :: int
  t_watch :: bool

text \<open>The first loop: each output paying to one of the scripts is a new utxo.  The errors of
  \<open>extractScriptAddress\<close>, \<open>MarkKeyAsUsed\<close> and \<open>Put\<close> are dropped.\<close>

definition mark_script :: "('ds, 'k, 'a) tx_env \<Rightarrow> bytes \<Rightarrow> 'ds \<Rightarrow> 'ds option" where
  "mark_script E script ds =
     (let scriptAddress = (case extractScriptAddress (te_wire E) script of Inl _ \<Rightarrow> [] | Inr sa \<Rightarrow> sa) in
      map_option fst (MarkKeyAsUsed (te_order E) (te_hdk E) (DS_Keys (te_ds E)) (te_km E) scriptAddress ds))"

definition new_utxo :: "('ds, 'k, 'a) tx_env \<Rightarrow> MsgTx \<Rightarrow> int \<Rightarrow> nat \<Rightarrow> TxOut \<Rightarrow> Utxo" where
  "new_utxo E tx height i txout =
     \<lparr>Op = \<lparr>OpHash = tx_hash E tx, OpIndex = of_nat i\<rparr>, AtHeight = height, UValue = OValue txout,
      ScriptPubkey = OPkScript txout, WatchOnly = False, Frozen = False\<rparr>"

fun outputs_loop ::
  "('ds, 'k, 'a) tx_env \<Rightarrow> MsgTx \<Rightarrow> int \<Rightarrow> bytes list \<Rightarrow> nat \<Rightarrow> TxOut list \<Rightarrow> 'ds \<Rightarrow> tally \<Rightarrow> ('ds \<times> tally) option" where
  "outputs_loop E tx height pkScripts i [] ds t = Some (ds, t)"
| "outputs_loop E tx height pkScripts i (txout # outs) ds t =
     (if OPkScript txout \<in> set pkScripts
      then
        (case mark_script E (OPkScript txout) ds of
           None \<Rightarrow> None
         | Some ds1 \<Rightarrow>
             outputs_loop E tx height pkScripts (Suc i) outs
               (fst (U_Put (utxos_of E) (new_utxo E tx height i txout) ds1))
               (t\<lparr>t_value := t_value t + OValue txout, t_hits := t_hits t + 1\<rparr>))
      else outputs_loop E tx height pkScripts (Suc i) outs ds t)"

text \<open>The second loop: an input spends the first listed utxo it names, which leaves the list; the errors of
  the two writes are dropped.\<close>

fun inputs_loop ::
  "('ds, 'k, 'a) tx_env \<Rightarrow> MsgTx \<Rightarrow> int \<Rightarrow> TxIn list \<Rightarrow> Utxo list \<Rightarrow> 'ds \<Rightarrow> tally \<Rightarrow> 'ds \<times> tally" where
  "inputs_loop E tx height [] utxos ds t = (ds, t)"
| "inputs_loop E tx height (txin # ins) utxos ds t =
     (case List.find (\<lambda>u. outPointsEqual (PreviousOutPoint txin) (Op u)) utxos of
        None \<Rightarrow> inputs_loop E tx height ins utxos ds t
      | Some u \<Rightarrow>
          (let ds1 = fst (S_Put (stxos_of E) \<lparr>SUtxo = u, SpendHeight = height, SpendTxid = tx_hash E tx\<rparr> ds);
               ds2 = fst (U_Delete (utxos_of E) u ds1) in
           inputs_loop E tx height ins (remove1 u utxos) ds2
             (if \<not> WatchOnly u then t\<lparr>t_value := t_value t - UValue u, t_hits := t_hits t + 1\<rparr>
              else t\<lparr>t_watch := True\<rparr>)))"

text \<open>The third loop updates the first stxo spent by this transaction and stops.\<close>

definition stxo_height :: "('ds, 'k, 'a) tx_env \<Rightarrow> MsgTx \<Rightarrow> int \<Rightarrow> 'ds \<Rightarrow> tally \<Rightarrow> 'ds \<times> tally result" where
  "stxo_height E tx height ds t =
     (if height > 0
      then
        (case S_GetAll (stxos_of E) ds of Inl err \<Rightarrow> (ds, Inl err)
         | Inr stxos \<Rightarrow>
             (case List.find (\<lambda>stxo. SpendTxid stxo = tx_hash E tx) stxos of
                None \<Rightarrow> (ds, Inr t)
              | Some stxo \<Rightarrow>
                  (fst (S_Put (stxos_of E) (stxo\<lparr>SpendHeight := height\<rparr>) ds),
                   Inr (if \<not> WatchOnly (SUtxo stxo) then t\<lparr>t_hits := t_hits t + 1\<rparr> else t\<lparr>t_watch := True\<rparr>))))
      else (ds, Inr t))"

text \<open>The record of the transaction: a new one is put, one not yet confirmed gets the height.\<close>

definition record_tx ::
  "('ds, 'k, 'a) tx_env \<Rightarrow> MsgTx \<Rightarrow> int \<Rightarrow> int \<Rightarrow> tally \<Rightarrow> ('ds, 'a) TxStore \<Rightarrow> ('ds, 'a) TxStore \<times> int result" where
  "record_tx E tx height timestamp t ts =
     (if t_hits t > 0 \<or> t_watch t
      then
        (let txid = txid_string E (tx_hash E tx);
             ts1 =
               (case T_Get (txns_of E) txid (store_ds ts) of
                  Inl err \<Rightarrow>
                    ts\<lparr>store_ds := fst (T_Put (txns_of E) (BtcEncode (te_wire E) tx) txid (t_value t) height
                                      timestamp (t_hits t = 0) (store_ds ts)),
                       txids := (txids ts)(txid \<mapsto> height)\<rparr>
                | Inr txn \<Rightarrow>
                    (if Height txn \<le> 0
                     then ts\<lparr>store_ds := fst (T_UpdateHeight (txns_of E) txid height (Timestamp txn) (store_ds ts)),
                             txids := (txids ts)(txid \<mapsto> height)\<rparr>
                     else ts)) in
         (PopulateAdrs E ts1, Inr (t_hits t + 1)))
      else (ts, Inr (t_hits t)))"

definition mark_doubles ::
  "nat \<Rightarrow> ('ds, 'k, 'a) tx_env \<Rightarrow> int \<Rightarrow> hash list \<Rightarrow> 'ds \<Rightarrow> 'ds option" where
  "mark_doubles fuel E now doubleSpends ds =
     fold (\<lambda>double acc. Option.bind acc (\<lambda>ds. map_option fst (markAsDead fuel E now double ds)))
       doubleSpends (Some ds)"

definition add_new ::
  "('ds, 'k, 'a) tx_env \<Rightarrow> MsgTx \<Rightarrow> int \<Rightarrow> int \<Rightarrow> ('ds, 'a) TxStore \<Rightarrow> (('ds, 'a) TxStore, int) run" where
  "add_new E tx height timestamp ts =
     (case pay_scripts (te_wire E) (adrs ts) of
        Inl err \<Rightarrow> Some (ts, Inl err)
      | Inr pkScripts \<Rightarrow>
          (case outputs_loop E tx height pkScripts 0 (TxOuts tx) (store_ds ts) \<lparr>t_value = 0, t_hits = 0, t_watch = False\<rparr> of
             None \<Rightarrow> None
           | Some (ds1, t1) \<Rightarrow>
               (case U_GetAll (utxos_of E) ds1 of
                  Inl err \<Rightarrow> Some (ts\<lparr>store_ds := ds1\<rparr>, Inl err)
                | Inr utxos \<Rightarrow>
                    (case inputs_loop E tx height (TxIns tx) utxos ds1 t1 of
                       (ds2, t2) \<Rightarrow>
                         (case stxo_height E tx height ds2 t2 of
                            (ds3, Inl err) \<Rightarrow> Some (ts\<lparr>store_ds := ds3\<rparr>, Inl err)
                          | (ds3, Inr t3) \<Rightarrow>
                              Some (record_tx E tx height timestamp t3 (ts\<lparr>store_ds := ds3\<rparr>)))))))"

text \<open>\<open>AddTransaction\<close>; its result is the number of hits.\<close>

definition AddTransaction ::
  "nat \<Rightarrow> ('ds, 'k, 'a) tx_env \<Rightarrow> int \<Rightarrow> MsgTx \<Rightarrow> int \<Rightarrow> int \<Rightarrow> ('ds, 'a) TxStore \<Rightarrow> (('ds, 'a) TxStore, int) run" where
  "AddTransaction fuel E now tx height timestamp ts =
     (case CheckTransactionSanity (te_wire E) tx of
        Inl err \<Rightarrow> Some (ts, Inl err)
      | Inr _ \<Rightarrow>
          (let known = (case txids ts (txid_string E (tx_hash E tx)) of
                          None \<Rightarrow> False | Some sh \<Rightarrow> sh > 0 \<or> (sh = 0 \<and> height = 0)) in
           if known then Some (ts, Inr 1)
           else
             (case CheckDoubleSpends E tx (store_ds ts) of
                Inl err \<Rightarrow> Some (ts, Inl err)
              | Inr doubleSpends \<Rightarrow>
                  (if doubleSpends \<noteq> [] \<and> height = 0 then Some (ts, Inr 0)
                   else
                     (case mark_doubles fuel E now doubleSpends (store_ds ts) of
                        None \<Rightarrow> None
                      | Some ds \<Rightarrow> add_new E tx height timestamp (ts\<lparr>store_ds := ds\<rparr>))))))"

end
