(* ===== verification/Wallet.thy ===== *)
theory Wallet
  imports Tx_Store
begin

text \<open>
  The wallet of \<open>wallet/wltbtc\<close>: the encrypted storage (\<open>storage.go\<close>), subscriptions (\<open>subscribe.go\<close>), the fee
  provider (\<open>wallet/fees.go\<close>), and the wallet's own operations (\<open>wallet.go\<close>) over the datastore, the keys and
  the transaction store.  \<open>bip39\<close>, \<open>hdkeychain\<close>, the hash and the JSON text of the storage are the parameter
  \<open>wallet_lib\<close>.
\<close>

section \<open>The storage\<close>

record Storage =
  StVersion :: string
  Xprv :: string
  Xpub :: string
  ShaPw :: bytes
  Seed :: bytes

text \<open>\<open>MarshalStorage\<close> and \<open>UnmarshalStorage\<close> are \<open>encoding/json\<close> on the struct: decoding fills the given
  struct as far as it gets.\<close>

record 'k wallet_lib =
  NewMaster :: "bytes \<Rightarrow> 'k result"
  Neuter :: "'k \<Rightarrow> 'k result"
  KeyString :: "'k \<Rightarrow> string"
  NewKeyFromString :: "string \<Rightarrow> 'k result"
  HashB :: "string \<Rightarrow> bytes"
  NewMnemonic :: "bytes \<Rightarrow> string result"
  NewSeed :: "string \<Rightarrow> bytes"
  NewSeedWithErrorChecking :: "string \<Rightarrow> bytes result"
  MarshalStorage :: "Storage \<Rightarrow> bytes result"
  UnmarshalStorage :: "bytes \<Rightarrow> Storage \<Rightarrow> Storage \<times> unit result"

definition NewStorageManager :: Storage where
  "NewStorageManager = \<lparr>StVersion = ''0.1'', Xprv = [], Xpub = [], ShaPw = [], Seed = []\<rparr>"

definition StorageManager_Put :: "'k wallet_lib \<Rightarrow> 'ds Enc \<Rightarrow> Storage \<Rightarrow> string \<Rightarrow> 'ds \<Rightarrow> 'ds \<times> unit result" where
  "StorageManager_Put L I st pw ds =
     (if pw = [] then (ds, Inl (Err ''no password''))
      else (case MarshalStorage L st of Inl err \<Rightarrow> (ds, Inl err) | Inr b \<Rightarrow> PutEncrypted I b pw ds))"

definition StorageManager_Get :: "'k wallet_lib \<Rightarrow> 'ds Enc \<Rightarrow> Storage \<Rightarrow> string \<Rightarrow> 'ds \<Rightarrow> Storage \<times> unit result" where
  "StorageManager_Get L I st pw ds =
     (if pw = [] then (st, Inl (Err ''no password''))
      else (case GetDecrypted I pw ds of Inl err \<Rightarrow> (st, Inl err) | Inr b \<Rightarrow> UnmarshalStorage L b st))"

definition IsValidPw :: "'k wallet_lib \<Rightarrow> Storage \<Rightarrow> string \<Rightarrow> bool" where
  "IsValidPw L st pw = (if pw = [] then False else ShaPw st = HashB L pw)"

section \<open>Subscriptions\<close>

definition SubscriptionManager_Put :: "'ds Subscriptions \<Rightarrow> Subscription \<Rightarrow> 'ds \<Rightarrow> 'ds \<times> unit result" where
  "SubscriptionManager_Put I subscription = Sub_Put I subscription"

definition SubscriptionManager_Get :: "'ds Subscriptions \<Rightarrow> string \<Rightarrow> 'ds \<Rightarrow> Subscription result" where
  "SubscriptionManager_Get I scriptPubKey = Sub_Get I scriptPubKey"

definition SubscriptionManager_GetElectrumScripthash :: "'ds Subscriptions \<Rightarrow> string \<Rightarrow> 'ds \<Rightarrow> Subscription result" where
  "SubscriptionManager_GetElectrumScripthash I electrumScripthash = Sub_GetElectrumScripthash I electrumScripthash"

definition SubscriptionManager_GetAll :: "'ds Subscriptions \<Rightarrow> 'ds \<Rightarrow> Subscription list result" where
  "SubscriptionManager_GetAll I = Sub_GetAll I"

definition SubscriptionManager_Delete :: "'ds Subscriptions \<Rightarrow> string \<Rightarrow> 'ds \<Rightarrow> 'ds \<times> unit result" where
  "SubscriptionManager_Delete I scriptPubKey = Sub_Delete I scriptPubKey"

section \<open>Fees\<close>

type_synonym FeeLevel = int

definition PRIORITY :: FeeLevel where "PRIORITY = 0"
definition NORMAL :: FeeLevel where "NORMAL = 1"
definition ECONOMIC :: FeeLevel where "ECONOMIC = 2"
definition FEE_BUMP :: FeeLevel where "FEE_BUMP = 3"
definition SUPER_ECONOMIC :: FeeLevel where "SUPER_ECONOMIC = 4"

record Fees =
  fPriority :: int
  fNormal :: int
  fEconomic :: int

record FeeProvider =
  MaxFee :: int
  PriorityFee :: int
  NormalFee :: int
  EconomicFee :: int
  FeeAPI :: string
  cache_fees :: "Fees option"
  cache_updated :: "int option"

definition NewFeeProvider :: "int \<Rightarrow> int \<Rightarrow> int \<Rightarrow> int \<Rightarrow> string \<Rightarrow> FeeProvider" where
  "NewFeeProvider maxFee priorityFee normalFee economicFee feeAPI =
     \<lparr>MaxFee = maxFee, PriorityFee = priorityFee, NormalFee = normalFee, EconomicFee = economicFee,
      FeeAPI = feeAPI, cache_fees = None, cache_updated = None\<rparr>"

definition DefaultFeeProvider :: FeeProvider where
  "DefaultFeeProvider = NewFeeProvider 1000 50 30 20 []"

definition defaultFee :: "FeeProvider \<Rightarrow> FeeLevel \<Rightarrow> int" where
  "defaultFee fp feeLevel =
     (if feeLevel = PRIORITY then PriorityFee fp
      else if feeLevel = NORMAL then NormalFee fp
      else if feeLevel = ECONOMIC then EconomicFee fp
      else if feeLevel = FEE_BUMP then PriorityFee fp
      else NormalFee fp)"

definition selectFee :: "FeeProvider \<Rightarrow> int \<Rightarrow> FeeLevel \<Rightarrow> int" where
  "selectFee fp fee feeLevel =
     (if fee > MaxFee fp then MaxFee fp else if fee = 0 then defaultFee fp feeLevel else fee)"

text \<open>\<open>now\<close> is in nanoseconds; \<open>resp\<close> is what the request and the decoding of its body give, \<open>Inr None\<close> for the
  body \<open>null\<close>, which leaves a nil pointer.  The cache is a minute old at least when it was never set.\<close>

definition level_fee :: "FeeProvider \<Rightarrow> Fees option \<Rightarrow> FeeLevel \<Rightarrow> int result" where
  "level_fee fp fees feeLevel =
     (if feeLevel \<notin> {PRIORITY, NORMAL, ECONOMIC, FEE_BUMP} then Inr (NormalFee fp)
      else
        (case fees of None \<Rightarrow> Inl (Panic ''nil pointer dereference'')
         | Some f \<Rightarrow>
             Inr (if feeLevel = PRIORITY then selectFee fp (fPriority f) PRIORITY
                  else if feeLevel = NORMAL then selectFee fp (fNormal f) PRIORITY
                  else if feeLevel = ECONOMIC then selectFee fp (fEconomic f) PRIORITY
                  else selectFee fp (fPriority f) PRIORITY)))"

definition GetFeePerByte ::
  "int \<Rightarrow> Fees option result \<Rightarrow> FeeProvider \<Rightarrow> FeeLevel \<Rightarrow> FeeProvider \<times> int result" where
  "GetFeePerByte now resp fp feeLevel =
     (if FeeAPI fp = [] then (fp, Inr (defaultFee fp feeLevel))
      else if (case cache_updated fp of None \<Rightarrow> True | Some t \<Rightarrow> now - t > 60 * 10 ^ 9)
      then
        (case resp of
           Inl err \<Rightarrow> (fp, Inr (defaultFee fp feeLevel))
         | Inr fees \<Rightarrow>
             (let fp' = fp\<lparr>cache_updated := Some now, cache_fees := fees\<rparr> in (fp', level_fee fp' fees feeLevel)))
      else (fp, level_fee fp (cache_fees fp) feeLevel))"

section \<open>Making and loading a wallet\<close>

text \<open>The wallet's datastore is the one of its transaction store.\<close>

record ('ds, 'k, 'a) BtcElectrumWallet =
  storage :: Storage
  txstore :: "('ds, 'a) TxStore"
  keyManager :: "'k KeyManager"
  feeProvider :: FeeProvider
  creationDate :: int
  blockchainTip :: int
  running :: bool

abbreviation wallet_ds :: "('ds, 'k, 'a) BtcElectrumWallet \<Rightarrow> 'ds" where
  "wallet_ds w \<equiv> store_ds (txstore w)"

definition ErrEmptyPassword :: "'x result" where
  "ErrEmptyPassword = Inl (Err ''empty password'')"

definition new_storage :: "'k wallet_lib \<Rightarrow> bool \<Rightarrow> 'k \<Rightarrow> 'k \<Rightarrow> string \<Rightarrow> bytes \<Rightarrow> Storage" where
  "new_storage L storeEncSeed mPrivKey mPubKey pw seed =
     (let st = NewStorageManager\<lparr>StVersion := ''0.1'', Xprv := KeyString L mPrivKey, Xpub := KeyString L mPubKey,
                 ShaPw := HashB L pw\<rparr> in
      if storeEncSeed then st\<lparr>Seed := seed\<rparr> else st)"

definition makeBtcElectrumWallet ::
  "'k wallet_lib \<Rightarrow> ('ds, 'k, 'a) tx_env \<Rightarrow> bool \<Rightarrow> int \<Rightarrow> string \<Rightarrow> bytes \<Rightarrow> 'ds \<Rightarrow>
   ('ds, ('ds, 'k, 'a) BtcElectrumWallet) run" where
  "makeBtcElectrumWallet L E storeEncSeed now pw seed ds =
     (case NewMaster L seed of Inl err \<Rightarrow> Some (ds, Inl err)
      | Inr mPrivKey \<Rightarrow>
          (case Neuter L mPrivKey of Inl err \<Rightarrow> Some (ds, Inl err)
           | Inr mPubKey \<Rightarrow>
               (let st = new_storage L storeEncSeed mPrivKey mPubKey pw seed in
                thenO (Some (StorageManager_Put L (DS_Enc (te_ds E)) st pw ds)) (\<lambda>ds _.
                thenO (NewKeyManager (te_order E) (te_hdk E) (DS_Keys (te_ds E)) mPrivKey ds) (\<lambda>ds km.
                  let ts = NewTxStore (E\<lparr>te_km := km\<rparr>) ds in
                  thenO (Some (PutCreationDate (DS_Cfg (te_ds E)) now ds)) (\<lambda>ds _.
                    Some (ds, Inr \<lparr>storage = st, txstore = ts\<lparr>store_ds := ds\<rparr>, keyManager = km,
                      feeProvider = DefaultFeeProvider, creationDate = now, blockchainTip = 0, running = False\<rparr>)))))))"

text \<open>\<open>ent\<close> is the entropy read.\<close>

definition NewBtcElectrumWallet ::
  "'k wallet_lib \<Rightarrow> ('ds, 'k, 'a) tx_env \<Rightarrow> bool \<Rightarrow> int \<Rightarrow> bytes result \<Rightarrow> string \<Rightarrow> 'ds \<Rightarrow>
   ('ds, ('ds, 'k, 'a) BtcElectrumWallet) run" where
  "NewBtcElectrumWallet L E storeEncSeed now ent pw ds =
     (if pw = [] then Some (ds, ErrEmptyPassword)
      else
        (case thenR ent (NewMnemonic L) of Inl err \<Rightarrow> Some (ds, Inl err)
         | Inr mnemonic \<Rightarrow> makeBtcElectrumWallet L E storeEncSeed now pw (NewSeed L mnemonic) ds))"

definition RecreateElectrumWallet ::
  "'k wallet_lib \<Rightarrow> ('ds, 'k, 'a) tx_env \<Rightarrow> bool \<Rightarrow> int \<Rightarrow> string \<Rightarrow> string \<Rightarrow> 'ds \<Rightarrow>
   ('ds, ('ds, 'k, 'a) BtcElectrumWallet) run" where
  "RecreateElectrumWallet L E storeEncSeed now pw mnemonic ds =
     (if pw = [] then Some (ds, ErrEmptyPassword)
      else
        (case NewSeedWithErrorChecking L mnemonic of Inl err \<Rightarrow> Some (ds, Inl err)
         | Inr seed \<Rightarrow> makeBtcElectrumWallet L E storeEncSeed now pw seed ds))"

definition loadBtcElectrumWallet ::
  "'k wallet_lib \<Rightarrow> ('ds, 'k, 'a) tx_env \<Rightarrow> string \<Rightarrow> 'ds \<Rightarrow> ('ds, ('ds, 'k, 'a) BtcElectrumWallet) run" where
  "loadBtcElectrumWallet L E pw ds =
     (case StorageManager_Get L (DS_Enc (te_ds E)) NewStorageManager pw ds of
        (st, Inl err) \<Rightarrow> Some (ds, Inl err)
      | (st, Inr _) \<Rightarrow>
          (case NewKeyFromString L (Xprv st) of Inl err \<Rightarrow> Some (ds, Inl err)
           | Inr mPrivKey \<Rightarrow>
               thenO (NewKeyManager (te_order E) (te_hdk E) (DS_Keys (te_ds E)) mPrivKey ds) (\<lambda>ds km.
                 let ts = NewTxStore (E\<lparr>te_km := km\<rparr>) ds in
                 (case GetCreationDate (DS_Cfg (te_ds E)) ds of Inl err \<Rightarrow> Some (ds, Inl err)
                  | Inr created \<Rightarrow>
                      Some (ds, Inr \<lparr>storage = st, txstore = ts, keyManager = km, feeProvider = DefaultFeeProvider,
                        creationDate = created, blockchainTip = 0, running = False\<rparr>)))))"

definition LoadBtcElectrumWallet ::
  "'k wallet_lib \<Rightarrow> ('ds, 'k, 'a) tx_env \<Rightarrow> string \<Rightarrow> 'ds \<Rightarrow> ('ds, ('ds, 'k, 'a) BtcElectrumWallet) run" where
  "LoadBtcElectrumWallet L E pw ds =
     (if pw = [] then Some (ds, ErrEmptyPassword) else loadBtcElectrumWallet L E pw ds)"

section \<open>The interface\<close>

abbreviation keys_if :: "('ds, 'k, 'a) tx_env \<Rightarrow> 'ds Keys" where
  "keys_if E \<equiv> DS_Keys (te_ds E)"

abbreviation subs_if :: "('ds, 'k, 'a) tx_env \<Rightarrow> 'ds Subscriptions" where
  "subs_if E \<equiv> DS_Subscriptions (te_ds E)"

definition set_ds :: "'ds \<Rightarrow> ('ds, 'k, 'a) BtcElectrumWallet \<Rightarrow> ('ds, 'k, 'a) BtcElectrumWallet" where
  "set_ds ds w = w\<lparr>txstore := (txstore w)\<lparr>store_ds := ds\<rparr>\<rparr>"

definition wallet_Start :: "('ds, 'k, 'a) BtcElectrumWallet \<Rightarrow> ('ds, 'k, 'a) BtcElectrumWallet" where
  "wallet_Start w = w\<lparr>running := True\<rparr>"

definition wallet_UpdateTip :: "int \<Rightarrow> ('ds, 'k, 'a) BtcElectrumWallet \<Rightarrow> ('ds, 'k, 'a) BtcElectrumWallet" where
  "wallet_UpdateTip newTip w = w\<lparr>blockchainTip := newTip\<rparr>"

definition CurrencyCode :: "string \<Rightarrow> string" where
  "CurrencyCode params_name = (if params_name = ''mainnet'' then ''btc'' else ''tbtc'')"

text \<open>\<open>txrules.DefaultRelayFeePerKb\<close> is 1000.\<close>

definition IsDust :: "int \<Rightarrow> bool" where
  "IsDust amount \<longleftrightarrow> amount < 1000"

definition segwit_of :: "('ds, 'k, 'a) tx_env \<Rightarrow> 'k \<Rightarrow> 'a result" where
  "segwit_of E key = thenR (ScriptAddress (te_hdk E) key) (NewAddressWitnessPubKeyHash (te_wire E))"

definition wallet_GetAddress :: "('ds, 'k, 'a) tx_env \<Rightarrow> KeyPath \<Rightarrow> 'a result" where
  "wallet_GetAddress E kp =
     thenR (generateChildKey (te_hdk E) (te_km E) (Change kp) (u32 (Index kp))) (segwit_of E)"

text \<open>No key gives a nil address without an error: \<open>Inr None\<close>.\<close>

definition wallet_GetUnusedAddress :: "('ds, 'k, 'a) tx_env \<Rightarrow> KeyChange \<Rightarrow> 'ds \<Rightarrow> 'a option result" where
  "wallet_GetUnusedAddress E purpose ds =
     (case GetUnusedKey (te_hdk E) (keys_if E) (te_km E) purpose ds of
        Inl err \<Rightarrow> Inr None
      | Inr key \<Rightarrow>
          (case ScriptAddress (te_hdk E) key of
             Inl err \<Rightarrow> Inr None
           | Inr script \<Rightarrow> thenR (NewAddressWitnessPubKeyHash (te_wire E) script) (\<lambda>a. Inr (Some a))))"

text \<open>A pay-to-pubkey-hash address is given by its script address.\<close>

definition wallet_GetUnusedLegacyAddress :: "('ds, 'k, 'a) tx_env \<Rightarrow> 'ds \<Rightarrow> bytes option result" where
  "wallet_GetUnusedLegacyAddress E ds =
     (case GetUnusedKey (te_hdk E) (keys_if E) (te_km E) EXTERNAL ds of
        Inl err \<Rightarrow> Inr None
      | Inr key \<Rightarrow> (case ScriptAddress (te_hdk E) key of Inl err \<Rightarrow> Inr None | Inr a \<Rightarrow> Inr (Some a)))"

text \<open>\<open>wif\<close> is \<open>ECPrivKey\<close> followed by \<open>NewWIF\<close> and its \<open>String\<close>.\<close>

definition wallet_GetPrivKeyForAddress ::
  "'k wallet_lib \<Rightarrow> ('k \<Rightarrow> string result) \<Rightarrow> ('ds, 'k, 'a) tx_env \<Rightarrow> string \<Rightarrow> 'a \<Rightarrow> ('ds, 'k, 'a) BtcElectrumWallet \<Rightarrow> string result" where
  "wallet_GetPrivKeyForAddress L wif E pw address w =
     (if \<not> IsValidPw L (storage w) pw then Inl (Err ''invalid password'')
      else thenR (GetKeyForScript (te_hdk E) (keys_if E) (te_km E) (AddrScriptAddress (te_wire E) address) (wallet_ds w)) wif)"

text \<open>\<open>MarkAddressUsed\<close> goes to the datastore, past the key manager and its lookahead.\<close>

definition wallet_MarkAddressUsed :: "('ds, 'k, 'a) tx_env \<Rightarrow> 'a \<Rightarrow> 'ds \<Rightarrow> 'ds \<times> unit result" where
  "wallet_MarkAddressUsed E address ds = K_MarkKeyAsUsed (keys_if E) (AddrScriptAddress (te_wire E) address) ds"

definition wallet_ScriptToAddress :: "('ds, 'k, 'a) tx_env \<Rightarrow> bytes \<Rightarrow> 'a result" where
  "wallet_ScriptToAddress E script =
     thenR (ExtractPkScriptAddrs (te_wire E) script) (\<lambda>addresses.
       if addresses = [] then Inl (Err ''unknown script'') else Inr (addresses ! 0))"

definition wallet_AddressToScript :: "('ds, 'k, 'a) tx_env \<Rightarrow> 'a \<Rightarrow> bytes result" where
  "wallet_AddressToScript E address = PayToAddrScript (te_wire E) address"

definition wallet_AddSubscription :: "('ds, 'k, 'a) tx_env \<Rightarrow> Subscription \<Rightarrow> 'ds \<Rightarrow> 'ds \<times> unit result" where
  "wallet_AddSubscription E subscription = SubscriptionManager_Put (subs_if E) subscription"

definition wallet_RemoveSubscription :: "('ds, 'k, 'a) tx_env \<Rightarrow> string \<Rightarrow> 'ds \<Rightarrow> 'ds" where
  "wallet_RemoveSubscription E scriptPubKey ds = fst (SubscriptionManager_Delete (subs_if E) scriptPubKey ds)"

definition wallet_GetSubscription :: "('ds, 'k, 'a) tx_env \<Rightarrow> string \<Rightarrow> 'ds \<Rightarrow> Subscription result" where
  "wallet_GetSubscription E scriptPubKey = SubscriptionManager_Get (subs_if E) scriptPubKey"

definition wallet_GetSubscriptionForElectrumScripthash ::
  "('ds, 'k, 'a) tx_env \<Rightarrow> string \<Rightarrow> 'ds \<Rightarrow> Subscription result" where
  "wallet_GetSubscriptionForElectrumScripthash E h = SubscriptionManager_GetElectrumScripthash (subs_if E) h"

definition wallet_ListSubscriptions :: "('ds, 'k, 'a) tx_env \<Rightarrow> 'ds \<Rightarrow> Subscription list result" where
  "wallet_ListSubscriptions E = SubscriptionManager_GetAll (subs_if E)"

definition wallet_HasAddress :: "('ds, 'k, 'a) tx_env \<Rightarrow> 'a \<Rightarrow> 'ds \<Rightarrow> bool" where
  "wallet_HasAddress E address ds \<longleftrightarrow>
     \<not> isl (GetKeyForScript (te_hdk E) (keys_if E) (te_km E) (AddrScriptAddress (te_wire E) address) ds)"

fun script_addresses :: "('ds, 'k, 'a) tx_env \<Rightarrow> 'k list \<Rightarrow> bytes list" where
  "script_addresses E [] = []"
| "script_addresses E (k # ks) =
     (case ScriptAddress (te_hdk E) k of Inl err \<Rightarrow> script_addresses E ks | Inr a \<Rightarrow> a # script_addresses E ks)"

definition wallet_ListAddresses :: "('ds, 'k, 'a) tx_env \<Rightarrow> 'ds \<Rightarrow> bytes list" where
  "wallet_ListAddresses E ds = script_addresses E (GetKeys (te_hdk E) (keys_if E) (te_km E) ds)"

definition wallet_IsMine :: "('ds, 'k, 'a) tx_env \<Rightarrow> 'a \<Rightarrow> 'ds \<Rightarrow> bool" where
  "wallet_IsMine E queryAddress ds \<longleftrightarrow>
     list_ex (\<lambda>a. a = AddrScriptAddress (te_wire E) queryAddress) (wallet_ListAddresses E ds)"

section \<open>Coins and transactions\<close>

text \<open>The first stxo that is not watch-only and has either of the two relations to the coin decides.\<close>

fun isStxoConfirmed :: "Utxo \<Rightarrow> Stxo list \<Rightarrow> bool" where
  "isStxoConfirmed utxo [] = False"
| "isStxoConfirmed utxo (stxo # stxos) =
     (if WatchOnly (SUtxo stxo) then isStxoConfirmed utxo stxos
      else if SpendTxid stxo = OpHash (Op utxo) then SpendHeight stxo > 0
      else if Utxo_IsEqual (SUtxo stxo) utxo then AtHeight (SUtxo stxo) > 0
      else isStxoConfirmed utxo stxos)"

fun balance_loop :: "Stxo list \<Rightarrow> Utxo list \<Rightarrow> int \<times> int \<times> int \<Rightarrow> int \<times> int \<times> int" where
  "balance_loop stxos [] acc = acc"
| "balance_loop stxos (utxo # utxos) (confirmed, unconfirmed, locked) =
     (if WatchOnly utxo then balance_loop stxos utxos (confirmed, unconfirmed, locked)
      else
        (let locked' = (if Frozen utxo then locked + UValue utxo else locked) in
         if AtHeight utxo > 0 then balance_loop stxos utxos (confirmed + UValue utxo, unconfirmed, locked')
         else if isStxoConfirmed utxo stxos then balance_loop stxos utxos (confirmed + UValue utxo, unconfirmed, locked')
         else balance_loop stxos utxos (confirmed, unconfirmed + UValue utxo, locked')))"

definition wallet_Balance :: "('ds, 'k, 'a) tx_env \<Rightarrow> 'ds \<Rightarrow> (int \<times> int \<times> int) result" where
  "wallet_Balance E ds =
     thenR (U_GetAll (utxos_of E) ds) (\<lambda>utxos.
     thenR (S_GetAll (stxos_of E) ds) (\<lambda>stxos. Inr (balance_loop stxos utxos (0, 0, 0))))"

definition wallet_ListTransactions :: "('ds, 'k, 'a) tx_env \<Rightarrow> 'ds \<Rightarrow> Txn list result" where
  "wallet_ListTransactions E = T_GetAll (txns_of E) False"

definition wallet_HasTransaction :: "('ds, 'k, 'a) tx_env \<Rightarrow> string \<Rightarrow> 'ds \<Rightarrow> Txn option" where
  "wallet_HasTransaction E txid ds = (case T_Get (txns_of E) txid ds of Inl err \<Rightarrow> None | Inr txn \<Rightarrow> Some txn)"

definition wallet_GetTransaction :: "('ds, 'k, 'a) tx_env \<Rightarrow> string \<Rightarrow> 'ds \<Rightarrow> Txn result" where
  "wallet_GetTransaction E txid ds =
     (case T_Get (txns_of E) txid ds of Inl err \<Rightarrow> Inl (Err ''no such transaction'') | Inr txn \<Rightarrow> Inr txn)"

definition wallet_AddTransaction ::
  "nat \<Rightarrow> ('ds, 'k, 'a) tx_env \<Rightarrow> int \<Rightarrow> MsgTx \<Rightarrow> int \<Rightarrow> int \<Rightarrow> ('ds, 'k, 'a) BtcElectrumWallet \<Rightarrow>
   (('ds, 'k, 'a) BtcElectrumWallet, unit) run" where
  "wallet_AddTransaction fuel E now tx height timestamp w =
     (case AddTransaction fuel E now tx height timestamp (txstore w) of
        None \<Rightarrow> None
      | Some (ts, r) \<Rightarrow> Some (w\<lparr>txstore := ts\<rparr>, thenR r (\<lambda>_. Inr ())))"

definition wallet_ListUnspent :: "('ds, 'k, 'a) tx_env \<Rightarrow> 'ds \<Rightarrow> Utxo list result" where
  "wallet_ListUnspent E = U_GetAll (utxos_of E)"

definition wallet_ListConfirmedUnspent :: "('ds, 'k, 'a) tx_env \<Rightarrow> 'ds \<Rightarrow> Utxo list result" where
  "wallet_ListConfirmedUnspent E ds =
     thenR (U_GetAll (utxos_of E) ds) (\<lambda>utxos. Inr (filter (\<lambda>utxo. AtHeight utxo > 0) utxos))"

definition wallet_ListFrozenUnspent :: "('ds, 'k, 'a) tx_env \<Rightarrow> 'ds \<Rightarrow> Utxo list result" where
  "wallet_ListFrozenUnspent E ds = thenR (U_GetAll (utxos_of E) ds) (\<lambda>utxos. Inr (filter Frozen utxos))"

definition wallet_ListSpent :: "('ds, 'k, 'a) tx_env \<Rightarrow> 'ds \<Rightarrow> Stxo list result" where
  "wallet_ListSpent E = S_GetAll (stxos_of E)"

definition wallet_FreezeUTXO :: "('ds, 'k, 'a) tx_env \<Rightarrow> OutPoint \<Rightarrow> 'ds \<Rightarrow> 'ds \<times> unit result" where
  "wallet_FreezeUTXO E op ds =
     (case U_GetAll (utxos_of E) ds of Inl err \<Rightarrow> (ds, Inl err)
      | Inr utxos \<Rightarrow>
          (case List.find (\<lambda>utxo. OpHash (Op utxo) = OpHash op \<and> OpIndex (Op utxo) = OpIndex op) utxos of
             None \<Rightarrow> (ds, Inl (Err ''utxo not found''))
           | Some utxo \<Rightarrow> U_Freeze (utxos_of E) utxo ds))"

definition wallet_UnFreezeUTXO :: "('ds, 'k, 'a) tx_env \<Rightarrow> OutPoint \<Rightarrow> 'ds \<Rightarrow> 'ds \<times> unit result" where
  "wallet_UnFreezeUTXO E op ds =
     (case U_GetAll (utxos_of E) ds of Inl err \<Rightarrow> (ds, Inl err)
      | Inr utxos \<Rightarrow>
          (case List.find (\<lambda>utxo. OpHash (Op utxo) = OpHash op \<and> OpIndex (Op utxo) = OpIndex op) utxos of
             None \<Rightarrow> (ds, Inl (Err ''utxo not found''))
           | Some utxo \<Rightarrow> U_UnFreeze (utxos_of E) utxo ds))"

end
