(* ===== verification/Spend.thy ===== *)
theory Spend
  imports Wallet
begin

text \<open>
  Spending: \<open>send.go\<close>, \<open>sign.go\<close> and \<open>bumpfee.go\<close> of \<open>wallet/wltbtc\<close>.  Coin selection, authoring, BIP 69 sorting and the signatures are btcd's and
  btcwallet's, the parameter \<open>spend_lib\<close>.  A private key is its serialized bytes.
\<close>

section \<open>Coins\<close>

record unspentCoin =
  CoinHash :: hash
  CoinIndex :: "32 word"
  CoinValue :: int
  NumConfs :: int
  CoinPkScript :: bytes

definition newUnspentCoin :: "hash \<Rightarrow> 32 word \<Rightarrow> int \<Rightarrow> int \<Rightarrow> bytes \<Rightarrow> unspentCoin" where
  "newUnspentCoin txHash index val numConfs scriptPubKey =
     \<lparr>CoinHash = txHash, CoinIndex = index, CoinValue = val, NumConfs = numConfs, CoinPkScript = scriptPubKey\<rparr>"

fun gather_loop :: "int \<Rightarrow> bool \<Rightarrow> Utxo list \<Rightarrow> unspentCoin list" where
  "gather_loop tip excludeUnconfirmed [] = []"
| "gather_loop tip excludeUnconfirmed (u # utxos) =
     (if WatchOnly u then gather_loop tip excludeUnconfirmed utxos
      else if Frozen u then gather_loop tip excludeUnconfirmed utxos
      else if excludeUnconfirmed \<and> AtHeight u \<le> 0 then gather_loop tip excludeUnconfirmed utxos
      else
        (let confirmations = (if AtHeight u > 0 then tip - AtHeight u else 0) in
         newUnspentCoin (OpHash (Op u)) (OpIndex (Op u)) (UValue u) confirmations (ScriptPubkey u) #
         gather_loop tip excludeUnconfirmed utxos))"

definition gatherCoins :: "('ds, 'k, 'a) tx_env \<Rightarrow> bool \<Rightarrow> ('ds, 'k, 'a) BtcElectrumWallet \<Rightarrow> unspentCoin list" where
  "gatherCoins E excludeUnconfirmed w =
     gather_loop (blockchainTip w) excludeUnconfirmed
       (case U_GetAll (utxos_of E) (wallet_ds w) of Inl _ \<Rightarrow> [] | Inr utxos \<Rightarrow> utxos)"

section \<open>The libraries\<close>

text \<open>\<open>CoinSelect\<close> is \<open>MaxValueAgeCoinSelector\<close> with at most 10000 inputs.  \<open>NewUnsignedTransaction\<close> gets the
  outputs, the fee rate, the input source, the script of the change source and its size, and gives the
  transaction, the index of the change output (negative for none) and the target it last asked the input
  source for.\<close>

datatype script_class = WitnessV0PubKeyHashTy | WitnessV0ScriptHashTy | PubKeyHashTy | OtherTy

record ('k, 'a) spend_lib =
  CoinSelect :: "int \<Rightarrow> unspentCoin list \<Rightarrow> unspentCoin list result"
  NewUnsignedTransaction ::
    "TxOut list \<Rightarrow> int \<Rightarrow> (int \<Rightarrow> (int \<times> TxIn list) result) \<Rightarrow> bytes result \<Rightarrow> int \<Rightarrow> (MsgTx \<times> int \<times> int) result"
  InPlaceSort :: "MsgTx \<Rightarrow> MsgTx"
  AddAllInputScripts :: "MsgTx \<Rightarrow> bytes list \<Rightarrow> int list \<Rightarrow> ('a \<Rightarrow> bytes result) \<Rightarrow> MsgTx result"
  ECPrivKey :: "'k \<Rightarrow> bytes result"
  ScriptToAddr :: "bytes \<Rightarrow> 'a result"
  GetScriptClass :: "bytes \<Rightarrow> script_class"
  WitnessSignature :: "MsgTx \<Rightarrow> nat \<Rightarrow> int \<Rightarrow> bytes \<Rightarrow> bytes \<Rightarrow> bytes list result"
  SignatureScriptOf :: "MsgTx \<Rightarrow> nat \<Rightarrow> bytes \<Rightarrow> bytes \<Rightarrow> bytes result"
  Engine :: "bytes \<Rightarrow> MsgTx \<Rightarrow> nat \<Rightarrow> int \<Rightarrow> unit result"
  SerializeTx :: "MsgTx \<Rightarrow> bytes result"

text \<open>\<open>secretSource.GetKey\<close>\<close>

definition secretSource_GetKey ::
  "('k, 'a) spend_lib \<Rightarrow> ('ds, 'k, 'a) tx_env \<Rightarrow> 'ds \<Rightarrow> 'a \<Rightarrow> bytes result" where
  "secretSource_GetKey P E ds address =
     thenR (GetKeyForScript (te_hdk E) (keys_if E) (te_km E) (AddrScriptAddress (te_wire E) address) ds) (ECPrivKey P)"

section \<open>Spending\<close>

definition coin_op :: "unspentCoin \<Rightarrow> OutPoint" where
  "coin_op c = \<lparr>OpHash = CoinHash c, OpIndex = CoinIndex c\<rparr>"

definition coin_input :: "unspentCoin \<Rightarrow> TxIn" where
  "coin_input c = \<lparr>PreviousOutPoint = coin_op c, SignatureScript = [], Witness = [], Sequence = 0xffffffff\<rparr>"

definition inputSource :: "('k, 'a) spend_lib \<Rightarrow> unspentCoin list \<Rightarrow> int \<Rightarrow> (int \<times> TxIn list) result" where
  "inputSource P coins target =
     (case CoinSelect P target coins of
        Inl err \<Rightarrow> Inl (Err ''ERROR_INSUFFICIENT_FUNDS'')
      | Inr cs \<Rightarrow> Inr (sum_list (map CoinValue cs), map coin_input cs))"

text \<open>The map of previous outputs is the one of the last call; it is nil when that call failed, and then
  there is no transaction.\<close>

definition prevScripts :: "('k, 'a) spend_lib \<Rightarrow> unspentCoin list \<Rightarrow> int \<Rightarrow> (OutPoint \<rightharpoonup> TxOut)" where
  "prevScripts P coins target =
     (case CoinSelect P target coins of
        Inl err \<Rightarrow> Map.empty
      | Inr cs \<Rightarrow> fold (\<lambda>c m. m(coin_op c \<mapsto> \<lparr>OValue = CoinValue c, OPkScript = CoinPkScript c\<rparr>)) cs Map.empty)"

definition changeSource :: "('ds, 'k, 'a) tx_env \<Rightarrow> 'ds \<Rightarrow> bytes result" where
  "changeSource E ds =
     thenR (wallet_GetUnusedAddress E INTERNAL ds) (\<lambda>address.
       (case address of
          None \<Rightarrow> Inl (Err ''unable to generate payment script for unsupported address type <nil>'')
        | Some a \<Rightarrow> PayToAddrScript (te_wire E) a))"

text \<open>The loop over the inputs: every previous output is looked up, and the scripts are cleared.\<close>

fun prev_outputs :: "(OutPoint \<rightharpoonup> TxOut) \<Rightarrow> TxIn list \<Rightarrow> TxOut list result" where
  "prev_outputs prevs [] = Inr []"
| "prev_outputs prevs (txIn # ins) =
     (case prevs (PreviousOutPoint txIn) of
        None \<Rightarrow> Inl (Panic ''nil pointer dereference'')
      | Some prevOut \<Rightarrow> thenR (prev_outputs prevs ins) (\<lambda>outs. Inr (prevOut # outs)))"

definition clear_scripts :: "MsgTx \<Rightarrow> MsgTx" where
  "clear_scripts tx = tx\<lparr>TxIns := map (\<lambda>i. i\<lparr>SignatureScript := [], Witness := []\<rparr>) (TxIns tx)\<rparr>"

definition wallet_GetFeePerByte ::
  "int \<Rightarrow> Fees option result \<Rightarrow> FeeLevel \<Rightarrow> ('ds, 'k, 'a) BtcElectrumWallet \<Rightarrow>
   ('ds, 'k, 'a) BtcElectrumWallet \<times> int result" where
  "wallet_GetFeePerByte now resp feeLevel w =
     (case GetFeePerByte now resp (feeProvider w) feeLevel of (fp, r) \<Rightarrow> (w\<lparr>feeProvider := fp\<rparr>, r))"

definition buildTx ::
  "('k, 'a) spend_lib \<Rightarrow> ('ds, 'k, 'a) tx_env \<Rightarrow> int \<Rightarrow> Fees option result \<Rightarrow> int \<Rightarrow> 'a \<Rightarrow> FeeLevel \<Rightarrow>
   ('ds, 'k, 'a) BtcElectrumWallet \<Rightarrow> ('ds, 'k, 'a) BtcElectrumWallet \<times> (int \<times> MsgTx) result" where
  "buildTx P E now resp amount address feeLevel w =
     (if IsDust amount then (w, Inl (Err ''amount is below network dust threshold''))
      else
        (case PayToAddrScript (te_wire E) address of Inl err \<Rightarrow> (w, Inl err)
         | Inr script \<Rightarrow>
             (let coins = gatherCoins E True w in
              thenS (wallet_GetFeePerByte now resp feeLevel w) (\<lambda>w fee.
                (w,
                 thenR (NewUnsignedTransaction P [\<lparr>OValue = amount, OPkScript = script\<rparr>] (fee * 1000)
                          (inputSource P coins) (changeSource E (wallet_ds w)) 33) (\<lambda>(tx, changeIndex, target).
                 (let sorted = InPlaceSort P tx in
                  thenR (prev_outputs (prevScripts P coins target) (TxIns sorted)) (\<lambda>prevOuts.
                  thenR (AddAllInputScripts P (clear_scripts sorted) (map OPkScript prevOuts) (map OValue prevOuts)
                           (secretSource_GetKey P E (wallet_ds w))) (\<lambda>signed.
                    Inr (changeIndex, signed))))))))))"

definition wallet_Spend ::
  "'k wallet_lib \<Rightarrow> ('k, 'a) spend_lib \<Rightarrow> ('ds, 'k, 'a) tx_env \<Rightarrow> int \<Rightarrow> Fees option result \<Rightarrow> string \<Rightarrow> int \<Rightarrow> 'a \<Rightarrow>
   FeeLevel \<Rightarrow> ('ds, 'k, 'a) BtcElectrumWallet \<Rightarrow> ('ds, 'k, 'a) BtcElectrumWallet \<times> (int \<times> MsgTx) result" where
  "wallet_Spend L P E now resp pw amount address feeLevel w =
     (if \<not> IsValidPw L (storage w) pw then (w, Inl (Err ''invalid password''))
      else buildTx P E now resp amount address feeLevel w)"

section \<open>Signing\<close>

definition validConfirmedUtxo :: "Utxo list \<Rightarrow> OutPoint \<Rightarrow> Utxo option" where
  "validConfirmedUtxo confirmedUtxos op =
     List.find (\<lambda>utxo. OpHash op = OpHash (Op utxo) \<and> OpIndex op = OpIndex (Op utxo)) confirmedUtxos"

text \<open>The signature of input \<open>idx\<close> is put into the transaction, which the next inputs are signed with.\<close>

definition sign_input ::
  "('k, 'a) spend_lib \<Rightarrow> nat \<Rightarrow> int \<Rightarrow> bytes \<Rightarrow> bytes \<Rightarrow> string \<Rightarrow> MsgTx \<Rightarrow> MsgTx result" where
  "sign_input P idx val pkScript privKey otherwise tx =
     (let i = TxIns tx ! idx in
      (case GetScriptClass P pkScript of
         WitnessV0PubKeyHashTy \<Rightarrow>
           thenR (WitnessSignature P tx idx val pkScript privKey) (\<lambda>sig.
             Inr (tx\<lparr>TxIns := (TxIns tx)[idx := i\<lparr>SignatureScript := [], Witness := Witness i @ sig\<rparr>]\<rparr>))
       | PubKeyHashTy \<Rightarrow>
           thenR (SignatureScriptOf P tx idx pkScript privKey) (\<lambda>sig.
             Inr (tx\<lparr>TxIns := (TxIns tx)[idx := i\<lparr>SignatureScript := SignatureScript i @ sig, Witness := []\<rparr>]\<rparr>))
       | WitnessV0ScriptHashTy \<Rightarrow> Inl (Err otherwise)
       | OtherTy \<Rightarrow> Inl (Err ''signing for script type unsupported'')))"

fun sign_loop ::
  "('k, 'a) spend_lib \<Rightarrow> ('ds, 'k, 'a) tx_env \<Rightarrow> bool \<Rightarrow> Utxo list \<Rightarrow> 'ds \<Rightarrow> nat \<Rightarrow> OutPoint list \<Rightarrow> MsgTx \<Rightarrow> MsgTx result" where
  "sign_loop P E VerifyTx confirmedUtxos ds idx [] tx = Inr tx"
| "sign_loop P E VerifyTx confirmedUtxos ds idx (op # ops) tx =
     (case validConfirmedUtxo confirmedUtxos op of
        None \<Rightarrow> Inl (Err ''outpoint is not valid (maybe not confirmed?)'')
      | Some utxo \<Rightarrow>
          thenR (ScriptToAddr P (ScriptPubkey utxo)) (\<lambda>address.
          thenR (GetKeyForScript (te_hdk E) (keys_if E) (te_km E) (AddrScriptAddress (te_wire E) address) ds) (\<lambda>key.
          thenR (ECPrivKey P key) (\<lambda>privKey.
          thenR (sign_input P idx (UValue utxo) (ScriptPubkey utxo) privKey ''signing P2WSH not (yet) supported'' tx) (\<lambda>tx'.
          thenR (if VerifyTx
                 then (case Engine P (ScriptPubkey utxo) tx' idx (UValue utxo) of
                         Inl err \<Rightarrow> Inl (Panic ''engine'') | Inr _ \<Rightarrow> Inr ())
                 else Inr ()) (\<lambda>_.
            sign_loop P E VerifyTx confirmedUtxos ds (Suc idx) ops tx'))))))"

definition wallet_SignTx ::
  "'k wallet_lib \<Rightarrow> ('k, 'a) spend_lib \<Rightarrow> ('ds, 'k, 'a) tx_env \<Rightarrow> string \<Rightarrow> bool \<Rightarrow> MsgTx \<Rightarrow>
   ('ds, 'k, 'a) BtcElectrumWallet \<Rightarrow> bytes result" where
  "wallet_SignTx L P E pw VerifyTx tx w =
     (if \<not> IsValidPw L (storage w) pw then Inl (Err ''invalid password'')
      else
        thenR (wallet_ListConfirmedUnspent E (wallet_ds w)) (\<lambda>confirmedUtxos.
        thenR (sign_loop P E VerifyTx confirmedUtxos (wallet_ds w) 0 (map PreviousOutPoint (TxIns tx)) tx)
          (SerializeTx P)))"

definition BumpFee :: "string \<Rightarrow> MsgTx result" where
  "BumpFee txid = Inl (Err ''wallet function is not implemented'')"

end
