(* ===== verification/Sweep.thy ===== *)
theory Sweep
  imports Spend
begin

text \<open>
  Size estimates and sweeping: \<open>txsizes.go\<close>, \<open>sizes.go\<close>, \<open>EstimateFee\<close> of \<open>send.go\<close> and \<open>sweep.go\<close> of
  \<open>wallet/wltbtc\<close>.  The serialized sizes of \<open>wire\<close> and the fee rules of \<open>txrules\<close> are the parameter
  \<open>size_lib\<close>.  Sizes are Go ints far from their bounds; the values of the swept coins come from a server
  and wrap around.
\<close>

section \<open>Sizes\<close>

definition RedeemP2PKHSigScriptSize :: int where
  "RedeemP2PKHSigScriptSize = 1 + 73 + 1 + 33"

definition RedeemP2SH2of3MultisigSigScriptSize :: int where
  "RedeemP2SH2of3MultisigSigScriptSize = 1 + 1 + 72 + 1 + 72 + 1 + 1 + 1 + 33 + 1 + 33 + 1 + 33 + 1 + 1"

definition RedeemP2SH1of2MultisigSigScriptSize :: int where
  "RedeemP2SH1of2MultisigSigScriptSize = 1 + 1 + 72 + 1 + 1 + 1 + 33 + 1 + 33 + 1 + 1"

definition RedeemP2SHMultisigTimelock1SigScriptSize :: int where
  "RedeemP2SHMultisigTimelock1SigScriptSize =
     1 + 72 + 1 + 1 + 1 + 1 + 1 + 33 + 1 + 33 + 1 + 33 + 1 + 1 + 1 + 1 + 2 + 1 + 1 + 1 + 33 + 1 + 1"

definition RedeemP2SHMultisigTimelock2SigScriptSize :: int where
  "RedeemP2SHMultisigTimelock2SigScriptSize =
     1 + 1 + 72 + 1 + 72 + 1 + 1 + 1 + 1 + 1 + 33 + 1 + 33 + 1 + 33 + 1 + 1 + 1 + 1 + 2 + 1 + 1 + 1 + 33 + 1 + 1"

definition P2PKHPkScriptSize :: int where
  "P2PKHPkScriptSize = 1 + 1 + 1 + 20 + 1 + 1"

definition RedeemP2PKHInputSize :: int where
  "RedeemP2PKHInputSize = 32 + 4 + 1 + RedeemP2PKHSigScriptSize + 4"

definition RedeemP2SH2of3MultisigInputSize :: int where
  "RedeemP2SH2of3MultisigInputSize = 32 + 4 + 1 + 4 + (RedeemP2SH2of3MultisigSigScriptSize div 4)"

definition RedeemP2SH1of2MultisigInputSize :: int where
  "RedeemP2SH1of2MultisigInputSize = 32 + 4 + 1 + 4 + (RedeemP2SH1of2MultisigSigScriptSize div 4)"

definition RedeemP2SHMultisigTimelock1InputSize :: int where
  "RedeemP2SHMultisigTimelock1InputSize = 32 + 4 + 1 + 4 + (RedeemP2SHMultisigTimelock1SigScriptSize div 4)"

definition RedeemP2SHMultisigTimelock2InputSize :: int where
  "RedeemP2SHMultisigTimelock2InputSize = 32 + 4 + 1 + 4 + (RedeemP2SHMultisigTimelock2SigScriptSize div 4)"

definition P2PKHOutputSize :: int where
  "P2PKHOutputSize = 8 + 1 + P2PKHPkScriptSize"

text \<open>Go's \<open>InputType\<close> is an integer; the five named ones are 0 to 4 and any other one adds no size.\<close>

datatype InputType = P2PKH | P2SH_1of2_Multisig | P2SH_2of3_Multisig | P2SH_Multisig_Timelock_1Sig
  | P2SH_Multisig_Timelock_2Sigs | OtherInputType int

record size_lib =
  VarIntSerializeSize :: "int \<Rightarrow> int"
  TxOutSerializeSize :: "TxOut \<Rightarrow> int"
  SerializeSizeStripped :: "MsgTx \<Rightarrow> int"
  SerializeSize :: "MsgTx \<Rightarrow> int"
  FeeForSerializeSize :: "int \<Rightarrow> int \<Rightarrow> int"
  CheckOutput :: "TxOut \<Rightarrow> int \<Rightarrow> unit result"

fun SumOutputSerializeSizes :: "size_lib \<Rightarrow> TxOut list \<Rightarrow> int" where
  "SumOutputSerializeSizes Z [] = 0"
| "SumOutputSerializeSizes Z (txOut # outs) = TxOutSerializeSize Z txOut + SumOutputSerializeSizes Z outs"

fun redeemScriptSize :: "InputType \<Rightarrow> int" where
  "redeemScriptSize P2PKH = RedeemP2PKHInputSize"
| "redeemScriptSize P2SH_1of2_Multisig = RedeemP2SH1of2MultisigInputSize"
| "redeemScriptSize P2SH_2of3_Multisig = RedeemP2SH2of3MultisigInputSize"
| "redeemScriptSize P2SH_Multisig_Timelock_1Sig = RedeemP2SHMultisigTimelock1InputSize"
| "redeemScriptSize P2SH_Multisig_Timelock_2Sigs = RedeemP2SHMultisigTimelock2InputSize"
| "redeemScriptSize (OtherInputType _) = 0"

definition EstimateSerializeSize :: "size_lib \<Rightarrow> nat \<Rightarrow> TxOut list \<Rightarrow> bool \<Rightarrow> InputType \<Rightarrow> int" where
  "EstimateSerializeSize Z inputCount txOuts addChangeOutput inputType =
     (let changeSize = (if addChangeOutput then P2PKHOutputSize else 0);
          outputCount = (if addChangeOutput then length txOuts + 1 else length txOuts) in
      10 + VarIntSerializeSize Z (int inputCount) + VarIntSerializeSize Z (int outputCount) +
      int inputCount * redeemScriptSize inputType + SumOutputSerializeSizes Z txOuts + changeSize)"

text \<open>\<open>EstimateFee\<close> drops the error of \<open>PayToAddrScript\<close>: the script is nil then.  An output is its address
  and value.\<close>

definition EstimateFee :: "size_lib \<Rightarrow> ('ds, 'k, 'a) tx_env \<Rightarrow> nat \<Rightarrow> ('a \<times> int) list \<Rightarrow> int \<Rightarrow> int" where
  "EstimateFee Z E ins outs feePerByte =
     (let txOuts = map (\<lambda>(address, val). \<lparr>OValue = val, OPkScript =
             (case PayToAddrScript (te_wire E) address of Inl _ \<Rightarrow> [] | Inr script \<Rightarrow> script)\<rparr>) outs in
      EstimateSerializeSize Z ins txOuts False P2PKH * feePerByte)"

definition DERSigLength :: int where "DERSigLength = 73"
definition DefaultSigScriptSize :: int where "DefaultSigScriptSize = 1 + DERSigLength + 1 + 33"
definition TxOutOverhead :: int where "TxOutOverhead = 8 + 1"
definition P2WPKHPkScriptSize :: int where "P2WPKHPkScriptSize = 1 + 1 + 20"
definition P2WPKHOutputSize :: int where "P2WPKHOutputSize = TxOutOverhead + P2WPKHPkScriptSize"
definition witnessWeight :: int where "witnessWeight = 4"

definition msgTxVBytes :: "size_lib \<Rightarrow> MsgTx \<Rightarrow> int" where
  "msgTxVBytes Z msgTx =
     (let baseSize = SerializeSizeStripped Z msgTx; totalSize = SerializeSize Z msgTx;
          txWeight = baseSize * (witnessWeight - 1) + totalSize in
      (txWeight + (witnessWeight - 1)) div witnessWeight)"

definition txSerialSizeEst :: "size_lib \<Rightarrow> MsgTx \<Rightarrow> int" where
  "txSerialSizeEst Z msgTx =
     (let witnessVBytes = (DefaultSigScriptSize + 2 + 3) div 4 in
      msgTxVBytes Z msgTx + (witnessVBytes + P2WPKHOutputSize))"

section \<open>Sweeping\<close>

record 'a InputInfo =
  InOutpoint :: OutPoint
  InHeight :: int
  InValue :: int
  KeyPair :: bytes
  LinkedAddress :: 'a
  InPkScript :: bytes

definition sweep_input :: "'a InputInfo \<Rightarrow> TxIn" where
  "sweep_input coin = \<lparr>PreviousOutPoint = InOutpoint coin, SignatureScript = [], Witness = [], Sequence = 0xffffffff\<rparr>"

text \<open>The loop over the coins: their scripts and total.\<close>

fun sweep_scripts :: "('ds, 'k, 'a) tx_env \<Rightarrow> 'a InputInfo list \<Rightarrow> bytes list result" where
  "sweep_scripts E [] = Inr []"
| "sweep_scripts E (coin # coins) =
     thenR (PayToAddrScript (te_wire E) (LinkedAddress coin)) (\<lambda>scriptForInput.
     thenR (sweep_scripts E coins) (\<lambda>scripts. Inr (scriptForInput # scripts)))"

definition sweep_total :: "'a InputInfo list \<Rightarrow> int" where
  "sweep_total coins = foldl (\<lambda>totalValue coin. wrap64 (totalValue + InValue coin)) 0 coins"

definition sweep_sign :: "('k, 'a) spend_lib \<Rightarrow> nat \<Rightarrow> int \<Rightarrow> bytes \<Rightarrow> bytes \<Rightarrow> MsgTx \<Rightarrow> MsgTx result" where
  "sweep_sign P idx val pkScript privKey tx =
     (if GetScriptClass P pkScript \<in> {WitnessV0PubKeyHashTy, PubKeyHashTy}
      then sign_input P idx val pkScript privKey [] tx
      else Inl (Err ''signing prev out script type unsupported''))"

fun sweep_sign_loop ::
  "('k, 'a) spend_lib \<Rightarrow> nat \<Rightarrow> ('a InputInfo \<times> bytes) list \<Rightarrow> MsgTx \<Rightarrow> MsgTx result" where
  "sweep_sign_loop P idx [] tx = Inr tx"
| "sweep_sign_loop P idx ((coin, script) # rest) tx =
     thenR (sweep_sign P idx (InValue coin) script (KeyPair coin) tx) (sweep_sign_loop P (Suc idx) rest)"

text \<open>A script the engine refuses ends the process.\<close>

fun sweep_verify :: "('k, 'a) spend_lib \<Rightarrow> nat \<Rightarrow> ('a InputInfo \<times> bytes) list \<Rightarrow> MsgTx \<Rightarrow> unit result" where
  "sweep_verify P idx [] tx = Inr ()"
| "sweep_verify P idx ((coin, script) # rest) tx =
     (case Engine P script tx idx (InValue coin) of
        Inl err \<Rightarrow> Inl (Panic ''engine'')
      | Inr _ \<Rightarrow> sweep_verify P (Suc idx) rest tx)"

definition SweepCoins ::
  "('k, 'a) spend_lib \<Rightarrow> size_lib \<Rightarrow> ('ds, 'k, 'a) tx_env \<Rightarrow> int \<Rightarrow> Fees option result \<Rightarrow> 'a InputInfo list \<Rightarrow> FeeLevel \<Rightarrow> int \<Rightarrow>
   ('ds, 'k, 'a) BtcElectrumWallet \<Rightarrow> ('ds, 'k, 'a) BtcElectrumWallet \<times> MsgTx list result" where
  "SweepCoins P Z E now resp coins feeLevel maxTxInputs w =
     (case thenR (wallet_GetUnusedAddress E EXTERNAL (wallet_ds w)) (\<lambda>address.
             (case address of
                None \<Rightarrow> Inl (Err ''unable to generate payment script for unsupported address type <nil>'')
              | Some a \<Rightarrow> PayToAddrScript (te_wire E) a)) of
        Inl err \<Rightarrow> (w, Inl err)
      | Inr p2wpkhScript \<Rightarrow>
          (case sweep_scripts E coins of Inl err \<Rightarrow> (w, Inl err)
           | Inr scripts \<Rightarrow>
               (let tx = \<lparr>Version = 2, TxIns = map sweep_input coins, TxOuts = [], LockTime = 0\<rparr>;
                    sweepSize = txSerialSizeEst Z tx in
                thenS (wallet_GetFeePerByte now resp feeLevel w) (\<lambda>w feePerByte.
                  (let feePerKB = feePerByte * 1000;
                       fee = FeeForSerializeSize Z feePerKB sweepSize;
                       out = \<lparr>OValue = wrap64 (sweep_total coins - fee), OPkScript = p2wpkhScript\<rparr> in
                   (w,
                    thenR (CheckOutput Z out feePerKB) (\<lambda>_.
                    thenR (sweep_sign_loop P 0 (zip coins scripts) (tx\<lparr>TxOuts := [out]\<rparr>)) (\<lambda>sweepTx.
                    thenR (sweep_verify P 0 (zip coins scripts) sweepTx) (\<lambda>_. Inr [sweepTx])))))))))"

end
