(* ===== verification/Chain_Config.thy ===== *)
theory Chain_Config
  imports Hex_Hash
begin

text \<open>
  The data model of \<open>electrumx/electrumx.go\<close> and the three coin packages \<open>elxbtc\<close>, \<open>elxdash\<close>
  and \<open>elxfiro\<close>: network configuration by coin and network type, and the block-header
  deserializers.  The \<open>wire\<close> package of btcd and the coins' hash functions are not part of the
  repository: they are the fields of \<open>chain_libs\<close>, an argument of the definitions that use
  them.  The locale \<open>wire_codec\<close> states what btcd documents (a header is exactly 80 bytes);
  \<open>header_codec\<close> is the interface \<open>HeaderDeserializer\<close> as the header store relies on it, and
  each coin's deserializer is shown to provide it.
\<close>

section \<open>Types of electrumx.go\<close>

record NodeServerAddr =
  nsa_Net :: string
  nsa_Addr :: string
  nsa_Onion :: bool

definition nsa_IsEqual :: "NodeServerAddr \<Rightarrow> NodeServerAddr \<Rightarrow> bool" where
  "nsa_IsEqual nsa other \<longleftrightarrow> nsa_Addr nsa = nsa_Addr other \<and> nsa_Net nsa = nsa_Net other"

definition DefaultStrategy :: "8 word" where
  "DefaultStrategy = 0x00"

definition NoDeleteKnownPeers :: "8 word" where
  "NoDeleteKnownPeers = 0x01"

record BlockHeader =
  Version :: int
  Hash :: WireHash
  Prev :: WireHash
  Merkle :: WireHash

record ClientBlockHeader =
  cHash :: string
  cPrev :: string
  cMerkle :: string

text \<open>A reader is the list of bytes still to be read.\<close>

type_synonym HeaderDeserializer = "bytes \<Rightarrow> BlockHeader result \<times> bytes"

record ElectrumXConfig =
  Coin :: string
  BlockHeaderSize :: int
  HeaderDeserializer :: HeaderDeserializer
  StartPoint :: int
  Genesis :: string
  MaxOnlinePeers :: int
  Flags :: "8 word"
  NetType :: string
  ProxyPort :: string
  MaxOnion :: int
  DataDir :: string
  TrustedPeer :: "NodeServerAddr option"
  Testing :: bool

abbreviation Regtest :: string where "Regtest \<equiv> ''regtest''"
abbreviation Testnet :: string where "Testnet \<equiv> ''testnet''"
abbreviation Mainnet :: string where "Mainnet \<equiv> ''mainnet''"

section \<open>Header deserializers\<close>

text \<open>What the coin packages use of btcd and of the hash libraries.  A \<open>'w\<close> is a
  \<open>wire.BlockHeader\<close>.\<close>

record 'w chain_libs =
  wireDeserialize :: "bytes \<Rightarrow> 'w result \<times> bytes"
  BlockHash :: "'w \<Rightarrow> WireHash"
  wVersion :: "'w \<Rightarrow> int"
  PrevBlock :: "'w \<Rightarrow> WireHash"
  MerkleRoot :: "'w \<Rightarrow> WireHash"
  DoubleHashH :: "bytes \<Rightarrow> WireHash"
  x11Hash :: "bytes \<Rightarrow> WireHash"

text \<open>\<open>io.ReadFull\<close> into a buffer of \<open>n\<close> bytes.\<close>

definition ReadFull :: "nat \<Rightarrow> bytes \<Rightarrow> bytes result \<times> bytes" where
  "ReadFull n r =
     (if n \<le> length r then (Inr (take n r), drop n r)
      else (Inl (Err (if r = [] then ''EOF'' else ''unexpected EOF'')), []))"

definition Deserialize_btc :: "'w chain_libs \<Rightarrow> HeaderDeserializer" where
  "Deserialize_btc L r =
     (case wireDeserialize L r of
        (Inl e, r') \<Rightarrow> (Inl e, r')
      | (Inr w, r') \<Rightarrow>
          (Inr \<lparr>Version = wVersion L w, Hash = BlockHash L w,
                Prev = PrevBlock L w, Merkle = MerkleRoot L w\<rparr>, r'))"

definition DASH_HEADER_SIZE :: nat where
  "DASH_HEADER_SIZE = 80"

definition Deserialize_dash :: "'w chain_libs \<Rightarrow> HeaderDeserializer" where
  "Deserialize_dash L r =
     (case ReadFull DASH_HEADER_SIZE r of
        (Inl e, r') \<Rightarrow> (Inl e, r')
      | (Inr header, r') \<Rightarrow>
          (case wireDeserialize L header of
             (Inl e, _) \<Rightarrow> (Inl e, r')
           | (Inr w, _) \<Rightarrow>
               (Inr \<lparr>Version = wVersion L w, Hash = x11Hash L header,
                     Prev = PrevBlock L w, Merkle = MerkleRoot L w\<rparr>, r')))"

definition FIRO_HEADER_SIZE :: nat where
  "FIRO_HEADER_SIZE = 80"

definition FIRO_FIROPOW_EXTRA :: nat where
  "FIRO_FIROPOW_EXTRA = 40"

definition FIRO_FIROPOW_HEADER_SIZE :: nat where
  "FIRO_FIROPOW_HEADER_SIZE = FIRO_HEADER_SIZE + FIRO_FIROPOW_EXTRA"

definition Deserialize_firo :: "'w chain_libs \<Rightarrow> HeaderDeserializer" where
  "Deserialize_firo L r =
     (case ReadFull FIRO_FIROPOW_HEADER_SIZE r of
        (Inl e, r') \<Rightarrow> (Inl e, r')
      | (Inr fullHeader, r') \<Rightarrow>
          (case wireDeserialize L (take FIRO_HEADER_SIZE fullHeader) of
             (Inl e, _) \<Rightarrow> (Inl e, r')
           | (Inr w, _) \<Rightarrow>
               (Inr \<lparr>Version = wVersion L w, Hash = DoubleHashH L fullHeader,
                     Prev = PrevBlock L w, Merkle = MerkleRoot L w\<rparr>, r')))"

definition Deserialize_firo_regtest :: "'w chain_libs \<Rightarrow> HeaderDeserializer" where
  "Deserialize_firo_regtest L r =
     (case wireDeserialize L r of
        (Inl e, r') \<Rightarrow> (Inl e, r')
      | (Inr w, r') \<Rightarrow>
          (Inr \<lparr>Version = wVersion L w, Hash = BlockHash L w,
                Prev = PrevBlock L w, Merkle = MerkleRoot L w\<rparr>, r'))"

section \<open>NewElectrumXInterface, per coin\<close>

definition NewElectrumXInterface_btc ::
  "'w chain_libs \<Rightarrow> ElectrumXConfig \<Rightarrow> ElectrumXConfig \<times> unit result" where
  "NewElectrumXInterface_btc L config0 =
     (let config = config0\<lparr>Coin := ''btc'', BlockHeaderSize := 80, MaxOnion := 2\<rparr> in
      if NetType config = Regtest then
        (config\<lparr>Flags := NoDeleteKnownPeers,
           Genesis := ''0f9188f13cb7b2c71f2a335e3a4fc328bf5beb436012afca590b1a11466e2206'',
           StartPoint := 0, MaxOnlinePeers := 0,
           HeaderDeserializer := Deserialize_btc L\<rparr>, Inr ())
      else if NetType config = Testnet then
        (config\<lparr>Flags := DefaultStrategy,
           Genesis := ''000000000933ea01ad0ee984209779baaec3ced90fa3f408719526f8d77f4943'',
           StartPoint := 2560000, MaxOnlinePeers := 3,
           HeaderDeserializer := Deserialize_btc L\<rparr>, Inr ())
      else if NetType config = Mainnet then
        (config\<lparr>Flags := DefaultStrategy,
           Genesis := ''000000000019d6689c085ae165831e934ff763ae46a2a6c172b3f1b60a8ce26f'',
           StartPoint := 823000, MaxOnlinePeers := 10,
           HeaderDeserializer := Deserialize_btc L\<rparr>, Inr ())
      else (config, Inl (Err ''config error'')))"

definition NewElectrumXInterface_dash ::
  "'w chain_libs \<Rightarrow> ElectrumXConfig \<Rightarrow> ElectrumXConfig \<times> unit result" where
  "NewElectrumXInterface_dash L config0 =
     (let config = config0\<lparr>Coin := ''dash'', BlockHeaderSize := int DASH_HEADER_SIZE,
            MaxOnion := 1\<rparr> in
      if NetType config = Regtest then
        (config\<lparr>Flags := NoDeleteKnownPeers,
           Genesis := ''000008ca1832a4baf228eb1553c03d3a2c8e02399550dd6ea8d65cec3ef23d2e'',
           StartPoint := 0, MaxOnlinePeers := 0,
           HeaderDeserializer := Deserialize_dash L\<rparr>, Inr ())
      else if NetType config = Testnet then
        (config\<lparr>Flags := NoDeleteKnownPeers,
           Genesis := ''00000bafbc94add76cb75e2ec92894837288a481e5c005f6563d91623bf8bc2c'',
           StartPoint := 1225000, MaxOnlinePeers := 1,
           HeaderDeserializer := Deserialize_dash L\<rparr>, Inr ())
      else if NetType config = Mainnet then
        (config\<lparr>Flags := NoDeleteKnownPeers,
           Genesis := ''00000ffd590b1485b3caadc19b22e6379c733355108f107a430458cdf3407ab6'',
           StartPoint := 2248000, MaxOnlinePeers := 3,
           HeaderDeserializer := Deserialize_dash L\<rparr>, Inr ())
      else (config, Inl (Err ''config error'')))"

definition NewElectrumXInterface_firo ::
  "'w chain_libs \<Rightarrow> ElectrumXConfig \<Rightarrow> ElectrumXConfig \<times> unit result" where
  "NewElectrumXInterface_firo L config0 =
     (let config = config0\<lparr>Coin := ''firo'', MaxOnion := 0\<rparr> in
      if NetType config = Regtest then
        (config\<lparr>Flags := NoDeleteKnownPeers,
           HeaderDeserializer := Deserialize_firo_regtest L,
           BlockHeaderSize := 80,
           Genesis := ''a42b98f04cc2916e8adfb5d9db8a2227c4629bc205748ed2f33180b636ee885b'',
           StartPoint := 0, MaxOnlinePeers := 0\<rparr>, Inr ())
      else if NetType config = Testnet then
        (config\<lparr>Flags := NoDeleteKnownPeers,
           HeaderDeserializer := Deserialize_firo L,
           BlockHeaderSize := 120,
           Genesis := ''aa22adcc12becaf436027ffe62a8fb21b234c58c23865291e5dc52cf53f64fca'',
           StartPoint := 170000, MaxOnlinePeers := 0\<rparr>, Inr ())
      else if NetType config = Mainnet then
        (config\<lparr>Flags := NoDeleteKnownPeers,
           HeaderDeserializer := Deserialize_firo L,
           BlockHeaderSize := 120,
           Genesis := ''4381deb85b1b2c9843c222944b616d997516dcbd6a964e1eaf0def0830695233'',
           StartPoint := 987000, MaxOnlinePeers := 3\<rparr>, Inr ())
      else (config, Inl (Err ''config error'')))"

section \<open>The deserializer contract\<close>

text \<open>
  \<open>header_codec des n dec\<close>: given at least \<open>n\<close> bytes, the deserializer consumes exactly \<open>n\<close> of them
  and its result is a function of those; given fewer it returns an error (and does not panic).
  This is what \<open>store\<close> relies on when it reads a file of \<open>n\<close>-byte headers from one reader.
\<close>

locale header_codec =
  fixes des :: HeaderDeserializer
    and hsize :: nat
    and dec :: "bytes \<Rightarrow> BlockHeader"
  assumes hsize_pos: "0 < hsize"
    and des_full: "hsize \<le> length b \<Longrightarrow> des b = (Inr (dec (take hsize b)), drop hsize b)"
    and des_short: "length b < hsize \<Longrightarrow> \<exists>m r. des b = (Inl (Err m), r)"
begin

lemma des_exact: "length b = hsize \<Longrightarrow> des b = (Inr (dec b), [])"
  using des_full [of b] by simp

lemma des_no_panic: "des b \<noteq> (Inl (Panic m), r)"
proof (cases "length b < hsize")
  case True
  then show ?thesis using des_short [of b] by auto
next
  case False
  then show ?thesis by (simp add: des_full)
qed

end

text \<open>btcd's \<open>wire.BlockHeader.Deserialize\<close>: version, previous hash, merkle root, time, bits and
  nonce, 80 bytes in all; fewer are an error.\<close>

locale wire_codec =
  fixes L :: "'w chain_libs"
    and wdec :: "bytes \<Rightarrow> 'w"
  assumes wire_full: "80 \<le> length b \<Longrightarrow> wireDeserialize L b = (Inr (wdec (take 80 b)), drop 80 b)"
    and wire_short: "length b < 80 \<Longrightarrow> \<exists>m r. wireDeserialize L b = (Inl (Err m), r)"

definition wire_header :: "'w chain_libs \<Rightarrow> WireHash \<Rightarrow> 'w \<Rightarrow> BlockHeader" where
  "wire_header L hash w =
     \<lparr>Version = wVersion L w, Hash = hash, Prev = PrevBlock L w, Merkle = MerkleRoot L w\<rparr>"

sublocale wire_codec \<subseteq> btc: header_codec "Deserialize_btc L" 80
  "\<lambda>b. wire_header L (BlockHash L (wdec b)) (wdec b)"
proof unfold_locales
  fix b :: bytes
  show "\<exists>m r. Deserialize_btc L b = (Inl (Err m), r)" if "length b < 80"
    using wire_short [OF that] by (auto simp: Deserialize_btc_def)
qed (simp_all add: Deserialize_btc_def wire_header_def wire_full)

sublocale wire_codec \<subseteq> dash: header_codec "Deserialize_dash L" 80
  "\<lambda>b. wire_header L (x11Hash L b) (wdec b)"
  by unfold_locales
    (auto simp: Deserialize_dash_def ReadFull_def DASH_HEADER_SIZE_def wire_header_def wire_full)

sublocale wire_codec \<subseteq> firo: header_codec "Deserialize_firo L" 120
  "\<lambda>b. wire_header L (DoubleHashH L b) (wdec (take 80 b))"
  by unfold_locales
    (auto simp: Deserialize_firo_def ReadFull_def FIRO_FIROPOW_HEADER_SIZE_def FIRO_HEADER_SIZE_def
      FIRO_FIROPOW_EXTRA_def wire_header_def wire_full)

sublocale wire_codec \<subseteq> firo_regtest: header_codec "Deserialize_firo_regtest L" 80
  "\<lambda>b. wire_header L (BlockHash L (wdec b)) (wdec b)"
proof unfold_locales
  fix b :: bytes
  show "\<exists>m r. Deserialize_firo_regtest L b = (Inl (Err m), r)" if "length b < 80"
    using wire_short [OF that] by (auto simp: Deserialize_firo_regtest_def)
qed (simp_all add: Deserialize_firo_regtest_def wire_header_def wire_full)

text \<open>The layout of a wire header, as a concrete instance of the libraries: fields by position,
  the hash functions left as arguments.\<close>

definition wire_libs :: "(bytes \<Rightarrow> WireHash) \<Rightarrow> (bytes \<Rightarrow> WireHash) \<Rightarrow> bytes chain_libs" where
  "wire_libs sha x11 =
     \<lparr>wireDeserialize = (\<lambda>b. if length b < 80 then (Inl (Err ''EOF''), []) else (Inr (take 80 b), drop 80 b)),
      BlockHash = sha,
      wVersion = (\<lambda>w. let v = uint (w ! 0) + 256 * uint (w ! 1) + 65536 * uint (w ! 2) + 16777216 * uint (w ! 3)
                       in if v < 2 ^ 31 then v else v - 2 ^ 32),
      PrevBlock = (\<lambda>w. take 32 (drop 4 w)),
      MerkleRoot = (\<lambda>w. take 32 (drop 36 w)),
      DoubleHashH = sha,
      x11Hash = x11\<rparr>"

interpretation wire: wire_codec "wire_libs sha x11" "\<lambda>b. b" for sha x11
  by unfold_locales (simp_all add: wire_libs_def)

context wire_codec
begin

lemma btc_codec:
  "header_codec (Deserialize_btc L) 80 (\<lambda>b. wire_header L (BlockHash L (wdec b)) (wdec b))"
  by (rule btc.header_codec_axioms)

lemma dash_codec:
  "header_codec (Deserialize_dash L) 80 (\<lambda>b. wire_header L (x11Hash L b) (wdec b))"
  by (rule dash.header_codec_axioms)

lemma firo_codec:
  "header_codec (Deserialize_firo L) 120 (\<lambda>b. wire_header L (DoubleHashH L b) (wdec (take 80 b)))"
  by (rule firo.header_codec_axioms)

lemma firo_regtest_codec:
  "header_codec (Deserialize_firo_regtest L) 80
     (\<lambda>b. wire_header L (BlockHash L (wdec b)) (wdec b))"
  by (rule firo_regtest.header_codec_axioms)

end

lemmas coin_codecs =
  wire_codec.btc_codec wire_codec.dash_codec wire_codec.firo_codec wire_codec.firo_regtest_codec

lemmas coin_interfaces =
  NewElectrumXInterface_btc_def NewElectrumXInterface_dash_def NewElectrumXInterface_firo_def

text \<open>For every coin and every network type the configuration that \<open>NewElectrumXInterface\<close> fills
  in is consistent: its deserializer reads headers of exactly the configured \<open>BlockHeaderSize\<close>,
  that size is positive (so \<open>bytesToNumHdrs\<close> cannot panic), and the start point is not negative.
  An unknown network type is refused by all three.\<close>

theorem NewElectrumXInterface_consistent:
  assumes "wire_codec L wdec"
    and "new \<in> {NewElectrumXInterface_btc L, NewElectrumXInterface_dash L, NewElectrumXInterface_firo L}"
  shows "(NetType config \<in> {Regtest, Testnet, Mainnet} \<longrightarrow>
      (\<exists>config' dec. new config = (config', Inr ()) \<and>
         header_codec (HeaderDeserializer config') (nat (BlockHeaderSize config')) dec \<and>
         0 < BlockHeaderSize config' \<and> 0 \<le> StartPoint config' \<and> length (Genesis config') = 64)) \<and>
    (NetType config \<notin> {Regtest, Testnet, Mainnet} \<longrightarrow> (\<exists>config'. new config = (config', Inl (Err ''config error''))))"
proof -
  note codecs = coin_codecs [OF assms(1)]
  have "\<exists>config' dec. new config = (config', Inr ()) \<and>
      header_codec (HeaderDeserializer config') (nat (BlockHeaderSize config')) dec \<and>
      0 < BlockHeaderSize config' \<and> 0 \<le> StartPoint config' \<and> length (Genesis config') = 64"
    if "NetType config \<in> {Regtest, Testnet, Mainnet}"
    using assms(2) that codecs
    by (auto simp: coin_interfaces DASH_HEADER_SIZE_def Let_def; blast)
  moreover have "\<exists>config'. new config = (config', Inl (Err ''config error''))"
    if "NetType config \<notin> {Regtest, Testnet, Mainnet}"
    using assms(2) that by (auto simp: coin_interfaces Let_def)
  ultimately show ?thesis by blast
qed

theorem NewElectrumXInterface_consistent_witness:
  "\<exists>config' dec. NewElectrumXInterface_firo (wire_libs (take 32) (take 32))
       \<lparr>Coin = [], BlockHeaderSize = 0, HeaderDeserializer = (\<lambda>b. (Inl (Err []), b)), StartPoint = 0,
        Genesis = [], MaxOnlinePeers = 0, Flags = 0, NetType = Testnet, ProxyPort = [], MaxOnion = 0,
        DataDir = [], TrustedPeer = None, Testing = True\<rparr> = (config', Inr ()) \<and>
     header_codec (HeaderDeserializer config') (nat (BlockHeaderSize config')) dec"
  using NewElectrumXInterface_consistent [OF wire.wire_codec_axioms [of "take 32" "take 32"],
      of "NewElectrumXInterface_firo (wire_libs (take 32) (take 32))"
        "\<lparr>Coin = [], BlockHeaderSize = 0, HeaderDeserializer = (\<lambda>b. (Inl (Err []), b)), StartPoint = 0,
          Genesis = [], MaxOnlinePeers = 0, Flags = 0, NetType = Testnet, ProxyPort = [], MaxOnion = 0,
          DataDir = [], TrustedPeer = None, Testing = True\<rparr>"]
  by auto

end
