(* ===== verification/Headers.thy ===== *)
theory Headers
  imports Chain_Config Strconv
begin

text \<open>
  The header store of \<open>electrumx/headers.go\<close>: the record \<open>headers\<close>, the operations on the
  \<open>blockchain_headers\<close> file and those on the maps, each with its errors and panics.  The file
  is its contents (\<open>None\<close>: no such file); an \<open>io_env\<close> says which system calls fail.
  \<open>chain_inv\<close> is the invariant the client depends on: file and map hold the same headers, from
  the start point to the tip, nothing else is in the map, and each header names its
  predecessor's hash.
\<close>

section \<open>State\<close>

record headers =
  headerSize :: int
  hdrFile :: "bytes option"
  startPoint :: int
  headerDeserialzer :: HeaderDeserializer
  hdrs :: "int \<rightharpoonup> BlockHeader"
  blkHdrs :: "WireHash \<rightharpoonup> int"
  tip :: int
  synced :: bool
  recovery :: bool
  recoveryTip :: int

definition newHeaders :: "ElectrumXConfig \<Rightarrow> bytes option \<Rightarrow> headers" where
  "newHeaders cfg file =
     \<lparr>headerSize = BlockHeaderSize cfg, hdrFile = file, startPoint = StartPoint cfg,
      headerDeserialzer = HeaderDeserializer cfg, hdrs = Map.empty, blkHdrs = Map.empty,
      tip = 0, synced = False, recovery = False, recoveryTip = 0\<rparr>"

definition getTip :: "headers \<Rightarrow> int" where
  "getTip h = tip h"

definition setTip :: "int \<Rightarrow> headers \<Rightarrow> headers" where
  "setTip n h = h\<lparr>tip := n\<rparr>"

definition incTip :: "int \<Rightarrow> headers \<Rightarrow> headers" where
  "incTip delta h = h\<lparr>tip := tip h + delta\<rparr>"

definition decTip :: "int \<Rightarrow> headers \<Rightarrow> headers" where
  "decTip delta h = h\<lparr>tip := tip h - delta\<rparr>"

section \<open>Headers file\<close>

text \<open>The system calls; \<open>OpStatAgain\<close> is the second \<open>stat\<close> of a function.\<close>

datatype fileop = OpOpen | OpStat | OpStatAgain | OpRead | OpWrite | OpTruncate

type_synonym io_env = "fileop \<Rightarrow> string option"

definition io_ok :: io_env where
  "io_ok = (\<lambda>_. None)"

definition bytesToNumHdrs :: "headers \<Rightarrow> int \<Rightarrow> int result" where
  "bytesToNumHdrs h numBytes =
     (if numBytes = 0 then Inr 0
      else if headerSize h \<le> 0 then Inl (Panic ''block header size is zero'')
      else if numBytes mod headerSize h \<noteq> 0
        then Inl (Err ''invalid bytes length - not a multiple of header size'')
      else Inr (numBytes div headerSize h))"

definition statFileSize :: "io_env \<Rightarrow> fileop \<Rightarrow> headers \<Rightarrow> int result" where
  "statFileSize io st h =
     (case io st of Some e \<Rightarrow> Inl (Err e)
      | None \<Rightarrow> (case hdrFile h of None \<Rightarrow> Inl (Err ''no such file or directory'')
                | Some f \<Rightarrow> Inr (int (length f))))"

text \<open>\<open>os.OpenFile\<close> with \<open>O_CREATE\<close>: a missing file is created empty.\<close>

definition openFile :: "io_env \<Rightarrow> headers \<Rightarrow> headers \<times> bytes result" where
  "openFile io h =
     (case io OpOpen of Some e \<Rightarrow> (h, Inl (Err e))
      | None \<Rightarrow> (case hdrFile h of None \<Rightarrow> (h\<lparr>hdrFile := Some []\<rparr>, Inr [])
                | Some f \<Rightarrow> (h, Inr f)))"

definition appendHeadersFile :: "io_env \<Rightarrow> bytes \<Rightarrow> headers \<Rightarrow> headers \<times> int result" where
  "appendHeadersFile io rawHdrs h =
     (case bytesToNumHdrs h (int (length rawHdrs)) of Inl e \<Rightarrow> (h, Inl e)
      | Inr numHdrs \<Rightarrow>
          thenS (openFile io h) (\<lambda>h f.
            case io OpWrite of Some e \<Rightarrow> (h, Inl (Err e))
            | None \<Rightarrow> (h\<lparr>hdrFile := Some (f @ rawHdrs)\<rparr>, Inr numHdrs)))"

text \<open>\<open>os.Truncate\<close> cuts the file, or extends it with zero bytes.\<close>

definition truncate_to :: "nat \<Rightarrow> bytes \<Rightarrow> bytes" where
  "truncate_to n f = take n f @ replicate (n - length f) 0"

definition truncateHeadersFile :: "io_env \<Rightarrow> int \<Rightarrow> headers \<Rightarrow> headers \<times> int result" where
  "truncateHeadersFile io numHeaders h =
     (if \<not> synced h then (h, Inl (Err ''still syncing''))
      else if numHeaders \<le> 0 then (h, Inl (Err ''numHeaders <= 0''))
      else case statFileSize io OpStat h of Inl e \<Rightarrow> (h, Inl e)
      | Inr fsz \<Rightarrow>
          (if headerSize h = 0 then (h, Inl (Panic ''integer divide by zero''))
           else if fsz mod headerSize h \<noteq> 0
             then (h, Inl (Err ''headers file corrupt - size not a multiple of h.headerSize''))
           else
             let newByteLen = (if fsz - numHeaders * headerSize h < 0 then 0
                               else fsz - numHeaders * headerSize h) in
             case io OpTruncate of Some e \<Rightarrow> (h, Inl (Err e))
             | None \<Rightarrow>
                 (let h' = h\<lparr>hdrFile := map_option (truncate_to (nat newByteLen)) (hdrFile h)\<rparr> in
                  case statFileSize io OpStatAgain h' of Inl e \<Rightarrow> (h', Inl e)
                  | Inr newSize \<Rightarrow>
                      (case bytesToNumHdrs h' newSize of
                         Inr n \<Rightarrow> (h', Inr n)
                       | Inl (Err _) \<Rightarrow> (h', Inr 0)
                       | Inl (Panic m) \<Rightarrow> (h', Inl (Panic m))))))"

definition readAllBytesFromFile :: "io_env \<Rightarrow> headers \<Rightarrow> headers \<times> bytes result" where
  "readAllBytesFromFile io h =
     thenS (openFile io h) (\<lambda>h f.
       case statFileSize io OpStat h of Inl e \<Rightarrow> (h, Inl e)
       | Inr fsize \<Rightarrow> (case io OpRead of Some e \<Rightarrow> (h, Inl (Err e)) | None \<Rightarrow> (h, Inr f)))"

section \<open>Maps\<close>

text \<open>The loop of \<open>store\<close>: \<open>n\<close> more headers are read from the reader and stored from height \<open>at\<close>
  on.\<close>

fun store_loop :: "nat \<Rightarrow> int \<Rightarrow> bytes \<Rightarrow> headers \<Rightarrow> headers \<times> unit result" where
  "store_loop 0 at rdr h = (h, Inr ())"
| "store_loop (Suc n) at rdr h =
     (case headerDeserialzer h rdr of
        (Inl e, rdr') \<Rightarrow> (h, Inl e)
      | (Inr blkHdr, rdr') \<Rightarrow>
          store_loop n (at + 1) rdr'
            (h\<lparr>hdrs := (hdrs h)(at \<mapsto> blkHdr), blkHdrs := (blkHdrs h)(Hash blkHdr \<mapsto> at)\<rparr>))"

definition store :: "bytes \<Rightarrow> int \<Rightarrow> headers \<Rightarrow> headers \<times> unit result" where
  "store b startHeight h =
     (case bytesToNumHdrs h (int (length b)) of Inl e \<Rightarrow> (h, Inl e)
      | Inr numHdrs \<Rightarrow> store_loop (nat numHdrs) startHeight b h)"

definition removeOneHdrFromTip :: "headers \<Rightarrow> headers" where
  "removeOneHdrFromTip h = decTip 1 (h\<lparr>hdrs := (hdrs h)(getTip h := None)\<rparr>)"

definition getClientTip :: "headers \<Rightarrow> int" where
  "getClientTip h = (if recovery h then recoveryTip h else getTip h)"

definition getClientSynced :: "headers \<Rightarrow> bool" where
  "getClientSynced h = synced h"

text \<open>A missing header is a nil pointer, and reading a field of it panics.\<close>

definition nil_deref :: "'a result" where
  "nil_deref = Inl (Panic ''nil pointer dereference'')"

definition getTipHash :: "headers \<Rightarrow> WireHash result" where
  "getTipHash h = (case hdrs h (getTip h) of None \<Rightarrow> nil_deref | Some hdr \<Rightarrow> Inr (Hash hdr))"

definition checkCanConnect :: "BlockHeader \<Rightarrow> headers \<Rightarrow> bool result" where
  "checkCanConnect incomingHdr h =
     (case getTipHash h of Inl e \<Rightarrow> Inl e | Inr ourTipHash \<Rightarrow> Inr (ourTipHash = Prev incomingHdr))"

definition storeOneHdr :: "BlockHeader \<Rightarrow> headers \<Rightarrow> headers" where
  "storeOneHdr blkHdr h =
     (let at = getTip h + 1 in
      incTip 1 (h\<lparr>hdrs := (hdrs h)(at \<mapsto> blkHdr), blkHdrs := (blkHdrs h)(Hash blkHdr \<mapsto> at)\<rparr>))"

text \<open>The loop of \<open>verifyFromTip\<close>: \<open>n\<close> more heights to check, downwards from \<open>height\<close>.\<close>

fun verify_loop :: "nat \<Rightarrow> int \<Rightarrow> headers \<Rightarrow> unit result" where
  "verify_loop 0 height h = Inr ()"
| "verify_loop (Suc n) height h =
     (case hdrs h (height - 1) of None \<Rightarrow> nil_deref
      | Some prevHdr \<Rightarrow>
          (case hdrs h height of None \<Rightarrow> nil_deref
           | Some thisHdr \<Rightarrow>
               (if Hash prevHdr \<noteq> Prev thisHdr
                then Inl (Err (''verify failed: height '' @ Itoa height))
                else verify_loop n (height - 1) h)))"

definition verifyFromTip :: "int \<Rightarrow> bool \<Rightarrow> headers \<Rightarrow> unit result" where
  "verifyFromTip depth all h =
     (let downTo = (if getTip h - depth < 0 \<or> all then startPoint h else getTip h - depth) in
      verify_loop (nat (getTip h - downTo)) (getTip h) h)"

definition verifyAll :: "headers \<Rightarrow> unit result" where
  "verifyAll h = verifyFromTip 0 True h"

section \<open>Client api\<close>

definition toClientHeader :: "BlockHeader \<Rightarrow> ClientBlockHeader" where
  "toClientHeader blkHdr =
     \<lparr>cHash = StringRev (Hash blkHdr), cPrev = StringRev (Prev blkHdr),
      cMerkle = StringRev (Merkle blkHdr)\<rparr>"

definition getBlockHeader :: "int \<Rightarrow> headers \<Rightarrow> ClientBlockHeader result" where
  "getBlockHeader height h =
     (case hdrs h height of
        None \<Rightarrow> Inl (Err (''no block header stored for height '' @ Itoa height))
      | Some blkHdr \<Rightarrow> Inr (toClientHeader blkHdr))"

fun collect_headers :: "nat \<Rightarrow> int \<Rightarrow> headers \<Rightarrow> ClientBlockHeader list result" where
  "collect_headers 0 i h = Inr []"
| "collect_headers (Suc n) i h =
     (case hdrs h i of None \<Rightarrow> nil_deref
      | Some blkHdr \<Rightarrow>
          (case collect_headers n (i + 1) h of Inl e \<Rightarrow> Inl e
           | Inr rest \<Rightarrow> Inr (toClientHeader blkHdr # rest)))"

definition getBlockHeaders :: "int \<Rightarrow> int \<Rightarrow> headers \<Rightarrow> ClientBlockHeader list result" where
  "getBlockHeaders startHeight count h =
     (if startPoint h > startHeight
        then Inl (Err ''requested start height < start of stored block headers'')
      else if startHeight > getTip h then Inl (Err ''requested start height > local tip'')
      else
        let blkEndRange = wrap64 (startHeight + count) in
        if blkEndRange > getTip h then Inl (Err ''requested range is past the local tip'')
        else collect_headers (nat (blkEndRange - startHeight)) startHeight h)"

text \<open>\<open>dbgDumpTipHashes\<close> only prints, but it reads the top \<open>depth\<close> headers and panics on a nil one.\<close>

fun dbgDumpTipHashes :: "nat \<Rightarrow> int \<Rightarrow> headers \<Rightarrow> unit result" where
  "dbgDumpTipHashes 0 i h = Inr ()"
| "dbgDumpTipHashes (Suc n) i h =
     (case hdrs h i of None \<Rightarrow> nil_deref | Some hdr \<Rightarrow> dbgDumpTipHashes n (i - 1) h)"

text \<open>\<open>dumpAt\<close> prints one header and \<open>dumpAll\<close> those below the tip; a missing one is a nil
  dereference.\<close>

definition dumpAt :: "int \<Rightarrow> headers \<Rightarrow> unit result" where
  "dumpAt height h = (case hdrs h height of None \<Rightarrow> nil_deref | Some hdr \<Rightarrow> Inr ())"

fun dump_loop :: "nat \<Rightarrow> int \<Rightarrow> headers \<Rightarrow> unit result" where
  "dump_loop 0 k h = Inr ()"
| "dump_loop (Suc n) k h = thenR (dumpAt k h) (\<lambda>_. dump_loop n (k + 1) h)"

definition dumpAll :: "headers \<Rightarrow> unit result" where
  "dumpAll h = dump_loop (nat (getTip h - startPoint h)) (startPoint h) h"

definition ClearMaps :: "headers \<Rightarrow> headers" where
  "ClearMaps h = h\<lparr>hdrs := Map.empty, blkHdrs := Map.empty\<rparr>"

end
