(* ===== verification/Header_Chain.thy ===== *)
theory Header_Chain
  imports Headers
begin

text \<open>
  The invariant of the header store and what each operation of \<open>headers.go\<close> does to it.
  \<open>store_inv\<close> says that the file and the map hold the same headers: one per height from the
  start point to the tip, and nothing else.  \<open>links_ok\<close> says that each header names the hash of
  the one below.  \<open>chain_inv\<close> is both, with at least one header, and the client's view in
  \<open>recoveryTip\<close> not below the tip.
\<close>

section \<open>Invariant\<close>

definition map_of_file :: "nat \<Rightarrow> (bytes \<Rightarrow> BlockHeader) \<Rightarrow> int \<Rightarrow> int \<Rightarrow> bytes \<Rightarrow> int \<rightharpoonup> BlockHeader" where
  "map_of_file n dec start last_h file =
     (\<lambda>k. if start \<le> k \<and> k \<le> last_h then Some (dec (chunk n (nat (k - start)) file)) else None)"

definition store_inv :: "nat \<Rightarrow> (bytes \<Rightarrow> BlockHeader) \<Rightarrow> headers \<Rightarrow> bool" where
  "store_inv n dec h \<longleftrightarrow>
     header_codec (headerDeserialzer h) n dec \<and> headerSize h = int n \<and> startPoint h - 1 \<le> tip h \<and>
     (\<exists>file. hdrFile h = Some file \<and> length file = nat (tip h - startPoint h + 1) * n \<and>
             hdrs h = map_of_file n dec (startPoint h) (tip h) file)"

definition links_ok :: "headers \<Rightarrow> bool" where
  "links_ok h \<longleftrightarrow>
     (\<forall>k. startPoint h < k \<and> k \<le> tip h \<longrightarrow>
        (\<exists>a b. hdrs h (k - 1) = Some a \<and> hdrs h k = Some b \<and> Hash a = Prev b))"

definition chain_inv :: "nat \<Rightarrow> (bytes \<Rightarrow> BlockHeader) \<Rightarrow> headers \<Rightarrow> bool" where
  "chain_inv n dec h \<longleftrightarrow> store_inv n dec h \<and> links_ok h \<and> startPoint h \<le> tip h"

lemma store_inv_dom:
  "store_inv n dec h \<Longrightarrow> hdrs h k \<noteq> None \<longleftrightarrow> startPoint h \<le> k \<and> k \<le> tip h"
  by (auto simp: store_inv_def map_of_file_def split: if_splits)

lemma store_inv_Some:
  "store_inv n dec h \<Longrightarrow> startPoint h \<le> k \<Longrightarrow> k \<le> tip h \<Longrightarrow> \<exists>hdr. hdrs h k = Some hdr"
  using store_inv_dom by blast

lemma store_inv_None:
  "store_inv n dec h \<Longrightarrow> k < startPoint h \<or> tip h < k \<Longrightarrow> hdrs h k = None"
  using store_inv_dom [of n dec h k] by auto

lemma chain_invD:
  assumes "chain_inv n dec h"
  shows "store_inv n dec h" "links_ok h" "startPoint h \<le> tip h" "header_codec (headerDeserialzer h) n dec"
    "headerSize h = int n" "0 < n"
  using assms header_codec.hsize_pos by (auto simp: chain_inv_def store_inv_def)

text \<open>Operations that leave the fields of the chain alone keep the invariant.\<close>

lemma store_inv_cong:
  "headerDeserialzer h' = headerDeserialzer h \<Longrightarrow> headerSize h' = headerSize h \<Longrightarrow>
   startPoint h' = startPoint h \<Longrightarrow> tip h' = tip h \<Longrightarrow> hdrFile h' = hdrFile h \<Longrightarrow>
   hdrs h' = hdrs h \<Longrightarrow> store_inv n dec h' = store_inv n dec h"
  by (simp add: store_inv_def)

lemma chain_inv_flags [simp]:
  "chain_inv n dec (h\<lparr>recovery := r\<rparr>) = chain_inv n dec h"
  "chain_inv n dec (h\<lparr>recoveryTip := t\<rparr>) = chain_inv n dec h"
  "chain_inv n dec (h\<lparr>synced := s\<rparr>) = chain_inv n dec h"
  by (simp_all add: chain_inv_def store_inv_def links_ok_def)

section \<open>Reading a file of headers\<close>

context header_codec
begin

lemma store_loop_file:
  "headerDeserialzer h = des \<Longrightarrow> length b = m * hsize \<Longrightarrow>
   \<exists>bm. store_loop m at b h =
     (h\<lparr>hdrs := hdrs h ++ map_of_file hsize dec at (at + int m - 1) b, blkHdrs := bm\<rparr>, Inr ())"
proof (induction m arbitrary: at b h)
  case 0
  have "hdrs h ++ map_of_file hsize dec at (at - 1) b = hdrs h"
    by (rule ext) (auto simp: map_of_file_def map_add_def)
  then have "store_loop 0 at b h =
      (h\<lparr>hdrs := hdrs h ++ map_of_file hsize dec at (at + int 0 - 1) b, blkHdrs := blkHdrs h\<rparr>, Inr ())"
    by simp
  then show ?case by blast
next
  case (Suc m)
  let ?hdr = "dec (take hsize b)"
  let ?h1 = "h\<lparr>hdrs := (hdrs h)(at \<mapsto> ?hdr), blkHdrs := (blkHdrs h)(Hash ?hdr \<mapsto> at)\<rparr>"
  have step: "store_loop (Suc m) at b h = store_loop m (at + 1) (drop hsize b) ?h1"
    using Suc.prems by (simp add: des_full)
  have "headerDeserialzer ?h1 = des" "length (drop hsize b) = m * hsize"
    using Suc.prems by simp_all
  from Suc.IH [OF this] obtain bm where bm: "store_loop m (at + 1) (drop hsize b) ?h1 =
      (?h1\<lparr>hdrs := hdrs ?h1 ++ map_of_file hsize dec (at + 1) (at + 1 + int m - 1) (drop hsize b),
           blkHdrs := bm\<rparr>, Inr ())"
    by blast
  have pos: "nat (k - at) = Suc (nat (k - (at + 1)))" if "at < k" for k
    using that by simp
  have "hdrs ?h1 ++ map_of_file hsize dec (at + 1) (at + 1 + int m - 1) (drop hsize b) =
      hdrs h ++ map_of_file hsize dec at (at + int (Suc m) - 1) b"
    by (rule ext) (auto simp: map_add_def map_of_file_def chunk_0 pos chunk_Suc split: option.split)
  then show ?case
    unfolding step bm by (intro exI [of _ bm]) simp
qed

end

lemma bytesToNumHdrs_file:
  "headerSize h = int n \<Longrightarrow> 0 < n \<Longrightarrow> len = int (m * n) \<Longrightarrow> bytesToNumHdrs h len = Inr (int m)"
  by (simp add: bytesToNumHdrs_def)

lemma bytesToNumHdrs_Inr:
  assumes "bytesToNumHdrs h (int len) = Inr m" "headerSize h = int n"
  shows "int len = m * int n \<and> 0 \<le> m"
  using assms by (auto simp: bytesToNumHdrs_def split: if_splits) (simp add: pos_imp_zdiv_nonneg_iff)

lemma store_file:
  assumes codec: "header_codec (headerDeserialzer h) n dec" and sz: "headerSize h = int n"
    and len: "length b = m * n"
  shows "\<exists>bm. store b at h =
    (h\<lparr>hdrs := hdrs h ++ map_of_file n dec at (at + int m - 1) b, blkHdrs := bm\<rparr>, Inr ())"
proof -
  have "0 < n" using codec by (rule header_codec.hsize_pos)
  then have "bytesToNumHdrs h (int (length b)) = Inr (int m)"
    using sz len by (simp add: bytesToNumHdrs_file)
  then have "store b at h = store_loop m at b h"
    by (simp add: store_def)
  then show ?thesis
    using header_codec.store_loop_file [OF codec refl len] by simp
qed

section \<open>Verification\<close>

lemma verify_loop_links:
  "verify_loop m height h = Inr () \<longleftrightarrow>
     (\<forall>k. height - int m < k \<and> k \<le> height \<longrightarrow>
        (\<exists>a b. hdrs h (k - 1) = Some a \<and> hdrs h k = Some b \<and> Hash a = Prev b))"
proof (induction m arbitrary: height)
  case 0
  then show ?case by auto
next
  case (Suc m)
  have split: "height - int (Suc m) < k \<and> k \<le> height \<longleftrightarrow>
      k = height \<or> (height - 1 - int m < k \<and> k \<le> height - 1)" for k
    by auto
  have "verify_loop (Suc m) height h = Inr () \<longleftrightarrow>
      (\<exists>a b. hdrs h (height - 1) = Some a \<and> hdrs h height = Some b \<and> Hash a = Prev b) \<and>
      verify_loop m (height - 1) h = Inr ()"
    by (auto simp: nil_deref_def split: option.split)
  then show ?case
    unfolding split Suc.IH [of "height - 1"] by blast
qed

lemma verify_loop_no_panic:
  assumes "\<And>k. height - int m \<le> k \<Longrightarrow> k \<le> height \<Longrightarrow> hdrs h k \<noteq> None"
  shows "\<not> is_panic (verify_loop m height h)"
  using assms
proof (induction m arbitrary: height)
  case 0
  then show ?case by simp
next
  case (Suc m)
  have "hdrs h height \<noteq> None" "hdrs h (height - 1) \<noteq> None"
    by (intro Suc.prems; simp)+
  moreover have "\<not> is_panic (verify_loop m (height - 1) h)"
    by (intro Suc.IH Suc.prems) auto
  ultimately show ?case by (auto split: if_splits)
qed

lemma verifyAll_links:
  "startPoint h - 1 \<le> tip h \<Longrightarrow> verifyAll h = Inr () \<longleftrightarrow> links_ok h"
  by (auto simp: verifyAll_def verifyFromTip_def getTip_def verify_loop_links links_ok_def)

section \<open>Appending and rewinding\<close>

lemma links_okD:
  "links_ok h \<Longrightarrow> startPoint h < k \<Longrightarrow> k \<le> tip h \<Longrightarrow>
     \<exists>a b. hdrs h (k - 1) = Some a \<and> hdrs h k = Some b \<and> Hash a = Prev b"
  by (auto simp: links_ok_def)

lemma appendHeadersFile_ok:
  assumes "headerSize h = int n" "0 < n" "length raw = m * n" "hdrFile h = Some file"
    "io OpOpen = None" "io OpWrite = None"
  shows "appendHeadersFile io raw h = (h\<lparr>hdrFile := Some (file @ raw)\<rparr>, Inr (int m))"
  using assms by (simp add: appendHeadersFile_def bytesToNumHdrs_file openFile_def)

lemma appendHeadersFile_fail:
  assumes "hdrFile h = Some file" "appendHeadersFile io raw h = (h', Inl e)"
  shows "h' = h"
  using assms by (auto simp: appendHeadersFile_def openFile_def split: sum.splits option.splits)

lemma appendHeadersFile_Inr:
  assumes "hdrFile h = Some file" "appendHeadersFile io raw h = (h', Inr m)"
  shows "h' = h\<lparr>hdrFile := Some (file @ raw)\<rparr>"
  using assms by (auto simp: appendHeadersFile_def openFile_def split: sum.splits option.splits)

text \<open>Appending one header to the file and storing it above the tip.\<close>

lemma store_inv_connect:
  assumes inv: "store_inv n dec h" and hfile: "hdrFile h = Some file" and len: "length raw = n"
  shows "store_inv n dec (storeOneHdr (dec raw) (h\<lparr>hdrFile := Some (file @ raw)\<rparr>))"
proof -
  define m where "m = nat (tip h - startPoint h + 1)"
  have le: "startPoint h - 1 \<le> tip h" and flen: "length file = m * n"
    and map: "hdrs h = map_of_file n dec (startPoint h) (tip h) file"
    using inv hfile by (auto simp: store_inv_def m_def)
  have "nat (tip h + 1 - startPoint h + 1) = Suc m"
    using le by (simp add: m_def)
  then have newlen: "length (file @ raw) = nat (tip h + 1 - startPoint h + 1) * n"
    by (simp add: flen len)
  have top: "nat (tip h + 1 - startPoint h) = m" by (simp add: m_def algebra_simps)
  have "(map_of_file n dec (startPoint h) (tip h) file)(tip h + 1 \<mapsto> dec raw) =
      map_of_file n dec (startPoint h) (tip h + 1) (file @ raw)"
  proof (rule ext)
    fix k
    consider "k = tip h + 1" | "startPoint h \<le> k" "k \<le> tip h" | "k < startPoint h \<or> tip h + 1 < k"
      by linarith
    then show "((map_of_file n dec (startPoint h) (tip h) file)(tip h + 1 \<mapsto> dec raw)) k =
        map_of_file n dec (startPoint h) (tip h + 1) (file @ raw) k"
    proof cases
      case 1
      then show ?thesis using le by (simp add: map_of_file_def top chunk_append_new [OF flen len])
    next
      case 2
      then have "nat (k - startPoint h) < m" by (simp add: m_def)
      then show ?thesis using 2 by (simp add: map_of_file_def chunk_append_old [OF flen])
    next
      case 3
      then show ?thesis using le by (auto simp: map_of_file_def)
    qed
  qed
  then show ?thesis
    using inv le newlen
    by (simp add: store_inv_def storeOneHdr_def incTip_def getTip_def map Let_def)
qed

lemma chain_inv_connect:
  assumes inv: "chain_inv n dec h" and hfile: "hdrFile h = Some file" and len: "length raw = n"
    and conn: "checkCanConnect (dec raw) h = Inr True"
  shows "chain_inv n dec (storeOneHdr (dec raw) (h\<lparr>hdrFile := Some (file @ raw)\<rparr>))"
    (is "chain_inv n dec ?h'")
proof -
  note D = chain_invD [OF inv]
  from conn obtain a where a: "hdrs h (tip h) = Some a" "Hash a = Prev (dec raw)"
    by (auto simp: checkCanConnect_def getTipHash_def getTip_def nil_deref_def split: sum.splits option.splits)
  have sel: "startPoint ?h' = startPoint h" "tip ?h' = tip h + 1"
    "hdrs ?h' = (hdrs h)(tip h + 1 \<mapsto> dec raw)"
    by (simp_all add: storeOneHdr_def incTip_def getTip_def Let_def)
  have "\<exists>a b. hdrs ?h' (k - 1) = Some a \<and> hdrs ?h' k = Some b \<and> Hash a = Prev b"
    if "startPoint h < k" "k \<le> tip h + 1" for k
  proof (cases "k = tip h + 1")
    case True
    then show ?thesis using a by (simp add: sel)
  next
    case False
    then show ?thesis using links_okD [OF D(2), of k] that by (auto simp: sel)
  qed
  then have "links_ok ?h'" by (auto simp: links_ok_def sel)
  then show ?thesis
    using store_inv_connect [OF D(1) hfile len] D(3) by (simp add: chain_inv_def sel)
qed

text \<open>Rewinding: the file cut by \<open>m\<close> headers and \<open>m\<close> headers removed from the map.\<close>

lemma removeOneHdrFromTip_sel:
  "startPoint (removeOneHdrFromTip h) = startPoint h"
  "headerDeserialzer (removeOneHdrFromTip h) = headerDeserialzer h"
  "headerSize (removeOneHdrFromTip h) = headerSize h"
  "hdrFile (removeOneHdrFromTip h) = hdrFile h"
  "synced (removeOneHdrFromTip h) = synced h"
  "tip (removeOneHdrFromTip h) = tip h - 1"
  "hdrs (removeOneHdrFromTip h) = (hdrs h)(tip h := None)"
  by (simp_all add: removeOneHdrFromTip_def decTip_def getTip_def)

lemma removeN_sel:
  "startPoint ((removeOneHdrFromTip ^^ m) h) = startPoint h"
  "headerDeserialzer ((removeOneHdrFromTip ^^ m) h) = headerDeserialzer h"
  "headerSize ((removeOneHdrFromTip ^^ m) h) = headerSize h"
  "hdrFile ((removeOneHdrFromTip ^^ m) h) = hdrFile h"
  "synced ((removeOneHdrFromTip ^^ m) h) = synced h"
  "tip ((removeOneHdrFromTip ^^ m) h) = tip h - int m"
  by (induction m) (simp_all add: removeOneHdrFromTip_sel)

lemma removeN_hdrs:
  "hdrs ((removeOneHdrFromTip ^^ m) h) =
     (\<lambda>k. if tip h - int m < k \<and> k \<le> tip h then None else hdrs h k)"
proof (induction m)
  case 0
  then show ?case by (auto simp: fun_eq_iff)
next
  case (Suc m)
  then show ?case by (auto simp: removeOneHdrFromTip_sel removeN_sel fun_eq_iff)
qed

lemma truncateHeadersFile_ok:
  assumes "headerSize h = int n" "0 < n" "hdrFile h = Some file" "length file = l * n"
    "synced h" "io OpStat = None" "io OpTruncate = None" "io OpStatAgain = None" "0 < m" "m \<le> l"
  shows "truncateHeadersFile io (int m) h =
    (h\<lparr>hdrFile := Some (take ((l - m) * n) file)\<rparr>, Inr (int (l - m)))"
proof -
  let ?h' = "h\<lparr>hdrFile := Some (take ((l - m) * n) file)\<rparr>"
  have sub: "int (length file) - int m * headerSize h = int ((l - m) * n)"
    using assms(1,4,10) by (simp add: of_nat_diff left_diff_distrib)
  have le: "(l - m) * n \<le> length file" using assms(4) by simp
  have stat: "statFileSize io OpStat h = Inr (int (length file))"
    "statFileSize io OpStatAgain ?h' = Inr (int ((l - m) * n))"
    using assms le by (simp_all add: statFileSize_def min_def)
  have num: "bytesToNumHdrs ?h' (int ((l - m) * n)) = Inr (int (l - m))"
    by (rule bytesToNumHdrs_file [OF _ assms(2) refl]) (simp add: assms(1))
  have cut: "truncate_to (nat (int ((l - m) * n))) file = take ((l - m) * n) file"
    using le unfolding truncate_to_def nat_int by simp
  have "int (length file) mod headerSize h = 0" "headerSize h \<noteq> 0" "\<not> int ((l - m) * n) < 0"
    using assms(1,2,4) by (simp_all del: of_nat_mult)
  then show ?thesis
    unfolding truncateHeadersFile_def stat(1) sum.case sub Let_def
    using assms(3,5,7,9) stat(2) num by (simp only: cut if_False not_not option.case option.map sum.case) simp
qed

lemma store_inv_rewind:
  assumes inv: "store_inv n dec h" and hfile: "hdrFile h = Some file"
    and m: "int m \<le> tip h - startPoint h + 1"
  shows "store_inv n dec ((removeOneHdrFromTip ^^ m)
    (h\<lparr>hdrFile := Some (take (nat (tip h - startPoint h + 1 - int m) * n) file)\<rparr>))"
    (is "store_inv n dec ((_ ^^ m) (h\<lparr>hdrFile := Some ?f\<rparr>))")
proof -
  let ?l = "nat (tip h - startPoint h + 1 - int m)"
  have flen: "length file = nat (tip h - startPoint h + 1) * n"
    and map: "hdrs h = map_of_file n dec (startPoint h) (tip h) file"
    using inv hfile by (auto simp: store_inv_def)
  have "?l * n \<le> length file" unfolding flen by (intro mult_le_mono1) simp
  then have "length ?f = ?l * n" by (simp add: min_def)
  then have newlen: "length ?f = nat (tip h - int m - startPoint h + 1) * n"
    by (simp add: algebra_simps)
  have "(\<lambda>k. if tip h - int m < k \<and> k \<le> tip h then None else hdrs h k) =
      map_of_file n dec (startPoint h) (tip h - int m) ?f"
  proof (rule ext)
    fix k
    have "chunk n (nat (k - startPoint h)) (take (?l * n) file) = chunk n (nat (k - startPoint h)) file"
      if "startPoint h \<le> k" "k \<le> tip h - int m"
      using that by (intro chunk_take) simp
    then show "(if tip h - int m < k \<and> k \<le> tip h then None else hdrs h k) =
        map_of_file n dec (startPoint h) (tip h - int m) ?f k"
      unfolding map by (auto simp: map_of_file_def)
  qed
  then show ?thesis
    using inv m newlen by (simp add: store_inv_def removeN_sel removeN_hdrs cong: if_cong)
qed

lemma chain_inv_rewind:
  assumes inv: "chain_inv n dec h" and hfile: "hdrFile h = Some file"
    and m: "int m \<le> tip h - startPoint h"
  shows "chain_inv n dec ((removeOneHdrFromTip ^^ m)
    (h\<lparr>hdrFile := Some (take (nat (tip h - startPoint h + 1 - int m) * n) file)\<rparr>))"
proof -
  note D = chain_invD [OF inv]
  have "links_ok ((removeOneHdrFromTip ^^ m)
    (h\<lparr>hdrFile := Some (take (nat (tip h - startPoint h + 1 - int m) * n) file)\<rparr>))"
    using D(2) by (auto simp: links_ok_def removeN_sel removeN_hdrs)
  then show ?thesis
    using store_inv_rewind [OF D(1) hfile] m by (simp add: chain_inv_def removeN_sel)
qed

section \<open>A concrete store\<close>

text \<open>For the witnesses: \<open>m\<close> headers of 80 bytes from height 0, the header at height \<open>k\<close> being
  \<open>replicate 80 k\<close>, read by the Bitcoin deserializer with a hash that adds to each byte of the
  previous hash one and the difference of the header's last byte and its fifth.\<close>

definition ex_hash :: "bytes \<Rightarrow> WireHash" where
  "ex_hash w = map (\<lambda>b. b + 1 + (w ! 79 - w ! 4)) (take 32 (drop 4 w))"

abbreviation "ex_libs \<equiv> wire_libs ex_hash ex_hash"

definition ex_dec :: "bytes \<Rightarrow> BlockHeader" where
  "ex_dec b = wire_header ex_libs (BlockHash ex_libs b) b"

definition ex_raw :: "nat \<Rightarrow> bytes" where
  "ex_raw k = replicate 80 (of_nat k)"

fun ex_file :: "nat \<Rightarrow> bytes" where
  "ex_file 0 = []"
| "ex_file (Suc m) = ex_file m @ ex_raw m"

definition ex_cfg :: ElectrumXConfig where
  "ex_cfg = \<lparr>Coin = ''btc'', BlockHeaderSize = 80, HeaderDeserializer = Deserialize_btc ex_libs,
     StartPoint = 0, Genesis = [], MaxOnlinePeers = 0, Flags = 0, NetType = Regtest, ProxyPort = [],
     MaxOnion = 2, DataDir = [], TrustedPeer = None, Testing = True\<rparr>"

definition ex_store :: "nat \<Rightarrow> headers" where
  "ex_store m = (newHeaders ex_cfg (Some (ex_file m)))
     \<lparr>hdrs := map_of_file 80 ex_dec 0 (int m - 1) (ex_file m), tip := int m - 1, synced := True\<rparr>"

lemma ex_codec: "header_codec (Deserialize_btc ex_libs) 80 ex_dec"
  unfolding ex_dec_def by (rule wire.btc_codec)

lemma length_ex_file [simp]: "length (ex_file m) = m * 80"
  by (induction m) (simp_all add: ex_raw_def)

lemma chunk_ex_file: "i < m \<Longrightarrow> chunk 80 i (ex_file m) = ex_raw i"
proof (induction m)
  case 0
  then show ?case by simp
next
  case (Suc m)
  show ?case
  proof (cases "i = m")
    case True
    then show ?thesis by (simp add: chunk_append_new [OF length_ex_file] ex_raw_def)
  next
    case False
    then show ?thesis using Suc by (simp add: chunk_append_old [OF length_ex_file])
  qed
qed

lemma ex_dec_sel:
  "Prev (ex_dec (ex_raw k)) = replicate 32 (of_nat k)"
  "Hash (ex_dec (ex_raw k)) = replicate 32 (of_nat k + 1)"
  by (simp_all add: ex_dec_def ex_raw_def wire_header_def wire_libs_def ex_hash_def)

lemma ex_store_sel [simp]:
  "startPoint (ex_store m) = 0" "tip (ex_store m) = int m - 1"
  "headerDeserialzer (ex_store m) = Deserialize_btc ex_libs" "headerSize (ex_store m) = 80"
  "hdrFile (ex_store m) = Some (ex_file m)" "synced (ex_store m)" "\<not> recovery (ex_store m)"
  "recoveryTip (ex_store m) = 0"
  by (simp_all add: ex_store_def newHeaders_def ex_cfg_def)

lemma ex_store_hdrs:
  "hdrs (ex_store m) k = (if 0 \<le> k \<and> k < int m then Some (ex_dec (ex_raw (nat k))) else None)"
  by (auto simp: ex_store_def map_of_file_def chunk_ex_file nat_less_iff)

lemma ex_chain_inv: "0 < m \<Longrightarrow> chain_inv 80 ex_dec (ex_store m)"
proof -
  assume "0 < m"
  have "store_inv 80 ex_dec (ex_store m)"
    by (simp add: store_inv_def ex_codec) (simp add: ex_store_def)
  moreover have "links_ok (ex_store m)"
  proof -
    have "of_nat (nat (k - 1)) + (1 :: byte) = of_nat (nat k)" if "0 < k" for k
      using that by (simp add: nat_diff_distrib)
    then show ?thesis
      by (auto simp: links_ok_def ex_store_hdrs ex_dec_sel)
  qed
  ultimately show ?thesis using \<open>0 < m\<close> by (simp add: chain_inv_def)
qed

section \<open>Properties\<close>

text \<open>C17: \<open>verifyAll\<close> decides the chain property: on a store whose file and map agree it returns no
  error exactly when every header above the start point names the hash of the header below it, and
  it never dereferences a missing header.\<close>

theorem verifyAll_decides_links:
  assumes "store_inv n dec h"
  shows "(verifyAll h = Inr () \<longleftrightarrow> links_ok h) \<and> \<not> is_panic (verifyAll h)"
proof
  have le: "startPoint h - 1 \<le> tip h" using assms by (simp add: store_inv_def)
  then show "verifyAll h = Inr () \<longleftrightarrow> links_ok h" by (rule verifyAll_links)
  show "\<not> is_panic (verifyAll h)"
  proof (cases "startPoint h \<le> tip h")
    case True
    then show ?thesis
      using store_inv_dom [OF assms]
      by (auto simp: verifyAll_def verifyFromTip_def getTip_def intro!: verify_loop_no_panic)
  next
    case False
    then show ?thesis by (simp add: verifyAll_def verifyFromTip_def getTip_def)
  qed
qed

theorem verifyAll_decides_links_witness:
  "verifyAll (ex_store 5) = Inr ()"
  using verifyAll_decides_links [OF chain_invD(1) [OF ex_chain_inv [of 5]]]
    chain_invD(2) [OF ex_chain_inv [of 5]] by simp

text \<open>\<open>verifyFromTip\<close> with a depth that reaches below the start point but not below height 0
  panics: the guard replaces \<open>downTo\<close> by the start point only when it is negative, and the loop then
  dereferences the header below the start point, which is not stored.\<close>

theorem verifyFromTip_below_start_panics:
  assumes "chain_inv n dec h" "0 \<le> tip h - depth" "tip h - depth < startPoint h"
  shows "is_panic (verifyFromTip depth False h)"
proof -
  note D = chain_invD [OF assms(1)]
  have "is_panic (verify_loop m height h)"
    if "startPoint h \<le> height" "height \<le> tip h" "height - startPoint h < int m" for m height
    using that
  proof (induction m arbitrary: height)
    case 0
    then show ?case by simp
  next
    case (Suc m)
    show ?case
    proof (cases "height = startPoint h")
      case True
      then show ?thesis using store_inv_None [OF D(1), of "height - 1"] by (simp add: nil_deref_def)
    next
      case False
      then have "is_panic (verify_loop m (height - 1) h)" by (intro Suc.IH) (use Suc.prems in auto)
      then show ?thesis using links_okD [OF D(2), of height] False Suc.prems by auto
    qed
  qed
  then show ?thesis
    using assms(2,3) D(3) by (simp add: verifyFromTip_def getTip_def Let_def)
qed

theorem verifyFromTip_below_start_panics_witness:
  "is_panic (verifyFromTip 10 False ((ex_store 5)\<lparr>startPoint := 2, tip := 10,
     hdrFile := Some (ex_file 9), hdrs := map_of_file 80 ex_dec 2 10 (ex_file 9)\<rparr>))"
proof -
  let ?h = "(ex_store 5)\<lparr>startPoint := 2, tip := 10,
     hdrFile := Some (ex_file 9), hdrs := map_of_file 80 ex_dec 2 10 (ex_file 9)\<rparr>"
  have links: "\<exists>a b. hdrs ?h (k - 1) = Some a \<and> hdrs ?h k = Some b \<and> Hash a = Prev b"
    if "2 < k" "k \<le> 10" for k
  proof -
    have "of_nat (nat (k - 1 - 2)) + (1 :: byte) = of_nat (nat (k - 2))"
      using that by (simp add: nat_diff_distrib)
    then show ?thesis
      using that by (simp add: map_of_file_def chunk_ex_file ex_dec_sel nat_less_iff)
  qed
  have "chain_inv 80 ex_dec ?h"
    using links by (simp add: chain_inv_def store_inv_def ex_codec links_ok_def)
  then show ?thesis
    by (rule verifyFromTip_below_start_panics) simp_all
qed

text \<open>C16: a restart loses nothing.  A new \<open>headers\<close> value on the file of a consistent store, filled
  as \<open>syncNetworkHeaders\<close> fills it (the file read, its headers stored from the start point, the tip
  set from the number of headers), has the same map, tip and invariant, and \<open>verifyAll\<close> accepts it.\<close>

theorem restart_rebuilds_store:
  assumes "chain_inv n dec h"
    and "BlockHeaderSize cfg = headerSize h" "HeaderDeserializer cfg = headerDeserialzer h"
      "StartPoint cfg = startPoint h"
  shows "\<exists>b k h'. readAllBytesFromFile io_ok (newHeaders cfg (hdrFile h)) = (newHeaders cfg (hdrFile h), Inr b) \<and>
    bytesToNumHdrs (newHeaders cfg (hdrFile h)) (int (length b)) = Inr k \<and>
    store b (StartPoint cfg) (newHeaders cfg (hdrFile h)) = (h', Inr ()) \<and>
    tip (setTip (StartPoint cfg + k - 1) h') = tip h \<and>
    hdrs h' = hdrs h \<and> hdrFile h' = hdrFile h \<and>
    chain_inv n dec (setTip (StartPoint cfg + k - 1) h') \<and>
    verifyAll (setTip (StartPoint cfg + k - 1) h') = Inr ()"
proof -
  note D = chain_invD [OF assms(1)]
  let ?h0 = "newHeaders cfg (hdrFile h)"
  define m where "m = nat (tip h - startPoint h + 1)"
  obtain b where b: "hdrFile h = Some b" "length b = m * n"
    and map: "hdrs h = map_of_file n dec (startPoint h) (tip h) b"
    using D(1) by (auto simp: store_inv_def m_def)
  have sel: "headerDeserialzer ?h0 = headerDeserialzer h" "headerSize ?h0 = int n"
    "startPoint ?h0 = startPoint h" "hdrFile ?h0 = Some b" "hdrs ?h0 = Map.empty"
    using assms(2-4) D(5) b(1) by (simp_all add: newHeaders_def)
  have read: "readAllBytesFromFile io_ok ?h0 = (?h0, Inr b)"
    using sel(4) by (simp add: readAllBytesFromFile_def openFile_def statFileSize_def io_ok_def)
  have num: "bytesToNumHdrs ?h0 (int (length b)) = Inr (int m)"
    using bytesToNumHdrs_file [OF sel(2) D(6), of _ m] b(2) by simp
  have m: "startPoint h + int m - 1 = tip h" using D(3) by (simp add: m_def)
  obtain bm where st: "store b (startPoint h) ?h0 =
      (?h0\<lparr>hdrs := map_of_file n dec (startPoint h) (tip h) b, blkHdrs := bm\<rparr>, Inr ())"
    using store_file [of ?h0 n dec b m "startPoint h"] D(4) b(2) sel m by auto
  let ?h1 = "?h0\<lparr>hdrs := hdrs h, blkHdrs := bm, tip := tip h\<rparr>"
  have "store_inv n dec ?h1"
    using D(1) sel D(5) b(1) by (simp add: store_inv_def)
  moreover have "links_ok ?h1"
    using D(2) sel(3) by (simp add: links_ok_def)
  ultimately have inv: "chain_inv n dec ?h1"
    using D(3) sel(3) by (simp add: chain_inv_def)
  then have "verifyAll ?h1 = Inr ()"
    using verifyAll_links [of ?h1] chain_invD(2,3) [OF inv] by simp
  then show ?thesis
    using read num st inv sel b(1) m unfolding assms(4) map [symmetric]
    by (intro exI [of _ b] exI [of _ "int m"] exI) (auto simp: setTip_def)
qed

theorem restart_rebuilds_store_witness:
  "\<exists>b h'. store b 0 (newHeaders ex_cfg (Some (ex_file 3))) = (h', Inr ()) \<and>
     hdrs h' = hdrs (ex_store 3) \<and> verifyAll (setTip 2 h') = Inr ()"
proof -
  have cfg: "BlockHeaderSize ex_cfg = 80" "HeaderDeserializer ex_cfg = Deserialize_btc ex_libs"
    "StartPoint ex_cfg = 0"
    by (simp_all add: ex_cfg_def)
  obtain b k h' where r: "store b 0 (newHeaders ex_cfg (Some (ex_file 3))) = (h', Inr ())"
    "tip (setTip (k - 1) h') = 2" "hdrs h' = hdrs (ex_store 3)" "verifyAll (setTip (k - 1) h') = Inr ()"
    using restart_rebuilds_store [OF ex_chain_inv [of 3], of ex_cfg] by (auto simp: cfg)
  then have "k - 1 = 2" by (simp add: setTip_def)
  then show ?thesis using r by metis
qed

lemma collect_headers_map:
  assumes "\<And>k. i \<le> k \<Longrightarrow> k < i + int m \<Longrightarrow> hdrs h k \<noteq> None"
  shows "collect_headers m i h =
    Inr (map (\<lambda>j. toClientHeader (the (hdrs h (i + int j)))) [0..<m])"
  using assms
proof (induction m arbitrary: i)
  case 0
  then show ?case by simp
next
  case (Suc m)
  have "hdrs h i \<noteq> None" by (rule Suc.prems) simp_all
  then obtain b where "hdrs h i = Some b" by blast
  moreover have "collect_headers m (i + 1) h =
      Inr (map (\<lambda>j. toClientHeader (the (hdrs h (i + 1 + int j)))) [0..<m])"
    by (rule Suc.IH, rule Suc.prems) simp_all
  moreover have "map (\<lambda>j. toClientHeader (the (hdrs h (i + int j)))) [0..<Suc m] =
      toClientHeader (the (hdrs h i)) # map (\<lambda>j. toClientHeader (the (hdrs h (i + 1 + int j)))) [0..<m]"
    by (simp add: map_upt_Suc add.assoc del: upt_Suc)
  ultimately show ?case by (simp del: upt_Suc)
qed

text \<open>\<open>getBlockHeaders\<close>: on a consistent store a request for \<open>count\<close> headers from \<open>startHeight\<close>
  is answered by exactly those headers, in order and in the printed form, when the range starts at
  or above the start point and ends at or below the tip (the tip itself can only be an exclusive
  end); any other range is an error, and no range panics.\<close>

theorem getBlockHeaders_range:
  assumes "chain_inv n dec h" "0 \<le> count" "startHeight + count < 2 ^ 63" "0 \<le> startHeight"
  shows "getBlockHeaders startHeight count h =
    (if startPoint h \<le> startHeight \<and> startHeight + count \<le> tip h
     then Inr (map (\<lambda>j. toClientHeader (the (hdrs h (startHeight + int j)))) [0..<nat count])
     else Inl (Err (if startHeight < startPoint h then ''requested start height < start of stored block headers''
               else if tip h < startHeight then ''requested start height > local tip''
               else ''requested range is past the local tip'')))"
proof -
  note D = chain_invD [OF assms(1)]
  have w: "wrap64 (startHeight + count) = startHeight + count"
    using assms(2-4) by (intro wrap64_id) simp_all
  have "collect_headers (nat count) startHeight h =
      Inr (map (\<lambda>j. toClientHeader (the (hdrs h (startHeight + int j)))) [0..<nat count])"
    if "startPoint h \<le> startHeight" "startHeight + count \<le> tip h"
    using store_inv_Some [OF D(1)] that assms(2) by (intro collect_headers_map) force
  then show ?thesis
    using assms(2) by (auto simp: getBlockHeaders_def getTip_def w Let_def)
qed

theorem getBlockHeaders_range_witness:
  "\<exists>l. getBlockHeaders 1 2 (ex_store 5) = Inr l \<and> length l = 2"
  using getBlockHeaders_range [OF ex_chain_inv [of 5], of 2 1] by simp

text \<open>\<open>getBlockHeaders\<close> does not guard the sum of its arguments: a count for which
  \<open>startHeight + count\<close> exceeds the largest \<open>int64\<close> wraps to a negative end of range, passes the
  check against the tip and is answered by an empty list instead of an error.\<close>

theorem getBlockHeaders_overflow:
  assumes "chain_inv n dec h" "0 \<le> startPoint h" "startPoint h \<le> startHeight" "startHeight \<le> tip h"
    "tip h < 2 ^ 63" "count < 2 ^ 63" "2 ^ 63 \<le> startHeight + count"
  shows "getBlockHeaders startHeight count h = Inr []"
proof -
  have "wrap64 (startHeight + count) = startHeight + count - 2 ^ 64"
    using assms(4-7) by (intro wrap64_overflow) simp_all
  then have "wrap64 (startHeight + count) < 0" "0 \<le> tip h"
    using assms by simp_all
  then show ?thesis
    using assms(2-4) by (simp add: getBlockHeaders_def getTip_def Let_def)
qed

theorem getBlockHeaders_overflow_witness:
  "getBlockHeaders 1 (2 ^ 63 - 1) (ex_store 5) = Inr []"
  using getBlockHeaders_overflow [OF ex_chain_inv [of 5], of 1 "2 ^ 63 - 1"] by simp

end
