(* ===== verification/Session_Cost.thy ===== *)
theory Session_Cost
  imports Prelude "HOL-Library.Log_Nat"
begin

text \<open>
  The session cost calculator of \<open>electrumx/node_session.go\<close>.  The cost is a \<open>float32\<close>, so
  the sums are modelled with the rounding of IEEE binary32: a value is an integer mantissa and
  a power of two, and a result that does not fit in 24 bits is rounded to nearest, ties to
  even.  (Exponents stay far from the limits of the format: costs lie between \<open>2 ^ -40\<close> and
  the session limits, so overflow and subnormal numbers do not occur and are not modelled.)
  The lemmas show that rounding is monotone against representable values, hence that charging
  never lowers a session's cost.
\<close>

section \<open>binary32 values\<close>

record f32 =
  mant :: int
  expo :: int

text \<open>Rounding an exact value \<open>m * 2 ^ e\<close> to 24 significant bits.\<close>

definition round_even :: "int \<Rightarrow> int \<Rightarrow> int" where
  "round_even a d =
     (let q = a div d; r = a mod d in
      if 2 * r > d \<or> (2 * r = d \<and> odd q) then q + 1 else q)"

definition round24 :: "int \<Rightarrow> int \<Rightarrow> f32" where
  "round24 m e =
     (let k = bitlen \<bar>m\<bar> - 24 in
      if k \<le> 0 then \<lparr>mant = m, expo = e\<rparr>
      else \<lparr>mant = sgn m * round_even \<bar>m\<bar> (2 ^ nat k), expo = e + k\<rparr>)"

definition f32_add :: "f32 \<Rightarrow> f32 \<Rightarrow> f32" where
  "f32_add x y =
     (let e = min (expo x) (expo y) in
      round24 (mant x * 2 ^ nat (expo x - e) + mant y * 2 ^ nat (expo y - e)) e)"

definition f32_neg :: "f32 \<Rightarrow> f32" where
  "f32_neg x = x\<lparr>mant := - mant x\<rparr>"

definition f32_mul :: "f32 \<Rightarrow> f32 \<Rightarrow> f32" where
  "f32_mul x y = round24 (mant x * mant y) (expo x + expo y)"

definition f32_of_int :: "int \<Rightarrow> f32" where
  "f32_of_int n = round24 n 0"

section \<open>The session\<close>

text \<open>The untyped constants of the source, converted to \<open>float32\<close> where they are used: the
  nearest 24-bit values of \<open>1 / 100000\<close> and of \<open>10000 / 3600\<close>.\<close>

definition BW_COST_PER_BYTE :: f32 where
  "BW_COST_PER_BYTE = \<lparr>mant = 10995116, expo = - 40\<rparr>"

definition COST_DECAY_PER_SEC :: f32 where
  "COST_DECAY_PER_SEC = \<lparr>mant = 11650844, expo = - 22\<rparr>"

lemma cost_constants_nearest:
  "2 * \<bar>mant BW_COST_PER_BYTE * 100000 - 2 ^ 40\<bar> \<le> 100000"
  "2 * \<bar>mant COST_DECAY_PER_SEC * 3600 - 10000 * 2 ^ 22\<bar> \<le> 3600"
  by (simp_all add: BW_COST_PER_BYTE_def COST_DECAY_PER_SEC_def)

definition TuningFactor :: int where
  "TuningFactor = 10"

record session =
  cost :: f32

definition newSession :: session where
  "newSession = \<lparr>cost = f32_of_int 0\<rparr>"

definition reduceCost :: "session \<Rightarrow> session" where
  "reduceCost s = s\<lparr>cost := f32_add (cost s) (f32_neg COST_DECAY_PER_SEC)\<rparr>"

text \<open>One tick of \<open>runCostDecayLoop\<close>: \<open>tune\<close> counts the ticks, every tenth gives credit back.\<close>

definition costDecayTick :: "int \<Rightarrow> session \<Rightarrow> int \<times> session" where
  "costDecayTick tune s =
     (tune + 1, if tune mod TuningFactor = 0 then reduceCost s else s)"

fun runCostDecayLoop :: "nat \<Rightarrow> int \<Rightarrow> session \<Rightarrow> session" where
  "runCostDecayLoop 0 tune s = s"
| "runCostDecayLoop (Suc n) tune s =
     (case costDecayTick tune s of (tune', s') \<Rightarrow> runCostDecayLoop n tune' s')"

definition bumpCost :: "f32 \<Rightarrow> session \<Rightarrow> session" where
  "bumpCost incurred s = s\<lparr>cost := f32_add (cost s) incurred\<rparr>"

definition bumpCostBytes :: "int \<Rightarrow> session \<Rightarrow> session" where
  "bumpCostBytes numBytes s = bumpCost (f32_mul (f32_of_int numBytes) BW_COST_PER_BYTE) s"

text \<open>Go strings are bytes.  On valid UTF-8, which \<open>encoding/json\<close> guarantees for the strings it
  decodes, \<open>utf8.RuneCountInString\<close> counts the bytes that do not continue a rune.\<close>

definition RuneCountInString :: "string \<Rightarrow> int" where
  "RuneCountInString s = int (length (filter (\<lambda>c. (of_char c :: nat) div 64 \<noteq> 2) s))"

definition bumpCostString :: "string \<Rightarrow> session \<Rightarrow> session" where
  "bumpCostString str s = bumpCostBytes (RuneCountInString str) s"

text \<open>\<open>bumpCostStruct\<close> charges the length of the value's JSON text, which is its argument here.\<close>

definition bumpCostStruct :: "string \<Rightarrow> session \<Rightarrow> session" where
  "bumpCostStruct json s = bumpCostBytes (int (length json)) s"

definition bumpCostError :: "session \<Rightarrow> session" where
  "bumpCostError s = bumpCost (f32_of_int 100) s"

section \<open>Rounding is monotone against representable values\<close>

definition f32_ok :: "f32 \<Rightarrow> bool" where
  "f32_ok x \<longleftrightarrow> \<bar>mant x\<bar> \<le> 2 ^ 24"

text \<open>\<open>x \<le> y\<close> as exact numbers, both scaled to the smaller exponent.\<close>

definition f32_le :: "f32 \<Rightarrow> f32 \<Rightarrow> bool" where
  "f32_le x y =
     (let e = min (expo x) (expo y) in
      mant x * 2 ^ nat (expo x - e) \<le> mant y * 2 ^ nat (expo y - e))"

lemma f32_le_scale:
  assumes "e \<le> expo x" "e \<le> expo y"
  shows "f32_le x y \<longleftrightarrow> mant x * 2 ^ nat (expo x - e) \<le> mant y * 2 ^ nat (expo y - e)"
proof -
  let ?m = "min (expo x) (expo y)"
  have split: "nat (expo x - e) = nat (expo x - ?m) + nat (?m - e)"
    "nat (expo y - e) = nat (expo y - ?m) + nat (?m - e)"
    using assms by auto
  have "mant x * 2 ^ nat (expo x - e) \<le> mant y * 2 ^ nat (expo y - e) \<longleftrightarrow>
      mant x * 2 ^ nat (expo x - ?m) * 2 ^ nat (?m - e) \<le> mant y * 2 ^ nat (expo y - ?m) * 2 ^ nat (?m - e)"
    unfolding split power_add by (simp only: mult.assoc)
  also have "\<dots> \<longleftrightarrow> mant x * 2 ^ nat (expo x - ?m) \<le> mant y * 2 ^ nat (expo y - ?m)"
    by (rule mult_le_cancel_right_pos) simp
  finally show ?thesis by (simp add: f32_le_def Let_def)
qed

lemma round_even_bounds:
  assumes "0 < d"
  shows "a div d \<le> round_even a d" "round_even a d \<le> a div d + 1" "a mod d = 0 \<Longrightarrow> round_even a d = a div d"
  using assms by (auto simp: round_even_def Let_def)

text \<open>\<open>v = c * 2 ^ j\<close> with at most 24 significant bits, against a rounded \<open>m\<close>.\<close>

lemma round_pos:
  assumes m: "(2 :: int) ^ (23 + k) \<le> m" and c: "c \<le> 2 ^ 24" and v: "c * 2 ^ j \<le> m"
  shows "c * 2 ^ j \<le> round_even m (2 ^ k) * 2 ^ k"
proof -
  have q: "m div 2 ^ k \<le> round_even m (2 ^ k)" by (rule round_even_bounds) simp
  have "c * 2 ^ j \<le> (m div 2 ^ k) * 2 ^ k"
  proof (cases "k \<le> j")
    case True
    then have e: "c * 2 ^ j = (c * 2 ^ (j - k)) * 2 ^ k" by (simp add: power_add [symmetric] mult.assoc)
    have "c * 2 ^ j div 2 ^ k = c * 2 ^ (j - k)" unfolding e by simp
    then have "c * 2 ^ (j - k) \<le> m div 2 ^ k"
      using zdiv_mono1 [OF v, of "2 ^ k"] by simp
    then show ?thesis unfolding e by simp
  next
    case False
    have "(2 :: int) ^ 23 \<le> m div 2 ^ k"
      using zdiv_mono1 [OF m, of "2 ^ k"] by (simp add: power_add)
    then have b: "(2 :: int) ^ 23 * 2 ^ k \<le> (m div 2 ^ k) * 2 ^ k" by simp
    have "c * 2 ^ j \<le> 2 ^ 24 * 2 ^ j" using c by (rule mult_right_mono) simp
    also have "\<dots> \<le> 2 ^ 24 * 2 ^ (k - 1)" using False by (intro mult_left_mono power_increasing) simp_all
    also have "\<dots> = 2 ^ 23 * 2 ^ k" using False by (cases k) simp_all
    finally show ?thesis using b by linarith
  qed
  also have "\<dots> \<le> round_even m (2 ^ k) * 2 ^ k" using q by simp
  finally show ?thesis .
qed

lemma round_neg:
  assumes m: "(2 :: int) ^ (23 + k) \<le> m" and c: "c \<le> 2 ^ 24" and v: "m \<le> c * 2 ^ j"
  shows "round_even m (2 ^ k) * 2 ^ k \<le> c * 2 ^ j"
proof (cases "k \<le> j")
  case True
  then have e: "c * 2 ^ j = (c * 2 ^ (j - k)) * 2 ^ k" by (simp add: power_add [symmetric] mult.assoc)
  have d: "c * 2 ^ j div 2 ^ k = c * 2 ^ (j - k)" unfolding e by simp
  have "round_even m (2 ^ k) \<le> c * 2 ^ (j - k)"
  proof (cases "m mod 2 ^ k = 0")
    case True
    then have "round_even m (2 ^ k) = m div 2 ^ k" by (intro round_even_bounds) simp_all
    then show ?thesis using zdiv_mono1 [OF v, of "2 ^ k"] d by simp
  next
    case False
    have "m div 2 ^ k < c * 2 ^ (j - k)"
    proof (rule ccontr)
      assume "\<not> ?thesis"
      then have "c * 2 ^ (j - k) * 2 ^ k \<le> (m div 2 ^ k) * 2 ^ k" by simp
      moreover have "(m div 2 ^ k) * 2 ^ k + m mod 2 ^ k = m" by (rule div_mult_mod_eq)
      moreover have "0 \<le> m mod 2 ^ k" by (rule pos_mod_sign) simp
      then have "0 < m mod 2 ^ k" using False by linarith
      ultimately show False using v e by linarith
    qed
    then show ?thesis using round_even_bounds(2) [of "2 ^ k" m] by simp
  qed
  then show ?thesis unfolding e by simp
next
  case False
  have "c * 2 ^ j \<le> 2 ^ 24 * 2 ^ j" using c by (rule mult_right_mono) simp
  also have "\<dots> \<le> 2 ^ 24 * 2 ^ (k - 1)" using False by (intro mult_left_mono power_increasing) simp_all
  also have "\<dots> = 2 ^ (23 + k)" using False by (cases k) (simp_all add: power_add)
  finally have "m = 2 ^ (23 + k)" "c * 2 ^ j = 2 ^ (23 + k)" using m v by linarith+
  moreover have "round_even (2 ^ (23 + k)) (2 ^ k) = (2 :: int) ^ 23"
    using round_even_bounds(3) [of "2 ^ k" "2 ^ (23 + k)"] by (simp add: power_add)
  ultimately show ?thesis by (simp add: power_add)
qed

lemma div_less_pow:
  assumes "(a :: int) < c * d" "0 < d"
  shows "a div d < c"
proof (rule ccontr)
  assume "\<not> a div d < c"
  then have "c * d \<le> (a div d) * d" using assms(2) by (intro mult_right_mono) simp_all
  moreover have "(a div d) * d + a mod d = a" by (rule div_mult_mod_eq)
  moreover have "0 \<le> a mod d" by (rule pos_mod_sign [OF assms(2)])
  ultimately show False using assms(1) by linarith
qed

lemma round24_ok: "f32_ok (round24 m e)"
proof -
  let ?k = "bitlen \<bar>m\<bar> - 24"
  show ?thesis
  proof (cases "?k \<le> 0")
    case True
    then have "\<bar>m\<bar> < 2 ^ nat 24"
      using bitlen_le_iff_power [of "\<bar>m\<bar>" 24] by simp
    then show ?thesis using True by (simp add: round24_def f32_ok_def)
  next
    case False
    then have "\<bar>m\<bar> < 2 ^ nat (bitlen \<bar>m\<bar>)" using bitlen_bounds [of "\<bar>m\<bar>"] bitlen_eq_zero_iff [of "\<bar>m\<bar>"] by auto
    moreover have "nat (bitlen \<bar>m\<bar>) = 24 + nat ?k" using False by simp
    ultimately have "\<bar>m\<bar> < 2 ^ 24 * 2 ^ nat ?k" by (simp add: power_add)
    then have "\<bar>m\<bar> div 2 ^ nat ?k < 2 ^ 24" by (rule div_less_pow) simp
    then have "\<bar>round_even \<bar>m\<bar> (2 ^ nat ?k)\<bar> \<le> 2 ^ 24"
      using round_even_bounds(1,2) [of "2 ^ nat ?k" "\<bar>m\<bar>"] pos_imp_zdiv_nonneg_iff [of "2 ^ nat ?k" "\<bar>m\<bar>"]
      by simp
    then have "\<bar>sgn m * round_even \<bar>m\<bar> (2 ^ nat ?k)\<bar> \<le> 2 ^ 24"
      unfolding abs_mult by (cases "m = 0") simp_all
    then show ?thesis using False by (simp add: round24_def f32_ok_def Let_def)
  qed
qed

text \<open>Rounding up from below: an exact value that is not below a representable one rounds to a value
  that is not below it either.\<close>

lemma round24_ge:
  assumes x: "f32_ok x" and e: "e \<le> expo x" and le: "mant x * 2 ^ nat (expo x - e) \<le> m"
  shows "f32_le x (round24 m e)"
proof -
  let ?k = "bitlen \<bar>m\<bar> - 24" and ?V = "mant x * 2 ^ nat (expo x - e)"
  show ?thesis
  proof (cases "?k \<le> 0")
    case True
    then show ?thesis using le e by (simp add: f32_le_scale [of e] round24_def Let_def)
  next
    case False
    let ?d = "(2 :: int) ^ nat ?k"
    have big: "2 ^ (23 + nat ?k) \<le> \<bar>m\<bar>"
    proof -
      have "nat (bitlen \<bar>m\<bar> - 1) = 23 + nat ?k" using False by simp
      then show ?thesis using bitlen_bounds [of "\<bar>m\<bar>"] bitlen_eq_zero_iff [of "\<bar>m\<bar>"] False by auto
    qed
    have r: "round24 m e = \<lparr>mant = sgn m * round_even \<bar>m\<bar> ?d, expo = e + ?k\<rparr>"
      using False by (simp add: round24_def Let_def)
    have "?V \<le> sgn m * round_even \<bar>m\<bar> ?d * ?d"
    proof (cases "0 \<le> m")
      case True
      then have "0 < m" using big False by (cases "m = 0") auto
      then show ?thesis
        using round_pos [of "nat ?k" m "mant x" "nat (expo x - e)"] big le x by (simp add: f32_ok_def)
    next
      case neg: False
      have "- mant x \<le> 2 ^ 24" using x by (simp add: f32_ok_def)
      then have "round_even \<bar>m\<bar> ?d * ?d \<le> - mant x * 2 ^ nat (expo x - e)"
        using round_neg [OF big, of "- mant x" "nat (expo x - e)"] le neg by simp
      then show ?thesis using neg by simp
    qed
    then show ?thesis
      using e False by (simp add: f32_le_scale [of e] r mult.assoc)
  qed
qed

section \<open>Charging\<close>

lemma f32_add_ok: "f32_ok (f32_add x y)"
  by (simp add: f32_add_def Let_def round24_ok)

lemma f32_add_ge: "f32_ok x \<Longrightarrow> 0 \<le> mant y \<Longrightarrow> f32_le x (f32_add x y)"
  by (simp add: f32_add_def Let_def round24_ge)

lemma round24_nonneg: "0 \<le> m \<Longrightarrow> 0 \<le> mant (round24 m e)"
proof -
  assume m: "0 \<le> m"
  have "0 \<le> round_even m (2 ^ nat (bitlen m - 24))"
    using round_even_bounds(1) [of "2 ^ nat (bitlen m - 24)" m] pos_imp_zdiv_nonneg_iff [of "2 ^ nat (bitlen m - 24)" m] m
    by (meson order_trans zero_less_numeral zero_less_power)
  then show ?thesis using m by (simp add: round24_def Let_def sgn_if)
qed

lemma byte_charge_nonneg: "0 \<le> n \<Longrightarrow> 0 \<le> mant (f32_mul (f32_of_int n) BW_COST_PER_BYTE)"
  by (simp add: f32_mul_def f32_of_int_def round24_nonneg BW_COST_PER_BYTE_def)

text \<open>Every charge the node makes for a reply: strings, JSON values, byte counts and errors.\<close>

datatype charge_kind = ChargeString string | ChargeStruct string | ChargeBytes nat | ChargeError

fun bump :: "charge_kind \<Rightarrow> session \<Rightarrow> session" where
  "bump (ChargeString s) = bumpCostString s"
| "bump (ChargeStruct j) = bumpCostStruct j"
| "bump (ChargeBytes n) = bumpCostBytes (int n)"
| "bump ChargeError = bumpCostError"

lemma bump_add: "\<exists>y. 0 \<le> mant y \<and> cost (bump c s) = f32_add (cost s) y"
proof -
  have bytes: "\<exists>y. 0 \<le> mant y \<and> cost (bumpCostBytes n s) = f32_add (cost s) y" if "0 \<le> n" for n
    using byte_charge_nonneg [OF that] by (auto simp: bumpCostBytes_def bumpCost_def)
  have "0 \<le> mant (f32_of_int 100)" by (simp add: f32_of_int_def round24_nonneg)
  then show ?thesis
    by (cases c) (auto simp: bytes bumpCostString_def bumpCostStruct_def RuneCountInString_def
        bumpCostError_def bumpCost_def)
qed

lemma f32_le_trans: "f32_le x y \<Longrightarrow> f32_le y z \<Longrightarrow> f32_le x z"
proof -
  assume a: "f32_le x y" "f32_le y z"
  define e where "e = min (expo x) (min (expo y) (expo z))"
  have e: "e \<le> expo x" "e \<le> expo y" "e \<le> expo z" by (simp_all add: e_def)
  show "f32_le x z"
    using a unfolding f32_le_scale [OF e(1,2)] f32_le_scale [OF e(2,3)] f32_le_scale [OF e(1,3)] by linarith
qed

lemma f32_le_refl: "f32_le x x"
  by (simp add: f32_le_def)

text \<open>Charging never lowers a session's cost, in spite of the rounding of \<open>float32\<close>: after any
  sequence of charges, for strings, JSON values, byte counts and errors in any order, the cost is a
  24-bit value that is at least the cost before.  Only \<open>reduceCost\<close> can lower it.\<close>

theorem charges_never_lower_cost:
  assumes "f32_ok (cost s)"
  shows "f32_ok (cost (fold bump cs s)) \<and> f32_le (cost s) (cost (fold bump cs s))"
  using assms
proof (induction cs arbitrary: s)
  case Nil
  then show ?case by (simp add: f32_le_refl)
next
  case (Cons c cs)
  obtain y where y: "0 \<le> mant y" "cost (bump c s) = f32_add (cost s) y" using bump_add by blast
  have "f32_ok (cost (bump c s))" "f32_le (cost s) (cost (bump c s))"
    using Cons.prems y by (simp_all add: f32_add_ok f32_add_ge)
  then show ?case using Cons.IH [of "bump c s"] f32_le_trans by auto
qed

theorem charges_never_lower_cost_witness:
  "f32_le (cost newSession) (cost (fold bump [ChargeError, ChargeString ''00ff'', ChargeBytes 8] newSession))"
proof -
  have "f32_ok (cost newSession)" by (simp add: newSession_def f32_of_int_def round24_ok)
  then show ?thesis using charges_never_lower_cost by blast
qed

end
