(* ===== verification/Node_Headers.thy ===== *)
theory Node_Headers
  imports Header_Chain Session_Cost
begin

text \<open>
  The leader node's header handling, \<open>electrumx/node_headers.go\<close> and the server api of
  \<open>electrumx/node.go\<close> it uses: the initial synchronisation, the notification queue, connecting a
  header on the tip and the rewind by \<open>REWIND\<close> headers when one does not connect.

  The remote server is an argument: \<open>node_env\<close> gives its answer to each request as a function of
  the number of calls made so far, so that it may answer the same request differently at each
  time; it also says which file operations fail and when the context is cancelled.
\<close>

section \<open>State\<close>

record getBlockHeadersResult =
  Count :: int
  HexConcat :: string
  MaxCount :: int

record headersNotifyResult =
  Height :: int
  HdrHex :: string

record node =
  connected :: bool
  networkHeaders :: headers
  nsession :: session
  tipChanges :: "int list"
  nodeCanceled :: bool
  calls :: nat

record node_env =
  rpcBlockHeader :: "nat \<Rightarrow> int \<Rightarrow> string result"
  rpcBlockHeaders :: "nat \<Rightarrow> int \<Rightarrow> int \<Rightarrow> getBlockHeadersResult result"
  rpcSubscribeHeaders :: "nat \<Rightarrow> headersNotifyResult result"
  fileEnv :: "nat \<Rightarrow> io_env"
  ctxDone :: "nat \<Rightarrow> bool"

definition REWIND :: int where
  "REWIND = 8"

definition tick :: "node \<Rightarrow> node" where
  "tick n = n\<lparr>calls := Suc (calls n)\<rparr>"

definition setHeaders :: "headers \<Rightarrow> node \<Rightarrow> node" where
  "setHeaders h n = n\<lparr>networkHeaders := h\<rparr>"

definition charge :: "(session \<Rightarrow> session) \<Rightarrow> node \<Rightarrow> node" where
  "charge f n = n\<lparr>nsession := f (nsession n)\<rparr>"

section \<open>Server api\<close>

definition blockHeader :: "node_env \<Rightarrow> int \<Rightarrow> node \<Rightarrow> node \<times> string result" where
  "blockHeader E height n =
     (if \<not> connected n then (n, Inl (Err ''node not connected''))
      else case rpcBlockHeader E (calls n) (u32 height) of
        Inr blkHdr \<Rightarrow> (charge (bumpCostString blkHdr) (tick n), Inr blkHdr)
      | Inl e \<Rightarrow> (charge bumpCostError (tick n), Inl e))"

definition blockHeaders :: "node_env \<Rightarrow> int \<Rightarrow> int \<Rightarrow> node \<Rightarrow> node \<times> getBlockHeadersResult result" where
  "blockHeaders E startHeight blockCount n =
     (if \<not> connected n then (n, Inl (Err ''node not connected''))
      else case rpcBlockHeaders E (calls n) startHeight blockCount of
        Inr res \<Rightarrow> (charge (bumpCostString (HexConcat res)) (tick n), Inr res)
      | Inl e \<Rightarrow> (charge bumpCostError (tick n), Inl e))"

definition subscribeHeaders :: "node_env \<Rightarrow> node \<Rightarrow> node \<times> headersNotifyResult result" where
  "subscribeHeaders E n =
     (if \<not> connected n then (n, Inl (Err ''node not connected''))
      else (tick n, rpcSubscribeHeaders E (calls n)))"

section \<open>Connecting a header\<close>

definition convertStringHdrToBlkHdr :: "string \<Rightarrow> headers \<Rightarrow> (BlockHeader \<times> bytes) result" where
  "convertStringHdrToBlkHdr svrHdr h =
     (case DecodeString svrHdr of Inl e \<Rightarrow> Inl e
      | Inr rawBytes \<Rightarrow>
          (if int (length rawBytes) \<noteq> headerSize h then Inl (Err ''corrupted header - length'')
           else case headerDeserialzer h rawBytes of
             (Inr blkHdr, _) \<Rightarrow> Inr (blkHdr, rawBytes)
           | (Inl (Err _), _) \<Rightarrow> Inl (Err ''corrupted header - cannot deserialize BlockHash'')
           | (Inl (Panic m), _) \<Rightarrow> Inl (Panic m)))"

definition reorgRecovery :: "node_env \<Rightarrow> node \<Rightarrow> node \<times> unit result" where
  "reorgRecovery E n =
     (let h = networkHeaders n; t = getTip h in
      if t < startPoint h + REWIND
        then (n, Inl (Panic ''reorgRecovery: tip <= startPoint+REWIND - cannot recover further''))
      else case truncateHeadersFile (fileEnv E (calls n)) REWIND h of
        (h1, Inl (Err e)) \<Rightarrow>
          (setHeaders h1 (tick n), Inl (Panic (''reorgRecovery: truncateHeadersFile returned: '' @ e)))
      | (h1, Inl (Panic m)) \<Rightarrow> (setHeaders h1 (tick n), Inl (Panic m))
      | (h1, Inr newNumHeaders) \<Rightarrow>
          (let h2 = (removeOneHdrFromTip ^^ nat REWIND) h1 in
           (setHeaders (h2\<lparr>recoveryTip := t, recovery := True\<rparr>) (tick n), Inr ())))"

definition connectTip :: "node_env \<Rightarrow> string \<Rightarrow> node \<Rightarrow> node \<times> bool result" where
  "connectTip E serverHeader n =
     (let h = networkHeaders n in
      case convertStringHdrToBlkHdr serverHeader h of
        Inl (Err _) \<Rightarrow> (n, Inr False)
      | Inl (Panic m) \<Rightarrow> (n, Inl (Panic m))
      | Inr (incomingHdr, incomingHdrBytes) \<Rightarrow>
          (case checkCanConnect incomingHdr h of
             Inl e \<Rightarrow> (n, Inl e)
           | Inr False \<Rightarrow>
               (case dbgDumpTipHashes 3 (getTip h) h of
                  Inl e \<Rightarrow> (n, Inl e)
                | Inr _ \<Rightarrow> thenS (reorgRecovery E n) (\<lambda>n _. (charge bumpCostError n, Inr False)))
           | Inr True \<Rightarrow>
               (case appendHeadersFile (fileEnv E (calls n)) incomingHdrBytes h of
                  (h1, Inl (Err _)) \<Rightarrow> (setHeaders h1 (tick n), Inr False)
                | (h1, Inl (Panic m)) \<Rightarrow> (setHeaders h1 (tick n), Inl (Panic m))
                | (h1, Inr _) \<Rightarrow>
                    (setHeaders ((storeOneHdr incomingHdr h1)\<lparr>recovery := False\<rparr>) (tick n), Inr True))))"

section \<open>Catching up with the server\<close>

text \<open>The loop of \<open>updateFromBlocks\<close> with \<open>k\<close> heights left, from \<open>i\<close> on; \<open>c\<close> counts the headers
  connected.\<close>

fun blocks_loop :: "node_env \<Rightarrow> nat \<Rightarrow> int \<Rightarrow> int \<Rightarrow> node \<Rightarrow> node \<times> int result" where
  "blocks_loop E 0 i c n = (n, Inr c)"
| "blocks_loop E (Suc k) i c n =
     (case blockHeader E i n of
        (n1, Inl (Err _)) \<Rightarrow> (n1, Inr c)
      | (n1, Inl (Panic m)) \<Rightarrow> (n1, Inl (Panic m))
      | (n1, Inr header) \<Rightarrow>
          (case connectTip E header n1 of
             (n2, Inl e) \<Rightarrow> (n2, Inl e)
           | (n2, Inr False) \<Rightarrow> (n2, Inr c)
           | (n2, Inr True) \<Rightarrow> blocks_loop E k (i + 1) (c + 1) n2))"

definition updateFromBlocks :: "node_env \<Rightarrow> int \<Rightarrow> int \<Rightarrow> node \<Rightarrow> node \<times> int result" where
  "updateFromBlocks E from_h to_h n = blocks_loop E (nat (to_h - from_h + 1)) from_h 0 n"

text \<open>A slice expression \<open>s[lo:hi]\<close> panics out of bounds.\<close>

definition slice :: "int \<Rightarrow> int \<Rightarrow> string \<Rightarrow> string result" where
  "slice lo hi s =
     (if 0 \<le> lo \<and> lo \<le> hi \<and> hi \<le> int (length s) then Inr (take (nat (hi - lo)) (drop (nat lo) s))
      else Inl (Panic ''slice bounds out of range''))"

fun chunk_loop :: "node_env \<Rightarrow> int \<Rightarrow> string \<Rightarrow> nat \<Rightarrow> int \<Rightarrow> int \<Rightarrow> node \<Rightarrow> node \<times> int result" where
  "chunk_loop E oneHdrLen allHdrs 0 i c n = (n, Inr c)"
| "chunk_loop E oneHdrLen allHdrs (Suc k) i c n =
     (case slice (wrap64 (i * oneHdrLen)) (wrap64 ((i + 1) * oneHdrLen)) allHdrs of
        Inl e \<Rightarrow> (n, Inl e)
      | Inr header \<Rightarrow>
          (case connectTip E header n of
             (n1, Inl e) \<Rightarrow> (n1, Inl e)
           | (n1, Inr False) \<Rightarrow> (n1, Inr c)
           | (n1, Inr True) \<Rightarrow> chunk_loop E oneHdrLen allHdrs k (i + 1) (c + 1) n1))"

definition updateFromChunk :: "node_env \<Rightarrow> int \<Rightarrow> int \<Rightarrow> node \<Rightarrow> node \<times> int result" where
  "updateFromChunk E from_h to_h n =
     (let reqCount = to_h - from_h + 1 in
      case blockHeaders E from_h reqCount n of
        (n1, Inl (Err _)) \<Rightarrow> (n1, Inr 0)
      | (n1, Inl (Panic m)) \<Rightarrow> (n1, Inl (Panic m))
      | (n1, Inr hdrsRes) \<Rightarrow>
          (if MaxCount hdrsRes < 2016 then (n1, Inr 0)
           else let oneHdrLen = headerSize (networkHeaders n1) * 2; allHdrs = HexConcat hdrsRes in
             if int (length allHdrs) \<noteq> wrap64 (oneHdrLen * Count hdrsRes) then (n1, Inr 0)
             else if reqCount \<noteq> Count hdrsRes then (n1, Inr 0)
             else chunk_loop E oneHdrLen allHdrs (nat (Count hdrsRes)) 0 0 n1))"

definition syncHeadersOntoOurTip :: "node_env \<Rightarrow> int \<Rightarrow> node \<Rightarrow> node \<times> int result" where
  "syncHeadersOntoOurTip E serverHeight n =
     (let ourTip = getTip (networkHeaders n);
          missing = serverHeight - ourTip; from_h = ourTip + 1; to_h = serverHeight in
      if missing > REWIND then updateFromChunk E from_h to_h n else updateFromBlocks E from_h to_h n)"

section \<open>The notification queue\<close>

definition notifyTip :: "node \<Rightarrow> node" where
  "notifyTip n = n\<lparr>tipChanges := tipChanges n @ [getTip (networkHeaders n)]\<rparr>"

text \<open>One turn of \<open>headerQueue\<close>; the result says whether the loop goes on.\<close>

definition headerQueueStep ::
  "node_env \<Rightarrow> headersNotifyResult option \<Rightarrow> node \<Rightarrow> node \<times> bool result" where
  "headerQueueStep E msg n =
     (case msg of None \<Rightarrow> (n, Inr False)
      | Some hdrRes \<Rightarrow>
          (let h = networkHeaders n; ourTip = getTip h in
           if Height hdrRes < startPoint h then (n\<lparr>nodeCanceled := True\<rparr>, Inr False)
           else if Height hdrRes \<le> ourTip then (n, Inr True)
           else if Height hdrRes = ourTip + 1 then
             (case connectTip E (HdrHex hdrRes) n of
                (n1, Inl e) \<Rightarrow> (n1, Inl e)
              | (n1, Inr False) \<Rightarrow> (n1, Inr True)
              | (n1, Inr True) \<Rightarrow> (notifyTip (charge (bumpCostString (HdrHex hdrRes)) n1), Inr True))
           else
             (case syncHeadersOntoOurTip E (Height hdrRes) n of
                (n1, Inl e) \<Rightarrow> (n1, Inl e)
              | (n1, Inr numHdrs) \<Rightarrow> ((if 0 < numHdrs then notifyTip n1 else n1), Inr True))))"

fun headerQueue :: "node_env \<Rightarrow> headersNotifyResult option list \<Rightarrow> node \<Rightarrow> node \<times> bool result" where
  "headerQueue E [] n = (n, Inr True)"
| "headerQueue E (m # ms) n =
     (case headerQueueStep E m n of
        (n1, Inl e) \<Rightarrow> (n1, Inl e)
      | (n1, Inr False) \<Rightarrow> (n1, Inr False)
      | (n1, Inr True) \<Rightarrow> headerQueue E ms n1)"

text \<open>\<open>headersNotify\<close> subscribes and returns the first entry of the queue.\<close>

definition headersNotify :: "node_env \<Rightarrow> node \<Rightarrow> node \<times> headersNotifyResult result" where
  "headersNotify E n =
     (if \<not> connected n then (n, Inl (Err ''server headers notify channel is nil''))
      else thenS (subscribeHeaders E n) (\<lambda>n hdrRes.
        if Height hdrRes - getTip (networkHeaders n) < 0
        then (n, Inl (Err ''ExpBug0: diff between our tip and server tip is negative after sync''))
        else (n, Inr hdrRes)))"

section \<open>Initial synchronisation\<close>

definition blockCount :: int where
  "blockCount = 2016"

text \<open>A \<open>log.Fatal\<close> ends the process like a panic.\<close>

fun fatal :: "fault \<Rightarrow> fault" where
  "fatal (Err e) = Panic e"
| "fatal (Panic m) = Panic m"

text \<open>The loop that gathers chunks of headers.  Between two requests it waits for a second or for the
  context; when that is cancelled the function returns without an error (\<open>None\<close> here).  The fuel
  bounds the number of requests; running out of it stands for a server that goes on sending full
  chunks.\<close>

fun gather :: "node_env \<Rightarrow> nat \<Rightarrow> int \<Rightarrow> int \<Rightarrow> node \<Rightarrow> (node \<times> int option result) option" where
  "gather E 0 startHeight maybeTip n = None"
| "gather E (Suc fuel) startHeight maybeTip n =
     (let startHeight' = startHeight + blockCount in
      if ctxDone E (calls n) then Some (n, Inr None)
      else case blockHeaders E startHeight' blockCount n of
        (n1, Inl e) \<Rightarrow> Some (n1, Inl e)
      | (n1, Inr hdrsRes) \<Rightarrow>
          (if 0 < Count hdrsRes then
             (case DecodeString (HexConcat hdrsRes) of Inl e \<Rightarrow> Some (n1, Inl e)
              | Inr b \<Rightarrow>
                  (case appendHeadersFile (fileEnv E (calls n1)) b (networkHeaders n1) of
                     (h1, Inl e) \<Rightarrow> Some (setHeaders h1 (tick n1), Inl e)
                   | (h1, Inr _) \<Rightarrow>
                       (let n2 = setHeaders h1 (tick n1); maybeTip' = wrap64 (maybeTip + Count hdrsRes) in
                        if Count hdrsRes < blockCount then Some (n2, Inr (Some maybeTip'))
                        else gather E fuel startHeight' maybeTip' n2)))
           else Some (n1, Inr (Some maybeTip))))"

text \<open>The first request, whose decoding and writing errors are fatal.\<close>

definition gatherFirst ::
  "node_env \<Rightarrow> nat \<Rightarrow> int \<Rightarrow> int \<Rightarrow> node \<Rightarrow> (node \<times> int option result) option" where
  "gatherFirst E fuel startHeight maybeTip n =
     (case blockHeaders E startHeight blockCount n of
        (n1, Inl e) \<Rightarrow> Some (n1, Inl e)
      | (n1, Inr hdrsRes) \<Rightarrow>
          (if 0 < Count hdrsRes then
             (case DecodeString (HexConcat hdrsRes) of Inl e \<Rightarrow> Some (n1, Inl (fatal e))
              | Inr b \<Rightarrow>
                  (case appendHeadersFile (fileEnv E (calls n1)) b (networkHeaders n1) of
                     (h1, Inl e) \<Rightarrow> Some (setHeaders h1 (tick n1), Inl (fatal e))
                   | (h1, Inr _) \<Rightarrow>
                       (let n2 = setHeaders h1 (tick n1); maybeTip' = wrap64 (maybeTip + Count hdrsRes) in
                        if Count hdrsRes < blockCount then Some (n2, Inr (Some maybeTip'))
                        else gather E fuel startHeight maybeTip' n2)))
           else Some (n1, Inr (Some maybeTip))))"

text \<open>Steps 3 to 5: read the file again, store its headers, set the tip, verify.\<close>

definition finishSync :: "node_env \<Rightarrow> int \<Rightarrow> node \<Rightarrow> node \<times> unit result" where
  "finishSync E maybeTip n =
     (case readAllBytesFromFile (fileEnv E (calls n)) (networkHeaders n) of
        (h1, Inl e) \<Rightarrow> (setHeaders h1 (tick n), Inl e)
      | (h1, Inr b2) \<Rightarrow>
          (case store b2 (startPoint h1) h1 of
             (h2, Inl e) \<Rightarrow> (setHeaders h2 (tick n), Inl e)
           | (h2, Inr _) \<Rightarrow>
               (let h3 = setTip maybeTip h2 in
                case verifyAll h3 of
                  Inl e \<Rightarrow> (setHeaders h3 (tick n), Inl e)
                | Inr _ \<Rightarrow> (setHeaders (h3\<lparr>synced := True\<rparr>) (tick n), Inr ()))))"

definition syncNetworkHeaders :: "node_env \<Rightarrow> nat \<Rightarrow> node \<Rightarrow> (node \<times> unit result) option" where
  "syncNetworkHeaders E fuel n =
     (let startPointHeight = startPoint (networkHeaders n) in
      case readAllBytesFromFile (fileEnv E (calls n)) (networkHeaders n) of
        (h1, Inl e) \<Rightarrow> Some (setHeaders h1 (tick n), Inl e)
      | (h1, Inr b) \<Rightarrow>
          (let n1 = setHeaders h1 (tick n) in
           case bytesToNumHdrs h1 (int (length b)) of
             Inl e \<Rightarrow> Some (n1, Inl e)
           | Inr numHeaders \<Rightarrow>
               (case gatherFirst E fuel (startPointHeight + numHeaders)
                   (wrap64 (startPointHeight + numHeaders - 1)) n1 of
                  None \<Rightarrow> None
                | Some (n2, Inl e) \<Rightarrow> Some (n2, Inl e)
                | Some (n2, Inr None) \<Rightarrow> Some (n2, Inr ())
                | Some (n2, Inr (Some maybeTip)) \<Rightarrow> Some (finishSync E maybeTip n2))))"

end
