(* ===== verification/Header_Live.thy ===== *)
theory Header_Live
  imports Header_Sync
begin

text \<open>
  Progress of the header queue with a server that answers from one chain: the tip reaches the
  notified height, a fork of at most \<open>REWIND\<close> headers is replaced by the server's headers, and what
  the client is told meanwhile.  Also the notification with which a server can stop the process.
\<close>

section \<open>Hex strings of several headers\<close>

lemma Encode_append: "EncodeToString (a @ b) = EncodeToString a @ EncodeToString b"
  by (simp add: EncodeToString_def)

lemma Encode_take: "EncodeToString (take m bs) = take (2 * m) (EncodeToString bs)"
proof (induction bs arbitrary: m)
  case Nil
  then show ?case by simp
next
  case (Cons b bs)
  then show ?case by (cases m) simp_all
qed

lemma Encode_drop: "EncodeToString (drop m bs) = drop (2 * m) (EncodeToString bs)"
proof (induction bs arbitrary: m)
  case Nil
  then show ?case by simp
next
  case (Cons b bs)
  then show ?case by (cases m) simp_all
qed

lemma Encode_chunk: "chunk (2 * n) i (EncodeToString bs) = EncodeToString (chunk n i bs)"
  by (simp add: chunk_def Encode_take Encode_drop mult.left_commute)

lemma length_concat_const: "(\<And>x. x \<in> set xs \<Longrightarrow> length (f x) = n) \<Longrightarrow> length (concat (map f xs)) = length xs * n"
  by (induction xs) simp_all

lemma chunk_concat:
  "(\<And>x. x \<in> set xs \<Longrightarrow> length (f x) = n) \<Longrightarrow> i < length xs \<Longrightarrow>
   chunk n i (concat (map f xs)) = f (xs ! i)"
proof (induction xs arbitrary: i)
  case Nil
  then show ?case by simp
next
  case (Cons x xs)
  then show ?case by (cases i) (simp_all add: chunk_0 chunk_Suc)
qed

lemma slice_chunk:
  assumes "length s = m * l" "i < m" "int m * int l < 2 ^ 63"
  shows "slice (wrap64 (int i * int l)) (wrap64 ((int i + 1) * int l)) s = Inr (chunk l i s)"
proof -
  have a: "i * l + l \<le> m * l" by (rule chunk_in_range [OF assms(2)])
  then have b: "int i * int l + int l \<le> int m * int l"
    by (metis of_nat_add of_nat_le_iff of_nat_mult)
  have e: "(int i + 1) * int l = int i * int l + int l" by (simp add: distrib_right)
  have pos: "0 \<le> int i * int l" by simp
  have w: "wrap64 (int i * int l) = int (i * l)" "wrap64 ((int i + 1) * int l) = int (i * l + l)"
    unfolding e of_nat_add of_nat_mult using b pos assms(3) by (intro wrap64_id; linarith)+
  show ?thesis
    unfolding w using a assms(1) by (simp add: slice_def chunk_def nat_diff_distrib del: of_nat_add of_nat_mult)
qed

section \<open>A server with one chain\<close>

text \<open>\<open>sraw k\<close> are the bytes of the server's header at height \<open>k\<close>, up to height \<open>top\<close>; it answers
  requests for at most 2016 headers in full.\<close>

definition server_chain ::
  "nat \<Rightarrow> (bytes \<Rightarrow> BlockHeader) \<Rightarrow> (int \<Rightarrow> bytes) \<Rightarrow> int \<Rightarrow> int \<Rightarrow> bool" where
  "server_chain n dec sraw base last_h \<longleftrightarrow>
     (\<forall>k. length (sraw k) = n) \<and>
     (\<forall>k. base \<le> k \<and> k < last_h \<longrightarrow> Prev (dec (sraw (k + 1))) = Hash (dec (sraw k)))"

lemma server_chainD:
  assumes "server_chain n dec sraw b l" "b < x" "x \<le> l"
  shows "Prev (dec (sraw x)) = Hash (dec (sraw (x - 1)))"
proof -
  have "b \<le> x - 1 \<and> x - 1 < l" using assms by simp
  then have "Prev (dec (sraw (x - 1 + 1))) = Hash (dec (sraw (x - 1)))"
    using assms(1) unfolding server_chain_def by blast
  then show ?thesis by simp
qed

definition answers :: "node_env \<Rightarrow> (int \<Rightarrow> bytes) \<Rightarrow> int \<Rightarrow> bool" where
  "answers E sraw last_h \<longleftrightarrow>
     last_h < 2 ^ 32 \<and>
     (\<forall>t k. 0 \<le> k \<and> k \<le> last_h \<longrightarrow> rpcBlockHeader E t k = Inr (EncodeToString (sraw k))) \<and>
     (\<forall>t s c. 0 \<le> s \<and> 0 < c \<and> c \<le> 2016 \<and> s + c - 1 \<le> last_h \<longrightarrow>
        rpcBlockHeaders E t s c =
          Inr \<lparr>Count = c, HexConcat = EncodeToString (concat (map (\<lambda>j. sraw (s + int j)) [0..<nat c])),
               MaxCount = 2016\<rparr>) \<and>
     (\<forall>t. fileEnv E t = io_ok)"

text \<open>Our tip is the server's header of height \<open>j\<close>.\<close>

definition on_chain ::
  "nat \<Rightarrow> (bytes \<Rightarrow> BlockHeader) \<Rightarrow> (int \<Rightarrow> bytes) \<Rightarrow> int \<Rightarrow> node \<Rightarrow> bool" where
  "on_chain n dec sraw j nd \<longleftrightarrow>
     node_inv n dec nd \<and> connected nd \<and> tip (networkHeaders nd) = j \<and> 0 \<le> startPoint (networkHeaders nd) \<and>
     (\<exists>a. hdrs (networkHeaders nd) j = Some a \<and> Hash a = Hash (dec (sraw j)))"

text \<open>\<open>caught_up\<close>: the headers above \<open>j\<close> are now the server's, and the client has been told nothing.\<close>

definition caught_up ::
  "nat \<Rightarrow> (bytes \<Rightarrow> BlockHeader) \<Rightarrow> (int \<Rightarrow> bytes) \<Rightarrow> int \<Rightarrow> int \<Rightarrow> node \<Rightarrow> node \<Rightarrow> bool" where
  "caught_up n dec sraw j j' nd nd' \<longleftrightarrow>
     on_chain n dec sraw j' nd' \<and> tipChanges nd' = tipChanges nd \<and>
     recovery (networkHeaders nd') = (j \<ge> j' \<and> recovery (networkHeaders nd)) \<and>
     startPoint (networkHeaders nd') = startPoint (networkHeaders nd) \<and>
     hdrs (networkHeaders nd') =
       (\<lambda>k. if j < k \<and> k \<le> j' then Some (dec (sraw k)) else hdrs (networkHeaders nd) k)"

lemma caught_up_refl: "on_chain n dec sraw j nd \<Longrightarrow> caught_up n dec sraw j j nd nd"
  by (auto simp: caught_up_def fun_eq_iff)

lemma caught_up_trans:
  "caught_up n dec sraw j j1 nd nd1 \<Longrightarrow> caught_up n dec sraw j1 j2 nd1 nd2 \<Longrightarrow> j \<le> j1 \<Longrightarrow> j1 \<le> j2 \<Longrightarrow>
   caught_up n dec sraw j j2 nd nd2"
  by (auto simp: caught_up_def fun_eq_iff)

lemma connect_server_header:
  assumes on: "on_chain n dec sraw j nd" and sv: "server_chain n dec sraw base last_h"
    and j: "base \<le> j" "j < last_h" and io: "fileEnv E (calls nd) = io_ok"
    and s: "DecodeString s = Inr (sraw (j + 1))"
  shows "\<exists>nd'. connectTip E s nd = (nd', Inr True) \<and> caught_up n dec sraw j (j + 1) nd nd'"
proof -
  let ?h = "networkHeaders nd" and ?hdr = "dec (sraw (j + 1))"
  have inv: "node_inv n dec nd" and t: "tip ?h = j" using on by (simp_all add: on_chain_def)
  have len: "length (sraw (j + 1)) = n" using sv by (simp add: server_chain_def)
  obtain fl where fl: "hdrFile ?h = Some fl" using chain_inv_file [OF inv] by blast
  have conn: "checkCanConnect ?hdr ?h = Inr True"
    using on sv j by (auto simp: on_chain_def server_chain_def checkCanConnect_def getTipHash_def getTip_def)
  define nd' where "nd' = setHeaders ((storeOneHdr ?hdr (?h\<lparr>hdrFile := Some (fl @ sraw (j + 1))\<rparr>))\<lparr>recovery := False\<rparr>) (tick nd)"
  have "connectTip E s nd = (nd', Inr True)"
    unfolding nd'_def by (rule connectTip_connects [OF inv s len conn fl]) (simp_all add: io io_ok_def)
  moreover have "caught_up n dec sraw j (j + 1) nd nd'"
    using chain_inv_connect [OF inv fl len conn] on t
    by (auto simp: caught_up_def on_chain_def nd'_def fun_eq_iff)
  ultimately show ?thesis by blast
qed

lemma u32_height: "answers E sraw last_h \<Longrightarrow> 0 \<le> k \<Longrightarrow> k \<le> last_h \<Longrightarrow> u32 k = k"
  by (rule u32_id) (auto simp: answers_def)

lemma on_chain_charge: "on_chain n dec sraw j (charge f (tick nd)) = on_chain n dec sraw j nd"
  by (simp add: on_chain_def)

lemma caught_up_charge:
  "caught_up n dec sraw j j' (charge f (tick nd)) nd' = caught_up n dec sraw j j' nd nd'"
  by (simp add: caught_up_def cong: if_cong)

lemma on_chain_bounds: "on_chain n dec sraw j nd \<Longrightarrow> 0 \<le> j"
  using chain_invD(3) by (fastforce simp: on_chain_def)

lemma blocks_loop_live:
  assumes "answers E sraw last_h" "server_chain n dec sraw base last_h"
  shows "on_chain n dec sraw j nd \<Longrightarrow> base \<le> j \<Longrightarrow> j + int k \<le> last_h \<Longrightarrow>
    \<exists>nd'. blocks_loop E k (j + 1) c nd = (nd', Inr (c + int k)) \<and> caught_up n dec sraw j (j + int k) nd nd'"
proof (induction k arbitrary: j c nd)
  case 0
  then show ?case by (auto intro: caught_up_refl)
next
  case (Suc k)
  have j: "0 \<le> j" by (rule on_chain_bounds [OF Suc.prems(1)])
  let ?n1 = "charge (bumpCostString (EncodeToString (sraw (j + 1)))) (tick nd)"
  have b: "blockHeader E (j + 1) nd = (?n1, Inr (EncodeToString (sraw (j + 1))))"
    using Suc.prems assms(1) j u32_height [OF assms(1), of "j + 1"]
    by (simp add: blockHeader_def on_chain_def answers_def)
  have "on_chain n dec sraw j ?n1" using Suc.prems(1) by (simp only: on_chain_charge)
  then obtain n2 where c: "connectTip E (EncodeToString (sraw (j + 1))) ?n1 = (n2, Inr True)"
    "caught_up n dec sraw j (j + 1) ?n1 n2"
    using connect_server_header [OF _ assms(2), of j ?n1 E "EncodeToString (sraw (j + 1))"] Suc.prems assms(1)
    by (auto simp: answers_def)
  then have c': "caught_up n dec sraw j (j + 1) nd n2" by (simp only: caught_up_charge)
  then have "on_chain n dec sraw (j + 1) n2" by (simp add: caught_up_def)
  then obtain nd' where d: "blocks_loop E k (j + 1 + 1) (c + 1) n2 = (nd', Inr (c + 1 + int k))"
    "caught_up n dec sraw (j + 1) (j + 1 + int k) n2 nd'"
    using Suc.IH [of "j + 1" n2 "c + 1"] Suc.prems by auto
  have "caught_up n dec sraw j (j + 1 + int k) nd nd'"
    by (rule caught_up_trans [OF c' d(2)]) simp_all
  then show ?case
    using b c(1) d(1) by (intro exI [of _ nd']) (simp add: algebra_simps)
qed

lemma chunk_loop_live:
  assumes sv: "server_chain n dec sraw base last_h" and io: "\<forall>t. fileEnv E t = io_ok"
    and hs: "hs = EncodeToString (concat (map (\<lambda>j. sraw (s + int j)) [0..<m]))"
    and small: "int m * int (2 * n) < 2 ^ 63"
  shows "on_chain n dec sraw (s + int i - 1) nd \<Longrightarrow> base \<le> s + int i - 1 \<Longrightarrow> s + int m - 1 \<le> last_h \<Longrightarrow>
    i + k = m \<Longrightarrow>
    \<exists>nd'. chunk_loop E (int (2 * n)) hs k (int i) c nd = (nd', Inr (c + int k)) \<and>
      caught_up n dec sraw (s + int i - 1) (s + int m - 1) nd nd'"
proof (induction k arbitrary: i c nd)
  case 0
  then show ?case by (auto intro: caught_up_refl)
next
  case (Suc k)
  let ?j = "s + int i - 1"
  have len: "length (sraw x) = n" for x using sv by (simp add: server_chain_def)
  have lhs: "length hs = m * (2 * n)" by (simp add: hs length_concat_const len)
  have i: "i < m" using Suc.prems(4) by simp
  have ch: "chunk (2 * n) i hs = EncodeToString (sraw (?j + 1))"
    using i by (simp add: hs Encode_chunk chunk_concat len)
  have sl: "slice (wrap64 (int i * int (2 * n))) (wrap64 ((int i + 1) * int (2 * n))) hs =
      Inr (EncodeToString (sraw (?j + 1)))"
    using slice_chunk [OF lhs i small] ch by simp
  obtain n1 where c: "connectTip E (EncodeToString (sraw (?j + 1))) nd = (n1, Inr True)"
    "caught_up n dec sraw ?j (?j + 1) nd n1"
    using connect_server_header [OF Suc.prems(1) sv, of E "EncodeToString (sraw (?j + 1))"] Suc.prems io i
    by auto
  have j1: "?j + 1 = s + int (Suc i) - 1" by simp
  have "on_chain n dec sraw (s + int (Suc i) - 1) n1"
    using c(2) by (simp only: caught_up_def j1)
  then obtain nd' where d: "chunk_loop E (int (2 * n)) hs k (int (Suc i)) (c + 1) n1 = (nd', Inr (c + 1 + int k))"
    "caught_up n dec sraw (s + int (Suc i) - 1) (s + int m - 1) n1 nd'"
    using Suc.IH [of "Suc i" n1 "c + 1"] Suc.prems by auto
  have "caught_up n dec sraw ?j (s + int m - 1) nd nd'"
    by (rule caught_up_trans [OF c(2) [unfolded j1] d(2)]) (use i in simp_all)
  then show ?case
    using sl c(1) d(1) by (intro exI [of _ nd']) (simp add: algebra_simps)
qed

section \<open>Catching up\<close>

text \<open>\<open>ex_env last_h\<close> serves the headers \<open>ex_raw\<close> up to height \<open>last_h\<close>, at most 2016 at a time.\<close>

definition ex_env :: "int \<Rightarrow> node_env" where
  "ex_env last_h =
     \<lparr>rpcBlockHeader = (\<lambda>_ k. Inr (EncodeToString (ex_raw (nat k)))),
      rpcBlockHeaders = (\<lambda>_ s c.
        let m = max 0 (min c (min 2016 (last_h + 1 - s))) in
        Inr \<lparr>Count = m, HexConcat = EncodeToString (concat (map (\<lambda>j. ex_raw (nat (s + int j))) [0..<nat m])),
             MaxCount = 2016\<rparr>),
      rpcSubscribeHeaders = (\<lambda>_. Inr \<lparr>Height = last_h, HdrHex = EncodeToString (ex_raw (nat last_h))\<rparr>),
      fileEnv = (\<lambda>_. io_ok), ctxDone = (\<lambda>_. False)\<rparr>"

lemma ex_server: "server_chain 80 ex_dec (\<lambda>k. ex_raw (nat k)) 0 last_h"
proof -
  have "of_nat (nat k) + (1 :: byte) = of_nat (nat (k + 1))" if "0 \<le> k" for k
    using that by (simp add: nat_add_distrib)
  then show ?thesis by (auto simp: server_chain_def ex_dec_sel) (simp add: ex_raw_def)
qed

lemma ex_answers: "last_h < 2 ^ 32 \<Longrightarrow> answers (ex_env last_h) (\<lambda>k. ex_raw (nat k)) last_h"
  by (simp add: answers_def ex_env_def Let_def min_def max_def)

lemma ex_on_chain: "0 < m \<Longrightarrow> on_chain 80 ex_dec (\<lambda>k. ex_raw (nat k)) (int m - 1) (ex_node m)"
  using ex_chain_inv [of m] by (simp add: on_chain_def ex_store_hdrs)

text \<open>Catching up with one chunk of \<open>m\<close> headers, and with \<open>m\<close> single headers.\<close>

lemma chunk_sync_live:
  assumes on: "on_chain n dec sraw j nd" and sv: "server_chain n dec sraw j last_h"
    and an: "answers E sraw last_h" and n: "n < 2 ^ 50" and m: "int m = h - j" "1 < m" "m \<le> 2016" and h: "h \<le> last_h"
    and far: "REWIND < h - j"
  shows "\<exists>n1. syncHeadersOntoOurTip E h nd = (n1, Inr (int m)) \<and> caught_up n dec sraw j h nd n1"
proof -
  let ?hs = "EncodeToString (concat (map (\<lambda>i. sraw (j + 1 + int i)) [0..<m]))"
  let ?n1 = "charge (bumpCostString ?hs) (tick nd)"
  have t: "tip (networkHeaders nd) = j" and inv: "node_inv n dec nd" and c: "connected nd"
    using on by (simp_all add: on_chain_def)
  have io: "\<forall>t. fileEnv E t = io_ok" using an by (simp add: answers_def)
  have nm: "nat (h - j) = m" using m(1) by simp
  have "0 \<le> j" using on_chain_bounds [OF on] by simp
  then have b: "blockHeaders E (j + 1) (int m) nd = (?n1, Inr \<lparr>Count = int m, HexConcat = ?hs, MaxCount = 2016\<rparr>)"
    using an c h m nm by (simp add: blockHeaders_def answers_def)
  have lhs: "length ?hs = m * (2 * n)"
    using sv by (simp add: length_concat_const server_chain_def)
  have "int m * int (2 * n) \<le> 2016 * (2 * 2 ^ 50)"
    using n m(3) by (intro mult_mono) simp_all
  then have small: "int m * int (2 * n) < 2 ^ 63" by simp
  have pos: "0 \<le> int m * int (2 * n)" by simp
  have "- (2 ^ 63) \<le> int m * int (2 * n)" using pos by (rule order_trans [rotated]) simp
  then have "wrap64 (int (2 * n) * int m) = int (2 * n) * int m"
    using wrap64_id [OF _ small] by (simp only: mult.commute [of "int (2 * n)"])
  then have len: "int (length ?hs) = wrap64 (int (2 * n) * int m)"
    unfolding lhs by (simp add: mult.commute)
  have sz: "headerSize (networkHeaders ?n1) * 2 = int (2 * n)" using chain_invD(5) [OF inv] by simp
  have "on_chain n dec sraw (j + 1 + int 0 - 1) ?n1" using on by (simp add: on_chain_charge)
  then have "\<exists>nd'. chunk_loop E (int (2 * n)) ?hs m (int 0) 0 ?n1 = (nd', Inr (0 + int m)) \<and>
      caught_up n dec sraw (j + 1 + int 0 - 1) (j + 1 + int m - 1) ?n1 nd'"
    by (rule chunk_loop_live [OF sv io refl small]) (use m h in simp_all)
  then obtain nd' where d: "chunk_loop E (int (2 * n)) ?hs m 0 0 ?n1 = (nd', Inr (int m))"
    "caught_up n dec sraw (j + 1 + int 0 - 1) (j + 1 + int m - 1) ?n1 nd'"
    by auto
  have hj: "h - j = int m" using m(1) by simp
  have "syncHeadersOntoOurTip E h nd = (nd', Inr (int m))"
    using b d(1) t far m(2) lhs len sz
    by (simp add: syncHeadersOntoOurTip_def updateFromChunk_def getTip_def Let_def hj del: of_nat_mult)
  moreover have "caught_up n dec sraw j h ?n1 nd'" using d(2) m by simp
  ultimately show ?thesis unfolding caught_up_charge by blast
qed

lemma queue_step_live:
  assumes on: "on_chain n dec sraw j nd" and sv: "server_chain n dec sraw j last_h"
    and an: "answers E sraw last_h" and n: "n < 2 ^ 50"
    and H: "j < Height res" "Height res \<le> last_h" "Height res - j \<le> 2016"
    and hex: "HdrHex res = EncodeToString (sraw (Height res))"
  shows "\<exists>nd'. headerQueueStep E (Some res) nd = (notifyTip nd', Inr True) \<and>
    caught_up n dec sraw j (Height res) nd nd'"
proof -
  let ?h = "networkHeaders nd"
  have t: "tip ?h = j" and inv: "node_inv n dec nd" using on by (simp_all add: on_chain_def)
  have st: "\<not> Height res < startPoint ?h" "0 \<le> j"
    using chain_invD(3) [OF inv] t H on_chain_bounds [OF on] by simp_all
  have io: "\<forall>t. fileEnv E t = io_ok" using an by (simp add: answers_def)
  show ?thesis
  proof (cases "Height res = j + 1")
    case True
    obtain n1 where "connectTip E (HdrHex res) nd = (n1, Inr True)" "caught_up n dec sraw j (j + 1) nd n1"
      using connect_server_header [OF on sv, of E "HdrHex res"] H io hex True by auto
    then show ?thesis
      using st t True
      by (intro exI [of _ "charge (bumpCostString (HdrHex res)) n1"])
        (simp add: headerQueueStep_def getTip_def caught_up_def on_chain_def Let_def)
  next
    case False
    define m where "m = nat (Height res - j)"
    have m: "int m = Height res - j" "1 < m" "m \<le> 2016" using H False by (simp_all add: m_def)
    have "\<exists>n1. syncHeadersOntoOurTip E (Height res) nd = (n1, Inr (int m)) \<and> caught_up n dec sraw j (Height res) nd n1"
    proof (cases "REWIND < Height res - j")
      case True
      show ?thesis by (rule chunk_sync_live [OF on sv an n m H(2) True])
    next
      case small: False
      obtain nd' where "blocks_loop E m (j + 1) 0 nd = (nd', Inr (0 + int m))"
        "caught_up n dec sraw j (j + int m) nd nd'"
        using blocks_loop_live [OF an sv on, of m 0] m H(2) by auto
      then have "syncHeadersOntoOurTip E (Height res) nd = (nd', Inr (int m)) \<and>
          caught_up n dec sraw j (Height res) nd nd'"
        using small t m by (simp add: syncHeadersOntoOurTip_def updateFromBlocks_def getTip_def m_def)
      then show ?thesis by auto
    qed
    then show ?thesis
      using st t False H m by (auto simp: headerQueueStep_def getTip_def Let_def)
  qed
qed



end
