(* ===== verification/Header_Reorg.thy ===== *)
theory Header_Reorg
  imports Header_Live
begin

text \<open>
  Reorganisations: what a header that does not connect does to the store and to the client's view,
  how the next notification repairs a fork of at most \<open>REWIND\<close> headers, how close to the start
  point the process panics instead, and the answer with which a server makes it panic.
\<close>

section \<open>A header that does not connect\<close>

lemma connectTip_rewinds:
  assumes inv: "node_inv n dec nd" and syn: "synced (networkHeaders nd)"
    and t: "8 \<le> tip (networkHeaders nd) - startPoint (networkHeaders nd)"
    and io: "fileEnv E (calls nd) = io_ok"
    and s: "DecodeString s = Inr raw" "length raw = n"
    and conn: "checkCanConnect (dec raw) (networkHeaders nd) = Inr False"
  shows "connectTip E s nd =
    (charge bumpCostError (setHeaders (rewound n (networkHeaders nd)) (tick nd)), Inr False)"
proof -
  let ?h = "networkHeaders nd"
  note D = chain_invD [OF inv]
  have conv: "convertStringHdrToBlkHdr s ?h = Inr (dec raw, raw)"
    using s D(5) header_codec.des_exact [OF D(4) s(2)] by (simp add: convertStringHdrToBlkHdr_def)
  have "\<exists>a. hdrs ?h (tip ?h - i) = Some a" if "0 \<le> i" "i \<le> 8" for i
    using store_inv_Some [OF D(1)] t that by simp
  from this [of 0] this [of 1] this [of 2] have dump: "dbgDumpTipHashes 3 (getTip ?h) ?h = Inr ()"
    by (auto simp: numeral_3_eq_3 getTip_def)
  have "\<exists>l. truncateHeadersFile (fileEnv E (calls nd)) REWIND ?h =
      (?h\<lparr>hdrFile := map_option (take (nat (tip ?h - startPoint ?h + 1 - 8) * n)) (hdrFile ?h)\<rparr>, Inr l)"
    by (rule truncate_REWIND [OF inv t syn]) (simp_all add: io io_ok_def)
  then have "reorgRecovery E nd = (setHeaders (rewound n ?h) (tick nd), Inr ())"
    using t by (auto simp: reorgRecovery_def REWIND_def getTip_def rewound_def Let_def)
  then show ?thesis
    using conv conn dump by (simp add: connectTip_def Let_def)
qed

text \<open>A header that does not connect, while more than \<open>REWIND\<close> headers are stored, drops exactly
  the last \<open>REWIND\<close> headers from map and file, keeps the chain invariant, and hides this from the
  client: \<open>getClientTip\<close> still reports the tip from before the rewind.  But the header at that height
  is gone, so asking for it is an error; and when a second rewind follows before any header
  connected, the reported tip does fall by \<open>REWIND\<close>.\<close>

theorem rewind_client_view:
  assumes "chain_inv n dec (networkHeaders nd)" "synced (networkHeaders nd)"
    and "2 * REWIND \<le> tip (networkHeaders nd) - startPoint (networkHeaders nd)"
    and "fileEnv E (calls nd) = io_ok" "fileEnv E' (calls nd') = io_ok"
    and "DecodeString s = Inr raw" "length raw = n"
    and "checkCanConnect (dec raw) (networkHeaders nd) = Inr False"
    and "connectTip E s nd = (nd', r)"
    and "checkCanConnect (dec raw) (networkHeaders nd') = Inr False"
  shows "r = Inr False \<and> chain_inv n dec (networkHeaders nd') \<and>
    getTip (networkHeaders nd') = getTip (networkHeaders nd) - REWIND \<and>
    getClientTip (networkHeaders nd') = getTip (networkHeaders nd) \<and>
    (\<exists>m. getBlockHeader (getClientTip (networkHeaders nd')) (networkHeaders nd') = Inl (Err m)) \<and>
    getClientTip (networkHeaders (fst (connectTip E' s nd'))) = getClientTip (networkHeaders nd') - REWIND"
proof -
  let ?h = "networkHeaders nd"
  have t: "8 \<le> tip ?h - startPoint ?h" using assms(3) by (simp add: REWIND_def)
  have eq: "nd' = charge bumpCostError (setHeaders (rewound n ?h) (tick nd))" "r = Inr False"
    using connectTip_rewinds [OF assms(1,2) t assms(4,6,7,8)] assms(9) by simp_all
  have inv: "node_inv n dec nd'" using rewound_inv [OF assms(1) t] by (simp add: eq)
  have "connectTip E' s nd' =
      (charge bumpCostError (setHeaders (rewound n (networkHeaders nd')) (tick nd')), Inr False)"
    by (rule connectTip_rewinds [OF inv _ _ assms(5,6,7,10)])
      (use assms(2,3) in \<open>simp_all add: eq REWIND_def\<close>)
  moreover have "hdrs (networkHeaders nd') (tip ?h) = None" by (simp add: eq rewound_hdrs)
  ultimately show ?thesis
    using inv eq by (simp add: getTip_def getClientTip_def REWIND_def getBlockHeader_def)
qed

lemma ex_no_connect:
  "checkCanConnect (ex_dec (ex_raw 250)) (ex_store 20) = Inr False"
  "checkCanConnect (ex_dec (ex_raw 250)) (rewound 80 (ex_store 20)) = Inr False"
  by (simp_all add: checkCanConnect_def getTipHash_def getTip_def ex_store_hdrs rewound_hdrs ex_dec_sel)

theorem rewind_client_view_witness:
  "getClientTip (networkHeaders (fst (connectTip (ex_env 30) (EncodeToString (ex_raw 250)) (ex_node 20)))) = 19"
proof -
  let ?c = "connectTip (ex_env 30) (EncodeToString (ex_raw 250)) (ex_node 20)"
  have io: "fileEnv (ex_env 30) t = io_ok" for t by (simp add: ex_env_def)
  have inv: "chain_inv 80 ex_dec (networkHeaders (ex_node 20))" by (simp add: ex_chain_inv)
  have len: "length (ex_raw 250) = 80" by (simp add: ex_raw_def)
  have c: "?c = (charge bumpCostError (setHeaders (rewound 80 (ex_store 20)) (tick (ex_node 20))), Inr False)"
    using connectTip_rewinds [OF inv _ _ io Decode_Encode len] ex_no_connect(1) by simp
  have "getClientTip (networkHeaders (fst ?c)) = getTip (networkHeaders (ex_node 20))"
    using rewind_client_view [OF inv _ _ io io Decode_Encode len, of "fst ?c" "snd ?c"] ex_no_connect
    by (simp add: c REWIND_def)
  then show ?thesis by (simp add: getTip_def)
qed

section \<open>Healing a fork\<close>

text \<open>C2: a fork of at most \<open>REWIND\<close> headers heals by itself.  Our last headers are not the server's,
  but \<open>REWIND\<close> below our tip the chains agree.  The server notifies of the next block: it does not
  connect, and we rewind without telling the client anything.  The next notification, up to 2016
  headers higher, then makes the stored chain the server's from the point of agreement on, ends the
  recovery, and reports the new tip once.\<close>

theorem reorg_heals:
  assumes "chain_inv n dec (networkHeaders nd)" "synced (networkHeaders nd)" "connected nd"
    and "0 \<le> startPoint (networkHeaders nd)" "j = tip (networkHeaders nd) - REWIND" "startPoint (networkHeaders nd) \<le> j"
    and "server_chain n dec sraw j last_h" "answers E sraw last_h" "n < 2 ^ 50"
    and "hdrs (networkHeaders nd) j = Some a" "Hash a = Hash (dec (sraw j))"
    and "checkCanConnect (dec (sraw (j + REWIND + 1))) (networkHeaders nd) = Inr False"
    and "Height n1 = j + REWIND + 1" "HdrHex n1 = EncodeToString (sraw (Height n1))"
    and "Height n1 \<le> Height n2" "Height n2 \<le> last_h" "Height n2 - j \<le> 2016"
      "HdrHex n2 = EncodeToString (sraw (Height n2))"
  shows "\<exists>nd'. headerQueue E [Some n1, Some n2] nd = (nd', Inr True) \<and>
    chain_inv n dec (networkHeaders nd') \<and> \<not> recovery (networkHeaders nd') \<and>
    getTip (networkHeaders nd') = Height n2 \<and> tipChanges nd' = tipChanges nd @ [Height n2] \<and>
    (\<forall>k. j < k \<and> k \<le> Height n2 \<longrightarrow> hdrs (networkHeaders nd') k = Some (dec (sraw k))) \<and>
    (\<forall>k. k \<le> j \<longrightarrow> hdrs (networkHeaders nd') k = hdrs (networkHeaders nd) k)"
proof -
  let ?h = "networkHeaders nd"
  let ?n1 = "charge bumpCostError (setHeaders (rewound n ?h) (tick nd))"
  have io: "\<And>t. fileEnv E t = io_ok" using assms(8) by (simp add: answers_def)
  have t: "8 \<le> tip ?h - startPoint ?h" using assms(5,6) by (simp add: REWIND_def)
  have len: "length (sraw (Height n1)) = n" using assms(7) by (simp add: server_chain_def)
  have "connectTip E (HdrHex n1) nd = (?n1, Inr False)"
    unfolding assms(14) by (rule connectTip_rewinds [OF assms(1,2) t io Decode_Encode len])
      (use assms(12,13) in simp)
  then have step1: "headerQueueStep E (Some n1) nd = (?n1, Inr True)"
    using assms(5,6,13) by (simp add: headerQueueStep_def getTip_def REWIND_def)
  have "on_chain n dec sraw j ?n1"
    using rewound_inv [OF assms(1) t] assms(3,4,5,6,10,11)
    by (simp add: on_chain_def REWIND_def rewound_hdrs)
  then obtain nd' where step2: "headerQueueStep E (Some n2) ?n1 = (notifyTip nd', Inr True)"
    and c: "caught_up n dec sraw j (Height n2) ?n1 nd'"
    using queue_step_live [OF _ assms(7,8,9), of ?n1 n2] assms(13,15-18) by (auto simp: REWIND_def)
  have j: "j < Height n2" "j = tip ?h - 8" using assms(5,13,15) by (simp_all add: REWIND_def)
  show ?thesis
    using step1 step2 c j
    by (intro exI [of _ "notifyTip nd'"])
      (auto simp: caught_up_def on_chain_def getTip_def rewound_hdrs)
qed

text \<open>For the witness: a server whose chain leaves that of \<open>ex_store 20\<close> after height 11, with a
  header that names the same predecessor but has another hash.\<close>

definition ex_fork :: "int \<Rightarrow> bytes" where
  "ex_fork k =
     (if k \<le> 11 then ex_raw (nat k)
      else if k = 12 then replicate 79 12 @ [112]
      else ex_raw (nat (k + 100)))"

definition ex_fork_env :: node_env where
  "ex_fork_env =
     \<lparr>rpcBlockHeader = (\<lambda>_ k. Inr (EncodeToString (ex_fork k))),
      rpcBlockHeaders = (\<lambda>_ s c.
        Inr \<lparr>Count = c, HexConcat = EncodeToString (concat (map (\<lambda>j. ex_fork (s + int j)) [0..<nat c])),
             MaxCount = 2016\<rparr>),
      rpcSubscribeHeaders = (\<lambda>_. Inl (Err ''unused'')), fileEnv = (\<lambda>_. io_ok), ctxDone = (\<lambda>_. False)\<rparr>"

lemma ex_fork_answers: "answers ex_fork_env ex_fork 30"
  by (simp add: answers_def ex_fork_env_def)

lemma ex_fork_links:
  "11 \<le> k \<Longrightarrow> Prev (ex_dec (ex_fork (k + 1))) = Hash (ex_dec (ex_fork k))"
proof -
  assume "11 \<le> k"
  then consider "k = 11" | "k = 12" | "13 \<le> k" by linarith
  then show ?thesis
  proof cases
    case 3
    then have "of_nat (nat (k + 100)) + (1 :: byte) = of_nat (nat (k + 1 + 100))"
      by (simp add: nat_add_distrib)
    then show ?thesis using 3 by (simp add: ex_fork_def ex_dec_sel)
  next
    case 2
    then show ?thesis
      by (simp add: ex_fork_def ex_dec_sel)
        (simp add: ex_dec_def wire_header_def wire_libs_def ex_hash_def nth_append)
  next
    case 1
    then show ?thesis
      by (simp add: ex_fork_def ex_dec_sel)
        (simp add: ex_dec_def wire_header_def wire_libs_def)
  qed
qed

lemma ex_fork_chain: "server_chain 80 ex_dec ex_fork 11 30"
  using ex_fork_links by (simp add: server_chain_def) (simp add: ex_fork_def ex_raw_def)

theorem reorg_heals_witness:
  "\<exists>nd'. headerQueue ex_fork_env
      [Some \<lparr>Height = 20, HdrHex = EncodeToString (ex_fork 20)\<rparr>,
       Some \<lparr>Height = 21, HdrHex = EncodeToString (ex_fork 21)\<rparr>] (ex_node 20) = (nd', Inr True) \<and>
     tipChanges nd' = [21]"
proof -
  let ?n1 = "\<lparr>Height = 20, HdrHex = EncodeToString (ex_fork 20)\<rparr>"
  let ?n2 = "\<lparr>Height = 21, HdrHex = EncodeToString (ex_fork 21)\<rparr>"
  have inv: "chain_inv 80 ex_dec (networkHeaders (ex_node 20))" by (simp add: ex_chain_inv)
  have hash: "hdrs (networkHeaders (ex_node 20)) 11 = Some (ex_dec (ex_raw 11))"
    "Hash (ex_dec (ex_raw 11)) = Hash (ex_dec (ex_fork 11))"
    by (simp_all add: ex_store_hdrs ex_fork_def)
  have "checkCanConnect (ex_dec (ex_fork 20)) (ex_store 20) = Inr False"
    by (simp add: checkCanConnect_def getTipHash_def getTip_def ex_store_hdrs ex_dec_sel ex_fork_def)
  then show ?thesis
    using reorg_heals [OF inv _ _ _ _ _ ex_fork_chain ex_fork_answers _ hash, of ?n1 ?n2]
    by (auto simp: REWIND_def)
qed

section \<open>When the process stops\<close>

text \<open>A fork close to the start point stops the process: a header that does not connect while fewer
  than \<open>REWIND\<close> headers lie above the start point is a panic, whatever else holds.  (The comment and
  the panic text say \<open>tip <= startPoint+REWIND\<close>; with exactly \<open>REWIND\<close> headers above it the code
  still rewinds, down to the start point.)\<close>

theorem reorg_near_start_panics:
  assumes "chain_inv n dec (networkHeaders nd)" "DecodeString s = Inr raw" "length raw = n"
    and "checkCanConnect (dec raw) (networkHeaders nd) = Inr False"
    and "synced (networkHeaders nd)" "fileEnv E (calls nd) = io_ok"
  shows "is_panic (snd (connectTip E s nd)) \<longleftrightarrow>
    tip (networkHeaders nd) < startPoint (networkHeaders nd) + REWIND"
proof (cases "tip (networkHeaders nd) < startPoint (networkHeaders nd) + REWIND")
  case True
  have rr: "\<exists>m. reorgRecovery E nd = (nd, Inl (Panic m))"
    using True by (simp add: reorgRecovery_def getTip_def)
  have conv: "convertStringHdrToBlkHdr s (networkHeaders nd) = Inr (dec raw, raw)"
    using assms(2,3) chain_invD(5) [OF assms(1)] header_codec.des_exact [OF chain_invD(4) [OF assms(1)] assms(3)]
    by (simp add: convertStringHdrToBlkHdr_def)
  have "is_panic (snd (connectTip E s nd))"
  proof (cases "dbgDumpTipHashes 3 (getTip (networkHeaders nd)) (networkHeaders nd)")
    case (Inl e)
    then show ?thesis
      using conv assms(4) dbgDump_no_err by (cases e) (auto simp: connectTip_def Let_def)
  next
    case (Inr u)
    then show ?thesis using rr conv assms(4) by (auto simp: connectTip_def Let_def)
  qed
  then show ?thesis using True by simp
next
  case False
  then have "8 \<le> tip (networkHeaders nd) - startPoint (networkHeaders nd)" by (simp add: REWIND_def)
  from connectTip_rewinds [OF assms(1,5) this assms(6,2,3,4)] show ?thesis
    using False by simp
qed

theorem reorg_near_start_panics_witness:
  "\<not> is_panic (snd (connectTip (ex_env 30) (EncodeToString (ex_raw 250)) (ex_node 20)))"
proof -
  have inv: "chain_inv 80 ex_dec (networkHeaders (ex_node 20))" by (simp add: ex_chain_inv)
  have len: "length (ex_raw 250) = 80" by (simp add: ex_raw_def)
  show ?thesis
    using reorg_near_start_panics [OF inv Decode_Encode len] ex_no_connect(1)
    by (simp add: ex_env_def REWIND_def)
qed

text \<open>C35: a server can stop the process with one notification and one answer.  A notified height
  \<open>2 ^ 59\<close> above our tip makes the queue request a chunk; the answer \<open>count = 2 ^ 59\<close> with no
  headers passes every check, because the product of the header length (160 hex digits) and the
  count wraps to 0, and slicing the first header out of the empty string panics.\<close>

theorem forged_count_panics:
  assumes "headerSize (networkHeaders nd) = 80" "connected nd" "0 \<le> tip (networkHeaders nd)"
    and "startPoint (networkHeaders nd) \<le> tip (networkHeaders nd)"
    and "Height res = tip (networkHeaders nd) + 2 ^ 59"
    and "rpcBlockHeaders E (calls nd) (tip (networkHeaders nd) + 1) (2 ^ 59) =
      Inr \<lparr>Count = 2 ^ 59, HexConcat = [], MaxCount = 2016\<rparr>"
  shows "is_panic (snd (headerQueueStep E (Some res) nd))"
proof -
  let ?n1 = "charge (bumpCostString []) (tick nd)"
  have w: "wrap64 (160 * 2 ^ 59) = 0" "wrap64 0 = 0" "wrap64 160 = 160" by (simp_all add: wrap64_def)
  have b: "blockHeaders E (tip (networkHeaders nd) + 1) (2 ^ 59) nd =
      (?n1, Inr \<lparr>Count = 2 ^ 59, HexConcat = [], MaxCount = 2016\<rparr>)"
    using assms(2,6) by (simp add: blockHeaders_def)
  have "chunk_loop E 160 [] m 0 0 ?n1 = (?n1, Inl (Panic ''slice bounds out of range''))" if "0 < m" for m
    using that by (cases m) (simp_all add: w slice_def)
  then have "updateFromChunk E (tip (networkHeaders nd) + 1) (tip (networkHeaders nd) + 2 ^ 59) nd =
      (?n1, Inl (Panic ''slice bounds out of range''))"
    using b assms(1) w by (simp add: updateFromChunk_def Let_def)
  then have "syncHeadersOntoOurTip E (Height res) nd = (?n1, Inl (Panic ''slice bounds out of range''))"
    using assms(5) by (simp add: syncHeadersOntoOurTip_def getTip_def REWIND_def Let_def)
  moreover have "\<not> Height res < startPoint (networkHeaders nd)" "\<not> Height res \<le> tip (networkHeaders nd)"
    "Height res \<noteq> tip (networkHeaders nd) + 1"
    using assms(3-5) by simp_all
  ultimately show ?thesis by (simp add: headerQueueStep_def getTip_def Let_def)
qed

theorem forged_count_panics_witness:
  "is_panic (snd (headerQueueStep (silent_env\<lparr>rpcBlockHeaders :=
      (\<lambda>_ _ _. Inr \<lparr>Count = 2 ^ 59, HexConcat = [], MaxCount = 2016\<rparr>)\<rparr>)
     (Some \<lparr>Height = 4 + 2 ^ 59, HdrHex = []\<rparr>) (ex_node 5)))"
  by (rule forged_count_panics) (simp_all add: silent_env_def)

end
