(* ===== verification/Header_Initial.thy ===== *)
theory Header_Initial
  imports Header_Reorg
begin

text \<open>
  The initial synchronisation \<open>syncNetworkHeaders\<close>: when it succeeds against a server whose counts
  fit the headers it sends, the chain invariant holds; with an honest server it does succeed, with
  fuel for one request per 2016 missing headers; and with a count smaller than the headers sent it
  reports success on a store whose file and tip disagree.
\<close>

section \<open>Gathering\<close>

lemma wrap64_add: "wrap64 (wrap64 a + b) = wrap64 (a + b)"
proof -
  have "((a + 2 ^ 63) mod 2 ^ 64 - 2 ^ 63 + b + 2 ^ 63) mod 2 ^ 64 = (a + 2 ^ 63 + b) mod (2 ^ 64 :: int)"
    by (simp add: mod_add_left_eq)
  then show ?thesis by (simp add: wrap64_def algebra_simps)
qed

text \<open>The state between two requests: a file of whole headers, empty maps, and \<open>maybeTip\<close> the height
  of the last header in the file.\<close>

definition gathered :: "nat \<Rightarrow> int \<Rightarrow> HeaderDeserializer \<Rightarrow> int \<Rightarrow> node \<Rightarrow> bool" where
  "gathered k s des maybeTip nd \<longleftrightarrow>
     (let h = networkHeaders nd in
      headerSize h = int k \<and> 0 < k \<and> headerDeserialzer h = des \<and> startPoint h = s \<and> hdrs h = Map.empty \<and>
      \<not> synced h \<and>
      (\<exists>f m. hdrFile h = Some f \<and> length f = m * k \<and> maybeTip = wrap64 (s + int m - 1)))"

definition counts_ok :: "nat \<Rightarrow> node_env \<Rightarrow> bool" where
  "counts_ok k E \<longleftrightarrow>
     (\<forall>t s c res raw. rpcBlockHeaders E t s c = Inr res \<and> 0 < Count res \<and>
        DecodeString (HexConcat res) = Inr raw \<longrightarrow> int (length raw) = Count res * int k)"

lemma blockHeaders_res:
  assumes "blockHeaders E s c nd = (n1, Inr res)"
  shows "rpcBlockHeaders E (calls nd) s c = Inr res"
  using assms by (auto simp: blockHeaders_def split: if_splits sum.splits)

lemma gathered_append:
  assumes g: "gathered k s des maybeTip nd" and b: "blockHeaders E sh c nd = (n1, Inr res)"
    and cnt: "counts_ok k E" "0 < Count res" and raw: "DecodeString (HexConcat res) = Inr raw"
    and ap: "appendHeadersFile io raw (networkHeaders n1) = (h1, Inr m)"
  shows "gathered k s des (wrap64 (maybeTip + Count res)) (setHeaders h1 (tick n1))"
proof -
  have h: "networkHeaders n1 = networkHeaders nd" using blockHeaders_headers [of E sh c nd] b by simp
  obtain f l where f: "hdrFile (networkHeaders nd) = Some f" "length f = l * k"
    "maybeTip = wrap64 (s + int l - 1)"
    using g by (auto simp: gathered_def Let_def)
  have k: "0 < k" using g by (simp add: gathered_def Let_def)
  have h1: "h1 = (networkHeaders nd)\<lparr>hdrFile := Some (f @ raw)\<rparr>"
    using appendHeadersFile_Inr [of "networkHeaders nd" f] f(1) ap h by simp
  have c: "int (length raw) = Count res * int k"
    using cnt raw blockHeaders_res [OF b] by (simp add: counts_ok_def)
  have "int (length raw) = int (nat (Count res) * k)" using c cnt(2) by simp
  then have "length raw = nat (Count res) * k" by (simp only: of_nat_eq_iff)
  then have "length (f @ raw) = (l + nat (Count res)) * k" using f(2) by (simp add: distrib_right)
  moreover have "wrap64 (maybeTip + Count res) = wrap64 (s + int (l + nat (Count res)) - 1)"
    using cnt(2) unfolding f(3) wrap64_add by (intro arg_cong [of _ _ wrap64]) simp
  ultimately show ?thesis
    using g h1 unfolding gathered_def Let_def by (auto simp del: append_assoc)
qed

lemma gathered_same:
  "gathered k s des t nd \<Longrightarrow> networkHeaders n1 = networkHeaders nd \<Longrightarrow> gathered k s des t n1"
  by (simp add: gathered_def)

lemma gather_gathered:
  "counts_ok k E \<Longrightarrow> gathered k s des mt nd \<Longrightarrow> gather E fuel sh mt nd = Some (nd', Inr (Some t)) \<Longrightarrow>
   gathered k s des t nd'"
proof (induction fuel arbitrary: sh mt nd)
  case 0
  then show ?case by simp
next
  case (Suc fuel)
  obtain n1 r where b: "blockHeaders E (sh + blockCount) blockCount nd = (n1, r)" by fastforce
  have h: "networkHeaders n1 = networkHeaders nd"
    using blockHeaders_headers [of E "sh + blockCount" blockCount nd] b by simp
  have nc: "\<not> ctxDone E (calls nd)" using Suc.prems(3) by (auto split: if_splits)
  obtain res where res: "r = Inr res" using Suc.prems(3) b nc by (cases r) simp_all
  show ?case
  proof (cases "0 < Count res")
    case False
    then show ?thesis using Suc.prems b res h nc by (auto intro: gathered_same)
  next
    case True
    obtain raw where raw: "DecodeString (HexConcat res) = Inr raw"
      using Suc.prems(3) b res True nc by (cases "DecodeString (HexConcat res)") simp_all
    obtain h1 q where ap: "appendHeadersFile (fileEnv E (calls n1)) raw (networkHeaders n1) = (h1, q)" by fastforce
    obtain m where m: "q = Inr m" using Suc.prems(3) b res True raw ap nc by (cases q) simp_all
    have g: "gathered k s des (wrap64 (mt + Count res)) (setHeaders h1 (tick n1))"
      using gathered_append [OF Suc.prems(2) b [unfolded res] Suc.prems(1) True raw] ap m by simp
    then show ?thesis
      using Suc.prems(3) b res True raw ap m nc Suc.IH [OF Suc.prems(1) g]
      by (auto simp: Let_def split: if_splits)
  qed
qed

lemma gatherFirst_gathered:
  assumes "counts_ok k E" "gathered k s des mt nd" "gatherFirst E fuel sh mt nd = Some (nd', Inr (Some t))"
  shows "gathered k s des t nd'"
proof -
  obtain n1 r where b: "blockHeaders E sh blockCount nd = (n1, r)" by fastforce
  have h: "networkHeaders n1 = networkHeaders nd" using blockHeaders_headers [of E sh blockCount nd] b by simp
  obtain res where res: "r = Inr res" using assms(3) b by (cases r) (simp_all add: gatherFirst_def)
  show ?thesis
  proof (cases "0 < Count res")
    case False
    then show ?thesis using assms b res h by (auto simp: gatherFirst_def intro: gathered_same)
  next
    case True
    obtain raw where raw: "DecodeString (HexConcat res) = Inr raw"
      using assms(3) b res True by (cases "DecodeString (HexConcat res)") (simp_all add: gatherFirst_def)
    obtain h1 q where ap: "appendHeadersFile (fileEnv E (calls n1)) raw (networkHeaders n1) = (h1, q)" by fastforce
    obtain m where m: "q = Inr m" using assms(3) b res True raw ap by (cases q) (simp_all add: gatherFirst_def)
    have g: "gathered k s des (wrap64 (mt + Count res)) (setHeaders h1 (tick n1))"
      using gathered_append [OF assms(2) b [unfolded res] assms(1) True raw] ap m by simp
    then show ?thesis
      using assms(3) b res True raw ap m gather_gathered [OF assms(1) g]
      by (auto simp: gatherFirst_def Let_def split: if_splits)
  qed
qed

lemma appendHeadersFile_synced:
  "appendHeadersFile io raw h = (h', r) \<Longrightarrow> synced h' = synced h"
  by (auto simp: appendHeadersFile_def openFile_def split: sum.splits option.splits)

lemma gather_synced:
  "gather E fuel sh mt nd = Some (nd', q) \<Longrightarrow> synced (networkHeaders nd') = synced (networkHeaders nd)"
proof (induction fuel arbitrary: sh mt nd)
  case 0
  then show ?case by simp
next
  case (Suc fuel)
  obtain n1 r where b: "blockHeaders E (sh + blockCount) blockCount nd = (n1, r)" by fastforce
  have h: "networkHeaders n1 = networkHeaders nd"
    using blockHeaders_headers [of E "sh + blockCount" blockCount nd] b by simp
  show ?case
    using Suc.prems b h
    by (auto simp: Let_def dest!: Suc.IH split: if_splits sum.splits prod.splits
        dest: appendHeadersFile_synced)
qed

lemma gatherFirst_synced:
  assumes "gatherFirst E fuel sh mt nd = Some (nd', q)"
  shows "synced (networkHeaders nd') = synced (networkHeaders nd)"
proof -
  obtain n1 r where b: "blockHeaders E sh blockCount nd = (n1, r)" by fastforce
  have h: "networkHeaders n1 = networkHeaders nd" using blockHeaders_headers [of E sh blockCount nd] b by simp
  show ?thesis
    using assms b h
    by (auto simp: gatherFirst_def Let_def dest!: gather_synced split: if_splits sum.splits prod.splits
        dest: appendHeadersFile_synced)
qed

section \<open>Storing and verifying\<close>

lemma readAll_Inr:
  assumes "readAllBytesFromFile io h = (h', Inr b)"
  shows "hdrFile h' = Some b \<and> h' = h\<lparr>hdrFile := Some b\<rparr>"
  using assms
  by (auto simp: readAllBytesFromFile_def openFile_def split: option.splits sum.splits)

lemma finishSync_chain:
  assumes codec: "header_codec des k dec" and g: "gathered k s des t nd" and s: "0 \<le> s"
    and fin: "finishSync E t nd = (nd', Inr ())"
    and small: "hdrFile (networkHeaders nd') = Some f" "s + int (length f) < 2 ^ 63"
  shows "store_inv k dec (networkHeaders nd') \<and> links_ok (networkHeaders nd') \<and> synced (networkHeaders nd') \<and>
    tip (networkHeaders nd') = s + int (length f div k) - 1"
proof -
  let ?h = "networkHeaders nd"
  obtain h1 r where rd: "readAllBytesFromFile (fileEnv E (calls nd)) ?h = (h1, r)" by fastforce
  obtain b where b: "r = Inr b" using fin rd by (cases r) (simp_all add: finishSync_def)
  note h1 = readAll_Inr [OF rd [unfolded b]]
  obtain f0 m where f0: "hdrFile ?h = Some f0" "length f0 = m * k" "t = wrap64 (s + int m - 1)"
    and sel: "headerSize ?h = int k" "0 < k" "headerDeserialzer ?h = des" "startPoint ?h = s" "hdrs ?h = Map.empty"
    using g by (auto simp: gathered_def Let_def)
  have "b = f0" using rd b f0(1) by (auto simp: readAllBytesFromFile_def openFile_def split: option.splits sum.splits)
  have blen: "length b = m * k" using f0(2) \<open>b = f0\<close> by simp
  have c1: "header_codec (headerDeserialzer h1) k dec" "headerSize h1 = int k"
    using codec sel h1 by simp_all
  obtain bm where st: "store b (startPoint h1) h1 =
      (h1\<lparr>hdrs := hdrs h1 ++ map_of_file k dec (startPoint h1) (startPoint h1 + int m - 1) b, blkHdrs := bm\<rparr>, Inr ())"
    using store_file [OF c1 blen] by blast
  let ?h3 = "setTip t (fst (store b (startPoint h1) h1))"
  have ver: "verifyAll ?h3 = Inr ()" and nd': "networkHeaders nd' = ?h3\<lparr>synced := True\<rparr>"
    using fin rd b st by (auto simp: finishSync_def Let_def split: sum.splits)
  have "f = b" using small(1) nd' st h1 by (simp add: setTip_def)
  then have "s + int m - 1 < 2 ^ 63"
  proof -
    have "m \<le> m * k" using sel(2) by simp
    then have "int m \<le> int (length f)" using \<open>f = b\<close> blen by (simp only: of_nat_le_iff)
    then show ?thesis using small(2) by linarith
  qed
  then have t: "t = s + int m - 1" using f0(3) s by (simp add: wrap64_id)
  have inv: "store_inv k dec (networkHeaders nd')"
    using c1 sel h1 st blen t by (simp add: nd' store_inv_def setTip_def)
  moreover have "links_ok (networkHeaders nd')"
  proof -
    have "links_ok ?h3"
      using ver verifyAll_links [of ?h3] st sel h1 t by (simp add: setTip_def)
    then show ?thesis by (simp add: nd' links_ok_def)
  qed
  ultimately show ?thesis
    using t \<open>f = b\<close> blen sel(2) by (simp add: nd' setTip_def)
qed

text \<open>C14: an initial synchronisation that ends with the node synced has established the store
  invariant: file and map hold the same headers, each names its predecessor's hash, and the tip is
  the height of the last header of the file.  The server may send anything, as long as the counts it
  announces are those of the headers it sends; the file may have been there before.\<close>

theorem sync_establishes_chain:
  assumes "header_codec (headerDeserialzer (networkHeaders nd)) k dec" "headerSize (networkHeaders nd) = int k"
    and "hdrs (networkHeaders nd) = Map.empty" "\<not> synced (networkHeaders nd)" "0 \<le> startPoint (networkHeaders nd)"
    and "counts_ok k E" "syncNetworkHeaders E fuel nd = Some (nd', Inr ())" "synced (networkHeaders nd')"
    and "hdrFile (networkHeaders nd') = Some f"
      "startPoint (networkHeaders nd) + int (length f) < 2 ^ 63"
  shows "store_inv k dec (networkHeaders nd') \<and> links_ok (networkHeaders nd') \<and>
    getTip (networkHeaders nd') = startPoint (networkHeaders nd) + int (length f div k) - 1"
proof -
  let ?h = "networkHeaders nd"
  have k: "0 < k" using assms(1) by (rule header_codec.hsize_pos)
  obtain h1 r where rd: "readAllBytesFromFile (fileEnv E (calls nd)) ?h = (h1, r)" by fastforce
  obtain b where b: "r = Inr b" using assms(7) rd by (cases r) (simp_all add: syncNetworkHeaders_def Let_def)
  note h1 = readAll_Inr [OF rd [unfolded b]]
  let ?n1 = "setHeaders h1 (tick nd)"
  obtain m where m: "bytesToNumHdrs h1 (int (length b)) = Inr m"
    using assms(7) rd b by (cases "bytesToNumHdrs h1 (int (length b))") (simp_all add: syncNetworkHeaders_def Let_def)
  have len: "int (length b) = m * int k" "0 \<le> m"
    using bytesToNumHdrs_Inr [OF m] h1 assms(2) by simp_all
  then have "int (length b) = int (nat m * k)" by simp
  then have blen: "length b = nat m * k" by (simp only: of_nat_eq_iff)
  let ?mt = "wrap64 (startPoint ?h + m - 1)"
  obtain n2 q where gf: "gatherFirst E fuel (startPoint ?h + m) ?mt ?n1 = Some (n2, q)"
    using assms(7) rd b m by (cases "gatherFirst E fuel (startPoint ?h + m) ?mt ?n1")
      (auto simp: syncNetworkHeaders_def Let_def)
  have sync: "(case q of Inl e \<Rightarrow> (n2, Inl e) | Inr None \<Rightarrow> (n2, Inr ()) | Inr (Some t) \<Rightarrow> finishSync E t n2) =
      (nd', Inr ())"
    using assms(7) rd b m gf
    by (auto simp: syncNetworkHeaders_def Let_def split: sum.splits option.splits)
  have g: "gathered k (startPoint ?h) (headerDeserialzer ?h) ?mt ?n1"
    using h1 assms(2,3,4) k blen len(2) by (auto simp: gathered_def intro!: exI [of _ "nat m"])
  have "q \<noteq> Inr None"
    using gatherFirst_synced [OF gf] h1 assms(4,8) sync by auto
  then obtain t where t: "q = Inr (Some t)" using sync by (cases q) auto
  show ?thesis
    using finishSync_chain [OF assms(1) gatherFirst_gathered [OF assms(6) g gf [unfolded t]] assms(5) _ assms(9,10)]
      sync t by (simp add: getTip_def)
qed

section \<open>An honest server\<close>

definition chain_file :: "(int \<Rightarrow> bytes) \<Rightarrow> int \<Rightarrow> nat \<Rightarrow> bytes" where
  "chain_file sraw s m = concat (map (\<lambda>j. sraw (s + int j)) [0..<m])"

definition serves_sync :: "node_env \<Rightarrow> (int \<Rightarrow> bytes) \<Rightarrow> int \<Rightarrow> bool" where
  "serves_sync E sraw last_h \<longleftrightarrow>
     last_h < 2 ^ 32 \<and>
     (\<forall>t s. 0 \<le> s \<longrightarrow> rpcBlockHeaders E t s blockCount =
        (let m = nat (min 2016 (last_h + 1 - s)) in
         Inr \<lparr>Count = int m, HexConcat = EncodeToString (chain_file sraw s m), MaxCount = 2016\<rparr>)) \<and>
     (\<forall>t. fileEnv E t = io_ok) \<and> (\<forall>t. \<not> ctxDone E t)"

lemma chain_file_append:
  "chain_file sraw s (m + c) = chain_file sraw s m @ chain_file sraw (s + int m) c"
proof -
  have "[0..<m + c] = [0..<m] @ map (\<lambda>j. m + j) [0..<c]"
    by (induction c) simp_all
  then show ?thesis by (simp add: chain_file_def comp_def add.assoc)
qed

lemma length_chain_file: "(\<And>x. length (sraw x) = k) \<Longrightarrow> length (chain_file sraw s m) = m * k"
  by (simp add: chain_file_def length_concat_const)

text \<open>One request for the headers from height \<open>s + m\<close> on, of a server with \<open>l\<close> headers from \<open>s\<close> on.\<close>

lemma request_chunk:
  assumes sv: "serves_sync E sraw last_h" "\<And>x. length (sraw x) = k" "0 < k" "0 \<le> s"
    and h: "hdrFile (networkHeaders nd) = Some (chain_file sraw s m)" "headerSize (networkHeaders nd) = int k"
    and c: "connected nd" and l: "l = nat (last_h + 1 - s)" "m \<le> l"
  obtains n1 where
    "blockHeaders E (s + int m) blockCount nd = (n1, Inr \<lparr>Count = int (min 2016 (l - m)),
        HexConcat = EncodeToString (chain_file sraw (s + int m) (min 2016 (l - m))), MaxCount = 2016\<rparr>)"
    "networkHeaders n1 = networkHeaders nd" "connected n1"
    "appendHeadersFile (fileEnv E t) (chain_file sraw (s + int m) (min 2016 (l - m))) (networkHeaders n1) =
       ((networkHeaders nd)\<lparr>hdrFile := Some (chain_file sraw s (m + min 2016 (l - m)))\<rparr>, Inr (int (min 2016 (l - m))))"
proof -
  let ?c = "min 2016 (l - m)"
  let ?n1 = "charge (bumpCostString (EncodeToString (chain_file sraw (s + int m) ?c))) (tick nd)"
  have e: "nat (min 2016 (last_h + 1 - (s + int m))) = ?c"
    unfolding l(1) by (simp add: min_def) linarith
  have b: "blockHeaders E (s + int m) blockCount nd = (?n1, Inr \<lparr>Count = int ?c,
        HexConcat = EncodeToString (chain_file sraw (s + int m) ?c), MaxCount = 2016\<rparr>)"
  proof -
    have "rpcBlockHeaders E (calls nd) (s + int m) blockCount =
        (let x = nat (min 2016 (last_h + 1 - (s + int m))) in
         Inr \<lparr>Count = int x, HexConcat = EncodeToString (chain_file sraw (s + int m) x), MaxCount = 2016\<rparr>)"
      using sv(1) sv(4) unfolding serves_sync_def by (metis add_increasing2 of_nat_0_le_iff)
    then show ?thesis using c unfolding e Let_def by (simp add: blockHeaders_def)
  qed
  have "length (chain_file sraw (s + int m) ?c) = ?c * k" using sv(2) by (rule length_chain_file)
  then have "appendHeadersFile (fileEnv E t) (chain_file sraw (s + int m) ?c) (networkHeaders nd) =
       ((networkHeaders nd)\<lparr>hdrFile := Some (chain_file sraw s m @ chain_file sraw (s + int m) ?c)\<rparr>, Inr (int ?c))"
    using sv(1,3) h by (intro appendHeadersFile_ok [where n = k and m = ?c]) (simp_all add: serves_sync_def io_ok_def)
  then show ?thesis using b c by (intro that [of ?n1]) (simp_all add: chain_file_append)
qed

lemma gather_live:
  assumes sv: "serves_sync E sraw last_h" "\<And>x. length (sraw x) = k" "0 < k" "0 \<le> s"
    and l: "l = nat (last_h + 1 - s)" "s \<le> last_h"
  shows "hdrFile (networkHeaders nd) = Some (chain_file sraw s m) \<Longrightarrow> headerSize (networkHeaders nd) = int k \<Longrightarrow>
    connected nd \<Longrightarrow> m \<le> l \<Longrightarrow> l - m < fuel * 2016 \<Longrightarrow>
    \<exists>nd'. gather E fuel (s + int m - blockCount) (s + int m - 1) nd = Some (nd', Inr (Some (s + int l - 1))) \<and>
      networkHeaders nd' = (networkHeaders nd)\<lparr>hdrFile := Some (chain_file sraw s l)\<rparr>"
proof (induction fuel arbitrary: m nd)
  case 0
  then show ?case by simp
next
  case (Suc fuel)
  let ?c = "min 2016 (l - m)"
  obtain n1 where b: "blockHeaders E (s + int m) blockCount nd = (n1, Inr \<lparr>Count = int ?c,
        HexConcat = EncodeToString (chain_file sraw (s + int m) ?c), MaxCount = 2016\<rparr>)"
    and n1: "networkHeaders n1 = networkHeaders nd" "connected n1"
    and ap: "appendHeadersFile (fileEnv E (calls n1)) (chain_file sraw (s + int m) ?c) (networkHeaders n1) =
       ((networkHeaders nd)\<lparr>hdrFile := Some (chain_file sraw s (m + ?c))\<rparr>, Inr (int ?c))"
    using request_chunk [OF sv Suc.prems(1,2,3) l(1) Suc.prems(4)] by metis
  have nc: "\<not> ctxDone E t" for t using sv(1) by (simp add: serves_sync_def)
  have bound: "s + int l - 1 < 2 ^ 63"
    using l sv(1,4) Suc.prems(4) by (auto simp: serves_sync_def)
  have w: "wrap64 (s + int m - 1 + int ?c) = s + int (m + ?c) - 1"
    using bound sv(4) Suc.prems(4) by (subst wrap64_id) simp_all
  let ?n2 = "setHeaders ((networkHeaders nd)\<lparr>hdrFile := Some (chain_file sraw s (m + ?c))\<rparr>) (tick n1)"
  show ?case
  proof (cases "2016 \<le> l - m")
    case True
    then have c: "?c = 2016" by simp
    have "\<exists>nd'. gather E fuel (s + int (m + 2016) - blockCount) (s + int (m + 2016) - 1) ?n2 =
          Some (nd', Inr (Some (s + int l - 1))) \<and>
        networkHeaders nd' = (networkHeaders ?n2)\<lparr>hdrFile := Some (chain_file sraw s l)\<rparr>"
      by (rule Suc.IH) (use Suc.prems n1(2) True c in simp_all)
    moreover have "s + int (m + 2016) - blockCount = s + int m - blockCount + blockCount"
      by (simp add: blockCount_def)
    ultimately show ?thesis
      using b n1 ap w nc c by (simp add: blockCount_def Let_def)
  next
    case False
    then have c: "?c = l - m" "m + ?c = l" using Suc.prems(4) by simp_all
    show ?thesis
    proof (cases "l = m")
      case True
      then show ?thesis using b n1 nc c Suc.prems(1) by simp
    next
      case ne: False
      have lt: "int l - int m < 2016" using False Suc.prems(4) by linarith
      then show ?thesis
        using ne b n1 ap w nc c Suc.prems(4) by (simp add: blockCount_def Let_def of_nat_diff lt)
    qed
  qed
qed

lemma gatherFirst_live:
  assumes sv: "serves_sync E sraw last_h" "\<And>x. length (sraw x) = k" "0 < k" "0 \<le> s"
    and l: "l = nat (last_h + 1 - s)" "s \<le> last_h"
    and h: "hdrFile (networkHeaders nd) = Some (chain_file sraw s m)" "headerSize (networkHeaders nd) = int k"
    and c: "connected nd" and m: "m \<le> l" "l < fuel * 2016"
  shows "\<exists>nd'. gatherFirst E fuel (s + int m) (s + int m - 1) nd = Some (nd', Inr (Some (s + int l - 1))) \<and>
      networkHeaders nd' = (networkHeaders nd)\<lparr>hdrFile := Some (chain_file sraw s l)\<rparr>"
proof -
  let ?c = "min 2016 (l - m)"
  obtain n1 where b: "blockHeaders E (s + int m) blockCount nd = (n1, Inr \<lparr>Count = int ?c,
        HexConcat = EncodeToString (chain_file sraw (s + int m) ?c), MaxCount = 2016\<rparr>)"
    and n1: "networkHeaders n1 = networkHeaders nd" "connected n1"
    and ap: "appendHeadersFile (fileEnv E (calls n1)) (chain_file sraw (s + int m) ?c) (networkHeaders n1) =
       ((networkHeaders nd)\<lparr>hdrFile := Some (chain_file sraw s (m + ?c))\<rparr>, Inr (int ?c))"
    using request_chunk [OF sv h c l(1) m(1)] by metis
  have bound: "s + int l - 1 < 2 ^ 63"
    using l sv(1,4) m(1) by (auto simp: serves_sync_def)
  have w: "wrap64 (s + int m - 1 + int ?c) = s + int (m + ?c) - 1"
    using bound sv(4) m(1) by (subst wrap64_id) simp_all
  let ?n2 = "setHeaders ((networkHeaders nd)\<lparr>hdrFile := Some (chain_file sraw s (m + ?c))\<rparr>) (tick n1)"
  show ?thesis
  proof (cases "2016 \<le> l - m")
    case True
    then have c: "?c = 2016" by simp
    have "\<exists>nd'. gather E fuel (s + int (m + 2016) - blockCount) (s + int (m + 2016) - 1) ?n2 =
          Some (nd', Inr (Some (s + int l - 1))) \<and>
        networkHeaders nd' = (networkHeaders ?n2)\<lparr>hdrFile := Some (chain_file sraw s l)\<rparr>"
      by (rule gather_live [OF sv l]) (use h m n1(2) True c in simp_all)
    then show ?thesis
      using b n1 ap w c by (simp add: gatherFirst_def blockCount_def Let_def)
  next
    case False
    then have c: "?c = l - m" "m + ?c = l" using m(1) by simp_all
    have lt: "int l - int m < 2016" using False m(1) by linarith
    show ?thesis
    proof (cases "l = m")
      case True
      then show ?thesis using b n1 c h(1) by (simp add: gatherFirst_def)
    next
      case ne: False
      then show ?thesis
        using b n1 ap w c m(1) by (simp add: gatherFirst_def blockCount_def Let_def of_nat_diff lt)
    qed
  qed
qed

lemma readAll_io_ok:
  "fileEnv E t = io_ok \<Longrightarrow> hdrFile h = Some f \<Longrightarrow> readAllBytesFromFile (fileEnv E t) h = (h, Inr f)"
  by (simp add: readAllBytesFromFile_def openFile_def statFileSize_def io_ok_def)

lemma map_of_chain_file:
  assumes "\<And>x. length (sraw x) = k" and "s \<le> x" and "x < s + int l"
  shows "map_of_file k dec s (s + int l - 1) (chain_file sraw s l) x = Some (dec (sraw x))"
proof -
  have "chunk k (nat (x - s)) (chain_file sraw s l) = sraw (s + int ([0..<l] ! nat (x - s)))"
    unfolding chain_file_def by (rule chunk_concat) (use assms in auto)
  then show ?thesis using assms(2,3) by (simp add: map_of_file_def)
qed

lemma sync_live:
  assumes "header_codec (headerDeserialzer (networkHeaders nd)) k dec" "headerSize (networkHeaders nd) = int k"
    and "hdrs (networkHeaders nd) = Map.empty" "connected nd" "s = startPoint (networkHeaders nd)" "0 \<le> s"
    and "s \<le> last_h" "serves_sync E sraw last_h" "server_chain k dec sraw s last_h"
    and "hdrFile (networkHeaders nd) = Some (chain_file sraw s m)" "m \<le> nat (last_h + 1 - s)"
    and "nat (last_h + 1 - s) < fuel * 2016"
  shows "\<exists>nd'. syncNetworkHeaders E fuel nd = Some (nd', Inr ()) \<and>
    chain_inv k dec (networkHeaders nd') \<and> synced (networkHeaders nd') \<and> getTip (networkHeaders nd') = last_h \<and>
    startPoint (networkHeaders nd') = s \<and>
    (\<forall>x. s \<le> x \<and> x \<le> last_h \<longrightarrow> hdrs (networkHeaders nd') x = Some (dec (sraw x)))"
proof -
  let ?h = "networkHeaders nd" and ?l = "nat (last_h + 1 - s)"
  have k: "0 < k" using assms(1) by (rule header_codec.hsize_pos)
  have len: "\<And>x. length (sraw x) = k" using assms(9) by (simp add: server_chain_def)
  have io: "\<And>t. fileEnv E t = io_ok" using assms(8) by (simp add: serves_sync_def)
  have hs: "?h\<lparr>hdrFile := Some (chain_file sraw s m)\<rparr> = ?h" using assms(10) by simp
  have rd: "readAllBytesFromFile (fileEnv E (calls nd)) ?h = (?h, Inr (chain_file sraw s m))"
    by (rule readAll_io_ok [OF io assms(10)])
  have num: "bytesToNumHdrs ?h (int (length (chain_file sraw s m))) = Inr (int m)"
    by (rule bytesToNumHdrs_file [OF assms(2) k]) (simp add: length_chain_file [OF len])
  have l: "s + int ?l - 1 = last_h" using assms(7) by simp
  have "last_h < 2 ^ 32" using assms(8) by (simp add: serves_sync_def)
  then have mt: "wrap64 (s + int m - 1) = s + int m - 1"
    using assms(6,7,11) by (intro wrap64_id) simp_all
  let ?n1 = "setHeaders ?h (tick nd)"
  have "hdrFile (networkHeaders ?n1) = Some (chain_file sraw s m)" "headerSize (networkHeaders ?n1) = int k"
    "connected ?n1"
    using assms(2,4,10) by simp_all
  from gatherFirst_live [OF assms(8) len k assms(6) refl assms(7) this assms(11,12)]
  obtain n2 where gf: "gatherFirst E fuel (s + int m) (s + int m - 1) ?n1 = Some (n2, Inr (Some last_h))"
    and n2: "networkHeaders n2 = ?h\<lparr>hdrFile := Some (chain_file sraw s ?l)\<rparr>"
    unfolding l by auto
  let ?h2 = "networkHeaders n2" and ?f = "chain_file sraw s ?l"
  have rd2: "readAllBytesFromFile (fileEnv E (calls n2)) ?h2 = (?h2, Inr ?f)"
    by (rule readAll_io_ok [OF io]) (simp add: n2)
  have "header_codec (headerDeserialzer ?h2) k dec" "headerSize ?h2 = int k" "length ?f = ?l * k"
    using assms(1,2) n2 by (simp_all add: length_chain_file [OF len])
  from store_file [OF this, of s] obtain bm where st: "store ?f s ?h2 =
      (?h2\<lparr>hdrs := hdrs ?h2 ++ map_of_file k dec s last_h ?f, blkHdrs := bm\<rparr>, Inr ())"
    unfolding l by blast
  let ?h3 = "?h2\<lparr>hdrs := map_of_file k dec s last_h ?f, blkHdrs := bm, tip := last_h\<rparr>"
  have inv: "store_inv k dec ?h3"
    using assms(1,2,5,7) n2 k by (simp add: store_inv_def length_chain_file [OF len] algebra_simps)
  have at: "map_of_file k dec s last_h ?f x = Some (dec (sraw x))" if "s \<le> x" "x \<le> last_h" for x
    using map_of_chain_file [OF len that(1), of ?l dec] that(2) unfolding l by simp
  have links: "links_ok ?h3"
    using at server_chainD [OF assms(9)] n2 assms(5) by (auto simp: links_ok_def)
  have ver: "verifyAll ?h3 = Inr ()"
    using verifyAll_links [of ?h3] links n2 assms(5,7) by simp
  have "finishSync E last_h n2 = (setHeaders (?h3\<lparr>synced := True\<rparr>) (tick n2), Inr ())"
    using rd2 st ver n2 assms(3,5) by (simp add: finishSync_def setTip_def)
  then have "syncNetworkHeaders E fuel nd = Some (setHeaders (?h3\<lparr>synced := True\<rparr>) (tick n2), Inr ())"
    using rd num gf mt assms(5) by (simp add: syncNetworkHeaders_def Let_def)
  moreover have "chain_inv k dec (?h3\<lparr>synced := True\<rparr>)"
    using inv links n2 assms(5,7) unfolding chain_inv_flags by (simp add: chain_inv_def)
  ultimately show ?thesis
    using at n2 assms(5)
    by (intro exI [of _ "setHeaders (?h3\<lparr>synced := True\<rparr>) (tick n2)"]) (simp add: getTip_def)
qed

text \<open>C3: with an honest server the initial synchronisation succeeds.  Starting from any prefix of the
  server's chain in the file, and with fuel for one request per 2016 headers, \<open>syncNetworkHeaders\<close>
  returns without error; the node is synced, its tip is the server's, every stored header is the
  server's and the chain invariant holds.\<close>

theorem sync_with_honest_server:
  assumes "header_codec (headerDeserialzer (networkHeaders nd)) k dec" "headerSize (networkHeaders nd) = int k"
    and "hdrs (networkHeaders nd) = Map.empty" "connected nd" "s = startPoint (networkHeaders nd)" "0 \<le> s"
    and "s \<le> last_h" "serves_sync E sraw last_h" "server_chain k dec sraw s last_h"
    and "hdrFile (networkHeaders nd) = Some (chain_file sraw s m)" "m \<le> nat (last_h + 1 - s)"
    and "nat (last_h + 1 - s) < fuel * 2016"
  shows "\<exists>nd'. syncNetworkHeaders E fuel nd = Some (nd', Inr ()) \<and>
    chain_inv k dec (networkHeaders nd') \<and> synced (networkHeaders nd') \<and> getTip (networkHeaders nd') = last_h \<and>
    startPoint (networkHeaders nd') = s \<and>
    (\<forall>x. s \<le> x \<and> x \<le> last_h \<longrightarrow> hdrs (networkHeaders nd') x = Some (dec (sraw x)))"
  using assms by (rule sync_live)

definition ex_fresh :: "nat \<Rightarrow> node" where
  "ex_fresh m = (ex_node 0)\<lparr>networkHeaders := newHeaders ex_cfg (Some (ex_file m))\<rparr>"

lemma ex_fresh_sel [simp]:
  "startPoint (networkHeaders (ex_fresh m)) = 0" "headerSize (networkHeaders (ex_fresh m)) = 80"
  "headerDeserialzer (networkHeaders (ex_fresh m)) = Deserialize_btc ex_libs"
  "hdrFile (networkHeaders (ex_fresh m)) = Some (ex_file m)" "hdrs (networkHeaders (ex_fresh m)) = Map.empty"
  "connected (ex_fresh m)" "\<not> synced (networkHeaders (ex_fresh m))" "calls (ex_fresh m) = 0"
  by (simp_all add: ex_fresh_def newHeaders_def ex_cfg_def ex_node_def)

lemma ex_chain_file: "chain_file (\<lambda>k. ex_raw (nat k)) 0 m = ex_file m"
  by (induction m) (simp_all add: chain_file_def)

lemma ex_serves: "last_h < 2 ^ 32 \<Longrightarrow> serves_sync (ex_env last_h) (\<lambda>k. ex_raw (nat k)) last_h"
proof -
  have "max 0 (min 2016 x) = int (nat (min 2016 x))" for x :: int by simp
  then show "last_h < 2 ^ 32 \<Longrightarrow> ?thesis"
    by (simp add: serves_sync_def ex_env_def chain_file_def blockCount_def Let_def min_def)
qed

lemma ex_sync:
  "\<exists>nd'. syncNetworkHeaders (ex_env 30) 1 (ex_fresh 5) = Some (nd', Inr ()) \<and>
    chain_inv 80 ex_dec (networkHeaders nd') \<and> synced (networkHeaders nd') \<and> getTip (networkHeaders nd') = 30 \<and>
    startPoint (networkHeaders nd') = 0 \<and>
    (\<forall>x. 0 \<le> x \<and> x \<le> 30 \<longrightarrow> hdrs (networkHeaders nd') x = Some (ex_dec (ex_raw (nat x))))"
  by (rule sync_live [where m = 5]) (simp_all add: ex_codec ex_serves ex_server ex_chain_file)

theorem sync_with_honest_server_witness:
  "\<exists>nd'. syncNetworkHeaders (ex_env 30) 1 (ex_fresh 5) = Some (nd', Inr ()) \<and> getTip (networkHeaders nd') = 30"
  using sync_with_honest_server [of "ex_fresh 5" 80 ex_dec 0 30 "ex_env 30" "\<lambda>k. ex_raw (nat k)" 5 1]
  by (auto simp: ex_codec ex_serves ex_server ex_chain_file)

lemma ex_counts_ok: "counts_ok 80 (ex_env 30)"
proof -
  have len: "length (ex_raw x) = 80" for x by (simp add: ex_raw_def)
  show ?thesis
    by (auto simp: counts_ok_def ex_env_def Let_def length_concat_const len)
qed

theorem sync_establishes_chain_witness:
  "\<exists>nd'. syncNetworkHeaders (ex_env 30) 1 (ex_fresh 5) = Some (nd', Inr ()) \<and>
     links_ok (networkHeaders nd') \<and> getTip (networkHeaders nd') = 30"
proof -
  obtain nd' where sy: "syncNetworkHeaders (ex_env 30) 1 (ex_fresh 5) = Some (nd', Inr ())"
    and inv: "chain_inv 80 ex_dec (networkHeaders nd')" and syn: "synced (networkHeaders nd')"
    and t: "getTip (networkHeaders nd') = 30" and st: "startPoint (networkHeaders nd') = 0"
    using ex_sync by blast
  obtain f where f: "hdrFile (networkHeaders nd') = Some f"
      "length f = nat (tip (networkHeaders nd') - startPoint (networkHeaders nd') + 1) * 80"
    using chain_inv_file [OF inv] by blast
  have "int (length f) < 2 ^ 40" using f(2) t st by (simp add: getTip_def)
  then show ?thesis
    using sync_establishes_chain [OF _ _ _ _ _ ex_counts_ok sy syn f(1), of ex_dec] ex_codec sy t by simp
qed

text \<open>The count a server announces is trusted.  When the first answer holds \<open>l\<close> linked headers but
  announces \<open>c < l\<close> of them, the synchronisation reports success with the tip at the \<open>c\<close>-th header
  while all \<open>l\<close> are in the file: file and tip disagree, and the next header that is appended goes to
  the wrong place of the file.\<close>

theorem short_count_desyncs:
  assumes "header_codec (headerDeserialzer (networkHeaders nd)) k dec" "headerSize (networkHeaders nd) = int k"
    and "hdrs (networkHeaders nd) = Map.empty" "connected nd" "s = startPoint (networkHeaders nd)" "0 \<le> s"
    and "s + int l < 2 ^ 32" "server_chain k dec sraw s (s + int l - 1)"
    and "hdrFile (networkHeaders nd) = Some []" "\<And>t. fileEnv E t = io_ok"
    and "rpcBlockHeaders E (Suc (calls nd)) s blockCount =
      Inr \<lparr>Count = c, HexConcat = EncodeToString (chain_file sraw s l), MaxCount = 2016\<rparr>"
    and "0 < c" "c < int l" "c < 2016"
  shows "\<exists>nd' f. syncNetworkHeaders E fuel nd = Some (nd', Inr ()) \<and> synced (networkHeaders nd') \<and>
    getTip (networkHeaders nd') = s + c - 1 \<and> hdrFile (networkHeaders nd') = Some f \<and> length f = l * k \<and>
    \<not> store_inv k dec (networkHeaders nd')"
proof -
  let ?h = "networkHeaders nd" and ?f = "chain_file sraw s l"
  have k: "0 < k" using assms(1) by (rule header_codec.hsize_pos)
  have len: "\<And>x. length (sraw x) = k" using assms(8) by (simp add: server_chain_def)
  have flen: "length ?f = l * k" by (rule length_chain_file [OF len])
  have rd: "readAllBytesFromFile (fileEnv E (calls nd)) ?h = (?h, Inr [])"
    by (rule readAll_io_ok [OF assms(10,9)])
  let ?n1 = "charge (bumpCostString (EncodeToString ?f)) (tick (setHeaders ?h (tick nd)))"
  have b: "blockHeaders E s blockCount (setHeaders ?h (tick nd)) =
      (?n1, Inr \<lparr>Count = c, HexConcat = EncodeToString ?f, MaxCount = 2016\<rparr>)"
    using assms(4,11) by (simp add: blockHeaders_def)
  let ?h1 = "?h\<lparr>hdrFile := Some ?f\<rparr>"
  have ap: "appendHeadersFile (fileEnv E t) ?f ?h = (?h1, Inr (int l))" for t
    using appendHeadersFile_ok [OF assms(2) k flen assms(9)] assms(10) by (simp add: io_ok_def)
  have w: "wrap64 (s - 1) = s - 1" "wrap64 (s - 1 + c) = s - 1 + c"
    using assms(6,7,12,13) by (intro wrap64_id; simp)+
  let ?n2 = "setHeaders ?h1 (tick ?n1)"
  have gf: "gatherFirst E fuel s (s - 1) (setHeaders ?h (tick nd)) = Some (?n2, Inr (Some (s - 1 + c)))"
    using b ap w assms(12,14) by (simp add: gatherFirst_def blockCount_def Let_def)
  have rd2: "readAllBytesFromFile (fileEnv E t) ?h1 = (?h1, Inr ?f)" for t
    by (rule readAll_io_ok [OF assms(10)]) simp
  have "header_codec (headerDeserialzer ?h1) k dec" "headerSize ?h1 = int k" using assms(1,2) by simp_all
  from store_file [OF this flen, of s] obtain bm where st: "store ?f s ?h1 =
      (?h1\<lparr>hdrs := map_of_file k dec s (s + int l - 1) ?f, blkHdrs := bm\<rparr>, Inr ())"
    using assms(3) by auto
  let ?h3 = "?h1\<lparr>hdrs := map_of_file k dec s (s + int l - 1) ?f, blkHdrs := bm, tip := s - 1 + c\<rparr>"
  have at: "map_of_file k dec s (s + int l - 1) ?f x = Some (dec (sraw x))" if "s \<le> x" "x \<le> s + int l - 1" for x
    by (rule map_of_chain_file [OF len that(1)]) (use that(2) in simp)
  have "links_ok ?h3"
    unfolding links_ok_def
  proof (intro allI impI)
    fix x assume x: "startPoint ?h3 < x \<and> x \<le> tip ?h3"
    then have "Prev (dec (sraw x)) = Hash (dec (sraw (x - 1)))"
      using assms(5,13) by (intro server_chainD [OF assms(8)]) simp_all
    then show "\<exists>a b. hdrs ?h3 (x - 1) = Some a \<and> hdrs ?h3 x = Some b \<and> Hash a = Prev b"
      using x at assms(5,13) by simp
  qed
  then have ver: "verifyAll ?h3 = Inr ()"
    using verifyAll_links [of ?h3] assms(5,12) by simp
  have fin: "finishSync E (s - 1 + c) ?n2 = (setHeaders (?h3\<lparr>synced := True\<rparr>) (tick ?n2), Inr ())"
    using rd2 st ver assms(5) by (simp add: finishSync_def setTip_def Let_def)
  have sy: "syncNetworkHeaders E fuel nd = Some (setHeaders (?h3\<lparr>synced := True\<rparr>) (tick ?n2), Inr ())"
    using rd gf fin w assms(5) by (simp add: syncNetworkHeaders_def bytesToNumHdrs_def Let_def)
  have "hdrs ?h3 (s + c) = Some (dec (sraw (s + c)))" using at [of "s + c"] assms(12,13) by simp
  then have "\<not> store_inv k dec (?h3\<lparr>synced := True\<rparr>)"
    using store_inv_None [of k dec "?h3\<lparr>synced := True\<rparr>" "s + c"] by auto
  then show ?thesis
    using sy flen by (intro exI [of _ "setHeaders (?h3\<lparr>synced := True\<rparr>) (tick ?n2)"] exI [of _ ?f])
      (simp add: getTip_def)
qed

theorem short_count_desyncs_witness:
  "\<exists>nd'. syncNetworkHeaders ((ex_env 30)\<lparr>rpcBlockHeaders :=
       (\<lambda>_ _ _. Inr \<lparr>Count = 2, HexConcat = EncodeToString (ex_file 5), MaxCount = 2016\<rparr>)\<rparr>) 1 (ex_fresh 0) =
     Some (nd', Inr ()) \<and> getTip (networkHeaders nd') = 1 \<and> \<not> store_inv 80 ex_dec (networkHeaders nd')"
proof -
  let ?E = "(ex_env 30)\<lparr>rpcBlockHeaders :=
       (\<lambda>_ _ _. Inr \<lparr>Count = 2, HexConcat = EncodeToString (ex_file 5), MaxCount = 2016\<rparr>)\<rparr>"
  have io: "\<And>t. fileEnv ?E t = io_ok" by (simp add: ex_env_def)
  have rpc: "rpcBlockHeaders ?E (Suc (calls (ex_fresh 0))) 0 blockCount =
      Inr \<lparr>Count = 2, HexConcat = EncodeToString (chain_file (\<lambda>k. ex_raw (nat k)) 0 5), MaxCount = 2016\<rparr>"
    by (simp add: ex_chain_file)
  show ?thesis
    using short_count_desyncs [OF _ _ _ _ _ _ _ _ _ io rpc, of 80 ex_dec 1] ex_server ex_codec
    by auto
qed

end
