(* ===== verification/Json_Rpc.thy ===== *)
theory Json_Rpc
  imports Node_Headers
begin

text \<open>
  JSON-RPC of \<open>electrumx/jsonrpc.go\<close> and the decoding in \<open>electrumx/server_connection.go\<close>.  A
  message is a parsed JSON value (the text syntax is that of \<open>encoding/json\<close>); the definitions say
  how Go fills a struct from it: keys match a field ignoring ASCII case, later keys win, \<open>null\<close>
  leaves a field alone, and a value of another type is an error for the whole message.
\<close>

section \<open>JSON values\<close>

text \<open>\<open>JFrac\<close> is a number literal with a fraction or an exponent.\<close>

datatype json = JNull | JBool bool | JInt int | JFrac string | JStr string
  | JArr "json list" | JObj "(string \<times> json) list"

definition lower :: "char \<Rightarrow> char" where
  "lower c = (let k = of_char c :: nat in if 65 \<le> k \<and> k \<le> 90 then char_of (k + 32) else c)"

definition key_is :: "string \<Rightarrow> string \<Rightarrow> bool" where
  "key_is name k \<longleftrightarrow> map lower k = name"

definition type_error :: "'a result" where
  "type_error = Inl (Err ''json: cannot unmarshal'')"

fun decode_struct :: "(string \<Rightarrow> json \<Rightarrow> 'r \<Rightarrow> 'r result) \<Rightarrow> 'r \<Rightarrow> json \<Rightarrow> 'r result" where
  "decode_struct upd r (JObj fs) = foldl (\<lambda>acc (k, v). thenR acc (upd k v)) (Inr r) fs"
| "decode_struct upd r JNull = Inr r"
| "decode_struct upd r _ = type_error"

fun set_string :: "(string \<Rightarrow> 'r) \<Rightarrow> 'r \<Rightarrow> json \<Rightarrow> 'r result" where
  "set_string f r (JStr s) = Inr (f s)"
| "set_string f r JNull = Inr r"
| "set_string f r _ = type_error"

fun set_int :: "int \<Rightarrow> int \<Rightarrow> (int \<Rightarrow> 'r) \<Rightarrow> 'r \<Rightarrow> json \<Rightarrow> 'r result" where
  "set_int lo hi f r (JInt i) = (if lo \<le> i \<and> i < hi then Inr (f i) else type_error)"
| "set_int lo hi f r JNull = Inr r"
| "set_int lo hi f r _ = type_error"

abbreviation "set_int64 \<equiv> set_int (- (2 ^ 63)) (2 ^ 63)"

fun decode_list :: "(json \<Rightarrow> 'a result) \<Rightarrow> json \<Rightarrow> 'a list result" where
  "decode_list f (JArr js) = foldr (\<lambda>j acc. thenR (f j) (\<lambda>x. thenR acc (\<lambda>xs. Inr (x # xs)))) js (Inr [])"
| "decode_list f JNull = Inr []"
| "decode_list f _ = type_error"

definition decode_string :: "json \<Rightarrow> string result" where
  "decode_string = set_string (\<lambda>s. s) []"

section \<open>jsonrpc.go\<close>

record RPCError =
  Code :: int
  Message :: string

text \<open>\<open>UnmarshalJSON\<close> decodes into a struct whose fields are called \<open>I\<close> and \<open>S\<close>, and into a string when
  that fails.\<close>

definition maybeRPCErr_field :: "string \<Rightarrow> json \<Rightarrow> int \<times> string \<Rightarrow> (int \<times> string) result" where
  "maybeRPCErr_field k v r =
     (if key_is ''i'' k then set_int64 (\<lambda>i. (i, snd r)) r v
      else if key_is ''s'' k then set_string (\<lambda>s. (fst r, s)) r v
      else Inr r)"

definition RPCError_UnmarshalJSON :: "json \<Rightarrow> RPCError result" where
  "RPCError_UnmarshalJSON b =
     (case decode_struct maybeRPCErr_field (0, []) b of
        Inr good \<Rightarrow> Inr \<lparr>Code = fst good, Message = snd good\<rparr>
      | Inl _ \<Rightarrow>
          (case decode_string b of
             Inr maybeStr \<Rightarrow> Inr \<lparr>Code = 0, Message = maybeStr\<rparr>
           | Inl _ \<Rightarrow> Inl (Err ''cannot parse RPCError returned from server'')))"

text \<open>The text of \<open>Error()\<close>; the message is printed with \<open>%q\<close>, whose escapes are left out.\<close>

definition RPCError_Error :: "RPCError \<Rightarrow> string" where
  "RPCError_Error e = ''code '' @ Itoa (Code e) @ '': '' @ [CHR 0x22] @ Message e @ [CHR 0x22]"

record response =
  ID :: "64 word"
  Method :: string
  Result :: "json option"
  Error :: "RPCError option"

definition response_field :: "string \<Rightarrow> json \<Rightarrow> response \<Rightarrow> response result" where
  "response_field k v r =
     (if key_is ''id'' k then set_int 0 (2 ^ 64) (\<lambda>i. r\<lparr>ID := word_of_int i\<rparr>) r v
      else if key_is ''method'' k then set_string (\<lambda>s. r\<lparr>Method := s\<rparr>) r v
      else if key_is ''result'' k then Inr (r\<lparr>Result := Some v\<rparr>)
      else if key_is ''error'' k then
        (if v = JNull then Inr (r\<lparr>Error := None\<rparr>)
         else thenR (RPCError_UnmarshalJSON v) (\<lambda>e. Inr (r\<lparr>Error := Some e\<rparr>)))
      else Inr r)"

definition decode_response :: "json \<Rightarrow> response result" where
  "decode_response = decode_struct response_field \<lparr>ID = 0, Method = [], Result = None, Error = None\<rparr>"

text \<open>\<open>ntfnData\<close>: the raw parameters of a notification.\<close>

definition decode_params :: "json \<Rightarrow> json option result" where
  "decode_params = decode_struct (\<lambda>k v r. if key_is ''params'' k then Inr (Some v) else Inr r) None"

text \<open>\<open>prepareRequest\<close>: missing arguments become an empty list.  The arguments of this program are
  lists (\<open>positional\<close>) or none.\<close>

definition prepareRequest :: "64 word \<Rightarrow> string \<Rightarrow> json list option \<Rightarrow> json" where
  "prepareRequest i meth args =
     JObj [(''jsonrpc'', JStr ''2.0''), (''id'', JInt (uint i)), (''method'', JStr meth),
           (''params'', JArr (case args of None \<Rightarrow> [] | Some as \<Rightarrow> as))]"

section \<open>Results of the server api\<close>

text \<open>A function \<open>req\<close> stands for \<open>sc.request\<close>: the method and its arguments are sent, and it returns
  the raw result or an error.\<close>

type_synonym requester = "string \<Rightarrow> json list option \<Rightarrow> json result"

definition ping :: "requester \<Rightarrow> unit result" where
  "ping req = thenR (req ''server.ping'' None) (\<lambda>_. Inr ())"

definition serverVersion :: "requester \<Rightarrow> string \<Rightarrow> string \<Rightarrow> string list result" where
  "serverVersion req client proto =
     thenR (thenR (req ''server.version'' (Some [JStr client, JStr proto])) (decode_list decode_string))
       (\<lambda>vers. if length vers \<noteq> 2 then Inl (Err ''unexpected version response'') else Inr vers)"

record serverFeatures =
  FGenesis :: string
  FHosts :: "(string \<times> (string \<times> int) list) list"
  FProtoMax :: string
  FProtoMin :: string
  FPruning :: json
  FVersion :: string
  FHashFunc :: string
  FServices :: "string list"

text \<open>A Go map, as the list of its entries.\<close>

fun decode_map :: "(json \<Rightarrow> 'a result) \<Rightarrow> json \<Rightarrow> (string \<times> 'a) list result" where
  "decode_map f (JObj fs) =
     foldr (\<lambda>(k, j) acc. thenR (f j) (\<lambda>x. thenR acc (\<lambda>xs. Inr ((k, x) # xs)))) fs (Inr [])"
| "decode_map f JNull = Inr []"
| "decode_map f _ = type_error"

definition features_field :: "string \<Rightarrow> json \<Rightarrow> serverFeatures \<Rightarrow> serverFeatures result" where
  "features_field k v r =
     (if key_is ''genesis_hash'' k then set_string (\<lambda>s. r\<lparr>FGenesis := s\<rparr>) r v
      else if key_is ''hosts'' k then
        thenR (decode_map (decode_map (set_int 0 (2 ^ 32) (\<lambda>i. i) 0)) v) (\<lambda>h. Inr (r\<lparr>FHosts := h\<rparr>))
      else if key_is ''protocol_max'' k then set_string (\<lambda>s. r\<lparr>FProtoMax := s\<rparr>) r v
      else if key_is ''protocol_min'' k then set_string (\<lambda>s. r\<lparr>FProtoMin := s\<rparr>) r v
      else if key_is ''pruning'' k then Inr (r\<lparr>FPruning := v\<rparr>)
      else if key_is ''server_version'' k then set_string (\<lambda>s. r\<lparr>FVersion := s\<rparr>) r v
      else if key_is ''hash_function'' k then set_string (\<lambda>s. r\<lparr>FHashFunc := s\<rparr>) r v
      else if key_is ''services'' k then
        thenR (decode_list decode_string v) (\<lambda>l. Inr (r\<lparr>FServices := l\<rparr>))
      else Inr r)"

definition features :: "requester \<Rightarrow> serverFeatures result" where
  "features req =
     thenR (req ''server.features'' None)
       (decode_struct features_field
          \<lparr>FGenesis = [], FHosts = [], FProtoMax = [], FProtoMin = [], FPruning = JNull, FVersion = [],
           FHashFunc = [], FServices = []\<rparr>)"

record peersResult =
  PAddr :: string
  PHost :: string
  Feats :: "string list"

text \<open>A feature that is not a string leaves an empty string in its place.\<close>

fun feat_string :: "json \<Rightarrow> string" where
  "feat_string (JStr s) = s"
| "feat_string _ = []"

fun peer_of :: "json \<Rightarrow> peersResult option" where
  "peer_of (JArr [JStr addr, JStr host, JArr featsI]) =
     Some \<lparr>PAddr = addr, PHost = host, Feats = map feat_string featsI\<rparr>"
| "peer_of _ = None"

fun decode_peer_row :: "json \<Rightarrow> json result" where
  "decode_peer_row (JArr js) = Inr (JArr js)"
| "decode_peer_row JNull = Inr (JArr [])"
| "decode_peer_row _ = type_error"

definition serverPeers :: "requester \<Rightarrow> peersResult list result" where
  "serverPeers req =
     thenR (thenR (req ''server.peers.subscribe'' None) (decode_list decode_peer_row))
       (\<lambda>resp. Inr (List.map_filter peer_of resp))"

definition getRawTransaction_rpc :: "requester \<Rightarrow> string \<Rightarrow> string result" where
  "getRawTransaction_rpc req txid =
     thenR (req ''blockchain.transaction.get'' (Some [JStr txid, JBool False])) decode_string"

definition blockHeader_rpc :: "requester \<Rightarrow> int \<Rightarrow> string result" where
  "blockHeader_rpc req height =
     thenR (req ''blockchain.block.header'' (Some [JInt height])) decode_string"

definition blockHeaders_field ::
  "string \<Rightarrow> json \<Rightarrow> getBlockHeadersResult \<Rightarrow> getBlockHeadersResult result" where
  "blockHeaders_field k v r =
     (if key_is ''count'' k then set_int64 (\<lambda>i. r\<lparr>Count := i\<rparr>) r v
      else if key_is ''hex'' k then set_string (\<lambda>s. r\<lparr>HexConcat := s\<rparr>) r v
      else if key_is ''max'' k then set_int64 (\<lambda>i. r\<lparr>MaxCount := i\<rparr>) r v
      else Inr r)"

definition blockHeaders_rpc :: "requester \<Rightarrow> int \<Rightarrow> int \<Rightarrow> getBlockHeadersResult result" where
  "blockHeaders_rpc req startHeight count =
     thenR (req ''blockchain.block.headers'' (Some [JInt startHeight, JInt count]))
       (decode_struct blockHeaders_field \<lparr>Count = 0, HexConcat = [], MaxCount = 0\<rparr>)"

definition headersNotify_field ::
  "string \<Rightarrow> json \<Rightarrow> headersNotifyResult \<Rightarrow> headersNotifyResult result" where
  "headersNotify_field k v r =
     (if key_is ''height'' k then set_int64 (\<lambda>i. r\<lparr>Height := i\<rparr>) r v
      else if key_is ''hex'' k then set_string (\<lambda>s. r\<lparr>HdrHex := s\<rparr>) r v
      else Inr r)"

definition decode_headersNotify :: "json \<Rightarrow> headersNotifyResult result" where
  "decode_headersNotify = decode_struct headersNotify_field \<lparr>Height = 0, HdrHex = []\<rparr>"

definition subscribeHeaders_rpc :: "requester \<Rightarrow> headersNotifyResult result" where
  "subscribeHeaders_rpc req =
     thenR (req ''blockchain.headers.subscribe'' None) decode_headersNotify"

record ScripthashStatusResult =
  Scripthash :: string
  Status :: string

definition SubscribeScripthash :: "requester \<Rightarrow> string \<Rightarrow> ScripthashStatusResult result" where
  "SubscribeScripthash req scripthash =
     thenR (thenR (req ''blockchain.scripthash.subscribe'' (Some [JStr scripthash])) decode_string)
       (\<lambda>status. Inr \<lparr>Scripthash = scripthash, Status = status\<rparr>)"

record History =
  HistHeight :: int
  HistTxHash :: string
  HistFee :: int

definition history_field :: "string \<Rightarrow> json \<Rightarrow> History \<Rightarrow> History result" where
  "history_field k v r =
     (if key_is ''height'' k then set_int64 (\<lambda>i. r\<lparr>HistHeight := i\<rparr>) r v
      else if key_is ''tx_hash'' k then set_string (\<lambda>s. r\<lparr>HistTxHash := s\<rparr>) r v
      else if key_is ''fee'' k then set_int64 (\<lambda>i. r\<lparr>HistFee := i\<rparr>) r v
      else Inr r)"

definition GetHistory_rpc :: "requester \<Rightarrow> string \<Rightarrow> History list result" where
  "GetHistory_rpc req scripthash =
     thenR (req ''blockchain.scripthash.get_history'' (Some [JStr scripthash]))
       (decode_list (decode_struct history_field \<lparr>HistHeight = 0, HistTxHash = [], HistFee = 0\<rparr>))"

record ListUnspent =
  LuHeight :: int
  LuTxPos :: int
  LuTxHash :: string
  LuValue :: int

definition unspent_field :: "string \<Rightarrow> json \<Rightarrow> ListUnspent \<Rightarrow> ListUnspent result" where
  "unspent_field k v r =
     (if key_is ''height'' k then set_int64 (\<lambda>i. r\<lparr>LuHeight := i\<rparr>) r v
      else if key_is ''tx_pos'' k then set_int64 (\<lambda>i. r\<lparr>LuTxPos := i\<rparr>) r v
      else if key_is ''tx_hash'' k then set_string (\<lambda>s. r\<lparr>LuTxHash := s\<rparr>) r v
      else if key_is ''value'' k then set_int64 (\<lambda>i. r\<lparr>LuValue := i\<rparr>) r v
      else Inr r)"

definition GetListUnspent_rpc :: "requester \<Rightarrow> string \<Rightarrow> ListUnspent list result" where
  "GetListUnspent_rpc req scripthash =
     thenR (req ''blockchain.scripthash.listunspent'' (Some [JStr scripthash]))
       (decode_list (decode_struct unspent_field \<lparr>LuHeight = 0, LuTxPos = 0, LuTxHash = [], LuValue = 0\<rparr>))"

definition Broadcast_rpc :: "requester \<Rightarrow> string \<Rightarrow> string result" where
  "Broadcast_rpc req rawTx =
     thenR (req ''blockchain.transaction.broadcast'' (Some [JStr rawTx])) decode_string"

section \<open>What decoding loses\<close>

text \<open>The error object of the JSON-RPC specification, \<open>code\<close> and \<open>message\<close>, is decoded without an
  error but into code 0 and an empty message, because \<open>UnmarshalJSON\<close> decodes into a struct whose
  fields are called \<open>I\<close> and \<open>S\<close>; only an error that is a plain string keeps its text.\<close>

theorem RPCError_loses_code:
  "RPCError_UnmarshalJSON (JObj [(''code'', JInt c), (''message'', JStr m)]) = Inr \<lparr>Code = 0, Message = []\<rparr> \<and>
   RPCError_UnmarshalJSON (JStr m) = Inr \<lparr>Code = 0, Message = m\<rparr>"
  by (simp add: RPCError_UnmarshalJSON_def maybeRPCErr_field_def key_is_def lower_def decode_string_def type_error_def)

end
