(* ===== verification/Server_Conn.thy ===== *)
theory Server_Conn
  imports Json_Rpc
begin

text \<open>
  The connection of \<open>electrumx/server_connection.go\<close>: request ids, the handler map, the \<open>listen\<close>
  loop that routes each message to the request it answers or to a notification channel, and the
  shutdown.  Goroutines interleave, so the connection is a step relation: a request may be
  registered, a message may arrive and the connection may end at any time.  The code claims that
  the send on a response channel cannot block; here that and the routing of replies are proved for
  every reachable state.
\<close>

section \<open>State\<close>

text \<open>A response channel has a buffer of one and is made for one request; \<open>chan_id\<close> is the id that
  request was sent with.\<close>

datatype chan_state = Waiting | Delivered response | Closed

record serverConn =
  reqID :: "64 word"
  respHandlers :: "64 word \<rightharpoonup> nat"
  chans :: "nat \<Rightarrow> chan_state option"
  chan_id :: "nat \<Rightarrow> 64 word"
  nextChan :: nat
  headersOut :: "headersNotifyResult option list"
  scripthashOut :: "ScripthashStatusResult list"
  listening :: bool
  sc_canceled :: bool

definition connectServer :: serverConn where
  "connectServer =
     \<lparr>reqID = 0, respHandlers = Map.empty, chans = (\<lambda>_. None), chan_id = (\<lambda>_. 0), nextChan = 0,
      headersOut = [], scripthashOut = [], listening = True, sc_canceled = False\<rparr>"

section \<open>Operations\<close>

definition nextID :: "serverConn \<Rightarrow> serverConn \<times> 64 word" where
  "nextID sc = (sc\<lparr>reqID := reqID sc + 1\<rparr>, reqID sc + 1)"

definition registerRequest :: "64 word \<Rightarrow> serverConn \<Rightarrow> serverConn \<times> nat" where
  "registerRequest i sc =
     (let c = nextChan sc in
      (sc\<lparr>respHandlers := (respHandlers sc)(i \<mapsto> c), chans := (chans sc)(c := Some Waiting),
          chan_id := (chan_id sc)(c := i), nextChan := Suc c\<rparr>, c))"

definition responseChan :: "64 word \<Rightarrow> serverConn \<Rightarrow> serverConn \<times> nat option" where
  "responseChan i sc = (sc\<lparr>respHandlers := (respHandlers sc)(i := None)\<rparr>, respHandlers sc i)"

definition cancelRequests :: "serverConn \<Rightarrow> serverConn" where
  "cancelRequests sc =
     sc\<lparr>chans := (\<lambda>c. if c \<in> ran (respHandlers sc) then Some Closed else chans sc c),
        respHandlers := Map.empty\<rparr>"

text \<open>Sending on a response channel: it may be sent, block on a full buffer, or panic when closed.\<close>

definition send_response :: "nat \<Rightarrow> response \<Rightarrow> serverConn \<Rightarrow> serverConn result" where
  "send_response c r sc =
     (case chans sc c of
        Some Waiting \<Rightarrow> Inr (sc\<lparr>chans := (chans sc)(c := Some (Delivered r))\<rparr>)
      | Some Closed \<Rightarrow> Inl (Panic ''send on closed channel'')
      | _ \<Rightarrow> Inl (Err ''blocked''))"

fun decode_nullable_header :: "json \<Rightarrow> headersNotifyResult option result" where
  "decode_nullable_header JNull = Inr None"
| "decode_nullable_header j = thenR (decode_headersNotify j) (\<lambda>r. Inr (Some r))"

definition headersTipChangeNotify :: "json option \<Rightarrow> serverConn \<Rightarrow> serverConn" where
  "headersTipChangeNotify raw sc =
     (case raw of None \<Rightarrow> sc
      | Some j \<Rightarrow>
          (case decode_list decode_nullable_header j of
             Inl _ \<Rightarrow> sc
           | Inr rs \<Rightarrow> sc\<lparr>headersOut := headersOut sc @ rs\<rparr>))"

text \<open>Decoding into \<open>[2]string\<close>: missing elements stay empty, more than two are dropped.\<close>

fun decode_two :: "json \<Rightarrow> (string \<times> string) result" where
  "decode_two JNull = Inr ([], [])"
| "decode_two (JArr js) =
     thenR (decode_list decode_string (JArr (take 2 js)))
       (\<lambda>l. Inr (case l of [] \<Rightarrow> ([], []) | [a] \<Rightarrow> (a, []) | a # b # _ \<Rightarrow> (a, b)))"
| "decode_two _ = type_error"

definition scripthashStatusNotify :: "json option \<Rightarrow> serverConn \<Rightarrow> serverConn" where
  "scripthashStatusNotify raw sc =
     (case raw of None \<Rightarrow> sc
      | Some j \<Rightarrow>
          (case decode_two j of
             Inl _ \<Rightarrow> sc
           | Inr (a, b) \<Rightarrow> sc\<lparr>scripthashOut := scripthashOut sc @ [\<lparr>Scripthash = a, Status = b\<rparr>]\<rparr>))"

text \<open>One message of the \<open>listen\<close> loop; \<open>None\<close> is a line that is not JSON.\<close>

definition listen_message :: "json option \<Rightarrow> serverConn \<Rightarrow> serverConn result" where
  "listen_message msg sc =
     (case msg of None \<Rightarrow> Inr sc
      | Some j \<Rightarrow>
          (case decode_response j of
             Inl _ \<Rightarrow> Inr sc
           | Inr jsonResp \<Rightarrow>
               (if Method jsonResp \<noteq> [] then
                  (case decode_params j of
                     Inl _ \<Rightarrow> Inr sc
                   | Inr params \<Rightarrow>
                       Inr (if Method jsonResp = ''blockchain.headers.subscribe''
                              then headersTipChangeNotify params sc
                            else if Method jsonResp = ''blockchain.scripthash.subscribe''
                              then scripthashStatusNotify params sc
                            else sc))
                else
                  (case responseChan (ID jsonResp) sc of
                     (sc', None) \<Rightarrow> Inr sc'
                   | (sc', Some c) \<Rightarrow> send_response c jsonResp sc'))))"

text \<open>The read loop ends: its deferred calls run and the node is cancelled.\<close>

definition listen_end :: "serverConn \<Rightarrow> serverConn" where
  "listen_end sc = cancelRequests (sc\<lparr>listening := False, sc_canceled := True\<rparr>)"

text \<open>\<open>request\<close> up to the wait: the id is taken, the handler registered, and the message sent; a failed
  send cancels the node and leaves the handler registered.\<close>

definition request_begin :: "bool \<Rightarrow> serverConn \<Rightarrow> serverConn \<times> nat option" where
  "request_begin send_ok sc =
     (let (sc1, i) = nextID sc; (sc2, c) = registerRequest i sc1 in
      if send_ok then (sc2, Some c) else (sc2\<lparr>sc_canceled := True\<rparr>, None))"

text \<open>\<open>request\<close> after the wait: \<open>None\<close> while the channel is empty.  When the context is done its branch of the
  \<open>select\<close> may be taken, whatever is in the channel; \<open>ctx_done\<close> says that it is.\<close>

definition request_end :: "bool \<Rightarrow> nat \<Rightarrow> serverConn \<Rightarrow> json option result option" where
  "request_end ctx_done c sc =
     (if ctx_done then Some (Inl (Err ''context canceled''))
      else (case chans sc c of
        Some (Delivered resp) \<Rightarrow>
          Some (case Error resp of Some e \<Rightarrow> Inl (Err (RPCError_Error e)) | None \<Rightarrow> Inr (Result resp))
      | Some Closed \<Rightarrow> Some (Inl (Err ''response channel closed''))
      | _ \<Rightarrow> None))"

section \<open>Steps\<close>

inductive conn_step :: "serverConn \<Rightarrow> serverConn \<Rightarrow> bool" where
  begin_req: "conn_step sc (fst (request_begin ok sc))"
| message: "listening sc \<Longrightarrow> listen_message m sc = Inr sc' \<Longrightarrow> conn_step sc sc'"
| ended: "listening sc \<Longrightarrow> conn_step sc (listen_end sc)"
| canceled: "conn_step sc (sc\<lparr>sc_canceled := True\<rparr>)"

inductive conn_reach :: "serverConn \<Rightarrow> bool" where
  conn_init: "conn_reach connectServer"
| conn_next: "conn_reach sc \<Longrightarrow> conn_step sc sc' \<Longrightarrow> conn_reach sc'"

inductive_cases conn_stepE: "conn_step sc sc'"

text \<open>Channels are made in the order of the ids; a registered channel is empty and its id is the one it
  is registered under; a delivered response has the id of the request.\<close>

definition conn_inv :: "serverConn \<Rightarrow> bool" where
  "conn_inv sc \<longleftrightarrow>
     reqID sc = of_nat (nextChan sc) \<and>
     (\<forall>c. chans sc c \<noteq> None \<longleftrightarrow> c < nextChan sc) \<and>
     (\<forall>c < nextChan sc. chan_id sc c = of_nat (Suc c)) \<and>
     (\<forall>i c. respHandlers sc i = Some c \<longrightarrow> chans sc c = Some Waiting \<and> chan_id sc c = i) \<and>
     (\<forall>c r. chans sc c = Some (Delivered r) \<longrightarrow> ID r = chan_id sc c)"

lemma conn_inv_init: "conn_inv connectServer"
  by (simp add: conn_inv_def connectServer_def)

lemma conn_inv_begin: "conn_inv sc \<Longrightarrow> conn_inv (fst (request_begin ok sc))"
proof -
  assume inv: "conn_inv sc"
  have free: "chans sc (nextChan sc) = None" using inv by (auto simp: conn_inv_def)
  have "respHandlers sc i \<noteq> Some (nextChan sc)" for i
    using inv free unfolding conn_inv_def by fastforce
  then show ?thesis
    using inv by (auto simp: conn_inv_def request_begin_def nextID_def registerRequest_def Let_def less_Suc_eq)
qed

lemma handler_waiting:
  "conn_inv sc \<Longrightarrow> respHandlers sc i = Some c \<Longrightarrow> chans sc c = Some Waiting \<and> chan_id sc c = i"
  by (auto simp: conn_inv_def)

lemma listen_message_total:
  assumes "conn_inv sc"
  shows "\<exists>sc'. listen_message m sc = Inr sc'"
  using handler_waiting [OF assms]
  by (auto simp: listen_message_def responseChan_def send_response_def
      split: option.splits sum.splits)

lemma conn_inv_notify:
  assumes "conn_inv sc"
  shows "conn_inv (headersTipChangeNotify raw sc)" "conn_inv (scripthashStatusNotify raw sc)"
  using assms
  by (auto simp: conn_inv_def headersTipChangeNotify_def scripthashStatusNotify_def
      split: option.splits sum.splits)

lemma conn_inv_deliver:
  assumes inv: "conn_inv sc" and h: "respHandlers sc i = Some c" and r: "ID r = i"
  shows "conn_inv (sc\<lparr>respHandlers := (respHandlers sc)(i := None),
      chans := (chans sc)(c := Some (Delivered r))\<rparr>)"
proof -
  have "chan_id sc c = i" "chans sc c = Some Waiting" using handler_waiting [OF inv h] by simp_all
  moreover have "c < nextChan sc" using inv calculation(2) by (auto simp: conn_inv_def)
  ultimately show ?thesis using inv r by (auto simp: conn_inv_def)
qed

lemma conn_inv_message:
  assumes inv: "conn_inv sc" and m: "listen_message m sc = Inr sc'"
  shows "conn_inv sc'"
proof (cases m)
  case None
  then show ?thesis using assms by (simp add: listen_message_def)
next
  case (Some j)
  show ?thesis
  proof (cases "decode_response j")
    case (Inl e)
    then show ?thesis using assms Some by (simp add: listen_message_def)
  next
    case (Inr r)
    show ?thesis
    proof (cases "Method r = [] \<and> respHandlers sc (ID r) \<noteq> None")
      case True
      then obtain c where c: "respHandlers sc (ID r) = Some c" by blast
      then have "sc' = sc\<lparr>respHandlers := (respHandlers sc)(ID r := None),
          chans := (chans sc)(c := Some (Delivered r))\<rparr>"
        using m Some Inr True handler_waiting [OF inv c]
        by (simp add: listen_message_def responseChan_def send_response_def)
      then show ?thesis using conn_inv_deliver [OF inv c refl] by simp
    next
      case False
      then show ?thesis
        using m Some Inr inv conn_inv_notify [OF inv]
        by (auto simp: listen_message_def responseChan_def fun_upd_idem split: sum.splits if_splits)
    qed
  qed
qed

text \<open>A message delivers at most one response, to the channel registered for its id.\<close>

lemma listen_message_effect:
  assumes inv: "conn_inv sc" and m: "listen_message m sc = Inr sc'"
  shows "nextChan sc' = nextChan sc \<and> chan_id sc' = chan_id sc \<and> listening sc' = listening sc \<and>
    (respHandlers sc' = respHandlers sc \<and> chans sc' = chans sc \<or>
     (\<exists>i c r. respHandlers sc i = Some c \<and> respHandlers sc' = (respHandlers sc)(i := None) \<and>
        chans sc' = (chans sc)(c := Some (Delivered r))))"
proof -
  have route: "sc' = sc\<lparr>respHandlers := (respHandlers sc)(i := None), chans := (chans sc)(c := Some (Delivered r))\<rparr>"
    if "respHandlers sc i = Some c" "send_response c r (sc\<lparr>respHandlers := (respHandlers sc)(i := None)\<rparr>) = Inr sc'"
    for i c r
    using handler_waiting [OF inv that(1)] that(2) by (simp add: send_response_def)
  show ?thesis
  proof (cases m)
    case None
    then show ?thesis using m by (simp add: listen_message_def)
  next
    case (Some j)
    show ?thesis
    proof (cases "decode_response j")
      case (Inl e)
      then show ?thesis using m Some by (simp add: listen_message_def)
    next
      case (Inr r)
      show ?thesis
      proof (cases "Method r = []")
        case False
        then show ?thesis
          using m Some Inr
          by (auto simp: listen_message_def headersTipChangeNotify_def scripthashStatusNotify_def
              split: sum.splits option.splits if_splits)
      next
        case True
        show ?thesis
        proof (cases "respHandlers sc (ID r)")
          case None
          then show ?thesis
            using m Some Inr True by (auto simp: listen_message_def responseChan_def fun_upd_idem)
        next
          case (Some c)
          then have "send_response c r (sc\<lparr>respHandlers := (respHandlers sc)(ID r := None)\<rparr>) = Inr sc'"
            using m \<open>m = Some j\<close> Inr True by (simp add: listen_message_def responseChan_def)
          from route [OF Some this] show ?thesis using Some by auto
        qed
      qed
    qed
  qed
qed

lemma conn_inv_end: "conn_inv sc \<Longrightarrow> conn_inv (listen_end sc)"
  by (auto simp: conn_inv_def listen_end_def cancelRequests_def ran_def)

lemma conn_inv_cancel: "conn_inv sc \<Longrightarrow> conn_inv (sc\<lparr>sc_canceled := True\<rparr>)"
  by (simp add: conn_inv_def)

lemma conn_reach_inv: "conn_reach sc \<Longrightarrow> conn_inv sc"
proof (induction rule: conn_reach.induct)
  case conn_init
  show ?case by (rule conn_inv_init)
next
  case (conn_next sc sc')
  from conn_next.hyps(2) conn_next.IH show ?case
    by (cases rule: conn_step.cases) (auto intro: conn_inv_begin conn_inv_message conn_inv_end conn_inv_cancel)
qed

section \<open>Routing\<close>

text \<open>C7: replies reach the request they answer and nothing blocks the reader.  In every reachable state
  of a connection, whatever the server sends next, handling the message neither blocks on a response
  channel nor sends on a closed one; and a response that was delivered to a request carries the id
  that request was sent with.\<close>

theorem responses_routed:
  assumes "conn_reach sc"
  shows "(\<exists>sc'. listen_message m sc = Inr sc') \<and>
    (\<forall>c r. chans sc c = Some (Delivered r) \<longrightarrow> ID r = chan_id sc c)"
  using listen_message_total [OF conn_reach_inv [OF assms]] conn_reach_inv [OF assms]
  by (auto simp: conn_inv_def)

theorem responses_routed_witness:
  "\<exists>sc'. listen_message (Some (JObj [(''id'', JInt 1), (''result'', JStr ''ok'')])) (fst (request_begin True connectServer)) = Inr sc'"
proof -
  have "conn_reach (fst (request_begin True connectServer))"
    by (rule conn_next [OF conn_init begin_req])
  then show ?thesis using responses_routed by blast
qed

text \<open>The word ids of two requests differ until the counter wraps.\<close>

lemma ids_differ:
  assumes "c < n" and "Suc n < 2 ^ 64"
  shows "(of_nat (Suc c) :: 64 word) \<noteq> of_nat (Suc n)"
proof
  assume "(of_nat (Suc c) :: 64 word) = of_nat (Suc n)"
  then have "unat (of_nat (Suc c) :: 64 word) = unat (of_nat (Suc n) :: 64 word)" by simp
  then show False using assms by (simp add: unat_of_nat take_bit_nat_eq_self del: of_nat_Suc)
qed

lemma request_begin_sel:
  "nextChan (fst (request_begin ok sc)) = Suc (nextChan sc)"
  "respHandlers (fst (request_begin ok sc)) = (respHandlers sc)(reqID sc + 1 \<mapsto> nextChan sc)"
  "chan_id (fst (request_begin ok sc)) = (chan_id sc)(nextChan sc := reqID sc + 1)"
  "listening (fst (request_begin ok sc)) = listening sc"
  "chans (fst (request_begin ok sc)) = (chans sc)(nextChan sc := Some Waiting)"
  by (simp_all add: request_begin_def nextID_def registerRequest_def Let_def)

lemma open_registered:
  "conn_reach sc \<Longrightarrow> nextChan sc < 2 ^ 64 \<Longrightarrow> chans sc c = Some Waiting \<Longrightarrow>
     (listening sc \<longrightarrow> respHandlers sc (chan_id sc c) = Some c)"
proof (induction arbitrary: c rule: conn_reach.induct)
  case conn_init
  then show ?case by (simp add: connectServer_def)
next
  case (conn_next sc sc')
  note inv = conn_reach_inv [OF conn_next.hyps(1)]
  from conn_next.hyps(2) show ?case
  proof (cases rule: conn_step.cases)
    case (begin_req ok)
    note sel = request_begin_sel [of ok sc, folded begin_req]
    then have small: "nextChan sc < 2 ^ 64" "Suc (nextChan sc) < 2 ^ 64" using conn_next.prems(1) by simp_all
    show ?thesis
    proof (cases "c = nextChan sc")
      case True
      then show ?thesis by (simp add: sel)
    next
      case False
      then have w: "chans sc c = Some Waiting" using conn_next.prems(2) by (simp add: sel)
      then have c: "c < nextChan sc" "chan_id sc c = of_nat (Suc c)" using inv by (auto simp: conn_inv_def)
      have "chan_id sc c \<noteq> reqID sc + 1"
        using ids_differ [OF c(1) small(2)] inv c(2) by (simp add: conn_inv_def add.commute)
      then show ?thesis using conn_next.IH [OF small(1) w] False by (simp add: sel)
    qed
  next
    case (message m)
    note eff = listen_message_effect [OF inv message(2)]
    have IH: "listening sc \<longrightarrow> respHandlers sc (chan_id sc c) = Some c" if "chans sc c = Some Waiting"
      using conn_next.IH conn_next.prems(1) eff that by simp
    from eff consider "respHandlers sc' = respHandlers sc" "chans sc' = chans sc"
      | i c' r where "respHandlers sc i = Some c'" "respHandlers sc' = (respHandlers sc)(i := None)"
          "chans sc' = (chans sc)(c' := Some (Delivered r))"
      by blast
    then show ?thesis
    proof cases
      case 1
      then show ?thesis using eff IH conn_next.prems(2) by simp
    next
      case 2
      then have "c \<noteq> c'" "chans sc c = Some Waiting" using conn_next.prems(2) by (auto split: if_splits)
      then show ?thesis using 2 eff IH by auto
    qed
  next
    case ended
    then show ?thesis by (simp add: listen_end_def cancelRequests_def)
  next
    case canceled
    then show ?thesis using conn_next.IH conn_next.prems by simp
  qed
qed

lemma conn_end_releases:
  assumes "conn_reach sc" "listening sc" "nextChan sc < 2 ^ 64" "c < nextChan sc"
  shows "\<exists>r. request_end False c (listen_end sc) = Some r"
proof -
  have inv: "conn_inv sc" by (rule conn_reach_inv [OF assms(1)])
  then have "chans sc c \<noteq> None" using assms(4) by (simp only: conn_inv_def)
  then obtain st where st: "chans sc c = Some st" by blast
  show ?thesis
  proof (cases "c \<in> ran (respHandlers sc)")
    case True
    then show ?thesis by (simp add: request_end_def listen_end_def cancelRequests_def)
  next
    case False
    then have "st \<noteq> Waiting"
      using open_registered [OF assms(1,3), of c] assms(2) st by (auto simp: ran_def)
    then show ?thesis
      using st False by (cases st) (simp_all add: request_end_def listen_end_def cancelRequests_def)
  qed
qed

text \<open>C27: no request waits forever when the connection ends.  Before \<open>2 ^ 64\<close> requests have been made,
  when the read loop of a reachable, still listening connection ends, every request made so far has
  a result: its response, or the error that the response channel was closed.\<close>

theorem connection_end_releases:
  assumes "conn_reach sc" "listening sc" "nextChan sc < 2 ^ 64" "c < nextChan sc"
  shows "\<exists>r. request_end False c (listen_end sc) = Some r"
  by (rule conn_end_releases [OF assms])

theorem connection_end_releases_witness:
  "\<exists>r. request_end False 0 (listen_end (fst (request_begin True connectServer))) = Some r"
proof -
  have "conn_reach (fst (request_begin True connectServer))"
    by (rule conn_next [OF conn_init begin_req])
  then show ?thesis
    by (rule connection_end_releases)
      (simp_all add: request_begin_def nextID_def registerRequest_def connectServer_def)
qed

end
