(* ===== verification/Known_Servers.thy ===== *)
theory Known_Servers
  imports Server_Conn
begin

text \<open>
  The known-server list of \<open>electrumx/network_servers.go\<close>: building addresses from a server's peer
  list, merging them into the list in memory, and the file \<open>network_servers.json\<close>.  The file is
  its decoded contents (\<open>encoding/json\<close> writes and reads these records back), an empty list being an
  empty file.  \<open>net.ParseIP\<close> is the argument \<open>isIP\<close>.
\<close>

section \<open>Server addresses\<close>

record serverAddr =
  SNet :: string
  SAddress :: string
  SHost :: string
  SIsOnion :: bool
  SVersion :: string
  SCaps :: string
  SRep :: int

definition JoinHostPort :: "string \<Rightarrow> string \<Rightarrow> string" where
  "JoinHostPort host port =
     (if CHR '':'' \<in> set host then ''['' @ host @ '']:'' @ port else host @ '':'' @ port)"

text \<open>The features of a peer: protocol version, TCP and SSL port.  The first character of an empty
  feature is an index out of range.\<close>

record peer_feats =
  fVersion :: string
  fTcp :: "string option"
  fSsl :: "string option"

fun feat_step :: "string \<Rightarrow> peer_feats \<Rightarrow> peer_feats result" where
  "feat_step [] f = Inl (Panic ''index out of range [0] with length 0'')"
| "feat_step (c # cs) f =
     Inr (if c = CHR ''v'' then f\<lparr>fVersion := cs\<rparr>
          else if c = CHR ''t'' then f\<lparr>fTcp := Some cs\<rparr>
          else if c = CHR ''s'' then f\<lparr>fSsl := Some cs\<rparr>
          else f)"

fun feats_loop :: "string list \<Rightarrow> peer_feats \<Rightarrow> peer_feats result" where
  "feats_loop [] f = Inr f"
| "feats_loop (feat # feats) f = thenR (feat_step feat f) (feats_loop feats)"

definition default_port :: "string \<Rightarrow> string \<Rightarrow> string" where
  "default_port dflt p = (if p = [] then dflt else p)"

text \<open>The address test: a V3 onion name, or an IP address.\<close>

definition peer_ok :: "(string \<Rightarrow> bool) \<Rightarrow> peersResult \<Rightarrow> bool" where
  "peer_ok isIP pres =
     (if HasSuffix (PAddr pres) ''.onion'' then length (Split (CHR ''.'') (PHost pres) ! 0) = 56
      else isIP (PAddr pres))"

definition peer_servers :: "peersResult \<Rightarrow> peer_feats \<Rightarrow> serverAddr list" where
  "peer_servers pres f =
     (let mk = (\<lambda>proto port.
        \<lparr>SNet = proto, SAddress = JoinHostPort (PAddr pres) port, SHost = PHost pres,
         SIsOnion = HasSuffix (PAddr pres) ''.onion'', SVersion = fVersion f, SCaps = [], SRep = 0\<rparr>) in
      (case fTcp f of None \<Rightarrow> [] | Some p \<Rightarrow> [mk ''tcp'' (default_port ''51001'' p)]) @
      (case fSsl f of None \<Rightarrow> [] | Some p \<Rightarrow> [mk ''ssl'' (default_port ''51002'' p)]))"

fun makeIncomingServerAddrs :: "(string \<Rightarrow> bool) \<Rightarrow> peersResult list \<Rightarrow> serverAddr list result" where
  "makeIncomingServerAddrs isIP [] = Inr []"
| "makeIncomingServerAddrs isIP (pres # rest) =
     (if \<not> peer_ok isIP pres then makeIncomingServerAddrs isIP rest
      else
        thenR (feats_loop (Feats pres) \<lparr>fVersion = [], fTcp = None, fSsl = None\<rparr>) (\<lambda>f.
        thenR (makeIncomingServerAddrs isIP rest) (\<lambda>servers. Inr (peer_servers pres f @ servers))))"

section \<open>The list and the file\<close>

datatype servers_file = NoFile | FileServers "serverAddr list" | Corrupt

record known =
  knownServers :: "serverAddr list"
  serversFile :: servers_file

definition readServerAddrFile :: "io_env \<Rightarrow> known \<Rightarrow> known \<times> (serverAddr list \<times> nat) result" where
  "readServerAddrFile io net =
     (case io OpOpen of Some e \<Rightarrow> (net, Inl (Err e))
      | None \<Rightarrow>
          (let net' = net\<lparr>serversFile := (if serversFile net = NoFile then FileServers [] else serversFile net)\<rparr> in
           case io OpRead of Some e \<Rightarrow> (net', Inl (Err e))
           | None \<Rightarrow>
               (case serversFile net' of
                  FileServers servers \<Rightarrow> (net', Inr (servers, length servers))
                | _ \<Rightarrow> (net', Inl (Err ''json: invalid'')))))"

text \<open>A failed write comes after the truncation: it leaves the file empty.\<close>

definition writeServerAddrFile :: "io_env \<Rightarrow> serverAddr list \<Rightarrow> known \<Rightarrow> known \<times> unit result" where
  "writeServerAddrFile io servers net =
     (case io OpOpen of Some e \<Rightarrow> (net, Inl (Err e))
      | None \<Rightarrow>
          (let net' = net\<lparr>serversFile := (if serversFile net = NoFile then FileServers [] else serversFile net)\<rparr> in
           case io OpTruncate of Some e \<Rightarrow> (net', Inl (Err e))
           | None \<Rightarrow>
               (case io OpWrite of Some e \<Rightarrow> (net'\<lparr>serversFile := FileServers []\<rparr>, Inl (Err e))
                | None \<Rightarrow> (net'\<lparr>serversFile := FileServers servers\<rparr>, Inr ()))))"

definition loadKnownServers :: "io_env \<Rightarrow> known \<Rightarrow> known \<times> nat result" where
  "loadKnownServers io net =
     thenS (readServerAddrFile io net) (\<lambda>net (stored, numRead).
       (net\<lparr>knownServers := stored\<rparr>, Inr numRead))"

text \<open>The nested loops over incoming and known servers.\<close>

definition new_servers :: "serverAddr list \<Rightarrow> serverAddr list \<Rightarrow> serverAddr list" where
  "new_servers have_servers servers =
     filter (\<lambda>new. \<not> list_ex (\<lambda>got. SAddress got = SAddress new) have_servers) servers"

definition updateNetworkServers :: "serverAddr list \<Rightarrow> known \<Rightarrow> known" where
  "updateNetworkServers servers net =
     (if knownServers net = [] then net\<lparr>knownServers := servers\<rparr>
      else net\<lparr>knownServers := knownServers net @ new_servers (knownServers net) servers\<rparr>)"

definition addIncomingServers ::
  "(string \<Rightarrow> bool) \<Rightarrow> peersResult list \<Rightarrow> known \<Rightarrow> known \<times> unit result" where
  "addIncomingServers isIP inc net =
     (case makeIncomingServerAddrs isIP inc of
        Inl e \<Rightarrow> (net, Inl e)
      | Inr servers \<Rightarrow>
          (if servers = [] then (net, Inl (Err ''no incoming''))
           else (updateNetworkServers servers net, Inr ())))"

definition updateStoredServers :: "io_env \<Rightarrow> serverAddr list \<Rightarrow> known \<Rightarrow> known \<times> unit result" where
  "updateStoredServers io servers net =
     thenS (readServerAddrFile io net) (\<lambda>net (stored, numRead).
       if numRead = 0 then writeServerAddrFile io servers net
       else writeServerAddrFile io (stored @ new_servers stored servers) net)"

definition without_server :: "serverAddr \<Rightarrow> serverAddr list \<Rightarrow> serverAddr list" where
  "without_server server l = filter (\<lambda>s. SAddress s \<noteq> SAddress server) l"

definition removeServer :: "io_env \<Rightarrow> 8 word \<Rightarrow> serverAddr \<Rightarrow> known \<Rightarrow> known \<times> unit result" where
  "removeServer io flags server net =
     (if and flags NoDeleteKnownPeers = NoDeleteKnownPeers then (net, Inr ())
      else
        (let net' = net\<lparr>knownServers := without_server server (knownServers net)\<rparr> in
         thenS (readServerAddrFile io net') (\<lambda>net (stored, _).
           writeServerAddrFile io (without_server server stored) net)))"

section \<open>Properties\<close>



lemma removeServer_Inr:
  "removeServer io flags server net = (net', Inr ()) \<Longrightarrow> and flags NoDeleteKnownPeers \<noteq> NoDeleteKnownPeers \<Longrightarrow>
   knownServers net' = without_server server (knownServers net) \<and>
   (\<exists>stored. serversFile net' = FileServers (without_server server stored) \<and>
      (serversFile net = FileServers stored \<or> serversFile net = NoFile \<and> stored = []))"
  by (auto simp: removeServer_def readServerAddrFile_def writeServerAddrFile_def Let_def thenS_def
      split: option.splits if_splits servers_file.splits)

text \<open>\<open>removeServer\<close> forgets exactly the server: without an error, and unless the coin's strategy is
  to keep its peers, no entry with that address is left in memory or in the file and every other entry
  stays, in order; with \<open>NoDeleteKnownPeers\<close> nothing changes.\<close>

theorem removeServer_forgets:
  assumes "removeServer io flags server net = (net', Inr ())"
  shows "(and flags NoDeleteKnownPeers \<noteq> NoDeleteKnownPeers \<longrightarrow>
      knownServers net' = filter (\<lambda>s. SAddress s \<noteq> SAddress server) (knownServers net) \<and>
      (\<forall>stored. serversFile net = FileServers stored \<longrightarrow>
         serversFile net' = FileServers (filter (\<lambda>s. SAddress s \<noteq> SAddress server) stored))) \<and>
    (and flags NoDeleteKnownPeers = NoDeleteKnownPeers \<longrightarrow> net' = net)"
  using assms removeServer_Inr [OF assms] by (auto simp: without_server_def removeServer_def)

theorem removeServer_forgets_witness:
  "knownServers (fst (removeServer io_ok DefaultStrategy
      \<lparr>SNet = ''ssl'', SAddress = ''h:1'', SHost = ''h'', SIsOnion = False, SVersion = [], SCaps = [], SRep = 0\<rparr>
      \<lparr>knownServers = [\<lparr>SNet = ''tcp'', SAddress = ''h:1'', SHost = ''h'', SIsOnion = False, SVersion = [], SCaps = [], SRep = 0\<rparr>],
       serversFile = FileServers []\<rparr>)) = []"
proof -
  let ?s = "\<lparr>SNet = ''ssl'', SAddress = ''h:1'', SHost = ''h'', SIsOnion = False, SVersion = [], SCaps = [], SRep = 0\<rparr>"
  let ?n = "\<lparr>knownServers = [\<lparr>SNet = ''tcp'', SAddress = ''h:1'', SHost = ''h'', SIsOnion = False, SVersion = [], SCaps = [], SRep = 0\<rparr>],
       serversFile = FileServers []\<rparr>"
  obtain n' where r: "removeServer io_ok DefaultStrategy ?s ?n = (n', Inr ())"
    by (simp add: removeServer_def readServerAddrFile_def writeServerAddrFile_def io_ok_def DefaultStrategy_def
        NoDeleteKnownPeers_def)
  show ?thesis
    using removeServer_forgets [OF r] r by (simp add: DefaultStrategy_def NoDeleteKnownPeers_def)
qed

text \<open>Merging keeps what is known and adds what is new.  After \<open>updateNetworkServers\<close> the old list is
  a prefix of the new one, a server is in the list exactly when it was there before or is an incoming
  one whose address was not known, and so every incoming address is known afterwards.\<close>

theorem updateNetworkServers_merges:
  "(\<exists>added. knownServers (updateNetworkServers servers net) = knownServers net @ added) \<and>
   set (knownServers (updateNetworkServers servers net)) =
     set (knownServers net) \<union> {s \<in> set servers. SAddress s \<notin> SAddress ` set (knownServers net)} \<and>
   SAddress ` set servers \<subseteq> SAddress ` set (knownServers (updateNetworkServers servers net))"
proof -
  have "set (knownServers (updateNetworkServers servers net)) =
      set (knownServers net) \<union> {s \<in> set servers. SAddress s \<notin> SAddress ` set (knownServers net)}"
    by (auto simp: updateNetworkServers_def new_servers_def list_ex_iff image_iff)
  moreover from this have "SAddress ` set servers \<subseteq> SAddress ` set (knownServers (updateNetworkServers servers net))"
    by blast
  ultimately show ?thesis by (simp add: updateNetworkServers_def)
qed

text \<open>An incoming peer list with an empty feature string stops the process: \<open>makeIncomingServerAddrs\<close>
  takes the first rune of every feature without a length check, and \<open>serverPeers\<close> itself puts an
  empty string in place of every feature that is not a string.\<close>

theorem non_string_feature_panics:
  assumes "peer_of (JArr [JStr addr, JStr host, JArr (JInt i # feats)]) = Some p" "peer_ok isIP p"
  shows "is_panic (snd (addIncomingServers isIP [p] net))"
  using assms by (auto simp: addIncomingServers_def)

theorem non_string_feature_panics_witness:
  "is_panic (snd (addIncomingServers (\<lambda>_. True)
     [\<lparr>PAddr = ''1.2.3.4'', PHost = ''h'', Feats = [[]]\<rparr>] \<lparr>knownServers = [], serversFile = NoFile\<rparr>))"
  using non_string_feature_panics [of "''1.2.3.4''" "''h''" 7 "[]" _ "\<lambda>_. True"]
  by (simp add: peer_ok_def HasSuffix_def)

lemma feats_loop_no_panic: "[] \<notin> set feats \<Longrightarrow> \<exists>f'. feats_loop feats f = Inr f'"
proof (induction feats arbitrary: f)
  case Nil
  then show ?case by simp
next
  case (Cons feat feats)
  then show ?case by (cases feat) auto
qed

lemma peer_servers_ok:
  "s \<in> set (peer_servers p f) \<Longrightarrow>
     (SNet s = ''tcp'' \<or> SNet s = ''ssl'') \<and> (\<exists>port. SAddress s = JoinHostPort (PAddr p) port \<and> port \<noteq> []) \<and>
     SHost s = PHost p \<and> SIsOnion s = HasSuffix (PAddr p) ''.onion''"
  by (auto simp: peer_servers_def default_port_def Let_def split: option.splits)

text \<open>Without empty features, \<open>makeIncomingServerAddrs\<close> returns, and every address it makes comes
  from a peer that passed the address test, over tcp or ssl with a non-empty port, and is marked as an
  onion exactly when the peer's address ends in \<open>.onion\<close>.\<close>

theorem makeIncomingServerAddrs_sound:
  assumes "\<forall>p \<in> set inc. [] \<notin> set (Feats p)"
  shows "\<exists>servers. makeIncomingServerAddrs isIP inc = Inr servers \<and> length servers \<le> 2 * length inc \<and>
    (\<forall>s \<in> set servers. \<exists>p \<in> set inc. peer_ok isIP p \<and> (SNet s = ''tcp'' \<or> SNet s = ''ssl'') \<and>
       (\<exists>port. SAddress s = JoinHostPort (PAddr p) port \<and> port \<noteq> []) \<and>
       SIsOnion s = HasSuffix (PAddr p) ''.onion'')"
  using assms
proof (induction inc)
  case Nil
  then show ?case by simp
next
  case (Cons p inc)
  then obtain servers where IH: "makeIncomingServerAddrs isIP inc = Inr servers" "length servers \<le> 2 * length inc"
    "\<forall>s \<in> set servers. \<exists>p \<in> set inc. peer_ok isIP p \<and> (SNet s = ''tcp'' \<or> SNet s = ''ssl'') \<and>
       (\<exists>port. SAddress s = JoinHostPort (PAddr p) port \<and> port \<noteq> []) \<and>
       SIsOnion s = HasSuffix (PAddr p) ''.onion''"
    by auto
  show ?case
  proof (cases "peer_ok isIP p")
    case False
    then show ?thesis using IH by auto
  next
    case True
    obtain f where f: "feats_loop (Feats p) \<lparr>fVersion = [], fTcp = None, fSsl = None\<rparr> = Inr f"
      using feats_loop_no_panic Cons.prems by fastforce
    have "length (peer_servers p f) \<le> 2" by (simp add: peer_servers_def Let_def split: option.split)
    then show ?thesis
      using True f IH peer_servers_ok [of _ p f] by (intro exI [of _ "peer_servers p f @ servers"]) force
  qed
qed

theorem makeIncomingServerAddrs_sound_witness:
  "\<exists>servers. makeIncomingServerAddrs (\<lambda>_. True) [\<lparr>PAddr = ''1.2.3.4'', PHost = ''h'', Feats = [''v1.4'', ''s'']\<rparr>] = Inr servers \<and>
     length servers \<le> 2"
  using makeIncomingServerAddrs_sound [of "[\<lparr>PAddr = ''1.2.3.4'', PHost = ''h'', Feats = [''v1.4'', ''s'']\<rparr>]" "\<lambda>_. True"]
  by auto

end
