(* ===== verification/Verbose_Rpc.thy ===== *)
theory Verbose_Rpc
  imports Json_Rpc Complex_Main
begin

text \<open>
  The calls of \<open>electrumx/server_connection.go\<close> whose results hold floating point numbers: the verbose
  transaction and the fee estimate, and the unsubscription.  A \<open>float64\<close> is a mantissa and a power of
  two, the decimal number of the message or an exact product rounded to 53 bits, ties to even, with
  the exponent bounded below as for subnormal numbers.  An estimate is in coins per kilobyte; the
  code multiplies by \<open>1e8\<close> and truncates, and the last section bounds what this loses.
\<close>

section \<open>float64\<close>

record f64 =
  mant64 :: int
  expo64 :: int

definition f64_zero :: f64 where
  "f64_zero = \<lparr>mant64 = 0, expo64 = 0\<rparr>"

text \<open>\<open>log2_quot a b\<close> is the floor of the binary logarithm of \<open>a / b\<close>.\<close>

definition log2_quot :: "int \<Rightarrow> int \<Rightarrow> int" where
  "log2_quot a b =
     (let c = bitlen a - bitlen b in
      if b * 2 ^ nat c \<le> a * 2 ^ nat (- c) then c else c - 1)"

definition round53 :: "int \<Rightarrow> int \<Rightarrow> f64" where
  "round53 a b =
     (if a = 0 then f64_zero
      else
        let e = max (log2_quot \<bar>a\<bar> b - 52) (- 1074) in
        \<lparr>mant64 = sgn a * round_even (\<bar>a\<bar> * 2 ^ nat (- e)) (b * 2 ^ nat e), expo64 = e\<rparr>)"

text \<open>The exact numerator and denominator of a value.\<close>

definition f64_num :: "f64 \<Rightarrow> int" where
  "f64_num x = mant64 x * 2 ^ nat (expo64 x)"

definition f64_den :: "f64 \<Rightarrow> int" where
  "f64_den x = 2 ^ nat (- expo64 x)"

definition f64_times :: "f64 \<Rightarrow> int \<Rightarrow> f64" where
  "f64_times x k = round53 (f64_num x * k) (f64_den x)"

definition f64_is :: "f64 \<Rightarrow> int \<Rightarrow> bool" where
  "f64_is x i \<longleftrightarrow> f64_num x = i * f64_den x"

text \<open>\<open>int64(x)\<close> drops the fraction.  What it gives outside the range of \<open>int64\<close> depends on the machine:
  \<open>wild\<close>.\<close>

definition int64_of_f64 :: "(f64 \<Rightarrow> int) \<Rightarrow> f64 \<Rightarrow> int" where
  "int64_of_f64 wild x =
     (let i = sgn (f64_num x) * (\<bar>f64_num x\<bar> div f64_den x) in
      if - (2 ^ 63) \<le> i \<and> i < 2 ^ 63 then i else wild x)"

section \<open>Numbers of a message\<close>

text \<open>The digits of a JSON number, its fraction and its exponent: \<open>decimal\<close> gives a numerator and a
  denominator.\<close>

definition digits_num :: "string \<Rightarrow> int" where
  "digits_num s = foldl (\<lambda>n c. 10 * n + (of_char c - 48)) 0 s"

definition exp10 :: "string \<Rightarrow> int" where
  "exp10 s =
     (case s of [] \<Rightarrow> 0
      | c # r \<Rightarrow> (if c = CHR ''-'' then - digits_num r else if c = CHR ''+'' then digits_num r else digits_num s))"

definition decimal :: "string \<Rightarrow> int \<times> int" where
  "decimal s =
     (let neg = (take 1 s = ''-''); t = (if neg then drop 1 s else s);
          m = takeWhile (\<lambda>c. c \<noteq> CHR ''e'' \<and> c \<noteq> CHR ''E'') t;
          whole = takeWhile (\<lambda>c. c \<noteq> CHR ''.'') m;
          frac = drop (Suc (length whole)) m;
          e = exp10 (drop (Suc (length m)) t) - int (length frac);
          n = (if neg then - 1 else 1) * digits_num (whole @ frac) in
      (n * 10 ^ nat e, 10 ^ nat (- e)))"

text \<open>\<open>strconv.ParseFloat\<close>: a number that rounds to \<open>2 ^ 1024\<close> or more is out of range.\<close>

definition ParseFloat :: "int \<times> int \<Rightarrow> f64 result" where
  "ParseFloat d =
     (let x = round53 (fst d) (snd d) in
      if \<bar>f64_num x\<bar> < 2 ^ 1024 * f64_den x then Inr x else type_error)"

fun set_float :: "(f64 \<Rightarrow> 'r) \<Rightarrow> 'r \<Rightarrow> json \<Rightarrow> 'r result" where
  "set_float f r (JInt i) = thenR (ParseFloat (i, 1)) (\<lambda>x. Inr (f x))"
| "set_float f r (JFrac s) = thenR (ParseFloat (decimal s)) (\<lambda>x. Inr (f x))"
| "set_float f r JNull = Inr r"
| "set_float f r _ = type_error"

section \<open>Fee estimate and unsubscription\<close>

definition EstimateFee_rpc :: "(f64 \<Rightarrow> int) \<Rightarrow> requester \<Rightarrow> int \<Rightarrow> int result" where
  "EstimateFee_rpc wild req confTarget =
     thenR (thenR (req ''blockchain.estimatefee'' (Some [JInt confTarget])) (set_float (\<lambda>x. x) f64_zero))
       (\<lambda>resp.
          if f64_is resp (- 1) then Inl (Err ''server cannot estimate a feerate'')
          else Inr (int64_of_f64 wild (f64_times resp (10 ^ 8))))"

text \<open>\<open>UnsubscribeScripthash\<close> returns nothing; here it is the error it writes to the debug log.\<close>

definition UnsubscribeScripthash :: "requester \<Rightarrow> string \<Rightarrow> fault option" where
  "UnsubscribeScripthash req scripthash =
     (case thenR (req ''blockchain.scripthash.unsubscribe'' (Some [JStr scripthash])) decode_string of
        Inl e \<Rightarrow> Some e
      | Inr _ \<Rightarrow> None)"

section \<open>Verbose transaction\<close>

record sigScript =
  ss_Asm :: string
  ss_Hex :: string

record vin =
  vin_TxID :: string
  vin_Vout :: int
  SigScript :: "sigScript option"
  vin_Witness :: "string list"
  vin_Sequence :: int
  Coinbase :: string

record pkScript =
  pk_Asm :: string
  pk_Hex :: string
  ReqSigs :: int
  pk_Type :: string
  Addresses :: "string list"

record vout =
  vout_Value :: f64
  vout_N :: int
  PkScript_of :: pkScript

record GetTransactionResult =
  gt_TxID :: string
  gt_Version :: int
  gt_Size :: int
  VSize :: int
  Weight :: int
  gt_LockTime :: int
  gt_Hex :: string
  Vin :: "vin list"
  Vout :: "vout list"
  gt_BlockHash :: string
  Confirmations :: int
  gt_Time :: int
  gt_BlockTime :: int

abbreviation "set_uint32 \<equiv> set_int 0 (2 ^ 32)"
abbreviation "set_int32 \<equiv> set_int (- (2 ^ 31)) (2 ^ 31)"

text \<open>A list is set to the decoded elements, and to nil by \<open>null\<close>.\<close>

definition set_list :: "(json \<Rightarrow> 'a result) \<Rightarrow> ('a list \<Rightarrow> 'r) \<Rightarrow> json \<Rightarrow> 'r result" where
  "set_list f g v = thenR (decode_list f v) (\<lambda>l. Inr (g l))"

definition sigScript_field :: "string \<Rightarrow> json \<Rightarrow> sigScript \<Rightarrow> sigScript result" where
  "sigScript_field k v r =
     (if key_is ''asm'' k then set_string (\<lambda>s. r\<lparr>ss_Asm := s\<rparr>) r v
      else if key_is ''hex'' k then set_string (\<lambda>s. r\<lparr>ss_Hex := s\<rparr>) r v
      else Inr r)"

text \<open>The script of an input is a pointer: \<open>null\<close> makes it nil, an object fills the struct it points to or
  a new one.\<close>

definition set_sigScript :: "json \<Rightarrow> sigScript option \<Rightarrow> sigScript option result" where
  "set_sigScript v p =
     (if v = JNull then Inr None
      else
        thenR (decode_struct sigScript_field (case p of None \<Rightarrow> \<lparr>ss_Asm = [], ss_Hex = []\<rparr> | Some r \<Rightarrow> r) v)
          (\<lambda>r. Inr (Some r)))"

definition vin_field :: "string \<Rightarrow> json \<Rightarrow> vin \<Rightarrow> vin result" where
  "vin_field k v r =
     (if key_is ''txid'' k then set_string (\<lambda>s. r\<lparr>vin_TxID := s\<rparr>) r v
      else if key_is ''vout'' k then set_uint32 (\<lambda>i. r\<lparr>vin_Vout := i\<rparr>) r v
      else if key_is ''scriptsig'' k then thenR (set_sigScript v (SigScript r)) (\<lambda>p. Inr (r\<lparr>SigScript := p\<rparr>))
      else if key_is ''txinwitness'' k then set_list decode_string (\<lambda>l. r\<lparr>vin_Witness := l\<rparr>) v
      else if key_is ''sequence'' k then set_uint32 (\<lambda>i. r\<lparr>vin_Sequence := i\<rparr>) r v
      else if key_is ''coinbase'' k then set_string (\<lambda>s. r\<lparr>Coinbase := s\<rparr>) r v
      else Inr r)"

definition pkScript_field :: "string \<Rightarrow> json \<Rightarrow> pkScript \<Rightarrow> pkScript result" where
  "pkScript_field k v r =
     (if key_is ''asm'' k then set_string (\<lambda>s. r\<lparr>pk_Asm := s\<rparr>) r v
      else if key_is ''hex'' k then set_string (\<lambda>s. r\<lparr>pk_Hex := s\<rparr>) r v
      else if key_is ''reqsigs'' k then set_uint32 (\<lambda>i. r\<lparr>ReqSigs := i\<rparr>) r v
      else if key_is ''type'' k then set_string (\<lambda>s. r\<lparr>pk_Type := s\<rparr>) r v
      else if key_is ''addresses'' k then set_list decode_string (\<lambda>l. r\<lparr>Addresses := l\<rparr>) v
      else Inr r)"

definition vout_field :: "string \<Rightarrow> json \<Rightarrow> vout \<Rightarrow> vout result" where
  "vout_field k v r =
     (if key_is ''value'' k then set_float (\<lambda>x. r\<lparr>vout_Value := x\<rparr>) r v
      else if key_is ''n'' k then set_uint32 (\<lambda>i. r\<lparr>vout_N := i\<rparr>) r v
      else if key_is ''scriptpubkey'' k then
        thenR (decode_struct pkScript_field (PkScript_of r) v) (\<lambda>p. Inr (r\<lparr>PkScript_of := p\<rparr>))
      else Inr r)"

definition zero_vin :: vin where
  "zero_vin = \<lparr>vin_TxID = [], vin_Vout = 0, SigScript = None, vin_Witness = [], vin_Sequence = 0, Coinbase = []\<rparr>"

definition zero_vout :: vout where
  "zero_vout = \<lparr>vout_Value = f64_zero, vout_N = 0,
     PkScript_of = \<lparr>pk_Asm = [], pk_Hex = [], ReqSigs = 0, pk_Type = [], Addresses = []\<rparr>\<rparr>"

definition transaction_field :: "string \<Rightarrow> json \<Rightarrow> GetTransactionResult \<Rightarrow> GetTransactionResult result" where
  "transaction_field k v r =
     (if key_is ''txid'' k then set_string (\<lambda>s. r\<lparr>gt_TxID := s\<rparr>) r v
      else if key_is ''version'' k then set_uint32 (\<lambda>i. r\<lparr>gt_Version := i\<rparr>) r v
      else if key_is ''size'' k then set_uint32 (\<lambda>i. r\<lparr>gt_Size := i\<rparr>) r v
      else if key_is ''vsize'' k then set_uint32 (\<lambda>i. r\<lparr>VSize := i\<rparr>) r v
      else if key_is ''weight'' k then set_uint32 (\<lambda>i. r\<lparr>Weight := i\<rparr>) r v
      else if key_is ''locktime'' k then set_uint32 (\<lambda>i. r\<lparr>gt_LockTime := i\<rparr>) r v
      else if key_is ''hex'' k then set_string (\<lambda>s. r\<lparr>gt_Hex := s\<rparr>) r v
      else if key_is ''vin'' k then set_list (decode_struct vin_field zero_vin) (\<lambda>l. r\<lparr>Vin := l\<rparr>) v
      else if key_is ''vout'' k then set_list (decode_struct vout_field zero_vout) (\<lambda>l. r\<lparr>Vout := l\<rparr>) v
      else if key_is ''blockhash'' k then set_string (\<lambda>s. r\<lparr>gt_BlockHash := s\<rparr>) r v
      else if key_is ''confirmations'' k then set_int32 (\<lambda>i. r\<lparr>Confirmations := i\<rparr>) r v
      else if key_is ''time'' k then set_int64 (\<lambda>i. r\<lparr>gt_Time := i\<rparr>) r v
      else if key_is ''blocktime'' k then set_int64 (\<lambda>i. r\<lparr>gt_BlockTime := i\<rparr>) r v
      else Inr r)"

definition getTransaction_rpc :: "requester \<Rightarrow> string \<Rightarrow> GetTransactionResult result" where
  "getTransaction_rpc req txid =
     thenR (req ''blockchain.transaction.get'' (Some [JStr txid, JBool True]))
       (decode_struct transaction_field
          \<lparr>gt_TxID = [], gt_Version = 0, gt_Size = 0, VSize = 0, Weight = 0, gt_LockTime = 0, gt_Hex = [], Vin = [],
           Vout = [], gt_BlockHash = [], Confirmations = 0, gt_Time = 0, gt_BlockTime = 0\<rparr>)"

section \<open>What the estimate loses\<close>

definition f64_val :: "f64 \<Rightarrow> real" where
  "f64_val x = f64_num x / f64_den x"

lemma f64_den_pos [simp]: "0 < f64_den x"
  by (simp add: f64_den_def)

lemma powi_quot: "(2 :: real) powi e = 2 ^ nat e / 2 ^ nat (- e)"
  by (simp add: power_int_def divide_simps power_inverse)

lemma f64_val_powi: "f64_val x = mant64 x * 2 powi expo64 x"
  by (simp add: f64_val_def f64_num_def f64_den_def powi_quot)

lemma round_even_err:
  assumes "0 < d"
  shows "\<bar>real_of_int (round_even a d) - a / d\<bar> \<le> 1 / 2"
proof -
  define q r where qr: "q = a div d" "r = a mod d"
  have "a = d * q + r" "0 \<le> r" "r < d" using assms by (simp_all add: qr)
  moreover have "round_even a d = (if 2 * r > d \<or> (2 * r = d \<and> odd q) then q + 1 else q)"
    by (simp add: round_even_def qr Let_def)
  ultimately have "\<bar>2 * (round_even a d * d) - 2 * a\<bar> \<le> d"
    by (auto simp: distrib_left distrib_right mult.commute [of d])
  then have "\<bar>2 * (real_of_int (round_even a d) * d) - 2 * a\<bar> \<le> d"
    by (metis (mono_tags, opaque_lifting) of_int_abs of_int_diff of_int_le_iff of_int_mult of_int_numeral)
  moreover have "real_of_int (round_even a d) - a / d = (2 * (real_of_int (round_even a d) * d) - 2 * a) / (2 * d)"
    using assms by (simp add: field_simps)
  ultimately show ?thesis using assms by (simp add: abs_divide divide_le_eq)
qed

lemma log2_quot_le:
  assumes "0 < a" "0 < b"
  shows "2 powi log2_quot a b \<le> real_of_int a / b"
proof -
  let ?c = "bitlen a - bitlen b"
  have "0 < bitlen a" using assms(1) bitlen_nonneg [of a] bitlen_eq_zero_iff [of a] by linarith
  then have "(2 :: real) powi (bitlen a - 1) = of_int (2 ^ nat (bitlen a - 1))"
    by (simp add: power_int_def)
  also have "\<dots> \<le> a" using bitlen_bounds [OF assms(1)] by (simp only: of_int_le_iff)
  finally have a: "(2 :: real) powi (bitlen a - 1) \<le> a" .
  have "real_of_int b \<le> of_int (2 ^ nat (bitlen b))" using bitlen_bounds [OF assms(2)] by (simp only: of_int_le_iff less_imp_le)
  also have "\<dots> = 2 powi bitlen b" using bitlen_nonneg [of b] by (simp add: power_int_def)
  finally have b: "real_of_int b \<le> 2 powi bitlen b" .
  have "2 powi (?c - 1) = (2 :: real) powi (bitlen a - 1) / 2 powi bitlen b"
    by (simp add: power_int_diff [symmetric] algebra_simps)
  also have "\<dots> \<le> a / b" using a b assms by (intro frac_le) simp_all
  finally have low: "2 powi (?c - 1) \<le> real_of_int a / b" .
  have "2 powi ?c \<le> real_of_int a / b" if "b * 2 ^ nat ?c \<le> a * 2 ^ nat (- ?c)"
  proof -
    have "real_of_int (b * 2 ^ nat ?c) \<le> real_of_int (a * 2 ^ nat (- ?c))" using that by (simp only: of_int_le_iff)
    then show ?thesis using assms by (simp add: powi_quot field_simps)
  qed
  then show ?thesis using low by (simp add: log2_quot_def Let_def)
qed

lemma round53_err:
  assumes "0 < a" "0 < b" and "2 powi (- 1022) \<le> real_of_int a / b"
  shows "\<bar>f64_val (round53 a b) - a / b\<bar> \<le> a / b * 2 powi (- 53)"
proof -
  let ?l = "log2_quot a b - 52" and ?x = "round53 a b"
  let ?e = "max ?l (- 1074)"
  let ?n = "a * 2 ^ nat (- ?e)" and ?d = "b * 2 ^ nat ?e"
  have x: "mant64 ?x = round_even ?n ?d" "expo64 ?x = ?e"
    using assms(1) by (simp_all add: round53_def Let_def)
  have q: "real_of_int ?n / ?d * 2 powi ?e = a / b"
    using assms(2) by (simp add: powi_quot field_simps)
  have "\<bar>f64_val ?x - a / b\<bar> = \<bar>real_of_int (round_even ?n ?d) - ?n / ?d\<bar> * 2 powi ?e"
    unfolding f64_val_powi x q [symmetric] by (simp only: left_diff_distrib [symmetric] abs_mult) simp
  also have "\<dots> \<le> 1 / 2 * 2 powi ?e"
    using assms(2) by (intro mult_right_mono round_even_err) simp_all
  also have "\<dots> = 2 powi (?e + 52) * 2 powi (- 53)"
    by (simp add: power_int_add [symmetric] power_int_minus field_simps power_int_add)
  also have "\<dots> \<le> a / b * 2 powi (- 53)"
    using log2_quot_le [OF assms(1,2)] assms(3) by (intro mult_right_mono) (simp_all add: max_def)
  finally show ?thesis .
qed

text \<open>A rate of \<open>k\<close> satoshis per kilobyte, written as coins, is off by less than one after the two
  roundings.\<close>

lemma round53_near:
  assumes "0 < a" "0 < b" "real_of_int a / b = v" "1 / 10 ^ 9 \<le> v"
  shows "\<bar>f64_val (round53 a b) - v\<bar> \<le> v / 2 ^ 53"
proof -
  have "(2 :: real) powi (- 1022) \<le> 2 powi (- 30)" by (rule power_int_increasing) simp_all
  also have "\<dots> \<le> 1 / 10 ^ 9" by (simp add: power_int_def power_one_over)
  finally have "2 powi (- 1022) \<le> real_of_int a / b" using assms(3,4) by linarith
  from round53_err [OF assms(1,2) this] have "\<bar>f64_val (round53 a b) - v\<bar> \<le> v * 2 powi (- 53)"
    unfolding assms(3) .
  moreover have "(2 :: real) powi (- 53) = 1 / 2 ^ 53" by (simp add: power_int_def power_one_over)
  ultimately show ?thesis by simp
qed

lemma f64_num_pos: "0 < f64_val x \<Longrightarrow> 0 < f64_num x"
  using f64_den_pos [of x] by (auto simp: f64_val_def zero_less_divide_iff simp del: f64_den_pos)

lemma f64_val_times:
  "real_of_int (f64_num x * k) / f64_den x = f64_val x * k"
  by (simp add: f64_val_def)

lemma int64_of_f64_near:
  assumes "1 \<le> k" "k < 2 ^ 62" "\<bar>f64_val y - k\<bar> < 1"
  shows "int64_of_f64 wild y = k - 1 \<or> int64_of_f64 wild y = k"
proof -
  let ?i = "f64_num y div f64_den y"
  have v: "real_of_int (k - 1) < f64_val y" "f64_val y < real_of_int (k + 1)" using assms(3) by auto
  then have n: "0 < f64_num y" using assms(1) by (intro f64_num_pos) simp
  have "real_of_int ((k - 1) * f64_den y) < f64_num y" "f64_num y < real_of_int ((k + 1) * f64_den y)"
    using v by (simp_all add: f64_val_def pos_less_divide_eq pos_divide_less_eq)
  then have "(k - 1) * f64_den y \<le> f64_num y" "f64_num y < (k + 1) * f64_den y"
    by (simp_all only: of_int_less_iff less_imp_le)
  then have "k - 1 \<le> ?i" "?i < k + 1"
    using zdiv_mono1 [of "(k - 1) * f64_den y" "f64_num y" "f64_den y"]
      div_less_pow [of "f64_num y" "k + 1" "f64_den y"] f64_den_pos [of y]
    by simp_all
  moreover have "int64_of_f64 wild y = ?i"
    using n calculation assms(1,2) by (simp add: int64_of_f64_def Let_def)
  ultimately show ?thesis by linarith
qed

text \<open>The estimate of \<open>k\<close> satoshis per kilobyte is returned as \<open>k\<close> or as \<open>k - 1\<close>.\<close>

lemma estimate_near:
  assumes "0 < a" "0 < b" "a * 10 ^ 8 = k * b" "k < 2 ^ 50"
  shows "0 < f64_num (round53 a b)" "\<bar>f64_num (round53 a b)\<bar> < 2 ^ 1024 * f64_den (round53 a b)"
    and "int64_of_f64 wild (f64_times (round53 a b) (10 ^ 8)) \<in> {k - 1, k}"
proof -
  let ?x = "round53 a b" and ?v = "real_of_int a / b"
  have "0 < k * b" using assms(1) by (simp flip: assms(3))
  then have k: "1 \<le> k" using assms(2) by (simp add: zero_less_mult_iff)
  have v: "?v = k / 10 ^ 8"
  proof -
    have "real_of_int (a * 10 ^ 8) = real_of_int (k * b)" using assms(3) by (simp only:)
    then show ?thesis using assms(2) by (simp add: field_simps)
  qed
  have v9: "1 / 10 ^ 9 \<le> ?v" unfolding v using k by simp
  have x: "\<bar>f64_val ?x - ?v\<bar> \<le> ?v / 2 ^ 53" by (rule round53_near [OF assms(1,2) refl v9])
  then have xv: "?v / 2 \<le> f64_val ?x" "f64_val ?x \<le> 2 * ?v" using v9 by (simp_all add: abs_le_iff)
  have "0 < ?v / 2" using assms(1,2) by simp
  then have "0 < f64_val ?x" using xv(1) by (rule less_le_trans)
  then show n: "0 < f64_num ?x" by (rule f64_num_pos)
  have "f64_val ?x < 2 ^ 1024"
  proof -
    have "f64_val ?x \<le> 2 * (k / 10 ^ 8)" using xv(2) v by simp
    also have "\<dots> < 2 ^ 51" using assms(4) by simp
    also have "(2 :: real) ^ 51 \<le> 2 ^ 1024" by (rule power_increasing) simp_all
    finally show ?thesis .
  qed
  then have "real_of_int (f64_num ?x) < of_int (2 ^ 1024 * f64_den ?x)"
    unfolding f64_val_def by (subst (asm) pos_divide_less_eq) (simp_all only: of_int_mult of_int_power of_int_numeral of_int_0_less_iff f64_den_pos)
  then show "\<bar>f64_num ?x\<bar> < 2 ^ 1024 * f64_den ?x" using n by (simp only: of_int_less_iff abs_of_pos)
  let ?y = "f64_times ?x (10 ^ 8)" and ?z = "f64_val ?x * 10 ^ 8"
  have z: "real_of_int (f64_num ?x * 10 ^ 8) / f64_den ?x = ?z"
    using f64_val_times [of ?x "10 ^ 8"] by simp
  have z9: "1 / 10 ^ 9 \<le> ?z" using xv(1) v9 by simp
  have "\<bar>f64_val ?y - ?z\<bar> \<le> ?z / 2 ^ 53"
    unfolding f64_times_def using n by (intro round53_near z z9) simp_all
  moreover have "\<bar>?z - k\<bar> \<le> k / 2 ^ 53"
    using x unfolding v abs_le_iff by (simp add: field_simps)
  moreover have "?z \<le> 2 * k" using xv(2) unfolding v by simp
  moreover have "3 * real_of_int k < 2 ^ 53" using assms(4) by simp
  ultimately have "\<bar>f64_val ?y - k\<bar> < 1"
    unfolding abs_le_iff abs_less_iff by (auto simp: field_simps)
  then show "int64_of_f64 wild ?y \<in> {k - 1, k}"
    using int64_of_f64_near [OF k] assms(4) by simp
qed

lemma minus_one:
  "f64_is (round53 (- 1) 1) (- 1)" "\<bar>f64_num (round53 (- 1) 1)\<bar> < 2 ^ 1024 * f64_den (round53 (- 1) 1)"
  by code_simp+

text \<open>C37: A server's estimate of \<open>k\<close> satoshis per kilobyte, written as a decimal number of coins in any
  form, is returned as \<open>k\<close> or, by the truncation after the multiplication, as \<open>k - 1\<close>, never as an
  error; the answer \<open>-1\<close> is returned as an error.\<close>

theorem EstimateFee_within_one:
  assumes "req ''blockchain.estimatefee'' (Some [JInt confTarget]) = Inr (JFrac s)"
    and "decimal s = (a, b)" "a * 10 ^ 8 = k * b" "0 \<le> k" "k < 2 ^ 50"
    and "req' ''blockchain.estimatefee'' (Some [JInt confTarget]) = Inr (JInt (- 1))"
  shows "EstimateFee_rpc wild req confTarget \<in> {Inr (max 0 (k - 1)), Inr k} \<and>
    EstimateFee_rpc wild req' confTarget = Inl (Err ''server cannot estimate a feerate'')"
proof -
  have b: "0 < b" using assms(2) by (auto simp: decimal_def Let_def)
  have "EstimateFee_rpc wild req confTarget \<in> {Inr (max 0 (k - 1)), Inr k}"
  proof (cases "a = 0")
    case True
    then have "k = 0" using assms(3) b by simp
    then show ?thesis using True assms(1,2)
      by (simp add: EstimateFee_rpc_def ParseFloat_def round53_def f64_zero_def f64_num_def f64_den_def f64_is_def
          f64_times_def int64_of_f64_def)
  next
    case False
    have "0 \<le> k * b" using assms(4) b by simp
    then have a: "0 < a" using False by (simp flip: assms(3))
    then have "k \<noteq> 0" using assms(3) by auto
    then have k: "max 0 (k - 1) = k - 1" using assms(4) by simp
    note near = estimate_near [OF a b assms(3,5)]
    show ?thesis
      using near assms(1,2) f64_den_pos [of "round53 a b"] unfolding k
      by (auto simp: EstimateFee_rpc_def ParseFloat_def f64_is_def)
  qed
  moreover have "EstimateFee_rpc wild req' confTarget = Inl (Err ''server cannot estimate a feerate'')"
    using assms(6) minus_one by (simp add: EstimateFee_rpc_def ParseFloat_def Let_def)
  ultimately show ?thesis by simp
qed

definition ex_fee_req :: "json \<Rightarrow> requester" where
  "ex_fee_req answer m args = Inr answer"

theorem EstimateFee_within_one_witness:
  "EstimateFee_rpc (\<lambda>_. 0) (ex_fee_req (JFrac ''0.00001015'')) 6 \<in> {Inr 1014, Inr 1015}"
proof -
  have "decimal ''0.00001015'' = (1015, 10 ^ 8)" by code_simp
  from EstimateFee_within_one [OF _ this, of "ex_fee_req (JFrac ''0.00001015'')" 6 1015 "ex_fee_req (JInt (- 1))" "\<lambda>_. 0"]
  show ?thesis by (simp add: ex_fee_req_def)
qed

text \<open>The truncation does lose a satoshi: \<open>0.00001015\<close> coins are returned as 1014.\<close>

lemma estimate_loses_one:
  "EstimateFee_rpc (\<lambda>_. 0) (ex_fee_req (JFrac ''0.00001015'')) 6 = Inr 1014"
  by code_simp

text \<open>An answer that is a boolean is reported as an error of the unsubscription.\<close>

lemma unsubscribe_bool_logged:
  "UnsubscribeScripthash (ex_fee_req (JBool ok)) scripthash = Some (Err ''json: cannot unmarshal'')"
  by (simp add: UnsubscribeScripthash_def ex_fee_req_def decode_string_def type_error_def)

end
