(* ===== verification/Node_Api.thy ===== *)
theory Node_Api
  imports Header_Initial Known_Servers Verbose_Rpc
begin

text \<open>
  Starting a node and the server api it offers, \<open>electrumx/node.go\<close> and \<open>node_scripthash.go\<close>.  Each
  call is refused when the node is not connected and is charged to the session otherwise.  The
  connection is a \<open>requester\<close> per call; \<open>marshal\<close> is the JSON text of a result, whose length is
  charged.  Dialling and TLS are outside the model.
\<close>

section \<open>Creating a node\<close>

text \<open>\<open>net.SplitHostPort\<close>: the port follows the last colon; a host with a colon must be bracketed.\<close>

definition last_colon :: "string \<Rightarrow> nat option" where
  "last_colon s =
     (case List.find (\<lambda>i. s ! i = CHR '':'') (rev [0..<length s]) of None \<Rightarrow> None | Some i \<Rightarrow> Some i)"

definition SplitHostPort :: "string \<Rightarrow> (string \<times> string) result" where
  "SplitHostPort hostport =
     (case last_colon hostport of
        None \<Rightarrow> Inl (Err ''missing port in address'')
      | Some i \<Rightarrow>
          (if hostport ! 0 = CHR ''['' then
             (case List.find (\<lambda>j. hostport ! j = CHR '']'') [0..<length hostport] of
                None \<Rightarrow> Inl (Err ''missing ] in address'')
              | Some e \<Rightarrow>
                  (if e + 1 = length hostport then Inl (Err ''missing port in address'')
                   else if e + 1 \<noteq> i then
                     Inl (Err (if hostport ! (e + 1) = CHR '':'' then ''too many colons in address''
                               else ''missing port in address''))
                   else if CHR ''['' \<in> set (drop 1 hostport) then Inl (Err ''unexpected [ in address'')
                   else if CHR '']'' \<in> set (drop (e + 1) hostport) then Inl (Err ''unexpected ] in address'')
                   else Inr (take (e - 1) (drop 1 hostport), drop (i + 1) hostport)))
           else if CHR '':'' \<in> set (take i hostport) then Inl (Err ''too many colons in address'')
           else if CHR ''['' \<in> set hostport then Inl (Err ''unexpected [ in address'')
           else if CHR '']'' \<in> set hostport then Inl (Err ''unexpected ] in address'')
           else Inr (take i hostport, drop (i + 1) hostport)))"

record node_conf =
  serverAddr_of :: string
  netProto :: string
  useTLS :: "string option"
  torProxy :: string
  leaderFlag :: bool

definition newNode :: "NodeServerAddr \<Rightarrow> string \<Rightarrow> bool \<Rightarrow> node_conf result" where
  "newNode netAddr proxyAddr isLeader =
     thenR (SplitHostPort (nsa_Addr netAddr)) (\<lambda>(host, _).
       if nsa_Net netAddr = ''ssl'' \<or> nsa_Net netAddr = ''tcp'' then
         Inr \<lparr>serverAddr_of = nsa_Addr netAddr, netProto = nsa_Net netAddr,
              useTLS = (if nsa_Net netAddr = ''ssl'' then Some host else None),
              torProxy = proxyAddr, leaderFlag = isLeader\<rparr>
       else Inl (Err (''unknown protocol: '' @ nsa_Net netAddr)))"

text \<open>\<open>start\<close> after the dial: version and genesis checks, a new session, and for a leader the initial
  synchronisation and the subscription.  The node is marked connected before the leader's part, and
  stays so when that fails.\<close>

definition node_start ::
  "(nat \<Rightarrow> requester) \<Rightarrow> node_env \<Rightarrow> nat \<Rightarrow> string \<Rightarrow> bool \<Rightarrow> node \<Rightarrow> (node \<times> headersNotifyResult option result) option" where
  "node_start req E fuel genesis isLeader n =
     (case serverVersion (req (calls n)) ''Electrum'' ''1.4'' of
        Inl e \<Rightarrow> Some (tick n, Inl e)
      | Inr version \<Rightarrow>
          (case features (req (calls (tick n))) of
             Inl e \<Rightarrow> Some (tick (tick n), Inl e)
           | Inr feats \<Rightarrow>
               (if FGenesis feats \<noteq> genesis then Some (tick (tick n), Inl (Err ''wrong genesis hash''))
                else
                  let n1 = (tick (tick n))\<lparr>connected := True, nsession := newSession\<rparr> in
                  if \<not> isLeader then Some (n1, Inr None)
                  else
                    (case syncNetworkHeaders E fuel n1 of
                       None \<Rightarrow> None
                     | Some (n2, Inl e) \<Rightarrow> Some (n2, Inl e)
                     | Some (n2, Inr _) \<Rightarrow>
                         (case headersNotify E n2 of
                            (n3, Inl e) \<Rightarrow> Some (n3, Inl e)
                          | (n3, Inr first) \<Rightarrow> Some (n3, Inr (Some first)))))))"

definition promoteToLeader ::
  "node_env \<Rightarrow> nat \<Rightarrow> node \<Rightarrow> (node \<times> headersNotifyResult result) option" where
  "promoteToLeader E fuel n =
     (case (if synced (networkHeaders n) then Some (n, Inr ()) else syncNetworkHeaders E fuel n) of
        None \<Rightarrow> None
      | Some (n1, Inl e) \<Rightarrow> Some (n1, Inl e)
      | Some (n1, Inr _) \<Rightarrow> Some (headersNotify E n1))"

section \<open>Server api\<close>

definition charged :: "('a \<Rightarrow> session \<Rightarrow> session) \<Rightarrow> 'a result \<Rightarrow> node \<Rightarrow> node \<times> 'a result" where
  "charged f r n =
     (if \<not> connected n then (n, Inl (Err ''node not connected''))
      else case r of
        Inr x \<Rightarrow> (charge (f x) (tick n), Inr x)
      | Inl e \<Rightarrow> (charge bumpCostError (tick n), Inl e))"

text \<open>The calls that are not charged.\<close>

definition uncharged :: "'a result \<Rightarrow> node \<Rightarrow> node \<times> 'a result" where
  "uncharged r n = (if \<not> connected n then (n, Inl (Err ''node not connected'')) else (tick n, r))"

definition node_getServerPeers :: "(nat \<Rightarrow> requester) \<Rightarrow> node \<Rightarrow> node \<times> peersResult list result" where
  "node_getServerPeers req n = uncharged (serverPeers (req (calls n))) n"

definition node_subscribeScripthash ::
  "(nat \<Rightarrow> requester) \<Rightarrow> string \<Rightarrow> node \<Rightarrow> node \<times> ScripthashStatusResult result" where
  "node_subscribeScripthash req scripthash n = uncharged (SubscribeScripthash (req (calls n)) scripthash) n"

definition node_getHistory ::
  "(History list \<Rightarrow> string) \<Rightarrow> (nat \<Rightarrow> requester) \<Rightarrow> string \<Rightarrow> node \<Rightarrow> node \<times> History list result" where
  "node_getHistory marshal req scripthash n =
     charged (\<lambda>res. bumpCostStruct (marshal res)) (GetHistory_rpc (req (calls n)) scripthash) n"

definition node_getListUnspent ::
  "(ListUnspent list \<Rightarrow> string) \<Rightarrow> (nat \<Rightarrow> requester) \<Rightarrow> string \<Rightarrow> node \<Rightarrow> node \<times> ListUnspent list result" where
  "node_getListUnspent marshal req scripthash n =
     charged (\<lambda>res. bumpCostStruct (marshal res)) (GetListUnspent_rpc (req (calls n)) scripthash) n"

definition node_getRawTransaction ::
  "(nat \<Rightarrow> requester) \<Rightarrow> string \<Rightarrow> node \<Rightarrow> node \<times> string result" where
  "node_getRawTransaction req txid n =
     charged (\<lambda>res s. bumpCostString res (bumpCostString txid s)) (getRawTransaction_rpc (req (calls n)) txid) n"

definition node_getTransaction ::
  "(GetTransactionResult \<Rightarrow> string) \<Rightarrow> (nat \<Rightarrow> requester) \<Rightarrow> string \<Rightarrow> node \<Rightarrow> node \<times> GetTransactionResult result" where
  "node_getTransaction marshal req txid n =
     charged (\<lambda>res s. bumpCostStruct (marshal res) (bumpCostString txid s)) (getTransaction_rpc (req (calls n)) txid) n"

definition node_estimateFeeRate ::
  "(f64 \<Rightarrow> int) \<Rightarrow> (nat \<Rightarrow> requester) \<Rightarrow> int \<Rightarrow> node \<Rightarrow> node \<times> int result" where
  "node_estimateFeeRate wild req confTarget n =
     charged (\<lambda>_. bumpCostBytes 8) (EstimateFee_rpc wild (req (calls n)) confTarget) n"

definition node_unsubscribeScripthash :: "(nat \<Rightarrow> requester) \<Rightarrow> string \<Rightarrow> node \<Rightarrow> node \<times> fault option" where
  "node_unsubscribeScripthash req scripthash n =
     (if \<not> connected n then (n, None) else (tick n, UnsubscribeScripthash (req (calls n)) scripthash))"

definition node_broadcast :: "(nat \<Rightarrow> requester) \<Rightarrow> string \<Rightarrow> node \<Rightarrow> node \<times> string result" where
  "node_broadcast req rawTx n =
     charged (\<lambda>txid s. bumpCostString txid (bumpCostString rawTx s)) (Broadcast_rpc (req (calls n)) rawTx) n"

text \<open>\<open>scriptHashQueue\<close> forwards each notification to the client until the channel delivers nil.\<close>

fun scriptHashQueue :: "ScripthashStatusResult option list \<Rightarrow> ScripthashStatusResult list \<times> bool" where
  "scriptHashQueue [] = ([], True)"
| "scriptHashQueue (None # _) = ([], False)"
| "scriptHashQueue (Some ntfn # rest) = (case scriptHashQueue rest of (out, go) \<Rightarrow> (ntfn # out, go))"

lemma scriptHashQueue_forwards:
  "fst (scriptHashQueue msgs) = map the (takeWhile (\<lambda>m. m \<noteq> None) msgs)"
  by (induction msgs rule: scriptHashQueue.induct) (auto split: prod.splits)

section \<open>Refusals\<close>

text \<open>A node whose server reports another genesis hash is never used: \<open>start\<close> ends with an error,
  the node is not marked connected, its headers are untouched, and every later call of the server api
  is refused without reaching the server.\<close>

theorem wrong_genesis_refused:
  assumes "\<not> connected n" "serverVersion (req (calls n)) ''Electrum'' ''1.4'' = Inr v"
    and "features (req (Suc (calls n))) = Inr feats" "FGenesis feats \<noteq> genesis"
  shows "\<exists>n' m. node_start req E fuel genesis isLeader n = Some (n', Inl (Err m)) \<and>
    \<not> connected n' \<and> networkHeaders n' = networkHeaders n \<and>
    node_getHistory marshal req sh n' = (n', Inl (Err ''node not connected'')) \<and>
    node_broadcast req tx n' = (n', Inl (Err ''node not connected'')) \<and>
    headersNotify E n' = (n', Inl (Err ''server headers notify channel is nil''))"
  using assms
  by (simp add: node_start_def node_getHistory_def node_broadcast_def charged_def headersNotify_def)

definition ex_req :: "string \<Rightarrow> nat \<Rightarrow> requester" where
  "ex_req genesis t m args =
     (if m = ''server.version'' then Inr (JArr [JStr ''ElectrumX'', JStr ''1.4''])
      else if m = ''server.features'' then Inr (JObj [(''genesis_hash'', JStr genesis)])
      else Inl (Err ''unexpected''))"

lemma ex_req_features:
  "\<exists>feats. features (ex_req g t) = Inr feats \<and> FGenesis feats = g"
  by (simp add: features_def ex_req_def features_field_def key_is_def lower_def)

theorem wrong_genesis_refused_witness:
  "\<exists>n' m. node_start (ex_req ''aa'') (ex_env 30) 1 ''bb'' True ((ex_node 5)\<lparr>connected := False\<rparr>) = Some (n', Inl (Err m)) \<and>
     \<not> connected n'"
proof -
  obtain feats where f: "features (ex_req ''aa'' (Suc (calls ((ex_node 5)\<lparr>connected := False\<rparr>)))) = Inr feats"
    "FGenesis feats = ''aa''"
    using ex_req_features by blast
  have v: "serverVersion (ex_req ''aa'' (calls ((ex_node 5)\<lparr>connected := False\<rparr>))) ''Electrum'' ''1.4'' = Inr [''ElectrumX'', ''1.4'']"
    by (simp add: serverVersion_def ex_req_def decode_string_def)
  have c: "\<not> connected ((ex_node 5)\<lparr>connected := False\<rparr>)" by simp
  have "FGenesis feats \<noteq> ''bb''" using f(2) by simp
  from wrong_genesis_refused [OF c v f(1) this, where E = "ex_env 30" and fuel = 1 and isLeader = True]
  show ?thesis by blast
qed

end
