(* ===== verification/Network_Peers.thy ===== *)
theory Network_Peers
  imports Node_Api "HOL-Library.Multiset"
begin

text \<open>
  The network controller of \<open>electrumx/network.go\<close>: one leader and several peer nodes, replaced as
  their contexts end, and the api that passes calls to the leader.  Starting and promoting a node,
  the peer list its server sends, the shuffles and the file operations are arguments; contexts are
  numbered, and an environment step may end any of them.
\<close>

section \<open>State\<close>

record peerNode =
  pn_id :: "32 word"
  pn_isLeader :: bool
  pn_isTrusted :: bool
  pn_addr :: NodeServerAddr
  pn_ctx :: nat

record Network =
  nconfig :: ElectrumXConfig
  started :: bool
  leader :: "peerNode option"
  peers :: "peerNode list"
  servers :: known
  proxyAddr :: string
  nheaders :: headers
  peerId :: "32 word"
  ctxAlive :: "nat \<Rightarrow> bool"
  nextCtx :: nat
  clock :: nat

record net_env =
  startNode :: "nat \<Rightarrow> NodeServerAddr \<Rightarrow> string \<Rightarrow> bool \<Rightarrow> headers \<Rightarrow> headers \<times> unit result"
  promoteNode :: "nat \<Rightarrow> peerNode \<Rightarrow> headers \<Rightarrow> headers \<times> unit result"
  leaderPeers :: "nat \<Rightarrow> peersResult list result"
  shuffleServers :: "nat \<Rightarrow> serverAddr list \<Rightarrow> serverAddr list"
  shuffleNodes :: "nat \<Rightarrow> peerNode list \<Rightarrow> peerNode list"
  netFile :: "nat \<Rightarrow> io_env"
  parseIP :: "string \<Rightarrow> bool"

definition LOCALHOST :: string where
  "LOCALHOST = ''127.0.0.1''"

definition NewNetwork :: "ElectrumXConfig \<Rightarrow> bytes option \<Rightarrow> servers_file \<Rightarrow> Network" where
  "NewNetwork config hfile sfile =
     \<lparr>nconfig = config, started = False, leader = None, peers = [],
      servers = \<lparr>knownServers = [], serversFile = sfile\<rparr>,
      proxyAddr = (if ProxyPort config \<noteq> [] then LOCALHOST @ '':'' @ ProxyPort config else []),
      nheaders = newHeaders config hfile, peerId = 0, ctxAlive = (\<lambda>_. False), nextCtx = 0, clock = 0\<rparr>"

definition alive :: "Network \<Rightarrow> peerNode \<Rightarrow> bool" where
  "alive net p \<longleftrightarrow> ctxAlive net (pn_ctx p)"

definition nodeCancel :: "nat \<Rightarrow> Network \<Rightarrow> Network" where
  "nodeCancel c net = net\<lparr>ctxAlive := (ctxAlive net)(c := False)\<rparr>"

section \<open>Peers of the leader's server\<close>

definition getServers :: "net_env \<Rightarrow> Network \<Rightarrow> Network \<times> unit result" where
  "getServers E net =
     (if \<not> started net then (net, Inl (Err ''network not started''))
      else case leader net of None \<Rightarrow> (net, Inl (Err ''no leader node is assigned''))
      | Some _ \<Rightarrow>
          (case leaderPeers E (clock net) of
             Inl e \<Rightarrow> (net\<lparr>clock := Suc (clock net)\<rparr>, Inl e)
           | Inr peerResults \<Rightarrow>
               (let net' = net\<lparr>clock := Suc (clock net)\<rparr> in
                if peerResults = [] then (net', Inr ())
                else case addIncomingServers (parseIP E) peerResults (servers net') of
                  (k, r) \<Rightarrow> (net'\<lparr>servers := k\<rparr>, r))))"

text \<open>Errors are printed and ignored; a panic is not.\<close>

definition getServerPeers :: "net_env \<Rightarrow> Network \<Rightarrow> Network \<times> unit result" where
  "getServerPeers E net =
     (case getServers E net of
        (net', Inl (Panic m)) \<Rightarrow> (net', Inl (Panic m))
      | (net', _) \<Rightarrow> (net', Inr ()))"

section \<open>Starting and removing nodes\<close>

definition newPeerNodeWithId :: "bool \<Rightarrow> bool \<Rightarrow> NodeServerAddr \<Rightarrow> Network \<Rightarrow> Network \<times> peerNode" where
  "newPeerNodeWithId isLeader isTrusted netAddr net =
     (net\<lparr>peerId := peerId net + 1, ctxAlive := (ctxAlive net)(nextCtx net := True), nextCtx := Suc (nextCtx net)\<rparr>,
      \<lparr>pn_id = peerId net, pn_isLeader = isLeader, pn_isTrusted = isTrusted, pn_addr = netAddr, pn_ctx = nextCtx net\<rparr>)"

definition addPeer :: "peerNode \<Rightarrow> Network \<Rightarrow> Network" where
  "addPeer p net = net\<lparr>peers := peers net @ [p]\<rparr>"

definition startNewPeer ::
  "net_env \<Rightarrow> NodeServerAddr \<Rightarrow> bool \<Rightarrow> bool \<Rightarrow> Network \<Rightarrow> Network \<times> unit result" where
  "startNewPeer E netAddr isLeader isTrusted net =
     (let proxy = (if nsa_Onion netAddr then proxyAddr net else []) in
      case newNode netAddr proxy isLeader of
        Inl e \<Rightarrow> (net, Inl e)
      | Inr _ \<Rightarrow>
          (case startNode E (clock net) netAddr proxy isLeader (nheaders net) of
             (h, Inl e) \<Rightarrow> (net\<lparr>nheaders := h, clock := Suc (clock net)\<rparr>, Inl e)
           | (h, Inr _) \<Rightarrow>
               (let (net1, peer) = newPeerNodeWithId isLeader isTrusted netAddr
                      (net\<lparr>nheaders := h, clock := Suc (clock net)\<rparr>);
                    net2 = (if isLeader then net1\<lparr>leader := Some peer\<rparr> else addPeer peer net1) in
                getServerPeers E net2)))"

definition removePeer :: "peerNode \<Rightarrow> Network \<Rightarrow> Network" where
  "removePeer old net = net\<lparr>peers := filter (\<lambda>p. pn_id p \<noteq> pn_id old) (peers net)\<rparr>"

definition net_removeServer :: "net_env \<Rightarrow> serverAddr \<Rightarrow> Network \<Rightarrow> Network" where
  "net_removeServer E server net =
     net\<lparr>servers := fst (removeServer (netFile E (clock net)) (Flags (nconfig net)) server (servers net)),
         clock := Suc (clock net)\<rparr>"

definition toNetAddr :: "serverAddr \<Rightarrow> NodeServerAddr" where
  "toNetAddr saddr = \<lparr>nsa_Net = SNet saddr, nsa_Addr = SAddress saddr, nsa_Onion = SIsOnion saddr\<rparr>"

definition availableServers :: "net_env \<Rightarrow> bool \<Rightarrow> Network \<Rightarrow> serverAddr list" where
  "availableServers E forLeader net =
     shuffleServers E (clock net)
       (filter (\<lambda>server.
          \<not> (SIsOnion server \<and> (forLeader \<or> proxyAddr net = [])) \<and>
          \<not> list_ex (\<lambda>peer. alive net peer \<and> nsa_IsEqual (toNetAddr server) (pn_addr peer)) (peers net))
        (knownServers (servers net)))"

text \<open>A failed start removes the server; only a panic goes further.\<close>

definition start_or_remove ::
  "net_env \<Rightarrow> serverAddr \<Rightarrow> bool \<Rightarrow> Network \<Rightarrow> Network \<times> unit result" where
  "start_or_remove E server isLeader net =
     (case startNewPeer E (toNetAddr server) isLeader False net of
        (net', Inl (Panic m)) \<Rightarrow> (net', Inl (Panic m))
      | (net', Inl (Err e)) \<Rightarrow> (net_removeServer E server net', Inr ())
      | (net', Inr _) \<Rightarrow> (net', Inr ()))"

definition startNewLeader :: "net_env \<Rightarrow> Network \<Rightarrow> Network \<times> unit result" where
  "startNewLeader E net =
     (if knownServers (servers net) = [] then (net, Inr ())
      else case availableServers E True net of
        [] \<Rightarrow> (net, Inr ())
      | server # _ \<Rightarrow> start_or_remove E server True net)"

definition shufflePeers :: "net_env \<Rightarrow> Network \<Rightarrow> Network" where
  "shufflePeers E net =
     (if length (peers net) > 1 then net\<lparr>peers := shuffleNodes E (clock net) (peers net)\<rparr> else net)"

definition startNewPeerMaybe :: "net_env \<Rightarrow> Network \<Rightarrow> Network \<times> unit result" where
  "startNewPeerMaybe E net =
     (if int (length (peers net)) \<ge> MaxOnlinePeers (nconfig net) then (net, Inr ())
      else if knownServers (servers net) = [] then (net, Inr ())
      else case availableServers E False net of
        [] \<Rightarrow> (net, Inr ())
      | server # _ \<Rightarrow>
          (case start_or_remove E server False net of
             (net', Inl e) \<Rightarrow> (net', Inl e)
           | (net', Inr _) \<Rightarrow> (shufflePeers E net', Inr ())))"

section \<open>Monitor\<close>

fun promote_loop :: "net_env \<Rightarrow> peerNode list \<Rightarrow> Network \<Rightarrow> Network \<times> bool result" where
  "promote_loop E [] net = (net, Inr False)"
| "promote_loop E (peer # rest) net =
     (if \<not> alive net peer then promote_loop E rest net
      else case promoteNode E (clock net) peer (nheaders net) of
        (h, Inl (Panic m)) \<Rightarrow> (net\<lparr>nheaders := h, clock := Suc (clock net)\<rparr>, Inl (Panic m))
      | (h, Inl (Err e)) \<Rightarrow>
          promote_loop E rest (nodeCancel (pn_ctx peer) (net\<lparr>nheaders := h, clock := Suc (clock net)\<rparr>))
      | (h, Inr _) \<Rightarrow> (net\<lparr>nheaders := h, clock := Suc (clock net), leader := Some peer\<rparr>, Inr True))"

definition checkLeader :: "net_env \<Rightarrow> Network \<Rightarrow> Network \<times> unit result" where
  "checkLeader E net =
     (if (case leader net of None \<Rightarrow> False | Some l \<Rightarrow> alive net l) then (net, Inr ())
      else case promote_loop E (peers net) net of
        (net', Inl e) \<Rightarrow> (net', Inl e)
      | (net', Inr True) \<Rightarrow> (net', Inr ())
      | (net', Inr False) \<Rightarrow> startNewLeader E net')"

definition reapDeadPeers :: "Network \<Rightarrow> Network" where
  "reapDeadPeers net = fold removePeer (filter (\<lambda>p. \<not> alive net p) (peers net)) net"

definition monitorTick :: "net_env \<Rightarrow> Network \<Rightarrow> Network \<times> unit result" where
  "monitorTick E net =
     thenS (checkLeader E net) (\<lambda>net _. startNewPeerMaybe E (reapDeadPeers net))"

definition monitorStop :: "Network \<Rightarrow> Network" where
  "monitorStop net = fold (\<lambda>p. nodeCancel (pn_ctx p)) (peers net) net"

definition net_start :: "net_env \<Rightarrow> NodeServerAddr \<Rightarrow> Network \<Rightarrow> Network \<times> unit result" where
  "net_start E startServer net =
     thenS (startNewPeer E startServer True True net) (\<lambda>net _.
       getServerPeers E (net\<lparr>started := True\<rparr>))"

definition Network_Start :: "net_env \<Rightarrow> Network \<Rightarrow> Network \<times> unit result" where
  "Network_Start E net =
     (case loadKnownServers (netFile E (clock net)) (servers net) of
        (k, Inl e) \<Rightarrow> (net\<lparr>servers := k\<rparr>, Inl e)
      | (k, Inr _) \<Rightarrow>
          (let net' = net\<lparr>servers := k\<rparr> in
           case TrustedPeer (nconfig net') of
             None \<Rightarrow> (net', Inl (Err ''a trusted peer is required in config''))
           | Some addr \<Rightarrow>
               (if started net' then (net', Inl (Err ''network already started''))
                else net_start E addr net')))"

section \<open>API\<close>

definition net_Tip :: "Network \<Rightarrow> int result" where
  "net_Tip net = (if \<not> started net then Inl (Err ''network not started'') else Inr (getClientTip (nheaders net)))"

definition net_Synced :: "Network \<Rightarrow> bool" where
  "net_Synced net = (started net \<and> getClientSynced (nheaders net))"

definition net_BlockHeader :: "int \<Rightarrow> Network \<Rightarrow> ClientBlockHeader result" where
  "net_BlockHeader height net =
     (if \<not> started net then Inl (Err ''network not started'') else getBlockHeader height (nheaders net))"

definition net_BlockHeaders :: "int \<Rightarrow> int \<Rightarrow> Network \<Rightarrow> ClientBlockHeader list result" where
  "net_BlockHeaders startHeight blkCount net =
     (if \<not> started net then Inl (Err ''network not started'') else getBlockHeaders startHeight blkCount (nheaders net))"

text \<open>The calls passed to the leader's node; \<open>nodes\<close> is the node of each context.\<close>

definition pass_thru :: "(node \<Rightarrow> node \<times> 'a result) \<Rightarrow> (nat \<Rightarrow> node) \<Rightarrow> Network \<Rightarrow> (nat \<Rightarrow> node) \<times> 'a result" where
  "pass_thru f nodes net =
     (if \<not> started net then (nodes, Inl (Err ''network not started''))
      else case leader net of None \<Rightarrow> (nodes, Inl (Err ''no leader node is assigned''))
      | Some l \<Rightarrow> (case f (nodes (pn_ctx l)) of (n, r) \<Rightarrow> (nodes(pn_ctx l := n), r)))"

definition net_SubscribeScripthashNotify where
  "net_SubscribeScripthashNotify req scripthash = pass_thru (node_subscribeScripthash req scripthash)"

definition net_GetHistory where
  "net_GetHistory marshal req scripthash = pass_thru (node_getHistory marshal req scripthash)"

definition net_GetListUnspent where
  "net_GetListUnspent marshal req scripthash = pass_thru (node_getListUnspent marshal req scripthash)"

definition net_GetRawTransaction where
  "net_GetRawTransaction req txid = pass_thru (node_getRawTransaction req txid)"

definition net_Broadcast where
  "net_Broadcast req rawTx = pass_thru (node_broadcast req rawTx)"

definition net_GetTransaction where
  "net_GetTransaction marshal req txid = pass_thru (node_getTransaction marshal req txid)"

definition net_EstimateFeeRate where
  "net_EstimateFeeRate wild req confTarget = pass_thru (node_estimateFeeRate wild req confTarget)"

definition net_UnsubscribeScripthashNotify ::
  "(nat \<Rightarrow> requester) \<Rightarrow> string \<Rightarrow> (nat \<Rightarrow> node) \<Rightarrow> Network \<Rightarrow> (nat \<Rightarrow> node)" where
  "net_UnsubscribeScripthashNotify req scripthash nodes net =
     (if \<not> started net then nodes
      else case leader net of None \<Rightarrow> nodes
      | Some l \<Rightarrow> nodes(pn_ctx l := fst (node_unsubscribeScripthash req scripthash (nodes (pn_ctx l)))))"

text \<open>The coin's \<open>ElectrumXInterface\<close>: its network is nil until \<open>Start\<close> has succeeded.\<close>

definition GetTip :: "Network option \<Rightarrow> int" where
  "GetTip x = (case x of None \<Rightarrow> 0 | Some network \<Rightarrow> (case net_Tip network of Inl _ \<Rightarrow> 0 | Inr t \<Rightarrow> t))"

definition GetSyncStatus :: "Network option \<Rightarrow> bool" where
  "GetSyncStatus x = (case x of None \<Rightarrow> False | Some network \<Rightarrow> net_Synced network)"

definition via_network :: "Network option \<Rightarrow> (Network \<Rightarrow> 'a result) \<Rightarrow> 'a result" where
  "via_network x f = (case x of None \<Rightarrow> Inl (Err ''btc: network not running'') | Some network \<Rightarrow> f network)"

definition GetBlockHeader :: "Network option \<Rightarrow> int \<Rightarrow> ClientBlockHeader result" where
  "GetBlockHeader x height = via_network x (net_BlockHeader height)"

definition GetBlockHeaders :: "Network option \<Rightarrow> int \<Rightarrow> int \<Rightarrow> ClientBlockHeader list result" where
  "GetBlockHeaders x startHeight blkCount = via_network x (net_BlockHeaders startHeight blkCount)"

definition ElectrumX_Start :: "net_env \<Rightarrow> ElectrumXConfig \<Rightarrow> bytes option \<Rightarrow> servers_file \<Rightarrow> Network option \<Rightarrow> Network option \<times> unit result" where
  "ElectrumX_Start E config hfile sfile x =
     (case Network_Start E (NewNetwork config hfile sfile) of
        (_, Inl e) \<Rightarrow> (x, Inl e)
      | (network, Inr _) \<Rightarrow> (Some network, Inr ()))"

section \<open>Invariant\<close>

definition peer_key :: "peerNode \<Rightarrow> string \<times> string" where
  "peer_key p = (nsa_Addr (pn_addr p), nsa_Net (pn_addr p))"

definition net_ok :: "Network \<Rightarrow> bool" where
  "net_ok net \<longleftrightarrow>
     int (length (peers net)) \<le> max 0 (MaxOnlinePeers (nconfig net)) \<and>
     (\<forall>p \<in> set (peers net). pn_ctx p < nextCtx net) \<and>
     distinct (map peer_key (filter (alive net) (peers net))) \<and>
     (\<forall>p \<in> set (peers net). nsa_Onion (pn_addr p) \<longrightarrow> proxyAddr net \<noteq> [])"

definition shuffles :: "net_env \<Rightarrow> bool" where
  "shuffles E \<longleftrightarrow>
     (\<forall>t xs. mset (shuffleServers E t xs) = mset xs) \<and> (\<forall>t xs. mset (shuffleNodes E t xs) = mset xs)"

text \<open>What most operations leave alone.\<close>

definition same_peers :: "Network \<Rightarrow> Network \<Rightarrow> bool" where
  "same_peers net net' \<longleftrightarrow>
     peers net' = peers net \<and> nconfig net' = nconfig net \<and> proxyAddr net' = proxyAddr net \<and>
     nextCtx net \<le> nextCtx net' \<and> (\<forall>c < nextCtx net. ctxAlive net' c \<longrightarrow> ctxAlive net c)"

lemma distinct_filter_mono:
  "distinct (map f (filter P xs)) \<Longrightarrow> (\<And>x. x \<in> set xs \<Longrightarrow> Q x \<Longrightarrow> P x) \<Longrightarrow> distinct (map f (filter Q xs))"
  by (induction xs) (auto split: if_splits)

lemma net_ok_same: "net_ok net \<Longrightarrow> same_peers net net' \<Longrightarrow> net_ok net'"
  by (auto simp: net_ok_def same_peers_def alive_def intro: distinct_filter_mono)

lemma same_peers_trans: "same_peers a b \<Longrightarrow> same_peers b c \<Longrightarrow> same_peers a c"
  by (auto simp: same_peers_def)

lemma same_peers_refl: "same_peers a a"
  by (simp add: same_peers_def)

lemma getServerPeers_frame:
  "getServerPeers E net = (net', r) \<Longrightarrow>
     peers net' = peers net \<and> nconfig net' = nconfig net \<and> proxyAddr net' = proxyAddr net \<and>
     nextCtx net' = nextCtx net \<and> ctxAlive net' = ctxAlive net \<and> leader net' = leader net \<and> started net' = started net"
  by (auto simp: getServerPeers_def getServers_def Let_def split: option.splits sum.splits prod.splits fault.splits if_splits)

text \<open>The two outcomes of starting a node: nothing but the headers changed, or a fresh node was added.\<close>

lemma startNewPeer_cases:
  assumes "startNewPeer E addr isLeader isTrusted net = (net', r)"
  shows "same_peers net net' \<and> leader net' = leader net \<and> (\<exists>e. r = Inl e) \<or>
    (\<exists>peer. pn_addr peer = addr \<and> pn_ctx peer = nextCtx net \<and> nextCtx net' = Suc (nextCtx net) \<and>
       ctxAlive net' = (ctxAlive net)(nextCtx net := True) \<and> nconfig net' = nconfig net \<and> proxyAddr net' = proxyAddr net \<and>
       (if isLeader then leader net' = Some peer \<and> peers net' = peers net
        else leader net' = leader net \<and> peers net' = peers net @ [peer]))"
proof (cases "newNode addr (if nsa_Onion addr then proxyAddr net else []) isLeader")
  case (Inl e)
  then show ?thesis using assms by (auto simp: startNewPeer_def same_peers_refl Let_def)
next
  case (Inr c)
  obtain h q where sn: "startNode E (clock net) addr (if nsa_Onion addr then proxyAddr net else []) isLeader (nheaders net) = (h, q)"
    by fastforce
  show ?thesis
  proof (cases q)
    case (Inl e)
    then show ?thesis using assms Inr sn by (auto simp: startNewPeer_def same_peers_def Let_def)
  next
    case (Inr u)
    let ?peer = "\<lparr>pn_id = peerId net, pn_isLeader = isLeader, pn_isTrusted = isTrusted, pn_addr = addr, pn_ctx = nextCtx net\<rparr>"
    show ?thesis
      using assms \<open>newNode _ _ _ = Inr c\<close> sn Inr
      by (intro disjI2 exI [of _ ?peer])
        (auto simp: startNewPeer_def newPeerNodeWithId_def addPeer_def Let_def dest!: getServerPeers_frame)
  qed
qed

lemma net_ok_new_leader:
  assumes "net_ok net" "startNewPeer E addr True t net = (net', r)"
  shows "net_ok net'"
proof -
  have "same_peers net net'"
    using startNewPeer_cases [OF assms(2)] by (auto simp: same_peers_def)
  then show ?thesis by (rule net_ok_same [OF assms(1)])
qed

lemma net_ok_new_peer:
  assumes ok: "net_ok net" and st: "startNewPeer E addr False t net = (net', r)"
    and room: "int (length (peers net)) < MaxOnlinePeers (nconfig net)"
    and fresh: "\<forall>p \<in> set (peers net). alive net p \<longrightarrow> peer_key p \<noteq> (nsa_Addr addr, nsa_Net addr)"
    and onion: "nsa_Onion addr \<longrightarrow> proxyAddr net \<noteq> []"
  shows "net_ok net'"
  using startNewPeer_cases [OF st]
proof (elim disjE exE conjE)
  assume "same_peers net net'"
  then show ?thesis by (rule net_ok_same [OF ok])
next
  fix peer
  assume p: "pn_addr peer = addr" "pn_ctx peer = nextCtx net" "nextCtx net' = Suc (nextCtx net)"
    "ctxAlive net' = (ctxAlive net)(nextCtx net := True)" "nconfig net' = nconfig net" "proxyAddr net' = proxyAddr net"
    "if False then leader net' = Some peer \<and> peers net' = peers net
     else leader net' = leader net \<and> peers net' = peers net @ [peer]"
  then have ps: "peers net' = peers net @ [peer]" by simp
  have old: "alive net' q \<longleftrightarrow> alive net q" if "q \<in> set (peers net)" for q
    using that ok p(4) by (auto simp: net_ok_def alive_def)
  then have "filter (alive net') (peers net) = filter (alive net) (peers net)" by (rule filter_cong [OF refl])
  then have "distinct (map peer_key (filter (alive net') (peers net')))"
    using ok fresh p(1) unfolding ps by (auto simp: net_ok_def peer_key_def)
  then show ?thesis
    using ok room onion p ps by (auto simp: net_ok_def)
qed

lemma removeServer_same: "same_peers net (net_removeServer E server net)"
  by (simp add: same_peers_def net_removeServer_def)

lemma start_or_remove_net_ok:
  assumes "start_or_remove E server isLeader net = (net', r)"
    and "\<And>n1 q. startNewPeer E (toNetAddr server) isLeader False net = (n1, q) \<Longrightarrow> net_ok n1"
  shows "net_ok net'"
  using assms net_ok_same [OF _ removeServer_same]
  by (auto simp: start_or_remove_def split: prod.splits sum.splits fault.splits)

lemma shuffle_set: "shuffles E \<Longrightarrow> set (shuffleServers E t xs) = set xs"
  by (rule mset_eq_setD) (simp add: shuffles_def)

lemma availableServers_set:
  assumes "shuffles E" "server \<in> set (availableServers E forLeader net)"
  shows "server \<in> set (knownServers (servers net)) \<and>
    (SIsOnion server \<longrightarrow> \<not> forLeader \<and> proxyAddr net \<noteq> []) \<and>
    (\<forall>p \<in> set (peers net). alive net p \<longrightarrow> peer_key p \<noteq> (SAddress server, SNet server))"
proof -
  have "set (availableServers E forLeader net) = set (filter (\<lambda>server.
          \<not> (SIsOnion server \<and> (forLeader \<or> proxyAddr net = [])) \<and>
          \<not> list_ex (\<lambda>peer. alive net peer \<and> nsa_IsEqual (toNetAddr server) (pn_addr peer)) (peers net))
        (knownServers (servers net)))"
    unfolding availableServers_def by (rule shuffle_set [OF assms(1)])
  then show ?thesis
    using assms(2) by (auto simp: list_ex_iff nsa_IsEqual_def toNetAddr_def peer_key_def)
qed

lemma startNewLeader_ok:
  assumes "net_ok net" "startNewLeader E net = (net', r)"
  shows "net_ok net'"
  using assms net_ok_new_leader [OF assms(1)]
  by (auto simp: startNewLeader_def split: if_splits list.splits intro: start_or_remove_net_ok)

lemma shufflePeers_ok:
  assumes "shuffles E" "net_ok net"
  shows "net_ok (shufflePeers E net)"
proof (cases "length (peers net) > 1")
  case True
  have m: "mset (peers (shufflePeers E net)) = mset (peers net)"
    using assms(1) True by (simp add: shufflePeers_def shuffles_def)
  have e: "mset (map peer_key (filter (alive net) (peers (shufflePeers E net)))) =
      mset (map peer_key (filter (alive net) (peers net)))"
    by (simp add: m)
  then have d: "distinct (map peer_key (filter (alive net) (peers (shufflePeers E net))))"
    using assms(2) mset_eq_imp_distinct_iff [OF e] by (simp add: net_ok_def)
  have sel: "alive (shufflePeers E net) = alive net" "nextCtx (shufflePeers E net) = nextCtx net"
    "nconfig (shufflePeers E net) = nconfig net" "proxyAddr (shufflePeers E net) = proxyAddr net"
    by (simp_all add: shufflePeers_def alive_def fun_eq_iff)
  show ?thesis
    using assms(2) d mset_eq_length [OF m] mset_eq_setD [OF m] unfolding net_ok_def sel by simp
next
  case False
  then show ?thesis using assms(2) by (simp add: shufflePeers_def)
qed

lemma startNewPeerMaybe_ok:
  assumes sh: "shuffles E" and ok: "net_ok net" and r: "startNewPeerMaybe E net = (net', r)"
  shows "net_ok net'"
proof (cases "int (length (peers net)) \<ge> MaxOnlinePeers (nconfig net) \<or> knownServers (servers net) = [] \<or>
    availableServers E False net = []")
  case True
  then show ?thesis using ok r by (auto simp: startNewPeerMaybe_def split: if_splits)
next
  case False
  then obtain server rest where av: "availableServers E False net = server # rest"
    by (cases "availableServers E False net") auto
  note av_props = availableServers_set [OF sh, of server False net]
  obtain n1 q where sr: "start_or_remove E server False net = (n1, q)" by fastforce
  have "net_ok n1"
  proof (rule start_or_remove_net_ok [OF sr])
    fix n2 q2
    assume "startNewPeer E (toNetAddr server) False False net = (n2, q2)"
    then show "net_ok n2"
      by (rule net_ok_new_peer [OF ok]) (use False av av_props in \<open>auto simp: toNetAddr_def\<close>)
  qed
  then show ?thesis
    using r False av sr shufflePeers_ok [OF sh, of n1] by (auto simp: startNewPeerMaybe_def split: sum.splits)
qed

lemma promote_loop_same:
  "promote_loop E ps net = (net', r) \<Longrightarrow> same_peers net net'"
proof (induction ps arbitrary: net)
  case Nil
  then show ?case by (simp add: same_peers_refl)
next
  case (Cons p ps)
  show ?case
  proof (cases "alive net p")
    case False
    then show ?thesis using Cons by simp
  next
    case True
    obtain h q where pn: "promoteNode E (clock net) p (nheaders net) = (h, q)" by fastforce
    show ?thesis
    proof (cases "\<exists>e. q = Inl (Err e)")
      case True
      let ?n1 = "nodeCancel (pn_ctx p) (net\<lparr>nheaders := h, clock := Suc (clock net)\<rparr>)"
      have "promote_loop E ps ?n1 = (net', r)" using Cons.prems True pn \<open>alive net p\<close> by auto
      then have "same_peers ?n1 net'" by (rule Cons.IH)
      moreover have "same_peers net ?n1" by (simp add: same_peers_def nodeCancel_def)
      ultimately show ?thesis by (metis same_peers_trans)
    next
      case False
      then show ?thesis
        using Cons.prems pn \<open>alive net p\<close>
        by (auto simp: same_peers_def split: sum.splits fault.splits)
    qed
  qed
qed

lemma checkLeader_ok:
  assumes "net_ok net" "checkLeader E net = (net', r)"
  shows "net_ok net'"
proof -
  obtain n1 q where pl: "promote_loop E (peers net) net = (n1, q)" by fastforce
  have "net_ok n1" by (rule net_ok_same [OF assms(1) promote_loop_same [OF pl]])
  then show ?thesis
    using assms pl startNewLeader_ok
    by (auto simp: checkLeader_def split: if_splits sum.splits bool.splits option.splits)
qed

lemma removePeer_ok: "net_ok net \<Longrightarrow> net_ok (removePeer p net)"
proof -
  assume ok: "net_ok net"
  have "int (length (filter (\<lambda>q. pn_id q \<noteq> pn_id p) (peers net))) \<le> max 0 (MaxOnlinePeers (nconfig net))"
    by (rule order_trans [of _ "int (length (peers net))"]) (use ok in \<open>auto simp: net_ok_def\<close>)
  moreover have "distinct (map peer_key (filter (alive (removePeer p net)) (peers (removePeer p net))))"
  proof -
    have "distinct (map peer_key (filter (\<lambda>q. pn_id q \<noteq> pn_id p \<and> alive net q) (peers net)))"
      by (rule distinct_filter_mono [of _ "alive net"]) (use ok in \<open>auto simp: net_ok_def\<close>)
    then show ?thesis by (simp add: removePeer_def alive_def [abs_def] conj_commute)
  qed
  ultimately show ?thesis using ok by (auto simp: net_ok_def removePeer_def)
qed

lemma reapDeadPeers_ok: "net_ok net \<Longrightarrow> net_ok (reapDeadPeers net)"
proof -
  have "net_ok n \<Longrightarrow> net_ok (fold removePeer ps n)" for ps n
    by (induction ps arbitrary: n) (simp_all add: removePeer_ok)
  then show "net_ok net \<Longrightarrow> net_ok (reapDeadPeers net)" by (simp add: reapDeadPeers_def)
qed

lemma monitorTick_ok:
  assumes "shuffles E" "net_ok net" "monitorTick E net = (net', r)"
  shows "net_ok net'"
proof -
  obtain n1 q where c: "checkLeader E net = (n1, q)" by fastforce
  have "net_ok (reapDeadPeers n1)" using checkLeader_ok [OF assms(2) c] by (rule reapDeadPeers_ok)
  then show ?thesis
    using assms(3) c checkLeader_ok [OF assms(2) c] startNewPeerMaybe_ok [OF assms(1)]
    by (cases q) (auto simp: monitorTick_def)
qed

section \<open>Runs\<close>

text \<open>The network after a successful start, the ticks of its monitor, and contexts that end.\<close>

inductive net_run :: "net_env \<Rightarrow> Network \<Rightarrow> bool" for E where
  run_start: "Network_Start E (NewNetwork config hfile sfile) = (net, Inr ()) \<Longrightarrow> net_run E net"
| run_tick: "net_run E net \<Longrightarrow> monitorTick E net = (net', Inr ()) \<Longrightarrow> net_run E net'"
| run_dead: "net_run E net \<Longrightarrow> net_run E (nodeCancel c net)"

lemma Network_Start_Inr:
  assumes "Network_Start E (NewNetwork config hfile sfile) = (net, Inr ())"
  shows "peers net = [] \<and> (\<exists>l. leader net = Some l)"
proof -
  obtain k q where k: "loadKnownServers (netFile E 0) \<lparr>knownServers = [], serversFile = sfile\<rparr> = (k, q)"
    by fastforce
  let ?n = "(NewNetwork config hfile sfile)\<lparr>servers := k\<rparr>"
  obtain addr where st: "net_start E addr ?n = (net, Inr ())"
    using assms k
    by (auto simp: Network_Start_def NewNetwork_def Let_def split: sum.splits option.splits if_splits)
  obtain n1 r1 where n1: "startNewPeer E addr True True ?n = (n1, r1)" by fastforce
  have r1: "\<exists>u. r1 = Inr u" using st n1 by (cases r1) (auto simp: net_start_def)
  have "peers n1 = [] \<and> (\<exists>l. leader n1 = Some l)"
    using startNewPeer_cases [OF n1] r1 by (auto simp: NewNetwork_def)
  moreover have "peers net = peers n1 \<and> leader net = leader n1"
    using st n1 r1 getServerPeers_frame [of E "n1\<lparr>started := True\<rparr>" net] by (auto simp: net_start_def)
  ultimately show ?thesis by simp
qed

lemma net_run_ok: "net_run E net \<Longrightarrow> shuffles E \<Longrightarrow> net_ok net"
proof (induction rule: net_run.induct)
  case (run_start config hfile sfile net)
  then have "peers net = []" using Network_Start_Inr by blast
  then show ?case by (simp add: net_ok_def)
next
  case (run_tick net net')
  then show ?case using monitorTick_ok by blast
next
  case (run_dead net c)
  have "same_peers net (nodeCancel c net)" by (simp add: same_peers_def nodeCancel_def)
  then show ?case using net_ok_same run_dead by blast
qed

text \<open>C8: in every run of the network, whatever nodes start, fail or die and whatever peers their servers
  announce, at most \<open>MaxOnlinePeers\<close> peer nodes are kept, no two live ones are connected to the same
  server address and protocol, and an onion server is a peer only when a proxy is configured.\<close>

theorem network_peers_bounded:
  assumes "net_run E net" "shuffles E"
  shows "int (length (peers net)) \<le> max 0 (MaxOnlinePeers (nconfig net)) \<and>
    distinct (map (\<lambda>p. (nsa_Addr (pn_addr p), nsa_Net (pn_addr p))) (filter (alive net) (peers net))) \<and>
    (\<forall>p \<in> set (peers net). nsa_Onion (pn_addr p) \<longrightarrow> proxyAddr net \<noteq> [])"
  using net_run_ok [OF assms] by (simp add: net_ok_def peer_key_def [abs_def])

definition ex_net_env :: net_env where
  "ex_net_env =
     \<lparr>startNode = (\<lambda>_ _ _ _ h. (h, Inr ())), promoteNode = (\<lambda>_ _ h. (h, Inr ())),
      leaderPeers = (\<lambda>_. Inr []), shuffleServers = (\<lambda>_ xs. xs), shuffleNodes = (\<lambda>_ xs. xs),
      netFile = (\<lambda>_. io_ok), parseIP = (\<lambda>_. True)\<rparr>"

definition ex_net_cfg :: ElectrumXConfig where
  "ex_net_cfg = ex_cfg\<lparr>MaxOnlinePeers := 2, TrustedPeer := Some \<lparr>nsa_Net = ''ssl'', nsa_Addr = ''h:1'', nsa_Onion = False\<rparr>\<rparr>"

definition ex_server_addr :: serverAddr where
  "ex_server_addr = \<lparr>SNet = ''ssl'', SAddress = ''h:1'', SHost = ''h'', SIsOnion = False, SVersion = [], SCaps = [], SRep = 0\<rparr>"

definition ex_net :: Network where
  "ex_net = fst (Network_Start ex_net_env (NewNetwork ex_net_cfg None (FileServers [ex_server_addr])))"

lemma ex_split: "SplitHostPort ''h:1'' = Inr (''h'', ''1'')"
  by (simp add: SplitHostPort_def last_colon_def)

lemmas ex_net_defs =
  ex_net_env_def ex_net_cfg_def ex_cfg_def Network_Start_def NewNetwork_def loadKnownServers_def
  readServerAddrFile_def net_start_def startNewPeer_def newNode_def newPeerNodeWithId_def
  getServerPeers_def getServers_def ex_split io_ok_def

lemma ex_net_run: "net_run ex_net_env ex_net"
proof (rule run_start)
  show "Network_Start ex_net_env (NewNetwork ex_net_cfg None (FileServers [ex_server_addr])) = (ex_net, Inr ())"
    by (simp add: ex_net_def ex_net_defs)
qed

lemma ex_shuffles: "shuffles ex_net_env"
  by (simp add: shuffles_def ex_net_env_def)

theorem network_peers_bounded_witness:
  "int (length (peers ex_net)) \<le> max 0 (MaxOnlinePeers (nconfig ex_net))"
  using network_peers_bounded [OF ex_net_run ex_shuffles] by blast

section \<open>Leadership\<close>

lemma promote_loop_effect:
  "promote_loop E ps net = (net', r) \<Longrightarrow>
     (\<forall>c. ctxAlive net' c \<longrightarrow> ctxAlive net c) \<and> peers net' = peers net \<and>
     (r = Inr False \<longrightarrow> leader net' = leader net \<and> (\<forall>p \<in> set ps. \<not> alive net' p)) \<and>
     (r = Inr True \<longrightarrow> (\<exists>p \<in> set ps. leader net' = Some p \<and> alive net' p))"
proof (induction ps arbitrary: net)
  case Nil
  then show ?case by auto
next
  case (Cons p ps)
  obtain h q where pn: "promoteNode E (clock net) p (nheaders net) = (h, q)" by fastforce
  consider "\<not> alive net p" | e where "alive net p" "q = Inl (Err e)" | m where "alive net p" "q = Inl (Panic m)"
    | "alive net p" "q = Inr ()"
    by (cases q) (metis fault.exhaust, auto)
  then show ?case
  proof cases
    case 1
    then have "promote_loop E ps net = (net', r)" using Cons.prems by simp
    from Cons.IH [OF this] show ?thesis using 1 by (auto simp: alive_def)
  next
    case 2
    let ?n1 = "nodeCancel (pn_ctx p) (net\<lparr>nheaders := h, clock := Suc (clock net)\<rparr>)"
    have "promote_loop E ps ?n1 = (net', r)" using Cons.prems 2 pn by simp
    from Cons.IH [OF this] show ?thesis by (auto simp: alive_def nodeCancel_def split: if_splits)
  qed (use Cons.prems pn in \<open>auto simp: alive_def\<close>)
qed

lemma startNewLeader_effect:
  assumes "startNewLeader E n1 = (net', Inr ())" and "\<forall>p \<in> set ps. pn_ctx p < nextCtx n1"
  shows "(\<exists>l. leader net' = Some l \<and> alive net' l) \<or>
    leader net' = leader n1 \<and> (\<forall>p \<in> set ps. alive net' p \<longrightarrow> alive n1 p)"
proof (cases "knownServers (servers n1) = [] \<or> availableServers E True n1 = []")
  case True
  then show ?thesis using assms(1) by (auto simp: startNewLeader_def split: if_splits)
next
  case False
  then obtain server rest where av: "availableServers E True n1 = server # rest"
    by (cases "availableServers E True n1") auto
  obtain n2 t where st: "startNewPeer E (toNetAddr server) True False n1 = (n2, t)" by fastforce
  have net': "net' = (case t of Inl _ \<Rightarrow> net_removeServer E server n2 | Inr _ \<Rightarrow> n2)"
    using assms(1) False av st by (auto simp: startNewLeader_def start_or_remove_def split: sum.splits fault.splits)
  have same: "leader net' = leader n2 \<and> ctxAlive net' = ctxAlive n2"
    unfolding net' by (simp add: net_removeServer_def split: sum.split)
  from startNewPeer_cases [OF st] show ?thesis
  proof (elim disjE exE conjE)
    assume "same_peers n1 n2" "leader n2 = leader n1"
    then show ?thesis using same assms(2) by (fastforce simp: same_peers_def alive_def)
  next
    fix peer
    assume "pn_ctx peer = nextCtx n1" "ctxAlive n2 = (ctxAlive n1)(nextCtx n1 := True)"
      "if True then leader n2 = Some peer \<and> peers n2 = peers n1 else leader n2 = leader n1 \<and> peers n2 = peers n1 @ [peer]"
    then show ?thesis using same by (simp add: alive_def)
  qed
qed

text \<open>C30: failover.  When \<open>checkLeader\<close> returns, either the leader's context is alive, or there is nobody
  left to lead: every peer's context has ended, those of peers that could not be promoted included,
  and the leader is still the old, dead one.\<close>

theorem checkLeader_failover:
  assumes "net_run E net" "shuffles E" "checkLeader E net = (net', Inr ())"
  shows "(\<exists>l. leader net' = Some l \<and> alive net' l) \<or>
    (\<forall>p \<in> set (peers net). \<not> alive net' p) \<and> leader net' = leader net"
proof (cases "case leader net of None \<Rightarrow> False | Some l \<Rightarrow> alive net l")
  case True
  then show ?thesis using assms(3) by (auto simp: checkLeader_def split: option.splits)
next
  case False
  obtain n1 q where pl: "promote_loop E (peers net) net = (n1, q)" by fastforce
  note eff = promote_loop_effect [OF pl] promote_loop_same [OF pl]
  have fresh: "\<forall>p \<in> set (peers net). pn_ctx p < nextCtx net"
    using net_run_ok [OF assms(1,2)] by (simp add: net_ok_def)
  show ?thesis
  proof (cases "q = Inr False")
    case q: True
    then have sl: "startNewLeader E n1 = (net', Inr ())"
      using assms(3) pl False by (simp add: checkLeader_def)
    have "\<forall>p \<in> set (peers net). pn_ctx p < nextCtx n1"
      using eff fresh by (auto simp: same_peers_def)
    from startNewLeader_effect [OF sl this] show ?thesis
      using eff q by auto
  next
    case q: False
    then have "q = Inr True" "net' = n1"
      using assms(3) pl False by (auto simp: checkLeader_def split: sum.splits bool.splits)
    then show ?thesis using eff by blast
  qed
qed

theorem checkLeader_failover_witness:
  "\<exists>l. leader (fst (checkLeader ex_net_env ex_net)) = Some l"
proof -
  obtain l where l: "leader ex_net = Some l" "alive ex_net l"
    by (simp add: ex_net_def ex_net_defs alive_def)
  then have "checkLeader ex_net_env ex_net = (ex_net, Inr ())" by (simp add: checkLeader_def)
  from checkLeader_failover [OF ex_net_run ex_shuffles this] show ?thesis
    using l(1) \<open>checkLeader _ _ = _\<close> by auto
qed

text \<open>The peers monitor may start a second connection to the leader's own server: \<open>availableServers\<close>
  compares a known server with the peers' addresses only, so the address of a leader that was started
  as such is available for a new peer.\<close>

theorem leader_server_available:
  assumes "shuffles E" "leader net = Some l" "alive net l" "peers net = []"
    and "s \<in> set (knownServers (servers net))" "\<not> SIsOnion s" "nsa_IsEqual (toNetAddr s) (pn_addr l)"
  shows "s \<in> set (availableServers E False net)"
  using assms by (simp add: availableServers_def shuffle_set)

theorem leader_server_available_witness:
  "ex_server_addr \<in> set (availableServers ex_net_env False ex_net)"
proof -
  have "\<exists>l. leader ex_net = Some l \<and> alive ex_net l \<and> nsa_IsEqual (toNetAddr ex_server_addr) (pn_addr l)"
    by (simp add: ex_net_def ex_net_defs alive_def nsa_IsEqual_def toNetAddr_def ex_server_addr_def)
  then obtain l where "leader ex_net = Some l" "alive ex_net l" "nsa_IsEqual (toNetAddr ex_server_addr) (pn_addr l)"
    by blast
  moreover have "peers ex_net = []" "ex_server_addr \<in> set (knownServers (servers ex_net))" "\<not> SIsOnion ex_server_addr"
    by (simp_all add: ex_net_def ex_net_defs ex_server_addr_def)
  ultimately show ?thesis by (intro leader_server_available [OF ex_shuffles])
qed

end
