(* ===== verification/Client.thy ===== *)
theory Client
  imports Sweep Network_Peers
begin

text \<open>
  The client of \<open>client/btc\<close>, the controller between the wallet and the ElectrumX network: \<open>client.go\<close>,
  \<open>wallet_synchronize.go\<close>, \<open>client_wallet.go\<close>, \<open>client_node.go\<close>, \<open>rescan.go\<close>, \<open>import_sweep.go\<close>, \<open>util.go\<close>.
  The network is a record of its methods over a state \<open>'x\<close>, which no method of the client relies on further;
  a method of it never panics.  btcutil's address texts, the hashes and the WIF of keys are in \<open>client_env\<close>; a private key is its bytes.
\<close>

section \<open>State\<close>

record 'x ElectrumX =
  X_Start :: "'x \<Rightarrow> 'x \<times> unit result"
  X_GetTipChangeNotify :: "'x \<Rightarrow> unit result"
  X_GetTip :: "'x \<Rightarrow> int"
  X_GetSyncStatus :: "'x \<Rightarrow> bool"
  X_GetBlockHeader :: "int \<Rightarrow> 'x \<Rightarrow> ClientBlockHeader result"
  X_GetBlockHeaders :: "int \<Rightarrow> int \<Rightarrow> 'x \<Rightarrow> ClientBlockHeader list result"
  X_GetScripthashNotify :: "'x \<Rightarrow> unit result"
  X_SubscribeScripthashNotify :: "string \<Rightarrow> 'x \<Rightarrow> 'x \<times> ScripthashStatusResult option result"
  X_UnsubscribeScripthashNotify :: "string \<Rightarrow> 'x \<Rightarrow> 'x"
  X_GetHistory :: "string \<Rightarrow> 'x \<Rightarrow> 'x \<times> History list result"
  X_GetListUnspent :: "string \<Rightarrow> 'x \<Rightarrow> 'x \<times> ListUnspent list result"
  X_GetTransaction :: "string \<Rightarrow> 'x \<Rightarrow> 'x \<times> GetTransactionResult result"
  X_GetRawTransaction :: "string \<Rightarrow> 'x \<Rightarrow> 'x \<times> string result"
  X_EstimateFeeRate :: "int \<Rightarrow> 'x \<Rightarrow> 'x \<times> int result"
  X_Broadcast :: "string \<Rightarrow> 'x \<Rightarrow> 'x \<times> string result"

text \<open>The field \<open>Wallet\<close> is an interface: it is nil, or holds a nil pointer, or a wallet.  \<open>disk\<close> is the content
  of the wallet file while no wallet holds it; \<open>cListeners\<close> counts the goroutines that wait for address
  notifications.\<close>

datatype ('ds, 'k, 'a) wallet_ref = NoWallet | NilWallet | AWallet "('ds, 'k, 'a) BtcElectrumWallet"

record ('ds, 'k, 'a, 'x) Client =
  cWallet :: "('ds, 'k, 'a) wallet_ref"
  cX :: "'x option"
  disk :: "'ds option"
  cListeners :: nat
  cRunning :: bool

datatype db_type = DbTypeBolt | DbTypeSqlite | DbTypeOther string

text \<open>\<open>OpenDB\<close> is \<open>bdb.Create\<close> or \<open>db.Create\<close> on the file, which it makes when there is none.\<close>

record ('ds, 'k, 'a, 'x) client_env =
  ce_dbType :: db_type
  ce_open :: "'ds option \<Rightarrow> 'ds option \<times> 'ds result"
  ce_storeEncSeed :: bool
  ce_lib :: "'k wallet_lib"
  ce_spend :: "('k, 'a) spend_lib"
  ce_sizes :: size_lib
  ce_tx :: "('ds, 'k, 'a) tx_env"
  ce_newX :: "'x result"
  ce_x :: "'x ElectrumX"
  DecodeAddress :: "string \<Rightarrow> 'a result"
  AddrString :: "'a \<Rightarrow> string"
  ScriptHashB :: "bytes \<Rightarrow> bytes"
  PkScriptAddress :: "bytes \<Rightarrow> string result"
  DecodeWIF :: "string \<Rightarrow> bytes result"
  SerializePubKey :: "bytes \<Rightarrow> bytes"
  Sha256 :: "bytes \<Rightarrow> bytes"
  Ripemd160 :: "bytes \<Rightarrow> bytes"
  NewAddressPubKeyHash :: "bytes \<Rightarrow> 'a result"
  ce_wif :: "'k \<Rightarrow> string result"

definition ErrNoWallet :: "'b result" where
  "ErrNoWallet = Inl (Err ''no wallet'')"

definition ErrNoElectrumX :: "'b result" where
  "ErrNoElectrumX = Inl (Err ''no ElectrumX'')"

definition nil_deref :: "'b result" where
  "nil_deref = Inl (Panic ''nil pointer dereference'')"

abbreviation ce_wire :: "('ds, 'k, 'a, 'x) client_env \<Rightarrow> 'a wire_lib" where
  "ce_wire CE \<equiv> te_wire (ce_tx CE)"

text \<open>The libraries as the wallet sees them, with its own keys.\<close>

definition wenv :: "('ds, 'k, 'a, 'x) client_env \<Rightarrow> ('ds, 'k, 'a) BtcElectrumWallet \<Rightarrow> ('ds, 'k, 'a) tx_env" where
  "wenv CE w = (ce_tx CE)\<lparr>te_km := keyManager w\<rparr>"

text \<open>The two nil checks, and calls of methods of the wallet and of the network.\<close>

definition checkWallet :: "('ds, 'k, 'a, 'x) Client \<Rightarrow> ('ds, 'k, 'a, 'x) Client \<times> 'b result \<Rightarrow> ('ds, 'k, 'a, 'x) Client \<times> 'b result" where
  "checkWallet c k = (case cWallet c of NoWallet \<Rightarrow> (c, ErrNoWallet) | _ \<Rightarrow> k)"

definition checkX :: "('ds, 'k, 'a, 'x) Client \<Rightarrow> ('ds, 'k, 'a, 'x) Client \<times> 'b result \<Rightarrow> ('ds, 'k, 'a, 'x) Client \<times> 'b result" where
  "checkX c k = (case cX c of None \<Rightarrow> (c, ErrNoElectrumX) | Some _ \<Rightarrow> k)"

definition w_call ::
  "(('ds, 'k, 'a) BtcElectrumWallet \<Rightarrow> ('ds, 'k, 'a) BtcElectrumWallet \<times> 'b result) \<Rightarrow>
   ('ds, 'k, 'a, 'x) Client \<Rightarrow> ('ds, 'k, 'a, 'x) Client \<times> 'b result" where
  "w_call f c =
     (case cWallet c of
        AWallet w \<Rightarrow> (case f w of (w', r) \<Rightarrow> (c\<lparr>cWallet := AWallet w'\<rparr>, r))
      | _ \<Rightarrow> (c, nil_deref))"

definition w_read ::
  "('ds, 'k, 'a, 'x) client_env \<Rightarrow> (('ds, 'k, 'a) tx_env \<Rightarrow> 'ds \<Rightarrow> 'b result) \<Rightarrow>
   ('ds, 'k, 'a, 'x) Client \<Rightarrow> ('ds, 'k, 'a, 'x) Client \<times> 'b result" where
  "w_read CE f = w_call (\<lambda>w. (w, f (wenv CE w) (wallet_ds w)))"

definition w_store ::
  "('ds, 'k, 'a, 'x) client_env \<Rightarrow> (('ds, 'k, 'a) tx_env \<Rightarrow> 'ds \<Rightarrow> 'ds \<times> 'b result) \<Rightarrow>
   ('ds, 'k, 'a, 'x) Client \<Rightarrow> ('ds, 'k, 'a, 'x) Client \<times> 'b result" where
  "w_store CE f = w_call (\<lambda>w. (case f (wenv CE w) (wallet_ds w) of (ds, r) \<Rightarrow> (set_ds ds w, r)))"

definition x_call :: "('x \<Rightarrow> 'x \<times> 'b result) \<Rightarrow> ('ds, 'k, 'a, 'x) Client \<Rightarrow> ('ds, 'k, 'a, 'x) Client \<times> 'b result" where
  "x_call f c = (case cX c of None \<Rightarrow> (c, nil_deref) | Some x \<Rightarrow> (case f x of (x', r) \<Rightarrow> (c\<lparr>cX := Some x'\<rparr>, r)))"

definition x_read :: "('x \<Rightarrow> 'b result) \<Rightarrow> ('ds, 'k, 'a, 'x) Client \<Rightarrow> ('ds, 'k, 'a, 'x) Client \<times> 'b result" where
  "x_read f = x_call (\<lambda>x. (x, f x))"

section \<open>client.go\<close>

definition NewBtcElectrumClient :: "'ds option \<Rightarrow> ('ds, 'k, 'a, 'x) Client" where
  "NewBtcElectrumClient d = \<lparr>cWallet = NoWallet, cX = None, disk = d, cListeners = 0, cRunning = False\<rparr>"

text \<open>What the wallet file holds: a wallet works on it.\<close>

definition contents :: "('ds, 'k, 'a, 'x) Client \<Rightarrow> 'ds option" where
  "contents c = (case cWallet c of AWallet w \<Rightarrow> Some (wallet_ds w) | _ \<Rightarrow> disk c)"

text \<open>For an unknown database type the name is empty and the directory itself is looked for, which is there.\<close>

definition walletExists :: "('ds, 'k, 'a, 'x) client_env \<Rightarrow> ('ds, 'k, 'a, 'x) Client \<Rightarrow> bool" where
  "walletExists CE c = (case ce_dbType CE of DbTypeOther _ \<Rightarrow> True | _ \<Rightarrow> contents c \<noteq> None)"

definition getDatastore :: "('ds, 'k, 'a, 'x) client_env \<Rightarrow> ('ds, 'k, 'a, 'x) Client \<Rightarrow> ('ds, 'k, 'a, 'x) Client \<times> 'ds result" where
  "getDatastore CE c =
     (case ce_dbType CE of
        DbTypeOther _ \<Rightarrow> (c, Inl (Err ''unknown database type''))
      | _ \<Rightarrow> (case ce_open CE (contents c) of (d, r) \<Rightarrow> (c\<lparr>disk := d\<rparr>, r)))"

definition createElectrumXInterface :: "('ds, 'k, 'a, 'x) client_env \<Rightarrow> ('ds, 'k, 'a, 'x) Client \<Rightarrow> ('ds, 'k, 'a, 'x) Client \<times> unit result" where
  "createElectrumXInterface CE c =
     (case ce_newX CE of Inl err \<Rightarrow> (c, Inl err) | Inr n \<Rightarrow> (c\<lparr>cX := Some n\<rparr>, Inr ()))"

definition client_Start :: "('ds, 'k, 'a, 'x) client_env \<Rightarrow> ('ds, 'k, 'a, 'x) Client \<Rightarrow> ('ds, 'k, 'a, 'x) Client \<times> unit result" where
  "client_Start CE c =
     thenS (createElectrumXInterface CE c) (\<lambda>c _.
     thenS (x_call (X_Start (ce_x CE)) c) (\<lambda>c _.
     thenS (x_read (X_GetTipChangeNotify (ce_x CE)) c) (\<lambda>c _.
       (c\<lparr>cRunning := True\<rparr>, Inr ()))))"

text \<open>The result of making or loading a wallet over the datastore; the file keeps what was written to it.\<close>

definition CreateWallet ::
  "('ds, 'k, 'a, 'x) client_env \<Rightarrow> int \<Rightarrow> bytes result \<Rightarrow> string \<Rightarrow> ('ds, 'k, 'a, 'x) Client \<Rightarrow> (('ds, 'k, 'a, 'x) Client, unit) run" where
  "CreateWallet CE now ent pw c =
     (if walletExists CE c then Some (c, Inl (Err ''wallet already exists''))
      else
        (case getDatastore CE c of (c, Inl err) \<Rightarrow> Some (c, Inl err)
         | (c, Inr ds) \<Rightarrow>
             (case NewBtcElectrumWallet (ce_lib CE) (ce_tx CE) (ce_storeEncSeed CE) now ent pw ds of
                None \<Rightarrow> None
              | Some (ds', Inl err) \<Rightarrow> Some (c\<lparr>disk := Some ds'\<rparr>, Inl err)
              | Some (ds', Inr w) \<Rightarrow> Some (c\<lparr>disk := Some ds', cWallet := AWallet w\<rparr>, Inr ()))))"

definition LoadWallet ::
  "('ds, 'k, 'a, 'x) client_env \<Rightarrow> string \<Rightarrow> ('ds, 'k, 'a, 'x) Client \<Rightarrow> (('ds, 'k, 'a, 'x) Client, unit) run" where
  "LoadWallet CE pw c =
     (if \<not> walletExists CE c then Some (c, Inl (Err ''cannot find wallet''))
      else
        (case getDatastore CE c of (c, Inl err) \<Rightarrow> Some (c, Inl err)
         | (c, Inr ds) \<Rightarrow>
             (case LoadBtcElectrumWallet (ce_lib CE) (ce_tx CE) pw ds of
                None \<Rightarrow> None
              | Some (ds', Inl err) \<Rightarrow> Some (c\<lparr>disk := Some ds'\<rparr>, Inl err)
              | Some (ds', Inr w) \<Rightarrow> Some (c\<lparr>disk := Some ds', cWallet := AWallet w\<rparr>, Inr ()))))"

section \<open>rescan.go\<close>

definition pkScriptToElectrumScripthash :: "('ds, 'k, 'a, 'x) client_env \<Rightarrow> bytes \<Rightarrow> string" where
  "pkScriptToElectrumScripthash CE pkScript = EncodeToString (rev (ScriptHashB CE pkScript))"

definition addressToElectrumScripthash :: "('ds, 'k, 'a, 'x) client_env \<Rightarrow> 'a \<Rightarrow> string result" where
  "addressToElectrumScripthash CE address =
     thenR (PayToAddrScript (ce_wire CE) address) (\<lambda>pkScript. Inr (pkScriptToElectrumScripthash CE pkScript))"

definition addrToElectrumScripthash :: "('ds, 'k, 'a, 'x) client_env \<Rightarrow> string \<Rightarrow> string result" where
  "addrToElectrumScripthash CE addr = thenR (DecodeAddress CE addr) (addressToElectrumScripthash CE)"

text \<open>One key: whether its address has a history, and the client after.  Every error is printed and skipped.\<close>

definition rescan_key ::
  "('ds, 'k, 'a, 'x) client_env \<Rightarrow> int \<Rightarrow> int \<Rightarrow> ('ds, 'k, 'a, 'x) Client \<Rightarrow> ('ds, 'k, 'a, 'x) Client \<times> bool result" where
  "rescan_key CE keyIndex change c =
     (case w_read CE (\<lambda>E ds. wallet_GetAddress E \<lparr>Change = change, Index = keyIndex\<rparr>) c of
        (c, Inl (Panic m)) \<Rightarrow> (c, Inl (Panic m))
      | (c, Inl (Err _)) \<Rightarrow> (c, Inr False)
      | (c, Inr address) \<Rightarrow>
          (case addressToElectrumScripthash CE address of
             Inl err \<Rightarrow> (c, Inr False)
           | Inr scripthash \<Rightarrow>
               (case x_call (X_GetHistory (ce_x CE) scripthash) c of
                  (c, Inl err) \<Rightarrow> (c, Inr False)
                | (c, Inr history) \<Rightarrow>
                    (if history = [] then (c, Inr False)
                     else
                       (case PayToAddrScript (ce_wire CE) address of
                          Inl err \<Rightarrow> (c, Inr True)
                        | Inr pkScript \<Rightarrow>
                            (case w_store CE (\<lambda>E. wallet_AddSubscription E
                                     \<lparr>PkScript = EncodeToString pkScript, ElectrumScripthash = scripthash,
                                      Address = AddrString CE address\<rparr>) c of
                               (c, Inl (Panic m)) \<Rightarrow> (c, Inl (Panic m))
                             | (c, _) \<Rightarrow> (c, Inr True)))))))"

fun rescan_loop ::
  "('ds, 'k, 'a, 'x) client_env \<Rightarrow> int list \<Rightarrow> int \<Rightarrow> ('ds, 'k, 'a, 'x) Client \<Rightarrow> ('ds, 'k, 'a, 'x) Client \<times> unit result" where
  "rescan_loop CE [] historyHitIndex c = (c, Inr ())"
| "rescan_loop CE (keyIndex # keys) historyHitIndex c =
     thenS (rescan_key CE keyIndex 0 c) (\<lambda>c hit0.
     thenS (rescan_key CE keyIndex 1 c) (\<lambda>c hit1.
       (let historyHitIndex = (if hit0 \<or> hit1 then keyIndex else historyHitIndex) in
        if keyIndex > historyHitIndex + GAP_LIMIT then (c, Inr ())
        else rescan_loop CE keys historyHitIndex c)))"

definition highestKeyIndex :: int where
  "highestKeyIndex = 100"

definition RescanWallet :: "('ds, 'k, 'a, 'x) client_env \<Rightarrow> ('ds, 'k, 'a, 'x) Client \<Rightarrow> ('ds, 'k, 'a, 'x) Client \<times> unit result" where
  "RescanWallet CE c =
     checkWallet c (checkX c (rescan_loop CE [0..highestKeyIndex] 0 c))"

text \<open>The pointer returned with an error is nil, and is put into the interface all the same.\<close>

definition RecreateWallet ::
  "('ds, 'k, 'a, 'x) client_env \<Rightarrow> int \<Rightarrow> string \<Rightarrow> string \<Rightarrow> ('ds, 'k, 'a, 'x) Client \<Rightarrow> (('ds, 'k, 'a, 'x) Client, unit) run" where
  "RecreateWallet CE now pw mnemonic c =
     (if walletExists CE c then Some (c, Inl (Err ''wallet already exists''))
      else
        (case getDatastore CE c of (c, Inl err) \<Rightarrow> Some (c, Inl err)
         | (c, Inr ds) \<Rightarrow>
             (case RecreateElectrumWallet (ce_lib CE) (ce_tx CE) (ce_storeEncSeed CE) now pw mnemonic ds of
                None \<Rightarrow> None
              | Some (ds', Inl err) \<Rightarrow> Some (c\<lparr>disk := Some ds', cWallet := NilWallet\<rparr>, Inl err)
              | Some (ds', Inr w) \<Rightarrow> Some (RescanWallet CE (c\<lparr>disk := Some ds', cWallet := AWallet w\<rparr>)))))"

text \<open>The firo client (\<open>client/firo/client.go\<close>) has the rescan commented out.\<close>

definition RecreateWallet_firo ::
  "('ds, 'k, 'a, 'x) client_env \<Rightarrow> int \<Rightarrow> string \<Rightarrow> string \<Rightarrow> ('ds, 'k, 'a, 'x) Client \<Rightarrow> (('ds, 'k, 'a, 'x) Client, unit) run" where
  "RecreateWallet_firo CE now pw mnemonic c =
     (if walletExists CE c then Some (c, Inl (Err ''wallet already exists''))
      else
        (case getDatastore CE c of (c, Inl err) \<Rightarrow> Some (c, Inl err)
         | (c, Inr ds) \<Rightarrow>
             (case RecreateElectrumWallet (ce_lib CE) (ce_tx CE) (ce_storeEncSeed CE) now pw mnemonic ds of
                None \<Rightarrow> None
              | Some (ds', Inl err) \<Rightarrow> Some (c\<lparr>disk := Some ds', cWallet := NilWallet\<rparr>, Inl err)
              | Some (ds', Inr w) \<Rightarrow> Some (c\<lparr>disk := Some ds', cWallet := AWallet w\<rparr>, Inr ()))))"

lemma RecreateWallet_rescans:
  "RecreateWallet CE now pw mnemonic c =
     (case RecreateWallet_firo CE now pw mnemonic c of
        Some (c', Inr _) \<Rightarrow> Some (RescanWallet CE c') | failed \<Rightarrow> failed)"
  by (simp add: RecreateWallet_def RecreateWallet_firo_def split: option.split sum.split prod.split)

section \<open>wallet\_synchronize.go\<close>

text \<open>A datastore that finds nothing gives an error, so the nil subscriptions the code tests for do not occur.\<close>

definition getSubscriptionForScripthash ::
  "('ds, 'k, 'a, 'x) client_env \<Rightarrow> string \<Rightarrow> ('ds, 'k, 'a, 'x) Client \<Rightarrow> ('ds, 'k, 'a, 'x) Client \<times> Subscription result" where
  "getSubscriptionForScripthash CE scripthash c =
     checkWallet c (w_read CE (\<lambda>E. wallet_GetSubscriptionForElectrumScripthash E scripthash) c)"

definition getSubscription ::
  "('ds, 'k, 'a, 'x) client_env \<Rightarrow> string \<Rightarrow> ('ds, 'k, 'a, 'x) Client \<Rightarrow> ('ds, 'k, 'a, 'x) Client \<times> Subscription result" where
  "getSubscription CE scriptPubKey c = checkWallet c (w_read CE (\<lambda>E. wallet_GetSubscription E scriptPubKey) c)"

text \<open>\<open>return subscription == nil, nil\<close>: a subscription that was found gives false.\<close>

definition isSubscribed ::
  "('ds, 'k, 'a, 'x) client_env \<Rightarrow> string \<Rightarrow> ('ds, 'k, 'a, 'x) Client \<Rightarrow> ('ds, 'k, 'a, 'x) Client \<times> bool result" where
  "isSubscribed CE pkScript c =
     checkWallet c (thenS (w_read CE (\<lambda>E. wallet_GetSubscription E pkScript) c) (\<lambda>c subscription. (c, Inr False)))"

definition addSubscription ::
  "('ds, 'k, 'a, 'x) client_env \<Rightarrow> Subscription \<Rightarrow> ('ds, 'k, 'a, 'x) Client \<Rightarrow> ('ds, 'k, 'a, 'x) Client \<times> unit result" where
  "addSubscription CE subscription c = checkWallet c (w_store CE (\<lambda>E. wallet_AddSubscription E subscription) c)"

definition removeSubscription ::
  "('ds, 'k, 'a, 'x) client_env \<Rightarrow> string \<Rightarrow> ('ds, 'k, 'a, 'x) Client \<Rightarrow> ('ds, 'k, 'a, 'x) Client \<times> unit result" where
  "removeSubscription CE pkScript c =
     checkWallet c (w_store CE (\<lambda>E ds. (wallet_RemoveSubscription E pkScript ds, Inr ())) c)"

text \<open>The error of \<open>addSubscription\<close> is dropped.\<close>

definition SubscribeAddressNotify ::
  "('ds, 'k, 'a, 'x) client_env \<Rightarrow> Subscription \<Rightarrow> ('ds, 'k, 'a, 'x) Client \<Rightarrow> ('ds, 'k, 'a, 'x) Client \<times> string result" where
  "SubscribeAddressNotify CE newSub c =
     checkX c
       (thenS (isSubscribed CE (PkScript newSub) c) (\<lambda>c subscribed.
        thenS (x_call (X_SubscribeScripthashNotify (ce_x CE) (ElectrumScripthash newSub)) c) (\<lambda>c res.
          (case res of
             None \<Rightarrow> (c, Inl (Err ''empty result''))
           | Some st \<Rightarrow>
               (case (if \<not> subscribed then addSubscription CE newSub c else (c, Inr ())) of
                  (c, Inl (Panic m)) \<Rightarrow> (c, Inl (Panic m))
                | (c, _) \<Rightarrow> (c, Inr (Status st)))))))"

definition UnsubscribeAddressNotify ::
  "('ds, 'k, 'a, 'x) client_env \<Rightarrow> string \<Rightarrow> ('ds, 'k, 'a, 'x) Client \<Rightarrow> ('ds, 'k, 'a, 'x) Client \<times> unit result" where
  "UnsubscribeAddressNotify CE pkScript c =
     (if cX c = None then (c, Inr ())
      else
        (case getSubscription CE pkScript c of
           (c, Inl (Panic m)) \<Rightarrow> (c, Inl (Panic m))
         | (c, Inl (Err _)) \<Rightarrow> (c, Inr ())
         | (c, Inr subscription) \<Rightarrow>
             (case x_call (\<lambda>x. (X_UnsubscribeScripthashNotify (ce_x CE) (ElectrumScripthash subscription) x, Inr ())) c of
                (c, _) \<Rightarrow> (fst (removeSubscription CE pkScript c), Inr ()))))"

text \<open>An empty history and a missing one are the same to the callers.\<close>

definition GetAddressHistoryFromNode ::
  "('ds, 'k, 'a, 'x) client_env \<Rightarrow> Subscription \<Rightarrow> ('ds, 'k, 'a, 'x) Client \<Rightarrow> ('ds, 'k, 'a, 'x) Client \<times> History list result" where
  "GetAddressHistoryFromNode CE subscription c =
     checkX c (x_call (X_GetHistory (ce_x CE) (ElectrumScripthash subscription)) c)"

text \<open>\<open>newWireTx\<close> of the client's \<open>util.go\<close>: unlike the wallet's it returns the error of \<open>Deserialize\<close> first.\<close>

definition client_newWireTx :: "'a wire_lib \<Rightarrow> bytes \<Rightarrow> bool \<Rightarrow> MsgTx result" where
  "client_newWireTx W b checkIo =
     (case Deserialize W b of
        (tx, Inl err) \<Rightarrow> Inl err
      | (tx, Inr _) \<Rightarrow>
          if checkIo \<and> TxIns tx = [] then Inl (Err ''tx: no inputs'')
          else if checkIo \<and> TxOuts tx = [] then Inl (Err ''tx: no outputs'')
          else Inr tx)"

definition GetRawTransactionFromNode ::
  "('ds, 'k, 'a, 'x) client_env \<Rightarrow> string \<Rightarrow> ('ds, 'k, 'a, 'x) Client \<Rightarrow> ('ds, 'k, 'a, 'x) Client \<times> MsgTx result" where
  "GetRawTransactionFromNode CE txid c =
     checkX c
       (thenS (x_call (X_GetRawTransaction (ce_x CE) txid) c) (\<lambda>c txres.
          (c, thenR (DecodeString txres) (\<lambda>b. client_newWireTx (ce_wire CE) b True))))"

definition w_add_tx ::
  "('ds, 'k, 'a, 'x) client_env \<Rightarrow> nat \<Rightarrow> int \<Rightarrow> MsgTx \<Rightarrow> int \<Rightarrow> ('ds, 'k, 'a, 'x) Client \<Rightarrow> (('ds, 'k, 'a, 'x) Client, unit) run" where
  "w_add_tx CE fuel now msgTx height c =
     (case cWallet c of
        AWallet w \<Rightarrow>
          (case wallet_AddTransaction fuel (wenv CE w) now msgTx height now w of
             None \<Rightarrow> None
           | Some (w', r) \<Rightarrow> Some (c\<lparr>cWallet := AWallet w'\<rparr>, r))
      | _ \<Rightarrow> Some (c, nil_deref))"

text \<open>There is no nil check of the wallet here.  A transaction already stored as confirmed is not asked for
  again.\<close>

fun addTxHistoryToWallet ::
  "('ds, 'k, 'a, 'x) client_env \<Rightarrow> nat \<Rightarrow> int \<Rightarrow> History list \<Rightarrow> ('ds, 'k, 'a, 'x) Client \<Rightarrow> (('ds, 'k, 'a, 'x) Client, unit) run" where
  "addTxHistoryToWallet CE fuel now [] c = Some (c, Inr ())"
| "addTxHistoryToWallet CE fuel now (h # history) c =
     (case w_read CE (\<lambda>E ds. Inr (wallet_HasTransaction E (HistTxHash h) ds)) c of
        (c, Inl err) \<Rightarrow> Some (c, Inl err)
      | (c, Inr txn) \<Rightarrow>
          (if case txn of None \<Rightarrow> False | Some t \<Rightarrow> Txn.Height t > 0 then addTxHistoryToWallet CE fuel now history c
           else
             (case GetRawTransactionFromNode CE (HistTxHash h) c of
                (c, Inl err) \<Rightarrow> addTxHistoryToWallet CE fuel now history c
              | (c, Inr msgTx) \<Rightarrow>
                  (case w_add_tx CE fuel now msgTx (HistHeight h) c of
                     None \<Rightarrow> None
                   | Some (c, Inl (Panic m)) \<Rightarrow> Some (c, Inl (Panic m))
                   | Some (c, _) \<Rightarrow> addTxHistoryToWallet CE fuel now history c))))"

text \<open>What the listener of \<open>addressStatusNotify\<close> does with one notification, and whether it goes on.\<close>

definition status_notify ::
  "('ds, 'k, 'a, 'x) client_env \<Rightarrow> nat \<Rightarrow> int \<Rightarrow> ScripthashStatusResult \<Rightarrow> ('ds, 'k, 'a, 'x) Client \<Rightarrow> (('ds, 'k, 'a, 'x) Client, bool) run" where
  "status_notify CE fuel now status c =
     (if Status status = [] then Some (c, Inr True)
      else
        (case getSubscriptionForScripthash CE (Scripthash status) c of
           (c, Inl (Panic m)) \<Rightarrow> Some (c, Inl (Panic m))
         | (c, Inl (Err _)) \<Rightarrow> Some (c\<lparr>cListeners := cListeners c - 1\<rparr>, Inr False)
         | (c, Inr sub) \<Rightarrow>
             (case GetAddressHistoryFromNode CE sub c of
                (c, Inl err) \<Rightarrow> Some (c, Inr True)
              | (c, Inr history) \<Rightarrow> thenO (addTxHistoryToWallet CE fuel now history c) (\<lambda>c _. Some (c, Inr True)))))"

fun status_listener ::
  "('ds, 'k, 'a, 'x) client_env \<Rightarrow> nat \<Rightarrow> int \<Rightarrow> ScripthashStatusResult list \<Rightarrow> ('ds, 'k, 'a, 'x) Client \<Rightarrow> (('ds, 'k, 'a, 'x) Client, bool) run" where
  "status_listener CE fuel now [] c = Some (c, Inr True)"
| "status_listener CE fuel now (status # rest) c =
     thenO (status_notify CE fuel now status c) (\<lambda>c go.
       if go then status_listener CE fuel now rest c else Some (c, Inr False))"

definition addressStatusNotify ::
  "('ds, 'k, 'a, 'x) client_env \<Rightarrow> ('ds, 'k, 'a, 'x) Client \<Rightarrow> ('ds, 'k, 'a, 'x) Client \<times> unit result" where
  "addressStatusNotify CE c =
     thenS (x_read (X_GetScripthashNotify (ce_x CE)) c) (\<lambda>c _. (c\<lparr>cListeners := Suc (cListeners c)\<rparr>, Inr ()))"

definition pkScriptToAddressPubkeyHash :: "('ds, 'k, 'a, 'x) client_env \<Rightarrow> bytes \<Rightarrow> string" where
  "pkScriptToAddressPubkeyHash CE pkScript = (case PkScriptAddress CE pkScript of Inl _ \<Rightarrow> [] | Inr a \<Rightarrow> a)"

definition updateWalletTip :: "int \<Rightarrow> ('ds, 'k, 'a, 'x) Client \<Rightarrow> ('ds, 'k, 'a, 'x) Client \<times> unit result" where
  "updateWalletTip newTip c =
     (case cWallet c of NoWallet \<Rightarrow> (c, Inr ()) | _ \<Rightarrow> w_call (\<lambda>w. (wallet_UpdateTip newTip w, Inr ())) c)"

fun sync_loop ::
  "('ds, 'k, 'a, 'x) client_env \<Rightarrow> nat \<Rightarrow> int \<Rightarrow> Subscription list \<Rightarrow> ('ds, 'k, 'a, 'x) Client \<Rightarrow> (('ds, 'k, 'a, 'x) Client, unit) run" where
  "sync_loop CE fuel now [] c = Some (c, Inr ())"
| "sync_loop CE fuel now (subscription # subscriptions) c =
     thenO (Some (SubscribeAddressNotify CE subscription c)) (\<lambda>c status.
       if status = [] then sync_loop CE fuel now subscriptions c
       else
         thenO (Some (GetAddressHistoryFromNode CE subscription c)) (\<lambda>c history.
         thenO (addTxHistoryToWallet CE fuel now history c) (\<lambda>c _. sync_loop CE fuel now subscriptions c)))"

definition SyncWallet ::
  "('ds, 'k, 'a, 'x) client_env \<Rightarrow> nat \<Rightarrow> int \<Rightarrow> ('ds, 'k, 'a, 'x) Client \<Rightarrow> (('ds, 'k, 'a, 'x) Client, unit) run" where
  "SyncWallet CE fuel now c =
     thenO (Some (checkWallet c (w_read CE wallet_ListSubscriptions c))) (\<lambda>c subscriptions.
     thenO (sync_loop CE fuel now subscriptions c) (\<lambda>c _. Some (addressStatusNotify CE c)))"

section \<open>client\_wallet.go\<close>

definition client_Tip :: "('ds, 'k, 'a, 'x) client_env \<Rightarrow> ('ds, 'k, 'a, 'x) Client \<Rightarrow> int result" where
  "client_Tip CE c = (case cX c of None \<Rightarrow> nil_deref | Some x \<Rightarrow> Inr (X_GetTip (ce_x CE) x))"

text \<open>\<open>w.UpdateTip(ec.Tip())\<close>\<close>

definition updateTip :: "('ds, 'k, 'a, 'x) client_env \<Rightarrow> ('ds, 'k, 'a, 'x) Client \<Rightarrow> ('ds, 'k, 'a, 'x) Client \<times> unit result" where
  "updateTip CE c =
     thenS (c, client_Tip CE c) (\<lambda>c maybeTip. w_call (\<lambda>w. (wallet_UpdateTip maybeTip w, Inr ())) c)"

definition client_Spend ::
  "('ds, 'k, 'a, 'x) client_env \<Rightarrow> int \<Rightarrow> Fees option result \<Rightarrow> string \<Rightarrow> int \<Rightarrow> string \<Rightarrow> FeeLevel \<Rightarrow>
   ('ds, 'k, 'a, 'x) Client \<Rightarrow> ('ds, 'k, 'a, 'x) Client \<times> (int \<times> string \<times> string) result" where
  "client_Spend CE now resp pw amount toAddress feeLevel c =
     checkWallet c
       (thenS (updateTip CE c) (\<lambda>c _.
        thenS (c, DecodeAddress CE toAddress) (\<lambda>c address.
        thenS (w_call (\<lambda>w. wallet_Spend (ce_lib CE) (ce_spend CE) (wenv CE w) now resp pw amount address feeLevel w) c)
          (\<lambda>c (changeIndex, wireTx).
            (c, thenR (SerializeTx (ce_spend CE) wireTx) (\<lambda>b.
                  Inr (changeIndex, EncodeToString b, txid_string (ce_tx CE) (tx_hash (ce_tx CE) wireTx))))))))"

definition client_GetPrivKeyForAddress ::
  "('ds, 'k, 'a, 'x) client_env \<Rightarrow> string \<Rightarrow> string \<Rightarrow> ('ds, 'k, 'a, 'x) Client \<Rightarrow> ('ds, 'k, 'a, 'x) Client \<times> string result" where
  "client_GetPrivKeyForAddress CE pw addr c =
     checkWallet c
       (thenS (w_read CE (\<lambda>E ds. DecodeAddress CE addr) c) (\<lambda>c address.
        w_call (\<lambda>w. (w, wallet_GetPrivKeyForAddress (ce_lib CE) (ce_wif CE) (wenv CE w) pw address w)) c))"

definition client_SignTx ::
  "('ds, 'k, 'a, 'x) client_env \<Rightarrow> string \<Rightarrow> bytes \<Rightarrow> ('ds, 'k, 'a, 'x) Client \<Rightarrow> ('ds, 'k, 'a, 'x) Client \<times> bytes result" where
  "client_SignTx CE pw txBytes c =
     checkWallet c
       (thenS (updateTip CE c) (\<lambda>c _.
        thenS (c, client_newWireTx (ce_wire CE) txBytes True) (\<lambda>c unsignedTx.
        w_call (\<lambda>w. (w, wallet_SignTx (ce_lib CE) (ce_spend CE) (wenv CE w) pw True unsignedTx w)) c)))"

text \<open>The confirmations, whether the tip is behind, the transaction, and the error, which can come beside
  the others.\<close>

definition GetWalletTx ::
  "('ds, 'k, 'a, 'x) client_env \<Rightarrow> string \<Rightarrow> ('ds, 'k, 'a, 'x) Client \<Rightarrow> (int \<times> bool \<times> bytes) \<times> unit result" where
  "GetWalletTx CE txid c =
     (case snd (checkWallet c (w_read CE (\<lambda>E. wallet_GetTransaction E txid) c)) of
        Inl err \<Rightarrow> ((0, False, []), Inl err)
      | Inr txn \<Rightarrow>
          (if Txn.Height txn < 0 then ((0, False, []), Inl (Err ''txns db error''))
           else if Txn.Height txn = 0 then ((0, False, Bytes txn), Inr ())
           else
             (case client_Tip CE c of
                Inl err \<Rightarrow> ((0, False, []), Inl err)
              | Inr maybeTip \<Rightarrow>
                  (let conf = maybeTip - Txn.Height txn in
                   if conf < 0 then ((conf, True, Bytes txn), Inl (Err ''tip behind electrumx''))
                   else ((conf, False, Bytes txn), Inr ())))))"

definition GetWalletSpents ::
  "('ds, 'k, 'a, 'x) client_env \<Rightarrow> ('ds, 'k, 'a, 'x) Client \<Rightarrow> ('ds, 'k, 'a, 'x) Client \<times> Stxo list result" where
  "GetWalletSpents CE c = checkWallet c (w_read CE wallet_ListSpent c)"

text \<open>The outputs that pay back to the wallet, in the order of the transaction.\<close>

fun backToWallet :: "('ds, 'k, 'a, 'x) client_env \<Rightarrow> bytes list \<Rightarrow> TxOut list \<Rightarrow> bytes list result" where
  "backToWallet CE ours [] = Inr []"
| "backToWallet CE ours (txOut # outs) =
     thenR (ExtractPkScriptAddrs (ce_wire CE) (OPkScript txOut)) (\<lambda>addresses.
     thenR (backToWallet CE ours outs) (\<lambda>back.
       Inr (if length addresses \<noteq> 1 then back
            else if AddrScriptAddress (ce_wire CE) (addresses ! 0) \<in> set ours then OPkScript txOut # back
            else back)))"

definition unsubscribe_back :: "('ds, 'k, 'a, 'x) client_env \<Rightarrow> string \<Rightarrow> ('ds, 'k, 'a, 'x) Client \<Rightarrow> ('ds, 'k, 'a, 'x) Client" where
  "unsubscribe_back CE pkScript c = fst (w_store CE (\<lambda>E ds. (wallet_RemoveSubscription E pkScript ds, Inr ())) c)"

text \<open>Storing a subscription and asking the server for its notifications; on an error of the server the stored
  one is removed again.\<close>

definition watch ::
  "('ds, 'k, 'a, 'x) client_env \<Rightarrow> Subscription \<Rightarrow> ('ds, 'k, 'a, 'x) Client \<Rightarrow> ('ds, 'k, 'a, 'x) Client \<times> unit result" where
  "watch CE newSub c =
     (case x_call (X_SubscribeScripthashNotify (ce_x CE) (ElectrumScripthash newSub)) c of
        (c, Inl err) \<Rightarrow> (unsubscribe_back CE (PkScript newSub) c, Inl err)
      | (c, Inr None) \<Rightarrow> (unsubscribe_back CE (PkScript newSub) c, Inl (Err ''network: empty result''))
      | (c, Inr (Some res)) \<Rightarrow> (c, Inr ()))"

definition back_sub :: "('ds, 'k, 'a, 'x) client_env \<Rightarrow> bytes \<Rightarrow> Subscription" where
  "back_sub CE pkScript =
     \<lparr>PkScript = EncodeToString pkScript, ElectrumScripthash = pkScriptToElectrumScripthash CE pkScript,
      Address = pkScriptToAddressPubkeyHash CE pkScript\<rparr>"

fun subscribe_back ::
  "('ds, 'k, 'a, 'x) client_env \<Rightarrow> bytes list \<Rightarrow> ('ds, 'k, 'a, 'x) Client \<Rightarrow> ('ds, 'k, 'a, 'x) Client \<times> unit result" where
  "subscribe_back CE [] c = (c, Inr ())"
| "subscribe_back CE (pkScript # rest) c =
     (case w_store CE (\<lambda>E. wallet_AddSubscription E (back_sub CE pkScript)) c of
        (c, Inl err) \<Rightarrow> (c, Inl (Panic ''add subscription''))
      | (c, Inr _) \<Rightarrow> thenS (watch CE (back_sub CE pkScript) c) (\<lambda>c _. subscribe_back CE rest c))"

definition Broadcast ::
  "('ds, 'k, 'a, 'x) client_env \<Rightarrow> bytes option \<Rightarrow> ('ds, 'k, 'a, 'x) Client \<Rightarrow> ('ds, 'k, 'a, 'x) Client \<times> string result" where
  "Broadcast CE rawTx c =
     checkWallet c (checkX c
       (case rawTx of
          None \<Rightarrow> (c, Inl (Err ''nil Tx''))
        | Some raw \<Rightarrow>
            thenS (c, client_newWireTx (ce_wire CE) raw True) (\<lambda>c tx.
            thenS (w_read CE (\<lambda>E ds. Inr (wallet_ListAddresses E ds)) c) (\<lambda>c ours.
            thenS (c, backToWallet CE ours (TxOuts tx)) (\<lambda>c back.
            thenS (x_call (X_Broadcast (ce_x CE) (EncodeToString raw)) c) (\<lambda>c txid.
            thenS (subscribe_back CE back c) (\<lambda>c _. (c, Inr txid))))))))"

definition RpcBroadcast ::
  "('ds, 'k, 'a, 'x) client_env \<Rightarrow> string \<Rightarrow> ('ds, 'k, 'a, 'x) Client \<Rightarrow> ('ds, 'k, 'a, 'x) Client \<times> string result" where
  "RpcBroadcast CE tx c = thenS (c, DecodeString tx) (\<lambda>c rawTx. Broadcast CE (Some rawTx) c)"

definition client_ListUnspent where
  "client_ListUnspent CE c = checkWallet c (thenS (updateTip CE c) (\<lambda>c _. w_read CE wallet_ListUnspent c))"

definition client_ListConfirmedUnspent where
  "client_ListConfirmedUnspent CE c =
     checkWallet c (thenS (updateTip CE c) (\<lambda>c _. w_read CE wallet_ListConfirmedUnspent c))"

definition client_ListFrozenUnspent where
  "client_ListFrozenUnspent CE c =
     checkWallet c (thenS (updateTip CE c) (\<lambda>c _. w_read CE wallet_ListFrozenUnspent c))"

definition getNewAddress ::
  "('ds, 'k, 'a, 'x) client_env \<Rightarrow> bool \<Rightarrow> ('ds, 'k, 'a, 'x) Client \<Rightarrow> ('ds, 'k, 'a, 'x) Client \<times> string result" where
  "getNewAddress CE internal c =
     checkWallet c (checkX c
       (thenS (w_read CE (\<lambda>E. wallet_GetUnusedAddress E (if internal then INTERNAL else EXTERNAL)) c) (\<lambda>c address.
          (case address of
             None \<Rightarrow> (c, Inl (Err ''unable to generate payment script for unsupported address type <nil>''))
           | Some a \<Rightarrow>
               thenS (c, PayToAddrScript (ce_wire CE) a) (\<lambda>c payToAddrScript.
                 (let newSub = \<lparr>PkScript = EncodeToString payToAddrScript,
                        ElectrumScripthash = pkScriptToElectrumScripthash CE payToAddrScript, Address = AddrString CE a\<rparr> in
                  thenS (w_store CE (\<lambda>E. wallet_AddSubscription E newSub) c) (\<lambda>c _.
                  thenS (watch CE newSub c) (\<lambda>c _. (c, Inr (AddrString CE a))))))))))"

definition UnusedAddress where "UnusedAddress CE = getNewAddress CE False"
definition ChangeAddress where "ChangeAddress CE = getNewAddress CE True"

definition ValidateAddress ::
  "('ds, 'k, 'a, 'x) client_env \<Rightarrow> string \<Rightarrow> ('ds, 'k, 'a, 'x) Client \<Rightarrow> ('ds, 'k, 'a, 'x) Client \<times> (bool \<times> bool) result" where
  "ValidateAddress CE addr c =
     checkWallet c
       (thenS (c, DecodeAddress CE addr) (\<lambda>c queryAddress.
        w_read CE (\<lambda>E ds. Inr (True, wallet_IsMine E queryAddress ds)) c))"

definition client_Balance ::
  "('ds, 'k, 'a, 'x) client_env \<Rightarrow> ('ds, 'k, 'a, 'x) Client \<Rightarrow> ('ds, 'k, 'a, 'x) Client \<times> (int \<times> int \<times> int) result" where
  "client_Balance CE c = checkWallet c (w_read CE wallet_Balance c)"

definition client_FreezeUTXO ::
  "('ds, 'k, 'a, 'x) client_env \<Rightarrow> string \<Rightarrow> 32 word \<Rightarrow> ('ds, 'k, 'a, 'x) Client \<Rightarrow> ('ds, 'k, 'a, 'x) Client \<times> unit result" where
  "client_FreezeUTXO CE txid out c =
     checkWallet c
       (thenS (c, NewOutPoint (te_hash (ce_tx CE)) txid out) (\<lambda>c op. w_store CE (\<lambda>E. wallet_FreezeUTXO E op) c))"

definition client_UnfreezeUTXO ::
  "('ds, 'k, 'a, 'x) client_env \<Rightarrow> string \<Rightarrow> 32 word \<Rightarrow> ('ds, 'k, 'a, 'x) Client \<Rightarrow> ('ds, 'k, 'a, 'x) Client \<times> unit result" where
  "client_UnfreezeUTXO CE txid out c =
     checkWallet c
       (thenS (c, NewOutPoint (te_hash (ce_tx CE)) txid out) (\<lambda>c op. w_store CE (\<lambda>E. wallet_UnFreezeUTXO E op) c))"

text \<open>The parameters are those of one of btcd's networks, or others.\<close>

datatype chain_params = MainNetParams | TestNet3Params | RegressionNetParams | OtherParams

fun FeeRate :: "chain_params \<Rightarrow> int \<Rightarrow> int result" where
  "FeeRate MainNetParams confTarget = Inr 30000"
| "FeeRate TestNet3Params confTarget = Inr 1500"
| "FeeRate RegressionNetParams confTarget = Inr 1500"
| "FeeRate OtherParams confTarget = Inr 1000"

section \<open>client\_node.go and blockchain.go\<close>

definition Synced :: "('ds, 'k, 'a, 'x) client_env \<Rightarrow> ('ds, 'k, 'a, 'x) Client \<Rightarrow> bool result" where
  "Synced CE c = (case cX c of None \<Rightarrow> nil_deref | Some x \<Rightarrow> Inr (X_GetSyncStatus (ce_x CE) x))"

definition client_GetBlockHeader :: "('ds, 'k, 'a, 'x) client_env \<Rightarrow> int \<Rightarrow> ('ds, 'k, 'a, 'x) Client \<Rightarrow> ('ds, 'k, 'a, 'x) Client \<times> ClientBlockHeader result" where
  "client_GetBlockHeader CE height = x_read (X_GetBlockHeader (ce_x CE) height)"

definition client_GetBlockHeaders ::
  "('ds, 'k, 'a, 'x) client_env \<Rightarrow> int \<Rightarrow> int \<Rightarrow> ('ds, 'k, 'a, 'x) Client \<Rightarrow> ('ds, 'k, 'a, 'x) Client \<times> ClientBlockHeader list result" where
  "client_GetBlockHeaders CE startHeight blkCount = x_read (X_GetBlockHeaders (ce_x CE) startHeight blkCount)"

definition GetRawTransaction ::
  "('ds, 'k, 'a, 'x) client_env \<Rightarrow> string \<Rightarrow> ('ds, 'k, 'a, 'x) Client \<Rightarrow> ('ds, 'k, 'a, 'x) Client \<times> bytes result" where
  "GetRawTransaction CE txid c =
     checkX c (thenS (x_call (X_GetRawTransaction (ce_x CE) txid) c) (\<lambda>c txStr. (c, DecodeString txStr)))"

definition GetTransaction ::
  "('ds, 'k, 'a, 'x) client_env \<Rightarrow> string \<Rightarrow> ('ds, 'k, 'a, 'x) Client \<Rightarrow> ('ds, 'k, 'a, 'x) Client \<times> GetTransactionResult result" where
  "GetTransaction CE txid c = checkX c (x_call (X_GetTransaction (ce_x CE) txid) c)"

definition GetAddressHistory ::
  "('ds, 'k, 'a, 'x) client_env \<Rightarrow> string \<Rightarrow> ('ds, 'k, 'a, 'x) Client \<Rightarrow> ('ds, 'k, 'a, 'x) Client \<times> History list result" where
  "GetAddressHistory CE addr c =
     checkX c (thenS (c, addrToElectrumScripthash CE addr) (\<lambda>c scripthash. x_call (X_GetHistory (ce_x CE) scripthash) c))"

definition GetAddressUnspent ::
  "('ds, 'k, 'a, 'x) client_env \<Rightarrow> string \<Rightarrow> ('ds, 'k, 'a, 'x) Client \<Rightarrow> ('ds, 'k, 'a, 'x) Client \<times> ListUnspent list result" where
  "GetAddressUnspent CE addr c =
     checkX c (thenS (c, addrToElectrumScripthash CE addr) (\<lambda>c scripthash. x_call (X_GetListUnspent (ce_x CE) scripthash) c))"

section \<open>import\_sweep.go\<close>

definition hash160 :: "('ds, 'k, 'a, 'x) client_env \<Rightarrow> bytes \<Rightarrow> bytes result" where
  "hash160 CE buf = Inr (Ripemd160 CE (Sha256 CE buf))"

definition unspent_input ::
  "('ds, 'k, 'a, 'x) client_env \<Rightarrow> bytes \<Rightarrow> 'a \<Rightarrow> ListUnspent \<Rightarrow> 'a InputInfo result" where
  "unspent_input CE keyPair addressPKHash unspent =
     thenR (NewOutPointFromString (te_hash (ce_tx CE)) (LuTxHash unspent @ '':'' @ Itoa (LuTxPos unspent))) (\<lambda>op.
       Inr \<lparr>InOutpoint = op, InHeight = LuHeight unspent, InValue = LuValue unspent, KeyPair = keyPair,
            LinkedAddress = addressPKHash, InPkScript = []\<rparr>)"

fun unspent_inputs ::
  "('ds, 'k, 'a, 'x) client_env \<Rightarrow> bytes \<Rightarrow> 'a \<Rightarrow> ListUnspent list \<Rightarrow> 'a InputInfo list result" where
  "unspent_inputs CE keyPair address [] = Inr []"
| "unspent_inputs CE keyPair address (unspent # rest) =
     thenR (unspent_input CE keyPair address unspent) (\<lambda>input.
     thenR (unspent_inputs CE keyPair address rest) (\<lambda>inputs. Inr (input # inputs)))"

definition getPKHashTypeUtxos ::
  "('ds, 'k, 'a, 'x) client_env \<Rightarrow> bytes \<Rightarrow> bool \<Rightarrow> ('ds, 'k, 'a, 'x) Client \<Rightarrow> ('ds, 'k, 'a, 'x) Client \<times> 'a InputInfo list result" where
  "getPKHashTypeUtxos CE keyPair witness c =
     checkX c
       (thenS (c, hash160 CE (SerializePubKey CE keyPair)) (\<lambda>c pkHash.
        thenS (c, if witness then NewAddressWitnessPubKeyHash (ce_wire CE) pkHash else NewAddressPubKeyHash CE pkHash)
          (\<lambda>c addressPKHash.
        thenS (c, addressToElectrumScripthash CE addressPKHash) (\<lambda>c scripthash.
        thenS (x_call (X_GetListUnspent (ce_x CE) scripthash) c) (\<lambda>c listUnspent.
          (c, unspent_inputs CE keyPair addressPKHash listUnspent))))))"

text \<open>The pay-to-script-hash and pay-to-pubkey kinds are not implemented and give no coins.\<close>

definition getUtxos ::
  "('ds, 'k, 'a, 'x) client_env \<Rightarrow> bytes \<Rightarrow> ('ds, 'k, 'a, 'x) Client \<Rightarrow> ('ds, 'k, 'a, 'x) Client \<times> 'a InputInfo list result" where
  "getUtxos CE keyPair c =
     thenS (getPKHashTypeUtxos CE keyPair False c) (\<lambda>c p2pkhInputList.
     thenS (getPKHashTypeUtxos CE keyPair True c) (\<lambda>c p2wpkhInputList.
       (c, Inr (p2pkhInputList @ p2wpkhInputList))))"

fun import_keys ::
  "('ds, 'k, 'a, 'x) client_env \<Rightarrow> string list \<Rightarrow> ('ds, 'k, 'a, 'x) Client \<Rightarrow> ('ds, 'k, 'a, 'x) Client \<times> 'a InputInfo list" where
  "import_keys CE [] c = (c, [])"
| "import_keys CE (k # ks) c =
     (case DecodeWIF CE k of
        Inl err \<Rightarrow> import_keys CE ks c
      | Inr wif \<Rightarrow>
          (case getUtxos CE wif c of
             (c, Inl err) \<Rightarrow> import_keys CE ks c
           | (c, Inr inputsForKey) \<Rightarrow> (case import_keys CE ks c of (c, inputs) \<Rightarrow> (c, inputsForKey @ inputs))))"

text \<open>The transactions of the sweep are serialized and dropped.\<close>

definition ImportAndSweep ::
  "('ds, 'k, 'a, 'x) client_env \<Rightarrow> int \<Rightarrow> Fees option result \<Rightarrow> string list \<Rightarrow> ('ds, 'k, 'a, 'x) Client \<Rightarrow>
   ('ds, 'k, 'a, 'x) Client \<times> unit result" where
  "ImportAndSweep CE now resp importedKeyPairs c =
     checkWallet c
       (if importedKeyPairs = [] then (c, Inl (Err ''no keys''))
        else
          (case import_keys CE importedKeyPairs c of
             (c, inputs) \<Rightarrow>
               (if inputs = [] then (c, Inl (Err ''no inputs found''))
                else
                  thenS (w_call (\<lambda>w. SweepCoins (ce_spend CE) (ce_sizes CE) (wenv CE w) now resp inputs NORMAL 50 w) c)
                    (\<lambda>c txs. (c, Inr ())))))"

end
