(* ===== verification/Tx_Laws.thy ===== *)
theory Tx_Laws
  imports Tx_Store
begin

text \<open>
  The transaction store over any datastore that keeps the contracts: \<open>markAsDead\<close> terminates and removes
  every trace of the dead transaction, and the loops of \<open>AddTransaction\<close> change the abstract store as the
  inputs and outputs of the transaction say.
\<close>

section \<open>The setting\<close>

locale tx_store =
  utxo_store "DS_Utxos (te_ds E)" A inv + stxo_store "DS_Stxos (te_ds E)" A inv norm +
  txn_store "DS_Txns (te_ds E)" A inv trunc
  for E :: "('ds, 'k, 'a) tx_env" and A inv norm trunc
begin

lemma norm_simps:
  "Op (SUtxo (norm s)) = Op (SUtxo s)" "SpendTxid (norm s) = SpendTxid s" "SpendHeight (norm s) = SpendHeight s"
  "UValue (SUtxo (norm s)) = UValue (SUtxo s)" "WatchOnly (SUtxo (norm s)) = WatchOnly (SUtxo s)"
proof -
  obtain b where "norm s = s\<lparr>SUtxo := (SUtxo s)\<lparr>Frozen := b\<rparr>\<rparr>"
    using S_norm by blast
  then show "Op (SUtxo (norm s)) = Op (SUtxo s)" "SpendTxid (norm s) = SpendTxid s"
    "SpendHeight (norm s) = SpendHeight s" "UValue (SUtxo (norm s)) = UValue (SUtxo s)"
    "WatchOnly (SUtxo (norm s)) = WatchOnly (SUtxo s)" by simp_all
qed

lemma S_GetAll_wf: "inv d \<Longrightarrow> S_GetAll (stxos_of E) d = Inr ss \<Longrightarrow> s \<in> set ss \<Longrightarrow> wf_stxo s"
  using S_GetAll lists_map_mem S_wf by metis

section \<open>markAsDead\<close>

lemma markStxo_step:
  assumes "inv ds" and "wf_stxo s" and "markStxoAsDead E now s ds = (ds', r)"
  shows "inv ds' \<and> aUtxos (A ds') = aUtxos (A ds) \<and> aKeys (A ds') = aKeys (A ds) \<and>
    aStxos (A ds') \<subseteq>\<^sub>m aStxos (A ds) \<and>
    (\<not> isl r \<longrightarrow> aStxos (A ds') = (aStxos (A ds))(Op (SUtxo s) := None))"
proof -
  obtain d1 r1 where 1: "S_Delete (stxos_of E) s ds = (d1, r1)"
    by (cases "S_Delete (stxos_of E) s ds")
  have d1: "inv d1 \<and> A d1 = (if isl r1 then A ds
      else (A ds)\<lparr>aStxos := (aStxos (A ds))(Op (SUtxo s) := None)\<rparr>)"
    by (rule S_Delete [OF assms(1,2) 1])
  show ?thesis
  proof (cases r1)
    case (Inl e)
    then show ?thesis using assms(3) 1 d1 by (simp add: markStxoAsDead_def)
  next
    case (Inr x)
    then have "T_UpdateHeight (txns_of E) (txid_string E (SpendTxid s)) (- 1) now d1 = (ds', r)"
      using assms(3) 1 by (simp add: markStxoAsDead_def)
    from T_UpdateHeight [OF conjunct1 [OF d1] this] show ?thesis
      using d1 Inr by (auto simp: map_le_def)
  qed
qed

lemma unspend_step:
  assumes "inv ds" and "wf_stxo s" and "unspend E now txid s ds = (ds', r)"
  shows "inv ds' \<and> aStxos (A ds') \<subseteq>\<^sub>m aStxos (A ds) \<and>
    (\<not> isl r \<longrightarrow> txid = SpendTxid s \<longrightarrow>
       aStxos (A ds') = (aStxos (A ds))(Op (SUtxo s) := None) \<and>
       aUtxos (A ds') = (aUtxos (A ds))(Op (SUtxo s) \<mapsto> SUtxo s)) \<and>
    (txid \<noteq> SpendTxid s \<longrightarrow> ds' = ds)"
proof (cases "txid = SpendTxid s")
  case True
  obtain d1 r1 where 1: "markStxoAsDead E now s ds = (d1, r1)"
    by (cases "markStxoAsDead E now s ds")
  note step = markStxo_step [OF assms(1,2) 1]
  show ?thesis
  proof (cases r1)
    case (Inl e)
    then show ?thesis using assms(3) 1 step True by (auto simp: unspend_def)
  next
    case (Inr x)
    then have "U_Put (utxos_of E) (SUtxo s) d1 = (ds', r)"
      using assms(3) 1 True by (simp add: unspend_def)
    from U_Put [OF _ _ this] show ?thesis
      using step Inr assms(2) True by (auto simp: wf_stxo_def)
  qed
qed (use assms in \<open>simp add: unspend_def\<close>)

text \<open>What the recursive call is asked to do: return, and only remove stxos.\<close>

definition shrinker :: "(hash \<Rightarrow> 'ds \<Rightarrow> ('ds, unit) run) \<Rightarrow> nat \<Rightarrow> bool" where
  "shrinker rec n \<longleftrightarrow> (\<forall>h ds. inv ds \<longrightarrow> card (dom (aStxos (A ds))) < n \<longrightarrow>
     (\<exists>ds' r. rec h ds = Some (ds', r) \<and> inv ds' \<and> aStxos (A ds') \<subseteq>\<^sub>m aStxos (A ds)))"

text \<open>\<open>gone txid s ds\<close>: the stxo no longer stands in the way of the dead transaction.\<close>

definition gone :: "hash \<Rightarrow> Stxo \<Rightarrow> 'ds \<Rightarrow> bool" where
  "gone txid s ds \<longleftrightarrow> (txid = SpendTxid s \<or> txid = OpHash (Op (SUtxo s))) \<longrightarrow> aStxos (A ds) (Op (SUtxo s)) = None"

lemma gone_le: "gone txid s ds \<Longrightarrow> aStxos (A ds') \<subseteq>\<^sub>m aStxos (A ds) \<Longrightarrow> gone txid s ds'"
  by (auto simp: gone_def map_le_def dom_def)

text \<open>The transaction that spends an output of the dead one: after the recursion neither is left.\<close>

lemma dead_child_step:
  assumes "shrinker rec (card D)" and "finite D" and "inv d1" and "dom (aStxos (A d1)) \<subseteq> D"
    and "wf_stxo s" and "Op (SUtxo s) \<in> D" and "txid \<noteq> OpHash (Op (SUtxo s)) \<Longrightarrow> gone txid s d1"
  obtains d2 r2 where "(if txid = OpHash (Op (SUtxo s))
       then thenO (Some (markStxoAsDead E now s d1)) (\<lambda>ds _. rec (SpendTxid s) ds) else Some (d1, Inr ())) = Some (d2, r2)"
    "inv d2" "aStxos (A d2) \<subseteq>\<^sub>m aStxos (A d1)" "\<not> isl r2 \<longrightarrow> gone txid s d2"
proof (cases "txid = OpHash (Op (SUtxo s))")
  case False
  then show thesis using that assms(3,7) by simp
next
  case True
  obtain d2 r2 where 2: "markStxoAsDead E now s d1 = (d2, r2)"
    by (cases "markStxoAsDead E now s d1")
  note step2 = markStxo_step [OF assms(3,5) 2]
  show thesis
  proof (cases r2)
    case (Inl e)
    then show thesis using that True 2 step2 by simp
  next
    case (Inr y)
    have del: "aStxos (A d2) = (aStxos (A d1))(Op (SUtxo s) := None)"
      using step2 Inr by simp
    have "dom (aStxos (A d2)) \<subset> D"
      using del assms(4,6) by (auto simp: fun_upd_def dom_def split: if_splits)
    then have "card (dom (aStxos (A d2))) < card D"
      by (rule psubset_card_mono [OF assms(2)])
    then obtain d3 r3 where 3: "rec (SpendTxid s) d2 = Some (d3, r3)" "inv d3" "aStxos (A d3) \<subseteq>\<^sub>m aStxos (A d2)"
      using assms(1) step2 unfolding shrinker_def by blast
    have "gone txid s d2"
      by (simp add: gone_def del)
    then have "gone txid s d3"
      using gone_le 3(3) by blast
    moreover have "aStxos (A d3) \<subseteq>\<^sub>m aStxos (A d1)"
      using 3(3) step2 map_le_trans by blast
    ultimately show thesis
      using that [of d3 r3] True 2 Inr 3 by simp
  qed
qed

lemma dead_loop_step:
  assumes "shrinker rec (card D)" and "finite D"
    and "inv ds" and "dom (aStxos (A ds)) \<subseteq> D" and "\<forall>s \<in> set ss. wf_stxo s \<and> Op (SUtxo s) \<in> D"
  shows "\<exists>ds' r. dead_loop rec E now txid ss ds = Some (ds', r) \<and> inv ds' \<and>
    aStxos (A ds') \<subseteq>\<^sub>m aStxos (A ds) \<and> (\<not> isl r \<longrightarrow> (\<forall>s \<in> set ss. gone txid s ds'))"
  using assms(3-5)
proof (induction ss arbitrary: ds)
  case (Cons s ss)
  have s: "wf_stxo s" "Op (SUtxo s) \<in> D"
    using Cons.prems(3) by auto
  obtain d1 r1 where 1: "unspend E now txid s ds = (d1, r1)"
    by (cases "unspend E now txid s ds")
  note step1 = unspend_step [OF Cons.prems(1) s(1) 1]
  show ?case
  proof (cases r1)
    case (Inl e)
    then show ?thesis using 1 step1 by auto
  next
    case (Inr x)
    have "dom (aStxos (A d1)) \<subseteq> D"
      using step1 Cons.prems(2) map_le_implies_dom_le by blast
    moreover have "gone txid s d1" if "txid \<noteq> OpHash (Op (SUtxo s))"
      using step1 Inr that by (auto simp: gone_def)
    ultimately obtain d2 r2 where 2: "(if txid = OpHash (Op (SUtxo s))
         then thenO (Some (markStxoAsDead E now s d1)) (\<lambda>ds _. rec (SpendTxid s) ds) else Some (d1, Inr ())) = Some (d2, r2)"
        "inv d2" "aStxos (A d2) \<subseteq>\<^sub>m aStxos (A d1)" "\<not> isl r2 \<longrightarrow> gone txid s d2"
      using dead_child_step [OF assms(1,2) conjunct1 [OF step1] _ s] by metis
    have le2: "aStxos (A d2) \<subseteq>\<^sub>m aStxos (A ds)"
      using 2(3) step1 map_le_trans by blast
    have run: "dead_loop rec E now txid (s # ss) ds = thenO (Some (d2, r2)) (\<lambda>ds _. dead_loop rec E now txid ss ds)"
      using 1 Inr 2(1) by simp
    show ?thesis
    proof (cases r2)
      case (Inl e)
      then show ?thesis using run 2 le2 by simp
    next
      case (Inr y)
      have "dom (aStxos (A d2)) \<subseteq> D"
        using le2 Cons.prems(2) map_le_implies_dom_le by blast
      then obtain d3 r3 where 3: "dead_loop rec E now txid ss d2 = Some (d3, r3)" "inv d3"
          "aStxos (A d3) \<subseteq>\<^sub>m aStxos (A d2)" "\<not> isl r3 \<longrightarrow> (\<forall>s \<in> set ss. gone txid s d3)"
        using Cons.IH [OF 2(2)] Cons.prems(3) by auto
      then show ?thesis
        using run 2 Inr le2 gone_le [of txid s d2 d3] map_le_trans [OF 3(3) le2] by auto
    qed
  qed
qed simp

lemma delete_dead_step:
  assumes "inv ds" and "\<forall>u \<in> set us. wf_utxo u" and "delete_dead E txid us ds = (ds', r)"
  shows "inv ds' \<and> aStxos (A ds') = aStxos (A ds) \<and> (\<not> isl r \<longrightarrow> aUtxos (A ds') =
    (\<lambda>op. if OpHash op = txid \<and> op \<in> Op ` set us then None else aUtxos (A ds) op))"
  using assms
proof (induction us arbitrary: ds' r rule: rev_induct)
  case Nil
  then show ?case by (auto simp: delete_dead_def)
next
  case (snoc u us)
  obtain d1 r1 where 1: "delete_dead E txid us ds = (d1, r1)"
    by (cases "delete_dead E txid us ds")
  have IH: "inv d1 \<and> aStxos (A d1) = aStxos (A ds) \<and> (\<not> isl r1 \<longrightarrow> aUtxos (A d1) =
      (\<lambda>op. if OpHash op = txid \<and> op \<in> Op ` set us then None else aUtxos (A ds) op))"
    using snoc.IH [OF snoc.prems(1) _ 1] snoc.prems(2) by simp
  have run: "(ds', r) = thenS (d1, r1) (\<lambda>ds _. if txid = OpHash (Op u) then U_Delete (utxos_of E) u ds else (ds, Inr ()))"
    using snoc.prems(3) 1 by (simp add: delete_dead_def)
  show ?case
  proof (cases r1)
    case (Inl e)
    then show ?thesis using run IH by auto
  next
    case (Inr x)
    show ?thesis
    proof (cases "txid = OpHash (Op u)")
      case False
      then show ?thesis using run IH Inr by (auto simp: fun_eq_iff)
    next
      case True
      then have "U_Delete (utxos_of E) u d1 = (ds', r)"
        using run Inr by simp
      from U_Delete [OF _ _ this] show ?thesis
        using IH Inr True snoc.prems(2) by (auto simp: fun_eq_iff)
    qed
  qed
qed

text \<open>The outputs of the dead transaction and its record.\<close>

lemma dead_outputs_step:
  assumes "inv d1"
  shows "\<exists>d r. (case U_GetAll (utxos_of E) d1 of Inl err \<Rightarrow> Some (d1, Inl err)
      | Inr utxos \<Rightarrow> thenO (Some (delete_dead E txid utxos d1)) (\<lambda>ds _.
          Some (fst (T_UpdateHeight (txns_of E) (txid_string E txid) (- 1) now ds), Inr ()))) = Some (d, r) \<and>
    inv d \<and> aStxos (A d) = aStxos (A d1) \<and> (\<not> isl r \<longrightarrow> (\<forall>op u. aUtxos (A d) op = Some u \<longrightarrow> OpHash op \<noteq> txid))"
proof (cases "U_GetAll (utxos_of E) d1")
  case (Inl e)
  then show ?thesis using assms by simp
next
  case InrU: (Inr us)
  obtain d2 r2 where 2: "delete_dead E txid us d1 = (d2, r2)"
    by (cases "delete_dead E txid us d1")
  have dd: "inv d2 \<and> aStxos (A d2) = aStxos (A d1) \<and> (\<not> isl r2 \<longrightarrow> aUtxos (A d2) =
      (\<lambda>op. if OpHash op = txid \<and> op \<in> Op ` set us then None else aUtxos (A d1) op))"
    using delete_dead_step [OF assms _ 2] U_GetAll_wf [OF assms InrU] by blast
  have noutxo: "OpHash op \<noteq> txid" if "\<not> isl r2" "aUtxos (A d2) op = Some u" for op u
    using that dd U_GetAll [OF assms InrU] by (auto simp: lists_map_def split: if_splits)
  obtain d3 r3 where 3: "T_UpdateHeight (txns_of E) (txid_string E txid) (- 1) now d2 = (d3, r3)"
    by (cases "T_UpdateHeight (txns_of E) (txid_string E txid) (- 1) now d2")
  have d3: "inv d3 \<and> aStxos (A d3) = aStxos (A d2) \<and> aUtxos (A d3) = aUtxos (A d2)"
    using T_UpdateHeight [OF _ 3] dd by auto
  show ?thesis
  proof (cases r2)
    case (Inl e)
    then show ?thesis using InrU 2 dd by simp
  next
    case (Inr y)
    then have "\<forall>op u. aUtxos (A d3) op = Some u \<longrightarrow> OpHash op \<noteq> txid"
      using noutxo d3 by simp
    then show ?thesis using InrU 2 3 Inr d3 dd by simp
  qed
qed

lemma markAsDead_returns:
  "inv ds \<Longrightarrow> card (dom (aStxos (A ds))) < fuel \<Longrightarrow>
   \<exists>ds' r. markAsDead fuel E now txid ds = Some (ds', r) \<and> inv ds' \<and> aStxos (A ds') \<subseteq>\<^sub>m aStxos (A ds) \<and>
     (\<not> isl r \<longrightarrow>
       (\<forall>op s. aStxos (A ds') op = Some s \<longrightarrow> SpendTxid s \<noteq> txid \<and> OpHash op \<noteq> txid) \<and>
       (\<forall>op u. aUtxos (A ds') op = Some u \<longrightarrow> OpHash op \<noteq> txid))"
proof (induction fuel arbitrary: txid ds)
  case (Suc fuel)
  show ?case
  proof (cases "S_GetAll (stxos_of E) ds")
    case (Inl e)
    then show ?thesis using Suc.prems by simp
  next
    case (Inr ss)
    let ?D = "dom (aStxos (A ds))"
    have lm: "lists_map (\<lambda>s. Op (SUtxo s)) ss (aStxos (A ds))"
      by (rule S_GetAll [OF Suc.prems(1) Inr])
    have "shrinker (markAsDead fuel E now) (card ?D)"
      unfolding shrinker_def using Suc.IH Suc.prems(2) by (metis less_Suc_eq_le order_less_le_trans)
    moreover have "finite ?D"
      by (rule lists_map_finite [OF lm])
    moreover have "\<forall>s \<in> set ss. wf_stxo s \<and> Op (SUtxo s) \<in> ?D"
      using S_GetAll_wf [OF Suc.prems(1) Inr] lists_map_mem [OF lm] by blast
    ultimately obtain d1 r1 where 1: "dead_loop (markAsDead fuel E now) E now txid ss ds = Some (d1, r1)"
        "inv d1" "aStxos (A d1) \<subseteq>\<^sub>m aStxos (A ds)" "\<not> isl r1 \<longrightarrow> (\<forall>s \<in> set ss. gone txid s d1)"
      using dead_loop_step [of "markAsDead fuel E now" ?D ds ss now txid] Suc.prems(1) by blast
    show ?thesis
    proof (cases r1)
      case Inl1: (Inl e)
      then show ?thesis using Inr 1 by simp
    next
      case Inr1: (Inr x)
      have clear: "SpendTxid s \<noteq> txid \<and> OpHash op \<noteq> txid" if "aStxos (A d1) op = Some s" for op s
      proof -
        have "aStxos (A ds) op = Some s"
          using that 1(3) by (auto simp: map_le_def dom_def)
        then have "s \<in> set ss" "Op (SUtxo s) = op"
          using lm by (auto simp: lists_map_def)
        then show ?thesis
          using that 1(4) Inr1 by (auto simp: gone_def)
      qed
      obtain d r where 2: "markAsDead (Suc fuel) E now txid ds = Some (d, r)" "inv d" "aStxos (A d) = aStxos (A d1)"
          "\<not> isl r \<longrightarrow> (\<forall>op u. aUtxos (A d) op = Some u \<longrightarrow> OpHash op \<noteq> txid)"
        using dead_outputs_step [OF 1(2), of txid now] Inr Inr1 1(1) by auto
      then show ?thesis
        using 1(3) clear by (simp del: markAsDead.simps)
    qed
  qed
qed simp

text \<open>A transaction whose outputs nobody spent: the coins it spent come back.\<close>

definition unspent_by :: "hash \<Rightarrow> Stxo list \<Rightarrow> (OutPoint \<rightharpoonup> Utxo)" where
  "unspent_by txid ss op =
     map_option SUtxo (List.find (\<lambda>s. Op (SUtxo s) = op \<and> SpendTxid s = txid) ss)"

lemma leaf_loop:
  assumes "inv ds" and "\<forall>s \<in> set ss. wf_stxo s \<and> txid \<noteq> OpHash (Op (SUtxo s))"
    and "distinct (map (\<lambda>s. Op (SUtxo s)) ss)"
    and "dead_loop rec E now txid ss ds = Some (ds', Inr ())"
  shows "inv ds' \<and> aUtxos (A ds') = aUtxos (A ds) ++ unspent_by txid ss \<and>
    aStxos (A ds') = (\<lambda>op. if unspent_by txid ss op = None then aStxos (A ds) op else None)"
  using assms
proof (induction ss arbitrary: ds)
  case Nil
  then show ?case by (simp add: unspent_by_def map_add_def)
next
  case (Cons s ss)
  obtain d1 r1 where 1: "unspend E now txid s ds = (d1, r1)"
    by (cases "unspend E now txid s ds")
  have s: "wf_stxo s" "txid \<noteq> OpHash (Op (SUtxo s))"
    using Cons.prems(2) by auto
  note step = unspend_step [OF Cons.prems(1) s(1) 1]
  have r1: "r1 = Inr ()" and rest: "dead_loop rec E now txid ss d1 = Some (ds', Inr ())"
    using Cons.prems(4) 1 s(2) by (auto simp: thenO_eq_Inr)
  have IH: "inv ds' \<and> aUtxos (A ds') = aUtxos (A d1) ++ unspent_by txid ss \<and>
      aStxos (A ds') = (\<lambda>op. if unspent_by txid ss op = None then aStxos (A d1) op else None)"
    using Cons.IH [OF conjunct1 [OF step]] Cons.prems(2,3) rest by simp
  have other: "unspent_by txid ss (Op (SUtxo s)) = None"
    using Cons.prems(3) by (auto simp: unspent_by_def find_None_all image_iff)
  show ?case
  proof (cases "txid = SpendTxid s")
    case True
    have "unspent_by txid (s # ss) = (unspent_by txid ss)(Op (SUtxo s) \<mapsto> SUtxo s)"
      using True by (auto simp: unspent_by_def fun_eq_iff)
    then show ?thesis
      using IH step r1 True other by (auto simp: fun_eq_iff map_add_def split: option.splits)
  next
    case False
    have "unspent_by txid (s # ss) = unspent_by txid ss"
      using False by (auto simp: unspent_by_def fun_eq_iff)
    then show ?thesis
      using IH step False by auto
  qed
qed

lemma unspent_by_all:
  assumes "lists_map (\<lambda>s. Op (SUtxo s)) ss m"
  shows "unspent_by txid ss op = (case m op of None \<Rightarrow> None
    | Some s \<Rightarrow> if SpendTxid s = txid then Some (SUtxo s) else None)"
proof (cases "List.find (\<lambda>s. Op (SUtxo s) = op \<and> SpendTxid s = txid) ss")
  case None
  then have "\<forall>s \<in> set ss. \<not> (Op (SUtxo s) = op \<and> SpendTxid s = txid)"
    by (simp add: find_None_all)
  then show ?thesis
    using None assms by (auto simp: unspent_by_def lists_map_def split: option.splits)
next
  case (Some s)
  then have "s \<in> set ss" "Op (SUtxo s) = op" "SpendTxid s = txid"
    using find_Some_mem [OF Some] by auto
  then show ?thesis
    using Some lists_map_mem [OF assms, of s] by (simp add: unspent_by_def)
qed

lemma markAsDead_leaf:
  assumes "inv ds" and "\<forall>op \<in> dom (aStxos (A ds)). OpHash op \<noteq> txid"
    and "markAsDead (Suc fuel) E now txid ds = Some (ds', Inr ())"
  shows "aUtxos (A ds') = (\<lambda>op. if OpHash op = txid then None
        else (case aStxos (A ds) op of None \<Rightarrow> aUtxos (A ds) op
              | Some s \<Rightarrow> if SpendTxid s = txid then Some (SUtxo s) else aUtxos (A ds) op)) \<and>
    aStxos (A ds') = (\<lambda>op. case aStxos (A ds) op of None \<Rightarrow> None
              | Some s \<Rightarrow> if SpendTxid s = txid then None else Some s)"
proof -
  obtain ss d1 us d2 where run: "S_GetAll (stxos_of E) ds = Inr ss"
      "dead_loop (markAsDead fuel E now) E now txid ss ds = Some (d1, Inr ())"
      "U_GetAll (utxos_of E) d1 = Inr us" "delete_dead E txid us d1 = (d2, Inr ())"
      "ds' = fst (T_UpdateHeight (txns_of E) (txid_string E txid) (- 1) now d2)"
    using assms(3) by (auto simp: thenO_eq_Inr read_eq_Inr)
  have lm: "lists_map (\<lambda>s. Op (SUtxo s)) ss (aStxos (A ds))"
    by (rule S_GetAll [OF assms(1) run(1)])
  have "\<forall>s \<in> set ss. wf_stxo s \<and> txid \<noteq> OpHash (Op (SUtxo s))"
    using S_GetAll_wf [OF assms(1) run(1)] lists_map_mem [OF lm] assms(2) by (metis domI)
  from leaf_loop [OF assms(1) this _ run(2)] lm
  have 1: "inv d1" "aUtxos (A d1) = aUtxos (A ds) ++ unspent_by txid ss"
      "aStxos (A d1) = (\<lambda>op. if unspent_by txid ss op = None then aStxos (A ds) op else None)"
    by (auto simp: lists_map_def)
  have 2: "inv d2 \<and> aStxos (A d2) = aStxos (A d1) \<and> aUtxos (A d2) =
      (\<lambda>op. if OpHash op = txid \<and> op \<in> Op ` set us then None else aUtxos (A d1) op)"
    using delete_dead_step [OF 1(1) _ run(4)] U_GetAll_wf [OF 1(1) run(3)] by simp
  have lu: "lists_map Op us (aUtxos (A d1))"
    by (rule U_GetAll [OF 1(1) run(3)])
  have "aUtxos (A d1) op = None" if "op \<notin> Op ` set us" for op
    using that lists_map_dom [OF lu] by auto
  then have u2: "aUtxos (A d2) = (\<lambda>op. if OpHash op = txid then None else aUtxos (A d1) op)"
    using 2 by auto
  obtain d3 r3 where 3: "T_UpdateHeight (txns_of E) (txid_string E txid) (- 1) now d2 = (d3, r3)"
    by (cases "T_UpdateHeight (txns_of E) (txid_string E txid) (- 1) now d2")
  have d3: "aStxos (A ds') = aStxos (A d1)" "aUtxos (A ds') = aUtxos (A d2)"
    using T_UpdateHeight [OF _ 3] 2 run(5) 3 by auto
  have ub: "unspent_by txid ss op = (case aStxos (A ds) op of None \<Rightarrow> None
      | Some s \<Rightarrow> if SpendTxid s = txid then Some (SUtxo s) else None)" for op
    by (rule unspent_by_all [OF lm])
  show ?thesis
    unfolding d3 u2 1(2,3) map_add_def ub by (auto simp: fun_eq_iff split: option.splits)
qed

end

section \<open>Without failures\<close>

text \<open>A datastore that does not fail: deletes and puts succeed, and a transaction that is there gets its new
  height.  Then an error of \<open>markAsDead\<close> can only come from a spend whose transaction is not recorded.\<close>

locale reliable_store = tx_store E A inv norm trunc
  for E :: "('ds, 'k, 'a) tx_env" and A inv norm trunc +
  assumes U_Put_ok: "inv d \<Longrightarrow> wf_utxo u \<Longrightarrow> \<not> isl (snd (U_Put (utxos_of E) u d))"
    and U_Delete_ok: "inv d \<Longrightarrow> wf_utxo u \<Longrightarrow> \<not> isl (snd (U_Delete (utxos_of E) u d))"
    and S_Put_ok: "inv d \<Longrightarrow> wf_stxo s \<Longrightarrow> \<not> isl (snd (S_Put (stxos_of E) s d))"
    and S_Delete_ok: "inv d \<Longrightarrow> wf_stxo s \<Longrightarrow> \<not> isl (snd (S_Delete (stxos_of E) s d))"
    and U_GetAll_ok: "inv d \<Longrightarrow> \<not> isl (U_GetAll (utxos_of E) d)"
    and S_GetAll_ok: "inv d \<Longrightarrow> \<not> isl (S_GetAll (stxos_of E) d)"
    and T_Put_ok: "inv d \<Longrightarrow> txid \<noteq> [] \<Longrightarrow> \<not> isl (snd (T_Put (txns_of E) raw txid val h t wo d))"
    and T_UpdateHeight_ok: "inv d \<Longrightarrow> txid \<in> dom (aTxns (A d)) \<Longrightarrow> txid \<noteq> [] \<Longrightarrow>
      \<not> isl (snd (T_UpdateHeight (txns_of E) txid h t d))"
    and txid_not_Nil: "length hash = 32 \<Longrightarrow> txid_string E hash \<noteq> []"
begin

text \<open>\<open>calm D ds r\<close>: no error, and the recorded transactions are still \<open>D\<close>.\<close>

definition calm :: "string set \<Rightarrow> 'ds \<Rightarrow> unit result \<Rightarrow> bool" where
  "calm D ds r \<longleftrightarrow> inv ds \<and> dom (aTxns (A ds)) = D \<and> r = Inr ()"

lemma calm_result [simp]: "calm D ds (Inl e) \<longleftrightarrow> False"
  by (simp add: calm_def)

lemma markStxo_calm:
  assumes "inv ds" and "dom (aTxns (A ds)) = D" and "wf_stxo s" and "txid_string E (SpendTxid s) \<in> D"
  shows "case markStxoAsDead E now s ds of (ds', r) \<Rightarrow> calm D ds' r"
proof -
  obtain d1 r1 where 1: "S_Delete (stxos_of E) s ds = (d1, r1)"
    by (cases "S_Delete (stxos_of E) s ds")
  have r1: "r1 = Inr ()"
    using S_Delete_ok [OF assms(1,3)] 1 by (cases r1) auto
  have d1: "inv d1" "dom (aTxns (A d1)) = D"
    using S_Delete [OF assms(1,3) 1] assms(2) r1 by auto
  obtain d2 r2 where 2: "T_UpdateHeight (txns_of E) (txid_string E (SpendTxid s)) (- 1) now d1 = (d2, r2)"
    by (cases "T_UpdateHeight (txns_of E) (txid_string E (SpendTxid s)) (- 1) now d1")
  have "\<not> isl r2"
    using T_UpdateHeight_ok [OF d1(1), of "txid_string E (SpendTxid s)" "- 1" now] 2 d1(2) assms(3,4) txid_not_Nil
    by (simp add: wf_stxo_def)
  then show ?thesis
    using 1 2 r1 T_UpdateHeight [OF d1(1) 2] d1(2) by (cases r2) (auto simp: markStxoAsDead_def calm_def)
qed

lemma unspend_calm:
  assumes "inv ds" and "dom (aTxns (A ds)) = D" and "wf_stxo s" and "txid_string E (SpendTxid s) \<in> D"
  shows "case unspend E now txid s ds of (ds', r) \<Rightarrow> calm D ds' r"
proof (cases "txid = SpendTxid s")
  case True
  obtain d1 r1 where 1: "markStxoAsDead E now s ds = (d1, r1)"
    by (cases "markStxoAsDead E now s ds")
  have c: "calm D d1 r1"
    using markStxo_calm [OF assms, of now] 1 by simp
  have wf: "wf_utxo (SUtxo s)"
    using assms(3) by (simp add: wf_stxo_def)
  obtain d2 r2 where 2: "U_Put (utxos_of E) (SUtxo s) d1 = (d2, r2)"
    by (cases "U_Put (utxos_of E) (SUtxo s) d1")
  have "\<not> isl r2"
    using U_Put_ok [OF _ wf, of d1] c 2 by (simp add: calm_def)
  then show ?thesis
    using U_Put [OF _ wf 2] c 1 2 True by (cases r2) (auto simp: unspend_def calm_def)
qed (use assms in \<open>simp add: unspend_def calm_def\<close>)

lemma dead_loop_calm:
  assumes "\<And>h ds ds' r. inv ds \<Longrightarrow> dom (aTxns (A ds)) = D \<Longrightarrow>
      \<forall>s \<in> ran (aStxos (A ds)). txid_string E (SpendTxid s) \<in> D \<Longrightarrow> rec h ds = Some (ds', r) \<Longrightarrow>
      calm D ds' r \<and> aStxos (A ds') \<subseteq>\<^sub>m aStxos (A ds)"
    and "dead_loop rec E now txid ss ds = Some (ds', r)" and "inv ds" and "dom (aTxns (A ds)) = D"
    and "\<forall>s \<in> set ss. wf_stxo s \<and> txid_string E (SpendTxid s) \<in> D"
    and "\<forall>s \<in> ran (aStxos (A ds)). txid_string E (SpendTxid s) \<in> D"
  shows "calm D ds' r \<and> aStxos (A ds') \<subseteq>\<^sub>m aStxos (A ds)"
  using assms(2-6)
proof (induction ss arbitrary: ds)
  case Nil
  then show ?case by (auto simp: calm_def)
next
  case (Cons s ss)
  obtain d1 r1 where 1: "unspend E now txid s ds = (d1, r1)"
    by (cases "unspend E now txid s ds")
  have wf: "wf_stxo s"
    using Cons.prems(4) by simp
  have c1: "inv d1" "dom (aTxns (A d1)) = D" "r1 = Inr ()" "aStxos (A d1) \<subseteq>\<^sub>m aStxos (A ds)"
    using unspend_calm [OF Cons.prems(2,3) wf, of now txid] Cons.prems(4) 1 unspend_step [OF Cons.prems(2) wf 1]
    by (auto simp: calm_def)
  have ran: "\<forall>s \<in> ran m. txid_string E (SpendTxid s) \<in> D" if "m \<subseteq>\<^sub>m aStxos (A ds)" for m
    using that Cons.prems(5) by (force simp: map_le_def ran_def dom_def)
  obtain d2 r2 where 2: "(if txid = OpHash (Op (SUtxo s))
      then thenO (Some (markStxoAsDead E now s d1)) (\<lambda>ds _. rec (SpendTxid s) ds) else Some (d1, Inr ())) = Some (d2, r2)"
      "thenO (Some (d2, r2)) (\<lambda>ds _. dead_loop rec E now txid ss ds) = Some (ds', r)"
    using Cons.prems(1) 1 c1(3) by (auto simp: thenO_def split: option.splits if_splits)
  have c2: "calm D d2 r2 \<and> aStxos (A d2) \<subseteq>\<^sub>m aStxos (A d1)"
  proof (cases "txid = OpHash (Op (SUtxo s))")
    case True
    obtain d3 r3 where 3: "markStxoAsDead E now s d1 = (d3, r3)"
      by (cases "markStxoAsDead E now s d1")
    have c3: "inv d3" "dom (aTxns (A d3)) = D" "r3 = Inr ()" "aStxos (A d3) \<subseteq>\<^sub>m aStxos (A d1)"
      using markStxo_calm [OF c1(1,2) wf, of now] Cons.prems(4) 3 markStxo_step [OF c1(1) wf 3]
      by (auto simp: calm_def)
    have "rec (SpendTxid s) d3 = Some (d2, r2)"
      using 2(1) True 3 c3(3) by simp
    from assms(1) [OF c3(1,2) _ this] ran [OF map_le_trans [OF c3(4) c1(4)]] show ?thesis
      using c3(4) map_le_trans by blast
  next
    case False
    then show ?thesis using 2(1) c1 by (auto simp: calm_def)
  qed
  then have le: "aStxos (A d2) \<subseteq>\<^sub>m aStxos (A ds)" and d2: "inv d2" "dom (aTxns (A d2)) = D" "r2 = Inr ()"
    using c1(4) map_le_trans by (auto simp: calm_def)
  have "calm D ds' r \<and> aStxos (A ds') \<subseteq>\<^sub>m aStxos (A d2)"
    using Cons.IH [OF _ d2(1,2) _ ran [OF le]] 2(2) d2(3) Cons.prems(4) by simp
  then show ?case
    using le map_le_trans by blast
qed

lemma delete_dead_calm:
  assumes "inv ds" and "dom (aTxns (A ds)) = D" and "\<forall>u \<in> set us. wf_utxo u"
  shows "case delete_dead E txid us ds of (ds', r) \<Rightarrow> calm D ds' r"
  using assms(3)
proof (induction us rule: rev_induct)
  case Nil
  then show ?case using assms by (simp add: delete_dead_def calm_def)
next
  case (snoc u us)
  obtain d1 r1 where 1: "delete_dead E txid us ds = (d1, r1)"
    by (cases "delete_dead E txid us ds")
  have c: "inv d1" "dom (aTxns (A d1)) = D" "r1 = Inr ()" "wf_utxo u"
    using snoc 1 by (auto simp: calm_def)
  obtain d2 r2 where 2: "U_Delete (utxos_of E) u d1 = (d2, r2)"
    by (cases "U_Delete (utxos_of E) u d1")
  have "\<not> isl r2"
    using U_Delete_ok [OF c(1,4)] 2 by simp
  then show ?case
    using 1 2 c U_Delete [OF c(1,4) 2] by (cases r2) (auto simp: delete_dead_def calm_def)
qed

lemma markAsDead_calm:
  "markAsDead fuel E now txid ds = Some (ds', r) \<Longrightarrow> inv ds \<Longrightarrow> dom (aTxns (A ds)) = D \<Longrightarrow>
   \<forall>s \<in> ran (aStxos (A ds)). txid_string E (SpendTxid s) \<in> D \<Longrightarrow>
   calm D ds' r \<and> aStxos (A ds') \<subseteq>\<^sub>m aStxos (A ds)"
proof (induction fuel arbitrary: txid ds ds' r)
  case (Suc fuel)
  obtain ss where ss: "S_GetAll (stxos_of E) ds = Inr ss"
    using S_GetAll_ok [OF Suc.prems(2)] by (cases "S_GetAll (stxos_of E) ds") auto
  have lm: "lists_map (\<lambda>s. Op (SUtxo s)) ss (aStxos (A ds))"
    by (rule S_GetAll [OF Suc.prems(2) ss])
  obtain d1 r1 where 1: "dead_loop (markAsDead fuel E now) E now txid ss ds = Some (d1, r1)"
    using Suc.prems(1) ss by (auto simp: thenO_def split: option.splits)
  have wf: "\<forall>s \<in> set ss. wf_stxo s \<and> txid_string E (SpendTxid s) \<in> D"
    using S_GetAll_wf [OF Suc.prems(2) ss] lists_map_mem [OF lm] Suc.prems(4) by (auto simp: ran_def)
  have "calm D d1 r1 \<and> aStxos (A d1) \<subseteq>\<^sub>m aStxos (A ds)"
    by (rule dead_loop_calm [OF _ 1 Suc.prems(2,3) wf Suc.prems(4)]) (rule Suc.IH)
  then have c1: "inv d1" "dom (aTxns (A d1)) = D" "r1 = Inr ()" "aStxos (A d1) \<subseteq>\<^sub>m aStxos (A ds)"
    by (simp_all add: calm_def)
  obtain us where us: "U_GetAll (utxos_of E) d1 = Inr us"
    using U_GetAll_ok [OF c1(1)] by (cases "U_GetAll (utxos_of E) d1") auto
  obtain d2 r2 where 2: "delete_dead E txid us d1 = (d2, r2)"
    by (cases "delete_dead E txid us d1")
  have wfs: "\<forall>u \<in> set us. wf_utxo u"
    using U_GetAll_wf [OF c1(1) us] by blast
  have c2: "inv d2" "dom (aTxns (A d2)) = D" "r2 = Inr ()"
    using delete_dead_calm [OF c1(1,2) wfs, of txid] 2 by (auto simp: calm_def)
  have le: "aStxos (A d2) = aStxos (A d1)"
    using delete_dead_step [OF c1(1) wfs 2] by simp
  obtain d3 r3 where 3: "T_UpdateHeight (txns_of E) (txid_string E txid) (- 1) now d2 = (d3, r3)"
    by (cases "T_UpdateHeight (txns_of E) (txid_string E txid) (- 1) now d2")
  have "ds' = d3 \<and> r = Inr ()"
    using Suc.prems(1) ss 1 c1(3) us 2 c2(3) 3 by simp
  then show ?case
    using T_UpdateHeight [OF c2(1) 3] c2(2) le c1(4) by (auto simp: calm_def split: if_splits)
qed simp

end

end
