(* ===== verification/Wallet_Laws.thy ===== *)
theory Wallet_Laws
  imports Spend Tx_Laws
begin

text \<open>
  The wallet over any datastore that keeps the contracts: the keys of a wallet whose table takes every put,
  the coins offered for spending, and the balance.
\<close>

section \<open>Keys when puts succeed\<close>

context wallet_keys
begin

definition puts_ok :: bool where
  "puts_ok \<longleftrightarrow> (\<forall>d sa kp. inv d \<longrightarrow> length sa = 20 \<longrightarrow> \<not> isl (snd (K_Put K sa kp d)))"

lemma GetFreshKey_ok:
  assumes "puts_ok" and "inv ds" and "GetFreshKey hdk K km p ds = Some (ds', r)"
  shows "\<not> isl r"
proof -
  obtain k j where loop: "fresh_loop hdk km p (start_index K p ds) = Some (k, j)"
    using assms(3) by (auto simp: GetFreshKey_def split: option.splits)
  have "generateChildKey hdk km p (u32 j) = Inr k"
    using fresh_loop_first [OF loop] by (simp add: first_key_def)
  then obtain sa where sa: "ScriptAddress hdk k = Inr sa" "length sa = 20"
    using address by blast
  have "\<not> isl (snd (K_Put K sa \<lparr>Change = p, Index = j\<rparr> ds))"
    using assms(1,2) sa(2) by (simp add: puts_ok_def)
  then show ?thesis
    using assms(3) loop sa(1) by (auto simp: GetFreshKey_def split: prod.splits sum.splits)
qed

lemma fresh_times_ok:
  assumes "puts_ok" and "ok_keys (m + n) ds" and "p \<in> {EXTERNAL, INTERNAL}"
    and "fresh_times m hdk K km p ds = Some (ds', r)"
  shows "\<not> isl r"
  using assms(2,4)
proof (induction m arbitrary: ds)
  case (Suc m)
  obtain ds1 r1 where 1: "GetFreshKey hdk K km p ds = Some (ds1, r1)" "ok_keys (m + n) ds1"
    by (rule GetFreshKey_step [OF _ assms(3), of "m + n" ds]) (use Suc.prems(1) in simp_all)
  have "\<not> isl r1"
    using GetFreshKey_ok [OF assms(1) _ 1(1)] Suc.prems(1) by (simp add: ok_keys_def)
  then obtain k where "r1 = Inr k"
    by (cases r1) auto
  then show ?case
    using Suc.IH [OF 1(2)] Suc.prems(2) 1(1) by simp
qed auto

lemma lookahead_loop_ok:
  assumes "puts_ok" and "ok_keys (10 * length order + n) ds" and "set order \<subseteq> {EXTERNAL, INTERNAL}"
    and "\<forall>p \<in> set order. \<exists>w. windows p = Some w \<and> 0 \<le> w"
    and "lookahead_loop order windows hdk K km ds = Some (ds', r)"
  shows "\<not> isl r"
  using assms(2-5)
proof (induction order arbitrary: ds)
  case (Cons p order)
  obtain w where w: "windows p = Some w" "0 \<le> w"
    using Cons.prems(3) by auto
  define m where "m = (if w < GAP_LIMIT then nat (GAP_LIMIT - w) else 0)"
  have "m \<le> 10"
    using w(2) by (auto simp: m_def GAP_LIMIT_def)
  then have ok: "ok_keys (m + (10 * length order + n)) ds"
    using Cons.prems(1) room_mono [of "10 * length (p # order) + n" "A ds" "m + (10 * length order + n)"]
    by (simp add: ok_keys_def)
  have p: "p \<in> {EXTERNAL, INTERNAL}"
    using Cons.prems(2) by simp
  obtain ds1 r1 where 1: "fresh_times m hdk K km p ds = Some (ds1, r1)" "ok_keys (10 * length order + n) ds1"
    using fresh_times_step [OF ok p] by blast
  have "r1 = Inr ()"
    using fresh_times_ok [OF assms(1) ok p 1(1)] by (cases r1) auto
  moreover have "lookahead_loop (p # order) windows hdk K km ds =
      thenO (fresh_times m hdk K km p ds) (\<lambda>ds _. lookahead_loop order windows hdk K km ds)"
    using w(1) by (simp add: m_def)
  ultimately show ?case
    using Cons.IH [OF 1(2)] Cons.prems(2-4) 1(1) by simp
qed auto

lemma lookahead_ok:
  assumes "puts_ok" and "ok_keys (20 + n) ds" and "set order = {EXTERNAL, INTERNAL}" and "length order = 2"
    and "lookahead order hdk K km ds = Some (ds', r)"
  shows "\<not> isl r"
proof (rule lookahead_loop_ok [OF assms(1)])
  show "ok_keys (10 * length order + n) ds" "set order \<subseteq> {EXTERNAL, INTERNAL}"
    using assms(2-4) by simp_all
  have inv: "inv ds"
    using assms(2) by (simp add: ok_keys_def)
  show "\<forall>p \<in> set order. \<exists>w. K_GetLookaheadWindows K ds p = Some w \<and> 0 \<le> w"
    using K_windows_dom [OF inv] K_windows [OF inv] assms(3) by (metis domD)
qed (use assms(5) in \<open>simp add: lookahead_def\<close>)

end

section \<open>The balance\<close>

definition coin_value :: "Utxo \<Rightarrow> int" where
  "coin_value u = (if WatchOnly u then 0 else UValue u)"

definition total :: "(OutPoint \<rightharpoonup> Utxo) \<Rightarrow> int" where
  "total m = (\<Sum>op \<in> dom m. coin_value (the (m op)))"

lemma total_list:
  assumes "lists_map Op us m"
  shows "total m = (\<Sum>u \<leftarrow> us. coin_value u)"
proof -
  have d: "distinct us" "inj_on Op (set us)"
    using assms by (auto simp: lists_map_def distinct_map)
  have "total m = (\<Sum>op \<in> Op ` set us. coin_value (the (m op)))"
    by (simp add: total_def lists_map_dom [OF assms])
  also have "\<dots> = (\<Sum>u \<in> set us. coin_value (the (m (Op u))))"
    by (rule sum.reindex_cong [OF d(2)]) auto
  also have "\<dots> = (\<Sum>u \<in> set us. coin_value u)"
    using lists_map_mem [OF assms] by (intro sum.cong) auto
  also have "\<dots> = (\<Sum>u \<leftarrow> us. coin_value u)"
    by (simp add: sum_list_distinct_conv_sum_set d(1))
  finally show ?thesis .
qed

text \<open>What the three figures sum up.\<close>

definition mined :: "Stxo list \<Rightarrow> Utxo \<Rightarrow> bool" where
  "mined stxos u \<longleftrightarrow> AtHeight u > 0 \<or> isStxoConfirmed u stxos"

lemma balance_loop_sums:
  "balance_loop stxos us (c, n, l) =
     (c + (\<Sum>u \<leftarrow> filter (mined stxos) us. coin_value u),
      n + (\<Sum>u \<leftarrow> filter (\<lambda>u. \<not> mined stxos u) us. coin_value u),
      l + (\<Sum>u \<leftarrow> filter Frozen us. coin_value u))"
  by (induction us arbitrary: c n l) (auto simp: mined_def coin_value_def Let_def)

lemma sum_list_split: "(\<Sum>u \<leftarrow> filter P us. f u) + (\<Sum>u \<leftarrow> filter (\<lambda>u. \<not> P u) us. f u) = (\<Sum>u \<leftarrow> us. f u :: int)"
  by (induction us) auto

section \<open>Gathered coins\<close>

definition spendable :: "Utxo \<Rightarrow> bool" where
  "spendable u \<longleftrightarrow> \<not> WatchOnly u \<and> \<not> Frozen u \<and> AtHeight u > 0"

lemma gather_loop_set:
  "set (gather_loop tip True us) =
     (\<lambda>u. newUnspentCoin (OpHash (Op u)) (OpIndex (Op u)) (UValue u) (tip - AtHeight u) (ScriptPubkey u)) `
       {u \<in> set us. spendable u}"
  by (induction us) (auto simp: spendable_def Let_def)

lemma coin_op_new [simp]: "coin_op (newUnspentCoin h i v n s) = \<lparr>OpHash = h, OpIndex = i\<rparr>"
  by (simp add: coin_op_def newUnspentCoin_def)

lemma OutPoint_eta [simp]: "\<lparr>OpHash = OpHash op, OpIndex = OpIndex op\<rparr> = op"
  by simp

end
