(* ===== verification/Add_Laws.thy ===== *)
theory Add_Laws
  imports Wallet_Laws
begin

text \<open>
  The loops of \<open>AddTransaction\<close> over a datastore that does not fail: what they do to the coins, and that
  the value they tally is the change of the wallet's total.
\<close>

section \<open>The total\<close>

lemma total_put: "finite (dom m) \<Longrightarrow> m op = None \<Longrightarrow> total (m(op \<mapsto> u)) = total m + coin_value u"
proof -
  assume m: "finite (dom m)" "m op = None"
  have "(\<Sum>x \<in> dom m. coin_value (the ((m(op \<mapsto> u)) x))) = total m"
    unfolding total_def using m(2) by (intro sum.cong) auto
  then show ?thesis
    using m by (simp add: total_def dom_def [of m] domIff)
qed

lemma total_remove: "finite (dom m) \<Longrightarrow> m op = Some u \<Longrightarrow> total (m(op := None)) = total m - coin_value u"
proof -
  assume m: "finite (dom m)" "m op = Some u"
  have "total m = total ((m(op := None))(op \<mapsto> u))"
    using m(2) by (simp add: map_upd_triv)
  also have "\<dots> = total (m(op := None)) + coin_value u"
    by (rule total_put) (use m in auto)
  finally show ?thesis by simp
qed

text \<open>The coins a transaction pays to a list of scripts, from its output \<open>i\<close> on.\<close>

fun paid_coins :: "('ds, 'k, 'a) tx_env \<Rightarrow> MsgTx \<Rightarrow> int \<Rightarrow> bytes list \<Rightarrow> nat \<Rightarrow> TxOut list \<Rightarrow> (OutPoint \<rightharpoonup> Utxo)" where
  "paid_coins E tx height scripts i [] = Map.empty"
| "paid_coins E tx height scripts i (out # outs) =
     (if OPkScript out \<in> set scripts
      then [Op (new_utxo E tx height i out) \<mapsto> new_utxo E tx height i out] ++
        paid_coins E tx height scripts (Suc i) outs
      else paid_coins E tx height scripts (Suc i) outs)"

lemma new_utxo_simps [simp]:
  "Op (new_utxo E tx height i out) = \<lparr>OpHash = tx_hash E tx, OpIndex = of_nat i\<rparr>"
  "UValue (new_utxo E tx height i out) = OValue out" "WatchOnly (new_utxo E tx height i out) = False"
  by (simp_all add: new_utxo_def)

lemma paid_coins_dom:
  "op \<in> dom (paid_coins E tx height scripts i outs) \<Longrightarrow>
   \<exists>j. i \<le> j \<and> j < i + length outs \<and> op = \<lparr>OpHash = tx_hash E tx, OpIndex = of_nat j\<rparr>"
proof (induction outs arbitrary: i)
  case (Cons out outs)
  then show ?case
  proof (cases "op \<in> dom (paid_coins E tx height scripts (Suc i) outs)")
    case True
    then obtain j where "Suc i \<le> j" "j < Suc i + length outs" "op = \<lparr>OpHash = tx_hash E tx, OpIndex = of_nat j\<rparr>"
      using Cons.IH by blast
    then show ?thesis by (intro exI [of _ j]) simp
  next
    case False
    then have "op = \<lparr>OpHash = tx_hash E tx, OpIndex = of_nat i\<rparr>"
      using Cons.prems by (auto split: if_splits)
    then show ?thesis by (intro exI [of _ i]) simp
  qed
qed simp

text \<open>The specification: the coins paid to us come in, those the inputs name go to the spent ones.\<close>

definition spent_by :: "TxIn list \<Rightarrow> (OutPoint \<rightharpoonup> Utxo) \<Rightarrow> (OutPoint \<rightharpoonup> Utxo)" where
  "spent_by ins m = m |` (PreviousOutPoint ` set ins)"

definition coins_with :: "('ds, 'k, 'a) tx_env \<Rightarrow> MsgTx \<Rightarrow> int \<Rightarrow> bytes list \<Rightarrow> abs_store \<Rightarrow> (OutPoint \<rightharpoonup> Utxo)" where
  "coins_with E tx height scripts a = aUtxos a ++ paid_coins E tx height scripts 0 (TxOuts tx)"

definition after_tx ::
  "('ds, 'k, 'a) tx_env \<Rightarrow> (Stxo \<Rightarrow> Stxo) \<Rightarrow> MsgTx \<Rightarrow> int \<Rightarrow> bytes list \<Rightarrow> abs_store \<Rightarrow> abs_store" where
  "after_tx E norm tx height scripts a =
     a\<lparr>aUtxos := coins_with E tx height scripts a |` (- PreviousOutPoint ` set (TxIns tx)),
       aStxos := aStxos a ++ (\<lambda>op. map_option
         (\<lambda>u. norm \<lparr>SUtxo = u, SpendHeight = height, SpendTxid = tx_hash E tx\<rparr>)
         (spent_by (TxIns tx) (coins_with E tx height scripts a) op))\<rparr>"

definition touches :: "('ds, 'k, 'a) tx_env \<Rightarrow> MsgTx \<Rightarrow> int \<Rightarrow> bytes list \<Rightarrow> abs_store \<Rightarrow> bool" where
  "touches E tx height scripts a \<longleftrightarrow> paid_coins E tx height scripts 0 (TxOuts tx) \<noteq> Map.empty \<or>
     spent_by (TxIns tx) (coins_with E tx height scripts a) \<noteq> Map.empty"

text \<open>A transaction the wallet has not met: nothing stored carries its hash.\<close>

definition unknown :: "('ds, 'k, 'a) tx_env \<Rightarrow> MsgTx \<Rightarrow> abs_store \<Rightarrow> bool" where
  "unknown E tx a \<longleftrightarrow> aTxns a (txid_string E (tx_hash E tx)) = None \<and>
     (\<forall>op. OpHash op = tx_hash E tx \<longrightarrow> aUtxos a op = None) \<and>
     (\<forall>op s. aStxos a op = Some s \<longrightarrow> SpendTxid s \<noteq> tx_hash E tx)"

section \<open>A datastore that does not fail\<close>

locale reliable_wallet =
  reliable_store E A inv norm trunc + wallet_keys "DS_Keys (te_ds E)" A inv "te_hdk E" "te_km E"
  for E :: "('ds, 'k, 'a) tx_env" and A inv norm trunc +
  assumes order: "set (te_order E) = {EXTERNAL, INTERNAL}" "length (te_order E) = 2"
    and hash_length: "length (tx_hash E tx) = 32"
begin

lemma ok_keys_inv [simp]: "ok_keys n ds \<Longrightarrow> inv ds"
  by (simp add: ok_keys_def)

lemma ok_keys_cong:
  "ok_keys n ds \<Longrightarrow> inv ds' \<Longrightarrow> aKeys (A ds') = aKeys (A ds) \<Longrightarrow> ok_keys n ds'"
  by (simp add: ok_keys_def derived_def room_def)

lemma ok_keys_mono: "ok_keys n ds \<Longrightarrow> m \<le> n \<Longrightarrow> ok_keys m ds"
  using room_mono by (auto simp: ok_keys_def)

lemma utxos_finite: "inv ds \<Longrightarrow> finite (dom (aUtxos (A ds)))"
  using U_GetAll_ok [of ds] by (cases "U_GetAll (utxos_of E) ds") (auto dest: U_GetAll intro: lists_map_finite)

lemma Put_utxo:
  assumes "ok_keys n ds" and "wf_utxo u"
  shows "ok_keys n (fst (U_Put (utxos_of E) u ds)) \<and>
    A (fst (U_Put (utxos_of E) u ds)) = (A ds)\<lparr>aUtxos := (aUtxos (A ds))(Op u \<mapsto> u)\<rparr>"
proof -
  obtain d r where p: "U_Put (utxos_of E) u ds = (d, r)"
    by (cases "U_Put (utxos_of E) u ds")
  moreover have "\<not> isl r"
    using U_Put_ok [of ds u] assms p by simp
  ultimately show ?thesis
    using U_Put [OF _ assms(2) p] assms(1) ok_keys_cong [OF assms(1), of d] by simp
qed

lemma Delete_utxo:
  assumes "ok_keys n ds" and "wf_utxo u"
  shows "ok_keys n (fst (U_Delete (utxos_of E) u ds)) \<and>
    A (fst (U_Delete (utxos_of E) u ds)) = (A ds)\<lparr>aUtxos := (aUtxos (A ds))(Op u := None)\<rparr>"
proof -
  obtain d r where p: "U_Delete (utxos_of E) u ds = (d, r)"
    by (cases "U_Delete (utxos_of E) u ds")
  moreover have "\<not> isl r"
    using U_Delete_ok [of ds u] assms p by simp
  ultimately show ?thesis
    using U_Delete [OF _ assms(2) p] assms(1) ok_keys_cong [OF assms(1), of d] by simp
qed

lemma Put_stxo:
  assumes "ok_keys n ds" and "wf_stxo s"
  shows "ok_keys n (fst (S_Put (stxos_of E) s ds)) \<and>
    A (fst (S_Put (stxos_of E) s ds)) = (A ds)\<lparr>aStxos := (aStxos (A ds))(Op (SUtxo s) \<mapsto> norm s)\<rparr>"
proof -
  obtain d r where p: "S_Put (stxos_of E) s ds = (d, r)"
    by (cases "S_Put (stxos_of E) s ds")
  moreover have "\<not> isl r"
    using S_Put_ok [of ds s] assms p by simp
  ultimately show ?thesis
    using S_Put [OF _ assms(2) p] assms(1) ok_keys_cong [OF assms(1), of d] by simp
qed

lemma mark_script_step:
  assumes "ok_keys (20 + n) ds"
  shows "\<exists>ds'. mark_script E script ds = Some ds' \<and> ok_keys n ds' \<and> A ds' = (A ds)\<lparr>aKeys := aKeys (A ds')\<rparr>"
proof -
  define sa where "sa = (case extractScriptAddress (te_wire E) script of Inl _ \<Rightarrow> [] | Inr sa \<Rightarrow> sa)"
  obtain ds' r where "MarkKeyAsUsed (te_order E) (te_hdk E) (DS_Keys (te_ds E)) (te_km E) sa ds = Some (ds', r)"
      "ok_keys n ds'" "A ds' = (A ds)\<lparr>aKeys := aKeys (A ds')\<rparr>"
    using Mark_step [OF assms order] by blast
  then show ?thesis
    by (simp add: mark_script_def sa_def Let_def)
qed

section \<open>The outputs\<close>

lemma output_paid:
  assumes "ok_keys (20 + n) ds" and "aUtxos (A ds) \<lparr>OpHash = tx_hash E tx, OpIndex = of_nat i\<rparr> = None"
    and "u = new_utxo E tx height i out"
  obtains ds1 ds2 where "mark_script E (OPkScript out) ds = Some ds1" "ds2 = fst (U_Put (utxos_of E) u ds1)" "ok_keys n ds2"
    "A ds2 = (A ds)\<lparr>aKeys := aKeys (A ds1), aUtxos := (aUtxos (A ds))(Op u \<mapsto> u)\<rparr>"
    "total (aUtxos (A ds2)) = total (aUtxos (A ds)) + OValue out"
proof -
  obtain ds1 where 1: "mark_script E (OPkScript out) ds = Some ds1" "ok_keys n ds1" "A ds1 = (A ds)\<lparr>aKeys := aKeys (A ds1)\<rparr>"
    using mark_script_step [OF assms(1)] by blast
  have same: "aUtxos (A ds1) = aUtxos (A ds)"
    by (subst 1(3)) simp
  have "wf_utxo u"
    by (simp add: assms(3) wf_utxo_def wf_op_def hash_length)
  note put = Put_utxo [OF 1(2) this]
  have eff: "A (fst (U_Put (utxos_of E) u ds1)) = (A ds)\<lparr>aKeys := aKeys (A ds1), aUtxos := (aUtxos (A ds))(Op u \<mapsto> u)\<rparr>"
    using put 1(3) same by (simp add: abs_store.defs)
  have "total (aUtxos (A (fst (U_Put (utxos_of E) u ds1)))) = total (aUtxos (A ds)) + OValue out"
    unfolding eff using total_put [of "aUtxos (A ds)" "Op u" u] utxos_finite [of ds] assms by (simp add: coin_value_def)
  with 1 put eff show thesis using that by blast
qed

lemma outputs_step:
  assumes "ok_keys (20 * length outs + n) ds" and "i + length outs < 2 ^ 32"
    and "\<And>j. i \<le> j \<Longrightarrow> j < i + length outs \<Longrightarrow> aUtxos (A ds) \<lparr>OpHash = tx_hash E tx, OpIndex = of_nat j\<rparr> = None"
  shows "\<exists>ds' t'. outputs_loop E tx height scripts i outs ds t = Some (ds', t') \<and> ok_keys n ds' \<and>
    A ds' = (A ds)\<lparr>aKeys := aKeys (A ds'), aUtxos := aUtxos (A ds) ++ paid_coins E tx height scripts i outs\<rparr> \<and>
    t_value t' - total (aUtxos (A ds')) = t_value t - total (aUtxos (A ds)) \<and> t_watch t' = t_watch t \<and>
    t_hits t \<le> t_hits t' \<and> (t_hits t' = t_hits t \<longleftrightarrow> paid_coins E tx height scripts i outs = Map.empty) \<and>
    (paid_coins E tx height scripts i outs = Map.empty \<longrightarrow> ds' = ds \<and> t' = t)"
  using assms
proof (induction outs arbitrary: i ds t)
  case (Cons out outs)
  show ?case
  proof (cases "OPkScript out \<in> set scripts")
    case False
    have "ok_keys (20 * length outs + n) ds"
      using Cons.prems(1) ok_keys_mono by fastforce
    then show ?thesis
      using Cons.IH [of ds "Suc i" t] Cons.prems(2,3) False by simp
  next
    case True
    define u where "u = new_utxo E tx height i out"
    have Op_u: "Op u = \<lparr>OpHash = tx_hash E tx, OpIndex = of_nat i\<rparr>"
      by (simp add: u_def)
    have "ok_keys (20 + (20 * length outs + n)) ds"
      using Cons.prems(1) by (simp add: add.assoc)
    then obtain ds1 ds2 where ds2: "mark_script E (OPkScript out) ds = Some ds1" "ds2 = fst (U_Put (utxos_of E) u ds1)"
        "ok_keys (20 * length outs + n) ds2" "A ds2 = (A ds)\<lparr>aKeys := aKeys (A ds1), aUtxos := (aUtxos (A ds))(Op u \<mapsto> u)\<rparr>"
        "total (aUtxos (A ds2)) = total (aUtxos (A ds)) + OValue out"
      using output_paid [OF _ Cons.prems(3) [of i] u_def] by auto
    have idx: "(of_nat i :: 32 word) \<noteq> of_nat j" if "i < j" "j < i + length (out # outs)" for j
      using that Cons.prems(2) by (simp add: word_of_nat_eq_iff take_bit_nat_eq_self)
    have free: "aUtxos (A ds2) \<lparr>OpHash = tx_hash E tx, OpIndex = of_nat j\<rparr> = None"
      if "Suc i \<le> j" "j < Suc i + length outs" for j
      using that Cons.prems(3) [of j] idx [of j] by (auto simp: ds2(4) Op_u)
    define t1 where "t1 = t\<lparr>t_value := t_value t + OValue out, t_hits := t_hits t + 1\<rparr>"
    obtain ds' t' where rest: "outputs_loop E tx height scripts (Suc i) outs ds2 t1 = Some (ds', t')" "ok_keys n ds'"
      "A ds' = (A ds2)\<lparr>aKeys := aKeys (A ds'), aUtxos := aUtxos (A ds2) ++ paid_coins E tx height scripts (Suc i) outs\<rparr>"
      "t_value t' - total (aUtxos (A ds')) = t_value t1 - total (aUtxos (A ds2))" "t_watch t' = t_watch t1"
      "t_hits t1 \<le> t_hits t'"
      using Cons.IH [of ds2 "Suc i" t1, OF ds2(3) _ free] Cons.prems(2) by auto
    have run: "outputs_loop E tx height scripts i (out # outs) ds t = Some (ds', t')"
      using True ds2(1) rest(1) by (simp add: ds2(2) u_def t1_def)
    have coins: "paid_coins E tx height scripts i (out # outs) = [Op u \<mapsto> u] ++ paid_coins E tx height scripts (Suc i) outs"
      using True by (simp add: u_def)
    have eff: "A ds' = (A ds)\<lparr>aKeys := aKeys (A ds'),
        aUtxos := aUtxos (A ds) ++ paid_coins E tx height scripts i (out # outs)\<rparr>"
      by (subst rest(3)) (simp only: ds2(4) coins, simp)
    have "paid_coins E tx height scripts i (out # outs) \<noteq> Map.empty"
      unfolding coins by (simp add: map_add_eq_empty_iff)
    then show ?thesis
      using run rest(2,4-6) ds2(5) eff by (intro exI [of _ ds'] exI [of _ t']) (simp add: t1_def)
  qed
qed simp

section \<open>The inputs\<close>

lemma lists_map_remove1:
  assumes "lists_map Op us m" and "u \<in> set us"
  shows "lists_map Op (remove1 u us) (m(Op u := None))"
proof -
  have "distinct us" "inj_on Op (set us)"
    using assms(1) by (auto simp: lists_map_def distinct_map)
  moreover have "distinct (map Op (remove1 u us))"
    using calculation by (auto simp: distinct_map inj_on_diff)
  ultimately show ?thesis
    using assms by (auto simp: lists_map_def inj_on_def)
qed

lemma spent_by_found:
  assumes "m (PreviousOutPoint txin) = Some u" and "m' = m(PreviousOutPoint txin := None)"
  shows "m' |` (- PreviousOutPoint ` set ins) = m |` (- PreviousOutPoint ` set (txin # ins))"
    and "a(PreviousOutPoint txin \<mapsto> f u) ++ (\<lambda>op. map_option f (spent_by ins m' op)) =
      a ++ (\<lambda>op. map_option f (spent_by (txin # ins) m op))"
    and "spent_by (txin # ins) m \<noteq> Map.empty"
  using assms by (auto simp: spent_by_def restrict_map_def fun_eq_iff map_add_def split: option.splits)

text \<open>Recording one coin as spent and removing it.\<close>

lemma input_spent:
  assumes "ok_keys n ds" and "aUtxos (A ds) (Op u) = Some u" and "s = \<lparr>SUtxo = u, SpendHeight = height, SpendTxid = tx_hash E tx\<rparr>"
    and "ds2 = fst (U_Delete (utxos_of E) u (fst (S_Put (stxos_of E) s ds)))"
  shows "ok_keys n ds2"
    "A ds2 = (A ds)\<lparr>aStxos := (aStxos (A ds))(Op u \<mapsto> norm s), aUtxos := (aUtxos (A ds))(Op u := None)\<rparr>"
    "total (aUtxos (A ds2)) = total (aUtxos (A ds)) - coin_value u"
proof -
  have wf: "wf_utxo u" "wf_stxo s"
    using U_wf [OF _ assms(2)] assms(1) by (simp_all add: assms(3) wf_stxo_def hash_length)
  note put = Put_stxo [OF assms(1) wf(2)]
  show ds2: "ok_keys n ds2" "A ds2 = (A ds)\<lparr>aStxos := (aStxos (A ds))(Op u \<mapsto> norm s), aUtxos := (aUtxos (A ds))(Op u := None)\<rparr>"
    using Delete_utxo [OF conjunct1 [OF put] wf(1)] put by (simp_all add: assms(3,4))
  show "total (aUtxos (A ds2)) = total (aUtxos (A ds)) - coin_value u"
    using total_remove [OF utxos_finite assms(2)] assms(1) by (simp add: ds2(2))
qed

lemma inputs_step:
  assumes "ok_keys n ds" and "lists_map Op us (aUtxos (A ds))" and "inputs_loop E tx height ins us ds t = (ds', t')"
  shows "ok_keys n ds' \<and>
    A ds' = (A ds)\<lparr>aUtxos := aUtxos (A ds) |` (- PreviousOutPoint ` set ins),
      aStxos := aStxos (A ds) ++ (\<lambda>op. map_option
        (\<lambda>u. norm \<lparr>SUtxo = u, SpendHeight = height, SpendTxid = tx_hash E tx\<rparr>) (spent_by ins (aUtxos (A ds)) op))\<rparr> \<and>
    t_value t' - total (aUtxos (A ds')) = t_value t - total (aUtxos (A ds)) \<and>
    t_hits t \<le> t_hits t' \<and>
    (spent_by ins (aUtxos (A ds)) = Map.empty \<longrightarrow> ds' = ds \<and> t' = t) \<and>
    (t_hits t' > t_hits t \<or> t_watch t' \<longleftrightarrow> spent_by ins (aUtxos (A ds)) \<noteq> Map.empty \<or> t_watch t)"
  using assms
proof (induction ins arbitrary: us ds t)
  case Nil
  then show ?case by (simp add: spent_by_def map_add_def)
next
  case (Cons txin ins)
  let ?op = "PreviousOutPoint txin" and ?f = "\<lambda>u. norm \<lparr>SUtxo = u, SpendHeight = height, SpendTxid = tx_hash E tx\<rparr>"
  show ?case
  proof (cases "List.find (\<lambda>u. outPointsEqual ?op (Op u)) us")
    case None
    then have "aUtxos (A ds) ?op = None"
      using Cons.prems(2) by (cases "aUtxos (A ds) ?op") (auto simp: find_None_all lists_map_def)
    then have eqs: "aUtxos (A ds) |` (- PreviousOutPoint ` set (txin # ins)) = aUtxos (A ds) |` (- PreviousOutPoint ` set ins)"
      "spent_by (txin # ins) (aUtxos (A ds)) = spent_by ins (aUtxos (A ds))"
      by (auto simp: fun_eq_iff restrict_map_def spent_by_def)
    have "inputs_loop E tx height ins us ds t = (ds', t')"
      using Cons.prems(3) None by simp
    from Cons.IH [OF Cons.prems(1,2) this] show ?thesis
      unfolding eqs .
  next
    case (Some u)
    have u: "u \<in> set us" "Op u = ?op"
      using find_Some_mem [OF Some] by auto
    then have mu: "aUtxos (A ds) (Op u) = Some u"
      using Cons.prems(2) by (auto simp: lists_map_def)
    define s where "s = \<lparr>SUtxo = u, SpendHeight = height, SpendTxid = tx_hash E tx\<rparr>"
    define ds2 where "ds2 = fst (U_Delete (utxos_of E) u (fst (S_Put (stxos_of E) s ds)))"
    note ds2 = input_spent [OF Cons.prems(1) mu s_def ds2_def, unfolded u(2)]
    define t1 where "t1 = (if \<not> WatchOnly u then t\<lparr>t_value := t_value t - UValue u, t_hits := t_hits t + 1\<rparr>
        else t\<lparr>t_watch := True\<rparr>)"
    have run: "inputs_loop E tx height ins (remove1 u us) ds2 t1 = (ds', t')"
      using Cons.prems(3) Some by (simp add: s_def ds2_def t1_def Let_def)
    have "lists_map Op (remove1 u us) (aUtxos (A ds2))"
      using lists_map_remove1 [OF Cons.prems(2) u(1)] u(2) by (simp add: ds2(2))
    note IH = Cons.IH [OF ds2(1) this run]
    have m': "aUtxos (A ds2) = (aUtxos (A ds))(?op := None)" and st: "aStxos (A ds2) = (aStxos (A ds))(?op \<mapsto> ?f u)"
      by (simp_all add: ds2(2) s_def)
    note found = spent_by_found [where m = "aUtxos (A ds)" and m' = "aUtxos (A ds2)" and txin = txin and ins = ins, OF mu [unfolded u(2)] m']
    have eff: "A ds' = (A ds)\<lparr>aUtxos := aUtxos (A ds) |` (- PreviousOutPoint ` set (txin # ins)),
        aStxos := aStxos (A ds) ++ (\<lambda>op. map_option ?f (spent_by (txin # ins) (aUtxos (A ds)) op))\<rparr>"
      using IH unfolding found(1) st found(2) [where a = "aStxos (A ds)" and f = ?f] by (simp add: ds2(2))
    have val: "t_value t' - total (aUtxos (A ds')) = t_value t - total (aUtxos (A ds))"
      using conjunct1 [OF conjunct2 [OF conjunct2 [OF IH]]] ds2(3) by (simp add: t1_def coin_value_def split: if_splits)
    have "t_hits t1 \<le> t_hits t'" "t_watch t1 \<longrightarrow> t_hits t' > t_hits t1 \<or> t_watch t'"
      using IH by blast+
    then have hits: "t_hits t \<le> t_hits t'" "t_hits t' > t_hits t \<or> t_watch t'"
      by (auto simp: t1_def split: if_splits)
    have "spent_by (txin # ins) (aUtxos (A ds)) \<noteq> Map.empty"
      by (rule found(3))
    then show ?thesis
      using IH eff val hits by blast
  qed
qed

section \<open>The record\<close>

definition relevant :: "tally \<Rightarrow> bool" where
  "relevant t \<longleftrightarrow> t_hits t > 0 \<or> t_watch t"

lemma stxo_height_step:
  assumes "ok_keys n ds" and "0 \<le> t_hits t"
    and "\<And>op s. aStxos (A ds) op = Some s \<Longrightarrow> SpendTxid s = tx_hash E tx \<Longrightarrow>
      norm s = s \<and> SpendHeight s = height \<and> relevant t"
  shows "\<exists>ds' t'. stxo_height E tx height ds t = (ds', Inr t') \<and> ok_keys n ds' \<and> A ds' = A ds \<and>
    t_value t' = t_value t \<and> 0 \<le> t_hits t' \<and> relevant t' = relevant t \<and> (\<not> relevant t \<longrightarrow> ds' = ds \<and> t' = t)"
proof (cases "height > 0")
  case True
  obtain ss where ss: "S_GetAll (stxos_of E) ds = Inr ss"
    using S_GetAll_ok [of ds] assms(1) by (cases "S_GetAll (stxos_of E) ds") auto
  have lm: "lists_map (\<lambda>s. Op (SUtxo s)) ss (aStxos (A ds))"
    using S_GetAll [OF _ ss] assms(1) by simp
  show ?thesis
  proof (cases "List.find (\<lambda>stxo. SpendTxid stxo = tx_hash E tx) ss")
    case None
    then show ?thesis
      using True ss assms(1,2) by (simp add: stxo_height_def)
  next
    case (Some s)
    have s: "s \<in> set ss" "SpendTxid s = tx_hash E tx"
      using find_Some_mem [OF Some] by auto
    note at = lists_map_mem [OF lm s(1)]
    note same = assms(3) [OF at s(2)]
    have same': "s\<lparr>SpendHeight := height\<rparr> = s"
      using same by (metis Stxo.surjective Stxo.update_convs(2))
    have "wf_stxo s"
      using S_wf [OF _ at] assms(1) by simp
    from Put_stxo [OF assms(1) this]
    have "ok_keys n (fst (S_Put (stxos_of E) s ds))" "A (fst (S_Put (stxos_of E) s ds)) = A ds"
      using at same by (simp_all add: map_upd_triv)
    then show ?thesis
      using True ss Some same assms(2) by (simp add: stxo_height_def relevant_def same')
  qed
qed (use assms in \<open>simp add: stxo_height_def\<close>)

lemma fold_heights:
  "fold (\<lambda>t m. m(Txid t \<mapsto> Height t)) xs m k =
   (case List.find (\<lambda>t. Txid t = k) (rev xs) of None \<Rightarrow> m k | Some t \<Rightarrow> Some (Height t))"
  by (induction xs arbitrary: m rule: rev_induct) auto

lemma PopulateAdrs_txids:
  assumes "inv (store_ds ts)" and "T_GetAll (txns_of E) True (store_ds ts) = Inr xs"
  shows "txids (PopulateAdrs E ts) k =
    (case aTxns (A (store_ds ts)) k of None \<Rightarrow> txids ts k | Some x \<Rightarrow> Some (Height x))"
proof -
  have "(\<lambda>k. case aTxns (A (store_ds ts)) k of None \<Rightarrow> None
      | Some x \<Rightarrow> if TWatchOnly x \<and> \<not> True then None else Some x) = aTxns (A (store_ds ts))"
    by (auto split: option.splits)
  with T_GetAll [OF assms] have lm: "lists_map Txid xs (aTxns (A (store_ds ts)))"
    by (metis (no_types))
  show ?thesis
  proof (cases "List.find (\<lambda>t. Txid t = k) (rev xs)")
    case None
    then have "aTxns (A (store_ds ts)) k = None"
      using lm by (cases "aTxns (A (store_ds ts)) k") (auto simp: find_None_all lists_map_def)
    then show ?thesis
      using None assms(2) by (simp add: PopulateAdrs_def Let_def fold_heights)
  next
    case (Some x)
    then have "x \<in> set xs" "Txid x = k"
      using find_Some_mem [OF Some] by auto
    then show ?thesis
      using Some assms(2) lists_map_mem [OF lm, of x] by (simp add: PopulateAdrs_def Let_def fold_heights)
  qed
qed

lemma PopulateAdrs_ds [simp]: "store_ds (PopulateAdrs E ts) = store_ds ts"
  by (simp add: PopulateAdrs_def Let_def)

lemma record_tx_step:
  assumes "ok_keys n (store_ds ts)" and "aTxns (A (store_ds ts)) (txid_string E (tx_hash E tx)) = None"
    and "relevant t"
  shows "\<exists>ts' x. record_tx E tx height timestamp t ts = (ts', Inr (t_hits t + 1)) \<and> inv (store_ds ts') \<and>
    TValue x = t_value t \<and> Height x = height \<and>
    A (store_ds ts') = (A (store_ds ts))\<lparr>aTxns := (aTxns (A (store_ds ts)))(txid_string E (tx_hash E tx) \<mapsto> x)\<rparr> \<and>
    txids ts' (txid_string E (tx_hash E tx)) = Some height \<and>
    (\<forall>k \<noteq> txid_string E (tx_hash E tx).
      txids ts' k = txids ts k \<or> (\<exists>x. aTxns (A (store_ds ts)) k = Some x \<and> txids ts' k = Some (Height x)))"
proof -
  let ?id = "txid_string E (tx_hash E tx)"
  obtain e where none: "T_Get (txns_of E) ?id (store_ds ts) = Inl e"
    using T_Get [of "store_ds ts" ?id] assms(1,2) by (cases "T_Get (txns_of E) ?id (store_ds ts)") auto
  obtain d r where put: "T_Put (txns_of E) (BtcEncode (te_wire E) tx) ?id (t_value t) height timestamp
      (t_hits t = 0) (store_ds ts) = (d, r)"
    by (cases "T_Put (txns_of E) (BtcEncode (te_wire E) tx) ?id (t_value t) height timestamp
      (t_hits t = 0) (store_ds ts)")
  have ok: "\<not> isl r"
    using T_Put_ok [of "store_ds ts" ?id] assms(1) put txid_not_Nil [OF hash_length] by (metis ok_keys_inv snd_conv)
  define x where "x = \<lparr>Txid = ?id, TValue = t_value t, Height = height, Timestamp = trunc timestamp,
      TWatchOnly = (t_hits t = 0), Bytes = BtcEncode (te_wire E) tx\<rparr>"
  have d: "inv d" "A d = (A (store_ds ts))\<lparr>aTxns := (aTxns (A (store_ds ts)))(?id \<mapsto> x)\<rparr>"
    using T_Put [OF _ put] assms(1) ok by (simp_all add: x_def)
  define ts1 where "ts1 = ts\<lparr>store_ds := d, txids := (txids ts)(?id \<mapsto> height)\<rparr>"
  have run: "record_tx E tx height timestamp t ts = (PopulateAdrs E ts1, Inr (t_hits t + 1))"
    using assms(3) none put by (simp add: record_tx_def relevant_def ts1_def Let_def)
  have ids: "txids (PopulateAdrs E ts1) k = txids ts1 k \<or>
      (\<exists>y. aTxns (A d) k = Some y \<and> txids (PopulateAdrs E ts1) k = Some (Height y))" for k
  proof (cases "T_GetAll (txns_of E) True d")
    case (Inl e)
    then show ?thesis by (simp add: PopulateAdrs_def Let_def ts1_def)
  next
    case (Inr xs)
    then show ?thesis
      using PopulateAdrs_txids [of ts1 xs k] d(1) by (simp add: ts1_def split: option.splits)
  qed
  have "txids (PopulateAdrs E ts1) ?id = Some height"
    using ids [of ?id] by (auto simp: ts1_def d(2) x_def)
  moreover have "\<forall>k \<noteq> ?id. txids (PopulateAdrs E ts1) k = txids ts k \<or>
      (\<exists>y. aTxns (A (store_ds ts)) k = Some y \<and> txids (PopulateAdrs E ts1) k = Some (Height y))"
  proof (intro allI impI)
    fix k
    assume "k \<noteq> ?id"
    then have "txids ts1 k = txids ts k" "aTxns (A d) k = aTxns (A (store_ds ts)) k"
      by (simp_all add: ts1_def d(2))
    then show "txids (PopulateAdrs E ts1) k = txids ts k \<or>
        (\<exists>y. aTxns (A (store_ds ts)) k = Some y \<and> txids (PopulateAdrs E ts1) k = Some (Height y))"
      using ids [of k] by simp
  qed
  moreover have "TValue x = t_value t" "Height x = height" "store_ds (PopulateAdrs E ts1) = d"
    by (simp_all add: x_def ts1_def)
  ultimately show ?thesis
    using run d by (intro exI [of _ "PopulateAdrs E ts1"] exI [of _ x]) simp
qed

section \<open>A new transaction\<close>

definition recorded :: "('ds, 'a) TxStore \<Rightarrow> MsgTx \<Rightarrow> int \<Rightarrow> bytes list \<Rightarrow> ('ds, 'a) TxStore \<Rightarrow> bool" where
  "recorded ts tx height scripts ts' \<longleftrightarrow>
     (let a = A (store_ds ts); id = txid_string E (tx_hash E tx) in
      \<exists>x. TValue x = total (aUtxos (A (store_ds ts'))) - total (aUtxos a) \<and> Height x = height \<and>
        A (store_ds ts') = (after_tx E norm tx height scripts a)\<lparr>aKeys := aKeys (A (store_ds ts')),
          aTxns := (aTxns a)(id \<mapsto> x)\<rparr> \<and>
        txids ts' id = Some height \<and>
        (\<forall>k \<noteq> id. txids ts' k = txids ts k \<or> (\<exists>x. aTxns a k = Some x \<and> txids ts' k = Some (Height x))))"

text \<open>A spent coin of the transaction's own is one it spends now.\<close>

lemma spent_here:
  assumes "unknown E tx a" and "aStxos (after_tx E norm tx height scripts a) op = Some s" and "SpendTxid s = tx_hash E tx"
  shows "norm s = s" "SpendHeight s = height" "touches E tx height scripts a"
proof -
  obtain u where "s = norm \<lparr>SUtxo = u, SpendHeight = height, SpendTxid = tx_hash E tx\<rparr>"
      "spent_by (TxIns tx) (coins_with E tx height scripts a) op = Some u"
    using assms unfolding unknown_def by (auto simp: after_tx_def map_add_Some_iff)
  then show "norm s = s" "SpendHeight s = height" "touches E tx height scripts a"
    by (auto simp: touches_def S_norm_idem norm_simps)
qed

text \<open>The outputs and the inputs together.\<close>

lemma outputs_inputs_step:
  assumes "ok_keys (20 * length (TxOuts tx) + n) ds" and "length (TxOuts tx) < 2 ^ 32" and "unknown E tx (A ds)"
    and "t0 = \<lparr>t_value = 0, t_hits = 0, t_watch = False\<rparr>"
  obtains ds1 t1 us ds2 t2 where "outputs_loop E tx height scripts 0 (TxOuts tx) ds t0 = Some (ds1, t1)"
    "U_GetAll (utxos_of E) ds1 = Inr us" "inputs_loop E tx height (TxIns tx) us ds1 t1 = (ds2, t2)" "ok_keys n ds2"
    "A ds2 = (after_tx E norm tx height scripts (A ds))\<lparr>aKeys := aKeys (A ds2)\<rparr>"
    "t_value t2 = total (aUtxos (A ds2)) - total (aUtxos (A ds))" "0 \<le> t_hits t2"
    "relevant t2 \<longleftrightarrow> touches E tx height scripts (A ds)" "\<not> touches E tx height scripts (A ds) \<Longrightarrow> ds2 = ds \<and> t2 = t0"
proof -
  obtain ds1 t1 where 1: "outputs_loop E tx height scripts 0 (TxOuts tx) ds t0 = Some (ds1, t1)" "ok_keys n ds1"
      "A ds1 = (A ds)\<lparr>aKeys := aKeys (A ds1), aUtxos := coins_with E tx height scripts (A ds)\<rparr>"
      "t_value t1 - total (aUtxos (A ds1)) = t_value t0 - total (aUtxos (A ds))" "t_watch t1 = t_watch t0"
      "t_hits t0 \<le> t_hits t1" "t_hits t1 = t_hits t0 \<longleftrightarrow> paid_coins E tx height scripts 0 (TxOuts tx) = Map.empty"
      "paid_coins E tx height scripts 0 (TxOuts tx) = Map.empty \<longrightarrow> ds1 = ds \<and> t1 = t0"
    using outputs_step [OF assms(1), of 0 tx height scripts t0] assms(2,3) unfolding coins_with_def unknown_def by force
  have u1: "aUtxos (A ds1) = coins_with E tx height scripts (A ds)" "aStxos (A ds1) = aStxos (A ds)"
    by (subst 1(3), simp)+
  obtain us where us: "U_GetAll (utxos_of E) ds1 = Inr us"
    using U_GetAll_ok [of ds1] 1(2) by (cases "U_GetAll (utxos_of E) ds1") auto
  obtain ds2 t2 where 2: "inputs_loop E tx height (TxIns tx) us ds1 t1 = (ds2, t2)"
    by (cases "inputs_loop E tx height (TxIns tx) us ds1 t1")
  have "lists_map Op us (aUtxos (A ds1))"
    using U_GetAll [OF _ us] 1(2) by simp
  note ins = inputs_step [OF 1(2) this 2, unfolded u1]
  have A2: "A ds2 = (A ds1)\<lparr>aUtxos := aUtxos (after_tx E norm tx height scripts (A ds)),
      aStxos := aStxos (after_tx E norm tx height scripts (A ds))\<rparr>"
    using ins by (simp add: after_tx_def)
  have "A ds2 = (after_tx E norm tx height scripts (A ds))\<lparr>aKeys := aKeys (A ds2)\<rparr>"
    unfolding A2 by (subst 1(3), subst (2) 1(3)) (simp add: after_tx_def)
  moreover have "t_value t2 = total (aUtxos (A ds2)) - total (aUtxos (A ds))"
    using conjunct1 [OF conjunct2 [OF conjunct2 [OF ins]]] 1(4) unfolding u1 by (simp add: assms(4))
  moreover have "relevant t2 \<longleftrightarrow> touches E tx height scripts (A ds)" "0 \<le> t_hits t2"
    using ins 1(5-7) by (auto simp: relevant_def touches_def assms(4))
  moreover have "ds2 = ds \<and> t2 = t0" if "\<not> touches E tx height scripts (A ds)"
    using that ins 1(8) by (auto simp: touches_def)
  ultimately show thesis
    using that [OF 1(1) us 2] ins by blast
qed

lemma add_new_step:
  assumes "ok_keys (20 * length (TxOuts tx) + n) (store_ds ts)" and "length (TxOuts tx) < 2 ^ 32"
    and "pay_scripts (te_wire E) (adrs ts) = Inr scripts" and "unknown E tx (A (store_ds ts))"
  shows "\<exists>ts' m. add_new E tx height timestamp ts = Some (ts', Inr m) \<and> inv (store_ds ts') \<and>
    (if touches E tx height scripts (A (store_ds ts)) then 0 < m \<and> recorded ts tx height scripts ts'
     else m = 0 \<and> ts' = ts)"
proof -
  let ?ds = "store_ds ts" and ?h = "tx_hash E tx"
  define t0 where "t0 = \<lparr>t_value = 0, t_hits = 0, t_watch = False\<rparr>"
  obtain ds1 t1 us ds2 t2 where 2: "outputs_loop E tx height scripts 0 (TxOuts tx) ?ds t0 = Some (ds1, t1)"
      "U_GetAll (utxos_of E) ds1 = Inr us" "inputs_loop E tx height (TxIns tx) us ds1 t1 = (ds2, t2)" "ok_keys n ds2"
      "A ds2 = (after_tx E norm tx height scripts (A ?ds))\<lparr>aKeys := aKeys (A ds2)\<rparr>"
      "t_value t2 = total (aUtxos (A ds2)) - total (aUtxos (A ?ds))" "0 \<le> t_hits t2"
      "relevant t2 \<longleftrightarrow> touches E tx height scripts (A ?ds)" "\<not> touches E tx height scripts (A ?ds) \<Longrightarrow> ds2 = ?ds \<and> t2 = t0"
    by (rule outputs_inputs_step [OF assms(1,2,4) t0_def]) blast
  have "aStxos (A ds2) = aStxos (after_tx E norm tx height scripts (A ?ds))"
    by (subst 2(5)) simp
  then obtain ds3 t3 where 3: "stxo_height E tx height ds2 t2 = (ds3, Inr t3)" "ok_keys n ds3" "A ds3 = A ds2"
      "t_value t3 = t_value t2" "0 \<le> t_hits t3" "relevant t3 = relevant t2" "\<not> relevant t2 \<longrightarrow> ds3 = ds2 \<and> t3 = t2"
    using stxo_height_step [OF 2(4,7), of tx height] spent_here [OF assms(4)] 2(8) by metis
  have run: "add_new E tx height timestamp ts = Some (record_tx E tx height timestamp t3 (ts\<lparr>store_ds := ds3\<rparr>))"
    using assms(3) 2(1-3) 3(1) by (simp add: add_new_def t0_def)
  show ?thesis
  proof (cases "touches E tx height scripts (A ?ds)")
    case False
    then have "ds3 = ?ds" "t3 = t0" "\<not> relevant t3"
      using 3(6,7) 2(8,9) by auto
    then show ?thesis
      using run False assms(1) by (auto simp: record_tx_def relevant_def t0_def)
  next
    case True
    have tx3: "aTxns (A ds3) = aTxns (A ?ds)"
      unfolding 3(3) by (subst 2(5)) (simp add: after_tx_def)
    have "relevant t3" "aTxns (A ?ds) (txid_string E ?h) = None"
      using True 3(6) 2(8) assms(4) by (simp_all add: unknown_def)
    with record_tx_step [of n "ts\<lparr>store_ds := ds3\<rparr>" tx t3 height timestamp] 3(2) tx3
    obtain ts' x where rec: "record_tx E tx height timestamp t3 (ts\<lparr>store_ds := ds3\<rparr>) = (ts', Inr (t_hits t3 + 1))"
        "inv (store_ds ts')" "TValue x = t_value t3" "Height x = height"
        "A (store_ds ts') = (A ds3)\<lparr>aTxns := (aTxns (A ?ds))(txid_string E ?h \<mapsto> x)\<rparr>"
        "txids ts' (txid_string E ?h) = Some height"
        "\<forall>k \<noteq> txid_string E ?h. txids ts' k = txids ts k \<or>
          (\<exists>x. aTxns (A ?ds) k = Some x \<and> txids ts' k = Some (Height x))"
      by auto
    have "A (store_ds ts') = (after_tx E norm tx height scripts (A ?ds))\<lparr>aKeys := aKeys (A (store_ds ts')),
        aTxns := (aTxns (A ?ds))(txid_string E ?h \<mapsto> x)\<rparr>"
      unfolding rec(5) 3(3) by (subst 2(5)) simp
    moreover have "aUtxos (A (store_ds ts')) = aUtxos (A ds2)"
      by (simp add: rec(5) 3(3))
    ultimately have "recorded ts tx height scripts ts'"
      using rec(3,4,6,7) 2(6) 3(4) unfolding recorded_def Let_def by (intro exI [of _ x]) simp
    then show ?thesis
      using run rec(1,2) True 3(5) by simp
  qed
qed

lemma AddTransaction_new:
  assumes "CheckTransactionSanity (te_wire E) tx = Inr ()" and "txids ts (txid_string E (tx_hash E tx)) = None"
    and "CheckDoubleSpends E tx (store_ds ts) = Inr []"
  shows "AddTransaction fuel E now tx height timestamp ts = add_new E tx height timestamp ts"
  using assms by (simp add: AddTransaction_def mark_doubles_def)

end

end
