(* ===== verification/Key_Props.thy ===== *)
theory Key_Props
  imports Key_Manager Bolt_Props
begin

text \<open>
  Properties of the key manager over any datastore that keeps the contract of \<open>key_store\<close>, applied to
  the bbolt tables, with a small deterministic key tree for the examples.
\<close>

section \<open>A key tree\<close>

text \<open>A key is its path; its address spells purpose and index, the last two of the path, in 20 bytes.\<close>

definition path_address :: "int list \<Rightarrow> bytes" where
  "path_address k =
     (let p = last (butlast k); i = last k in
      [of_int p, of_int i, of_int (i div 2 ^ 8), of_int (i div 2 ^ 16), of_int (i div 2 ^ 24)] @ replicate 15 0)"

definition path_lib :: "int list hd_lib" where
  "path_lib = \<lparr>Derive = (\<lambda>k i. Inr (k @ [i])), ScriptAddress = (\<lambda>k. Inr (path_address k))\<rparr>"

definition km_at :: "int list \<Rightarrow> int list KeyManager" where
  "km_at pre = \<lparr>internalKey = pre @ [1], externalKey = pre @ [0]\<rparr>"

abbreviation "path_km \<equiv> km_at []"

lemma path_child: "generateChildKey path_lib (km_at pre) p i =
    (if p = EXTERNAL then Inr (pre @ [0, i]) else if p = INTERNAL then Inr (pre @ [1, i])
     else Inl (Err ''unknown key purpose''))"
  by (simp add: generateChildKey_def path_lib_def km_at_def)

lemma path_script: "ScriptAddress path_lib k = Inr (path_address k)" "length (path_address k) = 20"
  by (simp_all add: path_lib_def path_address_def Let_def)

lemma byte_eq: "(of_int a :: byte) = of_int b \<longleftrightarrow> a mod 256 = b mod 256"
  by (simp add: word_of_int_eq_iff take_bit_eq_mod)

lemma base256:
  fixes i :: int
  assumes "0 \<le> i" "i < 2 ^ 32"
  shows "i = i mod 256 + 256 * ((i div 2 ^ 8) mod 256) + 2 ^ 16 * ((i div 2 ^ 16) mod 256) +
    2 ^ 24 * ((i div 2 ^ 24) mod 256)"
proof -
  define a b c where abc: "a = i div 2 ^ 8" "b = i div 2 ^ 16" "c = i div 2 ^ 24"
  have "b = a div 256" "c = b div 256"
    using zdiv_zmult2_eq [of 256 i "2 ^ 8"] zdiv_zmult2_eq [of 256 i "2 ^ 16"] by (simp_all add: abc)
  then have "i = 256 * a + i mod 256" "a = 256 * b + a mod 256" "b = 256 * c + b mod 256"
    by (simp_all add: abc(1))
  moreover have "c mod 256 = c"
    using assms unfolding abc
    by (intro mod_pos_pos_trivial) (simp_all add: pos_imp_zdiv_nonneg_iff div_less_iff_less_mult)
  ultimately have "i = i mod 256 + 256 * (a mod 256) + 2 ^ 16 * (b mod 256) + 2 ^ 24 * (c mod 256)"
    by simp
  then show ?thesis
    by (simp only: abc)
qed

lemma bytes4_inj:
  fixes i j :: int
  assumes "0 \<le> i" "i < 2 ^ 32" "0 \<le> j" "j < 2 ^ 32"
    and "i mod 256 = j mod 256" "(i div 2 ^ 8) mod 256 = (j div 2 ^ 8) mod 256"
    "(i div 2 ^ 16) mod 256 = (j div 2 ^ 16) mod 256" "(i div 2 ^ 24) mod 256 = (j div 2 ^ 24) mod 256"
  shows "i = j"
  by (subst base256 [OF assms(3,4)], subst base256 [OF assms(1,2)], simp only: assms(5-8))

interpretation path: hd_keys path_lib "km_at pre" for pre
proof unfold_locales
  fix p i k q j l
  assume *: "generateChildKey path_lib (km_at pre) p i = Inr k" "generateChildKey path_lib (km_at pre) q j = Inr l"
    "0 \<le> i" "i < 2 ^ 32" "0 \<le> j" "j < 2 ^ 32" "ScriptAddress path_lib k = ScriptAddress path_lib l"
  have k: "k = pre @ [p, i]" "p \<in> {0, 1}"
    using *(1) by (auto simp: path_child EXTERNAL_def INTERNAL_def split: if_splits)
  have l: "l = pre @ [q, j]" "q \<in> {0, 1}"
    using *(2) by (auto simp: path_child EXTERNAL_def INTERNAL_def split: if_splits)
  have "(of_int p :: byte) = of_int q" "(of_int i :: byte) = of_int j"
    "(of_int (i div 2 ^ 8) :: byte) = of_int (j div 2 ^ 8)" "(of_int (i div 2 ^ 16) :: byte) = of_int (j div 2 ^ 16)"
    "(of_int (i div 2 ^ 24) :: byte) = of_int (j div 2 ^ 24)"
    using *(7) unfolding k(1) l(1) by (simp_all add: path_lib_def path_address_def butlast_append)
  then have "p mod 256 = q mod 256" "i = j"
    using bytes4_inj [OF *(3-6)] unfolding byte_eq by blast+
  then show "p = q \<and> i = j"
    using k(2) l(2) by auto
qed (auto simp: path_child path_script split: if_splits)

abbreviation "ex_ds \<equiv> BoltDatastore chainhash_lib toy_crypto (replicate 24 7) mem_bolt"

interpretation ex_wallet: wallet_keys "DS_Keys ex_ds" "\<lambda>d. bolt_abs chainhash_lib (mem_bkt d)"
  "\<lambda>d. bolt_inv chainhash_lib (mem_bkt d)" path_lib "km_at pre" for pre
  by (rule wallet_keys.intro [OF mem.K.key_store_axioms path.hd_keys_axioms])

lemma ex_bolt_keys: "aKeys (bolt_abs chainhash_lib (mem_bkt ex_bolt)) sa = None"
  by (simp add: bolt_abs_def ex_bolt_eq mem_bkt_def bkt_names rows_def)

section \<open>Fresh keys\<close>

text \<open>C31: \<open>GetFreshKey\<close> returns exactly when some index from the next one on derives, and then it uses the
  first such index; for a purpose other than external and internal it never returns.\<close>

theorem GetFreshKey_returns:
  "(GetFreshKey hdk K km p ds \<noteq> None \<longleftrightarrow>
      (\<exists>j \<ge> start_index K p ds. \<not> isl (generateChildKey hdk km p (u32 j)))) \<and>
   (p \<notin> {EXTERNAL, INTERNAL} \<longrightarrow> GetFreshKey hdk K km p ds = None) \<and>
   (\<forall>ds' k. GetFreshKey hdk K km p ds = Some (ds', Inr k) \<longrightarrow>
      (\<exists>j sa. first_key hdk km p (start_index K p ds) j k \<and> ScriptAddress hdk k = Inr sa \<and>
         K_Put K sa \<lparr>Change = p, Index = j\<rparr> ds = (ds', Inr ())))"
proof -
  have eq: "GetFreshKey hdk K km p ds \<noteq> None \<longleftrightarrow> fresh_loop hdk km p (start_index K p ds) \<noteq> None"
    by (auto simp: GetFreshKey_def split: option.splits sum.splits prod.splits)
  have "fresh_loop hdk km p (start_index K p ds) \<noteq> None \<longleftrightarrow>
      (\<exists>j \<ge> start_index K p ds. \<not> isl (generateChildKey hdk km p (u32 j)))"
  proof
    assume "fresh_loop hdk km p (start_index K p ds) \<noteq> None"
    then obtain k j where "first_key hdk km p (start_index K p ds) j k"
      using fresh_loop_first by fastforce
    then show "\<exists>j \<ge> start_index K p ds. \<not> isl (generateChildKey hdk km p (u32 j))"
      by (auto simp: first_key_def)
  next
    assume "\<exists>j \<ge> start_index K p ds. \<not> isl (generateChildKey hdk km p (u32 j))"
    then show "fresh_loop hdk km p (start_index K p ds) \<noteq> None"
      using first_key_exists fresh_loop_returns by (metis option.distinct(1))
  qed
  moreover have "\<exists>j sa. first_key hdk km p (start_index K p ds) j k \<and> ScriptAddress hdk k = Inr sa \<and>
      K_Put K sa \<lparr>Change = p, Index = j\<rparr> ds = (ds', Inr ())"
    if "GetFreshKey hdk K km p ds = Some (ds', Inr k)" for ds' k
    using that fresh_loop_first [of hdk km p "start_index K p ds"]
    by (auto simp: GetFreshKey_def split: option.splits sum.splits prod.splits)
  ultimately show ?thesis
    using eq unknown_purpose by blast
qed

theorem GetFreshKey_returns_witness:
  "GetFreshKey path_lib (DS_Keys ex_ds) path_km 5 ex_bolt = None \<and>
   GetFreshKey path_lib (DS_Keys ex_ds) path_km INTERNAL ex_bolt \<noteq> None"
  using GetFreshKey_returns [of path_lib "DS_Keys ex_ds" path_km 5 ex_bolt]
    GetFreshKey_returns [of path_lib "DS_Keys ex_ds" path_km INTERNAL ex_bolt]
  by (auto simp: path_child EXTERNAL_def INTERNAL_def)

section \<open>The window\<close>

text \<open>C12: from a store whose keys are derived from their paths, \<open>lookahead\<close> returns, keeps every stored key
  and its invariant, and unless the datastore failed each purpose then has at least \<open>GAP_LIMIT\<close> unused
  keys; marking a key as used leaves it used and keeps the window filled.\<close>

theorem lookahead_fills_window:
  assumes "wallet_keys K A okds hdk km" and "okds ds" and "derived hdk km (A ds)" and "room 20 (A ds)"
    and "set order = {EXTERNAL, INTERNAL}" and "length order = 2"
  shows "(\<exists>ds' r. lookahead order hdk K km ds = Some (ds', r) \<and> okds ds' \<and> derived hdk km (A ds') \<and>
      aKeys (A ds) \<subseteq>\<^sub>m aKeys (A ds') \<and>
      (r = Inr () \<longrightarrow> (\<forall>p \<in> {EXTERNAL, INTERNAL}. GAP_LIMIT \<le> int (card (unused_keys (A ds') p))))) \<and>
    (\<exists>ds' r. MarkKeyAsUsed order hdk K km sa ds = Some (ds', r) \<and> okds ds' \<and> derived hdk km (A ds') \<and>
      (r = Inr () \<longrightarrow> (\<forall>p \<in> {EXTERNAL, INTERNAL}. GAP_LIMIT \<le> int (card (unused_keys (A ds') p))) \<and>
        (\<forall>kp u. aKeys (A ds) sa = Some (kp, u) \<longrightarrow> aKeys (A ds') sa = Some (kp, True))))"
proof -
  have ok: "wallet_keys.ok_keys A okds hdk km (20 + 0) ds"
    using assms(1-4) by (simp add: wallet_keys.ok_keys_def)
  show ?thesis
    using wallet_keys.lookahead_step [OF assms(1) ok assms(5,6)] wallet_keys.Mark_step [OF assms(1) ok assms(5,6), of sa]
    unfolding wallet_keys.ok_keys_def [OF assms(1)] grows_def by (metis isl_def sum.disc(2))
qed

theorem lookahead_fills_window_witness:
  "\<exists>ds' r. lookahead [INTERNAL, EXTERNAL] path_lib (DS_Keys ex_ds) path_km ex_bolt = Some (ds', r) \<and>
     (r = Inr () \<longrightarrow> GAP_LIMIT \<le> int (card (unused_keys (bolt_abs chainhash_lib (mem_bkt ds')) EXTERNAL)))"
  using lookahead_fills_window [OF ex_wallet.wallet_keys_axioms [of "[]"] ex_bolt_inv, of "[INTERNAL, EXTERNAL]"]
  by (simp add: derived_def room_def ex_bolt_keys) blast

end
