(* ===== verification/Tx_Props.thy ===== *)
theory Tx_Props
  imports Add_Laws Key_Props
begin

text \<open>
  Properties of the transaction store: on the bbolt datastore the contracts of \<open>Tx_Laws\<close> and \<open>Add_Laws\<close>
  hold, and a small wallet on the database in memory gives the examples.
\<close>

section \<open>bbolt when it does not fail\<close>

text \<open>A transaction whose body succeeds commits; a put fails on an empty key, and on keys and values past
  the size limits of bbolt, which no record of the wallet reaches.\<close>

locale reliable_bolt = bolt_store +
  assumes Update_ok: "f d = Inr d1 \<Longrightarrow> \<not> isl (snd (db_Update B f d))"
    and BPut_ok: "bkt d n \<noteq> None \<Longrightarrow> k \<noteq> [] \<Longrightarrow> \<not> isl (bkt_Put B n k v d)"
    and BDelete_ok: "bkt d n \<noteq> None \<Longrightarrow> \<not> isl (bkt_Delete B n k d)"
begin

lemma put_value_ok: "bkt d n \<noteq> None \<Longrightarrow> k \<noteq> [] \<Longrightarrow> \<not> isl (snd (put_value B n k v d))"
  unfolding put_value_def using BPut_ok [of d n k v]
  by (intro Update_ok [of _ _ "projr (bkt_Put B n k v d)"]) (auto simp: Bucket)

lemma delete_value_ok: "bkt d n \<noteq> None \<Longrightarrow> \<not> isl (snd (delete_value B n k d))"
  unfolding delete_value_def using BDelete_ok [of d n k]
  by (intro Update_ok [of _ _ "projr (bkt_Delete B n k d)"]) (auto simp: Bucket)

lemma str_bytes_Nil: "str_bytes s = [] \<longleftrightarrow> s = []"
  by (simp add: str_bytes_def)

lemma buckets: "bolt_inv H (bkt d) \<Longrightarrow> n \<in> {keysBkt, utxosBkt, stxosBkt, txnsBkt, subscriptionsBkt} \<Longrightarrow> bkt d n \<noteq> None"
  using bolt_inv_bucket by fastforce

lemma bolt_U_Put_ok: "bolt_inv H (bkt d) \<Longrightarrow> \<not> isl (snd (UtxoDB_Put H B u d))"
  by (simp add: UtxoDB_Put_def UtxoDB_put_def utxo_rec_def put_value_ok buckets str_bytes_Nil OutPoint_String_def)

lemma bolt_S_Put_ok: "bolt_inv H (bkt d) \<Longrightarrow> \<not> isl (snd (StxoDB_Put H B s d))"
  by (simp add: StxoDB_Put_def StxoDB_put_def stxo_rec_def put_value_ok buckets str_bytes_Nil OutPoint_String_def Let_def)

lemma bolt_U_Delete_ok: "bolt_inv H (bkt d) \<Longrightarrow> \<not> isl (snd (UtxoDB_Delete H B u d))"
  by (simp add: UtxoDB_Delete_def UtxoDB_delete_def delete_value_ok buckets)

lemma bolt_S_Delete_ok: "bolt_inv H (bkt d) \<Longrightarrow> \<not> isl (snd (StxoDB_Delete H B s d))"
  by (simp add: StxoDB_Delete_def StxoDB_delete_def delete_value_ok buckets)

lemma bolt_T_UpdateHeight_ok: "bolt_inv H (bkt d) \<Longrightarrow> txid \<in> dom (aTxns (bolt_abs H (bkt d))) \<Longrightarrow> txid \<noteq> [] \<Longrightarrow>
    \<not> isl (snd (TxnsDB_UpdateHeight B txid h t d))"
  using txn_wf [of d txid] by (auto simp: TxnsDB_UpdateHeight_def txn_get_step TxnsDB_put_def put_value_ok buckets
      str_bytes_Nil txn_rec_def)

lemma bolt_T_Put_ok: "bolt_inv H (bkt d) \<Longrightarrow> txid \<noteq> [] \<Longrightarrow> \<not> isl (snd (TxnsDB_Put B raw txid val h t wo d))"
  by (simp add: TxnsDB_Put_def TxnsDB_put_def put_value_ok buckets str_bytes_Nil)

lemma bolt_U_GetAll_ok: "bolt_inv H (bkt d) \<Longrightarrow> \<not> isl (UtxoDB_GetAll H B d)"
  using U_GetAll_rows by fastforce

lemma bolt_S_GetAll_ok: "bolt_inv H (bkt d) \<Longrightarrow> \<not> isl (StxoDB_GetAll H B d)"
  using S_GetAll_rows by fastforce

end

interpretation mem_ok: reliable_bolt mem_bolt mem_bkt chainhash_lib
  by unfold_locales (auto simp: mem_bolt_def mem_bkt_def split: option.splits)

section \<open>A small wallet\<close>

text \<open>Hashes spell the version, addresses are script addresses, and the encoding of a transaction is its
  version.\<close>

definition ex_script :: bytes where
  "ex_script = [0, 20] @ path_address [0, 0]"

definition ex_parent :: MsgTx where
  "ex_parent = \<lparr>Version = 1, TxIns = [\<lparr>PreviousOutPoint = ex_op, SignatureScript = [], Witness = [], Sequence = 0\<rparr>],
     TxOuts = [\<lparr>OValue = 5000, OPkScript = ex_script\<rparr>], LockTime = 0\<rparr>"

definition ex_coin :: OutPoint where
  "ex_coin = \<lparr>OpHash = replicate 32 1, OpIndex = 0\<rparr>"

definition ex_child :: MsgTx where
  "ex_child = \<lparr>Version = 2, TxIns = [\<lparr>PreviousOutPoint = ex_coin, SignatureScript = [], Witness = [], Sequence = 0\<rparr>],
     TxOuts = [\<lparr>OValue = 4000, OPkScript = [0, 20] @ path_address [1, 0]\<rparr>], LockTime = 0\<rparr>"

definition toy_wire :: "bytes wire_lib" where
  "toy_wire = \<lparr>TxHash = (\<lambda>tx. replicate 32 (of_int (Version tx))), CheckTransactionSanity = (\<lambda>tx. Inr ()),
     Deserialize = (\<lambda>b. (if b = [1] then ex_parent else ex_child, Inr ())), BtcEncode = (\<lambda>tx. [of_int (Version tx)]),
     NewAddressWitnessPubKeyHash = Inr, AddrScriptAddress = (\<lambda>a. a), PayToAddrScript = (\<lambda>a. Inr ([0, 20] @ a)),
     ExtractPkScriptAddrs = (\<lambda>s. Inr [drop 2 s])\<rparr>"

definition ex_env :: "(mem_db, int list, bytes) tx_env" where
  "ex_env = \<lparr>te_ds = ex_ds, te_hdk = path_lib, te_km = path_km, te_order = [EXTERNAL, INTERNAL],
     te_hash = chainhash_lib, te_wire = toy_wire\<rparr>"

lemma ex_env_simps [simp]:
  "te_ds ex_env = ex_ds" "te_hdk ex_env = path_lib" "te_km ex_env = path_km" "te_order ex_env = [EXTERNAL, INTERNAL]"
  "te_hash ex_env = chainhash_lib" "te_wire ex_env = toy_wire"
  "TxHash toy_wire tx = replicate 32 (of_int (Version tx))"
  by (simp_all add: ex_env_def toy_wire_def)

interpretation ex_txs: reliable_wallet ex_env "\<lambda>d. bolt_abs chainhash_lib (mem_bkt d)"
  "\<lambda>d. bolt_inv chainhash_lib (mem_bkt d)" "\<lambda>s. s" "\<lambda>t. t"
proof (intro reliable_wallet.intro reliable_store.intro tx_store.intro reliable_store_axioms.intro reliable_wallet_axioms.intro)
  show "utxo_store (utxos_of ex_env) (\<lambda>d. bolt_abs chainhash_lib (mem_bkt d)) (\<lambda>d. bolt_inv chainhash_lib (mem_bkt d))"
    unfolding ex_env_simps by (rule mem.U.utxo_store_axioms)
  show "stxo_store (stxos_of ex_env) (\<lambda>d. bolt_abs chainhash_lib (mem_bkt d)) (\<lambda>d. bolt_inv chainhash_lib (mem_bkt d)) (\<lambda>s. s)"
    unfolding ex_env_simps by (rule mem.S.stxo_store_axioms)
  show "txn_store (txns_of ex_env) (\<lambda>d. bolt_abs chainhash_lib (mem_bkt d)) (\<lambda>d. bolt_inv chainhash_lib (mem_bkt d)) (\<lambda>t. t)"
    unfolding ex_env_simps by (rule mem.T.txn_store_axioms)
  show "wallet_keys (DS_Keys (te_ds ex_env)) (\<lambda>d. bolt_abs chainhash_lib (mem_bkt d))
      (\<lambda>d. bolt_inv chainhash_lib (mem_bkt d)) (te_hdk ex_env) (te_km ex_env)"
    unfolding ex_env_simps by (rule ex_wallet.wallet_keys_axioms)
  fix hash :: hash
  assume "length hash = 32"
  then show "txid_string ex_env hash \<noteq> []"
    by (auto simp: chainhash_lib_def EncodeToString_def)
qed (simp_all add: setup_simps mem_ok.bolt_U_Put_ok mem_ok.bolt_S_Put_ok mem_ok.bolt_U_Delete_ok mem_ok.bolt_T_Put_ok
    mem_ok.bolt_U_GetAll_ok mem_ok.bolt_S_GetAll_ok mem_ok.bolt_S_Delete_ok mem_ok.bolt_T_UpdateHeight_ok EXTERNAL_def INTERNAL_def)

section \<open>Dead transactions\<close>

text \<open>The transactions that spent something are recorded.\<close>

definition spenders_recorded :: "('ds, 'k, 'a) tx_env \<Rightarrow> abs_store \<Rightarrow> bool" where
  "spenders_recorded E a \<longleftrightarrow> (\<forall>s \<in> ran (aStxos a). txid_string E (SpendTxid s) \<in> dom (aTxns a))"

text \<open>C24: marking a transaction as dead returns, whatever the datastore answers: one unit of fuel more than
  there are stxos is enough, since every recursive call first removed one.  If no error is returned, no
  coin of the dead transaction and no spend by it or of it is left in the store; and on a datastore that
  does not fail, where the transactions that spent something are recorded, no error is returned.\<close>

theorem markAsDead_terminates:
  assumes "tx_store E A okds norm trunc" and "okds ds" and "card (dom (aStxos (A ds))) < fuel"
  shows "\<exists>ds' r. markAsDead fuel E now txid ds = Some (ds', r) \<and> okds ds' \<and>
    aStxos (A ds') \<subseteq>\<^sub>m aStxos (A ds) \<and>
    (r = Inr () \<longrightarrow>
      (\<forall>op s. aStxos (A ds') op = Some s \<longrightarrow> SpendTxid s \<noteq> txid \<and> OpHash op \<noteq> txid) \<and>
      (\<forall>op u. aUtxos (A ds') op = Some u \<longrightarrow> OpHash op \<noteq> txid)) \<and>
    (reliable_store E A okds norm trunc \<and> spenders_recorded E (A ds) \<longrightarrow> r = Inr ())"
proof -
  obtain ds' r where run: "markAsDead fuel E now txid ds = Some (ds', r)" "okds ds'" "aStxos (A ds') \<subseteq>\<^sub>m aStxos (A ds)"
      "r = Inr () \<longrightarrow> (\<forall>op s. aStxos (A ds') op = Some s \<longrightarrow> SpendTxid s \<noteq> txid \<and> OpHash op \<noteq> txid) \<and>
        (\<forall>op u. aUtxos (A ds') op = Some u \<longrightarrow> OpHash op \<noteq> txid)"
    using tx_store.markAsDead_returns [OF assms, of now txid] by (metis sum.disc(2))
  moreover have "r = Inr ()" if "reliable_store E A okds norm trunc" "spenders_recorded E (A ds)"
    using reliable_store.markAsDead_calm [OF that(1) run(1) assms(2) refl] that(2)
    by (simp add: spenders_recorded_def reliable_store.calm_def [OF that(1)])
  ultimately show ?thesis by blast
qed

lemma ex_bolt_empty: "aUtxos (bolt_abs chainhash_lib (mem_bkt ex_bolt)) = Map.empty"
  "aStxos (bolt_abs chainhash_lib (mem_bkt ex_bolt)) = Map.empty"
  "aTxns (bolt_abs chainhash_lib (mem_bkt ex_bolt)) = Map.empty"
  by (simp_all add: bolt_abs_def ex_bolt_eq mem_bkt_def bkt_names rows_def fun_eq_iff)

theorem markAsDead_terminates_witness:
  "\<exists>ds'. markAsDead 1 ex_env 0 (replicate 32 1) ex_bolt = Some (ds', Inr ())"
proof -
  have "card (dom (aStxos (bolt_abs chainhash_lib (mem_bkt ex_bolt)))) < 1"
    and "spenders_recorded ex_env (bolt_abs chainhash_lib (mem_bkt ex_bolt))"
    by (simp_all add: ex_bolt_empty spenders_recorded_def)
  with markAsDead_terminates [OF ex_txs.tx_store_axioms ex_bolt_inv, of 1] ex_txs.reliable_store_axioms
  show ?thesis by blast
qed

text \<open>C13: on a datastore that does not fail, marking a transaction as dead whose own outputs were not spent
  returns the coins it spent to the unspent ones as they were stored with the spend, removes its spends
  and its outputs, and leaves every other coin alone.\<close>

theorem markAsDead_restores_coins:
  assumes "reliable_store E A okds norm trunc" and "okds ds" and "spenders_recorded E (A ds)"
    and "\<forall>op \<in> dom (aStxos (A ds)). OpHash op \<noteq> txid"
    and "card (dom (aStxos (A ds))) \<le> fuel"
  shows "\<exists>ds'. markAsDead (Suc fuel) E now txid ds = Some (ds', Inr ()) \<and>
    aUtxos (A ds') = (\<lambda>op. if OpHash op = txid then None
        else (case aStxos (A ds) op of None \<Rightarrow> aUtxos (A ds) op
              | Some s \<Rightarrow> if SpendTxid s = txid then Some (SUtxo s) else aUtxos (A ds) op)) \<and>
    aStxos (A ds') = (\<lambda>op. case aStxos (A ds) op of None \<Rightarrow> None
              | Some s \<Rightarrow> if SpendTxid s = txid then None else Some s)"
proof -
  note tx = reliable_store.axioms(1) [OF assms(1)]
  obtain ds' r where run: "markAsDead (Suc fuel) E now txid ds = Some (ds', r)"
    using tx_store.markAsDead_returns [OF tx assms(2), of "Suc fuel" now txid] assms(5) by auto
  have "r = Inr ()"
    using reliable_store.markAsDead_calm [OF assms(1) run assms(2) refl] assms(3)
    by (simp add: spenders_recorded_def reliable_store.calm_def [OF assms(1)])
  with run have "markAsDead (Suc fuel) E now txid ds = Some (ds', Inr ())" by simp
  with tx_store.markAsDead_leaf [OF tx assms(2,4) this] show ?thesis by blast
qed

text \<open>The example: the child spent the parent's coin, and dies.\<close>

definition ex_spent :: Stxo where
  "ex_spent = \<lparr>SUtxo = \<lparr>Op = ex_coin, AtHeight = 100, UValue = 5000, ScriptPubkey = [0, 20], WatchOnly = False,
     Frozen = False\<rparr>, SpendHeight = 0, SpendTxid = replicate 32 2\<rparr>"

definition ex_spent_ds :: mem_db where
  "ex_spent_ds = fst (TxnsDB_Put mem_bolt [2] (txid_string ex_env (replicate 32 2)) (- 1000) 7 0 False
     (fst (StxoDB_Put chainhash_lib mem_bolt ex_spent ex_bolt)))"

lemma ex_spent_ds_abs: "bolt_inv chainhash_lib (mem_bkt ex_spent_ds) \<and>
    bolt_abs chainhash_lib (mem_bkt ex_spent_ds) = (bolt_abs chainhash_lib (mem_bkt ex_bolt))
      \<lparr>aStxos := [ex_coin \<mapsto> ex_spent],
       aTxns := [txid_string ex_env (replicate 32 2) \<mapsto> \<lparr>Txid = txid_string ex_env (replicate 32 2), TValue = - 1000,
         Height = 7, Timestamp = 0, TWatchOnly = False, Bytes = [2]\<rparr>]\<rparr>"
proof -
  obtain d1 r1 where 1: "StxoDB_Put chainhash_lib mem_bolt ex_spent ex_bolt = (d1, r1)"
    by (cases "StxoDB_Put chainhash_lib mem_bolt ex_spent ex_bolt")
  have wf: "wf_stxo ex_spent"
    by (simp add: ex_spent_def wf_stxo_def wf_utxo_def wf_op_def ex_coin_def)
  have "\<not> isl r1"
    using mem_ok.bolt_S_Put_ok [OF ex_bolt_inv, of ex_spent] 1 by simp
  with mem.stxo_put_step [OF ex_bolt_inv wf 1]
  have d1: "bolt_inv chainhash_lib (mem_bkt d1)" "bolt_abs chainhash_lib (mem_bkt d1) =
      (bolt_abs chainhash_lib (mem_bkt ex_bolt))\<lparr>aStxos := [ex_coin \<mapsto> ex_spent]\<rparr>"
    by (simp_all add: ex_bolt_empty ex_spent_def)
  obtain d2 r2 where 2: "TxnsDB_Put mem_bolt [2] (txid_string ex_env (replicate 32 2)) (- 1000) 7 0 False d1 = (d2, r2)"
    by (cases "TxnsDB_Put mem_bolt [2] (txid_string ex_env (replicate 32 2)) (- 1000) 7 0 False d1")
  have "\<not> isl r2"
    using mem_ok.bolt_T_Put_ok [OF d1(1) ex_txs.txid_not_Nil [of "replicate 32 2"], of "[2]" "- 1000" 7 0 False] 2
    by (simp only: ex_env_simps) simp
  moreover have "ex_spent_ds = d2"
    by (simp only: ex_spent_ds_def 1 2 fst_conv)
  ultimately show ?thesis
    using mem.txn_Put_step [OF d1(1) 2] by (simp add: d1(2) ex_bolt_empty)
qed

theorem markAsDead_restores_coins_witness:
  "\<exists>ds'. markAsDead 2 ex_env 0 (replicate 32 2) ex_spent_ds = Some (ds', Inr ()) \<and>
     aUtxos (bolt_abs chainhash_lib (mem_bkt ds')) ex_coin = Some (SUtxo ex_spent)"
proof -
  note a = ex_spent_ds_abs [THEN conjunct2]
  have "spenders_recorded ex_env (bolt_abs chainhash_lib (mem_bkt ex_spent_ds))"
    by (simp add: a spenders_recorded_def ex_spent_def)
  moreover have "\<forall>op \<in> dom (aStxos (bolt_abs chainhash_lib (mem_bkt ex_spent_ds))). OpHash op \<noteq> replicate 32 2"
    by (simp add: a ex_coin_def)
  moreover have "card (dom (aStxos (bolt_abs chainhash_lib (mem_bkt ex_spent_ds)))) \<le> 1"
    by (simp add: a)
  ultimately obtain ds' where "markAsDead (Suc 1) ex_env 0 (replicate 32 2) ex_spent_ds = Some (ds', Inr ())"
      "aUtxos (bolt_abs chainhash_lib (mem_bkt ds')) ex_coin = Some (SUtxo ex_spent)"
    using markAsDead_restores_coins [OF ex_txs.reliable_store_axioms ex_spent_ds_abs [THEN conjunct1], of "replicate 32 2" 1 0]
    by (auto simp: a ex_spent_def ex_coin_def simp del: markAsDead.simps)
  then show ?thesis
    by (intro exI [of _ ds']) (simp only: numeral_2_eq_2 One_nat_def)
qed

section \<open>Adding a transaction\<close>

lemma AddTransaction_effect:
  assumes "reliable_wallet E A okds norm trunc"
    and "okds (store_ds ts)" and "derived (te_hdk E) (te_km E) (A (store_ds ts))"
    and "room (20 * length (TxOuts tx)) (A (store_ds ts))"
    and "CheckTransactionSanity (te_wire E) tx = Inr ()" and "CheckDoubleSpends E tx (store_ds ts) = Inr []"
    and "pay_scripts (te_wire E) (adrs ts) = Inr scripts"
    and "unknown E tx (A (store_ds ts))" and "txids ts (txid_string E (tx_hash E tx)) = None"
  obtains ts' n where "AddTransaction fuel E now tx height timestamp ts = Some (ts', Inr n)" "okds (store_ds ts')"
    "if touches E tx height scripts (A (store_ds ts)) then 0 < n \<and> reliable_wallet.recorded E A norm ts tx height scripts ts'
     else n = 0 \<and> ts' = ts"
proof -
  have bound: "length (TxOuts tx) < 2 ^ 32"
    using assms(4) by (simp add: room_def)
  have ok: "wallet_keys.ok_keys A okds (te_hdk E) (te_km E) (20 * length (TxOuts tx) + 0) (store_ds ts)"
    using assms(1-4) by (simp add: wallet_keys.ok_keys_def [OF reliable_wallet.axioms(2)])
  obtain ts' n where ts': "add_new E tx height timestamp ts = Some (ts', Inr n)" "okds (store_ds ts')"
      "if touches E tx height scripts (A (store_ds ts)) then 0 < n \<and> reliable_wallet.recorded E A norm ts tx height scripts ts'
       else n = 0 \<and> ts' = ts"
    using reliable_wallet.add_new_step [OF assms(1) ok bound assms(7,8), of height timestamp] by blast
  moreover have "AddTransaction fuel E now tx height timestamp ts = Some (ts', Inr n)"
    using reliable_wallet.AddTransaction_new [OF assms(1,5,9,6)] ts'(1) by simp
  ultimately show ?thesis using that by blast
qed


text \<open>The example: the first external address is watched, and the parent pays 5000 to it.\<close>

definition ex_ts :: "mem_db \<Rightarrow> (mem_db, bytes) TxStore" where
  "ex_ts ds = \<lparr>store_ds = ds, adrs = [path_address [0, 0]], txids = Map.empty\<rparr>"

lemma ex_ts_simps [simp]: "store_ds (ex_ts ds) = ds" "txids (ex_ts ds) = Map.empty"
  "pay_scripts toy_wire (adrs (ex_ts ds)) = Inr [ex_script]"
  by (simp_all add: ex_ts_def toy_wire_def ex_script_def)

lemma toy_sane [simp]: "CheckTransactionSanity toy_wire tx = Inr ()"
  by (simp add: toy_wire_def)

lemma ex_no_doubles: "CheckDoubleSpends ex_env tx ex_bolt = Inr []"
  by (simp add: CheckDoubleSpends_def setup_simps TxnsDB_GetAll_def TxnsDB_getAll_def getAll_values_def mem_bolt_def
      ex_bolt_eq bkt_names)

lemma ex_unknown: "unknown ex_env tx (bolt_abs chainhash_lib (mem_bkt ex_bolt))"
  by (simp add: unknown_def ex_bolt_empty)

lemma ex_no_keys: "derived hdk km (bolt_abs chainhash_lib (mem_bkt ex_bolt))"
  "n < 2 ^ 30 \<Longrightarrow> room n (bolt_abs chainhash_lib (mem_bkt ex_bolt))"
  by (simp_all add: derived_def room_def ex_bolt_keys)

lemma ex_paid: "paid_coins ex_env ex_parent h [ex_script] 0 (TxOuts ex_parent) =
    [ex_coin \<mapsto> new_utxo ex_env ex_parent h 0 (TxOuts ex_parent ! 0)]"
  by (simp add: ex_parent_def ex_coin_def)


text \<open>C34: transactions must come in the order of their spends.  When a child is already recorded with a
  confirmed height and its parent is added afterwards, the parent's output it spent becomes a coin and
  stays one: adding the child again returns at once, and the balance counts a coin that the chain has
  spent.\<close>

theorem late_parent_stays_unspent:
  assumes "reliable_wallet E A okds norm trunc"
    and "okds (store_ds ts)" and "derived (te_hdk E) (te_km E) (A (store_ds ts))"
    and "room (20 * length (TxOuts tx)) (A (store_ds ts))"
    and "CheckTransactionSanity (te_wire E) tx = Inr ()" and "CheckDoubleSpends E tx (store_ds ts) = Inr []"
    and "pay_scripts (te_wire E) (adrs ts) = Inr scripts"
    and "unknown E tx (A (store_ds ts))" and "txids ts (txid_string E (tx_hash E tx)) = None"
    and "paid_coins E tx height scripts 0 (TxOuts tx) op = Some u" and "op \<notin> PreviousOutPoint ` set (TxIns tx)"
    and "op \<in> PreviousOutPoint ` set (TxIns child)" and "CheckTransactionSanity (te_wire E) child = Inr ()"
    and "aTxns (A (store_ds ts)) (txid_string E (tx_hash E child)) = Some x"
    and "txids ts (txid_string E (tx_hash E child)) = Some (Height x)" and "0 < Height x"
  shows "\<exists>ts' n. AddTransaction fuel E now tx height timestamp ts = Some (ts', Inr n) \<and>
    aUtxos (A (store_ds ts')) op = Some u \<and>
    AddTransaction fuel' E now' child height' timestamp' ts' = Some (ts', Inr 1)"
proof -
  have bound: "length (TxOuts tx) < 2 ^ 32"
    using assms(4) by (simp add: room_def)
  have ok: "wallet_keys.ok_keys A okds (te_hdk E) (te_km E) (20 * length (TxOuts tx) + 0) (store_ds ts)"
    using assms(1-4) by (simp add: wallet_keys.ok_keys_def [OF reliable_wallet.axioms(2)])
  have touch: "touches E tx height scripts (A (store_ds ts))"
    using assms(10) by (auto simp: touches_def)
  obtain ts' n where ts': "add_new E tx height timestamp ts = Some (ts', Inr n)"
      "reliable_wallet.recorded E A norm ts tx height scripts ts'"
    using reliable_wallet.add_new_step [OF assms(1) ok bound assms(7,8), of height timestamp] touch by auto
  obtain y where y: "A (store_ds ts') = (after_tx E norm tx height scripts (A (store_ds ts)))
        \<lparr>aKeys := aKeys (A (store_ds ts')), aTxns := (aTxns (A (store_ds ts)))(txid_string E (tx_hash E tx) \<mapsto> y)\<rparr>"
      "\<forall>k \<noteq> txid_string E (tx_hash E tx). txids ts' k = txids ts k \<or>
        (\<exists>x. aTxns (A (store_ds ts)) k = Some x \<and> txids ts' k = Some (Height x))"
    using ts'(2) unfolding reliable_wallet.recorded_def [OF assms(1)] Let_def by blast
  have "aUtxos (A (store_ds ts')) = coins_with E tx height scripts (A (store_ds ts)) |` (- PreviousOutPoint ` set (TxIns tx))"
    by (subst y(1)) (simp add: after_tx_def)
  then have "aUtxos (A (store_ds ts')) op = Some u"
    using assms(10,11) by (simp add: coins_with_def restrict_map_def)
  moreover have "txids ts' (txid_string E (tx_hash E child)) = Some (Height x)"
  proof -
    have "txid_string E (tx_hash E child) \<noteq> txid_string E (tx_hash E tx)"
      using assms(9,15) by auto
    with y(2) have "txids ts' (txid_string E (tx_hash E child)) = txids ts (txid_string E (tx_hash E child)) \<or>
        (\<exists>x. aTxns (A (store_ds ts)) (txid_string E (tx_hash E child)) = Some x \<and>
          txids ts' (txid_string E (tx_hash E child)) = Some (Height x))" by blast
    then show ?thesis
      unfolding assms(14,15) by blast
  qed
  then have "AddTransaction fuel' E now' child height' timestamp' ts' = Some (ts', Inr 1)"
    using assms(13,16) by (simp add: AddTransaction_def)
  moreover have "AddTransaction fuel E now tx height timestamp ts = Some (ts', Inr n)"
    using reliable_wallet.AddTransaction_new [OF assms(1,5,9,6)] ts'(1) by simp
  ultimately show ?thesis by blast
qed

text \<open>The example: only the child is recorded, with height 7, then the parent of height 6 comes in.\<close>

abbreviation "child_id \<equiv> txid_string ex_env (replicate 32 2)"

definition ex_child_txn :: Txn where
  "ex_child_txn = \<lparr>Txid = child_id, TValue = - 1000, Height = 7, Timestamp = 0, TWatchOnly = False, Bytes = [2]\<rparr>"

definition ex_late_ds :: mem_db where
  "ex_late_ds = fst (TxnsDB_Put mem_bolt [2] child_id (- 1000) 7 0 False ex_bolt)"

definition ex_late_ts :: "(mem_db, bytes) TxStore" where
  "ex_late_ts = (ex_ts ex_late_ds)\<lparr>txids := [child_id \<mapsto> 7]\<rparr>"

lemma child_id_not_Nil: "child_id \<noteq> []"
  by (rule ex_txs.txid_not_Nil) simp

lemma ex_late_abs: "bolt_inv chainhash_lib (mem_bkt ex_late_ds)"
  "bolt_abs chainhash_lib (mem_bkt ex_late_ds) =
     (bolt_abs chainhash_lib (mem_bkt ex_bolt))\<lparr>aTxns := [child_id \<mapsto> ex_child_txn]\<rparr>"
proof -
  obtain d r where put: "TxnsDB_Put mem_bolt [2] child_id (- 1000) 7 0 False ex_bolt = (d, r)"
    by (cases "TxnsDB_Put mem_bolt [2] child_id (- 1000) 7 0 False ex_bolt")
  have "\<not> isl r"
    using mem_ok.bolt_T_Put_ok [OF ex_bolt_inv child_id_not_Nil, of "[2]" "- 1000" 7 0 False] put by simp
  moreover have "ex_late_ds = d"
    by (simp only: ex_late_ds_def put fst_conv)
  ultimately show "bolt_inv chainhash_lib (mem_bkt ex_late_ds)" "bolt_abs chainhash_lib (mem_bkt ex_late_ds) =
      (bolt_abs chainhash_lib (mem_bkt ex_bolt))\<lparr>aTxns := [child_id \<mapsto> ex_child_txn]\<rparr>"
    using mem.txn_Put_step [OF ex_bolt_inv put] by (simp_all add: ex_bolt_empty ex_child_txn_def)
qed

lemma ex_late_GetAll: "TxnsDB_GetAll mem_bolt True ex_late_ds = Inr [ex_child_txn]"
  using child_id_not_Nil
  by (simp add: ex_late_ds_def TxnsDB_Put_def TxnsDB_put_def put_value_def TxnsDB_GetAll_def TxnsDB_getAll_def
      getAll_values_def mem_bolt_def ex_bolt_eq bkt_names mem_ok.str_bytes_Nil rec_txn_def ex_child_txn_def)

lemma ex_late_no_doubles: "CheckDoubleSpends ex_env ex_parent ex_late_ds = Inr []"
  by (simp add: CheckDoubleSpends_def setup_simps ex_late_GetAll)
    (simp add: ex_child_txn_def newWireTx_def toy_wire_def double_of_def Let_def ex_child_def ex_parent_def ex_coin_def
      ex_op_def)

theorem late_parent_stays_unspent_witness:
  "\<exists>ts' n. AddTransaction 1 ex_env 0 ex_parent 6 0 ex_late_ts = Some (ts', Inr n) \<and>
     aUtxos (bolt_abs chainhash_lib (mem_bkt (store_ds ts'))) ex_coin = Some (new_utxo ex_env ex_parent 6 0 (TxOuts ex_parent ! 0)) \<and>
     AddTransaction 1 ex_env 0 ex_child 7 0 ts' = Some (ts', Inr 1)"
proof (rule late_parent_stays_unspent [OF ex_txs.reliable_wallet_axioms])
  show "derived (te_hdk ex_env) (te_km ex_env) (bolt_abs chainhash_lib (mem_bkt (store_ds ex_late_ts)))"
    "room (20 * length (TxOuts ex_parent)) (bolt_abs chainhash_lib (mem_bkt (store_ds ex_late_ts)))"
    by (simp_all add: ex_late_ts_def derived_def room_def ex_late_abs ex_bolt_keys ex_parent_def)
  show "unknown ex_env ex_parent (bolt_abs chainhash_lib (mem_bkt (store_ds ex_late_ts)))"
    "txids ex_late_ts (txid_string ex_env (tx_hash ex_env ex_parent)) = None"
    using chainhash.HashString_eq [of "replicate 32 1" "replicate 32 2"]
    by (simp_all add: ex_late_ts_def unknown_def ex_late_abs ex_bolt_empty ex_parent_def)
  show "paid_coins ex_env ex_parent 6 [ex_script] 0 (TxOuts ex_parent) ex_coin =
      Some (new_utxo ex_env ex_parent 6 0 (TxOuts ex_parent ! 0))"
    by (simp add: ex_paid)
  show "aTxns (bolt_abs chainhash_lib (mem_bkt (store_ds ex_late_ts))) (txid_string ex_env (tx_hash ex_env ex_child)) =
      Some ex_child_txn"
    by (simp add: ex_late_ts_def ex_late_abs ex_child_def)
  show "CheckDoubleSpends ex_env ex_parent (store_ds ex_late_ts) = Inr []"
    by (simp add: ex_late_ts_def ex_late_no_doubles)
qed (simp_all add: ex_late_ts_def ex_late_abs ex_ts_def toy_wire_def ex_parent_def ex_child_def
    ex_coin_def ex_op_def ex_child_txn_def ex_script_def)

end
