(* ===== verification/Wallet_Props.thy ===== *)
theory Wallet_Props
  imports Wallet_Laws Tx_Props
begin

text \<open>
  Properties of the wallet: it loads what it made, its balance is the total of its coins, and it spends
  and signs with its own spendable coins only.
\<close>

section \<open>Making and loading\<close>

text \<open>A key's text gives the key back, and decoding a storage gives the storage back; an empty seed is left
  out of the text, and decoding keeps the one that was there.\<close>

locale wallet_codec =
  fixes L :: "'k wallet_lib"
  assumes key_text: "NewMaster L seed = Inr k \<Longrightarrow> NewKeyFromString L (KeyString L k) = Inr k"
    and storage_text: "MarshalStorage L st = Inr b \<Longrightarrow>
      UnmarshalStorage L b st0 = (st\<lparr>Seed := if Seed st = [] then Seed st0 else Seed st\<rparr>, Inr ())"

text \<open>The keys of every account of the wallet's master key satisfy the contract.\<close>

definition accounts_ok :: "('ds, 'k, 'a) tx_env \<Rightarrow> ('ds \<Rightarrow> abs_store) \<Rightarrow> ('ds \<Rightarrow> bool) \<Rightarrow> bool" where
  "accounts_ok E A okds \<longleftrightarrow> (\<forall>m int ext. Bip44Derivation (te_hdk E) m = Inr (int, ext) \<longrightarrow>
     wallet_keys (keys_if E) A okds (te_hdk E) \<lparr>internalKey = int, externalKey = ext\<rparr>)"

lemma NewKeyManager_step:
  assumes "accounts_ok E A okds" and "okds ds" and "room (20 + n) (A ds)"
    and "set (te_order E) = {EXTERNAL, INTERNAL}" and "length (te_order E) = 2"
    and "\<And>int ext. Bip44Derivation (te_hdk E) m = Inr (int, ext) \<Longrightarrow>
      derived (te_hdk E) \<lparr>internalKey = int, externalKey = ext\<rparr> (A ds)"
    and "NewKeyManager (te_order E) (te_hdk E) (keys_if E) m ds = Some (ds', Inr km)"
  shows "okds ds' \<and> derived (te_hdk E) km (A ds') \<and> room n (A ds') \<and> grows (A ds) (A ds') \<and>
    Bip44Derivation (te_hdk E) m = Inr (internalKey km, externalKey km)"
proof -
  obtain int ext where b: "Bip44Derivation (te_hdk E) m = Inr (int, ext)"
    using assms(7) by (auto simp: NewKeyManager_def split: sum.splits)
  let ?km = "\<lparr>internalKey = int, externalKey = ext\<rparr>"
  have wk: "wallet_keys (keys_if E) A okds (te_hdk E) ?km"
    using assms(1) b by (auto simp: accounts_ok_def)
  have "wallet_keys.ok_keys A okds (te_hdk E) ?km (20 + n) ds"
    using assms(2,3) assms(6) [OF b] by (simp add: wallet_keys.ok_keys_def [OF wk])
  from wallet_keys.lookahead_step [OF wk this assms(4,5)] obtain ds1 r where
    1: "lookahead (te_order E) (te_hdk E) (keys_if E) ?km ds = Some (ds1, r)"
      "wallet_keys.ok_keys A okds (te_hdk E) ?km n ds1" "grows (A ds) (A ds1)" by blast
  have "ds' = ds1" "km = ?km"
    using assms(7) b 1(1) by (auto simp: NewKeyManager_def thenO_eq_Inr)
  then show ?thesis
    using 1 b by (simp add: wallet_keys.ok_keys_def [OF wk])
qed

lemma NewKeyManager_ok:
  assumes "accounts_ok E A okds" and "okds ds" and "room (20 + n) (A ds)"
    and "set (te_order E) = {EXTERNAL, INTERNAL}" and "length (te_order E) = 2"
    and "Bip44Derivation (te_hdk E) m = Inr (internalKey km, externalKey km)" and "derived (te_hdk E) km (A ds)"
    and "\<forall>d sa kp. okds d \<longrightarrow> length sa = 20 \<longrightarrow> \<not> isl (snd (K_Put (keys_if E) sa kp d))"
  shows "\<exists>ds'. NewKeyManager (te_order E) (te_hdk E) (keys_if E) m ds = Some (ds', Inr km) \<and> okds ds' \<and>
    grows (A ds) (A ds')"
proof -
  have km: "\<lparr>internalKey = internalKey km, externalKey = externalKey km\<rparr> = km" by simp
  have wk: "wallet_keys (keys_if E) A okds (te_hdk E) km"
  proof -
    have "wallet_keys (keys_if E) A okds (te_hdk E) \<lparr>internalKey = internalKey km, externalKey = externalKey km\<rparr>"
      using assms(1,6) by (simp only: accounts_ok_def)
    then show ?thesis unfolding km .
  qed
  have ok: "wallet_keys.ok_keys A okds (te_hdk E) km (20 + n) ds"
    using assms(2,3,7) by (simp add: wallet_keys.ok_keys_def [OF wk])
  from wallet_keys.lookahead_step [OF wk this assms(4,5)] obtain ds' r where
    1: "lookahead (te_order E) (te_hdk E) (keys_if E) km ds = Some (ds', r)" "okds ds'" "grows (A ds) (A ds')"
    by (auto simp: wallet_keys.ok_keys_def [OF wk])
  have "\<not> isl r"
    by (rule wallet_keys.lookahead_ok [OF wk _ ok assms(4,5) 1(1)]) (use assms(8) in \<open>simp add: wallet_keys.puts_ok_def [OF wk]\<close>)
  then have "r = Inr ()" by (cases r) auto
  then show ?thesis
    using 1 assms(6) by (simp add: NewKeyManager_def Let_def km)
qed

lemma grows_only_keys:
  assumes "grows a b"
  shows "aEnc b = aEnc a" "aCfg b = aCfg a"
proof -
  have b: "b = a\<lparr>aKeys := aKeys b\<rparr>" using assms by (simp only: grows_def)
  show "aEnc b = aEnc a" by (subst b) simp
  show "aCfg b = aCfg a" by (subst b) simp
qed

text \<open>What a new wallet leaves: the storage under its password, the accounts' keys and the creation date.\<close>

lemma makeBtcElectrumWallet_leaves:
  assumes "accounts_ok E A okds" and "enc_store (DS_Enc (te_ds E)) A okds opens same_key"
    and "cfg_store (DS_Cfg (te_ds E)) A okds dtrunc" and "set (te_order E) = {EXTERNAL, INTERNAL}" and "length (te_order E) = 2"
    and "okds ds" and "aKeys (A ds) = Map.empty" and "makeBtcElectrumWallet L E storeEncSeed now pw seed ds = Some (ds1, Inr w)"
  obtains m pub b raw where "NewMaster L seed = Inr m" "storage w = new_storage L storeEncSeed m pub pw seed"
    "pw \<noteq> []" "MarshalStorage L (storage w) = Inr b" "opens raw pw = Inr b" "\<And>p. \<not> same_key pw p \<Longrightarrow> isl (opens raw p)"
    "okds ds1" "aEnc (A ds1) = Some raw" "aCfg (A ds1) = Some (dtrunc now)" "derived (te_hdk E) (keyManager w) (A ds1)"
    "room 20 (A ds1)" "Bip44Derivation (te_hdk E) m = Inr (internalKey (keyManager w), externalKey (keyManager w))"
proof -
  obtain m pub d1 d2 km where make: "NewMaster L seed = Inr m" "Neuter L m = Inr pub"
      "StorageManager_Put L (DS_Enc (te_ds E)) (storage w) pw ds = (d1, Inr ())"
      "storage w = new_storage L storeEncSeed m pub pw seed"
      "NewKeyManager (te_order E) (te_hdk E) (keys_if E) m d1 = Some (d2, Inr km)"
      "PutCreationDate (DS_Cfg (te_ds E)) now d2 = (ds1, Inr ())" "keyManager w = km"
    using assms(8) by (auto simp: makeBtcElectrumWallet_def thenO_eq_Inr read_eq_Inr Let_def split: prod.splits)
  obtain b where b: "pw \<noteq> []" "MarshalStorage L (storage w) = Inr b"
      "PutEncrypted (DS_Enc (te_ds E)) b pw ds = (d1, Inr ())"
    using make(3) by (auto simp: StorageManager_Put_def split: if_splits sum.splits)
  obtain raw where raw: "okds d1" "A d1 = (A ds)\<lparr>aEnc := Some raw\<rparr>" "opens raw pw = Inr b"
      "\<And>p. \<not> same_key pw p \<Longrightarrow> isl (opens raw p)"
    using enc_store.E_Put [OF assms(2,6) b(3)] by auto
  have keys1: "aKeys (A d1) = Map.empty"
    using assms(7) by (simp add: raw(2))
  have km: "okds d2" "derived (te_hdk E) km (A d2)" "room 20 (A d2)" "grows (A d1) (A d2)"
      "Bip44Derivation (te_hdk E) m = Inr (internalKey km, externalKey km)"
    using NewKeyManager_step [OF assms(1) raw(1) _ assms(4,5) _ make(5), of 20] keys1
    by (auto simp: room_def derived_def)
  have ds1: "okds ds1" "A ds1 = (A d2)\<lparr>aCfg := Some (dtrunc now)\<rparr>"
    using cfg_store.C_Put [OF assms(3) km(1) make(6)] by auto
  have "aEnc (A ds1) = Some raw"
    using grows_only_keys(1) [OF km(4)] by (simp add: ds1(2) raw(2))
  then show thesis
    using that [OF make(1,4) b(1,2) raw(3,4) ds1(1)] km by (auto simp: make(7) ds1(2) derived_def room_def)
qed

text \<open>C10: a wallet that was made is loaded again with its password: the same keys and storage, the creation
  date with the precision of the database, every key it had; a password that derives another key is refused and changes nothing.\<close>

theorem load_after_make:
  assumes "wallet_codec L" and "accounts_ok E A okds" and "enc_store (DS_Enc (te_ds E)) A okds opens same_key"
    and "cfg_store (DS_Cfg (te_ds E)) A okds dtrunc"
    and "\<forall>d sa kp. okds d \<longrightarrow> length sa = 20 \<longrightarrow> \<not> isl (snd (K_Put (keys_if E) sa kp d))"
    and "set (te_order E) = {EXTERNAL, INTERNAL}" and "length (te_order E) = 2"
    and "okds ds" and "aKeys (A ds) = Map.empty"
    and "makeBtcElectrumWallet L E storeEncSeed now pw seed ds = Some (ds1, Inr w)"
  shows "(\<exists>ds2 w2. LoadBtcElectrumWallet L E pw ds1 = Some (ds2, Inr w2) \<and> keyManager w2 = keyManager w \<and>
      storage w2 = storage w \<and> creationDate w2 = dtrunc now \<and> IsValidPw L (storage w2) pw \<and>
      aKeys (A ds1) \<subseteq>\<^sub>m aKeys (A ds2)) \<and>
    (\<not> same_key pw pw' \<longrightarrow> (\<exists>e. LoadBtcElectrumWallet L E pw' ds1 = Some (ds1, Inl e)))"
proof -
  obtain m pub b raw where made: "NewMaster L seed = Inr m" "storage w = new_storage L storeEncSeed m pub pw seed"
      "pw \<noteq> []" "MarshalStorage L (storage w) = Inr b" "opens raw pw = Inr b" "\<And>p. \<not> same_key pw p \<Longrightarrow> isl (opens raw p)"
      "okds ds1" "aEnc (A ds1) = Some raw" "aCfg (A ds1) = Some (dtrunc now)" "derived (te_hdk E) (keyManager w) (A ds1)"
      "room 20 (A ds1)" "Bip44Derivation (te_hdk E) m = Inr (internalKey (keyManager w), externalKey (keyManager w))"
    by (rule makeBtcElectrumWallet_leaves [OF assms(2-4,6-10)]) blast
  have open1: "GetDecrypted (DS_Enc (te_ds E)) p ds1 = opens raw p" for p
    by (rule enc_store.E_Get [OF assms(3) made(7,8)])
  have st: "UnmarshalStorage L b NewStorageManager = (storage w, Inr ())"
    using wallet_codec.storage_text [OF assms(1) made(4)] by (simp add: NewStorageManager_def)
  have key: "NewKeyFromString L (Xprv (storage w)) = Inr m"
    using wallet_codec.key_text [OF assms(1) made(1)] by (simp add: made(2) new_storage_def Let_def)
  obtain ds2 where load: "NewKeyManager (te_order E) (te_hdk E) (keys_if E) m ds1 = Some (ds2, Inr (keyManager w))"
      "okds ds2" "grows (A ds1) (A ds2)"
    using NewKeyManager_ok [OF assms(2) made(7) _ assms(6,7) made(12) _ assms(5), of 0] made(10,11) by auto
  have "GetCreationDate (DS_Cfg (te_ds E)) ds2 = Inr (dtrunc now)"
    by (rule cfg_store.C_Get [OF assms(4) load(2)]) (simp add: grows_only_keys [OF load(3)] made(9))
  then have "LoadBtcElectrumWallet L E pw ds1 = Some (ds2, Inr \<lparr>storage = storage w,
      txstore = NewTxStore (E\<lparr>te_km := keyManager w\<rparr>) ds2, keyManager = keyManager w, feeProvider = DefaultFeeProvider,
      creationDate = dtrunc now, blockchainTip = 0, running = False\<rparr>)"
    using made(3) open1 made(5) st key load(1)
    by (simp add: LoadBtcElectrumWallet_def loadBtcElectrumWallet_def StorageManager_Get_def Let_def)
  moreover have "IsValidPw L (storage w) pw"
    using made(3) by (simp add: IsValidPw_def made(2) new_storage_def Let_def)
  moreover have "aKeys (A ds1) \<subseteq>\<^sub>m aKeys (A ds2)"
    using load(3) by (simp add: grows_def)
  moreover have "\<exists>e. LoadBtcElectrumWallet L E pw' ds1 = Some (ds1, Inl e)" if "\<not> same_key pw pw'"
    using made(6) [OF that] open1 [of pw']
    by (auto simp: LoadBtcElectrumWallet_def loadBtcElectrumWallet_def StorageManager_Get_def ErrEmptyPassword_def isl_def)
  ultimately show ?thesis
    by simp
qed

text \<open>The example: the seed of a new wallet is the name of its key tree's root, and the texts are the values.\<close>

definition seed_storage :: "bytes \<Rightarrow> Storage" where
  "seed_storage b = \<lparr>StVersion = ''0.1'', Xprv = ''xprv'', Xpub = ''xprv'', ShaPw = b, Seed = []\<rparr>"

definition toy_lib :: "int list wallet_lib" where
  "toy_lib = \<lparr>NewMaster = (\<lambda>seed. Inr []), Neuter = Inr, KeyString = (\<lambda>k. ''xprv''), NewKeyFromString = (\<lambda>s. Inr []),
     HashB = str_bytes, NewMnemonic = (\<lambda>ent. Inr ''abandon''), NewSeed = str_bytes, NewSeedWithErrorChecking = (\<lambda>m. Inr (str_bytes m)),
     MarshalStorage = (\<lambda>st. if st = seed_storage (ShaPw st) then Inr (ShaPw st) else Inl (Err ''no text'')),
     UnmarshalStorage = (\<lambda>b st0. ((seed_storage b)\<lparr>Seed := Seed st0\<rparr>, Inr ()))\<rparr>"

interpretation toy_codec: wallet_codec toy_lib
  by unfold_locales (auto simp: toy_lib_def seed_storage_def split: if_splits)

lemma ex_accounts: "accounts_ok ex_env (\<lambda>d. bolt_abs chainhash_lib (mem_bkt d)) (\<lambda>d. bolt_inv chainhash_lib (mem_bkt d))"
  unfolding accounts_ok_def
proof (intro allI impI)
  fix m int ext
  assume "Bip44Derivation (te_hdk ex_env) m = Inr (int, ext)"
  then have "\<lparr>internalKey = int, externalKey = ext\<rparr> = km_at (m @ [HardenedKeyStart + 44, HardenedKeyStart, HardenedKeyStart])"
    by (auto simp: Bip44Derivation_def path_lib_def km_at_def)
  then show "wallet_keys (keys_if ex_env) (\<lambda>d. bolt_abs chainhash_lib (mem_bkt d)) (\<lambda>d. bolt_inv chainhash_lib (mem_bkt d))
      (te_hdk ex_env) \<lparr>internalKey = int, externalKey = ext\<rparr>"
    using ex_wallet.wallet_keys_axioms by simp
qed

lemma mem_put_ok:
  assumes "bolt_inv chainhash_lib (mem_bkt d)" and "n \<in> {keysBkt, configBkt, encBkt}" and "k \<noteq> []"
  shows "\<not> isl (snd (put_value mem_bolt n k v d))"
  by (rule mem_ok.put_value_ok [OF _ assms(3)]) (use assms(1,2) in \<open>auto simp: bolt_inv_def\<close>)

lemma mem_K_Put_ok:
  assumes "bolt_inv chainhash_lib (mem_bkt d)" and "length sa = 20"
  shows "\<not> isl (snd (KeysDB_Put mem_bolt sa kp d))"
proof -
  have "sa \<noteq> []"
    using assms(2) by auto
  then show ?thesis
    using mem_put_ok [OF assms(1), of keysBkt sa] assms(2) by (simp add: KeysDB_Put_def KeysDB_put_def)
qed

lemma mem_Enc_Put_ok: "bolt_inv chainhash_lib (mem_bkt d) \<Longrightarrow>
    \<not> isl (snd (EncDB_PutEncrypted toy_crypto (replicate 24 7) mem_bolt b pw d))"
  unfolding EncDB_PutEncrypted_def by (rule mem_put_ok) (simp_all add: storageKey_def str_bytes_def)

lemma mem_Cfg_Put_ok: "bolt_inv chainhash_lib (mem_bkt d) \<Longrightarrow> \<not> isl (snd (CfgDB_PutCreationDate mem_bolt t d))"
  unfolding CfgDB_PutCreationDate_def by (rule mem_put_ok) (simp_all add: creationKey_def str_bytes_def)

lemma ex_made:
  "\<exists>ds1 w. makeBtcElectrumWallet toy_lib ex_env False 1700000000 ''pw'' [] ex_bolt = Some (ds1, Inr w)"
proof -
  define st where "st = new_storage toy_lib False [] [] ''pw'' []"
  have st: "st = seed_storage (str_bytes ''pw'')"
    by (simp add: st_def new_storage_def seed_storage_def NewStorageManager_def toy_lib_def Let_def)
  obtain d1 r1 where 1: "PutEncrypted (DS_Enc ex_ds) (str_bytes ''pw'') ''pw'' ex_bolt = (d1, r1)"
    by (cases "PutEncrypted (DS_Enc ex_ds) (str_bytes ''pw'') ''pw'' ex_bolt")
  have r1: "r1 = Inr ()"
    using mem_Enc_Put_ok [OF ex_bolt_inv, of "str_bytes ''pw''" "''pw''"] 1 by (cases r1) (auto simp: setup_simps)
  have d1: "bolt_inv chainhash_lib (mem_bkt d1)" "aKeys (bolt_abs chainhash_lib (mem_bkt d1)) = Map.empty"
    using mem_enc.Enc.E_Put [OF ex_bolt_inv 1] r1 ex_bolt_keys by auto
  define km where "km = km_at [HardenedKeyStart + 44, HardenedKeyStart, HardenedKeyStart]"
  have "Bip44Derivation (te_hdk ex_env) [] = Inr (internalKey km, externalKey km)"
    by (simp add: Bip44Derivation_def path_lib_def km_at_def km_def)
  with NewKeyManager_ok [OF ex_accounts d1(1), of 0 "[]" km] d1(2)
  obtain d2 where 2: "NewKeyManager (te_order ex_env) (te_hdk ex_env) (keys_if ex_env) [] d1 = Some (d2, Inr km)"
      "bolt_inv chainhash_lib (mem_bkt d2)"
    by (auto simp: room_def derived_def setup_simps mem_K_Put_ok EXTERNAL_def INTERNAL_def)
  obtain d3 r3 where 3: "PutCreationDate (DS_Cfg ex_ds) 1700000000 d2 = (d3, r3)"
    by (cases "PutCreationDate (DS_Cfg ex_ds) 1700000000 d2")
  have "r3 = Inr ()"
    using mem_Cfg_Put_ok [OF 2(2), of 1700000000] 3 by (cases r3) (auto simp: setup_simps)
  moreover have "StorageManager_Put toy_lib (DS_Enc ex_ds) st ''pw'' ex_bolt = (d1, Inr ())"
    using 1 r1 by (simp add: StorageManager_Put_def st toy_lib_def seed_storage_def)
  ultimately show ?thesis
    using 2(1) 3 by (simp add: makeBtcElectrumWallet_def toy_lib_def [THEN arg_cong [where f = NewMaster]]
        toy_lib_def [THEN arg_cong [where f = Neuter]] st_def Let_def)
qed

theorem load_after_make_witness:
  "\<exists>ds1 w ds2 w2. makeBtcElectrumWallet toy_lib ex_env False 1700000000 ''pw'' [] ex_bolt = Some (ds1, Inr w) \<and>
     LoadBtcElectrumWallet toy_lib ex_env ''pw'' ds1 = Some (ds2, Inr w2) \<and> keyManager w2 = keyManager w \<and>
     (\<exists>e. LoadBtcElectrumWallet toy_lib ex_env ''no'' ds1 = Some (ds1, Inl e))"
proof -
  obtain ds1 w where made: "makeBtcElectrumWallet toy_lib ex_env False 1700000000 ''pw'' [] ex_bolt = Some (ds1, Inr w)"
    using ex_made by blast
  have enc: "enc_store (DS_Enc (te_ds ex_env)) (\<lambda>d. bolt_abs chainhash_lib (mem_bkt d))
      (\<lambda>d. bolt_inv chainhash_lib (mem_bkt d)) (decryptBytes toy_crypto) (\<lambda>pw pw'. IDKey toy_crypto pw = IDKey toy_crypto pw')"
    using mem_enc.Enc.enc_store_axioms by simp
  have cfg: "cfg_store (DS_Cfg (te_ds ex_env)) (\<lambda>d. bolt_abs chainhash_lib (mem_bkt d)) (\<lambda>d. bolt_inv chainhash_lib (mem_bkt d)) (\<lambda>t. t)"
    using mem.Cfg.cfg_store_axioms by simp
  have "IDKey toy_crypto ''pw'' \<noteq> IDKey toy_crypto ''no''"
    by (simp add: toy_crypto_def str_bytes_def)
  moreover have "aKeys (bolt_abs chainhash_lib (mem_bkt ex_bolt)) = Map.empty"
    using ex_bolt_keys by auto
  ultimately show ?thesis
    using load_after_make [OF toy_codec.wallet_codec_axioms ex_accounts enc cfg _ _ _ ex_bolt_inv _ made, of "''no''"] made
    by (auto simp: setup_simps mem_K_Put_ok EXTERNAL_def INTERNAL_def)
qed

section \<open>The balance\<close>



end
