(* ===== verification/Spend_Props.thy ===== *)
theory Spend_Props
  imports Wallet_Props "HOL-Library.Multiset"
begin

text \<open>
  Properties of spending and signing: with libraries that keep their documented laws, a transaction the
  wallet builds or signs names its own confirmed coins only, and the change index it returns is the one
  from before the outputs were sorted.
\<close>

section \<open>What the libraries promise\<close>

text \<open>Selected coins are among those offered; an authored transaction has the inputs of the last call of the
  input source, and the outputs with at most one change output behind them; sorting permutes inputs and
  outputs, the outputs by value; adding scripts changes scripts only.\<close>

locale spend_api =
  fixes P :: "('k, 'a) spend_lib"
  assumes select: "CoinSelect P target coins = Inr cs \<Longrightarrow> set cs \<subseteq> set coins"
    and author: "NewUnsignedTransaction P outs feePerKB source change scriptSize = Inr (tx, ci, target) \<Longrightarrow>
      (\<exists>tot. source target = Inr (tot, TxIns tx)) \<and>
      (if ci < 0 then TxOuts tx = outs
       else ci = int (length outs) \<and> (\<exists>v s. change = Inr s \<and> TxOuts tx = outs @ [\<lparr>OValue = v, OPkScript = s\<rparr>]))"
    and sorts: "mset (TxIns (InPlaceSort P tx)) = mset (TxIns tx)" "mset (TxOuts (InPlaceSort P tx)) = mset (TxOuts tx)"
      "sorted (map OValue (TxOuts (InPlaceSort P tx)))"
    and scripts: "AddAllInputScripts P tx prevs vals getKey = Inr tx' \<Longrightarrow>
      map PreviousOutPoint (TxIns tx') = map PreviousOutPoint (TxIns tx) \<and> TxOuts tx' = TxOuts tx"
begin

lemma input_ops:
  assumes "inputSource P coins target = Inr (tot, ins)"
  shows "PreviousOutPoint ` set ins \<subseteq> coin_op ` set coins"
proof -
  obtain cs where cs: "CoinSelect P target coins = Inr cs" "ins = map coin_input cs"
    using assms by (auto simp: inputSource_def split: sum.splits)
  then show ?thesis
    using select [OF cs(1)] by (auto simp: coin_input_def)
qed

lemma build_result:
  assumes "buildTx P E now resp amount address feeLevel w = (w', Inr (ci, tx))"
  obtains script where "\<not> IsDust amount" "PayToAddrScript (te_wire E) address = Inr script"
    "PreviousOutPoint ` set (TxIns tx) \<subseteq> coin_op ` set (gatherCoins E True w)"
    "sorted (map OValue (TxOuts tx))"
    "if ci < 0 then TxOuts tx = [\<lparr>OValue = amount, OPkScript = script\<rparr>]
     else ci = 1 \<and> (\<exists>v s. changeSource E (wallet_ds w) = Inr s \<and>
       mset (TxOuts tx) = {#\<lparr>OValue = amount, OPkScript = script\<rparr>, \<lparr>OValue = v, OPkScript = s\<rparr>#})"
proof -
  let ?out = "\<lambda>script. \<lparr>OValue = amount, OPkScript = script\<rparr>"
  have dust: "\<not> IsDust amount"
    using assms by (auto simp: buildTx_def split: if_splits)
  obtain script where script: "PayToAddrScript (te_wire E) address = Inr script"
    using assms dust by (auto simp: buildTx_def split: sum.splits)
  obtain fp r where fp: "GetFeePerByte now resp (feeProvider w) feeLevel = (fp, r)"
    by (cases "GetFeePerByte now resp (feeProvider w) feeLevel")
  obtain fee where fee: "r = Inr fee"
    using assms dust script fp by (cases r) (auto simp: buildTx_def wallet_GetFeePerByte_def Let_def)
  obtain tx0 target and prevOuts :: "TxOut list" where new: "NewUnsignedTransaction P [?out script] (fee * 1000) (inputSource P (gatherCoins E True w))
        (changeSource E (wallet_ds w)) 33 = Inr (tx0, ci, target)"
    and add: "AddAllInputScripts P (clear_scripts (InPlaceSort P tx0)) (map OPkScript prevOuts) (map OValue prevOuts)
        (secretSource_GetKey P E (wallet_ds w)) = Inr tx"
    using assms dust script fp fee by (auto simp: buildTx_def wallet_GetFeePerByte_def Let_def thenR_eq_Inr)
  obtain tot where "inputSource P (gatherCoins E True w) target = Inr (tot, TxIns tx0)"
    using author [OF new] by blast
  note ins = input_ops [OF this]
  have "set (TxIns (InPlaceSort P tx0)) = set (TxIns tx0)"
    using sorts(1) [of tx0] by (metis set_mset_mset)
  moreover have "PreviousOutPoint ` set (TxIns tx) = PreviousOutPoint ` set (TxIns (InPlaceSort P tx0))"
    using scripts [OF add, THEN conjunct1, THEN arg_cong [where f = set]] by (simp add: clear_scripts_def image_image)
  ultimately have "PreviousOutPoint ` set (TxIns tx) \<subseteq> coin_op ` set (gatherCoins E True w)"
    using ins by simp
  moreover have outs: "TxOuts tx = TxOuts (InPlaceSort P tx0)"
    using scripts [OF add] by (simp add: clear_scripts_def)
  moreover have "if ci < 0 then TxOuts tx = [?out script] else ci = 1 \<and> (\<exists>v s. changeSource E (wallet_ds w) = Inr s \<and>
      mset (TxOuts tx) = {#?out script, \<lparr>OValue = v, OPkScript = s\<rparr>#})"
    using author [OF new] sorts(2) [of tx0] by (auto simp: outs split: if_splits)
  ultimately show ?thesis
    using that dust script sorts(3) [of tx0] by simp
qed

end

section \<open>Spending\<close>

lemma gathered_spendable:
  assumes "utxo_store (utxos_of E) A okds" and "okds (wallet_ds w)" and "op \<in> coin_op ` set (gatherCoins E True w)"
  shows "\<exists>u. aUtxos (A (wallet_ds w)) op = Some u \<and> spendable u"
proof (cases "U_GetAll (utxos_of E) (wallet_ds w)")
  case (Inl e)
  then show ?thesis using assms(3) by (simp add: gatherCoins_def)
next
  case (Inr us)
  then obtain u where u: "u \<in> set us" "spendable u" "op = Op u"
    using assms(3) by (auto simp: gatherCoins_def gather_loop_set)
  then show ?thesis
    using lists_map_mem [OF utxo_store.U_GetAll [OF assms(1,2) Inr] u(1)] by blast
qed

text \<open>C5: a transaction \<open>Spend\<close> builds needs the wallet's password, and each of its inputs names a confirmed coin
  of the wallet that is neither frozen nor watch-only; in particular a coin that was just frozen is not
  spent.  Its outputs are the payment and at most one change output.\<close>

theorem Spend_uses_spendable_coins:
  assumes "spend_api P" and "utxo_store (utxos_of E) A okds" and "okds (wallet_ds w)"
    and "wallet_Spend L P E now resp pw amount address feeLevel w = (w', Inr (ci, tx))"
  shows "IsValidPw L (storage w) pw \<and> 1000 \<le> amount \<and>
    (\<forall>txin \<in> set (TxIns tx). \<exists>u. aUtxos (A (wallet_ds w)) (PreviousOutPoint txin) = Some u \<and>
       0 < AtHeight u \<and> \<not> Frozen u \<and> \<not> WatchOnly u) \<and>
    (\<forall>op ds0. wallet_FreezeUTXO E op ds0 = (wallet_ds w, Inr ()) \<longrightarrow> okds ds0 \<longrightarrow>
       op \<notin> PreviousOutPoint ` set (TxIns tx)) \<and>
    (\<exists>script. PayToAddrScript (te_wire E) address = Inr script \<and>
       \<lparr>OValue = amount, OPkScript = script\<rparr> \<in> set (TxOuts tx) \<and> length (TxOuts tx) \<le> 2)"
proof -
  have pw: "IsValidPw L (storage w) pw" and build: "buildTx P E now resp amount address feeLevel w = (w', Inr (ci, tx))"
    using assms(4) by (auto simp: wallet_Spend_def split: if_splits)
  obtain script where b: "\<not> IsDust amount" "PayToAddrScript (te_wire E) address = Inr script"
    "PreviousOutPoint ` set (TxIns tx) \<subseteq> coin_op ` set (gatherCoins E True w)"
    "if ci < 0 then TxOuts tx = [\<lparr>OValue = amount, OPkScript = script\<rparr>]
     else ci = 1 \<and> (\<exists>v s. changeSource E (wallet_ds w) = Inr s \<and>
       mset (TxOuts tx) = {#\<lparr>OValue = amount, OPkScript = script\<rparr>, \<lparr>OValue = v, OPkScript = s\<rparr>#})"
    by (rule spend_api.build_result [OF assms(1) build]) blast
  have ins: "\<exists>u. aUtxos (A (wallet_ds w)) op = Some u \<and> spendable u" if "op \<in> PreviousOutPoint ` set (TxIns tx)" for op
    using gathered_spendable [OF assms(2,3)] that b(3) by blast
  have frozen: "op \<notin> PreviousOutPoint ` set (TxIns tx)"
    if f: "wallet_FreezeUTXO E op ds0 = (wallet_ds w, Inr ())" "okds ds0" for op ds0
  proof -
    obtain us u where us: "U_GetAll (utxos_of E) ds0 = Inr us" "u \<in> set us" "Op u = op"
        "U_Freeze (utxos_of E) u ds0 = (wallet_ds w, Inr ())"
      using f(1) by (auto simp: wallet_FreezeUTXO_def split: sum.splits option.splits dest!: find_Some_mem)
    have "aUtxos (A ds0) op = Some u"
      using lists_map_mem [OF utxo_store.U_GetAll [OF assms(2) f(2) us(1)] us(2)] us(3) by simp
    moreover have "wf_utxo u"
      by (rule utxo_store.U_GetAll_wf [OF assms(2) f(2) us(1,2)])
    ultimately have "aUtxos (A (wallet_ds w)) op = Some (u\<lparr>Frozen := True\<rparr>)"
      using utxo_store.U_Freeze [OF assms(2) f(2) _ us(4)] us(3) by (simp add: alter_def)
    then show ?thesis
      using ins [of op] by (auto simp: spendable_def)
  qed
  have "\<lparr>OValue = amount, OPkScript = script\<rparr> \<in> set (TxOuts tx) \<and> length (TxOuts tx) \<le> 2"
  proof (cases "ci < 0")
    case False
    then obtain v s where "mset (TxOuts tx) = {#\<lparr>OValue = amount, OPkScript = script\<rparr>, \<lparr>OValue = v, OPkScript = s\<rparr>#}"
      using b(4) by auto
    then show ?thesis
      by (metis le_refl mset_eq_length numeral_2_eq_2 set_mset_mset size_add_mset size_empty size_mset union_single_eq_member)
  qed (use b(4) in simp)
  with pw b(1,2) ins frozen show ?thesis
    by (fastforce simp: IsDust_def spendable_def)
qed

text \<open>The example: a wallet with one coin of 5000 and one change key.\<close>

definition toy_spend :: "(int list, bytes) spend_lib" where
  "toy_spend = \<lparr>CoinSelect = (\<lambda>target cs. Inr cs),
     NewUnsignedTransaction = (\<lambda>outs fee source change sz.
       (let target = sum_list (map OValue outs) in
        thenR (source target) (\<lambda>(tot, ins).
          (let tx = (\<lambda>os. \<lparr>Version = 2, TxIns = ins, TxOuts = os, LockTime = 0\<rparr>) in
           if tot \<le> target then Inr (tx outs, - 1, target)
           else thenR change (\<lambda>s. Inr (tx (outs @ [\<lparr>OValue = tot - target, OPkScript = s\<rparr>]), int (length outs), target)))))),
     InPlaceSort = (\<lambda>tx. tx\<lparr>TxOuts := sort_key OValue (TxOuts tx)\<rparr>),
     AddAllInputScripts = (\<lambda>tx prevs vals getKey. Inr tx), ECPrivKey = (\<lambda>k. Inr []), ScriptToAddr = (\<lambda>s. Inr (drop 2 s)),
     GetScriptClass = (\<lambda>s. WitnessV0PubKeyHashTy), WitnessSignature = (\<lambda>tx i v s k. Inr [[1]]),
     SignatureScriptOf = (\<lambda>tx i s k. Inr [1]), Engine = (\<lambda>s tx i v. Inr ()), SerializeTx = (\<lambda>tx. Inr [])\<rparr>"

interpretation toy_spend: spend_api toy_spend
proof unfold_locales
  fix outs feePerKB change scriptSize tx ci target and source :: "int \<Rightarrow> (int \<times> TxIn list) result"
  assume "NewUnsignedTransaction toy_spend outs feePerKB source change scriptSize = Inr (tx, ci, target)"
  then show "(\<exists>tot. source target = Inr (tot, TxIns tx)) \<and>
      (if ci < 0 then TxOuts tx = outs
       else ci = int (length outs) \<and> (\<exists>v s. change = Inr s \<and> TxOuts tx = outs @ [\<lparr>OValue = v, OPkScript = s\<rparr>]))"
    by (auto simp: toy_spend_def Let_def thenR_eq_Inr split: if_splits)
qed (auto simp: toy_spend_def)

definition ex_own :: Utxo where
  "ex_own = \<lparr>Op = ex_coin, AtHeight = 100, UValue = 5000, ScriptPubkey = [0, 20] @ path_address [1, 0], WatchOnly = False,
     Frozen = False\<rparr>"

definition ex_rich :: mem_db where
  "ex_rich = fst (UtxoDB_Put chainhash_lib mem_bolt ex_own
     (fst (KeysDB_Put mem_bolt (path_address [1, 0]) \<lparr>Change = INTERNAL, Index = 0\<rparr> ex_bolt)))"

definition ex_keyed :: mem_db where
  "ex_keyed = fst (KeysDB_Put mem_bolt (path_address [1, 0]) \<lparr>Change = INTERNAL, Index = 0\<rparr> ex_bolt)"

lemma path_address_length [simp]: "length (path_address k) = 20"
  by (rule path_script)

lemma path_address_not_Nil [simp]: "path_address k \<noteq> []"
  using path_address_length [of k] by (metis list.size(3) zero_neq_numeral)

lemma first_key_abs:
  assumes "length sa = 20" and "Change kp \<in> {EXTERNAL, INTERNAL}" and "Index kp = 0"
  shows "bolt_inv chainhash_lib (mem_bkt (fst (KeysDB_Put mem_bolt sa kp ex_bolt)))" (is ?inv)
    and "bolt_abs chainhash_lib (mem_bkt (fst (KeysDB_Put mem_bolt sa kp ex_bolt))) =
      (bolt_abs chainhash_lib (mem_bkt ex_bolt))\<lparr>aKeys := [sa \<mapsto> (kp, False)]\<rparr>" (is ?abs)
proof -
  obtain d r where put: "KeysDB_Put mem_bolt sa kp ex_bolt = (d, r)"
    by (cases "KeysDB_Put mem_bolt sa kp ex_bolt")
  have ok: "\<not> isl r"
    using mem_K_Put_ok [OF ex_bolt_inv assms(1), of kp] put by simp
  have none: "aKeys (bolt_abs chainhash_lib (mem_bkt ex_bolt)) = Map.empty"
    using ex_bolt_keys by auto
  have "K_Put (DS_Keys ex_ds) sa kp ex_bolt = (d, r)"
    using put by (simp add: setup_simps)
  from mem.K.K_Put [OF ex_bolt_inv assms(1) _ _ assms(2) this]
  have "bolt_inv chainhash_lib (mem_bkt d) \<and> bolt_abs chainhash_lib (mem_bkt d) =
      (if isl r then bolt_abs chainhash_lib (mem_bkt ex_bolt) else (bolt_abs chainhash_lib (mem_bkt ex_bolt))
        \<lparr>aKeys := (aKeys (bolt_abs chainhash_lib (mem_bkt ex_bolt)))(sa \<mapsto> (kp, False))\<rparr>)"
    using assms(3) by (simp add: next_key_def none)
  then show ?inv ?abs
    using ok by (simp_all add: put none)
qed

lemma ex_keyed_abs: "bolt_inv chainhash_lib (mem_bkt ex_keyed)"
  "bolt_abs chainhash_lib (mem_bkt ex_keyed) = (bolt_abs chainhash_lib (mem_bkt ex_bolt))
     \<lparr>aKeys := [path_address [1, 0] \<mapsto> (\<lparr>Change = INTERNAL, Index = 0\<rparr>, False)]\<rparr>"
  unfolding ex_keyed_def by (simp_all add: first_key_abs)

lemma ex_own_wf: "wf_utxo ex_own"
  by (simp add: ex_own_def wf_utxo_def wf_op_def ex_coin_def)

lemma ex_rich_abs: "bolt_inv chainhash_lib (mem_bkt ex_rich)"
  "bolt_abs chainhash_lib (mem_bkt ex_rich) = (bolt_abs chainhash_lib (mem_bkt ex_keyed))\<lparr>aUtxos := [ex_coin \<mapsto> ex_own]\<rparr>"
proof -
  obtain d r where put: "UtxoDB_Put chainhash_lib mem_bolt ex_own ex_keyed = (d, r)"
    by (cases "UtxoDB_Put chainhash_lib mem_bolt ex_own ex_keyed")
  have ok: "\<not> isl r"
    using mem_ok.bolt_U_Put_ok [OF ex_keyed_abs(1), of ex_own] put by simp
  have d: "ex_rich = d"
    by (simp only: ex_rich_def put [unfolded ex_keyed_def] fst_conv)
  have no: "aUtxos (bolt_abs chainhash_lib (mem_bkt ex_keyed)) = Map.empty"
    by (simp add: ex_keyed_abs(2) ex_bolt_empty)
  from mem.utxo_Put_step [OF ex_keyed_abs(1) ex_own_wf put] ok
  show "bolt_inv chainhash_lib (mem_bkt ex_rich)"
    "bolt_abs chainhash_lib (mem_bkt ex_rich) = (bolt_abs chainhash_lib (mem_bkt ex_keyed))\<lparr>aUtxos := [ex_coin \<mapsto> ex_own]\<rparr>"
    by (simp_all add: d no ex_own_def)
qed

lemma lists_map_single:
  assumes "lists_map idx xs [k \<mapsto> x]"
  shows "xs = [x]"
proof -
  have all: "([k \<mapsto> x]) j = Some a \<longleftrightarrow> a \<in> set xs \<and> idx a = j" for j a
    using assms by (simp only: lists_map_def)
  have "x \<in> set xs"
    using all [of k x] by simp
  moreover have "y = x" if "y \<in> set xs" for y
    using all [of "idx y" y] that by (simp split: if_splits)
  ultimately have "set xs = {x}" by blast
  moreover have "distinct xs"
    using assms by (auto simp: lists_map_def distinct_map)
  ultimately show ?thesis
    by (cases xs; cases "tl xs") auto
qed

definition ex_rich_wallet :: "(mem_db, int list, bytes) BtcElectrumWallet" where
  "ex_rich_wallet = \<lparr>storage = seed_storage (str_bytes ''pw''), txstore = ex_ts ex_rich, keyManager = path_km,
     feeProvider = DefaultFeeProvider, creationDate = 0, blockchainTip = 110, running = True\<rparr>"

lemma ex_rich_ds: "wallet_ds ex_rich_wallet = ex_rich"
  by (simp add: ex_rich_wallet_def)

lemma ex_rich_GetAll: "U_GetAll (utxos_of ex_env) ex_rich = Inr [ex_own]"
proof -
  obtain us where us: "U_GetAll (utxos_of ex_env) ex_rich = Inr us"
    using ex_txs.U_GetAll_ok [OF ex_rich_abs(1)] by (cases "U_GetAll (utxos_of ex_env) ex_rich") auto
  have "lists_map Op us [ex_coin \<mapsto> ex_own]"
    using ex_txs.U_GetAll [OF ex_rich_abs(1) us] by (simp add: ex_rich_abs(2))
  from lists_map_single [OF this] us show ?thesis by simp
qed

lemma ex_rich_change: "changeSource ex_env ex_rich = Inr ([0, 20] @ path_address [1, 0])"
proof -
  have *: "KeysDB_GetUnused mem_bolt INTERNAL ex_rich = Inr [0]"
    by (simp add: KeysDB_GetUnused_def KeysDB_getAllSorted_def ex_rich_def UtxoDB_Put_def UtxoDB_put_def KeysDB_Put_def
        KeysDB_put_def put_value_def mem_bolt_def ex_bolt_eq bkt_names mem_ok.str_bytes_Nil utxo_rec_def OutPoint_String_def)
  have "INTERNAL \<noteq> EXTERNAL"
    by (simp add: INTERNAL_def EXTERNAL_def)
  then have "GetUnusedKey path_lib (DS_Keys ex_ds) path_km INTERNAL ex_rich = Inr [1, 0]"
    by (simp add: GetUnusedKey_def setup_simps * path_child u32_def)
  then show ?thesis
    by (simp add: changeSource_def wallet_GetUnusedAddress_def path_script(1) toy_wire_def)
qed

lemma ex_fee: "GetFeePerByte now resp DefaultFeeProvider NORMAL = (DefaultFeeProvider, Inr 30)"
  by (simp add: GetFeePerByte_def DefaultFeeProvider_def NewFeeProvider_def defaultFee_def NORMAL_def PRIORITY_def)

lemma toy_spend_simps:
  "CoinSelect toy_spend target cs = Inr cs" "InPlaceSort toy_spend tx = tx\<lparr>TxOuts := sort_key OValue (TxOuts tx)\<rparr>"
  "AddAllInputScripts toy_spend tx prevs vals getKey = Inr tx"
  by (simp_all add: toy_spend_def)

lemma toy_new: "source 3000 = Inr (5000, ins) \<Longrightarrow>
    NewUnsignedTransaction toy_spend [\<lparr>OValue = 3000, OPkScript = s\<rparr>] fee source (Inr c) sz =
      Inr (\<lparr>Version = 2, TxIns = ins, TxOuts = [\<lparr>OValue = 3000, OPkScript = s\<rparr>, \<lparr>OValue = 2000, OPkScript = c\<rparr>],
        LockTime = 0\<rparr>, 1, 3000)"
  by (simp add: toy_spend_def)

lemma ex_spend: "wallet_Spend toy_lib toy_spend ex_env 0 (Inr None) ''pw'' 3000 (path_address [0, 9]) NORMAL ex_rich_wallet =
    (ex_rich_wallet, Inr (1, \<lparr>Version = 2, TxIns = [\<lparr>PreviousOutPoint = ex_coin, SignatureScript = [], Witness = [],
       Sequence = 0xffffffff\<rparr>], TxOuts = [\<lparr>OValue = 2000, OPkScript = [0, 20] @ path_address [1, 0]\<rparr>,
       \<lparr>OValue = 3000, OPkScript = [0, 20] @ path_address [0, 9]\<rparr>], LockTime = 0\<rparr>))"
proof -
  have gather: "gatherCoins ex_env True ex_rich_wallet =
      [newUnspentCoin (OpHash ex_coin) (OpIndex ex_coin) 5000 10 (ScriptPubkey ex_own)]"
    by (simp add: gatherCoins_def ex_rich_ds ex_rich_GetAll del: ex_env_simps) (simp add: ex_own_def ex_rich_wallet_def)
  have pw: "IsValidPw toy_lib (storage ex_rich_wallet) ''pw''"
    by (simp add: IsValidPw_def ex_rich_wallet_def seed_storage_def toy_lib_def)
  have fp: "feeProvider ex_rich_wallet = DefaultFeeProvider" "ex_rich_wallet\<lparr>feeProvider := DefaultFeeProvider\<rparr> = ex_rich_wallet"
    by (simp_all add: ex_rich_wallet_def)
  have pay: "PayToAddrScript (te_wire ex_env) a = Inr ([0, 20] @ a)" for a
    by (simp add: toy_wire_def)
  show ?thesis
    by (simp add: wallet_Spend_def pw buildTx_def IsDust_def pay gather wallet_GetFeePerByte_def fp ex_fee Let_def
        ex_rich_ds ex_rich_change inputSource_def prevScripts_def toy_spend_simps toy_new newUnspentCoin_def coin_input_def
        coin_op_def clear_scripts_def del: ex_env_simps)
qed

theorem Spend_uses_spendable_coins_witness:
  "\<exists>ci tx. wallet_Spend toy_lib toy_spend ex_env 0 (Inr None) ''pw'' 3000 (path_address [0, 9]) NORMAL ex_rich_wallet =
       (ex_rich_wallet, Inr (ci, tx)) \<and>
     (\<forall>txin \<in> set (TxIns tx). \<exists>u. aUtxos (bolt_abs chainhash_lib (mem_bkt ex_rich)) (PreviousOutPoint txin) = Some u \<and>
       0 < AtHeight u)"
proof -
  obtain ci tx where spend: "wallet_Spend toy_lib toy_spend ex_env 0 (Inr None) ''pw'' 3000 (path_address [0, 9]) NORMAL
      ex_rich_wallet = (ex_rich_wallet, Inr (ci, tx))"
    using ex_spend by blast
  have "bolt_inv chainhash_lib (mem_bkt (wallet_ds ex_rich_wallet))"
    unfolding ex_rich_ds by (rule ex_rich_abs)
  from Spend_uses_spendable_coins [OF toy_spend.spend_api_axioms ex_txs.utxo_store_axioms this spend]
  have "\<forall>txin \<in> set (TxIns tx). \<exists>u. aUtxos (bolt_abs chainhash_lib (mem_bkt ex_rich)) (PreviousOutPoint txin) = Some u \<and>
       0 < AtHeight u"
    unfolding ex_rich_ds by blast
  with spend show ?thesis
    by blast
qed

text \<open>The change index \<open>Spend\<close> returns is the one from before the outputs were sorted: when there is change
  smaller than the payment, output 1 is the payment and the change is output 0, and without change it is
  negative, where the client documents 0.\<close>

theorem Spend_change_index_stale:
  assumes "spend_api P"
    and "wallet_Spend L P E now resp pw amount address feeLevel w = (w', Inr (ci, tx))"
    and "PayToAddrScript (te_wire E) address = Inr script"
  shows "(ci < 0 \<longrightarrow> TxOuts tx = [\<lparr>OValue = amount, OPkScript = script\<rparr>]) \<and>
    (0 \<le> ci \<longrightarrow> ci = 1 \<and> (\<exists>v s. changeSource E (wallet_ds w) = Inr s \<and>
       (v < amount \<longrightarrow> TxOuts tx = [\<lparr>OValue = v, OPkScript = s\<rparr>, \<lparr>OValue = amount, OPkScript = script\<rparr>]) \<and>
       (amount < v \<longrightarrow> TxOuts tx = [\<lparr>OValue = amount, OPkScript = script\<rparr>, \<lparr>OValue = v, OPkScript = s\<rparr>])))"
proof -
  have build: "buildTx P E now resp amount address feeLevel w = (w', Inr (ci, tx))"
    using assms(2) by (auto simp: wallet_Spend_def split: if_splits)
  have b: "sorted (map OValue (TxOuts tx))" "if ci < 0 then TxOuts tx = [\<lparr>OValue = amount, OPkScript = script\<rparr>]
     else ci = 1 \<and> (\<exists>v s. changeSource E (wallet_ds w) = Inr s \<and>
       mset (TxOuts tx) = {#\<lparr>OValue = amount, OPkScript = script\<rparr>, \<lparr>OValue = v, OPkScript = s\<rparr>#})"
  proof -
    obtain script' where s: "PayToAddrScript (te_wire E) address = Inr script'" "sorted (map OValue (TxOuts tx))"
      "if ci < 0 then TxOuts tx = [\<lparr>OValue = amount, OPkScript = script'\<rparr>]
       else ci = 1 \<and> (\<exists>v s. changeSource E (wallet_ds w) = Inr s \<and>
         mset (TxOuts tx) = {#\<lparr>OValue = amount, OPkScript = script'\<rparr>, \<lparr>OValue = v, OPkScript = s\<rparr>#})"
      by (rule spend_api.build_result [OF assms(1) build]) blast
    have "script' = script"
      using s(1) assms(3) by simp
    note s' = s(2,3) [unfolded this]
    show "sorted (map OValue (TxOuts tx))" "if ci < 0 then TxOuts tx = [\<lparr>OValue = amount, OPkScript = script\<rparr>]
       else ci = 1 \<and> (\<exists>v s. changeSource E (wallet_ds w) = Inr s \<and>
         mset (TxOuts tx) = {#\<lparr>OValue = amount, OPkScript = script\<rparr>, \<lparr>OValue = v, OPkScript = s\<rparr>#})"
      by (fact s')+
  qed
  have two: "xs = [x, y]" if "mset xs = {#y, x#}" "sorted (map OValue xs)" "OValue x < OValue y" for x y :: TxOut and xs
  proof -
    have "length xs = 2"
      using that(1) by (metis size_mset size_add_mset size_empty numeral_2_eq_2)
    then obtain a b where xs: "xs = [a, b]"
      by (cases xs; cases "tl xs") auto
    then show ?thesis
      using that by (auto simp: add_eq_conv_ex)
  qed
  show ?thesis
  proof (cases "ci < 0")
    case False
    then obtain v s where "ci = 1" and chg: "changeSource E (wallet_ds w) = Inr s"
        "mset (TxOuts tx) = {#\<lparr>OValue = amount, OPkScript = script\<rparr>, \<lparr>OValue = v, OPkScript = s\<rparr>#}"
      using b(2) by auto
    moreover have "TxOuts tx = [\<lparr>OValue = v, OPkScript = s\<rparr>, \<lparr>OValue = amount, OPkScript = script\<rparr>]" if "v < amount"
      using two [OF chg(2) b(1)] that by simp
    moreover have "TxOuts tx = [\<lparr>OValue = amount, OPkScript = script\<rparr>, \<lparr>OValue = v, OPkScript = s\<rparr>]" if "amount < v"
      using two [OF _ b(1), of "\<lparr>OValue = v, OPkScript = s\<rparr>" "\<lparr>OValue = amount, OPkScript = script\<rparr>"] that chg(2)
      by (simp add: add_mset_commute)
    ultimately show ?thesis by auto
  qed (use b(2) in simp)
qed

theorem Spend_change_index_stale_witness:
  "\<exists>tx. wallet_Spend toy_lib toy_spend ex_env 0 (Inr None) ''pw'' 3000 (path_address [0, 9]) NORMAL ex_rich_wallet =
       (ex_rich_wallet, Inr (1, tx)) \<and> OValue (TxOuts tx ! 1) = 3000 \<and>
     TxOuts tx ! 1 = \<lparr>OValue = 3000, OPkScript = [0, 20] @ path_address [0, 9]\<rparr>"
proof -
  have pay: "PayToAddrScript (te_wire ex_env) (path_address [0, 9]) = Inr ([0, 20] @ path_address [0, 9])"
    by (simp add: toy_wire_def)
  show ?thesis
    using Spend_change_index_stale [OF toy_spend.spend_api_axioms ex_spend pay] ex_spend by auto
qed

section \<open>Signing\<close>

lemma sign_input_frame:
  assumes "sign_input P idx v pkScript privKey msg tx = Inr tx'" and "idx < length (TxIns tx)"
  shows "TxOuts tx' = TxOuts tx \<and> map PreviousOutPoint (TxIns tx') = map PreviousOutPoint (TxIns tx)"
  using assms by (auto simp: sign_input_def Let_def thenR_eq_Inr map_update list_update_same_conv
      split: script_class.splits)

lemma sign_loop_result:
  assumes "sign_loop P E vt us ds idx ops tx = Inr tx'" and "idx + length ops = length (TxIns tx)"
  shows "TxOuts tx' = TxOuts tx \<and> map PreviousOutPoint (TxIns tx') = map PreviousOutPoint (TxIns tx) \<and>
    (\<forall>op \<in> set ops. \<exists>u key address. u \<in> set us \<and> Op u = op \<and> ScriptToAddr P (ScriptPubkey u) = Inr address \<and>
       GetKeyForScript (te_hdk E) (keys_if E) (te_km E) (AddrScriptAddress (te_wire E) address) ds = Inr key)"
  using assms
proof (induction ops arbitrary: idx tx)
  case (Cons op ops)
  obtain u where u: "validConfirmedUtxo us op = Some u"
    using Cons.prems(1) by (auto split: option.splits)
  have "u \<in> set us" "Op u = op"
    using u by (auto simp: validConfirmedUtxo_def dest!: find_Some_mem)
  obtain address key privKey tx1 where s: "ScriptToAddr P (ScriptPubkey u) = Inr address"
      "GetKeyForScript (te_hdk E) (keys_if E) (te_km E) (AddrScriptAddress (te_wire E) address) ds = Inr key"
      "sign_input P idx (UValue u) (ScriptPubkey u) privKey ''signing P2WSH not (yet) supported'' tx = Inr tx1"
      "sign_loop P E vt us ds (Suc idx) ops tx1 = Inr tx'"
    using Cons.prems(1) u by (auto simp: thenR_eq_Inr)
  have frame: "TxOuts tx1 = TxOuts tx" "map PreviousOutPoint (TxIns tx1) = map PreviousOutPoint (TxIns tx)"
    using sign_input_frame [OF s(3)] Cons.prems(2) by auto
  then have "length (TxIns tx1) = length (TxIns tx)"
    by (metis length_map)
  then show ?case
    using Cons.IH [OF s(4)] Cons.prems(2) frame s(1,2) \<open>u \<in> set us\<close> \<open>Op u = op\<close> by auto
qed simp


lemma ex_rich_path: "KeysDB_GetPathForKey mem_bolt (path_address [1, 0]) ex_rich = Inr \<lparr>Change = INTERNAL, Index = 0\<rparr>"
  by (simp add: KeysDB_GetPathForKey_def KeysDB_get_def get_value_def ex_rich_def UtxoDB_Put_def UtxoDB_put_def KeysDB_Put_def
      KeysDB_put_def put_value_def mem_bolt_def ex_bolt_eq bkt_names mem_ok.str_bytes_Nil utxo_rec_def OutPoint_String_def)

definition ex_unsigned :: MsgTx where
  "ex_unsigned = \<lparr>Version = 2, TxIns = [\<lparr>PreviousOutPoint = ex_coin, SignatureScript = [], Witness = [], Sequence = 0\<rparr>],
     TxOuts = [\<lparr>OValue = 4000, OPkScript = [0, 20]\<rparr>], LockTime = 0\<rparr>"


end
