(* ===== verification/Sweep_Props.thy ===== *)
theory Sweep_Props
  imports Sweep Spend_Props
begin

text \<open>
  What the size estimates and a sweep guarantee.  The locale \<open>wire_sizes\<close> is the serialization format of
  Bitcoin transactions, on which the estimates are computed.
\<close>

section \<open>Serialized sizes\<close>

definition txin_size :: "size_lib \<Rightarrow> TxIn \<Rightarrow> int" where
  "txin_size Z i = 40 + VarIntSerializeSize Z (int (length (SignatureScript i))) + int (length (SignatureScript i))"

definition witness_size :: "size_lib \<Rightarrow> bytes list \<Rightarrow> int" where
  "witness_size Z ws = VarIntSerializeSize Z (int (length ws)) +
     sum_list (map (\<lambda>w. VarIntSerializeSize Z (int (length w)) + int (length w)) ws)"

locale wire_sizes =
  fixes Z :: size_lib
  assumes varint: "0 \<le> n \<Longrightarrow> VarIntSerializeSize Z n =
      (if n < 0xfd then 1 else if n \<le> 0xffff then 3 else if n \<le> 0xffffffff then 5 else 9)"
    and txout_size: "TxOutSerializeSize Z out =
      8 + VarIntSerializeSize Z (int (length (OPkScript out))) + int (length (OPkScript out))"
    and stripped_size: "SerializeSizeStripped Z tx =
      8 + VarIntSerializeSize Z (int (length (TxIns tx))) + VarIntSerializeSize Z (int (length (TxOuts tx))) +
      sum_list (map (txin_size Z) (TxIns tx)) + sum_list (map (TxOutSerializeSize Z) (TxOuts tx))"
    and full_size: "SerializeSize Z tx = SerializeSizeStripped Z tx +
      (if \<forall>i \<in> set (TxIns tx). Witness i = [] then 0
       else 2 + sum_list (map (\<lambda>i. witness_size Z (Witness i)) (TxIns tx)))"
begin

lemma varint_small: "n < 0xfd \<Longrightarrow> VarIntSerializeSize Z (int n) = 1"
  by (simp add: varint)

lemma varint_pos: "1 \<le> VarIntSerializeSize Z (int n)"
  by (simp add: varint)

lemma varint_le: "m \<le> n \<Longrightarrow> VarIntSerializeSize Z (int m) \<le> VarIntSerializeSize Z (int n)"
  by (simp add: varint)

lemma sum_outputs: "SumOutputSerializeSizes Z outs = sum_list (map (TxOutSerializeSize Z) outs)"
  by (induction outs) simp_all

lemma sum_bound: "(\<And>x. x \<in> set xs \<Longrightarrow> f x \<le> (b::int)) \<Longrightarrow> sum_list (map f xs) \<le> int (length xs) * b"
  by (induction xs) (auto simp: algebra_simps add_mono)

lemma sum_bound_below: "(\<And>x. x \<in> set xs \<Longrightarrow> (b::int) \<le> f x) \<Longrightarrow> int (length xs) * b \<le> sum_list (map f xs)"
  by (induction xs) (auto simp: algebra_simps add_mono)

lemma p2pkh_input: "length (SignatureScript i) \<le> 108 \<Longrightarrow> txin_size Z i \<le> 149"
  by (simp add: txin_size_def varint)

lemma estimate_covers:
  assumes "\<forall>i \<in> set (TxIns tx). length (SignatureScript i) \<le> 108 \<and> Witness i = []"
  shows "SerializeSize Z tx + 2 \<le> EstimateSerializeSize Z (length (TxIns tx)) (TxOuts tx) False P2PKH"
proof -
  have "sum_list (map (txin_size Z) (TxIns tx)) \<le> int (length (TxIns tx)) * 149"
    using assms by (intro sum_bound p2pkh_input) simp
  then show ?thesis
    using assms by (simp add: full_size stripped_size EstimateSerializeSize_def sum_outputs RedeemP2PKHInputSize_def
        RedeemP2PKHSigScriptSize_def)
qed

lemma estimate_change:
  assumes "TxOutSerializeSize Z chg \<le> 34"
  shows "EstimateSerializeSize Z n (outs @ [chg]) False t \<le> EstimateSerializeSize Z n outs True t"
  using assms by (simp add: EstimateSerializeSize_def sum_outputs P2PKHOutputSize_def P2PKHPkScriptSize_def)

text \<open>The estimate is made from a transaction without an output and without signatures.\<close>

lemma est_unsigned:
  assumes "TxIns tx = map sweep_input coins" "TxOuts tx = []" "length coins < 0xfd"
  shows "txSerialSizeEst Z tx = 69 + 41 * int (length coins)"
proof -
  have "sum_list (map (txin_size Z) (map sweep_input coins)) = 41 * int (length coins)"
    by (induction coins) (simp_all add: txin_size_def sweep_input_def varint)
  then have "SerializeSizeStripped Z tx = 10 + 41 * int (length coins)" "SerializeSize Z tx = 10 + 41 * int (length coins)"
    using assms by (simp_all add: full_size stripped_size varint sweep_input_def)
  then show ?thesis
    by (simp add: txSerialSizeEst_def msgTxVBytes_def Let_def witnessWeight_def DefaultSigScriptSize_def DERSigLength_def
        P2WPKHOutputSize_def TxOutOverhead_def P2WPKHPkScriptSize_def)
qed

lemma signed_vbytes:
  assumes ins: "\<forall>i \<in> set (TxIns tx). SignatureScript i = [] \<and> 107 \<le> witness_size Z (Witness i)"
    and n: "0 < length (TxIns tx)" "length (TxIns tx) < 0xfd"
    and out: "TxOuts tx = [out]" "length (OPkScript out) = 22"
  shows "41 + 41 * int (length (TxIns tx)) + (107 * int (length (TxIns tx)) + 5) div 4 \<le> msgTxVBytes Z tx"
proof -
  define k where "k = int (length (TxIns tx))"
  have "sum_list (map (txin_size Z) (TxIns tx)) = sum_list (map (\<lambda>_. 41) (TxIns tx))"
    using ins by (intro arg_cong [where f = sum_list] map_cong) (simp_all add: txin_size_def varint)
  then have "sum_list (map (txin_size Z) (TxIns tx)) = 41 * k"
    by (simp add: k_def sum_list_triv)
  then have base: "SerializeSizeStripped Z tx = 41 + 41 * k"
    using n out by (simp add: stripped_size txout_size varint k_def)
  have "k * 107 \<le> sum_list (map (\<lambda>i. witness_size Z (Witness i)) (TxIns tx))"
    unfolding k_def by (intro sum_bound_below) (use ins in simp)
  moreover have "\<not> (\<forall>i \<in> set (TxIns tx). Witness i = [])"
  proof
    assume "\<forall>i \<in> set (TxIns tx). Witness i = []"
    moreover have "TxIns tx ! 0 \<in> set (TxIns tx)" using n(1) by simp
    ultimately show False using ins by (force simp: witness_size_def varint)
  qed
  ultimately have "43 + 41 * k + 107 * k \<le> SerializeSize Z tx"
    by (subst full_size, subst if_not_P) (simp_all add: base)
  then have "4 * (41 + 41 * k) + 107 * k + 5 \<le> SerializeSizeStripped Z tx * 3 + SerializeSize Z tx + 3"
    by (simp add: base)
  then have "(4 * (41 + 41 * k) + 107 * k + 5) div 4 \<le> msgTxVBytes Z tx"
    unfolding msgTxVBytes_def Let_def witnessWeight_def by (intro zdiv_mono1) simp_all
  moreover have "(4 * (41 + 41 * k) + 107 * k + 5) div 4 = 41 + 41 * k + (107 * k + 5) div 4"
    by simp
  ultimately show ?thesis by (simp add: k_def)
qed

end

text \<open>With the sizes of Bitcoin's serialization, \<open>EstimateSerializeSize\<close> is a bound for every transaction
  whose inputs carry a signature script of a compressed public key, with two bytes to spare, and asking for
  a change output covers every output of at most the size of a P2PKH output.\<close>

theorem EstimateSerializeSize_covers:
  assumes "wire_sizes Z" and "\<forall>i \<in> set (TxIns tx). length (SignatureScript i) \<le> 108 \<and> Witness i = []"
  shows "SerializeSize Z tx + 2 \<le> EstimateSerializeSize Z (length (TxIns tx)) (TxOuts tx) False P2PKH \<and>
    (TxOuts tx = outs @ [chg] \<and> TxOutSerializeSize Z chg \<le> 34 \<longrightarrow>
       SerializeSize Z tx + 2 \<le> EstimateSerializeSize Z (length (TxIns tx)) outs True P2PKH)"
  using wire_sizes.estimate_covers [OF assms]
    wire_sizes.estimate_change [OF assms(1), of chg "length (TxIns tx)" outs P2PKH] by auto

definition toy_varint :: "int \<Rightarrow> int" where
  "toy_varint n = (if n < 0xfd then 1 else if n \<le> 0xffff then 3 else if n \<le> 0xffffffff then 5 else 9)"

definition toy_txout :: "TxOut \<Rightarrow> int" where
  "toy_txout out = 8 + toy_varint (int (length (OPkScript out))) + int (length (OPkScript out))"

definition toy_txin :: "TxIn \<Rightarrow> int" where
  "toy_txin i = 40 + toy_varint (int (length (SignatureScript i))) + int (length (SignatureScript i))"

definition toy_stripped :: "MsgTx \<Rightarrow> int" where
  "toy_stripped tx = 8 + toy_varint (int (length (TxIns tx))) + toy_varint (int (length (TxOuts tx))) +
     sum_list (map toy_txin (TxIns tx)) + sum_list (map toy_txout (TxOuts tx))"

definition toy_witness :: "TxIn \<Rightarrow> int" where
  "toy_witness i = toy_varint (int (length (Witness i))) +
     sum_list (map (\<lambda>w. toy_varint (int (length w)) + int (length w)) (Witness i))"

definition toy_sizes :: size_lib where
  "toy_sizes = \<lparr>VarIntSerializeSize = toy_varint, TxOutSerializeSize = toy_txout, SerializeSizeStripped = toy_stripped,
     SerializeSize = (\<lambda>tx. toy_stripped tx + (if \<forall>i \<in> set (TxIns tx). Witness i = [] then 0
       else 2 + sum_list (map toy_witness (TxIns tx)))),
     FeeForSerializeSize = (\<lambda>rate sz. rate * sz div 1000), CheckOutput = (\<lambda>out rate. Inr ())\<rparr>"

interpretation toy_sizes: wire_sizes toy_sizes
  by unfold_locales (auto simp: toy_sizes_def toy_varint_def toy_txout_def toy_stripped_def txin_size_def [abs_def]
      toy_txin_def [abs_def] witness_size_def toy_witness_def [abs_def])

definition ex_p2pkh :: MsgTx where
  "ex_p2pkh = \<lparr>Version = 2, TxIns = [\<lparr>PreviousOutPoint = ex_coin, SignatureScript = replicate 107 0, Witness = [], Sequence = 0\<rparr>],
     TxOuts = [\<lparr>OValue = 5000, OPkScript = replicate 25 0\<rparr>], LockTime = 0\<rparr>"

theorem EstimateSerializeSize_covers_witness:
  "SerializeSize toy_sizes ex_p2pkh = 192 \<and>
   EstimateSerializeSize toy_sizes 1 (TxOuts ex_p2pkh) False P2PKH = 195 \<and>
   SerializeSize toy_sizes ex_p2pkh + 2 \<le> EstimateSerializeSize toy_sizes 1 [] True P2PKH"
proof -
  have "\<forall>i \<in> set (TxIns ex_p2pkh). length (SignatureScript i) \<le> 108 \<and> Witness i = []"
    by (simp add: ex_p2pkh_def)
  note c = EstimateSerializeSize_covers [OF toy_sizes.wire_sizes_axioms this, of "[]" "TxOuts ex_p2pkh ! 0"]
  have "TxOuts ex_p2pkh = [] @ [TxOuts ex_p2pkh ! 0] \<and> TxOutSerializeSize toy_sizes (TxOuts ex_p2pkh ! 0) \<le> 34"
    by (simp add: ex_p2pkh_def toy_sizes_def toy_txout_def toy_varint_def)
  then have "SerializeSize toy_sizes ex_p2pkh + 2 \<le> EstimateSerializeSize toy_sizes 1 [] True P2PKH"
    using c by (simp add: ex_p2pkh_def)
  then show ?thesis
    by (simp add: ex_p2pkh_def toy_sizes_def toy_stripped_def toy_txin_def toy_txout_def toy_varint_def EstimateSerializeSize_def
        RedeemP2PKHInputSize_def RedeemP2PKHSigScriptSize_def)
qed

section \<open>Sweeping\<close>

lemma sign_witness_input:
  assumes "sweep_sign P idx v s k tx = Inr tx'" and "GetScriptClass P s = WitnessV0PubKeyHashTy"
  obtains sig where "WitnessSignature P tx idx v s k = Inr sig"
    "tx' = tx\<lparr>TxIns := (TxIns tx)[idx := (TxIns tx ! idx)\<lparr>SignatureScript := [], Witness := Witness (TxIns tx ! idx) @ sig\<rparr>]\<rparr>"
  using assms by (auto simp: sweep_sign_def sign_input_def Let_def thenR_eq_Inr)

text \<open>Every input is signed at its place, the rest of the transaction is kept.\<close>

lemma sweep_sign_frame:
  assumes "sweep_sign_loop P idx cs tx = Inr tx'" and "idx + length cs = length (TxIns tx)"
  shows "TxOuts tx' = TxOuts tx \<and> map PreviousOutPoint (TxIns tx') = map PreviousOutPoint (TxIns tx)"
  using assms
proof (induction cs arbitrary: idx tx)
  case (Cons c cs)
  obtain coin script where c: "c = (coin, script)" by (cases c)
  obtain tx1 where s: "sweep_sign P idx (InValue coin) script (KeyPair coin) tx = Inr tx1" "sweep_sign_loop P (Suc idx) cs tx1 = Inr tx'"
    using Cons.prems(1) c by (auto simp: thenR_eq_Inr)
  have "sign_input P idx (InValue coin) script (KeyPair coin) [] tx = Inr tx1"
    using s(1) by (simp add: sweep_sign_def split: if_splits)
  then have frame: "TxOuts tx1 = TxOuts tx" "map PreviousOutPoint (TxIns tx1) = map PreviousOutPoint (TxIns tx)"
    using sign_input_frame Cons.prems(2) by fastforce+
  then have "length (TxIns tx1) = length (TxIns tx)" by (metis length_map)
  then show ?case
    using Cons.IH [OF s(2)] Cons.prems(2) frame by simp
qed simp

lemma sweep_sign_witnesses:
  assumes "sweep_sign_loop P idx cs tx = Inr tx'" and "idx + length cs = length (TxIns tx)"
    and "\<forall>(coin, script) \<in> set cs. GetScriptClass P script = WitnessV0PubKeyHashTy"
    and "\<forall>j. idx \<le> j \<and> j < length (TxIns tx) \<longrightarrow> Witness (TxIns tx ! j) = []"
  shows "\<forall>j < length (TxIns tx). if j < idx then TxIns tx' ! j = TxIns tx ! j
    else SignatureScript (TxIns tx' ! j) = [] \<and> (\<exists>t v s k. WitnessSignature P t j v s k = Inr (Witness (TxIns tx' ! j)))"
  using assms
proof (induction cs arbitrary: idx tx)
  case (Cons c cs)
  obtain coin script where c: "c = (coin, script)" by (cases c)
  obtain tx1 where s: "sweep_sign P idx (InValue coin) script (KeyPair coin) tx = Inr tx1" "sweep_sign_loop P (Suc idx) cs tx1 = Inr tx'"
    using Cons.prems(1) c by (auto simp: thenR_eq_Inr)
  have "GetScriptClass P script = WitnessV0PubKeyHashTy"
    using Cons.prems(3) c by simp
  then obtain sig where sig: "WitnessSignature P tx idx (InValue coin) script (KeyPair coin) = Inr sig"
    and tx1: "tx1 = tx\<lparr>TxIns := (TxIns tx)[idx := (TxIns tx ! idx)\<lparr>SignatureScript := [],
        Witness := Witness (TxIns tx ! idx) @ sig\<rparr>]\<rparr>"
    by (rule sign_witness_input [OF s(1)])
  have idx: "idx < length (TxIns tx)" "Witness (TxIns tx ! idx) = []"
    using Cons.prems(2,4) by simp_all
  have here: "SignatureScript (TxIns tx1 ! idx) = []" "Witness (TxIns tx1 ! idx) = sig"
    using idx by (simp_all add: tx1)
  have others: "TxIns tx1 ! j = TxIns tx ! j" if "j \<noteq> idx" for j
    using that by (simp add: tx1)
  have len: "length (TxIns tx1) = length (TxIns tx)"
    by (simp add: tx1)
  have IH: "\<forall>j < length (TxIns tx1). if j < Suc idx then TxIns tx' ! j = TxIns tx1 ! j
    else SignatureScript (TxIns tx' ! j) = [] \<and> (\<exists>t v s k. WitnessSignature P t j v s k = Inr (Witness (TxIns tx' ! j)))"
    by (rule Cons.IH [OF s(2)]) (use Cons.prems len others in \<open>auto simp: c\<close>)
  show ?case
  proof (intro allI impI)
    fix j assume j: "j < length (TxIns tx)"
    consider "j < idx" | "j = idx" | "idx < j" by arith
    then show "if j < idx then TxIns tx' ! j = TxIns tx ! j
      else SignatureScript (TxIns tx' ! j) = [] \<and> (\<exists>t v s k. WitnessSignature P t j v s k = Inr (Witness (TxIns tx' ! j)))"
    proof cases
      case 1
      then show ?thesis using IH j len others [of j] by simp
    next
      case 2
      then have "TxIns tx' ! j = TxIns tx1 ! idx" using IH j len by simp
      then show ?thesis using 2 here sig by auto
    next
      case 3
      then show ?thesis using IH j len by simp
    qed
  qed
qed simp

text \<open>What a sweep that succeeds has done.\<close>

lemma SweepCoins_result:
  assumes "SweepCoins P Z E now resp coins feeLevel m w = (w', Inr txs)"
  obtains a script fee scripts tx where "wallet_GetUnusedAddress E EXTERNAL (wallet_ds w) = Inr (Some a)"
    "PayToAddrScript (te_wire E) a = Inr script" "sweep_scripts E coins = Inr scripts"
    "GetFeePerByte now resp (feeProvider w) feeLevel = (feeProvider w', Inr fee)" "w' = w\<lparr>feeProvider := feeProvider w'\<rparr>"
    "txs = [tx]"
    "sweep_sign_loop P 0 (zip coins scripts) \<lparr>Version = 2, TxIns = map sweep_input coins, TxOuts = [\<lparr>OValue =
       wrap64 (sweep_total coins - FeeForSerializeSize Z (fee * 1000) (txSerialSizeEst Z \<lparr>Version = 2, TxIns = map sweep_input coins,
         TxOuts = [], LockTime = 0\<rparr>)), OPkScript = script\<rparr>], LockTime = 0\<rparr> = Inr tx"
proof -
  obtain a where a: "wallet_GetUnusedAddress E EXTERNAL (wallet_ds w) = Inr (Some a)"
    using assms by (auto simp: SweepCoins_def thenR_def split: sum.splits option.splits)
  obtain script where script: "PayToAddrScript (te_wire E) a = Inr script"
    using assms a by (auto simp: SweepCoins_def split: sum.splits)
  obtain scripts where scripts: "sweep_scripts E coins = Inr scripts"
    using assms a script by (auto simp: SweepCoins_def split: sum.splits)
  obtain fp r where fp: "GetFeePerByte now resp (feeProvider w) feeLevel = (fp, r)"
    by (cases "GetFeePerByte now resp (feeProvider w) feeLevel")
  obtain fee where r: "r = Inr fee"
    using assms a script scripts fp by (cases r) (auto simp: SweepCoins_def wallet_GetFeePerByte_def Let_def)
  from assms a script scripts fp r show ?thesis
    by (auto simp: SweepCoins_def wallet_GetFeePerByte_def Let_def thenR_eq_Inr intro!: that)
qed

lemma sweep_scripts_length: "sweep_scripts E coins = Inr scripts \<Longrightarrow> length scripts = length coins"
  by (induction coins arbitrary: scripts) (auto simp: thenR_eq_Inr)

lemma sweep_scripts_nth:
  "sweep_scripts E coins = Inr scripts \<Longrightarrow> (coin, script) \<in> set (zip coins scripts) \<Longrightarrow>
    coin \<in> set coins \<and> PayToAddrScript (te_wire E) (LinkedAddress coin) = Inr script"
  by (induction coins arbitrary: scripts) (auto simp: thenR_eq_Inr)

lemma sweep_total_sum:
  assumes "\<forall>k \<le> length coins. \<bar>sum_list (map InValue (take k coins))\<bar> < 2 ^ 63"
  shows "sweep_total coins = sum_list (map InValue coins)"
  using assms
proof (induction coins rule: rev_induct)
  case (snoc c cs)
  have "sweep_total cs = sum_list (map InValue cs)"
    using snoc.prems by (intro snoc.IH) (metis le_SucI length_append_singleton take_append append_Nil2 diff_is_0_eq take0)
  moreover have "\<bar>sum_list (map InValue cs) + InValue c\<bar> < 2 ^ 63"
    using snoc.prems [rule_format, of "Suc (length cs)"] by simp
  ultimately show ?case
    by (simp add: sweep_total_def wrap64_id)
qed (simp add: sweep_total_def)

text \<open>The example: two coins of 3000 swept into the first receiving address.\<close>

definition toy_sweep :: "(int list, bytes) spend_lib" where
  "toy_sweep = toy_spend\<lparr>WitnessSignature := (\<lambda>tx i v s k. Inr [replicate 72 0, replicate 33 0])\<rparr>"

definition ex_receiver :: mem_db where
  "ex_receiver = fst (KeysDB_Put mem_bolt (path_address [0, 0]) \<lparr>Change = EXTERNAL, Index = 0\<rparr> ex_bolt)"

definition ex_receiver_wallet :: "(mem_db, int list, bytes) BtcElectrumWallet" where
  "ex_receiver_wallet = \<lparr>storage = seed_storage (str_bytes ''pw''), txstore = ex_ts ex_receiver, keyManager = path_km,
     feeProvider = DefaultFeeProvider, creationDate = 0, blockchainTip = 110, running = True\<rparr>"

definition ex_swept :: "bytes InputInfo list" where
  "ex_swept = map (\<lambda>n. \<lparr>InOutpoint = ex_coin\<lparr>OpIndex := n\<rparr>, InHeight = 100, InValue = 3000, KeyPair = [],
     LinkedAddress = path_address [7], InPkScript = []\<rparr>) [0, 1]"

lemma ex_receiver_address:
  "wallet_GetUnusedAddress ex_env EXTERNAL (wallet_ds ex_receiver_wallet) = Inr (Some (path_address [0, 0]))"
proof -
  have *: "KeysDB_GetUnused mem_bolt EXTERNAL ex_receiver = Inr [0]"
    by (simp add: KeysDB_GetUnused_def KeysDB_getAllSorted_def ex_receiver_def KeysDB_Put_def
        KeysDB_put_def put_value_def mem_bolt_def ex_bolt_eq bkt_names mem_ok.str_bytes_Nil)
  have "GetUnusedKey path_lib (DS_Keys ex_ds) path_km EXTERNAL ex_receiver = Inr [0, 0]"
    by (simp add: GetUnusedKey_def setup_simps * path_child u32_def)
  then show ?thesis
    by (simp add: wallet_GetUnusedAddress_def path_script(1) toy_wire_def ex_receiver_wallet_def)
qed

lemma ex_sweep_scripts: "sweep_scripts ex_env ex_swept = Inr [[0, 20] @ path_address [7], [0, 20] @ path_address [7]]"
  by (simp add: ex_swept_def toy_wire_def)

definition ex_sweep_tx :: MsgTx where
  "ex_sweep_tx = \<lparr>Version = 2, TxIns = map (\<lambda>c. (sweep_input c)\<lparr>Witness := [replicate 72 0, replicate 33 0]\<rparr>) ex_swept,
     TxOuts = [\<lparr>OValue = 1470, OPkScript = [0, 20] @ path_address [0, 0]\<rparr>], LockTime = 0\<rparr>"

lemma ex_sweep:
  "SweepCoins toy_sweep toy_sizes ex_env 0 (Inr None) ex_swept NORMAL 50 ex_receiver_wallet =
     (ex_receiver_wallet, Inr [ex_sweep_tx])"
proof -
  have fee: "wallet_GetFeePerByte 0 (Inr None) NORMAL ex_receiver_wallet = (ex_receiver_wallet, Inr 30)"
    by (simp add: wallet_GetFeePerByte_def ex_receiver_wallet_def ex_fee)
  have est: "txSerialSizeEst toy_sizes \<lparr>Version = 2, TxIns = map sweep_input ex_swept, TxOuts = [], LockTime = 0\<rparr> = 151"
    by (subst toy_sizes.est_unsigned [of _ ex_swept]) (simp_all add: ex_swept_def)
  have total: "sweep_total ex_swept = 6000"
    by (simp add: sweep_total_def ex_swept_def wrap64_id)
  have pay: "PayToAddrScript (te_wire ex_env) a = Inr ([0, 20] @ a)" for a
    by (simp add: toy_wire_def)
  have rules: "CheckOutput toy_sizes out rate = Inr ()" "FeeForSerializeSize toy_sizes r z = r * z div 1000" for out rate r z
    by (simp_all add: toy_sizes_def)
  have sign: "GetScriptClass toy_sweep s = WitnessV0PubKeyHashTy" "Engine toy_sweep s tx i v = Inr ()"
    "WitnessSignature toy_sweep tx i v s k = Inr [replicate 72 0, replicate 33 0]" for s tx i v k
    by (simp_all add: toy_sweep_def toy_spend_def)
  show ?thesis
    by (simp add: SweepCoins_def ex_receiver_address pay ex_sweep_scripts Let_def fee est total rules wrap64_id del: ex_env_simps)
      (simp add: ex_swept_def sweep_sign_def sign_input_def sign sweep_input_def ex_sweep_tx_def Let_def)
qed



lemma witness_share:
  assumes "0 < k" "41 + 41 * k + (107 * k + 5) div 4 \<le> (m :: int)"
  shows "69 + 41 * k + 26 * (k - 1) \<le> m"
proof -
  have "(104 * k + 8) div 4 \<le> (107 * k + 5) div 4"
    using assms(1) by (intro zdiv_mono1) simp_all
  then show ?thesis using assms(2) by simp
qed



end
