(* ===== verification/Rescan_Props.thy ===== *)
theory Rescan_Props
  imports Client Sweep_Props
begin

text \<open>
  Rescanning a recreated wallet: which subscriptions \<open>RescanWallet\<close> stores, for a server that answers every
  history.
\<close>

section \<open>The indices looked at\<close>

fun scanned :: "(int \<Rightarrow> bool) \<Rightarrow> int list \<Rightarrow> int \<Rightarrow> int list" where
  "scanned hit [] h = []"
| "scanned hit (k # ks) h =
     k # (let h' = (if hit k then k else h) in if k > h' + GAP_LIMIT then [] else scanned hit ks h')"

text \<open>An index is looked at when every index below it is at most \<open>GAP_LIMIT\<close> above a hit, or above the start.\<close>

definition in_reach :: "(int \<Rightarrow> bool) \<Rightarrow> int \<Rightarrow> int \<Rightarrow> int \<Rightarrow> bool" where
  "in_reach hit h0 k i \<longleftrightarrow>
     (\<forall>j. k \<le> j \<and> j < i \<longrightarrow> (\<exists>h. (h = h0 \<or> k \<le> h \<and> hit h) \<and> h \<le> j \<and> j \<le> h + GAP_LIMIT))"

lemma in_reachD:
  "in_reach hit h0 k i \<Longrightarrow> k \<le> j \<Longrightarrow> j < i \<Longrightarrow> \<exists>h. (h = h0 \<or> k \<le> h \<and> hit h) \<and> h \<le> j \<and> j \<le> h + GAP_LIMIT"
  by (simp add: in_reach_def)

lemma in_reach_step:
  assumes "h0 \<le> k" "k \<le> h' + GAP_LIMIT" "h' = (if hit k then k else h0)"
  shows "in_reach hit h0 k i \<longleftrightarrow> in_reach hit h' (k + 1) i"
proof
  assume r: "in_reach hit h0 k i"
  show "in_reach hit h' (k + 1) i"
    unfolding in_reach_def
  proof (intro allI impI)
    fix j assume j: "k + 1 \<le> j \<and> j < i"
    then obtain h where h: "h = h0 \<or> k \<le> h \<and> hit h" "h \<le> j" "j \<le> h + GAP_LIMIT"
      using in_reachD [OF r, of j] by auto
    show "\<exists>h. (h = h' \<or> k + 1 \<le> h \<and> hit h) \<and> h \<le> j \<and> j \<le> h + GAP_LIMIT"
    proof (cases "k + 1 \<le> h")
      case False
      then have "k \<le> h \<Longrightarrow> h = k" by simp
      then have "h = h0 \<or> h = k \<and> hit k"
        using h(1) by blast
      then have "h' = h \<or> h \<le> h' \<and> h' = k"
        using assms(1,3) by auto
      then show ?thesis using h(2,3) j by auto
    qed (use h assms in auto)
  qed
next
  assume r: "in_reach hit h' (k + 1) i"
  have h': "h' = h0 \<or> h' = k \<and> hit k"
    using assms(3) by auto
  show "in_reach hit h0 k i"
    unfolding in_reach_def
  proof (intro allI impI)
    fix j assume j: "k \<le> j \<and> j < i"
    show "\<exists>h. (h = h0 \<or> k \<le> h \<and> hit h) \<and> h \<le> j \<and> j \<le> h + GAP_LIMIT"
    proof (cases "j = k")
      case True
      then show ?thesis using h' assms(1,2) by auto
    next
      case False
      then obtain h where "h = h' \<or> k + 1 \<le> h \<and> hit h" "h \<le> j" "j \<le> h + GAP_LIMIT"
        using in_reachD [OF r, of j] j by auto
      moreover have "k + 1 \<le> h \<Longrightarrow> k \<le> h" by simp
      ultimately show ?thesis using h' by blast
    qed
  qed
qed

lemma in_reach_gap:
  assumes "\<not> hit k" "h0 + GAP_LIMIT < k" "h0 \<le> k" "in_reach hit h0 k i"
  shows "i \<le> k"
proof (rule ccontr)
  assume "\<not> i \<le> k"
  then obtain h where "h = h0 \<or> k \<le> h \<and> hit h" "h \<le> k" "k \<le> h + GAP_LIMIT"
    using in_reachD [OF assms(4), of k] by force
  then show False using assms(1,2) by auto
qed

lemma scanned_set:
  assumes "h0 \<le> k"
  shows "i \<in> set (scanned hit [k..n] h0) \<longleftrightarrow> k \<le> i \<and> i \<le> n \<and> in_reach hit h0 k i"
  using assms
proof (induction "nat (n + 1 - k)" arbitrary: k h0)
  case 0
  then show ?case by simp
next
  case (Suc m)
  then have k: "k \<le> n" by simp
  define h' where "h' = (if hit k then k else h0)"
  have scan: "scanned hit [k..n] h0 = k # (if k > h' + GAP_LIMIT then [] else scanned hit [k + 1..n] h')"
    using k by (simp add: upto_rec1 h'_def Let_def)
  have self: "in_reach hit h0 k k"
    by (simp add: in_reach_def)
  show ?case
  proof (cases "k > h' + GAP_LIMIT")
    case True
    have "i \<le> k" if "in_reach hit h0 k i"
      by (rule in_reach_gap [OF _ _ Suc.prems that]) (use True in \<open>auto simp: h'_def GAP_LIMIT_def split: if_splits\<close>)
    then show ?thesis
      using True k self by (auto simp: scan)
  next
    case False
    have "i \<in> set (scanned hit [k + 1..n] h') \<longleftrightarrow> k + 1 \<le> i \<and> i \<le> n \<and> in_reach hit h' (k + 1) i"
      by (rule Suc.hyps(1)) (use Suc.hyps(2) Suc.prems in \<open>auto simp: h'_def\<close>)
    then show ?thesis
      using False k self in_reach_step [OF Suc.prems, of h' hit i] by (auto simp: scan h'_def)
  qed
qed

section \<open>What a rescan stores\<close>

definition put_sub :: "Subscription \<Rightarrow> (string \<rightharpoonup> Subscription) \<Rightarrow> (string \<rightharpoonup> Subscription)" where
  "put_sub s m = m(PkScript s \<mapsto> s)"

lemma dom_put_subs: "dom (fold put_sub xs m) = dom m \<union> PkScript ` set xs"
  by (induction xs arbitrary: m) (auto simp: put_sub_def)

lemma put_subs_mem:
  "s \<in> set xs \<Longrightarrow> \<exists>t \<in> set xs. PkScript t = PkScript s \<and> fold put_sub xs m (PkScript s) = Some t"
proof (induction xs rule: rev_induct)
  case (snoc x xs)
  show ?case
  proof (cases "PkScript x = PkScript s")
    case False
    then have "s \<in> set xs" using snoc.prems by auto
    then show ?thesis
      using snoc.IH False by (auto simp: put_sub_def)
  qed (auto simp: put_sub_def)
qed simp

lemma put_subs_other: "k \<notin> PkScript ` set xs \<Longrightarrow> fold put_sub xs m k = m k"
  by (induction xs arbitrary: m) (auto simp: put_sub_def)

locale rescan_server =
  fixes CE :: "('ds, 'k, 'a, 'x) client_env" and km :: "'k KeyManager" and A :: "'ds \<Rightarrow> abs_store" and okds :: "'ds \<Rightarrow> bool"
    and okx :: "'x \<Rightarrow> bool" and history :: "string \<Rightarrow> History list" and addr :: "int \<Rightarrow> int \<Rightarrow> 'a" and script :: "int \<Rightarrow> int \<Rightarrow> bytes"
  assumes derive: "ch \<in> {EXTERNAL, INTERNAL} \<Longrightarrow> 0 \<le> i \<Longrightarrow> i \<le> highestKeyIndex \<Longrightarrow>
      wallet_GetAddress ((ce_tx CE)\<lparr>te_km := km\<rparr>) \<lparr>Change = ch, Index = i\<rparr> = Inr (addr ch i)"
    and pay: "ch \<in> {EXTERNAL, INTERNAL} \<Longrightarrow> 0 \<le> i \<Longrightarrow> i \<le> highestKeyIndex \<Longrightarrow>
      PayToAddrScript (ce_wire CE) (addr ch i) = Inr (script ch i) \<and> script ch i \<noteq> []"
    and answer: "okx x \<Longrightarrow> X_GetHistory (ce_x CE) sh x = (x', r) \<Longrightarrow> okx x' \<and> r = Inr (history sh)"
    and subs: "sub_store (subs_if (ce_tx CE)) A okds"
    and sub_put: "okds d \<Longrightarrow> PkScript s \<noteq> [] \<Longrightarrow> \<not> isl (snd (Sub_Put (subs_if (ce_tx CE)) s d))"
begin

definition key_sub :: "int \<Rightarrow> int \<Rightarrow> Subscription" where
  "key_sub ch i = \<lparr>PkScript = EncodeToString (script ch i), ElectrumScripthash = pkScriptToElectrumScripthash CE (script ch i),
     Address = AddrString CE (addr ch i)\<rparr>"

definition key_hit :: "int \<Rightarrow> int \<Rightarrow> bool" where
  "key_hit ch i \<longleftrightarrow> history (pkScriptToElectrumScripthash CE (script ch i)) \<noteq> []"

definition hit_at :: "int \<Rightarrow> bool" where
  "hit_at i \<longleftrightarrow> key_hit EXTERNAL i \<or> key_hit INTERNAL i"

definition subs_at :: "int \<Rightarrow> Subscription list" where
  "subs_at i = map (\<lambda>ch. key_sub ch i) (filter (\<lambda>ch. key_hit ch i) [EXTERNAL, INTERNAL])"

text \<open>The client after some subscriptions were stored.\<close>

definition ready :: "('ds, 'k, 'a, 'x) Client \<Rightarrow> bool" where
  "ready c \<longleftrightarrow> (\<exists>w x. cWallet c = AWallet w \<and> keyManager w = km \<and> cX c = Some x \<and> okx x \<and> okds (wallet_ds w))"

definition c_abs :: "('ds, 'k, 'a, 'x) Client \<Rightarrow> abs_store" where
  "c_abs c = (case cWallet c of AWallet w \<Rightarrow> A (wallet_ds w) | _ \<Rightarrow> undefined)"

definition stored :: "Subscription list \<Rightarrow> ('ds, 'k, 'a, 'x) Client \<Rightarrow> ('ds, 'k, 'a, 'x) Client \<Rightarrow> bool" where
  "stored xs c c' \<longleftrightarrow> ready c' \<and> c_abs c' = (c_abs c)\<lparr>aSubs := fold put_sub xs (aSubs (c_abs c))\<rparr>"

lemma stored_trans: "stored xs c c1 \<Longrightarrow> stored ys c1 c' \<Longrightarrow> stored (xs @ ys) c c'"
  by (simp add: stored_def)

lemma key_sub_nonempty:
  "ch \<in> {EXTERNAL, INTERNAL} \<Longrightarrow> 0 \<le> i \<Longrightarrow> i \<le> highestKeyIndex \<Longrightarrow> PkScript (key_sub ch i) \<noteq> []"
  using pay [of ch i] length_EncodeToString [of "script ch i"] by (cases "EncodeToString (script ch i)") (auto simp: key_sub_def)

lemma rescan_key_stores:
  assumes "ready c" "ch \<in> {EXTERNAL, INTERNAL}" "0 \<le> i" "i \<le> highestKeyIndex"
  shows "\<exists>c'. rescan_key CE i ch c = (c', Inr (key_hit ch i)) \<and> stored (if key_hit ch i then [key_sub ch i] else []) c c'"
proof -
  obtain w x where c: "cWallet c = AWallet w" "keyManager w = km" "cX c = Some x" "okx x" "okds (wallet_ds w)"
    using assms(1) by (auto simp: ready_def)
  have read: "w_read CE (\<lambda>E ds. wallet_GetAddress E \<lparr>Change = ch, Index = i\<rparr>) c = (c, Inr (addr ch i))"
    using c derive [OF assms(2-4)] by (simp add: w_read_def w_call_def wenv_def)
  have sh: "addressToElectrumScripthash CE (addr ch i) = Inr (pkScriptToElectrumScripthash CE (script ch i))"
    by (simp add: addressToElectrumScripthash_def pay [OF assms(2-4)])
  obtain x' r where x': "X_GetHistory (ce_x CE) (pkScriptToElectrumScripthash CE (script ch i)) x = (x', r)"
    by (cases "X_GetHistory (ce_x CE) (pkScriptToElectrumScripthash CE (script ch i)) x")
  have r: "okx x'" "r = Inr (history (pkScriptToElectrumScripthash CE (script ch i)))"
    using answer [OF c(4) x'] by simp_all
  show ?thesis
  proof (cases "key_hit ch i")
    case False
    then show ?thesis
      using c by (simp add: rescan_key_def read sh x_call_def x' r key_hit_def stored_def ready_def c_abs_def)
  next
    case True
    obtain d r' where put: "Sub_Put (subs_if (ce_tx CE)) (key_sub ch i) (wallet_ds w) = (d, r')"
      by (cases "Sub_Put (subs_if (ce_tx CE)) (key_sub ch i) (wallet_ds w)")
    have ok: "r' = Inr ()"
      using sub_put [OF c(5), of "key_sub ch i"] put key_sub_nonempty [OF assms(2-4)] by (cases r') simp_all
    have A: "okds d" "A d = (A (wallet_ds w))\<lparr>aSubs := put_sub (key_sub ch i) (aSubs (A (wallet_ds w)))\<rparr>"
      using sub_store.Sub_Put [OF subs c(5) put] by (simp_all add: ok put_sub_def)
    have "rescan_key CE i ch c = (c\<lparr>cWallet := AWallet (set_ds d w), cX := Some x'\<rparr>, Inr True)"
      using c True put
      by (simp add: rescan_key_def read sh x_call_def x' r key_hit_def pay [OF assms(2-4)] w_store_def w_call_def wenv_def
          wallet_AddSubscription_def SubscriptionManager_Put_def key_sub_def [symmetric] ok)
    then show ?thesis
      using A c True r(1) by (simp add: stored_def ready_def c_abs_def set_ds_def)
  qed
qed

lemma rescan_loop_stores:
  assumes "ready c" "\<forall>i \<in> set ks. 0 \<le> i \<and> i \<le> highestKeyIndex"
  shows "\<exists>c'. rescan_loop CE ks h c = (c', Inr ()) \<and> stored (concat (map subs_at (scanned hit_at ks h))) c c'"
  using assms
proof (induction ks arbitrary: h c)
  case Nil
  then show ?case by (simp add: stored_def)
next
  case (Cons k ks)
  have k: "0 \<le> k" "k \<le> highestKeyIndex" using Cons.prems(2) by simp_all
  obtain c0 where c0: "rescan_key CE k 0 c = (c0, Inr (key_hit 0 k))" "stored (if key_hit 0 k then [key_sub 0 k] else []) c c0"
    using rescan_key_stores [OF Cons.prems(1), of 0] k by (auto simp: EXTERNAL_def)
  obtain c1 where c1: "rescan_key CE k 1 c0 = (c1, Inr (key_hit 1 k))" "stored (if key_hit 1 k then [key_sub 1 k] else []) c0 c1"
    using rescan_key_stores [of c0 1] c0(2) k by (auto simp: INTERNAL_def stored_def)
  have here: "stored (subs_at k) c c1"
    using stored_trans [OF c0(2) c1(2)] by (simp add: subs_at_def EXTERNAL_def INTERNAL_def split: if_splits)
  define h' where "h' = (if hit_at k then k else h)"
  have loop: "rescan_loop CE (k # ks) h c = (if k > h' + GAP_LIMIT then (c1, Inr ()) else rescan_loop CE ks h' c1)"
    by (simp add: c0(1) c1(1) h'_def hit_at_def EXTERNAL_def INTERNAL_def)
  show ?case
  proof (cases "k > h' + GAP_LIMIT")
    case True
    then show ?thesis
      using here loop by (simp add: h'_def [symmetric])
  next
    case False
    have "ready c1" using here by (simp add: stored_def)
    with Cons.prems(2) obtain c' where "rescan_loop CE ks h' c1 = (c', Inr ())"
        "stored (concat (map subs_at (scanned hit_at ks h'))) c1 c'"
      using Cons.IH [of c1 h'] by auto
    then show ?thesis
      using False loop stored_trans [OF here] by (simp add: h'_def [symmetric])
  qed
qed

lemma subs_at_mem: "s \<in> set (subs_at i) \<longleftrightarrow> (\<exists>ch \<in> {EXTERNAL, INTERNAL}. key_hit ch i \<and> s = key_sub ch i)"
  by (auto simp: subs_at_def)

lemma same_script:
  "PkScript (key_sub ch i) = PkScript (key_sub ch' j) \<Longrightarrow> ElectrumScripthash (key_sub ch i) = ElectrumScripthash (key_sub ch' j)"
  using Encode_inj by (simp add: key_sub_def)

lemma rescan_effect:
  assumes "ready c" "rs = set (scanned hit_at [0..highestKeyIndex] 0)"
  shows "\<exists>c' m. rescan_loop CE [0..highestKeyIndex] 0 c = (c', Inr ()) \<and> ready c' \<and>
    c_abs c' = (c_abs c)\<lparr>aSubs := m\<rparr> \<and>
    (\<forall>ch \<in> {EXTERNAL, INTERNAL}. \<forall>i \<in> rs. key_hit ch i \<longrightarrow> (\<exists>s. m (EncodeToString (script ch i)) = Some s \<and>
       ElectrumScripthash s = pkScriptToElectrumScripthash CE (script ch i))) \<and>
    (\<forall>k. (\<forall>ch \<in> {EXTERNAL, INTERNAL}. \<forall>i \<in> rs. key_hit ch i \<longrightarrow> k \<noteq> EncodeToString (script ch i)) \<longrightarrow>
       m k = aSubs (c_abs c) k)"
proof -
  let ?xs = "concat (map subs_at (scanned hit_at [0..highestKeyIndex] 0))"
  obtain c' where c': "rescan_loop CE [0..highestKeyIndex] 0 c = (c', Inr ())" "stored ?xs c c'"
    using rescan_loop_stores [OF assms(1), of "[0..highestKeyIndex]" 0] by auto
  have xs: "s \<in> set ?xs \<longleftrightarrow> (\<exists>ch \<in> {EXTERNAL, INTERNAL}. \<exists>i \<in> rs. key_hit ch i \<and> s = key_sub ch i)" for s
    by (auto simp: assms(2) subs_at_mem)
  have "\<exists>s. fold put_sub ?xs m0 (EncodeToString (script ch i)) = Some s \<and>
       ElectrumScripthash s = pkScriptToElectrumScripthash CE (script ch i)"
    if "ch \<in> {EXTERNAL, INTERNAL}" "i \<in> rs" "key_hit ch i" for ch i m0
  proof -
    have "key_sub ch i \<in> set ?xs"
      using that xs by blast
    from put_subs_mem [OF this, of m0] obtain t where
        t: "t \<in> set ?xs" "PkScript t = PkScript (key_sub ch i)" "fold put_sub ?xs m0 (PkScript (key_sub ch i)) = Some t"
      by blast
    then obtain ch' j where "t = key_sub ch' j"
      using xs [THEN iffD1, OF t(1)] by blast
    then show ?thesis
      using t(2,3) same_script [of ch' j ch i] by (simp add: key_sub_def)
  qed
  moreover have "fold put_sub ?xs m0 k = m0 k"
    if "\<forall>ch \<in> {EXTERNAL, INTERNAL}. \<forall>i \<in> rs. key_hit ch i \<longrightarrow> k \<noteq> EncodeToString (script ch i)" for k m0
  proof (rule put_subs_other)
    show "k \<notin> PkScript ` set ?xs"
      using that xs by (force simp: key_sub_def)
  qed
  ultimately show ?thesis
    using c' unfolding stored_def by blast
qed

end

text \<open>C9: on a network that answers every history (in the states \<open>okx\<close>, which the calls keep) and a datastore that does not fail, \<open>RescanWallet\<close> ends without
  an error and stores a subscription for exactly the keys with a history that are in reach: every index
  before theirs lies at most \<open>GAP_LIMIT\<close> above an index with a history, or above 0, and none is above
  \<open>highestKeyIndex\<close>.  Nothing else in the wallet changes; keys behind a longer gap are lost.\<close>

theorem RescanWallet_finds_history:
  fixes CE :: "('ds, 'k, 'a, 'x) client_env"
  assumes "rescan_server CE km A okds okx history addr script" and "cWallet c = AWallet w" and "keyManager w = km"
    and "cX c = Some x" and "okx x" and "okds (wallet_ds w)"
    and hit: "hit = (\<lambda>ch i. history (pkScriptToElectrumScripthash CE (script ch i)) \<noteq> [])"
    and reach: "reach = (\<lambda>i. 0 \<le> i \<and> i \<le> 100 \<and>
      (\<forall>j. 0 \<le> j \<and> j < i \<longrightarrow> (\<exists>h. (h = 0 \<or> hit EXTERNAL h \<or> hit INTERNAL h) \<and> 0 \<le> h \<and> h \<le> j \<and> j \<le> h + 10)))"
  shows "\<exists>c' w'. RescanWallet CE c = (c', Inr ()) \<and> cWallet c' = AWallet w' \<and> keyManager w' = km \<and>
    A (wallet_ds w') = (A (wallet_ds w))\<lparr>aSubs := aSubs (A (wallet_ds w'))\<rparr> \<and>
    (\<forall>ch i. ch \<in> {EXTERNAL, INTERNAL} \<and> reach i \<and> hit ch i \<longrightarrow>
       (\<exists>s. aSubs (A (wallet_ds w')) (EncodeToString (script ch i)) = Some s \<and>
            ElectrumScripthash s = pkScriptToElectrumScripthash CE (script ch i))) \<and>
    (\<forall>k. (\<nexists>ch i. ch \<in> {EXTERNAL, INTERNAL} \<and> reach i \<and> hit ch i \<and> k = EncodeToString (script ch i)) \<longrightarrow>
       aSubs (A (wallet_ds w')) k = aSubs (A (wallet_ds w)) k)"
proof -
  let ?hit = "rescan_server.hit_at CE history script"
  define rs where "rs = set (scanned ?hit [0..highestKeyIndex] 0)"
  have "rescan_server.ready km okds okx c"
    unfolding rescan_server.ready_def [OF assms(1)] using assms(2-6) by blast
  from rescan_server.rescan_effect [OF assms(1) this rs_def]
  obtain c' m where c': "rescan_loop CE [0..highestKeyIndex] 0 c = (c', Inr ())" "rescan_server.ready km okds okx c'"
      "rescan_server.c_abs A c' = (rescan_server.c_abs A c)\<lparr>aSubs := m\<rparr>"
      "\<forall>ch \<in> {EXTERNAL, INTERNAL}. \<forall>i \<in> rs. rescan_server.key_hit CE history script ch i \<longrightarrow>
         (\<exists>s. m (EncodeToString (script ch i)) = Some s \<and>
            ElectrumScripthash s = pkScriptToElectrumScripthash CE (script ch i))"
      "\<forall>k. (\<forall>ch \<in> {EXTERNAL, INTERNAL}. \<forall>i \<in> rs. rescan_server.key_hit CE history script ch i \<longrightarrow>
         k \<noteq> EncodeToString (script ch i)) \<longrightarrow> m k = aSubs (rescan_server.c_abs A c) k"
    by blast
  obtain w' where w': "cWallet c' = AWallet w'" "keyManager w' = km"
    using c'(2) unfolding rescan_server.ready_def [OF assms(1)] by blast
  have abs: "A (wallet_ds w') = (A (wallet_ds w))\<lparr>aSubs := m\<rparr>" "rescan_server.c_abs A c = A (wallet_ds w)"
    using c'(3) w'(1) assms(2) by (simp_all add: rescan_server.c_abs_def [OF assms(1)])
  have hits: "rescan_server.key_hit CE history script = hit"
    by (intro ext) (simp add: hit rescan_server.key_hit_def [OF assms(1)])
  have reached: "reach i \<longleftrightarrow> i \<in> rs" for i
    by (auto simp: rs_def scanned_set reach in_reach_def rescan_server.hit_at_def [OF assms(1)] hits highestKeyIndex_def
        GAP_LIMIT_def)
  have m: "m = aSubs (A (wallet_ds w'))"
    by (simp add: abs(1))
  have found: "\<forall>ch i. ch \<in> {EXTERNAL, INTERNAL} \<and> reach i \<and> hit ch i \<longrightarrow>
      (\<exists>s. aSubs (A (wallet_ds w')) (EncodeToString (script ch i)) = Some s \<and>
            ElectrumScripthash s = pkScriptToElectrumScripthash CE (script ch i))"
    using c'(4) [unfolded hits m] reached by blast
  have kept: "\<forall>k. (\<nexists>ch i. ch \<in> {EXTERNAL, INTERNAL} \<and> reach i \<and> hit ch i \<and> k = EncodeToString (script ch i)) \<longrightarrow>
       aSubs (A (wallet_ds w')) k = aSubs (A (wallet_ds w)) k"
    using c'(5) [unfolded hits m abs(2)] reached by blast
  have run: "RescanWallet CE c = (c', Inr ())"
    using assms(2,4) c'(1) by (simp add: RescanWallet_def checkWallet_def checkX_def)
  have frame: "A (wallet_ds w') = (A (wallet_ds w))\<lparr>aSubs := aSubs (A (wallet_ds w'))\<rparr>"
    by (simp add: abs(1))
  show ?thesis
    by (intro exI [of _ c'] exI [of _ w'] conjI run w' frame found kept)
qed

section \<open>The example\<close>

text \<open>An environment on the in-memory database; the network answers histories and has no other content.\<close>

definition toy_x :: "(string \<Rightarrow> History list) \<Rightarrow> (string \<Rightarrow> unit \<Rightarrow> unit \<times> ScripthashStatusResult option result) \<Rightarrow> unit ElectrumX" where
  "toy_x history subscribe = \<lparr>X_Start = (\<lambda>x. (x, Inr ())), X_GetTipChangeNotify = (\<lambda>x. Inr ()), X_GetTip = (\<lambda>x. 110),
     X_GetSyncStatus = (\<lambda>x. True), X_GetBlockHeader = (\<lambda>h x. Inl (Err ''no header'')),
     X_GetBlockHeaders = (\<lambda>h n x. Inr []), X_GetScripthashNotify = (\<lambda>x. Inr ()),
     X_SubscribeScripthashNotify = subscribe, X_UnsubscribeScripthashNotify = (\<lambda>sh x. x),
     X_GetHistory = (\<lambda>sh x. (x, Inr (history sh))), X_GetListUnspent = (\<lambda>sh x. (x, Inr [])),
     X_GetTransaction = (\<lambda>txid x. (x, Inl (Err ''no transaction''))),
     X_GetRawTransaction = (\<lambda>txid x. (x, Inr ''01'')), X_EstimateFeeRate = (\<lambda>t x. (x, Inr 1000)), X_Broadcast = (\<lambda>tx x. (x, Inr ''txid''))\<rparr>"

definition toy_ce_on :: "'x result \<Rightarrow> 'x ElectrumX \<Rightarrow> (mem_db, int list, bytes, 'x) client_env" where
  "toy_ce_on newx X = \<lparr>ce_dbType = DbTypeBolt, ce_open = (\<lambda>d. (case d of None \<Rightarrow> (Some ex_bolt, Inr ex_bolt) | Some b \<Rightarrow> (d, Inr b))),
     ce_storeEncSeed = False, ce_lib = toy_lib, ce_spend = toy_spend, ce_sizes = toy_sizes, ce_tx = ex_env, ce_newX = newx,
     ce_x = X, DecodeAddress = (\<lambda>a. DecodeString a), AddrString = EncodeToString, ScriptHashB = (\<lambda>b. b),
     PkScriptAddress = (\<lambda>s. Inr (EncodeToString (drop 2 s))), DecodeWIF = (\<lambda>s. Inr []), SerializePubKey = (\<lambda>k. k),
     Sha256 = (\<lambda>b. b), Ripemd160 = (\<lambda>b. b), NewAddressPubKeyHash = (\<lambda>h. Inr h), ce_wif = (\<lambda>k. Inr [])\<rparr>"

abbreviation "toy_ce \<equiv> toy_ce_on (Inr ())"

lemma toy_ce_simps [simp]:
  "ce_tx (toy_ce_on newx X) = ex_env" "ce_x (toy_ce_on newx X) = X" "ScriptHashB (toy_ce_on newx X) = (\<lambda>b. b)"
  "ce_dbType (toy_ce_on newx X) = DbTypeBolt"
  "X_GetHistory (toy_x history subscribe) sh x = (x, Inr (history sh))"
  "X_SubscribeScripthashNotify (toy_x history subscribe) = subscribe"
  "X_Broadcast (toy_x history subscribe) raw x = (x, Inr ''txid'')"
  "X_GetRawTransaction (toy_x history subscribe) txid x = (x, Inr ''01'')"
  by (simp_all add: toy_ce_on_def toy_x_def)

definition ex_client :: "(mem_db, int list, bytes, unit) Client" where
  "ex_client = \<lparr>cWallet = AWallet ex_rich_wallet, cX = Some (), disk = Some ex_rich, cListeners = 0, cRunning = True\<rparr>"

definition ex_history :: "string \<Rightarrow> History list" where
  "ex_history sh = (if sh = EncodeToString (rev ([0, 20] @ path_address [0, 11]))
     then [\<lparr>HistHeight = 100, HistTxHash = ''tx'', HistFee = 0\<rparr>] else [])"

lemma mem_Sub_Put_ok:
  assumes "bolt_inv chainhash_lib (mem_bkt d)" and "PkScript s \<noteq> []"
  shows "\<not> isl (snd (Sub_Put (DS_Subscriptions ex_ds) s d))"
proof -
  have "\<exists>kvs. bkt d subscriptionsBkt = Some kvs" if "bkt = mem_bkt" for bkt
    using assms(1) that by (auto simp: bolt_inv_def)
  show ?thesis
    using mem_ok.put_value_ok [of d subscriptionsBkt] assms
    by (auto simp: setup_simps SubscriptionsDB_Put_def SubscriptionsDB_put_def bolt_inv_def mem_ok.str_bytes_Nil)
qed

lemma toy_rescan_server:
  assumes "\<And>sh x x' r. okx x \<Longrightarrow> X_GetHistory X sh x = (x', r) \<Longrightarrow> okx x' \<and> r = Inr (history sh)"
  shows "rescan_server (toy_ce_on newx X) path_km (\<lambda>d. bolt_abs chainhash_lib (mem_bkt d)) (\<lambda>d. bolt_inv chainhash_lib (mem_bkt d))
    okx history (\<lambda>ch i. path_address [ch, i]) (\<lambda>ch i. [0, 20] @ path_address [ch, i])"
proof (rule rescan_server.intro)
  fix ch i :: int
  assume "ch \<in> {EXTERNAL, INTERNAL}" "0 \<le> i" "i \<le> highestKeyIndex"
  then have "u32 i = i" and "ch = 0 \<or> ch = 1"
    by (auto simp: highestKeyIndex_def u32_id EXTERNAL_def INTERNAL_def)
  then have "generateChildKey path_lib path_km ch (u32 i) = Inr [ch, i]"
    by (elim disjE) (simp_all only: path_child EXTERNAL_def INTERNAL_def append_Nil if_True, simp_all)
  then show "wallet_GetAddress ((ce_tx (toy_ce_on newx X))\<lparr>te_km := path_km\<rparr>) \<lparr>Change = ch, Index = i\<rparr> = Inr (path_address [ch, i])"
    by (simp add: wallet_GetAddress_def segwit_of_def path_script(1) toy_wire_def)
next
  show "sub_store (subs_if (ce_tx (toy_ce_on newx X))) (\<lambda>d. bolt_abs chainhash_lib (mem_bkt d)) (\<lambda>d. bolt_inv chainhash_lib (mem_bkt d))"
    unfolding toy_ce_simps ex_env_simps by (rule mem.Sub.sub_store_axioms)
next
  show "\<not> isl (snd (Sub_Put (subs_if (ce_tx (toy_ce_on newx X))) s d))"
    if "bolt_inv chainhash_lib (mem_bkt d)" "PkScript s \<noteq> []" for d s
    unfolding toy_ce_simps ex_env_simps using that by (rule mem_Sub_Put_ok)
next
  show "okx x' \<and> r = Inr (history sh)" if "okx x" "X_GetHistory (ce_x (toy_ce_on newx X)) sh x = (x', r)" for sh x x' r
    using assms [OF that(1)] that(2) by simp
qed (simp_all add: toy_wire_def)

interpretation toy_rescan: rescan_server "toy_ce (toy_x ex_history subscribe)" path_km
  "\<lambda>d. bolt_abs chainhash_lib (mem_bkt d)" "\<lambda>d. bolt_inv chainhash_lib (mem_bkt d)" "\<lambda>_. True" ex_history
  "\<lambda>ch i. path_address [ch, i]" "\<lambda>ch i. [0, 20] @ path_address [ch, i]" for subscribe
  by (rule toy_rescan_server) simp

abbreviation "ex_scan \<equiv> toy_ce (toy_x ex_history (\<lambda>sh x. (x, Inr None)))"

lemma ex_scripthash: "pkScriptToElectrumScripthash (toy_ce X) script = EncodeToString (rev script)"
  by (simp add: pkScriptToElectrumScripthash_def)

theorem RescanWallet_finds_history_witness:
  "\<exists>c' w' s. RescanWallet ex_scan ex_client = (c', Inr ()) \<and> cWallet c' = AWallet w' \<and>
     aSubs (bolt_abs chainhash_lib (mem_bkt (wallet_ds w'))) (EncodeToString ([0, 20] @ path_address [0, 11])) = Some s"
proof -
  define hit where "hit = (\<lambda>ch i :: int. ex_history (pkScriptToElectrumScripthash ex_scan ([0, 20] @ path_address [ch, i])) \<noteq> [])"
  define reach where "reach = (\<lambda>i :: int. 0 \<le> i \<and> i \<le> 100 \<and>
      (\<forall>j. 0 \<le> j \<and> j < i \<longrightarrow> (\<exists>h. (h = 0 \<or> hit EXTERNAL h \<or> hit INTERNAL h) \<and> 0 \<le> h \<and> h \<le> j \<and> j \<le> h + 10)))"
  have w: "cWallet ex_client = AWallet ex_rich_wallet" "keyManager ex_rich_wallet = path_km" "cX ex_client = Some ()"
    by (simp_all add: ex_client_def ex_rich_wallet_def)
  have "bolt_inv chainhash_lib (mem_bkt (wallet_ds ex_rich_wallet))"
    unfolding ex_rich_ds by (rule ex_rich_abs)
  note r = RescanWallet_finds_history [OF toy_rescan.rescan_server_axioms w TrueI this hit_def reach_def]
  have "hit EXTERNAL 11"
    by (simp add: hit_def ex_scripthash ex_history_def EXTERNAL_def)
  moreover have "reach 11"
    unfolding reach_def by (auto intro!: exI [of _ 0])
  ultimately show ?thesis
    using r by (fastforce simp: EXTERNAL_def)
qed

end
