(* ===== verification/Client_Props.thy ===== *)
theory Client_Props
  imports Rescan_Props
begin

text \<open>
  Properties of the client: what a failed recreation leaves, how subscriptions follow the answers of the
  server, what a broadcast watches, and what a history entry does to the wallet.
\<close>

section \<open>Calls on a client with a wallet\<close>

lemma client_calls [simp]:
  assumes "cWallet c = AWallet w"
  shows "checkWallet c k = k" "w_call f c = (case f w of (w', r) \<Rightarrow> (c\<lparr>cWallet := AWallet w'\<rparr>, r))"
    "w_store CE g c = (case g (wenv CE w) (wallet_ds w) of (ds, r) \<Rightarrow> (c\<lparr>cWallet := AWallet (set_ds ds w)\<rparr>, r))"
  using assms by (simp_all add: checkWallet_def w_call_def w_store_def split_def)

lemma w_read_wallet [simp]: "cWallet c = AWallet w \<Longrightarrow> w_read CE h c = (c, h (wenv CE w) (wallet_ds w))"
  by (cases c) (simp add: w_read_def w_call_def)

lemma x_call_some [simp]:
  "cX c = Some x \<Longrightarrow> checkX c k' = k'" "cX c = Some x \<Longrightarrow> x_call f c = (case f x of (x', r) \<Rightarrow> (c\<lparr>cX := Some x'\<rparr>, r))"
  by (simp_all add: checkX_def x_call_def)

lemma wenv_same [simp]: "keyManager w = te_km (ce_tx CE) \<Longrightarrow> wenv CE w = ce_tx CE"
  by (simp add: wenv_def)

lemma te_ds_wenv [simp]: "te_ds (wenv CE w) = te_ds (ce_tx CE)" "te_wire (wenv CE w) = te_wire (ce_tx CE)"
  by (simp_all add: wenv_def)

lemma wallet_ds_set [simp]: "wallet_ds (set_ds ds w) = ds"
  by (simp add: set_ds_def)

section \<open>A recreation that fails\<close>


definition ex_no_client :: "(mem_db, int list, bytes, unit) Client" where
  "ex_no_client = NewBtcElectrumClient None"

definition ex_bad_seed :: "(mem_db, int list, bytes, unit) client_env" where
  "ex_bad_seed = ex_scan\<lparr>ce_lib := toy_lib\<lparr>NewSeedWithErrorChecking := (\<lambda>m. Inl (Err ''invalid mnemonic''))\<rparr>\<rparr>"

lemma ex_bolt_enc: "aEnc (bolt_abs chainhash_lib (mem_bkt ex_bolt)) = None"
  by (simp add: bolt_abs_def ex_bolt_eq bkt_names mem_bkt_def)


section \<open>Subscriptions\<close>

definition address_sub :: "('ds, 'k, 'a, 'x) client_env \<Rightarrow> 'a \<Rightarrow> bytes \<Rightarrow> Subscription" where
  "address_sub CE a script = \<lparr>PkScript = EncodeToString script, ElectrumScripthash = pkScriptToElectrumScripthash CE script,
     Address = AddrString CE a\<rparr>"

text \<open>What \<open>getNewAddress\<close> does up to the answer of the server.\<close>

lemma getNewAddress_run:
  assumes "cWallet c = AWallet w" and "cX c = Some x"
    and "wallet_GetUnusedAddress (wenv CE w) (if internal then INTERNAL else EXTERNAL) (wallet_ds w) = Inr (Some a)"
    and "PayToAddrScript (ce_wire CE) a = Inr script"
    and "Sub_Put (subs_if (ce_tx CE)) (address_sub CE a script) (wallet_ds w) = (d, Inr ())"
  shows "getNewAddress CE internal c =
    thenS (watch CE (address_sub CE a script) (c\<lparr>cWallet := AWallet (set_ds d w)\<rparr>)) (\<lambda>c _. (c, Inr (AddrString CE a)))"
  using assms
  by (simp add: getNewAddress_def wallet_AddSubscription_def SubscriptionManager_Put_def Let_def address_sub_def [symmetric])

lemma watch_fails:
  assumes "cWallet c = AWallet w" and "cX c = Some x"
    and "X_SubscribeScripthashNotify (ce_x CE) (ElectrumScripthash s) x = (x', Inl err)"
    and "Sub_Delete (subs_if (ce_tx CE)) (PkScript s) (wallet_ds w) = (d, r)"
  shows "watch CE s c = (c\<lparr>cX := Some x', cWallet := AWallet (set_ds d w)\<rparr>, Inl err)"
  using assms
  by (simp add: watch_def unsubscribe_back_def wallet_RemoveSubscription_def SubscriptionManager_Delete_def)

lemma unknown_stops_listener:
  assumes "cWallet c = AWallet w" and "st \<noteq> []"
    and "Sub_GetElectrumScripthash (subs_if (ce_tx CE)) sh (wallet_ds w) = Inl (Err m)"
  shows "status_listener CE fuel now (\<lparr>Scripthash = sh, Status = st\<rparr> # rest) c =
    Some (c\<lparr>cListeners := cListeners c - 1\<rparr>, Inr False)"
  using assms
  by (simp add: status_notify_def getSubscriptionForScripthash_def wallet_GetSubscriptionForElectrumScripthash_def
      SubscriptionManager_GetElectrumScripthash_def)

text \<open>C23: asking again for an unused address while the server refuses the subscription removes the subscription
  that an earlier call stored for the same address.  The server still notifies of it, and the first such
  notification ends the listener: every notification behind it, of any address, is lost.\<close>

theorem refused_resubscription_ends_listener:
  assumes "sub_store (subs_if (ce_tx CE)) A okds" and "cWallet c = AWallet w" and "cX c = Some x" and "okds (wallet_ds w)"
    and "wallet_GetUnusedAddress (wenv CE w) EXTERNAL (wallet_ds w) = Inr (Some a)"
    and "PayToAddrScript (ce_wire CE) a = Inr script"
    and "Sub_Put (subs_if (ce_tx CE)) (address_sub CE a script) (wallet_ds w) = (d1, Inr ())"
    and "Sub_Delete (subs_if (ce_tx CE)) (EncodeToString script) d1 = (d2, Inr ())"
    and "X_SubscribeScripthashNotify (ce_x CE) (pkScriptToElectrumScripthash CE script) x = (x', Inl err)"
    and "\<forall>s \<in> ran (aSubs (A (wallet_ds w))). ElectrumScripthash s = pkScriptToElectrumScripthash CE script \<longrightarrow>
      PkScript s = EncodeToString script"
    and "\<not> is_panic (Sub_GetElectrumScripthash (subs_if (ce_tx CE)) (pkScriptToElectrumScripthash CE script) d2)"
  shows "\<exists>c' w'. UnusedAddress CE c = (c', Inl err) \<and> cWallet c' = AWallet w' \<and>
    aSubs (A (wallet_ds w')) = (aSubs (A (wallet_ds w)))(EncodeToString script := None) \<and>
    (\<forall>st fuel now rest. st \<noteq> [] \<longrightarrow>
      status_listener CE fuel now (\<lparr>Scripthash = pkScriptToElectrumScripthash CE script, Status = st\<rparr> # rest) c' =
        Some (c'\<lparr>cListeners := cListeners c' - 1\<rparr>, Inr False))"
proof -
  let ?sh = "pkScriptToElectrumScripthash CE script" and ?w = "set_ds d2 (set_ds d1 w)"
  let ?c = "c\<lparr>cWallet := AWallet ?w, cX := Some x'\<rparr>"
  have d1: "okds d1" "A d1 = (A (wallet_ds w))\<lparr>aSubs := (aSubs (A (wallet_ds w)))(EncodeToString script \<mapsto> address_sub CE a script)\<rparr>"
    using sub_store.Sub_Put [OF assms(1,4,7)] by (simp_all add: address_sub_def)
  have d2: "okds d2" "A d2 = (A (wallet_ds w))\<lparr>aSubs := (aSubs (A (wallet_ds w)))(EncodeToString script := None)\<rparr>"
    using sub_store.Sub_Delete [OF assms(1) d1(1) assms(8)] by (simp_all add: d1(2))
  have "watch CE (address_sub CE a script) (c\<lparr>cWallet := AWallet (set_ds d1 w)\<rparr>) =
      (c\<lparr>cWallet := AWallet (set_ds d1 w)\<rparr>\<lparr>cX := Some x', cWallet := AWallet ?w\<rparr>, Inl err)"
    by (rule watch_fails [of _ "set_ds d1 w" x]) (use assms(3,8,9) in \<open>simp_all add: address_sub_def\<close>)
  then have run: "UnusedAddress CE c = (?c, Inl err)"
    using getNewAddress_run [OF assms(2,3) _ assms(6,7), of False] assms(5) by (simp add: UnusedAddress_def)
  have "isl (Sub_GetElectrumScripthash (subs_if (ce_tx CE)) ?sh d2)"
  proof (rule ccontr)
    assume "\<not> ?thesis"
    then obtain s where "Sub_GetElectrumScripthash (subs_if (ce_tx CE)) ?sh d2 = Inr s"
      by (cases "Sub_GetElectrumScripthash (subs_if (ce_tx CE)) ?sh d2") simp_all
    from sub_store.Sub_GetElectrumScripthash [OF assms(1) d2(1) this]
    have s: "ElectrumScripthash s = ?sh" "PkScript s \<noteq> EncodeToString script" "aSubs (A (wallet_ds w)) (PkScript s) = Some s"
      by (auto simp: d2(2) split: if_splits)
    then show False
      using assms(10) s by (auto simp: ran_def)
  qed
  then obtain e where e: "Sub_GetElectrumScripthash (subs_if (ce_tx CE)) ?sh d2 = Inl e"
    by (auto simp: isl_def)
  then obtain m where "Sub_GetElectrumScripthash (subs_if (ce_tx CE)) ?sh d2 = Inl (Err m)"
    using assms(11) by (cases e) auto
  then have "status_listener CE fuel now (\<lparr>Scripthash = ?sh, Status = st\<rparr> # rest) ?c =
      Some (?c\<lparr>cListeners := cListeners ?c - 1\<rparr>, Inr False)" if "st \<noteq> []" for st fuel now rest
    using unknown_stops_listener [of ?c ?w st CE ?sh m] that by simp
  with run d2(2) show ?thesis
    by (intro exI [of _ ?c] exI [of _ ?w]) simp
qed

text \<open>The example: the wallet has one unused receiving key.\<close>

definition ex_receiver_client :: "(mem_db, int list, bytes, unit) Client" where
  "ex_receiver_client = ex_client\<lparr>cWallet := AWallet ex_receiver_wallet\<rparr>"

lemma ex_receiver_client [simp]:
  "cWallet ex_receiver_client = AWallet ex_receiver_wallet" "cX ex_receiver_client = Some ()"
  "wallet_ds ex_receiver_wallet = ex_receiver" "keyManager ex_receiver_wallet = path_km"
  by (simp_all add: ex_receiver_client_def ex_client_def ex_receiver_wallet_def)

lemma ex_receiver_abs: "bolt_inv chainhash_lib (mem_bkt ex_receiver)"
  "aSubs (bolt_abs chainhash_lib (mem_bkt ex_receiver)) = Map.empty"
proof -
  have "aSubs (bolt_abs chainhash_lib (mem_bkt ex_bolt)) = Map.empty"
    by (simp add: bolt_abs_def ex_bolt_eq mem_bkt_def bkt_names rows_def fun_eq_iff)
  then show "bolt_inv chainhash_lib (mem_bkt ex_receiver)" "aSubs (bolt_abs chainhash_lib (mem_bkt ex_receiver)) = Map.empty"
    unfolding ex_receiver_def by (simp_all add: first_key_abs)
qed

lemma toy_subs: "sub_store (subs_if (ce_tx (toy_ce X))) (\<lambda>d. bolt_abs chainhash_lib (mem_bkt d))
   (\<lambda>d. bolt_inv chainhash_lib (mem_bkt d))"
  unfolding toy_ce_simps ex_env_simps by (rule mem.Sub.sub_store_axioms)

lemma is_panic_thenR: "is_panic (thenR r k) \<longleftrightarrow> is_panic r \<or> (\<exists>x. r = Inr x \<and> is_panic (k x))"
  by (cases r) auto

lemma cursor_sub_calm: "\<not> is_panic (cursor_loop Unmarshal_sub kvs)"
proof (induction kvs)
  case (Cons kv kvs)
  then show ?case by (cases kv; cases "snd kv") (auto simp: is_panic_thenR)
qed simp

lemma mem_lookup_calm: "\<not> is_panic (SubscriptionsDB_GetElectrumScripthash mem_bolt sh d)"
  using cursor_sub_calm
  by (auto simp: SubscriptionsDB_GetElectrumScripthash_def SubscriptionsDB_getAll_def getAll_values_def is_panic_thenR
      ErrBucketNotFound_def mem_bolt_def split: option.splits)

abbreviation "ex_refuse \<equiv> toy_ce (toy_x ex_history (\<lambda>sh x. (x, Inl (Err ''history too large''))))"

theorem refused_resubscription_ends_listener_witness:
  "\<exists>c'. UnusedAddress ex_refuse ex_receiver_client = (c', Inl (Err ''history too large'')) \<and>
    (\<forall>rest. status_listener ex_refuse 1 0
       (\<lparr>Scripthash = pkScriptToElectrumScripthash ex_refuse ([0, 20] @ path_address [0, 0]), Status = ''new''\<rparr> # rest) c' =
       Some (c'\<lparr>cListeners := cListeners c' - 1\<rparr>, Inr False))"
proof -
  let ?script = "[0, 20] @ path_address [0, 0] :: bytes" and ?a = "path_address [0, 0]" and ?I = "subs_if (ce_tx ex_refuse)"
  let ?sh = "pkScriptToElectrumScripthash ex_refuse ?script"
  have key: "wallet_GetUnusedAddress (wenv ex_refuse ex_receiver_wallet) EXTERNAL (wallet_ds ex_receiver_wallet) = Inr (Some ?a)"
    using ex_receiver_address by (simp del: ex_env_simps add: ex_env_simps(3))
  have pay: "PayToAddrScript (ce_wire ex_refuse) ?a = Inr ?script"
    by (simp add: toy_wire_def)
  have inv: "bolt_inv chainhash_lib (mem_bkt (wallet_ds ex_receiver_wallet))"
    using ex_receiver_abs(1) by simp
  obtain d1 r1 where d1: "Sub_Put ?I (address_sub ex_refuse ?a ?script) (wallet_ds ex_receiver_wallet) = (d1, r1)"
    by (cases "Sub_Put ?I (address_sub ex_refuse ?a ?script) (wallet_ds ex_receiver_wallet)")
  have "\<not> isl r1"
    using mem_Sub_Put_ok [OF ex_receiver_abs(1), of "address_sub ex_refuse ?a ?script"] d1
    by (simp add: address_sub_def EncodeToString_def)
  then have r1: "r1 = Inr ()" by (cases r1) simp_all
  have inv1: "bolt_inv chainhash_lib (mem_bkt d1)"
    using sub_store.Sub_Put [OF toy_subs inv d1] by simp
  obtain d2 r2 where d2: "Sub_Delete ?I (EncodeToString ?script) d1 = (d2, r2)"
    by (cases "Sub_Delete ?I (EncodeToString ?script) d1")
  have "\<not> isl r2"
    using d2 inv1 by (auto simp: setup_simps SubscriptionsDB_Delete_def SubscriptionsDB_delete_def delete_value_def bolt_inv_def
        mem_bolt_def mem_bkt_def)
  then have r2: "r2 = Inr ()" by (cases r2) simp_all
  have "\<not> is_panic (Sub_GetElectrumScripthash ?I ?sh d2)"
    using mem_lookup_calm by (simp add: setup_simps)
  from refused_resubscription_ends_listener [OF toy_subs _ _ inv key pay d1 [unfolded r1] d2 [unfolded r2] _ _ this,
      of ex_receiver_client "()" "()" "Err ''history too large''"]
  show ?thesis
    by (auto simp: ex_receiver_abs(2))
qed

section \<open>Broadcast\<close>

text \<open>A watched output is stored under its script, and stays so.\<close>

lemma subscribe_back_stores:
  assumes "sub_store (subs_if (ce_tx CE)) A okds"
    and "subscribe_back CE backs c = (c', Inr ())" and "cWallet c = AWallet w" and "okds (wallet_ds w)" and "cX c \<noteq> None"
  shows "\<exists>w'. cWallet c' = AWallet w' \<and> okds (wallet_ds w') \<and>
    aSubs (A (wallet_ds w')) = fold put_sub (map (back_sub CE) backs) (aSubs (A (wallet_ds w)))"
  using assms(2,3,4,5)
proof (induction backs arbitrary: c w)
  case (Cons pkScript rest)
  let ?s = "back_sub CE pkScript"
  obtain x where x: "cX c = Some x" using Cons.prems(4) by auto
  obtain d r where put: "Sub_Put (subs_if (ce_tx CE)) ?s (wallet_ds w) = (d, r)"
    by (cases "Sub_Put (subs_if (ce_tx CE)) ?s (wallet_ds w)")
  have r: "r = Inr ()"
    using Cons.prems(1,2) put by (cases r) (simp_all add: wallet_AddSubscription_def SubscriptionManager_Put_def)
  obtain x' y where y: "X_SubscribeScripthashNotify (ce_x CE) (ElectrumScripthash ?s) x = (x', Inr (Some y))"
  proof (cases "X_SubscribeScripthashNotify (ce_x CE) (ElectrumScripthash ?s) x")
    case (Pair x' q)
    show thesis
      using Cons.prems(1,2) put x Pair that
      by (cases q) (auto simp: wallet_AddSubscription_def SubscriptionManager_Put_def r watch_def split: option.splits)
  qed
  have "subscribe_back CE rest (c\<lparr>cWallet := AWallet (set_ds d w), cX := Some x'\<rparr>) = (c', Inr ())"
    using Cons.prems(1,2) put x y by (simp add: wallet_AddSubscription_def SubscriptionManager_Put_def r watch_def)
  from Cons.IH [OF this, of "set_ds d w"] show ?case
    using sub_store.Sub_Put [OF assms(1) Cons.prems(3) put] by (simp add: r put_sub_def)
qed simp

lemma back_outputs:
  "backToWallet CE ours outs = Inr backs \<Longrightarrow> out \<in> set outs \<Longrightarrow> ExtractPkScriptAddrs (ce_wire CE) (OPkScript out) = Inr [a] \<Longrightarrow>
     AddrScriptAddress (ce_wire CE) a \<in> set ours \<Longrightarrow> OPkScript out \<in> set backs"
  by (induction outs arbitrary: backs) (auto simp: thenR_eq_Inr split: if_splits)

text \<open>C11: when \<open>Broadcast\<close> returns a transaction id, the server was sent the transaction, and every output that pays
  to one address of the wallet is subscribed in the wallet's database under its script hash; subscriptions
  stored before are kept.\<close>

theorem Broadcast_watches_own_outputs:
  assumes "sub_store (subs_if (ce_tx CE)) A okds" and "cWallet c = AWallet w" and "cX c = Some x" and "okds (wallet_ds w)"
    and "Broadcast CE (Some raw) c = (c', Inr txid)"
  shows "\<exists>tx w'. client_newWireTx (ce_wire CE) raw True = Inr tx \<and> cWallet c' = AWallet w' \<and>
    snd (X_Broadcast (ce_x CE) (EncodeToString raw) x) = Inr txid \<and>
    (\<forall>out \<in> set (TxOuts tx). \<forall>a. ExtractPkScriptAddrs (ce_wire CE) (OPkScript out) = Inr [a] \<longrightarrow>
       AddrScriptAddress (ce_wire CE) a \<in> set (wallet_ListAddresses (wenv CE w) (wallet_ds w)) \<longrightarrow>
       (\<exists>s. aSubs (A (wallet_ds w')) (EncodeToString (OPkScript out)) = Some s \<and>
            ElectrumScripthash s = pkScriptToElectrumScripthash CE (OPkScript out))) \<and>
    dom (aSubs (A (wallet_ds w))) \<subseteq> dom (aSubs (A (wallet_ds w')))"
proof -
  obtain tx where tx: "client_newWireTx (ce_wire CE) raw True = Inr tx"
    using assms(2,3,5) by (cases "client_newWireTx (ce_wire CE) raw True") (simp_all add: Broadcast_def)
  let ?ours = "wallet_ListAddresses (wenv CE w) (wallet_ds w)"
  obtain backs where backs: "backToWallet CE ?ours (TxOuts tx) = Inr backs"
    using assms(2,3,5) tx by (cases "backToWallet CE ?ours (TxOuts tx)") (simp_all add: Broadcast_def)
  obtain x' r where sent: "X_Broadcast (ce_x CE) (EncodeToString raw) x = (x', r)"
    by (cases "X_Broadcast (ce_x CE) (EncodeToString raw) x")
  have r: "r = Inr txid" "subscribe_back CE backs (c\<lparr>cX := Some x'\<rparr>) = (c', Inr ())"
    using assms(2,3,5) tx backs sent
    by (auto simp: Broadcast_def thenS_eq_Inr)
  obtain w' where w': "cWallet c' = AWallet w'"
      "aSubs (A (wallet_ds w')) = fold put_sub (map (back_sub CE) backs) (aSubs (A (wallet_ds w)))"
    using subscribe_back_stores [OF assms(1) r(2)] assms(2,4) by auto
  have own: "\<exists>s. aSubs (A (wallet_ds w')) (EncodeToString (OPkScript out)) = Some s \<and>
      ElectrumScripthash s = pkScriptToElectrumScripthash CE (OPkScript out)"
    if "out \<in> set (TxOuts tx)" "ExtractPkScriptAddrs (ce_wire CE) (OPkScript out) = Inr [a]"
      "AddrScriptAddress (ce_wire CE) a \<in> set ?ours" for out a
  proof -
    have "back_sub CE (OPkScript out) \<in> set (map (back_sub CE) backs)"
      using back_outputs [OF backs that] by simp
    from put_subs_mem [OF this, of "aSubs (A (wallet_ds w))"] obtain p where
        "PkScript (back_sub CE p) = PkScript (back_sub CE (OPkScript out))"
        "aSubs (A (wallet_ds w')) (PkScript (back_sub CE (OPkScript out))) = Some (back_sub CE p)"
      unfolding w'(2) by auto
    then show ?thesis
      using Encode_inj by (auto simp: back_sub_def)
  qed
  show ?thesis
    using tx w' sent r(1) own dom_put_subs [of "map (back_sub CE) backs" "aSubs (A (wallet_ds w))"]
    by (intro exI [of _ tx] exI [of _ w']) auto
qed

text \<open>The example: the raw transaction \<open>[1]\<close> pays 5000 to the wallet's receiving address.\<close>

abbreviation "ex_accept \<equiv> toy_ce (toy_x ex_history (\<lambda>sh x. (x, Inr (Some \<lparr>Scripthash = sh, Status = []\<rparr>))))"

lemma ex_receiver_addresses: "wallet_ListAddresses (wenv (toy_ce X) ex_receiver_wallet) ex_receiver = [path_address [0, 0]]"
proof -
  have "KeysDB_GetAll mem_bolt ex_receiver = Inr [\<lparr>Change = EXTERNAL, Index = 0\<rparr>]"
    by (simp add: KeysDB_GetAll_def KeysDB_getAllSorted_def ex_receiver_def KeysDB_Put_def KeysDB_put_def put_value_def
        mem_bolt_def ex_bolt_eq bkt_names mem_ok.str_bytes_Nil)
  then have "GetKeys path_lib (DS_Keys ex_ds) path_km ex_receiver = [[0, 0]]"
    by (simp add: GetKeys_def setup_simps path_child u32_def EXTERNAL_def)
  then show ?thesis
    by (simp add: wallet_ListAddresses_def path_script)
qed

theorem Broadcast_watches_own_outputs_witness:
  "\<exists>c' w' s. Broadcast ex_accept (Some [1]) ex_receiver_client = (c', Inr ''txid'') \<and> cWallet c' = AWallet w' \<and>
    aSubs (bolt_abs chainhash_lib (mem_bkt (wallet_ds w'))) (EncodeToString ex_script) = Some s"
proof -
  have inv: "bolt_inv chainhash_lib (mem_bkt (wallet_ds ex_receiver_wallet))"
    using ex_receiver_abs(1) by simp
  have tx: "client_newWireTx toy_wire [1] True = Inr ex_parent"
    by (simp add: client_newWireTx_def toy_wire_def ex_parent_def)
  have backs: "backToWallet (toy_ce X) [path_address [0, 0]] (TxOuts ex_parent) = Inr [ex_script]" for X
    by (simp add: ex_parent_def toy_wire_def ex_script_def)
  let ?s = "back_sub ex_accept ex_script"
  obtain d r where d: "Sub_Put (subs_if (ce_tx ex_accept)) ?s ex_receiver = (d, r)"
    by (cases "Sub_Put (subs_if (ce_tx ex_accept)) ?s ex_receiver")
  have "\<not> isl r"
    using mem_Sub_Put_ok [OF ex_receiver_abs(1), of ?s] d
    by (simp add: back_sub_def EncodeToString_def ex_script_def)
  then have "r = Inr ()" by (cases r) simp_all
  then have run: "Broadcast ex_accept (Some [1]) ex_receiver_client =
      (ex_receiver_client\<lparr>cWallet := AWallet (set_ds d ex_receiver_wallet), cX := Some ()\<rparr>, Inr ''txid'')"
    using d by (simp add: Broadcast_def tx ex_receiver_addresses backs wallet_AddSubscription_def SubscriptionManager_Put_def
        watch_def del: wenv_same)
  show ?thesis
    using Broadcast_watches_own_outputs [OF toy_subs _ _ inv run] tx run ex_receiver_addresses
    by (auto simp: ex_parent_def toy_wire_def ex_script_def)
qed

section \<open>History entries\<close>

text \<open>C22: a history entry is applied as the server states it.  The transaction the server returns is added with
  the height of the entry, whatever transaction id the entry has: a server that answers with another
  transaction makes the wallet record that one, with coins that count as confirmed at that height.\<close>

theorem history_applied_unverified:
  assumes "reliable_wallet (ce_tx CE) A okds nrm trunc" and "cWallet c = AWallet w" and "keyManager w = te_km (ce_tx CE)"
    and "cX c = Some x" and "okds (wallet_ds w)" and "derived (te_hdk (ce_tx CE)) (keyManager w) (A (wallet_ds w))"
    and "room (20 * length (TxOuts tx)) (A (wallet_ds w))"
    and "CheckTransactionSanity (ce_wire CE) tx = Inr ()" and "CheckDoubleSpends (ce_tx CE) tx (wallet_ds w) = Inr []"
    and "pay_scripts (ce_wire CE) (adrs (txstore w)) = Inr scripts" and "unknown (ce_tx CE) tx (A (wallet_ds w))"
    and "txids (txstore w) (txid_string (ce_tx CE) (tx_hash (ce_tx CE) tx)) = None"
    and "touches (ce_tx CE) tx (HistHeight h) scripts (A (wallet_ds w))"
    and "wallet_HasTransaction (ce_tx CE) (HistTxHash h) (wallet_ds w) = None"
    and "X_GetRawTransaction (ce_x CE) (HistTxHash h) x = (x', Inr (EncodeToString raw))"
    and "client_newWireTx (ce_wire CE) raw True = Inr tx"
  shows "\<exists>c' w' t. addTxHistoryToWallet CE fuel now [h] c = Some (c', Inr ()) \<and> cWallet c' = AWallet w' \<and> okds (wallet_ds w') \<and>
    aTxns (A (wallet_ds w')) (txid_string (ce_tx CE) (tx_hash (ce_tx CE) tx)) = Some t \<and> Txn.Height t = HistHeight h \<and>
    aUtxos (A (wallet_ds w')) = aUtxos (after_tx (ce_tx CE) nrm tx (HistHeight h) scripts (A (wallet_ds w)))"
proof -
  obtain ts n where run: "AddTransaction fuel (ce_tx CE) now tx (HistHeight h) now (txstore w) = Some (ts, Inr n)"
    and ts: "okds (store_ds ts)" "if touches (ce_tx CE) tx (HistHeight h) scripts (A (wallet_ds w))
       then 0 < n \<and> reliable_wallet.recorded (ce_tx CE) A nrm (txstore w) tx (HistHeight h) scripts ts
       else n = 0 \<and> ts = txstore w"
    by (rule AddTransaction_effect [OF assms(1,5) assms(6) [unfolded assms(3)] assms(7-12)]) blast
  obtain t where t: "Txn.Height t = HistHeight h" "A (store_ds ts) = (after_tx (ce_tx CE) nrm tx (HistHeight h) scripts (A (wallet_ds w)))
      \<lparr>aKeys := aKeys (A (store_ds ts)),
       aTxns := (aTxns (A (wallet_ds w)))(txid_string (ce_tx CE) (tx_hash (ce_tx CE) tx) \<mapsto> t)\<rparr>"
    using ts(2) assms(13) unfolding reliable_wallet.recorded_def [OF assms(1)] Let_def by auto
  have "addTxHistoryToWallet CE fuel now [h] c =
      Some (c\<lparr>cX := Some x', cWallet := AWallet (w\<lparr>txstore := ts\<rparr>)\<rparr>, Inr ())"
    using assms(2,3,4,14-16) run
    by (simp add: GetRawTransactionFromNode_def w_add_tx_def wallet_AddTransaction_def)
  moreover have "aTxns (A (store_ds ts)) (txid_string (ce_tx CE) (tx_hash (ce_tx CE) tx)) = Some t"
    by (subst t(2)) simp
  moreover have "aUtxos (A (store_ds ts)) = aUtxos (after_tx (ce_tx CE) nrm tx (HistHeight h) scripts (A (wallet_ds w)))"
    by (subst t(2)) simp
  ultimately show ?thesis
    using ts(1) t(1) by (intro exI [of _ "c\<lparr>cX := Some x', cWallet := AWallet (w\<lparr>txstore := ts\<rparr>)\<rparr>"]
        exI [of _ "w\<lparr>txstore := ts\<rparr>"] exI [of _ t]) simp
qed

text \<open>The example: the entry names a transaction that does not exist, and the answer pays 5000 to the wallet.\<close>

definition ex_fresh_client :: "(mem_db, int list, bytes, unit) Client" where
  "ex_fresh_client = ex_client\<lparr>cWallet := AWallet (ex_receiver_wallet\<lparr>txstore := ex_ts ex_bolt\<rparr>)\<rparr>"

definition ex_entry :: History where
  "ex_entry = \<lparr>HistHeight = 100, HistTxHash = ''no such transaction'', HistFee = 0\<rparr>"

theorem history_applied_unverified_witness:
  "\<exists>c' w'. addTxHistoryToWallet ex_scan 1 0 [ex_entry] ex_fresh_client = Some (c', Inr ()) \<and> cWallet c' = AWallet w' \<and>
    aUtxos (bolt_abs chainhash_lib (mem_bkt (wallet_ds w'))) ex_coin = Some (new_utxo ex_env ex_parent 100 0 (TxOuts ex_parent ! 0)) \<and>
    HistTxHash ex_entry \<noteq> txid_string ex_env (tx_hash ex_env ex_parent)"
proof -
  let ?w = "ex_receiver_wallet\<lparr>txstore := ex_ts ex_bolt\<rparr>"
  have none: "wallet_HasTransaction ex_env (HistTxHash ex_entry) (wallet_ds ?w) = None"
    by (simp add: wallet_HasTransaction_def setup_simps TxnsDB_Get_def TxnsDB_get_def get_value_def mem_bolt_def
        ex_bolt_eq bkt_names)
  have raw: "X_GetRawTransaction (ce_x ex_scan) (HistTxHash ex_entry) () = ((), Inr (EncodeToString [1]))"
    by (simp add: EncodeToString_def hextable_def)
  have tx: "client_newWireTx (ce_wire ex_scan) [1] True = Inr ex_parent"
    by (simp add: client_newWireTx_def toy_wire_def ex_parent_def)
  have "reliable_wallet (ce_tx ex_scan) (\<lambda>d. bolt_abs chainhash_lib (mem_bkt d)) (\<lambda>d. bolt_inv chainhash_lib (mem_bkt d))
      (\<lambda>s. s) (\<lambda>t. t)"
    unfolding toy_ce_simps by (rule ex_txs.reliable_wallet_axioms)
  note applied = history_applied_unverified [OF this, where c = ex_fresh_client and w = ?w and h = ex_entry and tx = ex_parent
      and x = "()" and x' = "()" and raw = "[1]" and scripts = "[ex_script]" and fuel = 1 and now = 0, OF _ _ _ _ _ _ _ _ _ _ _ _ _ raw tx]
  have "room (20 * length (TxOuts ex_parent)) (bolt_abs chainhash_lib (mem_bkt ex_bolt))"
    by (rule ex_no_keys) (simp add: ex_parent_def)
  moreover have "touches ex_env ex_parent 100 [ex_script] (bolt_abs chainhash_lib (mem_bkt ex_bolt))"
    by (simp add: touches_def ex_paid)
  moreover have "HistHeight ex_entry = 100" "cWallet ex_fresh_client = AWallet ?w" "cX ex_fresh_client = Some ()"
      "txstore ?w = ex_ts ex_bolt" "keyManager ?w = path_km"
    by (simp_all add: ex_entry_def ex_fresh_client_def ex_client_def ex_receiver_wallet_def)
  ultimately obtain c' w' where "addTxHistoryToWallet ex_scan 1 0 [ex_entry] ex_fresh_client = Some (c', Inr ())"
      "cWallet c' = AWallet w'" "aUtxos (bolt_abs chainhash_lib (mem_bkt (wallet_ds w'))) =
        aUtxos (after_tx ex_env (\<lambda>s. s) ex_parent 100 [ex_script] (bolt_abs chainhash_lib (mem_bkt ex_bolt)))"
    using applied none ex_bolt_inv ex_no_keys ex_no_doubles ex_unknown by auto
  moreover have "length (txid_string ex_env (tx_hash ex_env ex_parent)) \<noteq> length (HistTxHash ex_entry)"
    by (simp add: ex_entry_def ex_parent_def chainhash_lib_def length_EncodeToString)
  then have "HistTxHash ex_entry \<noteq> txid_string ex_env (tx_hash ex_env ex_parent)" by auto
  moreover have "aUtxos (after_tx ex_env (\<lambda>s. s) ex_parent 100 [ex_script] (bolt_abs chainhash_lib (mem_bkt ex_bolt))) ex_coin =
      Some (new_utxo ex_env ex_parent 100 0 (TxOuts ex_parent ! 0))"
    unfolding after_tx_def coins_with_def ex_bolt_empty ex_paid by (simp add: ex_parent_def ex_op_def ex_coin_def)
  ultimately show ?thesis
    by (intro exI [of _ c'] exI [of _ w']) (simp only: conj_absorb simp_thms)
qed

end
