(* ===== verification/Sqlite_Props.thy ===== *)
theory Sqlite_Props
  imports Sqlite_Datastore Client_Props
begin

text \<open>
  A reference sqlite held in memory, and what the two datastores have in common and where they differ: the
  coins are the same, spent coins lose their frozen flag on sqlite alone, and the two count the unused keys
  of a purpose differently.
\<close>

section \<open>A database in memory\<close>

definition mem_table ::
  "(sql_tabs \<Rightarrow> 'r list) \<Rightarrow> (('r list \<Rightarrow> 'r list) \<Rightarrow> sql_tabs \<Rightarrow> sql_tabs) \<Rightarrow> ('r \<Rightarrow> string) \<Rightarrow> ('r, sql_tabs) sql_table" where
  "mem_table sel upd pk =
     \<lparr>sql_replace = (\<lambda>r d. Inr (upd (\<lambda>_. replace_row pk r (sel d)) d)),
      sql_insert = (\<lambda>r d. if pk r \<in> pk ` set (sel d) then Inl (Err ''UNIQUE constraint failed'') else Inr (upd (\<lambda>_. sel d @ [r]) d)),
      sql_update = (\<lambda>P f d. Inr (upd (\<lambda>_. map (\<lambda>r. if P r then f r else r) (sel d)) d)),
      sql_delete = (\<lambda>P d. Inr (upd (\<lambda>_. filter (\<lambda>r. \<not> P r) (sel d)) d)),
      sql_select = (\<lambda>P d. Inr (filter P (sel d))), sql_select_rowid = (\<lambda>P d. Inr (filter P (sel d)))\<rparr>"

definition mem_sql :: "sql_tabs sqldb" where
  "mem_sql =
     \<lparr>sql_Begin = (\<lambda>d. Inr ()), sql_Prepare = (\<lambda>d. Inr ()), sql_Commit = (\<lambda>old new. new), create_tables = Inr,
      keys_table = mem_table tKeys tKeys_update k_scriptAddress, utxos_table = mem_table tUtxos tUtxos_update u_outpoint,
      stxos_table = mem_table tStxos tStxos_update s_outpoint, txns_table = mem_table tTxns tTxns_update t_txid,
      subscriptions_table = mem_table tSubs tSubs_update b_scriptPubKey, config_table = mem_table tConfig tConfig_update g_key,
      enc_table = mem_table tEnc tEnc_update e_key\<rparr>"

lemma mem_table_laws: "sql_table_laws (mem_table sel upd pk) (\<lambda>d. d) sel upd pk"
  by unfold_locales (auto simp: mem_table_def split: if_splits)

interpretation lite: sqlite_store mem_sql "\<lambda>d. d" chainhash_lib
  by (intro sqlite_store.intro sqlite_db.intro sqlite_db_axioms.intro chainhash.hash_codec_axioms)
    (simp_all add: mem_sql_def mem_table_laws)

interpretation lite_enc: sqlite_enc mem_sql "\<lambda>d. d" chainhash_lib toy_crypto "replicate 24 7"
  by (intro sqlite_enc.intro sqlite_enc_axioms.intro lite.sqlite_store_axioms toy_crypto.secret_box_axioms) simp

definition ex_sql :: sql_tabs where
  "ex_sql = \<lparr>tKeys = [], tUtxos = [], tStxos = [], tTxns = [], tSubs = [], tConfig = [], tEnc = []\<rparr>"

lemma ex_sql_inv: "sqlite_inv H ex_sql"
  by (simp add: sqlite_inv_def ex_sql_def rows_ok_def growing_def)

lemma ex_sql_abs: "aUtxos (sqlite_abs H ex_sql) = Map.empty" "aKeys (sqlite_abs H ex_sql) = Map.empty"
  by (simp_all add: sqlite_abs_def ex_sql_def row_map_def fun_eq_iff)

section \<open>The coins\<close>


lemma ex_utxo_wf: "wf_utxo ex_utxo"
  by (simp add: ex_utxo_def wf_utxo_def wf_op_def ex_op_def)


text \<open>A commit that fails is not noticed: the operation reports success, and the coin is not there.\<close>

lemma lost_commit_unnoticed:
  "sql_Begin S d = Inr () \<Longrightarrow> sql_Prepare S d = Inr () \<Longrightarrow> sql_replace (utxos_table S) (utxo_row H u) d = Inr d1 \<Longrightarrow>
   sql_Commit S d d1 = d \<Longrightarrow> UtxoDB_Put_sql H S u d = (d, Inr ())"
  by (simp add: UtxoDB_Put_sql_def sql_tx_def)

section \<open>Spent coins\<close>

text \<open>A coin that is frozen and then recorded as spent keeps the flag on bbolt and loses it on sqlite, whose
  table has no column for it.  When the spend is given up, the coin that returns is frozen again on bbolt and
  free to be spent on sqlite.\<close>

theorem sqlite_spent_coin_thaws:
  assumes "bolt_store B bkt H" and "sqlite_store S tabs H" and "bolt_inv H (bkt b)" and "sqlite_inv H (tabs d)"
    and "wf_stxo s" and "Frozen (SUtxo s)"
    and "StxoDB_Put H B s b = (b', Inr ())" and "StxoDB_Put_sql H S s d = (d', Inr ())"
  shows "(\<exists>ss. StxoDB_GetAll H B b' = Inr ss \<and> s \<in> set ss) \<and>
    (\<exists>ss. StxoDB_GetAll_sql H S d' = Inr ss \<and> s \<notin> set ss \<and> s\<lparr>SUtxo := (SUtxo s)\<lparr>Frozen := False\<rparr>\<rparr> \<in> set ss)"
proof
  have b': "bolt_inv H (bkt b')" "aStxos (bolt_abs H (bkt b')) (Op (SUtxo s)) = Some s"
    using bolt_store.stxo_put_step [OF assms(1,3,5,7)] by auto
  obtain ss where "StxoDB_GetAll H B b' = Inr ss" "lists_map (\<lambda>s. Op (SUtxo s)) ss (aStxos (bolt_abs H (bkt b')))"
    using bolt_store.S_GetAll_rows [OF assms(1) b'(1)] by metis
  then show "\<exists>ss. StxoDB_GetAll H B b' = Inr ss \<and> s \<in> set ss"
    using b'(2) by (auto simp: lists_map_def)
next
  have d': "sqlite_inv H (tabs d')" "aStxos (sqlite_abs H (tabs d')) (Op (SUtxo s)) = Some (thawed s)"
    using sqlite_store.sstxo_Put_step [OF assms(2,4,5,8)] by auto
  obtain ss where "StxoDB_GetAll_sql H S d' = Inr ss" "lists_map (\<lambda>s. Op (SUtxo s)) ss (aStxos (sqlite_abs H (tabs d')))"
      "\<forall>s \<in> set ss. wf_stxo s \<and> \<not> Frozen (SUtxo s)"
    by (rule sqlite_store.sstxo_GetAll [OF assms(2) d'(1)])
  then show "\<exists>ss. StxoDB_GetAll_sql H S d' = Inr ss \<and> s \<notin> set ss \<and> s\<lparr>SUtxo := (SUtxo s)\<lparr>Frozen := False\<rparr>\<rparr> \<in> set ss"
    using d'(2) assms(6) by (auto simp: lists_map_def thawed_def)
qed

definition ex_frozen :: Stxo where
  "ex_frozen = ex_spent\<lparr>SUtxo := (SUtxo ex_spent)\<lparr>Frozen := True\<rparr>\<rparr>"

theorem sqlite_spent_coin_thaws_witness:
  "\<exists>d' ss. StxoDB_Put_sql chainhash_lib mem_sql ex_frozen ex_sql = (d', Inr ()) \<and>
     StxoDB_GetAll_sql chainhash_lib mem_sql d' = Inr ss \<and> ex_spent \<in> set ss"
proof -
  obtain b' r where b': "StxoDB_Put chainhash_lib mem_bolt ex_frozen ex_bolt = (b', r)"
    by (cases "StxoDB_Put chainhash_lib mem_bolt ex_frozen ex_bolt")
  have r: "r = Inr ()"
    using mem_ok.bolt_S_Put_ok [OF ex_bolt_inv, of ex_frozen] b' by (cases r) simp_all
  obtain d' where d': "StxoDB_Put_sql chainhash_lib mem_sql ex_frozen ex_sql = (d', Inr ())"
    by (auto simp: StxoDB_Put_sql_def sql_tx_def mem_sql_def mem_table_def)
  have "wf_stxo ex_frozen" "Frozen (SUtxo ex_frozen)" "ex_frozen\<lparr>SUtxo := (SUtxo ex_frozen)\<lparr>Frozen := False\<rparr>\<rparr> = ex_spent"
    by (simp_all add: ex_frozen_def ex_spent_def wf_stxo_def wf_utxo_def wf_op_def ex_coin_def)
  then show ?thesis
    using sqlite_spent_coin_thaws [OF mem.bolt_store_axioms lite.sqlite_store_axioms ex_bolt_inv ex_sql_inv _ _ b' [unfolded r] d'] d'
    by auto
qed

section \<open>The lookahead window\<close>

text \<open>The number of unused keys \<open>GetLookaheadWindows\<close> gives for a purpose is, as its interface documents, that
  of the keys above the last used one on sqlite; on bbolt it counts every unused key, also those in gaps
  below.  So a wallet on bbolt generates fewer new keys than one on sqlite that has the same keys.\<close>

theorem lookahead_windows_differ:
  assumes "bolt_store B bkt H" and "sqlite_store S tabs H" and "bolt_inv H (bkt b)" and "sqlite_inv H (tabs d)"
    and "p \<in> {EXTERNAL, INTERNAL}"
    and "aKeys (bolt_abs H (bkt b)) = aKeys (sqlite_abs H (tabs d))"
  defines "ks \<equiv> aKeys (sqlite_abs H (tabs d))"
  shows "KeysDB_GetLookaheadWindows B b p =
      Some (int (card {sa. \<exists>i. ks sa = Some (\<lparr>Change = p, Index = i\<rparr>, False)})) \<and>
    KeysDB_GetLookaheadWindows_sql S d p =
      Some (int (card {sa. \<exists>i. ks sa = Some (\<lparr>Change = p, Index = i\<rparr>, False) \<and>
        (\<forall>sa' j. ks sa' = Some (\<lparr>Change = p, Index = j\<rparr>, True) \<longrightarrow> j < i)}))"
proof
  have "p \<in> dom (KeysDB_GetLookaheadWindows B b)"
    using assms(5) by (simp add: bolt_store.key_windows_dom [OF assms(1)])
  then obtain n where "KeysDB_GetLookaheadWindows B b p = Some n" by blast
  then show "KeysDB_GetLookaheadWindows B b p =
      Some (int (card {sa. \<exists>i. ks sa = Some (\<lparr>Change = p, Index = i\<rparr>, False)}))"
    using bolt_store.key_windows_count [OF assms(1,3)] by (simp add: unused_keys_def assms(6) ks_def)
  show "KeysDB_GetLookaheadWindows_sql S d p =
      Some (int (card {sa. \<exists>i. ks sa = Some (\<lparr>Change = p, Index = i\<rparr>, False) \<and>
        (\<forall>sa' j. ks sa' = Some (\<lparr>Change = p, Index = j\<rparr>, True) \<longrightarrow> j < i)}))"
    using assms(5) by (auto simp: sqlite_store.skey_windows [OF assms(2,4)] sqlite_store.keys_above_def [OF assms(2)]
        ks_def EXTERNAL_def INTERNAL_def)
qed

text \<open>The example: the second receiving key is used, the first is not.\<close>

definition ex_gap_keys :: "key_item list" where
  "ex_gap_keys = [(path_address [0, 0], \<lparr>Change = EXTERNAL, Index = 0\<rparr>, False),
     (path_address [0, 1], \<lparr>Change = EXTERNAL, Index = 1\<rparr>, True)]"

definition ex_gap_sql :: sql_tabs where
  "ex_gap_sql = ex_sql\<lparr>tKeys := map key_row ex_gap_keys\<rparr>"

definition ex_gap_bolt :: mem_db where
  "ex_gap_bolt = (keysBkt, map (\<lambda>(sa, kp, u). (sa, VKey \<lparr>kScriptAddress = sa, kPurpose = Change kp, kKeyIndex = Index kp, kUsed = u\<rparr>))
     ex_gap_keys) # ex_bolt"

lemma ex_gap_addresses: "path_address [0, 1] \<noteq> path_address [0, 0]"
  by (simp add: path_address_def)

lemma ex_gap_sql_abs: "sqlite_inv chainhash_lib ex_gap_sql"
  "aKeys (sqlite_abs chainhash_lib ex_gap_sql) = map_of ex_gap_keys"
proof -
  have ok: "\<forall>a \<in> set ex_gap_keys. wf_key a" "distinct (map fst ex_gap_keys)"
    using ex_gap_addresses by (auto simp: ex_gap_keys_def wf_key_def)
  then have "rows_ok wf_key fst key_row (map key_row ex_gap_keys)"
    by (auto simp: rows_ok_def)
  moreover have "growing (map key_row ex_gap_keys)"
    by (simp add: growing_def ex_gap_keys_def key_row_def)
  ultimately show "sqlite_inv chainhash_lib ex_gap_sql"
    using ex_sql_inv [of chainhash_lib] by (simp add: sqlite_inv_def ex_gap_sql_def)
  have "map_option snd \<circ> map_of (map (\<lambda>a. (fst a, a)) as) = map_of as" for as :: "key_item list"
    by (induction as) (auto simp: fun_eq_iff)
  then show "aKeys (sqlite_abs chainhash_lib ex_gap_sql) = map_of ex_gap_keys"
    using skeys.rmap_enc [OF ok(1)] by (simp add: sqlite_abs_def ex_gap_sql_def)
qed

lemma ex_gap_bolt_abs: "bolt_inv chainhash_lib (mem_bkt ex_gap_bolt)"
  "aKeys (bolt_abs chainhash_lib (mem_bkt ex_gap_bolt)) = map_of ex_gap_keys"
proof -
  let ?r = "\<lambda>(sa, kp, u). (sa, VKey \<lparr>kScriptAddress = sa, kPurpose = Change kp, kKeyIndex = Index kp, kUsed = u\<rparr>)"
  have bkt: "mem_bkt ex_gap_bolt = (mem_bkt ex_bolt)(keysBkt \<mapsto> map_of (map ?r ex_gap_keys))"
    by (auto simp: ex_gap_bolt_def mem_bkt_def fun_eq_iff)
  have "key_rows.bok (map_of (map ?r ex_gap_keys))"
    unfolding bucket_ok_def
  proof (intro allI impI)
    fix k v
    assume "map_of (map ?r ex_gap_keys) k = Some v"
    from map_of_SomeD [OF this] show "\<exists>a. wf_krec a \<and> k = kScriptAddress a \<and> v = VKey a"
      by (auto simp: ex_gap_keys_def wf_krec_def)
  qed
  then show "bolt_inv chainhash_lib (mem_bkt ex_gap_bolt)"
    using ex_bolt_inv by (simp add: bkt bolt_inv_def bkt_names)
  have "map_option krec_path \<circ> rows (\<lambda>sa. length sa = 20) (\<lambda>sa. sa) key_dec (map_of (map ?r as)) = map_of as"
    if "\<forall>a \<in> set as. length (fst a) = 20" for as
  proof -
    have "map_of as sa = None" if "length sa \<noteq> 20" for sa
      using that \<open>\<forall>a \<in> set as. length (fst a) = 20\<close> by (force simp: map_of_eq_None_iff)
    moreover have "map_of (map ?r as) sa =
        map_option (\<lambda>(kp, u). VKey \<lparr>kScriptAddress = sa, kPurpose = Change kp, kKeyIndex = Index kp, kUsed = u\<rparr>) (map_of as sa)" for sa
      by (induction as) auto
    ultimately show ?thesis
      by (auto simp: fun_eq_iff rows_def key_dec_def krec_path_def split: option.split)
  qed
  from this [of ex_gap_keys] show "aKeys (bolt_abs chainhash_lib (mem_bkt ex_gap_bolt)) = map_of ex_gap_keys"
    by (simp add: bkt bolt_abs_def bkt_names ex_gap_keys_def)
qed

theorem lookahead_windows_differ_witness:
  "KeysDB_GetLookaheadWindows mem_bolt ex_gap_bolt EXTERNAL = Some 1 \<and>
   KeysDB_GetLookaheadWindows_sql mem_sql ex_gap_sql EXTERNAL = Some 0"
proof -
  have unused: "{sa. \<exists>i. map_of ex_gap_keys sa = Some (\<lparr>Change = EXTERNAL, Index = i\<rparr>, False)} = {path_address [0, 0]}"
    using ex_gap_addresses by (auto simp: ex_gap_keys_def split: if_splits)
  have "map_of ex_gap_keys (path_address [0, 1]) = Some (\<lparr>Change = EXTERNAL, Index = 1\<rparr>, True)"
    using ex_gap_addresses by (simp add: ex_gap_keys_def)
  moreover have "i = 0" if "map_of ex_gap_keys sa = Some (\<lparr>Change = EXTERNAL, Index = i\<rparr>, False)" for sa i
    using that by (auto simp: ex_gap_keys_def split: if_splits)
  ultimately have above: "{sa. \<exists>i. map_of ex_gap_keys sa = Some (\<lparr>Change = EXTERNAL, Index = i\<rparr>, False) \<and>
      (\<forall>sa' j. map_of ex_gap_keys sa' = Some (\<lparr>Change = EXTERNAL, Index = j\<rparr>, True) \<longrightarrow> j < i)} = {}"
    by fastforce
  show ?thesis
    using lookahead_windows_differ [OF mem.bolt_store_axioms lite.sqlite_store_axioms ex_gap_bolt_abs(1) ex_gap_sql_abs(1), of EXTERNAL]
    unfolding ex_gap_bolt_abs(2) ex_gap_sql_abs(2) unused above by simp
qed

end
