(* ===== verification/Tip_Notify.thy ===== *)
theory Tip_Notify
  imports Client_Props
begin

text \<open>
  The tip notifications of \<open>client/btc/blockchain.go\<close>: the goroutine \<open>tipChange\<close> forwards the tips of the
  network to a channel of the user while it holds the read lock that registering and unregistering take for
  writing.  A state machine over one goroutine, the user's calls, and the channels handed out.
\<close>

section \<open>State and steps\<close>

text \<open>The goroutine waits for a tip, is about to send one with the lock held, has returned, or has panicked.\<close>

datatype tip_pc = Waiting | Sending int | Returned | Panicked string

text \<open>\<open>sendChan\<close> is \<open>sendTipChangeNotify\<close>; \<open>buffer\<close> is what a channel holds, at most one tip.  \<open>taken\<close> and \<open>given\<close>
  record the tips the goroutine took for a channel and those the user read from it.\<close>

record 'c tip_state =
  tipClient :: 'c
  tipPc :: tip_pc
  rlocked :: bool
  sendChan :: "nat option"
  madeChans :: nat
  closedChans :: "nat set"
  buffer :: "nat \<Rightarrow> int list"
  taken :: "nat \<Rightarrow> int list"
  given :: "nat \<Rightarrow> int list"

type_synonym ('ds, 'k, 'a, 'x) tips = "('ds, 'k, 'a, 'x) Client tip_state"

text \<open>A tip arrives.  \<open>updateWalletTip\<close> comes first; then the lock is taken, and given back at once when no
  channel is registered.\<close>

definition tipChange_recv :: "int \<Rightarrow> ('ds, 'k, 'a, 'x) tips \<Rightarrow> ('ds, 'k, 'a, 'x) tips option" where
  "tipChange_recv t s =
     (if tipPc s \<noteq> Waiting then None
      else
        (case updateWalletTip t (tipClient s) of
           (c, Inl (Panic m)) \<Rightarrow> Some (s\<lparr>tipClient := c, tipPc := Panicked m\<rparr>)
         | (c, _) \<Rightarrow>
             (case sendChan s of
                None \<Rightarrow> Some (s\<lparr>tipClient := c\<rparr>)
              | Some ch \<Rightarrow> Some (s\<lparr>tipClient := c, tipPc := Sending t, rlocked := True,
                  taken := (taken s)(ch := taken s ch @ [t])\<rparr>))))"

text \<open>The send: it panics on a closed channel and blocks while the buffer of one is full.\<close>

definition tipChange_send :: "('ds, 'k, 'a, 'x) tips \<Rightarrow> ('ds, 'k, 'a, 'x) tips option" where
  "tipChange_send s =
     (case (tipPc s, sendChan s) of
        (Sending t, Some ch) \<Rightarrow>
          (if ch \<in> closedChans s then Some (s\<lparr>tipPc := Panicked ''send on closed channel''\<rparr>)
           else if length (buffer s ch) < 1
             then Some (s\<lparr>tipPc := Waiting, rlocked := False, buffer := (buffer s)(ch := buffer s ch @ [t])\<rparr>)
           else None)
      | _ \<Rightarrow> None)"

definition tipChange_stop :: "('ds, 'k, 'a, 'x) tips \<Rightarrow> ('ds, 'k, 'a, 'x) tips option" where
  "tipChange_stop s = (if tipPc s = Waiting then Some (s\<lparr>tipPc := Returned\<rparr>) else None)"

text \<open>The user's calls; \<open>None\<close> is waiting for the lock.\<close>

definition RegisterTipChangeNotify :: "('ds, 'k, 'a, 'x) tips \<Rightarrow> (('ds, 'k, 'a, 'x) tips \<times> nat result) option" where
  "RegisterTipChangeNotify s =
     (if rlocked s then None
      else if sendChan s \<noteq> None
        then Some (s, Inl (Err ''notify already registered - unregister to close the channel''))
      else Some (s\<lparr>sendChan := Some (madeChans s), madeChans := Suc (madeChans s)\<rparr>, Inr (madeChans s)))"

definition UnregisterTipChangeNotify :: "('ds, 'k, 'a, 'x) tips \<Rightarrow> ('ds, 'k, 'a, 'x) tips option" where
  "UnregisterTipChangeNotify s =
     (if rlocked s then None
      else
        (case sendChan s of
           None \<Rightarrow> Some s
         | Some ch \<Rightarrow> Some (s\<lparr>closedChans := insert ch (closedChans s), sendChan := None\<rparr>)))"

definition user_read :: "nat \<Rightarrow> ('ds, 'k, 'a, 'x) tips \<Rightarrow> ('ds, 'k, 'a, 'x) tips option" where
  "user_read ch s =
     (case buffer s ch of
        [] \<Rightarrow> None
      | t # rest \<Rightarrow> Some (s\<lparr>buffer := (buffer s)(ch := rest), given := (given s)(ch := given s ch @ [t])\<rparr>))"

definition tips_init :: "('ds, 'k, 'a, 'x) Client \<Rightarrow> ('ds, 'k, 'a, 'x) tips" where
  "tips_init c = \<lparr>tipClient = c, tipPc = Waiting, rlocked = False, sendChan = None, madeChans = 0, closedChans = {},
     buffer = (\<lambda>_. []), taken = (\<lambda>_. []), given = (\<lambda>_. [])\<rparr>"

inductive tip_reach :: "('ds, 'k, 'a, 'x) Client \<Rightarrow> ('ds, 'k, 'a, 'x) tips \<Rightarrow> bool" for c0 where
  reach_init: "tip_reach c0 (tips_init c0)"
| reach_recv: "tip_reach c0 s \<Longrightarrow> tipChange_recv t s = Some s' \<Longrightarrow> tip_reach c0 s'"
| reach_send: "tip_reach c0 s \<Longrightarrow> tipChange_send s = Some s' \<Longrightarrow> tip_reach c0 s'"
| reach_stop: "tip_reach c0 s \<Longrightarrow> tipChange_stop s = Some s' \<Longrightarrow> tip_reach c0 s'"
| reach_register: "tip_reach c0 s \<Longrightarrow> RegisterTipChangeNotify s = Some (s', r) \<Longrightarrow> tip_reach c0 s'"
| reach_unregister: "tip_reach c0 s \<Longrightarrow> UnregisterTipChangeNotify s = Some s' \<Longrightarrow> tip_reach c0 s'"
| reach_read: "tip_reach c0 s \<Longrightarrow> user_read ch s = Some s' \<Longrightarrow> tip_reach c0 s'"

lemmas tip_steps = tipChange_recv_def tipChange_send_def tipChange_stop_def RegisterTipChangeNotify_def
  UnregisterTipChangeNotify_def user_read_def

section \<open>The invariant\<close>

definition pending :: "('ds, 'k, 'a, 'x) tips \<Rightarrow> nat \<Rightarrow> int list" where
  "pending s ch = (case tipPc s of Sending t \<Rightarrow> if sendChan s = Some ch then [t] else [] | _ \<Rightarrow> [])"

definition tips_ok :: "('ds, 'k, 'a, 'x) tips \<Rightarrow> bool" where
  "tips_ok s \<longleftrightarrow>
     (\<forall>ch. sendChan s = Some ch \<longrightarrow> ch < madeChans s \<and> ch \<notin> closedChans s) \<and>
     (\<forall>ch. madeChans s \<le> ch \<longrightarrow> ch \<notin> closedChans s \<and> taken s ch = [] \<and> given s ch = [] \<and> buffer s ch = []) \<and>
     (\<forall>t. tipPc s = Sending t \<longrightarrow> rlocked s \<and> sendChan s \<noteq> None) \<and>
     (rlocked s \<longrightarrow> (\<exists>t. tipPc s = Sending t)) \<and>
     tipPc s \<noteq> Panicked ''send on closed channel'' \<and>
     (\<forall>ch. length (buffer s ch) \<le> 1) \<and>
     (\<forall>ch. given s ch @ buffer s ch @ pending s ch = taken s ch)"

lemma pending_Sending [simp]: "tipPc s = Sending t \<Longrightarrow> pending s ch = (if sendChan s = Some ch then [t] else [])"
  by (simp add: pending_def)

lemma pending_idle: "(\<And>t. tipPc s \<noteq> Sending t) \<Longrightarrow> pending s ch = []"
  by (simp add: pending_def split: tip_pc.split)

lemma pending_buffer [simp]: "pending (s\<lparr>buffer := b\<rparr>) ch = pending s ch" "pending (s\<lparr>given := g\<rparr>) ch = pending s ch"
  by (cases "tipPc s"; simp add: pending_def)+

lemma tips_okD:
  assumes "tips_ok s"
  shows "sendChan s = Some ch \<Longrightarrow> ch < madeChans s" "sendChan s = Some ch \<Longrightarrow> ch \<notin> closedChans s"
    "madeChans s \<le> ch \<Longrightarrow> ch \<notin> closedChans s \<and> taken s ch = [] \<and> given s ch = [] \<and> buffer s ch = []"
    "tipPc s = Sending t \<Longrightarrow> rlocked s" "tipPc s = Sending t \<Longrightarrow> sendChan s \<noteq> None"
    "rlocked s \<Longrightarrow> \<exists>t. tipPc s = Sending t" "tipPc s \<noteq> Panicked ''send on closed channel''"
    "length (buffer s ch) \<le> 1" "given s ch @ buffer s ch @ pending s ch = taken s ch"
  using assms by (auto simp: tips_ok_def)

lemma tips_ok_idle: "tips_ok s \<Longrightarrow> \<not> rlocked s \<Longrightarrow> given s ch @ buffer s ch = taken s ch"
  using tips_okD(9) [of s ch] pending_idle [of s ch] tips_okD(4) by fastforce

lemma tips_ok_init: "tips_ok (tips_init c)"
  by (simp add: tips_ok_def tips_init_def pending_def)

lemma updateWalletTip_panic: "updateWalletTip t c = (c', Inl (Panic m)) \<Longrightarrow> m = ''nil pointer dereference''"
  by (auto simp: updateWalletTip_def w_call_def nil_deref_def split: wallet_ref.splits)

lemma tips_ok_client:
  assumes "tips_ok s" "tipPc s = Waiting" "pc = Waiting \<or> pc = Returned \<or> pc = Panicked ''nil pointer dereference''"
  shows "tips_ok (s\<lparr>tipClient := c, tipPc := pc\<rparr>)"
proof -
  have "\<not> rlocked s" using tips_okD(6) [OF assms(1)] assms(2) by auto
  then show ?thesis using assms tips_ok_idle [OF assms(1)] by (auto simp: tips_ok_def pending_def)
qed

lemma tips_ok_tipClient [simp]: "tips_ok (s\<lparr>tipClient := c\<rparr>) = tips_ok s"
  by (simp add: tips_ok_def pending_def cong: tip_pc.case_cong)

lemma tips_ok_take:
  assumes "tips_ok s" "tipPc s = Waiting" "sendChan s = Some ch"
  shows "tips_ok (s\<lparr>tipClient := c, tipPc := Sending t, rlocked := True, taken := (taken s)(ch := taken s ch @ [t])\<rparr>)"
proof -
  have "\<not> rlocked s" using tips_okD(6) [OF assms(1)] assms(2) by auto
  then show ?thesis using assms tips_ok_idle [OF assms(1)] by (auto simp: tips_ok_def)
qed

lemma tips_ok_put:
  assumes "tips_ok s" "tipPc s = Sending t" "sendChan s = Some ch" "buffer s ch = []"
  shows "tips_ok (s\<lparr>tipPc := Waiting, rlocked := False, buffer := (buffer s)(ch := [t])\<rparr>)"
proof -
  have "given s ch @ [t] = taken s ch"
    using tips_okD(9) [OF assms(1), of ch] assms by simp
  moreover have "given s c @ buffer s c = taken s c" if "c \<noteq> ch" for c
    using tips_okD(9) [OF assms(1), of c] assms that by simp
  ultimately show ?thesis
    using assms by (auto simp: tips_ok_def pending_idle)
qed

lemma tips_ok_read: "tips_ok s \<Longrightarrow> user_read ch s = Some s' \<Longrightarrow> tips_ok s'"
proof -
  assume ok: "tips_ok s" and "user_read ch s = Some s'"
  then obtain t rest where b: "buffer s ch = t # rest"
    and s': "s' = s\<lparr>buffer := (buffer s)(ch := rest), given := (given s)(ch := given s ch @ [t])\<rparr>"
    by (auto simp: user_read_def split: list.splits)
  have "ch < madeChans s" using tips_okD(3) [OF ok, of ch] b by force
  moreover have "rest = []" using tips_okD(8) [OF ok, of ch] b by simp
  moreover have "given s ch @ [t] @ pending s ch = taken s ch"
    using tips_okD(9) [OF ok, of ch] b \<open>rest = []\<close> by simp
  moreover have "\<forall>c. given s c @ buffer s c @ pending s c = taken s c"
    using tips_okD(9) [OF ok] by blast
  ultimately show ?thesis
    unfolding s' using ok by (simp add: tips_ok_def del: pending_Sending)
qed

lemma tips_ok_unlocked:
  assumes "tips_ok s" "\<not> rlocked s"
  shows "tips_ok (s\<lparr>sendChan := Some (madeChans s), madeChans := Suc (madeChans s)\<rparr>)"
    and "sendChan s = Some ch \<Longrightarrow> tips_ok (s\<lparr>closedChans := insert ch (closedChans s), sendChan := None\<rparr>)"
  using assms tips_ok_idle [OF assms] tips_okD(4) [OF assms(1)] by (auto simp: tips_ok_def pending_idle)

lemma tip_reach_ok: "tip_reach c0 s \<Longrightarrow> tips_ok s"
proof (induction rule: tip_reach.induct)
  case (reach_recv s t s')
  then show ?case
    using tips_ok_client [of s "Panicked ''nil pointer dereference''"]
    by (auto simp: tipChange_recv_def dest!: updateWalletTip_panic intro: tips_ok_take
        split: if_splits prod.splits sum.splits fault.splits option.splits)
next
  case (reach_send s s')
  then show ?case
    by (auto simp: tipChange_send_def tips_okD(2) intro: tips_ok_put split: if_splits tip_pc.splits option.splits)
next
  case (reach_stop s s')
  then show ?case
    using tips_ok_client [of s Returned "tipClient s"] by (auto simp: tipChange_stop_def split: if_splits)
qed (auto simp: RegisterTipChangeNotify_def UnregisterTipChangeNotify_def tips_ok_init tips_ok_unlocked
    intro: tips_ok_read split: if_splits option.splits)

section \<open>What the user sees\<close>

text \<open>C19: In every reachable state the goroutine has not sent on a closed channel, and the tips it took for a
  channel are, in order, those the user has read, the one in the buffer and the one being sent.  While it waits
  to send into a full buffer nothing but the user's read moves: registering, unregistering, the stop of the
  context and the goroutine itself all wait, and after the read the send succeeds.
\<close>

theorem tips_delivered_in_order:
  assumes "tip_reach c0 s"
  shows "tipPc s \<noteq> Panicked ''send on closed channel'' \<and>
    taken s ch = given s ch @ buffer s ch @ pending s ch \<and> length (buffer s ch) \<le> 1 \<and>
    (tipPc s = Sending t \<and> sendChan s = Some ch \<and> buffer s ch \<noteq> [] \<longrightarrow>
      RegisterTipChangeNotify s = None \<and> UnregisterTipChangeNotify s = None \<and> tipChange_stop s = None \<and>
      tipChange_send s = None \<and> tipChange_recv t' s = None \<and>
      (\<exists>s'. user_read ch s = Some s' \<and> tipChange_send s' \<noteq> None))"
proof -
  have ok: "tips_ok s" by (rule tip_reach_ok [OF assms])
  have "RegisterTipChangeNotify s = None \<and> UnregisterTipChangeNotify s = None \<and> tipChange_stop s = None \<and>
      tipChange_send s = None \<and> tipChange_recv t' s = None \<and>
      (\<exists>s'. user_read ch s = Some s' \<and> tipChange_send s' \<noteq> None)"
    if at: "tipPc s = Sending t" "sendChan s = Some ch" "buffer s ch \<noteq> []"
  proof -
    obtain b rest where "buffer s ch = b # rest" using at(3) by (cases "buffer s ch") auto
    then have "buffer s ch = [b]" using tips_okD(8) [OF ok, of ch] by simp
    then show ?thesis
      using at tips_okD(2) [OF ok at(2)] tips_okD(4) [OF ok at(1)] by (simp add: tip_steps)
  qed
  then show ?thesis
    using tips_okD(7,8) [OF ok] tips_okD(9) [OF ok, of ch] by simp
qed

text \<open>A client without a wallet registers, and two tips arrive before the user reads.\<close>

definition ex_tips :: "(mem_db, int list, bytes, unit) tips" where
  "ex_tips = (tips_init ex_no_client)\<lparr>sendChan := Some 0, madeChans := 1, tipPc := Sending 8, rlocked := True,
     buffer := (\<lambda>_. [])(0 := [7]), taken := (\<lambda>_. [])(0 := [7, 8])\<rparr>"

lemma ex_tips_reach: "tip_reach ex_no_client ex_tips"
proof -
  let ?s0 = "tips_init ex_no_client"
  let ?s1 = "?s0\<lparr>sendChan := Some 0, madeChans := 1\<rparr>"
  let ?s2 = "?s1\<lparr>tipPc := Sending 7, rlocked := True, taken := (\<lambda>_. [])(0 := [7])\<rparr>"
  let ?s3 = "?s2\<lparr>tipPc := Waiting, rlocked := False, buffer := (\<lambda>_. [])(0 := [7])\<rparr>"
  have "tip_reach ex_no_client ?s1"
    by (rule reach_register [OF reach_init, of _ _ "Inr 0"]) (simp add: RegisterTipChangeNotify_def tips_init_def)
  then have "tip_reach ex_no_client ?s2"
    by (rule reach_recv [of _ _ 7]) (simp add: tipChange_recv_def tips_init_def updateWalletTip_def ex_no_client_def NewBtcElectrumClient_def)
  then have "tip_reach ex_no_client ?s3"
    by (rule reach_send) (simp add: tipChange_send_def tips_init_def)
  then show ?thesis
    by (rule reach_recv [of _ _ 8])
      (simp add: tipChange_recv_def tips_init_def updateWalletTip_def ex_no_client_def NewBtcElectrumClient_def ex_tips_def)
qed

theorem tips_delivered_in_order_witness:
  "tip_reach ex_no_client ex_tips \<and> UnregisterTipChangeNotify ex_tips = None \<and> tipChange_stop ex_tips = None \<and>
   (\<exists>s'. user_read 0 ex_tips = Some s' \<and> tipChange_send s' \<noteq> None)"
  using tips_delivered_in_order [OF ex_tips_reach, where ch = 0 and t = 8] ex_tips_reach
  by (simp add: ex_tips_def)

end
