(* ===== verification/Rpc_Tool.thy ===== *)
theory Rpc_Tool
  imports Client_Props "HOL-Library.List_Lexorder" "HOL-Library.Char_ord"
begin

text \<open>
  The test RPC service of the client (\<open>client/btc/serve_rpc.go\<close>) and the command line client that calls it
  (\<open>client/btc/rpc_test/client.go\<close>).  Requests and responses are maps of strings; \<open>net/rpc\<close> hands a request to
  the method and the response back unchanged, and an error as its text.  The package \<open>cast\<close> is a parameter.
\<close>

section \<open>The service\<close>

type_synonym strmap = "string \<rightharpoonup> string"

record cast_lib =
  ToString_int :: "int \<Rightarrow> string"
  ToInt64 :: "string \<Rightarrow> int"

text \<open>An absent key of a Go map reads as the empty string.\<close>

definition str_at :: "strmap \<Rightarrow> string \<Rightarrow> string" where
  "str_at m k = (case m k of None \<Rightarrow> [] | Some v \<Rightarrow> v)"

definition RPCEcho :: "strmap \<Rightarrow> strmap \<Rightarrow> strmap result" where
  "RPCEcho request r = Inr (r ++ request)"

definition RPCTip ::
  "cast_lib \<Rightarrow> ('ds, 'k, 'a, 'x) client_env \<Rightarrow> strmap \<Rightarrow> ('ds, 'k, 'a, 'x) Client \<Rightarrow> ('ds, 'k, 'a, 'x) Client \<times> strmap result" where
  "RPCTip K CE r c = thenS (c, client_Tip CE c) (\<lambda>c t. (c, Inr (r(''tip'' \<mapsto> ToString_int K t))))"

definition RPCBalance ::
  "cast_lib \<Rightarrow> ('ds, 'k, 'a, 'x) client_env \<Rightarrow> strmap \<Rightarrow> ('ds, 'k, 'a, 'x) Client \<Rightarrow> ('ds, 'k, 'a, 'x) Client \<times> strmap result" where
  "RPCBalance K CE r c =
     thenS (client_Balance CE c) (\<lambda>c (confirmed, unconfirmed, locked).
       (c, Inr (r(''confirmed'' \<mapsto> ToString_int K confirmed, ''unconfirmed'' \<mapsto> ToString_int K unconfirmed,
          ''locked'' \<mapsto> ToString_int K locked))))"

definition FormatBool :: "bool \<Rightarrow> string" where
  "FormatBool b = (if b then ''true'' else ''false'')"

definition unspent_text :: "hash_lib \<Rightarrow> Utxo \<Rightarrow> string" where
  "unspent_text H utxo =
     OutPoint_String H (Op utxo) @ '':'' @ Itoa (UValue utxo) @ '':'' @ Itoa (AtHeight utxo) @ '':'' @
     EncodeToString (ScriptPubkey utxo) @ '':'' @ FormatBool (WatchOnly utxo) @ '':'' @ FormatBool (Frozen utxo)"

text \<open>A newline follows every coin but the last.\<close>

fun unspents_text :: "hash_lib \<Rightarrow> Utxo list \<Rightarrow> string" where
  "unspents_text H [] = []"
| "unspents_text H [utxo] = unspent_text H utxo"
| "unspents_text H (utxo # utxos) = unspent_text H utxo @ [CHR 0x0A] @ unspents_text H utxos"

definition RPCListUnspent ::
  "('ds, 'k, 'a, 'x) client_env \<Rightarrow> strmap \<Rightarrow> ('ds, 'k, 'a, 'x) Client \<Rightarrow> ('ds, 'k, 'a, 'x) Client \<times> strmap result" where
  "RPCListUnspent CE r c =
     thenS (client_ListUnspent CE c) (\<lambda>c utxos.
       (c, Inr (r(''unspents'' \<mapsto> unspents_text (te_hash (ce_tx CE)) utxos))))"

definition RPCUnusedAddress ::
  "('ds, 'k, 'a, 'x) client_env \<Rightarrow> strmap \<Rightarrow> ('ds, 'k, 'a, 'x) Client \<Rightarrow> ('ds, 'k, 'a, 'x) Client \<times> strmap result" where
  "RPCUnusedAddress CE r c = thenS (UnusedAddress CE c) (\<lambda>c address. (c, Inr (r(''address'' \<mapsto> address))))"

definition RPCChangeAddress ::
  "('ds, 'k, 'a, 'x) client_env \<Rightarrow> strmap \<Rightarrow> ('ds, 'k, 'a, 'x) Client \<Rightarrow> ('ds, 'k, 'a, 'x) Client \<times> strmap result" where
  "RPCChangeAddress CE r c = thenS (ChangeAddress CE c) (\<lambda>c address. (c, Inr (r(''address'' \<mapsto> address))))"

definition rpc_feeLevel :: "string \<Rightarrow> FeeLevel" where
  "rpc_feeLevel feeType =
     (if feeType = ''PRIORITY'' then PRIORITY else if feeType = ''NORMAL'' then NORMAL
      else if feeType = ''ECONOMIC'' then ECONOMIC else NORMAL)"

definition RPCSpend ::
  "cast_lib \<Rightarrow> ('ds, 'k, 'a, 'x) client_env \<Rightarrow> int \<Rightarrow> Fees option result \<Rightarrow> strmap \<Rightarrow> strmap \<Rightarrow>
   ('ds, 'k, 'a, 'x) Client \<Rightarrow> ('ds, 'k, 'a, 'x) Client \<times> strmap result" where
  "RPCSpend K CE now resp request r c =
     (let pw = str_at request ''pw''; amt = ToInt64 K (str_at request ''amount''); addr = str_at request ''address'';
          feeLvl = rpc_feeLevel (str_at request ''feeType'') in
      thenS (client_Spend CE now resp pw amt addr feeLvl c) (\<lambda>c (changeIndex, tx, txid).
        (c, Inr (r(''tx'' \<mapsto> tx, ''txid'' \<mapsto> txid, ''changeIndex'' \<mapsto> ToString_int K changeIndex)))))"

definition RPCBroadcast ::
  "('ds, 'k, 'a, 'x) client_env \<Rightarrow> strmap \<Rightarrow> strmap \<Rightarrow> ('ds, 'k, 'a, 'x) Client \<Rightarrow> ('ds, 'k, 'a, 'x) Client \<times> strmap result" where
  "RPCBroadcast CE request r c =
     thenS (RpcBroadcast CE (str_at request ''rawTx'') c) (\<lambda>c txid. (c, Inr (r(''txid'' \<mapsto> txid))))"

section \<open>The command line\<close>

text \<open>How the tool stops before or after a call: \<open>os.Exit\<close>, \<open>log.Fatal\<close>, or a panic.\<close>

datatype tool_stop = ToolExit nat | LogFatal string | ToolPanic string

fun Join :: "string list \<Rightarrow> string \<Rightarrow> string" where
  "Join [] sep = []"
| "Join [s] sep = s"
| "Join (s # ss) sep = s @ sep @ Join ss sep"

definition cmd_String :: "string \<Rightarrow> string list \<Rightarrow> string" where
  "cmd_String cmd args = cmd @ ''    '' @ Join args '' '' @ [CHR 0x0A]"

definition rpc_port :: "string list \<Rightarrow> tool_stop + string" where
  "rpc_port argv =
     (if length argv > 2 then
        (if argv ! 1 \<in> {''-regtest'', ''--regtest''} then Inr ''28887''
         else if argv ! 1 \<in> {''-testnet'', ''--testnet''} then Inr ''18887''
         else if argv ! 1 \<in> {''-mainnet'', ''--mainnet''} then Inr ''8887''
         else Inl (ToolExit 1))
      else Inr [])"

text \<open>The checks of the arguments of \<open>spend\<close> and \<open>broadcast\<close>, in the order of the source.\<close>

definition check_spend :: "string \<Rightarrow> string list \<Rightarrow> tool_stop + unit" where
  "check_spend cmd args =
     (if length args < 4 then Inl (LogFatal (cmd_String cmd args @ ''needs 4 arguments: pw amount address feeType''))
      else if args ! 0 = [] then Inl (LogFatal (cmd_String cmd args @ ''empty password''))
      else
        (case Atoi (args ! 1) of
           Inl _ \<Rightarrow> Inl (LogFatal (cmd_String cmd args @ ''amount should be a number in satoshis''))
         | Inr i \<Rightarrow>
             (if i < 10000 then Inl (LogFatal (cmd_String cmd args @ Itoa i @ ''amount is dust''))
              else if args ! 2 = [] then Inl (LogFatal (cmd_String cmd args @ ''address should be a bitcoin address''))
              else if args ! 3 \<notin> {''NORMAL'', ''PRIORITY'', ''ECONOMIC''}
                then Inl (LogFatal (cmd_String cmd args @ ''feeType should be NORMAL, PRIORITY or ECONOMIC''))
              else Inr ())))"

definition check_cmd :: "string \<Rightarrow> string list \<Rightarrow> tool_stop + unit" where
  "check_cmd cmd args =
     (if cmd = ''help'' then Inl (ToolExit 0)
      else if cmd \<in> {''tip'', ''listunspent'', ''getunusedaddress'', ''getchangeaddress'', ''getbalance'', ''echo''} then Inr ()
      else if cmd = ''spend'' then check_spend cmd args
      else if cmd = ''broadcast'' then
        (if length args < 1 then Inl (LogFatal (cmd_String cmd args @ ''needs 1 argument: the raw tx'')) else Inr ())
      else Inl (LogFatal (cmd_String cmd args @ ''unknown command'')))"

text \<open>The port, the command and its arguments.\<close>

definition rpc_args :: "string list \<Rightarrow> tool_stop + string \<times> string \<times> string list" where
  "rpc_args argv =
     (case rpc_port argv of Inl stop \<Rightarrow> Inl stop
      | Inr port \<Rightarrow>
          (let args = tl argv in
           if length args < 2 then Inl (LogFatal ''no command given'')
           else
             (let cmd = args ! 1; cargs = drop 2 args in
              (case check_cmd cmd cargs of Inl stop \<Rightarrow> Inl stop | Inr _ \<Rightarrow> Inr (port, cmd, cargs)))))"

section \<open>Calls and what the tool prints\<close>

text \<open>\<open>client.Call\<close>: an error of the method comes back as its text and stops the tool; a panic of the method
  ends the service.\<close>

definition rpc_call :: "string \<Rightarrow> ('s \<times> strmap result) \<Rightarrow> (strmap \<Rightarrow> tool_stop + string list) \<Rightarrow> 's \<times> (tool_stop + string list)" where
  "rpc_call method answer show =
     (case answer of
        (s, Inl (Err m)) \<Rightarrow> (s, Inl (LogFatal (method @ '':'' @ m)))
      | (s, Inl (Panic m)) \<Rightarrow> (s, Inl (ToolPanic m))
      | (s, Inr response) \<Rightarrow> (s, show response))"

definition print_key :: "string \<Rightarrow> strmap \<Rightarrow> string" where
  "print_key k response = k @ '' '' @ str_at response k"

text \<open>The lines for one coin; the indices panic on a text with fewer than seven fields.\<close>

definition print_unspent :: "string \<Rightarrow> tool_stop + string list" where
  "print_unspent unspent =
     (let us = Split (CHR '':'') unspent in
      if length us < 7 then Inl (ToolPanic ''index out of range'')
      else Inr ['' {'', ''   txid: '' @ us ! 0, ''   vout: '' @ us ! 1, ''   value: '' @ us ! 2,
        ''   spendheight: '' @ us ! 3, ''   script: '' @ us ! 4, ''   watch only: '' @ us ! 5,
        ''   frozen: '' @ us ! 6, '' }''])"

fun print_each :: "string list \<Rightarrow> tool_stop + string list" where
  "print_each [] = Inr []"
| "print_each (u # us) =
     (case print_unspent u of Inl stop \<Rightarrow> Inl stop
      | Inr ls \<Rightarrow> (case print_each us of Inl stop \<Rightarrow> Inl stop | Inr rest \<Rightarrow> Inr (ls @ rest)))"

definition print_unspents :: "strmap \<Rightarrow> tool_stop + string list" where
  "print_unspents response =
     (let allUnspents = str_at response ''unspents'' in
      if allUnspents = [] then Inr [''[]'']
      else (case print_each (Split CHR 0x0A allUnspents) of Inl stop \<Rightarrow> Inl stop
            | Inr ls \<Rightarrow> Inr (''['' # ls @ ['']''])))"

definition echo_request :: "string list \<Rightarrow> strmap" where
  "echo_request args = map_of (map (\<lambda>a. (a, a)) args)"

definition spend_request :: "string list \<Rightarrow> strmap" where
  "spend_request args =
     [''pw'' \<mapsto> args ! 0, ''amount'' \<mapsto> args ! 1, ''address'' \<mapsto> args ! 2, ''feeType'' \<mapsto> args ! 3]"

text \<open>\<open>fmt\<close> prints a map with its keys in order; the keys of the answer are the arguments.\<close>

definition print_echo :: "string list \<Rightarrow> strmap \<Rightarrow> string" where
  "print_echo args response =
     ''client response map['' @ Join (map (\<lambda>k. k @ '':'' @ str_at response k) (sort (remdups args))) '' '' @ '']''"

definition rpc_run ::
  "cast_lib \<Rightarrow> ('ds, 'k, 'a, 'x) client_env \<Rightarrow> int \<Rightarrow> Fees option result \<Rightarrow> string \<Rightarrow> string list \<Rightarrow>
   ('ds, 'k, 'a, 'x) Client \<Rightarrow> ('ds, 'k, 'a, 'x) Client \<times> (tool_stop + string list)" where
  "rpc_run K CE now resp cmd args c =
     (if cmd = ''tip'' then rpc_call ''Ec.RPCTip:'' (RPCTip K CE Map.empty c) (\<lambda>r. Inr [print_key ''tip'' r])
      else if cmd = ''getbalance'' then
        rpc_call ''Ec.RPCBalance:'' (RPCBalance K CE Map.empty c)
          (\<lambda>r. Inr [print_key ''confirmed'' r, print_key ''unconfirmed'' r, print_key ''locked'' r])
      else if cmd = ''listunspent'' then rpc_call ''Ec.RPCListUnspent:'' (RPCListUnspent CE Map.empty c) print_unspents
      else if cmd = ''getunusedaddress'' then
        rpc_call ''Ec.RPCUnusedAddress:'' (RPCUnusedAddress CE Map.empty c) (\<lambda>r. Inr [print_key ''address'' r])
      else if cmd = ''getchangeaddress'' then
        rpc_call ''Ec.RPCChangeAddress:'' (RPCChangeAddress CE Map.empty c) (\<lambda>r. Inr [print_key ''address'' r])
      else if cmd = ''broadcast'' then
        rpc_call ''Ec.RPCBroadcast:'' (RPCBroadcast CE [''rawTx'' \<mapsto> args ! 0] Map.empty c) (\<lambda>r. Inr [print_key ''txid'' r])
      else if cmd = ''spend'' then
        rpc_call ''Ec.RPCSpend:'' (RPCSpend K CE now resp (spend_request args) Map.empty c)
          (\<lambda>r. Inr [print_key ''changeIndex'' r, print_key ''tx'' r, print_key ''txid'' r])
      else rpc_call ''Ec.RPCEcho:'' (c, RPCEcho (echo_request args) Map.empty) (\<lambda>r. Inr [print_echo args r]))"

definition rpc_tool ::
  "cast_lib \<Rightarrow> ('ds, 'k, 'a, 'x) client_env \<Rightarrow> int \<Rightarrow> Fees option result \<Rightarrow> string list \<Rightarrow>
   ('ds, 'k, 'a, 'x) Client \<Rightarrow> ('ds, 'k, 'a, 'x) Client \<times> (tool_stop + string list)" where
  "rpc_tool K CE now resp argv c =
     (case rpc_args argv of Inl stop \<Rightarrow> (c, Inl stop) | Inr (port, cmd, args) \<Rightarrow> rpc_run K CE now resp cmd args c)"

section \<open>What listunspent prints\<close>

text \<open>Block hashes print in hexadecimal.\<close>

definition prints_hex :: "hash_lib \<Rightarrow> bool" where
  "prints_hex H \<longleftrightarrow> (\<forall>h. set (HashString H h) \<subseteq> set hextable)"

lemma Encode_hextable: "set (EncodeToString bs) \<subseteq> set hextable"
proof (induction bs)
  case (Cons b bs)
  have "unat b < 16 * 16" using unsigned_less [of b] by simp
  then have "unat b div 16 < length hextable" "unat b mod 16 < length hextable"
    by (simp_all add: hextable_def less_mult_imp_div_less)
  then show ?case using Cons by (simp add: nth_mem)
qed simp

lemma chainhash_prints_hex: "prints_hex chainhash_lib"
  by (simp add: prints_hex_def chainhash_lib_def Encode_hextable)

lemma hextable_plain: "CHR 0x0A \<notin> set hextable" "CHR '':'' \<notin> set hextable"
  by (simp_all add: hextable_def)

lemma Itoa_chars: "c \<in> set (Itoa i) \<Longrightarrow> c = CHR ''-'' \<or> (\<exists>d<10. c = char_of (48 + d :: nat))"
  using nat_digits_chars by (auto simp: Itoa_def split: if_splits)

lemma Itoa_plain: "CHR 0x0A \<notin> set (Itoa i)" "CHR '':'' \<notin> set (Itoa i)"
proof -
  have "c \<notin> set (Itoa i)" if "of_char c = (10 :: nat) \<or> of_char c = (58 :: nat)" for c
  proof
    assume "c \<in> set (Itoa i)"
    from Itoa_chars [OF this] consider "c = CHR ''-''" | d :: nat where "d < 10" "c = char_of (48 + d)" by auto
    then show False using that by cases (auto simp: of_char_of)
  qed
  then show "CHR 0x0A \<notin> set (Itoa i)" "CHR '':'' \<notin> set (Itoa i)" by simp_all
qed

lemma Itoa_inj: "Itoa i = Itoa j \<longleftrightarrow> i = j"
proof
  have digits: "nat_digits m = nat_digits n \<Longrightarrow> m = n" for m n
    using parse_dec_digits by (metis option.inject)
  have sign: "nat_digits n \<noteq> CHR ''-'' # s" for n s
  proof
    assume n: "nat_digits n = CHR ''-'' # s"
    then obtain d :: nat where "d < 10" "CHR ''-'' = char_of (48 + d)"
      using nat_digits_chars [of "CHR ''-''" n] by auto
    then have "digit_val (CHR ''-'') = Some d" by simp
    then show False by (simp add: digit_val_def)
  qed
  assume "Itoa i = Itoa j"
  then show "i = j"
    using sign sign [symmetric] by (auto simp: Itoa_def dest!: digits split: if_splits)
qed simp

text \<open>The lines of a coin, and the fields they show.\<close>

definition coin_lines :: "hash_lib \<Rightarrow> Utxo \<Rightarrow> string list" where
  "coin_lines H u =
     ['' {'', ''   txid: '' @ HashString H (OpHash (Op u)), ''   vout: '' @ Itoa (uint (OpIndex (Op u))),
      ''   value: '' @ Itoa (UValue u), ''   spendheight: '' @ Itoa (AtHeight u),
      ''   script: '' @ EncodeToString (ScriptPubkey u), ''   watch only: '' @ FormatBool (WatchOnly u),
      ''   frozen: '' @ FormatBool (Frozen u), '' }'']"

lemma FormatBool_plain: "CHR 0x0A \<notin> set (FormatBool b)" "CHR '':'' \<notin> set (FormatBool b)"
  by (simp_all add: FormatBool_def)

lemma hex_plain:
  assumes "prints_hex H"
  shows "CHR 0x0A \<notin> set (HashString H h)" "CHR '':'' \<notin> set (HashString H h)"
    "CHR 0x0A \<notin> set (EncodeToString bs)" "CHR '':'' \<notin> set (EncodeToString bs)"
  using assms hextable_plain Encode_hextable [of bs] by (auto simp: prints_hex_def)

lemma unspent_text_line: "prints_hex H \<Longrightarrow> CHR 0x0A \<notin> set (unspent_text H u)"
  by (simp add: unspent_text_def OutPoint_String_def hex_plain Itoa_plain FormatBool_plain)

lemma print_unspent_text: "prints_hex H \<Longrightarrow> print_unspent (unspent_text H u) = Inr (coin_lines H u)"
  by (simp add: print_unspent_def unspent_text_def OutPoint_String_def coin_lines_def Split_append Split_no_sep
      hex_plain Itoa_plain FormatBool_plain)

lemma unspent_text_not_Nil: "unspent_text H u \<noteq> []"
  by (simp add: unspent_text_def OutPoint_String_def)

lemma unspents_text_not_Nil: "us \<noteq> [] \<Longrightarrow> unspents_text H us \<noteq> []"
  by (cases "(H, us)" rule: unspents_text.cases) (simp_all add: unspent_text_not_Nil)

lemma print_each_texts:
  "prints_hex H \<Longrightarrow> us \<noteq> [] \<Longrightarrow>
     print_each (Split CHR 0x0A (unspents_text H us)) = Inr (concat (map (coin_lines H) us))"
  by (induction H us rule: unspents_text.induct)
    (simp_all add: Split_append Split_no_sep unspent_text_line print_unspent_text)

lemma coin_lines_inj:
  assumes "hash_codec H" "wf_op (Op u)" "wf_op (Op v)" "coin_lines H u = coin_lines H v"
  shows "u = v"
proof -
  have "OpHash (Op u) = OpHash (Op v)"
    using assms hash_codec.HashString_eq [OF assms(1)] by (simp add: coin_lines_def wf_op_def)
  moreover have "WatchOnly u = WatchOnly v" "Frozen u = Frozen v"
    using assms(4) by (auto simp: coin_lines_def FormatBool_def split: if_splits)
  ultimately show ?thesis
    using assms(4) by (cases u; cases v; cases "Op u"; cases "Op v") (simp add: coin_lines_def Itoa_inj Encode_inj word_uint_eq_iff)
qed

text \<open>C38: \<open>listunspent\<close> prints, for every coin of the wallet and in its order, one block with the fields of the coin:
  the text the service builds is taken apart again without loss, an empty wallet prints as an empty list, and
  different coins print differently.
\<close>

theorem listunspent_shows_coins:
  assumes "prints_hex (te_hash (ce_tx CE))" "hash_codec (te_hash (ce_tx CE))"
    and "rpc_args argv = Inr (port, ''listunspent'', args)"
    and "client_ListUnspent CE c = (c', Inr us)"
  shows "rpc_tool K CE now resp argv c =
      (c', Inr (if us = [] then [''[]''] else ''['' # concat (map (coin_lines (te_hash (ce_tx CE))) us) @ ['']''])) \<and>
    (\<forall>u v. wf_op (Op u) \<longrightarrow> wf_op (Op v) \<longrightarrow>
       coin_lines (te_hash (ce_tx CE)) u = coin_lines (te_hash (ce_tx CE)) v \<longrightarrow> u = v)"
  using assms coin_lines_inj [OF assms(2)]
  by (auto simp: rpc_tool_def rpc_run_def rpc_call_def RPCListUnspent_def print_unspents_def str_at_def
      unspents_text_not_Nil print_each_texts)

definition ex_cast :: cast_lib where
  "ex_cast = \<lparr>ToString_int = Itoa, ToInt64 = (\<lambda>s. case Atoi s of Inr i \<Rightarrow> i | Inl _ \<Rightarrow> 0)\<rparr>"

lemma ex_client_ListUnspent:
  "\<exists>c'. client_ListUnspent ex_scan ex_client = (c', Inr [ex_own])"
proof -
  have w: "wallet_ds (wallet_UpdateTip t ex_rich_wallet) = ex_rich" for t
    by (simp add: wallet_UpdateTip_def ex_rich_wallet_def)
  have tx: "utxos_of (wenv ex_scan v) = utxos_of ex_env" for v
    by (simp add: wenv_def)
  have read: "w_read ex_scan wallet_ListUnspent (ex_client\<lparr>cWallet := AWallet (wallet_UpdateTip t ex_rich_wallet)\<rparr>) =
      (ex_client\<lparr>cWallet := AWallet (wallet_UpdateTip t ex_rich_wallet)\<rparr>, Inr [ex_own])" for t
    using ex_rich_GetAll by (simp only: w_read_def w_call_def wallet_ListUnspent_def tx) (simp add: w del: ex_env_simps)
  have "updateTip ex_scan ex_client =
      (ex_client\<lparr>cWallet := AWallet (wallet_UpdateTip (X_GetTip (ce_x ex_scan) ()) ex_rich_wallet)\<rparr>, Inr ())"
    by (simp add: updateTip_def client_Tip_def w_call_def ex_client_def)
  moreover have "checkWallet ex_client k = k" for k :: "(mem_db, int list, bytes, unit) Client \<times> Utxo list result"
    by (simp add: checkWallet_def ex_client_def)
  ultimately show ?thesis
    by (simp only: client_ListUnspent_def thenS_simps read) blast
qed

theorem listunspent_shows_coins_witness:
  "\<exists>c'. rpc_tool ex_cast ex_scan 0 (Inr None) [''client'', ''--regtest'', ''listunspent''] ex_client =
     (c', Inr (''['' # coin_lines chainhash_lib ex_own @ ['']'']))"
proof -
  obtain c' where c': "client_ListUnspent ex_scan ex_client = (c', Inr [ex_own])"
    using ex_client_ListUnspent by blast
  have H: "te_hash (ce_tx ex_scan) = chainhash_lib" by simp
  have args: "rpc_args [''client'', ''--regtest'', ''listunspent''] = Inr (''28887'', ''listunspent'', [])"
    by (simp add: rpc_args_def rpc_port_def check_cmd_def)
  from listunspent_shows_coins [of ex_scan, unfolded H, OF chainhash_prints_hex chainhash.hash_codec_axioms args c']
  show ?thesis by simp
qed

end
