(* ===== verification/Cmd_Tools.thy ===== *)
theory Cmd_Tools
  imports Client_Props
begin

text \<open>
  The command line tools of \<open>cmd/\<close>: \<open>goele\<close> runs a client, \<open>mkwallet\<close> makes or recreates its wallet and
  \<open>rmwallet\<close> removes the wallet's files, each for the coins btc, dash and firo, with the client configuration of
  \<open>client/config.go\<close>.  The user's directory, \<open>filepath.Join\<close> and \<open>os.MkdirAll\<close> are parameters.
\<close>

section \<open>client/config.go\<close>

record ClientConfig =
  ccCoin :: string
  ccCoinType :: int
  ccNetType :: string
  ccParams :: chain_params
  ccDataDir :: string
  ccTrustedPeer :: "NodeServerAddr option"
  ccProxyPort :: string
  ccStoreEncSeed :: bool
  ccDbType :: string
  ccFees :: "int \<times> int \<times> int \<times> int"
  ccTesting :: bool
  ccRPCTestPort :: int

record cmd_env =
  UserConfigDir :: "string result"
  AppDataDir :: "string \<Rightarrow> string"
  MkdirAll :: "string \<Rightarrow> unit result"
  JoinPath :: "string list \<Rightarrow> string"

definition appName :: string where "appName = ''goele''"

text \<open>The coin types of \<open>wallet/datastore.go\<close>.\<close>

definition Bitcoin :: int where "Bitcoin = 0"
definition Dash :: int where "Dash = 5"
definition Firo :: int where "Firo = 136"

definition NewDefaultConfig :: "cmd_env \<Rightarrow> ClientConfig" where
  "NewDefaultConfig V =
     \<lparr>ccCoin = ''btc'', ccCoinType = Bitcoin, ccNetType = ''mainnet'', ccParams = MainNetParams,
      ccDataDir = AppDataDir V appName, ccTrustedPeer = None, ccProxyPort = [], ccStoreEncSeed = False,
      ccDbType = ''bbolt'', ccFees = (0, 0, 0, 0), ccTesting = False, ccRPCTestPort = 8887\<rparr>"

text \<open>The fields of the wallet's configuration; the datastore is put in by \<open>getDatastore\<close>.\<close>

record WalletConfig =
  wcCoin :: string
  wcCoinType :: int
  wcNetType :: string
  wcParams :: chain_params
  wcStoreEncSeed :: bool
  wcDbType :: string
  wcDataDir :: string
  wcFees :: "int \<times> int \<times> int \<times> int"
  wcTesting :: bool

definition MakeWalletConfig :: "ClientConfig \<Rightarrow> WalletConfig" where
  "MakeWalletConfig cc =
     \<lparr>wcCoin = ccCoin cc, wcCoinType = ccCoinType cc, wcNetType = ccNetType cc, wcParams = ccParams cc,
      wcStoreEncSeed = ccStoreEncSeed cc, wcDbType = ccDbType cc, wcDataDir = ccDataDir cc, wcFees = ccFees cc,
      wcTesting = ccTesting cc\<rparr>"

text \<open>The fields the coin's \<open>NewElectrumXInterface\<close> fills in are zero values here; calling the nil deserializer
  panics.\<close>

definition MakeElectrumXConfig :: "ClientConfig \<Rightarrow> ElectrumXConfig" where
  "MakeElectrumXConfig cc =
     \<lparr>Coin = [], BlockHeaderSize = 0, HeaderDeserializer = (\<lambda>r. (Inl (Panic ''nil pointer dereference''), r)),
      StartPoint = 0, Genesis = [], MaxOnlinePeers = 0, Flags = 0, NetType = ccNetType cc,
      ProxyPort = ccProxyPort cc, MaxOnion = 0, DataDir = ccDataDir cc, TrustedPeer = ccTrustedPeer cc,
      Testing = ccTesting cc\<rparr>"

definition GetConfigPath :: "cmd_env \<Rightarrow> string result" where
  "GetConfigPath V =
     thenR (UserConfigDir V) (\<lambda>userCfgDir.
       (let appPath = JoinPath V [userCfgDir, appName] in thenR (MkdirAll V appPath) (\<lambda>_. Inr appPath)))"

section \<open>makeBasicConfig\<close>

text \<open>The coins a tool knows, the coin of its switch with the coin type, and the settings of a network; \<open>None\<close> is
  the default branch, which exits.\<close>

record tool =
  tCoins :: "string list"
  tCase :: string
  tCoinType :: int
  tNet :: "string \<Rightarrow> (ClientConfig \<Rightarrow> ClientConfig) option"

definition nets :: "string list" where
  "nets = [''mainnet'', ''testnet'', ''testnet3'', ''testnet4'', ''regtest'', ''simnet'']"

definition set_net :: "string \<Rightarrow> int \<Rightarrow> chain_params \<Rightarrow> string \<Rightarrow> bool \<Rightarrow> ClientConfig \<Rightarrow> ClientConfig" where
  "set_net net port params addr testing cfg =
     cfg\<lparr>ccNetType := net, ccRPCTestPort := port, ccParams := params,
       ccTrustedPeer := Some \<lparr>nsa_Net = ''ssl'', nsa_Addr = addr, nsa_Onion = False\<rparr>,
       ccStoreEncSeed := testing, ccTesting := testing\<rparr>"

text \<open>The switch on the network, given the three server addresses and rpc ports of the tool.\<close>

definition net_switch :: "(string \<times> int) \<Rightarrow> (string \<times> int) \<Rightarrow> (string \<times> int) \<Rightarrow> string \<Rightarrow> (ClientConfig \<Rightarrow> ClientConfig) option" where
  "net_switch reg test main net =
     (if net \<in> {''simnet'', ''regtest''} then Some (set_net Regtest (snd reg) RegressionNetParams (fst reg) True)
      else if net \<in> {''testnet'', ''testnet3'', ''testnet4''} then Some (set_net Testnet (snd test) TestNet3Params (fst test) True)
      else if net = ''mainnet'' then Some (set_net Mainnet (snd main) MainNetParams (fst main) False)
      else None)"

definition goele_btc :: tool where
  "goele_btc = \<lparr>tCoins = [''btc''], tCase = ''btc'', tCoinType = Bitcoin,
     tNet = net_switch (''127.0.0.1:53002'', 28887) (''testnet.qtornado.com:51002'', 18887) (''elx.bitske.com:50002'', 8887)\<rparr>"

definition mkwallet_btc :: tool where
  "mkwallet_btc = \<lparr>tCoins = [''btc''], tCase = ''btc'', tCoinType = Bitcoin,
     tNet = net_switch (''127.0.0.1:53002'', 28887) (''testnet.qtornado.com:51002'', 18887) (''elx.bitske.com:50002'', 8887)\<rparr>"

definition rmwallet_btc :: tool where
  "rmwallet_btc = \<lparr>tCoins = [''btc''], tCase = ''btc'', tCoinType = Bitcoin,
     tNet = net_switch (''127.0.0.1:53002'', 28887) (''testnet.qtornado.com:51002'', 18887) (''elx.bitske.com:50002'', 8887)\<rparr>"

definition goele_dash :: tool where
  "goele_dash = \<lparr>tCoins = [''dash''], tCase = ''dash'', tCoinType = Dash,
     tNet = net_switch (''127.0.0.1:50002'', 28885) (''dash-electrum-testnet.pshenmic.dev:50002'', 18885)
       (''dash-electrum.pshenmic.dev:50002'', 8885)\<rparr>"

definition mkwallet_dash :: tool where
  "mkwallet_dash = \<lparr>tCoins = [''dash''], tCase = ''dash'', tCoinType = Dash,
     tNet = net_switch (''127.0.0.1:50002'', 28887) (''dash-electrum-testnet.pshenmic.dev:50002'', 18887)
       (''dash-electrum.pshenmic.dev:50002'', 8887)\<rparr>"

definition rmwallet_dash :: tool where
  "rmwallet_dash = \<lparr>tCoins = [''dash''], tCase = ''dash'', tCoinType = Bitcoin,
     tNet = net_switch (''127.0.0.1:50002'', 28887) (''dash-electrum-testnet.pshenmic.dev:50002'', 18887)
       (''dash-electrum.pshenmic.dev:50002'', 8887)\<rparr>"

text \<open>The firo tools set the coin type once more in every network.\<close>

definition firo_net :: "(string \<Rightarrow> (ClientConfig \<Rightarrow> ClientConfig) option) \<Rightarrow> string \<Rightarrow> (ClientConfig \<Rightarrow> ClientConfig) option" where
  "firo_net sw net = map_option (\<lambda>settings cfg. (settings cfg)\<lparr>ccCoinType := 136\<rparr>) (sw net)"

definition goele_firo :: tool where
  "goele_firo = \<lparr>tCoins = [''firo''], tCase = ''firo'', tCoinType = Bitcoin,
     tNet = firo_net (net_switch (''127.0.0.1:50002'', 28886) (''95.179.164.13:51002'', 18886)
       (''electrumx.firo.org:50002'', 8886))\<rparr>"

definition mkwallet_firo :: tool where
  "mkwallet_firo = \<lparr>tCoins = [''firo''], tCase = ''firo'', tCoinType = Firo,
     tNet = firo_net (net_switch (''127.0.0.1:50002'', 28887) (''95.179.164.13:51002'', 18887)
       (''electrumx02.firo.org:50002'', 8887))\<rparr>"

definition rmwallet_firo :: tool where
  "rmwallet_firo = \<lparr>tCoins = [''btc''], tCase = ''btc'', tCoinType = Bitcoin,
     tNet = net_switch (''127.0.0.1:53002'', 28887) (''testnet.qtornado.com:51002'', 18887) (''elx.bitske.com:50002'', 8887)\<rparr>"

lemmas tools = goele_btc_def mkwallet_btc_def rmwallet_btc_def goele_dash_def mkwallet_dash_def rmwallet_dash_def
  goele_firo_def mkwallet_firo_def rmwallet_firo_def

definition os_Exit :: "nat \<Rightarrow> 'a result" where
  "os_Exit n = Inl (Panic (''exit '' @ Itoa (int n)))"

definition makeBasicConfig :: "tool \<Rightarrow> cmd_env \<Rightarrow> string \<Rightarrow> string \<Rightarrow> ClientConfig result" where
  "makeBasicConfig T V coin net =
     (let cfg = NewDefaultConfig V in
      if net \<notin> set nets then Inl (Err ''invalid net'')
      else if coin \<notin> set (tCoins T) then Inl (Err ''invalid coin'')
      else if coin \<noteq> tCase T then Inl (Err ''invalid coin'')
      else
        (case tNet T net of None \<Rightarrow> os_Exit 1
         | Some settings \<Rightarrow>
             (let cfg = settings (cfg\<lparr>ccCoinType := tCoinType T, ccCoin := coin\<rparr>) in
              thenR (GetConfigPath V) (\<lambda>appDir.
                (let coinNetDir = JoinPath V [appDir, coin, ccNetType cfg] in
                 thenR (MkdirAll V coinNetDir) (\<lambda>_. Inr (cfg\<lparr>ccDataDir := coinNetDir\<rparr>)))))))"

text \<open>Where the configuration comes from, for a network the tool accepts.\<close>

definition net_type :: "string \<Rightarrow> string" where
  "net_type net =
     (if net \<in> {''simnet'', ''regtest''} then Regtest
      else if net \<in> {''testnet'', ''testnet3'', ''testnet4''} then Testnet else Mainnet)"

section \<open>mkwallet\<close>

record mk_flags =
  mkHelp :: bool
  mkCoin :: string
  mkNet :: string
  mkPass :: string
  mkAction :: string
  mkSeed :: string
  mkTestWallet :: bool
  mkDbType :: string

text \<open>The defaults; the coin flag of the dash tool is that of the btc tool.\<close>

definition mk_defaults :: "string \<Rightarrow> mk_flags" where
  "mk_defaults coin = \<lparr>mkHelp = False, mkCoin = coin, mkNet = ''regtest'', mkPass = [], mkAction = ''create'', mkSeed = [],
     mkTestWallet = False, mkDbType = ''bbolt''\<rparr>"

text \<open>\<open>strings.SplitN\<close> with a separator of one byte and a positive count: the last part keeps its separators.\<close>

fun SplitN :: "nat \<Rightarrow> char \<Rightarrow> string \<Rightarrow> string list" where
  "SplitN 0 sep s = []"
| "SplitN (Suc 0) sep s = [s]"
| "SplitN (Suc (Suc n)) sep s =
     (if sep \<in> set s then takeWhile (\<lambda>c. c \<noteq> sep) s # SplitN (Suc n) sep (tl (dropWhile (\<lambda>c. c \<noteq> sep) s)) else [s])"

definition test_seed :: "string \<Rightarrow> string option" where
  "test_seed net =
     (if net \<in> {''regtest'', ''simnet''}
        then Some ''jungle pair grass super coral bubble tomato sheriff pulp cancel luggage wagon''
      else if net \<in> {''testnet'', ''testnet3''}
        then Some ''canyon trip truly ritual lonely quiz romance rose alone journey like bronze''
      else None)"

text \<open>The checks of the password and of the seed.\<close>

definition mk_checks :: "string \<Rightarrow> string \<Rightarrow> string \<Rightarrow> unit result" where
  "mk_checks action pass seed =
     (if action = ''create'' \<and> pass = [] then Inl (Err ''wallet create needs a password'')
      else if action = ''recreate'' then
        (if pass = [] then Inl (Err ''wallet recreate needs a new password - can be different to the previous password'')
         else if seed = [] then Inl (Err ''wallet recreate needs the old wallet seed'')
         else
           (let words = SplitN 12 (CHR '' '') seed in
            if length words \<noteq> 12 then Inl (Err ''a seed must have 12 words each separated by a space'')
            else if \<exists>word \<in> set words. length word < 3
              then Inl (Err ''malformed seed -- did you put extra spaces?'')
            else Inr ()))
      else Inr ())"

text \<open>The action, password, seed and configuration.  The database type is set before the error of
  \<open>makeBasicConfig\<close> is looked at, on a configuration that is nil then.\<close>

definition configure_mkwallet :: "tool \<Rightarrow> cmd_env \<Rightarrow> mk_flags \<Rightarrow> (string \<times> string \<times> string \<times> ClientConfig) result" where
  "configure_mkwallet T V fl =
     (if mkHelp fl then os_Exit 0
      else
        thenR (if mkTestWallet fl
                 then (case test_seed (mkNet fl) of None \<Rightarrow> Inl (Err ''no test_wallet for mainnet'') | Some seed \<Rightarrow> Inr seed)
               else Inr (mkSeed fl)) (\<lambda>seed.
        thenR (mk_checks (mkAction fl) (mkPass fl) seed) (\<lambda>_.
          (case makeBasicConfig T V (mkCoin fl) (mkNet fl) of
             Inl (Err m) \<Rightarrow> (if mkDbType fl = ''sqlite'' then nil_deref else Inl (Err m))
           | Inl (Panic m) \<Rightarrow> Inl (Panic m)
           | Inr cfg \<Rightarrow>
               Inr (mkAction fl, mkPass fl, seed, if mkDbType fl = ''sqlite'' then cfg\<lparr>ccDbType := ''sqlite''\<rparr> else cfg)))))"

text \<open>The wallet file of a configuration.\<close>

definition walletName :: "string \<Rightarrow> string" where
  "walletName dbType = (if dbType = ''bbolt'' then ''wallet.bdb'' else if dbType = ''sqlite'' then ''wallet.db'' else [])"

definition wallet_file :: "cmd_env \<Rightarrow> ClientConfig \<Rightarrow> string" where
  "wallet_file V cfg = JoinPath V [ccDataDir cfg, walletName (ccDbType cfg)]"

text \<open>\<open>main\<close> of the btc tool on the files of the machine: the files after, and the exit code.  After making a
  wallet it exits with 1, error or not.  \<open>envOf\<close> is the client's environment under a configuration.\<close>

definition mkwallet_main ::
  "cmd_env \<Rightarrow> (ClientConfig \<Rightarrow> ('ds, 'k, 'a, 'x) client_env) \<Rightarrow> int \<Rightarrow> bytes result \<Rightarrow> mk_flags \<Rightarrow> (string \<rightharpoonup> 'ds) \<Rightarrow>
   ((string \<rightharpoonup> 'ds) \<times> nat result) option" where
  "mkwallet_main V envOf now ent fl fs =
     (case configure_mkwallet mkwallet_btc V fl of
        Inl (Err m) \<Rightarrow> Some (fs, Inr 1)
      | Inl (Panic m) \<Rightarrow> Some (fs, Inl (Panic m))
      | Inr (action, pass, seed, cfg) \<Rightarrow>
          (let p = wallet_file V cfg; c = NewBtcElectrumClient (fs p) in
           if action = ''create'' then
             (case CreateWallet (envOf cfg) now ent pass c of None \<Rightarrow> None
              | Some (c', Inl (Panic m)) \<Rightarrow> Some (fs(p := contents c'), Inl (Panic m))
              | Some (c', _) \<Rightarrow> Some (fs(p := contents c'), Inr 1))
           else
             (case client_Start (envOf cfg) c of
                (c, Inl (Panic m)) \<Rightarrow> Some (fs, Inl (Panic m))
              | (c, Inl (Err m)) \<Rightarrow> Some (fs, Inr 1)
              | (c, Inr _) \<Rightarrow>
                  (case RecreateWallet (envOf cfg) now pass seed c of None \<Rightarrow> None
                   | Some (c', Inl (Panic m)) \<Rightarrow> Some (fs(p := contents c'), Inl (Panic m))
                   | Some (c', _) \<Rightarrow> Some (fs(p := contents c'), Inr 0)))))"

section \<open>goele\<close>

text \<open>Regtest runs on sqlite whatever the configuration says.\<close>

definition goele_config :: "tool \<Rightarrow> cmd_env \<Rightarrow> string \<Rightarrow> string \<Rightarrow> ClientConfig result" where
  "goele_config T V coin net =
     thenR (makeBasicConfig T V coin net) (\<lambda>cfg.
       Inr (if ccNetType cfg = Regtest then cfg\<lparr>ccDbType := ''sqlite''\<rparr> else cfg))"

text \<open>The password, and whether an error of loading is looked at: on testnet it is dropped.\<close>

definition goele_load ::
  "('ds, 'k, 'a, 'x) client_env \<Rightarrow> string \<Rightarrow> string \<Rightarrow> ('ds, 'k, 'a, 'x) Client \<Rightarrow> (('ds, 'k, 'a, 'x) Client, unit) run" where
  "goele_load CE net pass c =
     (if net = Regtest then LoadWallet CE ''abc'' c
      else if net = Testnet then
        (case LoadWallet CE ''abc'' c of None \<Rightarrow> None
         | Some (c', Inl (Panic m)) \<Rightarrow> Some (c', Inl (Panic m))
         | Some (c', _) \<Rightarrow> Some (c', Inr ()))
      else if net = Mainnet then LoadWallet CE pass c
      else Some (c, os_Exit 1))"

text \<open>\<open>main\<close> up to the RPC service: the client and \<open>Inr 0\<close> when it gets there, the exit code 1 on an error.\<close>

definition goele_main ::
  "cmd_env \<Rightarrow> (ClientConfig \<Rightarrow> ('ds, 'k, 'a, 'x) client_env) \<Rightarrow> nat \<Rightarrow> int \<Rightarrow> string \<Rightarrow> string \<Rightarrow> string \<Rightarrow> (string \<rightharpoonup> 'ds) \<Rightarrow>
   (('ds, 'k, 'a, 'x) Client option \<times> nat result) option" where
  "goele_main V envOf fuel now coin net pass fs =
     (case goele_config goele_btc V coin net of
        Inl (Err m) \<Rightarrow> Some (None, Inr 1)
      | Inl (Panic m) \<Rightarrow> Some (None, Inl (Panic m))
      | Inr cfg \<Rightarrow>
          (let CE = envOf cfg in
           case thenO (Some (client_Start CE (NewBtcElectrumClient (fs (wallet_file V cfg))))) (\<lambda>c _.
                thenO (goele_load CE (ccNetType cfg) pass c) (\<lambda>c _. SyncWallet CE fuel now c)) of
             None \<Rightarrow> None
           | Some (c, Inl (Err m)) \<Rightarrow> Some (Some c, Inr 1)
           | Some (c, Inl (Panic m)) \<Rightarrow> Some (Some c, Inl (Panic m))
           | Some (c, Inr _) \<Rightarrow> Some (Some c, Inr 0)))"

section \<open>rmwallet\<close>

definition blanks :: "char set" where
  "blanks = {CHR '' '', CHR 0x09, CHR 0x0A, CHR 0x0B, CHR 0x0C, CHR 0x0D}"

definition TrimSpace :: "string \<Rightarrow> string" where
  "TrimSpace s = rev (dropWhile (\<lambda>c. c \<in> blanks) (rev (dropWhile (\<lambda>c. c \<in> blanks) s)))"

definition lower_char :: "char \<Rightarrow> char" where
  "lower_char c = (let k = of_char c :: nat in if 65 \<le> k \<and> k \<le> 90 then char_of (k + 32) else c)"

text \<open>The lines the user types at one question, until one is an answer; \<open>None\<close> is the end of the input, which is
  fatal.\<close>

fun askForConfirmation :: "string list \<Rightarrow> bool option" where
  "askForConfirmation [] = None"
| "askForConfirmation (line # rest) =
     (let response = map lower_char (TrimSpace line) in
      if response = ''y'' \<or> response = ''yes'' then Some True
      else if response = ''n'' \<or> response = ''no'' then Some False
      else askForConfirmation rest)"

text \<open>Asking for a file that is there and removing it; an error of \<open>os.Remove\<close> is dropped.  \<open>ins\<close> holds what is
  typed at the questions still to come.\<close>

definition rm_file ::
  "(string \<Rightarrow> bool) \<Rightarrow> string \<Rightarrow> string list list \<Rightarrow> (string \<rightharpoonup> 'f) \<Rightarrow> (string \<rightharpoonup> 'f) \<times> string list list result" where
  "rm_file removable p ins fs =
     (case askForConfirmation (case ins of [] \<Rightarrow> [] | lines # _ \<Rightarrow> lines) of
        None \<Rightarrow> (fs, Inl (Panic ''EOF''))
      | Some yes \<Rightarrow> (if yes \<and> removable p then fs(p := None) else fs, Inr (tl ins)))"

fun rm_wallets ::
  "(string \<Rightarrow> bool) \<Rightarrow> string list \<Rightarrow> string list list \<Rightarrow> (string \<rightharpoonup> 'f) \<Rightarrow> (string \<rightharpoonup> 'f) \<times> string list list result" where
  "rm_wallets removable [] ins fs = (fs, Inr ins)"
| "rm_wallets removable (p # ps) ins fs =
     (if fs p = None then rm_wallets removable ps ins fs
      else thenS (rm_file removable p ins fs) (\<lambda>fs ins. rm_wallets removable ps ins fs))"

definition blockchain_headers :: string where
  "blockchain_headers = ''blockchain_headers''"

definition rmwallet_main ::
  "tool \<Rightarrow> cmd_env \<Rightarrow> (string \<Rightarrow> bool) \<Rightarrow> string \<Rightarrow> string \<Rightarrow> string list list \<Rightarrow> (string \<rightharpoonup> 'f) \<Rightarrow> (string \<rightharpoonup> 'f) \<times> nat result" where
  "rmwallet_main T V removable coin net ins fs =
     (case makeBasicConfig T V coin net of
        Inl (Err m) \<Rightarrow> (fs, Inr 1)
      | Inl (Panic m) \<Rightarrow> (fs, Inl (Panic m))
      | Inr cfg \<Rightarrow>
          (if ccNetType cfg = Mainnet then (fs, Inr 2)
           else
             thenS (rm_wallets removable [JoinPath V [ccDataDir cfg, ''wallet.bdb''], JoinPath V [ccDataDir cfg, ''wallet.db'']] ins fs)
               (\<lambda>fs ins.
                 if ccParams cfg = RegressionNetParams then
                   (let headers = JoinPath V [ccDataDir cfg, blockchain_headers] in
                    if fs headers = None then (fs, Inr 1)
                    else thenS (rm_file removable headers ins fs) (\<lambda>fs _. (fs, Inr 0)))
                 else (fs, Inr 0))))"

section \<open>Configurations\<close>

definition all_tools :: "tool list" where
  "all_tools = [goele_btc, mkwallet_btc, rmwallet_btc, goele_dash, mkwallet_dash, rmwallet_dash,
     goele_firo, mkwallet_firo, rmwallet_firo]"

text \<open>The constructor of the coin's interface.\<close>

definition coin_interface :: "'w chain_libs \<Rightarrow> string \<Rightarrow> ElectrumXConfig \<Rightarrow> ElectrumXConfig \<times> unit result" where
  "coin_interface L coin =
     (if coin = ''btc'' then NewElectrumXInterface_btc L
      else if coin = ''dash'' then NewElectrumXInterface_dash L else NewElectrumXInterface_firo L)"

definition good_settings :: "string \<Rightarrow> (ClientConfig \<Rightarrow> ClientConfig) \<Rightarrow> bool" where
  "good_settings net f \<longleftrightarrow>
     (\<forall>cfg. ccNetType (f cfg) = net_type net \<and> ccCoin (f cfg) = ccCoin cfg \<and> ccDbType (f cfg) = ccDbType cfg \<and>
        ccProxyPort (f cfg) = ccProxyPort cfg \<and> ccTrustedPeer (f cfg) \<noteq> None \<and>
        ccStoreEncSeed (f cfg) = (net_type net \<noteq> Mainnet) \<and> ccTesting (f cfg) = (net_type net \<noteq> Mainnet) \<and>
        (ccParams (f cfg) = RegressionNetParams \<longleftrightarrow> net_type net = Regtest))"

lemma net_switch_good:
  "net \<in> set nets \<Longrightarrow> \<exists>f. net_switch reg test main net = Some f \<and> good_settings net f"
  by (auto simp: nets_def net_switch_def good_settings_def net_type_def set_net_def)

lemma firo_net_good:
  assumes "net \<in> set nets"
  shows "\<exists>f. firo_net (net_switch reg test main) net = Some f \<and> good_settings net f"
proof -
  obtain f where "net_switch reg test main net = Some f" "good_settings net f"
    using net_switch_good [OF assms] by blast
  then show ?thesis by (simp add: firo_net_def good_settings_def)
qed

lemma tool_table:
  assumes "T \<in> set all_tools"
  shows "tCoins T = [tCase T]" "tCase T \<in> {''btc'', ''dash'', ''firo''}"
    "net \<in> set nets \<Longrightarrow> \<exists>f. tNet T net = Some f \<and> good_settings net f"
  using assms net_switch_good firo_net_good by (auto simp: all_tools_def tools)

lemma net_type_known: "net_type net \<in> {Regtest, Testnet, Mainnet}"
  by (simp add: net_type_def)

lemma coin_interface_accepts:
  "NetType config \<in> {Regtest, Testnet, Mainnet} \<Longrightarrow> \<exists>config'. coin_interface L coin config = (config', Inr ()) \<and>
     NetType config' = NetType config \<and> DataDir config' = DataDir config \<and> TrustedPeer config' = TrustedPeer config \<and>
     ProxyPort config' = ProxyPort config \<and> Testing config' = Testing config"
  by (auto simp: coin_interface_def NewElectrumXInterface_btc_def NewElectrumXInterface_dash_def
      NewElectrumXInterface_firo_def)

lemma config_built:
  assumes "T \<in> set all_tools" and "makeBasicConfig T V coin net = Inr cfg"
  shows "coin = tCase T" "net \<in> set nets" "ccCoin cfg = coin" "ccNetType cfg = net_type net"
    "\<exists>appDir. GetConfigPath V = Inr appDir \<and> ccDataDir cfg = JoinPath V [appDir, coin, net_type net]"
    "ccStoreEncSeed cfg = (net_type net \<noteq> Mainnet)" "ccDbType cfg = ''bbolt''" "ccTrustedPeer cfg \<noteq> None"
    "ccParams cfg = RegressionNetParams \<longleftrightarrow> net_type net = Regtest"
proof -
  show net: "net \<in> set nets" and coin: "coin = tCase T"
    using assms(2) by (auto simp: makeBasicConfig_def Let_def split: if_splits)
  obtain f where f: "tNet T net = Some f" "good_settings net f"
    using tool_table(3) [OF assms(1) net] by blast
  obtain appDir where dir: "GetConfigPath V = Inr appDir"
    and cfg: "cfg = (f ((NewDefaultConfig V)\<lparr>ccCoinType := tCoinType T, ccCoin := coin\<rparr>))\<lparr>ccDataDir := JoinPath V [appDir, coin, net_type net]\<rparr>"
    using assms(2) net f by (auto simp: makeBasicConfig_def good_settings_def thenR_eq_Inr Let_def split: if_splits)
  show "\<exists>appDir. GetConfigPath V = Inr appDir \<and> ccDataDir cfg = JoinPath V [appDir, coin, net_type net]"
    using dir by (simp add: cfg)
  show "ccCoin cfg = coin" "ccNetType cfg = net_type net" "ccStoreEncSeed cfg = (net_type net \<noteq> Mainnet)"
      "ccDbType cfg = ''bbolt''" "ccTrustedPeer cfg \<noteq> None" "ccParams cfg = RegressionNetParams \<longleftrightarrow> net_type net = Regtest"
    using f(2) by (simp_all add: cfg good_settings_def NewDefaultConfig_def)
qed

text \<open>C40: A configuration that any of the nine tools builds is for a coin and a network the tool knows, lies in the
  directory of that coin and network, stores the seed exactly off mainnet, has a server to start with, and the
  coin's network interface takes it with the same directory, server and network.
\<close>

theorem tool_config_accepted:
  assumes "T \<in> set all_tools" and "makeBasicConfig T V coin net = Inr cfg"
  shows "coin \<in> set (tCoins T) \<and> net \<in> set nets \<and> ccCoin cfg = coin \<and> ccNetType cfg = net_type net \<and>
    (\<exists>appDir. GetConfigPath V = Inr appDir \<and> ccDataDir cfg = JoinPath V [appDir, coin, net_type net]) \<and>
    ccStoreEncSeed cfg = (ccNetType cfg \<noteq> Mainnet) \<and> wcDbType (MakeWalletConfig cfg) = ''bbolt'' \<and>
    (\<exists>config. coin_interface L coin (MakeElectrumXConfig cfg) = (config, Inr ()) \<and>
       DataDir config = ccDataDir cfg \<and> NetType config = ccNetType cfg \<and> TrustedPeer config = ccTrustedPeer cfg \<and>
       TrustedPeer config \<noteq> None)"
proof -
  note built = config_built [OF assms]
  have "\<exists>config. coin_interface L coin (MakeElectrumXConfig cfg) = (config, Inr ()) \<and>
       DataDir config = ccDataDir cfg \<and> NetType config = ccNetType cfg \<and> TrustedPeer config = ccTrustedPeer cfg"
    using coin_interface_accepts [of "MakeElectrumXConfig cfg" L coin] net_type_known [of net] built(4)
    by (auto simp: MakeElectrumXConfig_def)
  then show ?thesis
    using built tool_table(1) [OF assms(1)] by (auto simp: MakeWalletConfig_def)
qed

definition ex_V :: cmd_env where
  "ex_V = \<lparr>UserConfigDir = Inr ''/home/u/.config'', AppDataDir = (\<lambda>app. ''/home/u/.'' @ app), MkdirAll = (\<lambda>_. Inr ()),
     JoinPath = (\<lambda>ps. concat (map (\<lambda>p. p @ ''/'') (butlast ps)) @ last ps)\<rparr>"

lemma ex_firo_config: "\<exists>cfg. makeBasicConfig mkwallet_firo ex_V ''firo'' ''testnet4'' = Inr cfg"
  by (simp add: makeBasicConfig_def nets_def mkwallet_firo_def firo_net_def net_switch_def GetConfigPath_def ex_V_def Let_def)

theorem tool_config_accepted_witness:
  "\<exists>cfg. makeBasicConfig mkwallet_firo ex_V ''firo'' ''testnet4'' = Inr cfg \<and>
     ccDataDir cfg = ''/home/u/.config/goele/firo/testnet'' \<and>
     (\<exists>config. coin_interface (wire_libs (\<lambda>b. b) (\<lambda>b. b)) ''firo'' (MakeElectrumXConfig cfg) = (config, Inr ()) \<and>
        TrustedPeer config \<noteq> None)"
proof -
  obtain cfg where cfg: "makeBasicConfig mkwallet_firo ex_V ''firo'' ''testnet4'' = Inr cfg"
    using ex_firo_config by blast
  have "mkwallet_firo \<in> set all_tools" by (simp add: all_tools_def)
  from tool_config_accepted [OF this cfg, of "wire_libs (\<lambda>b. b) (\<lambda>b. b)"] cfg show ?thesis
    by (auto simp: GetConfigPath_def ex_V_def appName_def net_type_def)
qed

section \<open>Removing wallets\<close>

lemma rm_file_changes:
  "rm_file removable q ins fs = (fs', r) \<Longrightarrow> fs' p \<noteq> fs p \<Longrightarrow>
     p = q \<and> fs' p = None \<and> removable p \<and> (\<exists>lines \<in> set ins. askForConfirmation lines = Some True)"
  by (cases ins) (auto simp: rm_file_def split: option.splits if_splits)

lemma rm_file_rest: "rm_file removable q ins fs = (fs', Inr ins') \<Longrightarrow> ins' = tl ins"
  by (auto simp: rm_file_def split: option.splits)

lemma rm_wallets_changes:
  "rm_wallets removable qs ins fs = (fs', r) \<Longrightarrow>
     (\<forall>p. fs' p \<noteq> fs p \<longrightarrow> p \<in> set qs \<and> fs' p = None \<and> removable p \<and> (\<exists>lines \<in> set ins. askForConfirmation lines = Some True)) \<and>
     (\<forall>ins'. r = Inr ins' \<longrightarrow> set ins' \<subseteq> set ins)"
proof (induction qs arbitrary: ins fs)
  case (Cons q qs)
  show ?case
  proof (cases "fs q = None")
    case True
    then show ?thesis using Cons.IH [of ins fs] Cons.prems by simp
  next
    case False
    obtain fs1 r1 where one: "rm_file removable q ins fs = (fs1, r1)"
      by (cases "rm_file removable q ins fs")
    have changes: "\<forall>p. fs1 p \<noteq> fs p \<longrightarrow> p = q \<and> fs1 p = None \<and> removable p \<and> (\<exists>lines \<in> set ins. askForConfirmation lines = Some True)"
      using rm_file_changes [OF one] by blast
    show ?thesis
    proof (cases r1)
      case (Inl e)
      then show ?thesis using Cons.prems False one changes by auto
    next
      case (Inr ins1)
      then have ins1: "set ins1 \<subseteq> set ins"
        using rm_file_rest [of removable q ins fs fs1 ins1] one by (cases ins) auto
      have "rm_wallets removable qs ins1 fs1 = (fs', r)"
        using Cons.prems False one Inr by simp
      note rest = Cons.IH [OF this]
      have "p \<in> set (q # qs) \<and> fs' p = None \<and> removable p \<and> (\<exists>lines \<in> set ins. askForConfirmation lines = Some True)"
        if "fs' p \<noteq> fs p" for p
      proof (cases "fs' p = fs1 p")
        case True
        then show ?thesis using changes that by auto
      next
        case False
        then show ?thesis using rest ins1 by (metis in_mono list.set_intros(2))
      qed
      then show ?thesis using rest ins1 by blast
    qed
  qed
qed auto

text \<open>After the wallets the headers, on regtest only.\<close>

lemma rmwallet_main_changes:
  assumes "makeBasicConfig T V coin net = Inr cfg" and "rmwallet_main T V removable coin net ins fs = (fs', r)" and "fs' p \<noteq> fs p"
  shows "ccNetType cfg \<noteq> Mainnet \<and> fs' p = None \<and> removable p \<and> (\<exists>lines \<in> set ins. askForConfirmation lines = Some True) \<and>
    (\<exists>name \<in> {''wallet.bdb'', ''wallet.db'', blockchain_headers}.
       (name = blockchain_headers \<longrightarrow> ccParams cfg = RegressionNetParams) \<and> p = JoinPath V [ccDataDir cfg, name])"
proof -
  let ?at = "\<lambda>name. JoinPath V [ccDataDir cfg, name]"
  have main: "ccNetType cfg \<noteq> Mainnet"
    using assms by (auto simp: rmwallet_main_def)
  obtain fs1 r1 where one: "rm_wallets removable [?at ''wallet.bdb'', ?at ''wallet.db''] ins fs = (fs1, r1)"
    by (cases "rm_wallets removable [?at ''wallet.bdb'', ?at ''wallet.db''] ins fs")
  note changes = rm_wallets_changes [OF one]
  have run: "(fs', r) = thenS (fs1, r1) (\<lambda>fs ins.
      if ccParams cfg = RegressionNetParams then
        (if fs (?at blockchain_headers) = None then (fs, Inr 1)
         else thenS (rm_file removable (?at blockchain_headers) ins fs) (\<lambda>fs _. (fs, Inr 0)))
      else (fs, Inr 0))"
    using assms(2) unfolding rmwallet_main_def Let_def by (simp add: assms(1) main one del: rm_wallets.simps)
  consider "fs' p = fs1 p" | ins1 r2 where "fs' p \<noteq> fs1 p" "set ins1 \<subseteq> set ins" "ccParams cfg = RegressionNetParams"
      "rm_file removable (?at blockchain_headers) ins1 fs1 = (fs', r2)"
  proof (cases r1)
    case (Inr ins1)
    obtain fs2 r2 where two: "rm_file removable (?at blockchain_headers) ins1 fs1 = (fs2, r2)"
      by (cases "rm_file removable (?at blockchain_headers) ins1 fs1")
    have "fs' = fs1 \<or> fs' = fs2 \<and> ccParams cfg = RegressionNetParams"
      using run two by (cases r2) (auto simp: Inr split: if_splits)
    then show thesis using that two changes Inr by blast
  qed (use run that in simp)
  then show ?thesis
  proof cases
    case 1
    then show ?thesis using changes assms(3) main by (auto simp: blockchain_headers_def)
  next
    case (2 ins1 r2)
    from rm_file_changes [OF 2(4,1)] show ?thesis
      using 2(2,3) main by (auto simp: blockchain_headers_def)
  qed
qed


text \<open>A wallet of the btc tool that the firo tool removes: its coin list and its switch are those of btc.\<close>

lemma firo_tool_removes_btc: "rmwallet_main rmwallet_firo = rmwallet_main rmwallet_btc"
  by (simp add: rmwallet_firo_def rmwallet_btc_def)

definition ex_btc_wallet :: string where
  "ex_btc_wallet = ''/home/u/.config/goele/btc/testnet/wallet.bdb''"

lemma ex_rmwallet:
  "rmwallet_main rmwallet_firo ex_V (\<lambda>_. True) ''btc'' ''testnet'' [[''what'', '' Yes '']] [ex_btc_wallet \<mapsto> ()] = (Map.empty, Inr 0)"
proof -
  have "map lower_char (TrimSpace '' Yes '') = ''yes''" "map lower_char (TrimSpace ''what'') = ''what''"
    by code_simp+
  then have ask: "askForConfirmation [''what'', '' Yes ''] = Some True"
    by simp
  have other: "''/home/u/.config/goele/btc/testnet/wallet.db'' \<noteq> ex_btc_wallet"
    by (simp add: ex_btc_wallet_def)
  obtain cfg where cfg: "makeBasicConfig rmwallet_firo ex_V ''btc'' ''testnet'' = Inr cfg"
      "ccNetType cfg = Testnet" "ccParams cfg = TestNet3Params" "ccDataDir cfg = ''/home/u/.config/goele/btc/testnet''"
    by (simp add: makeBasicConfig_def nets_def rmwallet_firo_def net_switch_def GetConfigPath_def ex_V_def Let_def
        set_net_def appName_def)
  have "JoinPath ex_V [ccDataDir cfg, ''wallet.bdb''] = ex_btc_wallet"
      "JoinPath ex_V [ccDataDir cfg, ''wallet.db''] = ''/home/u/.config/goele/btc/testnet/wallet.db''"
    by (simp_all add: cfg(4) ex_V_def ex_btc_wallet_def)
  then show ?thesis
    using ask other by (simp add: rmwallet_main_def cfg(1-3) rm_file_def)
qed


section \<open>Defaults\<close>

lemma dash_default_refused:
  "T \<in> {goele_dash, mkwallet_dash, rmwallet_dash} \<Longrightarrow> makeBasicConfig T V ''btc'' ''regtest'' = Inl (Err ''invalid coin'')"
  by (auto simp: makeBasicConfig_def nets_def tools)

lemma mkwallet_bad_net_sqlite_panics:
  assumes "mkDbType fl = ''sqlite''" "mkNet fl \<notin> set nets" "\<not> mkHelp fl" "\<not> mkTestWallet fl"
    "mkAction fl = ''create''" "mkPass fl \<noteq> []"
  shows "configure_mkwallet T V fl = nil_deref"
  using assms by (simp add: configure_mkwallet_def mk_checks_def makeBasicConfig_def)

text \<open>A wallet made with the default database type on regtest is in a file \<open>goele\<close> does not look for.\<close>

lemma mkwallet_file:
  assumes "mkwallet_main V envOf now ent fl fs = Some (fs', r)" and "mkDbType fl \<noteq> ''sqlite''" and "fs' p \<noteq> fs p"
  shows "\<exists>dir. p = JoinPath V [dir, ''wallet.bdb'']"
proof -
  have "mkwallet_btc \<in> set all_tools" by (simp add: all_tools_def)
  note built = config_built [OF this, of V]
  show ?thesis
  proof (cases "configure_mkwallet mkwallet_btc V fl")
    case (Inl e)
    then show ?thesis using assms by (cases e) (simp_all add: mkwallet_main_def)
  next
    case (Inr v)
    obtain action pass seed cfg where v: "v = (action, pass, seed, cfg)" by (cases v)
    have "makeBasicConfig mkwallet_btc V (mkCoin fl) (mkNet fl) = Inr cfg"
      using Inr v assms(2)
      by (cases "makeBasicConfig mkwallet_btc V (mkCoin fl) (mkNet fl)")
        (auto simp: configure_mkwallet_def thenR_eq_Inr os_Exit_def nil_deref_def split: if_splits fault.splits)
    then have "ccDbType cfg = ''bbolt''" by (rule built)
    moreover have "p = wallet_file V cfg"
      using assms(1,3) Inr v
      by (auto simp: mkwallet_main_def Let_def split: if_splits option.splits prod.splits sum.splits fault.splits)
    ultimately show ?thesis by (auto simp: wallet_file_def walletName_def)
  qed
qed

lemma client_Start_keeps: "client_Start CE c = (c', r) \<Longrightarrow> cWallet c' = cWallet c \<and> disk c' = disk c"
  by (auto simp: client_Start_def createElectrumXInterface_def x_call_def x_read_def thenS_def
      split: sum.splits prod.splits option.splits)

lemma goele_misses_default_wallet:
  assumes "mkDbType fl \<noteq> ''sqlite''" and "mkwallet_main V envOf now ent fl fs = Some (fs', r)"
    and "\<And>dir dir'. JoinPath V [dir, ''wallet.db''] \<noteq> JoinPath V [dir', ''wallet.bdb'']"
    and "makeBasicConfig goele_btc V coin ''regtest'' = Inr cfg"
    and "ce_dbType (envOf (cfg\<lparr>ccDbType := ''sqlite''\<rparr>)) = DbTypeSqlite"
    and "fs (JoinPath V [ccDataDir cfg, ''wallet.db'']) = None"
    and "client_Start (envOf (cfg\<lparr>ccDbType := ''sqlite''\<rparr>)) (NewBtcElectrumClient None) = (c, Inr ())"
  shows "goele_main V envOf fuel now' coin ''regtest'' pass fs' = Some (Some c, Inr 1)"
proof -
  have "goele_btc \<in> set all_tools" by (simp add: all_tools_def)
  from config_built(4) [OF this assms(4)] have net: "ccNetType cfg = Regtest" by (simp add: net_type_def)
  let ?cfg = "cfg\<lparr>ccDbType := ''sqlite''\<rparr>"
  have "fs' (JoinPath V [ccDataDir cfg, ''wallet.db'']) = fs (JoinPath V [ccDataDir cfg, ''wallet.db''])"
    using mkwallet_file [OF assms(2,1)] assms(3) by metis
  then have none: "fs' (wallet_file V ?cfg) = None"
    using assms(6) by (simp add: wallet_file_def walletName_def)
  have "cWallet c = NoWallet" "disk c = None"
    using client_Start_keeps [OF assms(7)] by (simp_all add: NewBtcElectrumClient_def)
  then have load: "LoadWallet (envOf ?cfg) ''abc'' c = Some (c, Inl (Err ''cannot find wallet''))"
    using assms(5) by (simp add: LoadWallet_def walletExists_def contents_def)
  have "goele_config goele_btc V coin ''regtest'' = Inr ?cfg"
    by (simp add: goele_config_def assms(4) net)
  then show ?thesis
    by (simp add: goele_main_def Let_def none assms(7) goele_load_def net load)
qed

end
