(* ===== verification/Elx_Net.thy ===== *)
theory Elx_Net
  imports Client_Props
begin

text \<open>
  The methods of \<open>ElectrumXInterface\<close> (\<open>elxbtc/electrumx_interface.go\<close>) that pass through the network to
  the leader's node and its server, and the interface as the client's network: \<open>btc_elx\<close> is an
  \<open>ElectrumX\<close> record, so a client over it is the whole stack down to the connections.  A connection is a
  \<open>requester\<close> per node and call.  The lemmas show what a call may change, and that a leader whose server
  answers histories is a network in the sense of the rescan.
\<close>

section \<open>The interface\<close>

text \<open>The network, nil before \<open>Start\<close>, and the nodes by the number of their context.\<close>

record elx =
  elx_net :: "Network option"
  elx_nodes :: "nat \<Rightarrow> node"

record elx_env =
  ee_net :: net_env
  ee_config :: ElectrumXConfig
  ee_headers :: "bytes option"
  ee_servers :: servers_file
  ee_req :: "nat \<Rightarrow> nat \<Rightarrow> requester"
  ee_wild :: "f64 \<Rightarrow> int"
  marshalHistory :: "History list \<Rightarrow> string"
  marshalUnspent :: "ListUnspent list \<Rightarrow> string"
  marshalTransaction :: "GetTransactionResult \<Rightarrow> string"

text \<open>Only the leader's connection is used.\<close>

definition leader_req :: "elx_env \<Rightarrow> Network \<Rightarrow> nat \<Rightarrow> requester" where
  "leader_req E network = (case leader network of None \<Rightarrow> (\<lambda>_ _ _. Inl (Err ''no leader'')) | Some l \<Rightarrow> ee_req E (pn_ctx l))"

definition on_network ::
  "elx_env \<Rightarrow> ((nat \<Rightarrow> requester) \<Rightarrow> (nat \<Rightarrow> node) \<Rightarrow> Network \<Rightarrow> (nat \<Rightarrow> node) \<times> 'a result) \<Rightarrow> elx \<Rightarrow> elx \<times> 'a result" where
  "on_network E f x =
     (case elx_net x of
        None \<Rightarrow> (x, Inl (Err ''btc: network not running''))
      | Some network \<Rightarrow>
          (case f (leader_req E network) (elx_nodes x) network of (nodes, r) \<Rightarrow> (x\<lparr>elx_nodes := nodes\<rparr>, r)))"

definition elx_Start :: "elx_env \<Rightarrow> elx \<Rightarrow> elx \<times> unit result" where
  "elx_Start E x =
     (case ElectrumX_Start (ee_net E) (ee_config E) (ee_headers E) (ee_servers E) (elx_net x) of
        (network, r) \<Rightarrow> (x\<lparr>elx_net := network\<rparr>, r))"

definition elx_SubscribeScripthashNotify :: "elx_env \<Rightarrow> string \<Rightarrow> elx \<Rightarrow> elx \<times> ScripthashStatusResult result" where
  "elx_SubscribeScripthashNotify E scripthash = on_network E (\<lambda>req. net_SubscribeScripthashNotify req scripthash)"

definition elx_UnsubscribeScripthashNotify :: "elx_env \<Rightarrow> string \<Rightarrow> elx \<Rightarrow> elx" where
  "elx_UnsubscribeScripthashNotify E scripthash x =
     (case elx_net x of None \<Rightarrow> x
      | Some network \<Rightarrow>
          x\<lparr>elx_nodes := net_UnsubscribeScripthashNotify (leader_req E network) scripthash (elx_nodes x) network\<rparr>)"

definition elx_GetHistory :: "elx_env \<Rightarrow> string \<Rightarrow> elx \<Rightarrow> elx \<times> History list result" where
  "elx_GetHistory E scripthash = on_network E (\<lambda>req. net_GetHistory (marshalHistory E) req scripthash)"

definition elx_GetListUnspent :: "elx_env \<Rightarrow> string \<Rightarrow> elx \<Rightarrow> elx \<times> ListUnspent list result" where
  "elx_GetListUnspent E scripthash = on_network E (\<lambda>req. net_GetListUnspent (marshalUnspent E) req scripthash)"

definition elx_GetTransaction :: "elx_env \<Rightarrow> string \<Rightarrow> elx \<Rightarrow> elx \<times> GetTransactionResult result" where
  "elx_GetTransaction E txid = on_network E (\<lambda>req. net_GetTransaction (marshalTransaction E) req txid)"

definition elx_GetRawTransaction :: "elx_env \<Rightarrow> string \<Rightarrow> elx \<Rightarrow> elx \<times> string result" where
  "elx_GetRawTransaction E txid = on_network E (\<lambda>req. net_GetRawTransaction req txid)"

definition elx_Broadcast :: "elx_env \<Rightarrow> string \<Rightarrow> elx \<Rightarrow> elx \<times> string result" where
  "elx_Broadcast E rawTx = on_network E (\<lambda>req. net_Broadcast req rawTx)"

definition elx_EstimateFeeRate :: "elx_env \<Rightarrow> int \<Rightarrow> elx \<Rightarrow> elx \<times> int result" where
  "elx_EstimateFeeRate E confTarget = on_network E (\<lambda>req. net_EstimateFeeRate (ee_wild E) req confTarget)"

text \<open>The two channels exist as soon as the network does.\<close>

definition elx_notify_channel :: "elx \<Rightarrow> unit result" where
  "elx_notify_channel x = via_network (elx_net x) (\<lambda>_. Inr ())"

definition btc_elx :: "elx_env \<Rightarrow> elx ElectrumX" where
  "btc_elx E =
     \<lparr>X_Start = elx_Start E, X_GetTipChangeNotify = elx_notify_channel, X_GetTip = (\<lambda>x. GetTip (elx_net x)),
      X_GetSyncStatus = (\<lambda>x. GetSyncStatus (elx_net x)), X_GetBlockHeader = (\<lambda>h x. GetBlockHeader (elx_net x) h),
      X_GetBlockHeaders = (\<lambda>h n x. GetBlockHeaders (elx_net x) h n), X_GetScripthashNotify = elx_notify_channel,
      X_SubscribeScripthashNotify = (\<lambda>sh x. (case elx_SubscribeScripthashNotify E sh x of (x, r) \<Rightarrow> (x, thenR r (\<lambda>s. Inr (Some s))))),
      X_UnsubscribeScripthashNotify = elx_UnsubscribeScripthashNotify E, X_GetHistory = elx_GetHistory E,
      X_GetListUnspent = elx_GetListUnspent E, X_GetTransaction = elx_GetTransaction E,
      X_GetRawTransaction = elx_GetRawTransaction E, X_EstimateFeeRate = elx_EstimateFeeRate E, X_Broadcast = elx_Broadcast E\<rparr>"

section \<open>What a call changes\<close>

text \<open>The calls of the interface that reach the server, through the record; \<open>run\<close> keeps the error.\<close>

datatype elx_call = CallSubscribe string | CallUnsubscribe string | CallHistory string | CallUnspent string
  | CallTransaction string | CallRawTransaction string | CallBroadcast string | CallEstimate int

definition no_value :: "elx \<times> 'a result \<Rightarrow> elx \<times> unit result" where
  "no_value y = (case y of (x, r) \<Rightarrow> (x, thenR r (\<lambda>_. Inr ())))"

fun elx_run :: "elx ElectrumX \<Rightarrow> elx_call \<Rightarrow> elx \<Rightarrow> elx \<times> unit result" where
  "elx_run X (CallSubscribe sh) x = no_value (X_SubscribeScripthashNotify X sh x)"
| "elx_run X (CallUnsubscribe sh) x = (X_UnsubscribeScripthashNotify X sh x, Inr ())"
| "elx_run X (CallHistory sh) x = no_value (X_GetHistory X sh x)"
| "elx_run X (CallUnspent sh) x = no_value (X_GetListUnspent X sh x)"
| "elx_run X (CallTransaction txid) x = no_value (X_GetTransaction X txid x)"
| "elx_run X (CallRawTransaction txid) x = no_value (X_GetRawTransaction X txid x)"
| "elx_run X (CallBroadcast tx) x = no_value (X_Broadcast X tx x)"
| "elx_run X (CallEstimate t) x = no_value (X_EstimateFeeRate X t x)"

text \<open>The context of the leader, of a network that runs.\<close>

definition leader_ctx :: "elx \<Rightarrow> nat option" where
  "leader_ctx x =
     (case elx_net x of None \<Rightarrow> None | Some network \<Rightarrow> if started network then map_option pn_ctx (leader network) else None)"

text \<open>What a call leaves of a node: everything but the count of its calls and the cost, which does not fall.\<close>

definition quiet :: "node \<Rightarrow> node \<Rightarrow> bool" where
  "quiet n n' \<longleftrightarrow>
     networkHeaders n' = networkHeaders n \<and> connected n' = connected n \<and> tipChanges n' = tipChanges n \<and>
     nodeCanceled n' = nodeCanceled n \<and> calls n \<le> calls n' \<and>
     (f32_ok (cost (nsession n)) \<longrightarrow> f32_ok (cost (nsession n')) \<and> f32_le (cost (nsession n)) (cost (nsession n')))"

lemma quiet_refl [simp]: "quiet n n"
  by (simp add: quiet_def f32_le_refl)

lemma quiet_trans: "quiet a b \<Longrightarrow> quiet b c \<Longrightarrow> quiet a c"
  by (auto simp: quiet_def intro: f32_le_trans)

lemma quiet_tick: "quiet n (tick n)"
  by (simp add: quiet_def tick_def f32_le_refl)

lemma quiet_charge: "quiet n (charge (fold bump cs) (tick n))"
  using charges_never_lower_cost [of "nsession n" cs] by (simp add: quiet_def charge_def tick_def)

text \<open>The charges of the calls are sequences of those of the session.\<close>

definition charges :: "('a \<Rightarrow> session \<Rightarrow> session) \<Rightarrow> bool" where
  "charges f \<longleftrightarrow> (\<forall>y. \<exists>cs. f y = fold bump cs)"

lemma charges_by: "(\<And>y s. f y s = fold bump (g y) s) \<Longrightarrow> charges f"
  by (auto simp: charges_def fun_eq_iff)

lemma charges_intro:
  "charges (\<lambda>y. bumpCostStruct (m y))" "charges (\<lambda>y. bumpCostBytes 8)"
  "charges (\<lambda>y s. bumpCostString (k y) (bumpCostString (h y) s))"
  "charges (\<lambda>y s. bumpCostStruct (m y) (bumpCostString (h y) s))"
  by (rule charges_by [where g = "\<lambda>y. [ChargeStruct (m y)]"], simp,
      rule charges_by [where g = "\<lambda>y. [ChargeBytes 8]"], simp,
      rule charges_by [where g = "\<lambda>y. [ChargeString (h y), ChargeString (k y)]"], simp,
      rule charges_by [where g = "\<lambda>y. [ChargeString (h y), ChargeStruct (m y)]"], simp)

lemma charged_quiet:
  assumes "charges f"
  shows "quiet n (fst (charged f r n))"
proof -
  obtain g where g: "f y = fold bump (g y)" for y using assms unfolding charges_def by metis
  have "quiet n (charge bumpCostError (tick n))" using quiet_charge [of n "[ChargeError]"] by simp
  then show ?thesis
    unfolding charged_def g by (auto split: sum.splits intro: quiet_charge)
qed

lemma uncharged_quiet: "quiet n (fst (uncharged r n))"
  by (simp add: uncharged_def quiet_tick)

lemmas node_call_defs =
  node_subscribeScripthash_def node_getHistory_def node_getListUnspent_def node_getTransaction_def
  node_getRawTransaction_def node_broadcast_def node_estimateFeeRate_def

lemma node_calls_quiet:
  "quiet n (fst (node_subscribeScripthash req sh n))" "quiet n (fst (node_unsubscribeScripthash req sh n))"
  "quiet n (fst (node_getHistory mh req sh n))" "quiet n (fst (node_getListUnspent mu req sh n))"
  "quiet n (fst (node_getTransaction mt req txid n))" "quiet n (fst (node_getRawTransaction req txid n))"
  "quiet n (fst (node_broadcast req tx n))" "quiet n (fst (node_estimateFeeRate wild req t n))"
  unfolding node_call_defs
  by (rule charged_quiet uncharged_quiet charges_intro | simp add: node_unsubscribeScripthash_def quiet_tick)+

text \<open>A call on a node that is not connected.\<close>

lemma node_calls_refused:
  assumes "\<not> connected n"
  shows "fst (node_subscribeScripthash req sh n) = n" "isl (snd (node_subscribeScripthash req sh n))"
    "fst (node_unsubscribeScripthash req sh n) = n"
    "fst (node_getHistory mh req sh n) = n" "isl (snd (node_getHistory mh req sh n))"
    "fst (node_getListUnspent mu req sh n) = n" "isl (snd (node_getListUnspent mu req sh n))"
    "fst (node_getTransaction mt req txid n) = n" "isl (snd (node_getTransaction mt req txid n))"
    "fst (node_getRawTransaction req txid n) = n" "isl (snd (node_getRawTransaction req txid n))"
    "fst (node_broadcast req tx n) = n" "isl (snd (node_broadcast req tx n))"
    "fst (node_estimateFeeRate wild req t n) = n" "isl (snd (node_estimateFeeRate wild req t n))"
  using assms by (simp_all add: node_call_defs node_unsubscribeScripthash_def charged_def uncharged_def)

text \<open>A call passes to the node of the leader's context, and to none without a leader.\<close>

lemma on_network_some:
  "leader_ctx x = Some c \<Longrightarrow> on_network E (\<lambda>req. pass_thru (f req)) x =
     (x\<lparr>elx_nodes := (elx_nodes x)(c := fst (f (ee_req E c) (elx_nodes x c)))\<rparr>, snd (f (ee_req E c) (elx_nodes x c)))"
  by (auto simp: on_network_def pass_thru_def leader_ctx_def leader_req_def split: option.splits prod.split if_splits)

lemma on_network_none:
  assumes "leader_ctx x = None"
  shows "fst (on_network E (\<lambda>req. pass_thru (f req)) x) = x" "isl (snd (on_network E (\<lambda>req. pass_thru (f req)) x))"
  using assms by (auto simp: on_network_def pass_thru_def leader_ctx_def split: option.splits prod.splits if_splits)

text \<open>What a call leaves of the interface: the network, the nodes but the leader's, and most of that one.\<close>

definition frame :: "elx \<Rightarrow> elx \<Rightarrow> bool" where
  "frame x x' \<longleftrightarrow>
     elx_net x' = elx_net x \<and> (\<forall>c. quiet (elx_nodes x c) (elx_nodes x' c)) \<and>
     (\<forall>c. leader_ctx x \<noteq> Some c \<longrightarrow> elx_nodes x' c = elx_nodes x c)"

lemma frame_refl: "frame x x"
  by (simp add: frame_def)

lemma frame_leader: "frame x x' \<Longrightarrow> leader_ctx x' = leader_ctx x"
  by (simp add: frame_def leader_ctx_def)

lemma frame_trans: "frame x y \<Longrightarrow> frame y z \<Longrightarrow> frame x z"
  using frame_leader [of x y] unfolding frame_def by (auto intro: quiet_trans)

lemma on_network_frame:
  assumes "\<And>req n. quiet n (fst (f req n))"
  shows "frame x (fst (on_network E (\<lambda>req. pass_thru (f req)) x))"
  by (cases "leader_ctx x") (simp_all add: on_network_none on_network_some frame_refl, simp add: frame_def assms)

lemma unsubscribe_pass:
  "elx_UnsubscribeScripthashNotify E sh x =
     (case leader_ctx x of None \<Rightarrow> x
      | Some c \<Rightarrow> x\<lparr>elx_nodes := (elx_nodes x)(c := fst (node_unsubscribeScripthash (ee_req E c) sh (elx_nodes x c)))\<rparr>)"
  by (simp add: elx_UnsubscribeScripthashNotify_def net_UnsubscribeScripthashNotify_def leader_ctx_def leader_req_def
      split: option.split)

text \<open>A call that cannot reach a server: there is no leader, or it is not connected.\<close>

definition unreachable :: "elx \<Rightarrow> bool" where
  "unreachable x \<longleftrightarrow> (\<forall>c. leader_ctx x = Some c \<longrightarrow> \<not> connected (elx_nodes x c))"

lemma on_network_refused:
  assumes "unreachable x" "\<And>req n. \<not> connected n \<Longrightarrow> fst (f req n) = n \<and> isl (snd (f req n))"
  shows "fst (on_network E (\<lambda>req. pass_thru (f req)) x) = x \<and> isl (snd (on_network E (\<lambda>req. pass_thru (f req)) x))"
proof (cases "leader_ctx x")
  case None
  then show ?thesis by (simp add: on_network_none)
next
  case (Some c)
  then have "\<not> connected (elx_nodes x c)" using assms(1) by (simp add: unreachable_def)
  then show ?thesis using assms(2) Some by (simp add: on_network_some)
qed

lemmas elx_call_defs =
  elx_SubscribeScripthashNotify_def elx_GetHistory_def elx_GetListUnspent_def elx_GetTransaction_def
  elx_GetRawTransaction_def elx_Broadcast_def elx_EstimateFeeRate_def
  net_SubscribeScripthashNotify_def net_GetHistory_def net_GetListUnspent_def net_GetTransaction_def
  net_GetRawTransaction_def net_Broadcast_def net_EstimateFeeRate_def

lemma no_value_sel [simp]: "fst (no_value y) = fst y" "isl (snd (no_value y)) = isl (snd y)"
  by (auto simp: no_value_def split: prod.split) (cases "snd y"; simp)+

lemma elx_run_frame: "frame x (fst (elx_run (btc_elx E) c x))"
proof (cases c)
  case (CallUnsubscribe sh)
  then show ?thesis
    using node_calls_quiet(2)
    by (simp add: btc_elx_def unsubscribe_pass frame_refl split: option.split) (simp add: frame_def)
qed (simp_all add: btc_elx_def elx_call_defs on_network_frame node_calls_quiet split: prod.split,
  metis fst_conv on_network_frame node_calls_quiet(1))

lemma elx_run_refused:
  assumes "unreachable x"
  shows "fst (elx_run (btc_elx E) c x) = x" "(\<nexists>sh. c = CallUnsubscribe sh) \<Longrightarrow> isl (snd (elx_run (btc_elx E) c x))"
proof -
  note refused = on_network_refused [OF assms]
  have "fst (elx_run (btc_elx E) c x) = x \<and> ((\<nexists>sh. c = CallUnsubscribe sh) \<longrightarrow> isl (snd (elx_run (btc_elx E) c x)))"
  proof (cases c)
    case (CallUnsubscribe sh)
    then show ?thesis
      using assms node_calls_refused(3)
      by (auto simp: btc_elx_def unsubscribe_pass unreachable_def split: option.split)
  next
    case (CallSubscribe sh)
    have "fst (elx_SubscribeScripthashNotify E sh x) = x \<and> isl (snd (elx_SubscribeScripthashNotify E sh x))"
      unfolding elx_call_defs by (rule refused) (simp add: node_calls_refused)
    then show ?thesis
      using CallSubscribe by (cases "elx_SubscribeScripthashNotify E sh x") (auto simp: btc_elx_def isl_def no_value_def)
  qed (simp_all add: btc_elx_def elx_call_defs refused node_calls_refused)
  then show "fst (elx_run (btc_elx E) c x) = x" "(\<nexists>sh. c = CallUnsubscribe sh) \<Longrightarrow> isl (snd (elx_run (btc_elx E) c x))"
    by blast+
qed

text \<open>C29: Whatever calls the client makes through the interface, in any order and with any answers of the
  servers: the network and its leader stay, and only the leader's node is used.  That node keeps its
  headers and its connection, and the cost of its session does not fall.  Without a connected leader
  nothing changes at all, and every call with a result fails.\<close>

theorem calls_use_leader_only:
  assumes "x' = fold (\<lambda>c x. fst (elx_run (btc_elx E) c x)) cs x"
  shows "elx_net x' = elx_net x \<and> (\<forall>c. leader_ctx x \<noteq> Some c \<longrightarrow> elx_nodes x' c = elx_nodes x c) \<and>
    (\<forall>c. networkHeaders (elx_nodes x' c) = networkHeaders (elx_nodes x c) \<and>
         connected (elx_nodes x' c) = connected (elx_nodes x c) \<and>
         (f32_ok (cost (nsession (elx_nodes x c))) \<longrightarrow>
            f32_le (cost (nsession (elx_nodes x c))) (cost (nsession (elx_nodes x' c))))) \<and>
    ((\<forall>c. leader_ctx x = Some c \<longrightarrow> \<not> connected (elx_nodes x c)) \<longrightarrow>
       x' = x \<and> (\<forall>c. (\<nexists>sh. c = CallUnsubscribe sh) \<longrightarrow> isl (snd (elx_run (btc_elx E) c x))))"
proof -
  have "frame x (fold (\<lambda>c x. fst (elx_run (btc_elx E) c x)) cs x)" for x
    by (induction cs arbitrary: x) (auto intro: frame_refl frame_trans [OF elx_run_frame])
  then have "frame x x'" using assms by simp
  moreover have "x' = x" if "unreachable x"
    unfolding assms using that by (induction cs) (simp_all add: elx_run_refused)
  ultimately show ?thesis
    using elx_run_refused(2) [of x _ E] by (auto simp: frame_def quiet_def unreachable_def)
qed

section \<open>The client over the interface\<close>

text \<open>The server of a leader that answers every history call with the JSON of \<open>history\<close>.\<close>

definition history_json :: "History \<Rightarrow> json" where
  "history_json h = JObj [(''height'', JInt (HistHeight h)), (''tx_hash'', JStr (HistTxHash h)), (''fee'', JInt (HistFee h))]"

definition history_req :: "(string \<Rightarrow> History list) \<Rightarrow> requester" where
  "history_req history meth args =
     (case args of
        Some [JStr sh] \<Rightarrow>
          (if meth = ''blockchain.scripthash.get_history'' then Inr (JArr (map history_json (history sh)))
           else Inl (Err ''unknown method''))
      | _ \<Rightarrow> Inl (Err ''invalid params''))"

definition int64_history :: "History \<Rightarrow> bool" where
  "int64_history h \<longleftrightarrow> HistHeight h \<in> {- (2 ^ 63) ..< 2 ^ 63} \<and> HistFee h \<in> {- (2 ^ 63) ..< 2 ^ 63}"

lemma decode_history_json:
  assumes "int64_history h"
  shows "decode_struct history_field \<lparr>HistHeight = 0, HistTxHash = [], HistFee = 0\<rparr> (history_json h) = Inr h"
  using assms by (simp add: history_json_def history_field_def key_is_def lower_def int64_history_def)

lemma decode_history_list:
  "\<forall>h \<in> set hs. int64_history h \<Longrightarrow>
   decode_list (decode_struct history_field \<lparr>HistHeight = 0, HistTxHash = [], HistFee = 0\<rparr>) (JArr (map history_json hs)) = Inr hs"
  by (induction hs) (simp_all add: decode_history_json)

lemma GetHistory_round: "\<forall>h \<in> set (history sh). int64_history h \<Longrightarrow> GetHistory_rpc (history_req history) sh = Inr (history sh)"
  by (simp add: GetHistory_rpc_def history_req_def decode_history_list del: decode_list.simps)

text \<open>A state with a connected leader.\<close>

definition elx_up :: "nat \<Rightarrow> elx \<Rightarrow> bool" where
  "elx_up c x \<longleftrightarrow> leader_ctx x = Some c \<and> connected (elx_nodes x c)"

lemma elx_up_frame: "elx_up c x \<Longrightarrow> frame x x' \<Longrightarrow> elx_up c x'"
  using frame_leader [of x x'] by (simp add: elx_up_def frame_def quiet_def)

lemma elx_GetHistory_up:
  assumes "\<And>t sh. GetHistory_rpc (ee_req E c t) sh = Inr (history sh)"
    and "elx_up c x" "X_GetHistory (btc_elx E) sh x = (x', r)"
  shows "elx_up c x' \<and> r = Inr (history sh)"
proof -
  have "x' = fst (elx_run (btc_elx E) (CallHistory sh) x)" using assms(3) by simp
  then have "elx_up c x'" using elx_up_frame [OF assms(2)] elx_run_frame by blast
  moreover have "r = Inr (history sh)"
    using assms by (simp add: btc_elx_def elx_call_defs on_network_some elx_up_def node_getHistory_def charged_def)
  ultimately show ?thesis ..
qed

definition ex_elx :: elx_env where
  "ex_elx = \<lparr>ee_net = ex_net_env, ee_config = ex_net_cfg, ee_headers = None, ee_servers = FileServers [ex_server_addr],
     ee_req = (\<lambda>_ _. history_req ex_history), ee_wild = (\<lambda>_. 0), marshalHistory = (\<lambda>hs. concat (map HistTxHash hs)),
     marshalUnspent = (\<lambda>us. concat (map LuTxHash us)), marshalTransaction = gt_TxID\<rparr>"

definition ex_elx_state :: elx where
  "ex_elx_state = \<lparr>elx_net = Some ex_net, elx_nodes = (\<lambda>_. ex_node 5)\<rparr>"

lemma ex_elx_up: "elx_up 0 ex_elx_state"
  by (simp add: elx_up_def leader_ctx_def ex_elx_state_def ex_node_def ex_net_def ex_net_defs)

theorem calls_use_leader_only_witness:
  "elx_net (fold (\<lambda>c x. fst (elx_run (btc_elx ex_elx) c x)) [CallHistory ''00'', CallEstimate 6] ex_elx_state) = Some ex_net"
  using calls_use_leader_only [OF refl, of ex_elx "[CallHistory ''00'', CallEstimate 6]" ex_elx_state]
  by (simp add: ex_elx_state_def)

interpretation net_rescan: rescan_server "toy_ce_on (Inr ex_elx_state) (btc_elx ex_elx)" path_km
  "\<lambda>d. bolt_abs chainhash_lib (mem_bkt d)" "\<lambda>d. bolt_inv chainhash_lib (mem_bkt d)" "elx_up 0" ex_history
  "\<lambda>ch i. path_address [ch, i]" "\<lambda>ch i. [0, 20] @ path_address [ch, i]"
proof (rule toy_rescan_server)
  have "GetHistory_rpc (ee_req ex_elx 0 t) sh = Inr (ex_history sh)" for t sh
    unfolding ex_elx_def elx_env.simps by (rule GetHistory_round) (simp add: ex_history_def int64_history_def)
  then show "elx_up 0 x' \<and> r = Inr (ex_history sh)" if "elx_up 0 x" "X_GetHistory (btc_elx ex_elx) sh x = (x', r)" for sh x x' r
    using elx_GetHistory_up [OF _ that] by blast
qed

text \<open>A rescan of a client over the interface ends, and the leader is still there for the next call.\<close>

lemma rescan_over_interface:
  assumes "net_rescan.ready c"
  shows "\<exists>c'. RescanWallet (toy_ce_on (Inr ex_elx_state) (btc_elx ex_elx)) c = (c', Inr ()) \<and> net_rescan.ready c'"
  using net_rescan.rescan_effect [OF assms refl] assms
  by (auto simp: RescanWallet_def checkWallet_def checkX_def net_rescan.ready_def)

end
