(* ===== verification/Mock_Store.thy ===== *)
theory Mock_Store
  imports Store_Laws "HOL-Library.AList"
begin

text \<open>
  The in-memory datastore of \<open>wltbtc/mock.go\<close> that the unit tests of the wallet run on.  A Go map is the list
  of its entries; \<open>ord\<close> is the order in which \<open>range\<close> visits the keys.  The mock is compared with the
  contracts of \<open>Store_Laws\<close>, which both databases keep: it keeps those of the transactions, keys,
  subscriptions, storage and creation date, and breaks those of the coins and the spent coins.
\<close>

section \<open>State\<close>

type_synonym 'v go_map = "(string \<times> 'v) list"

definition go_range :: "(string list \<Rightarrow> string list) \<Rightarrow> 'v go_map \<Rightarrow> 'v list" where
  "go_range ord m = List.map_filter (map_of m) (ord (map fst m))"

record keyStoreEntry =
  ke_scriptAddress :: bytes
  ke_path :: KeyPath
  ke_used :: bool
  ke_key :: "bytes option"

record mock =
  mockConfig :: int
  mockStorage :: bytes
  mockKeyStore :: "keyStoreEntry go_map"
  mockUtxoStore :: "Utxo go_map"
  mockStxoStore :: "Stxo go_map"
  mockTxnStore :: "Txn go_map"
  mockSubscriptionsStore :: "Subscription go_map"

section \<open>Configuration and storage\<close>

definition mock_PutCreationDate :: "int \<Rightarrow> mock \<Rightarrow> mock \<times> unit result" where
  "mock_PutCreationDate date m = (m\<lparr>mockConfig := date\<rparr>, Inr ())"

definition mock_GetCreationDate :: "mock \<Rightarrow> int result" where
  "mock_GetCreationDate m = Inr (mockConfig m)"

definition mock_reverse :: "bytes \<Rightarrow> bytes" where
  "mock_reverse s = reverse_loop s 0 (length s - 1)"

definition mock_PutEncrypted :: "bytes \<Rightarrow> string \<Rightarrow> mock \<Rightarrow> mock \<times> unit result" where
  "mock_PutEncrypted b pw m =
     (if pw \<noteq> ''abc'' then (m, Inl (Err ''invalid password'')) else (m\<lparr>mockStorage := mock_reverse b\<rparr>, Inr ()))"

definition mock_GetDecrypted :: "string \<Rightarrow> mock \<Rightarrow> bytes result" where
  "mock_GetDecrypted pw m = (if pw \<noteq> ''abc'' then Inl (Err ''invalid password'') else Inr (mock_reverse (mockStorage m)))"

section \<open>Keys\<close>

definition mock_key_Put :: "bytes \<Rightarrow> KeyPath \<Rightarrow> mock \<Rightarrow> mock \<times> unit result" where
  "mock_key_Put scriptAddress keyPath m =
     (m\<lparr>mockKeyStore := AList.update (EncodeToString scriptAddress)
          \<lparr>ke_scriptAddress = scriptAddress, ke_path = keyPath, ke_used = False, ke_key = None\<rparr> (mockKeyStore m)\<rparr>, Inr ())"

definition mock_ImportKey :: "bytes \<Rightarrow> bytes \<Rightarrow> mock \<Rightarrow> mock \<times> unit result" where
  "mock_ImportKey scriptAddress key m =
     (m\<lparr>mockKeyStore := AList.update (EncodeToString scriptAddress)
          \<lparr>ke_scriptAddress = scriptAddress, ke_path = \<lparr>Change = EXTERNAL, Index = - 1\<rparr>, ke_used = False, ke_key = Some key\<rparr>
          (mockKeyStore m)\<rparr>, Inr ())"

text \<open>A method that changes the entry a pointer of the map points to.\<close>

definition with_entry :: "string \<Rightarrow> string \<Rightarrow> ('v \<Rightarrow> 'v) \<Rightarrow> 'v go_map \<Rightarrow> 'v go_map \<times> unit result" where
  "with_entry err k f es = (case map_of es k of None \<Rightarrow> (es, Inl (Err err)) | Some v \<Rightarrow> (AList.update k (f v) es, Inr ()))"

definition mock_MarkKeyAsUsed :: "bytes \<Rightarrow> mock \<Rightarrow> mock \<times> unit result" where
  "mock_MarkKeyAsUsed scriptAddress m =
     (case with_entry ''key does not exist'' (EncodeToString scriptAddress) (\<lambda>e. e\<lparr>ke_used := True\<rparr>) (mockKeyStore m) of
        (es, r) \<Rightarrow> (m\<lparr>mockKeyStore := es\<rparr>, r))"

definition last_index_step :: "KeyChange \<Rightarrow> keyStoreEntry \<Rightarrow> int \<times> bool \<Rightarrow> int \<times> bool" where
  "last_index_step purpose e s =
     (if Change (ke_path e) = purpose \<and> Index (ke_path e) > fst s then (Index (ke_path e), ke_used e) else s)"

definition mock_GetLastKeyIndex :: "(string list \<Rightarrow> string list) \<Rightarrow> KeyChange \<Rightarrow> mock \<Rightarrow> (int \<times> bool) result" where
  "mock_GetLastKeyIndex ord purpose m =
     (let s = fold (last_index_step purpose) (go_range ord (mockKeyStore m)) (- 1, False) in
      if fst s = - 1 then Inl (Err ''no saved keys'') else Inr s)"

definition mock_GetPathForKey :: "bytes \<Rightarrow> mock \<Rightarrow> KeyPath result" where
  "mock_GetPathForKey scriptAddress m =
     (case map_of (mockKeyStore m) (EncodeToString scriptAddress) of
        None \<Rightarrow> Inl (Err ''key does not exist'')
      | Some e \<Rightarrow> (if Index (ke_path e) = - 1 then Inl (Err ''key does not exist'') else Inr (ke_path e)))"

definition mock_GetUnused :: "(string list \<Rightarrow> string list) \<Rightarrow> KeyChange \<Rightarrow> mock \<Rightarrow> int list result" where
  "mock_GetUnused ord purpose m =
     Inr (sort (map (\<lambda>e. Index (ke_path e))
       (filter (\<lambda>e. \<not> ke_used e \<and> Change (ke_path e) = purpose) (go_range ord (mockKeyStore m)))))"

definition mock_key_GetAll :: "(string list \<Rightarrow> string list) \<Rightarrow> mock \<Rightarrow> KeyPath list result" where
  "mock_key_GetAll ord m = Inr (map ke_path (go_range ord (mockKeyStore m)))"

definition last_used_step :: "KeyChange \<Rightarrow> keyStoreEntry \<Rightarrow> int \<Rightarrow> int" where
  "last_used_step purpose e lastUsed =
     (if Change (ke_path e) = purpose \<and> ke_used e \<and> Index (ke_path e) > lastUsed then Index (ke_path e) else lastUsed)"

definition mock_window :: "(string list \<Rightarrow> string list) \<Rightarrow> KeyChange \<Rightarrow> mock \<Rightarrow> int" where
  "mock_window ord purpose m =
     (let es = go_range ord (mockKeyStore m); lastUsed = fold (last_used_step purpose) es (- 1) in
      int (length (filter (\<lambda>e. Change (ke_path e) = purpose \<and> \<not> ke_used e \<and> Index (ke_path e) > lastUsed) es)))"

definition mock_GetLookaheadWindows :: "(string list \<Rightarrow> string list) \<Rightarrow> mock \<Rightarrow> (KeyChange \<rightharpoonup> int)" where
  "mock_GetLookaheadWindows ord m = [INTERNAL \<mapsto> mock_window ord INTERNAL m, EXTERNAL \<mapsto> mock_window ord EXTERNAL m]"

section \<open>Coins and spent coins\<close>

definition mock_utxo_Put :: "hash_lib \<Rightarrow> Utxo \<Rightarrow> mock \<Rightarrow> mock \<times> unit result" where
  "mock_utxo_Put H utxo m = (m\<lparr>mockUtxoStore := AList.update (OutPoint_String H (Op utxo)) utxo (mockUtxoStore m)\<rparr>, Inr ())"

definition mock_utxo_GetAll :: "(string list \<Rightarrow> string list) \<Rightarrow> mock \<Rightarrow> Utxo list result" where
  "mock_utxo_GetAll ord m = Inr (go_range ord (mockUtxoStore m))"

definition with_utxo :: "hash_lib \<Rightarrow> Utxo \<Rightarrow> (Utxo \<Rightarrow> Utxo) \<Rightarrow> mock \<Rightarrow> mock \<times> unit result" where
  "with_utxo H utxo f m =
     (case with_entry ''not found'' (OutPoint_String H (Op utxo)) f (mockUtxoStore m) of
        (es, r) \<Rightarrow> (m\<lparr>mockUtxoStore := es\<rparr>, r))"

definition mock_utxo_SetWatchOnly :: "hash_lib \<Rightarrow> Utxo \<Rightarrow> mock \<Rightarrow> mock \<times> unit result" where
  "mock_utxo_SetWatchOnly H utxo = with_utxo H utxo (\<lambda>u. u\<lparr>WatchOnly := True\<rparr>)"

definition mock_utxo_Freeze :: "hash_lib \<Rightarrow> Utxo \<Rightarrow> mock \<Rightarrow> mock \<times> unit result" where
  "mock_utxo_Freeze H utxo = with_utxo H utxo (\<lambda>u. u\<lparr>Frozen := True\<rparr>)"

text \<open>\<open>UnFreeze\<close> writes the other flag.\<close>

definition mock_utxo_UnFreeze :: "hash_lib \<Rightarrow> Utxo \<Rightarrow> mock \<Rightarrow> mock \<times> unit result" where
  "mock_utxo_UnFreeze H utxo = with_utxo H utxo (\<lambda>u. u\<lparr>WatchOnly := False\<rparr>)"

definition without_entry :: "string \<Rightarrow> 'v go_map \<Rightarrow> 'v go_map \<times> unit result" where
  "without_entry k es = (if map_of es k = None then (es, Inl (Err ''not found'')) else (AList.delete k es, Inr ()))"

definition mock_utxo_Delete :: "hash_lib \<Rightarrow> Utxo \<Rightarrow> mock \<Rightarrow> mock \<times> unit result" where
  "mock_utxo_Delete H utxo m =
     (case without_entry (OutPoint_String H (Op utxo)) (mockUtxoStore m) of (es, r) \<Rightarrow> (m\<lparr>mockUtxoStore := es\<rparr>, r))"

definition mock_stxo_Put :: "hash_lib \<Rightarrow> Stxo \<Rightarrow> mock \<Rightarrow> mock \<times> unit result" where
  "mock_stxo_Put H stxo m = (m\<lparr>mockStxoStore := AList.update (HashString H (SpendTxid stxo)) stxo (mockStxoStore m)\<rparr>, Inr ())"

definition mock_stxo_GetAll :: "(string list \<Rightarrow> string list) \<Rightarrow> mock \<Rightarrow> Stxo list result" where
  "mock_stxo_GetAll ord m = Inr (go_range ord (mockStxoStore m))"

definition mock_stxo_Delete :: "hash_lib \<Rightarrow> Stxo \<Rightarrow> mock \<Rightarrow> mock \<times> unit result" where
  "mock_stxo_Delete H stxo m =
     (case without_entry (HashString H (SpendTxid stxo)) (mockStxoStore m) of (es, r) \<Rightarrow> (m\<lparr>mockStxoStore := es\<rparr>, r))"

section \<open>Transactions and subscriptions\<close>

definition mock_txn_Put :: "bytes \<Rightarrow> string \<Rightarrow> int \<Rightarrow> int \<Rightarrow> int \<Rightarrow> bool \<Rightarrow> mock \<Rightarrow> mock \<times> unit result" where
  "mock_txn_Put raw txid val height timestamp watchOnly m =
     (m\<lparr>mockTxnStore := AList.update txid \<lparr>Txid = txid, TValue = val, Height = height, Timestamp = timestamp,
          TWatchOnly = watchOnly, Bytes = raw\<rparr> (mockTxnStore m)\<rparr>, Inr ())"

definition mock_txn_Get :: "string \<Rightarrow> mock \<Rightarrow> Txn result" where
  "mock_txn_Get txid m = (case map_of (mockTxnStore m) txid of None \<Rightarrow> Inl (Err ''not found'') | Some t \<Rightarrow> Inr t)"

definition mock_txn_GetAll :: "(string list \<Rightarrow> string list) \<Rightarrow> bool \<Rightarrow> mock \<Rightarrow> Txn list result" where
  "mock_txn_GetAll ord includeWatchOnly m =
     Inr (filter (\<lambda>t. \<not> (\<not> includeWatchOnly \<and> TWatchOnly t)) (go_range ord (mockTxnStore m)))"

definition mock_txn_UpdateHeight :: "string \<Rightarrow> int \<Rightarrow> int \<Rightarrow> mock \<Rightarrow> mock \<times> unit result" where
  "mock_txn_UpdateHeight txid height timestamp m =
     (case with_entry ''not found'' txid (\<lambda>t. t\<lparr>Height := height, Timestamp := timestamp\<rparr>) (mockTxnStore m) of
        (es, r) \<Rightarrow> (m\<lparr>mockTxnStore := es\<rparr>, r))"

definition mock_txn_Delete :: "string \<Rightarrow> mock \<Rightarrow> mock \<times> unit result" where
  "mock_txn_Delete txid m = (case without_entry txid (mockTxnStore m) of (es, r) \<Rightarrow> (m\<lparr>mockTxnStore := es\<rparr>, r))"

text \<open>A nil subscription is \<open>None\<close>.\<close>

definition mock_sub_Put :: "Subscription option \<Rightarrow> mock \<Rightarrow> mock \<times> unit result" where
  "mock_sub_Put sub m =
     (case sub of None \<Rightarrow> (m, Inl (Err ''nil subscription''))
      | Some s \<Rightarrow> (m\<lparr>mockSubscriptionsStore := AList.update (PkScript s) s (mockSubscriptionsStore m)\<rparr>, Inr ()))"

definition mock_sub_Get :: "string \<Rightarrow> mock \<Rightarrow> Subscription result" where
  "mock_sub_Get scriptPubKey m =
     (case map_of (mockSubscriptionsStore m) scriptPubKey of None \<Rightarrow> Inl (Err ''not found'') | Some s \<Rightarrow> Inr s)"

definition mock_sub_GetElectrumScripthash :: "(string list \<Rightarrow> string list) \<Rightarrow> string \<Rightarrow> mock \<Rightarrow> Subscription option result" where
  "mock_sub_GetElectrumScripthash ord electrumScripthash m =
     Inr (List.find (\<lambda>s. ElectrumScripthash s = electrumScripthash) (go_range ord (mockSubscriptionsStore m)))"

definition mock_sub_GetAll :: "(string list \<Rightarrow> string list) \<Rightarrow> mock \<Rightarrow> Subscription list result" where
  "mock_sub_GetAll ord m = Inr (go_range ord (mockSubscriptionsStore m))"

definition mock_sub_Delete :: "string \<Rightarrow> mock \<Rightarrow> mock \<times> unit result" where
  "mock_sub_Delete scriptPubKey m =
     (case without_entry scriptPubKey (mockSubscriptionsStore m) of (es, r) \<Rightarrow> (m\<lparr>mockSubscriptionsStore := es\<rparr>, r))"

text \<open>The datastore the wallet sees.  A nil subscription without an error is what the client reports as
  \<open>ErrNoSubscriptionFoundInDb\<close>.\<close>

definition MockDatastore :: "hash_lib \<Rightarrow> (string list \<Rightarrow> string list) \<Rightarrow> mock Datastore" where
  "MockDatastore H ord =
     \<lparr>DS_Cfg = \<lparr>PutCreationDate = mock_PutCreationDate, GetCreationDate = mock_GetCreationDate\<rparr>,
      DS_Enc = \<lparr>PutEncrypted = mock_PutEncrypted, GetDecrypted = mock_GetDecrypted\<rparr>,
      DS_Utxos = \<lparr>U_Put = mock_utxo_Put H, U_GetAll = mock_utxo_GetAll ord, U_SetWatchOnly = mock_utxo_SetWatchOnly H,
        U_Freeze = mock_utxo_Freeze H, U_UnFreeze = mock_utxo_UnFreeze H, U_Delete = mock_utxo_Delete H\<rparr>,
      DS_Stxos = \<lparr>S_Put = mock_stxo_Put H, S_GetAll = mock_stxo_GetAll ord, S_Delete = mock_stxo_Delete H\<rparr>,
      DS_Txns = \<lparr>T_Put = mock_txn_Put, T_Get = mock_txn_Get, T_GetAll = mock_txn_GetAll ord,
        T_UpdateHeight = mock_txn_UpdateHeight, T_Delete = mock_txn_Delete\<rparr>,
      DS_Keys = \<lparr>K_Put = mock_key_Put, K_MarkKeyAsUsed = mock_MarkKeyAsUsed, K_GetLastKeyIndex = mock_GetLastKeyIndex ord,
        K_GetPathForKey = mock_GetPathForKey, K_GetUnused = mock_GetUnused ord, K_GetAll = mock_key_GetAll ord,
        K_GetLookaheadWindows = mock_GetLookaheadWindows ord\<rparr>,
      DS_Subscriptions = \<lparr>Sub_Put = (\<lambda>s. mock_sub_Put (Some s)), Sub_Get = mock_sub_Get,
        Sub_GetElectrumScripthash = (\<lambda>e m. thenR (mock_sub_GetElectrumScripthash ord e m)
          (\<lambda>s. case s of None \<Rightarrow> Inl (Err ''no subscription found in db'') | Some s \<Rightarrow> Inr s)),
        Sub_GetAll = mock_sub_GetAll ord, Sub_Delete = mock_sub_Delete\<rparr>\<rparr>"

end
