(* ===== verification/Mock_Laws.thy ===== *)
theory Mock_Laws
  imports Mock_Store "HOL-Library.Multiset"
begin

text \<open>
  The mock against the contracts of \<open>Store_Laws\<close>, for every order in which \<open>range\<close> may visit a map.
\<close>

section \<open>Maps and their order\<close>

locale go_order =
  fixes ord :: "string list \<Rightarrow> string list"
  assumes ord_perm: "mset (ord ks) = mset ks"
begin

lemma range_mset: "distinct (map fst m) \<Longrightarrow> mset (go_range ord m) = mset (map snd m)"
proof -
  assume d: "distinct (map fst m)"
  have "set (ord (map fst m)) = set (map fst m)" by (rule mset_eq_setD [OF ord_perm])
  then have "go_range ord m = map (\<lambda>k. the (map_of m k)) (ord (map fst m))"
    by (auto simp: go_range_def List.map_filter_def domIff dom_map_of_conv_image_fst [symmetric] intro!: filter_True)
  then have "mset (go_range ord m) = image_mset (\<lambda>k. the (map_of m k)) (mset (map fst m))"
    by (simp add: ord_perm)
  also have "\<dots> = mset (map (\<lambda>p. the (map_of m (fst p))) m)"
    by (simp add: image_mset.compositionality comp_def)
  also have "map (\<lambda>p. the (map_of m (fst p))) m = map snd m" using d by auto
  finally show ?thesis .
qed

lemma range_set: "distinct (map fst m) \<Longrightarrow> v \<in> set (go_range ord m) \<longleftrightarrow> (\<exists>k. map_of m k = Some v)"
  using mset_eq_setD [OF range_mset, of m] by (force simp: map_of_eq_Some_iff)

end

interpretation rev_order: go_order rev
  by unfold_locales simp

text \<open>Entries stored under a function of their value.\<close>

definition keyed :: "('v \<Rightarrow> string) \<Rightarrow> ('v \<Rightarrow> bool) \<Rightarrow> 'v go_map \<Rightarrow> bool" where
  "keyed f P m \<longleftrightarrow> distinct (map fst m) \<and> (\<forall>k v. map_of m k = Some v \<longrightarrow> f v = k \<and> P v)"

lemma keyed_update: "keyed f P m \<Longrightarrow> P v \<Longrightarrow> keyed f P (AList.update (f v) v m)"
  by (auto simp: keyed_def update_conv' distinct_update split: if_splits)

lemma keyed_delete: "keyed f P m \<Longrightarrow> keyed f P (AList.delete k m)"
  by (auto simp: keyed_def delete_conv' distinct_delete split: if_splits)

lemma with_entry_step:
  assumes "keyed f P m" "with_entry err k g m = (m', r)" "\<And>v. P v \<Longrightarrow> f v = k \<Longrightarrow> f (g v) = f v \<and> P (g v)"
  shows "keyed f P m' \<and> map_of m' = (if isl r then map_of m else alter (map_of m) k g) \<and> (isl r \<longrightarrow> m' = m)"
proof (cases "map_of m k")
  case None
  then show ?thesis using assms by (simp add: with_entry_def)
next
  case (Some v)
  then have v: "f v = k" "P v" using assms(1) by (simp_all add: keyed_def)
  then have "keyed f P (AList.update k (g v) m)"
    using keyed_update [OF assms(1), of "g v"] assms(3) by simp
  then show ?thesis
    using assms(2) Some by (auto simp: with_entry_def update_conv' alter_present)
qed

lemma without_entry_step:
  assumes "keyed f P m" "without_entry k m = (m', r)"
  shows "keyed f P m' \<and> map_of m' = (if isl r then map_of m else (map_of m)(k := None)) \<and> (isl r \<longrightarrow> m' = m)"
  using assms by (auto simp: without_entry_def delete_conv' keyed_delete split: if_splits)

section \<open>The abstract store of the mock\<close>

definition entry_ok :: "keyStoreEntry \<Rightarrow> bool" where
  "entry_ok e \<longleftrightarrow> length (ke_scriptAddress e) = 20 \<and> Change (ke_path e) \<in> {EXTERNAL, INTERNAL}"

definition mock_inv :: "hash_lib \<Rightarrow> mock \<Rightarrow> bool" where
  "mock_inv H m \<longleftrightarrow>
     keyed (\<lambda>e. EncodeToString (ke_scriptAddress e)) entry_ok (mockKeyStore m) \<and>
     keyed (\<lambda>u. OutPoint_String H (Op u)) wf_utxo (mockUtxoStore m) \<and>
     keyed (\<lambda>s. HashString H (SpendTxid s)) wf_stxo (mockStxoStore m) \<and>
     keyed Txid (\<lambda>_. True) (mockTxnStore m) \<and> keyed PkScript (\<lambda>_. True) (mockSubscriptionsStore m)"

definition mock_abs :: "hash_lib \<Rightarrow> mock \<Rightarrow> abs_store" where
  "mock_abs H m =
     \<lparr>aUtxos = (\<lambda>op. if wf_op op then map_of (mockUtxoStore m) (OutPoint_String H op) else None),
      aStxos = map_of (map (\<lambda>(k, s). (Op (SUtxo s), s)) (mockStxoStore m)), aTxns = map_of (mockTxnStore m),
      aKeys = (\<lambda>sa. map_option (\<lambda>e. (ke_path e, ke_used e)) (map_of (mockKeyStore m) (EncodeToString sa))),
      aSubs = map_of (mockSubscriptionsStore m), aEnc = Some (mockStorage m), aCfg = Some (mockConfig m)\<rparr>"

lemmas mock_datastore_simps = MockDatastore_def Datastore.select_convs Utxos.select_convs Stxos.select_convs
  Txns.select_convs Keys.select_convs Subscriptions.select_convs Enc.select_convs Cfg.select_convs

lemma mock_reverse_rev: "mock_reverse s = rev s"
proof (cases "s = []")
  case True
  then show ?thesis by (simp add: mock_reverse_def reverse_loop.simps)
next
  case False
  then show ?thesis
    by (intro nth_equalityI) (auto simp: mock_reverse_def reverse_loop_nth rev_nth)
qed

text \<open>Dates are kept as they are; only one password is accepted, and the storage is never absent.\<close>

interpretation mock_cfg: cfg_store "DS_Cfg (MockDatastore H ord)" "mock_abs H" "mock_inv H" "\<lambda>t. t" for H ord
  by (unfold_locales; (unfold mock_datastore_simps)?)
    (auto simp: mock_PutCreationDate_def mock_GetCreationDate_def mock_abs_def mock_inv_def)

interpretation mock_enc: enc_store "DS_Enc (MockDatastore H ord)" "mock_abs H" "mock_inv H"
  "\<lambda>raw pw. if pw \<noteq> ''abc'' then Inl (Err ''invalid password'') else Inr (mock_reverse raw)" "(=)" for H ord
  by (unfold_locales; (unfold mock_datastore_simps)?)
    (auto simp: mock_PutEncrypted_def mock_GetDecrypted_def mock_abs_def mock_inv_def mock_reverse_rev split: if_splits)

section \<open>Transactions and subscriptions\<close>

lemma keyed_lookup: "keyed f P m \<Longrightarrow> map_of m k = Some v \<Longrightarrow> f v = k \<and> P v"
  by (simp add: keyed_def)

context go_order
begin

lemma keyed_lists: "keyed f P m \<Longrightarrow> lists_map f (go_range ord m) (map_of m)"
proof -
  assume k: "keyed f P m"
  then have d: "distinct (map fst m)" by (simp add: keyed_def)
  have "map f (map snd m) = map fst m"
    using k by (auto simp: keyed_def)
  then have "mset (map f (go_range ord m)) = mset (map fst m)"
    by (metis mset_map range_mset [OF d])
  then have "distinct (map f (go_range ord m))" using d by (metis mset_eq_imp_distinct_iff)
  then show ?thesis
    using k by (auto simp: lists_map_def range_set [OF d] dest: keyed_lookup)
qed

end

lemma mock_list_filter:
  assumes "lists_map f xs m"
  shows "lists_map f (filter (\<lambda>x. \<not> Q x) xs) (\<lambda>k. case m k of None \<Rightarrow> None | Some v \<Rightarrow> if Q v then None else Some v)"
proof -
  have "(case m k of None \<Rightarrow> None | Some v \<Rightarrow> if Q v then None else Some v) = Some a \<longleftrightarrow> m k = Some a \<and> \<not> Q a" for k a
    by (auto split: option.splits)
  then show ?thesis using assms by (auto simp: lists_map_def distinct_map_filter)
qed

sublocale go_order \<subseteq> mock_txn: txn_store "DS_Txns (MockDatastore H ord)" "mock_abs H" "mock_inv H" "\<lambda>t. t" for H
proof (unfold_locales; (unfold mock_datastore_simps)?)
  fix d raw txid val h t wo d' r
  assume "mock_inv H d" "mock_txn_Put raw txid val h t wo d = (d', r)"
  then show "mock_inv H d' \<and> mock_abs H d' = (if isl r then mock_abs H d
        else (mock_abs H d)\<lparr>aTxns := (aTxns (mock_abs H d))(txid \<mapsto> \<lparr>Txid = txid, TValue = val, Height = h,
          Timestamp = t, TWatchOnly = wo, Bytes = raw\<rparr>)\<rparr>)"
    using keyed_update [of Txid "\<lambda>_. True" "mockTxnStore d"
        "\<lparr>Txid = txid, TValue = val, Height = h, Timestamp = t, TWatchOnly = wo, Bytes = raw\<rparr>"]
    by (auto simp: mock_txn_Put_def mock_inv_def mock_abs_def update_conv')
next
  fix d txid h t d' r
  assume inv: "mock_inv H d" and u: "mock_txn_UpdateHeight txid h t d = (d', r)"
  obtain es where es: "with_entry ''not found'' txid (\<lambda>t'. t'\<lparr>Height := h, Timestamp := t\<rparr>) (mockTxnStore d) = (es, r)"
      "d' = d\<lparr>mockTxnStore := es\<rparr>"
    using u by (auto simp: mock_txn_UpdateHeight_def split: prod.splits)
  show "mock_inv H d' \<and> mock_abs H d' = (if isl r then mock_abs H d
        else (mock_abs H d)\<lparr>aTxns := alter (aTxns (mock_abs H d)) txid (\<lambda>x. x\<lparr>Height := h, Timestamp := t\<rparr>)\<rparr>)"
    using with_entry_step [OF _ es(1), of Txid "\<lambda>_. True"] inv by (auto simp: es(2) mock_inv_def mock_abs_def)
next
  fix d txid d' r
  assume inv: "mock_inv H d" and u: "mock_txn_Delete txid d = (d', r)"
  obtain es where es: "without_entry txid (mockTxnStore d) = (es, r)" "d' = d\<lparr>mockTxnStore := es\<rparr>"
    using u by (auto simp: mock_txn_Delete_def split: prod.splits)
  show "mock_inv H d' \<and> mock_abs H d' = (if isl r then mock_abs H d
        else (mock_abs H d)\<lparr>aTxns := (aTxns (mock_abs H d))(txid := None)\<rparr>)"
    using without_entry_step [OF _ es(1), of Txid "\<lambda>_. True"] inv by (auto simp: es(2) mock_inv_def mock_abs_def)
next
  fix d every xs
  assume inv: "mock_inv H d" and "mock_txn_GetAll ord every d = Inr xs"
  then have xs: "xs = filter (\<lambda>t. \<not> (TWatchOnly t \<and> \<not> every)) (go_range ord (mockTxnStore d))"
    by (auto simp: mock_txn_GetAll_def intro: filter_cong)
  show "lists_map Txid xs (\<lambda>k. case aTxns (mock_abs H d) k of None \<Rightarrow> None
                             | Some x \<Rightarrow> if TWatchOnly x \<and> \<not> every then None else Some x)"
    unfolding xs using inv mock_list_filter [OF keyed_lists, of Txid "\<lambda>_. True" "mockTxnStore d" "\<lambda>t. TWatchOnly t \<and> \<not> every"]
    by (simp add: mock_inv_def mock_abs_def)
qed (auto simp: mock_txn_Get_def mock_abs_def split: option.splits)

sublocale go_order \<subseteq> mock_sub: sub_store "DS_Subscriptions (MockDatastore H ord)" "mock_abs H" "mock_inv H" for H
proof (unfold_locales; (unfold mock_datastore_simps)?)
  fix d s d' r
  assume "mock_inv H d" "mock_sub_Put (Some s) d = (d', r)"
  then show "mock_inv H d' \<and> mock_abs H d' = (if isl r then mock_abs H d
        else (mock_abs H d)\<lparr>aSubs := (aSubs (mock_abs H d))(PkScript s \<mapsto> s)\<rparr>)"
    using keyed_update [of PkScript "\<lambda>_. True" "mockSubscriptionsStore d" s]
    by (auto simp: mock_sub_Put_def mock_inv_def mock_abs_def update_conv')
next
  fix d k d' r
  assume inv: "mock_inv H d" and u: "mock_sub_Delete k d = (d', r)"
  obtain es where es: "without_entry k (mockSubscriptionsStore d) = (es, r)" "d' = d\<lparr>mockSubscriptionsStore := es\<rparr>"
    using u by (auto simp: mock_sub_Delete_def split: prod.splits)
  show "mock_inv H d' \<and> mock_abs H d' = (if isl r then mock_abs H d
        else (mock_abs H d)\<lparr>aSubs := (aSubs (mock_abs H d))(k := None)\<rparr>)"
    using without_entry_step [OF _ es(1), of PkScript "\<lambda>_. True"] inv by (auto simp: es(2) mock_inv_def mock_abs_def)
next
  fix d e s
  assume inv: "mock_inv H d" and "thenR (mock_sub_GetElectrumScripthash ord e d)
          (\<lambda>s. case s of None \<Rightarrow> Inl (Err ''no subscription found in db'') | Some s \<Rightarrow> Inr s) = Inr s"
  then have "List.find (\<lambda>s. ElectrumScripthash s = e) (go_range ord (mockSubscriptionsStore d)) = Some s"
    by (auto simp: mock_sub_GetElectrumScripthash_def split: option.splits)
  then have "ElectrumScripthash s = e" "s \<in> set (go_range ord (mockSubscriptionsStore d))"
    by (auto simp: find_Some_iff)
  then show "ElectrumScripthash s = e \<and> aSubs (mock_abs H d) (PkScript s) = Some s"
    using keyed_lists [of PkScript "\<lambda>_. True" "mockSubscriptionsStore d"] inv
    by (auto simp: mock_inv_def mock_abs_def dest: lists_map_mem)
next
  fix d ss
  assume "mock_inv H d" "mock_sub_GetAll ord d = Inr ss"
  then show "lists_map PkScript ss (aSubs (mock_abs H d))"
    using keyed_lists [of PkScript "\<lambda>_. True" "mockSubscriptionsStore d"]
    by (auto simp: mock_sub_GetAll_def mock_inv_def mock_abs_def)
qed (auto simp: mock_sub_Get_def mock_abs_def split: option.splits)

section \<open>Keys\<close>

lemma last_index_fold:
  assumes "fold (last_index_step p) es s0 = s"
  shows "fst s0 \<le> fst s \<and> (\<forall>e \<in> set es. Change (ke_path e) = p \<longrightarrow> Index (ke_path e) \<le> fst s) \<and>
    (s = s0 \<or> fst s0 < fst s \<and> (\<exists>e \<in> set es. ke_path e = \<lparr>Change = p, Index = fst s\<rparr> \<and> ke_used e = snd s))"
  using assms
proof (induction es arbitrary: s0)
  case (Cons e es)
  define t where "t = last_index_step p e s0"
  have e: "Change (ke_path e) = p \<longrightarrow> Index (ke_path e) \<le> fst t" "fst s0 \<le> fst t"
    "t = s0 \<or> fst s0 < fst t \<and> ke_path e = \<lparr>Change = p, Index = fst t\<rparr> \<and> ke_used e = snd t"
    by (cases "ke_path e"; auto simp: t_def last_index_step_def)+
  have "fold (last_index_step p) es t = s" using Cons.prems by (simp add: t_def)
  note IH = Cons.IH [OF this]
  then have "fst s0 \<le> fst s" "\<forall>e' \<in> set (e # es). Change (ke_path e') = p \<longrightarrow> Index (ke_path e') \<le> fst s"
    using e by auto
  moreover have "s = s0 \<or> fst s0 < fst s \<and> (\<exists>e \<in> set (e # es). ke_path e = \<lparr>Change = p, Index = fst s\<rparr> \<and> ke_used e = snd s)"
  proof (cases "s = t")
    case True
    then show ?thesis using e(3) by auto
  next
    case False
    then show ?thesis using IH e(2) by auto
  qed
  ultimately show ?case by blast
qed simp

lemma path_eq: "kp = \<lparr>Change = p, Index = i\<rparr> \<longleftrightarrow> Change kp = p \<and> Index kp = i"
  by (cases kp) auto

context go_order
begin

lemma mock_key_entry:
  assumes "mock_inv H d"
  shows "aKeys (mock_abs H d) sa = Some (kp, u) \<longleftrightarrow>
    (\<exists>e \<in> set (go_range ord (mockKeyStore d)). ke_scriptAddress e = sa \<and> ke_path e = kp \<and> ke_used e = u)"
proof -
  have L: "lists_map (\<lambda>e. EncodeToString (ke_scriptAddress e)) (go_range ord (mockKeyStore d)) (map_of (mockKeyStore d))"
    using assms by (intro keyed_lists [where P = entry_ok]) (simp add: mock_inv_def)
  then show ?thesis by (auto simp: mock_abs_def lists_map_def Encode_inj)
qed

lemma mock_key_distinct:
  assumes "mock_inv H d"
  shows "distinct (map ke_scriptAddress (go_range ord (mockKeyStore d)))"
proof -
  have "lists_map (\<lambda>e. EncodeToString (ke_scriptAddress e)) (go_range ord (mockKeyStore d)) (map_of (mockKeyStore d))"
    using assms by (intro keyed_lists [where P = entry_ok]) (simp add: mock_inv_def)
  then have "distinct (map EncodeToString (map ke_scriptAddress (go_range ord (mockKeyStore d))))"
    by (simp add: lists_map_def comp_def)
  then show ?thesis
    using distinct_map [of EncodeToString "map ke_scriptAddress (go_range ord (mockKeyStore d))"] by blast
qed

lemma mock_window_bound:
  assumes "mock_inv H d"
  shows "0 \<le> mock_window ord p d \<and> mock_window ord p d \<le> int (card (unused_keys (mock_abs H d) p))"
proof -
  let ?es = "go_range ord (mockKeyStore d)"
  let ?ws = "filter (\<lambda>e. Change (ke_path e) = p \<and> \<not> ke_used e \<and> Index (ke_path e) > fold (last_used_step p) ?es (- 1)) ?es"
  have "finite (unused_keys (mock_abs H d) p)"
  proof (rule finite_subset)
    show "unused_keys (mock_abs H d) p \<subseteq> ke_scriptAddress ` set ?es"
      by (auto simp: unused_keys_def mock_key_entry [OF assms])
  qed simp
  moreover have "ke_scriptAddress ` set ?ws \<subseteq> unused_keys (mock_abs H d) p"
  proof
    fix sa assume "sa \<in> ke_scriptAddress ` set ?ws"
    then obtain e where "e \<in> set ?es" "ke_scriptAddress e = sa" "Change (ke_path e) = p" "\<not> ke_used e" by auto
    moreover from this have "ke_path e = \<lparr>Change = p, Index = Index (ke_path e)\<rparr>" by (cases "ke_path e") simp
    ultimately show "sa \<in> unused_keys (mock_abs H d) p"
      unfolding unused_keys_def mock_key_entry [OF assms] by blast
  qed
  ultimately have "card (set (map ke_scriptAddress ?ws)) \<le> card (unused_keys (mock_abs H d) p)"
    unfolding set_map by (rule card_mono)
  moreover have "distinct (map ke_scriptAddress ?ws)" using mock_key_distinct [OF assms] by (rule distinct_map_filter)
  then have "card (set (map ke_scriptAddress ?ws)) = length ?ws" by (simp add: distinct_card del: set_map)
  ultimately show ?thesis by (simp add: mock_window_def Let_def)
qed

end

sublocale go_order \<subseteq> mock_key: key_store "DS_Keys (MockDatastore H ord)" "mock_abs H" "mock_inv H" for H
proof (unfold_locales; (unfold mock_datastore_simps)?)
  fix d sa kp d' r
  assume "mock_inv H d" "length sa = 20" "Change kp \<in> {EXTERNAL, INTERNAL}" "mock_key_Put sa kp d = (d', r)"
  then show "mock_inv H d' \<and> mock_abs H d' = (if isl r then mock_abs H d
      else (mock_abs H d)\<lparr>aKeys := (aKeys (mock_abs H d))(sa \<mapsto> (kp, False))\<rparr>)"
    using keyed_update [of "\<lambda>e. EncodeToString (ke_scriptAddress e)" entry_ok "mockKeyStore d"
        "\<lparr>ke_scriptAddress = sa, ke_path = kp, ke_used = False, ke_key = None\<rparr>"]
    by (auto simp: mock_key_Put_def mock_inv_def mock_abs_def update_conv' Encode_inj fun_eq_iff entry_ok_def)
next
  fix d sa d' r
  assume inv: "mock_inv H d" and u: "mock_MarkKeyAsUsed sa d = (d', r)"
  obtain es where es: "with_entry ''key does not exist'' (EncodeToString sa) (\<lambda>e. e\<lparr>ke_used := True\<rparr>) (mockKeyStore d) = (es, r)"
      "d' = d\<lparr>mockKeyStore := es\<rparr>"
    using u by (auto simp: mock_MarkKeyAsUsed_def split: prod.splits)
  have "(\<lambda>sa'. map_option (\<lambda>e. (ke_path e, ke_used e)) (alter (map_of (mockKeyStore d)) (EncodeToString sa) (\<lambda>e. e\<lparr>ke_used := True\<rparr>)
      (EncodeToString sa'))) = alter (aKeys (mock_abs H d)) sa (\<lambda>(kp, u). (kp, True))"
    by (auto simp: fun_eq_iff alter_def mock_abs_def Encode_inj option.map_comp comp_def)
  then show "mock_inv H d' \<and> mock_abs H d' = (if isl r then mock_abs H d
      else (mock_abs H d)\<lparr>aKeys := alter (aKeys (mock_abs H d)) sa (\<lambda>(kp, u). (kp, True))\<rparr>)"
    using with_entry_step [OF _ es(1), of "\<lambda>e. EncodeToString (ke_scriptAddress e)"
        entry_ok] inv
    by (auto simp: es(2) mock_inv_def mock_abs_def entry_ok_def)
next
  fix d p i u
  assume inv: "mock_inv H d" and "mock_GetLastKeyIndex ord p d = Inr (i, u)"
  then have l: "fold (last_index_step p) (go_range ord (mockKeyStore d)) (- 1, False) = (i, u)" "i \<noteq> - 1"
    by (auto simp: mock_GetLastKeyIndex_def Let_def split: if_splits)
  show "(\<exists>sa. aKeys (mock_abs H d) sa = Some (\<lparr>Change = p, Index = i\<rparr>, u)) \<and> next_key (mock_abs H d) \<lparr>Change = p, Index = i + 1\<rparr>"
    using last_index_fold [OF l(1)] l(2) by (fastforce simp: mock_key_entry [OF inv] next_key_def)
next
  fix d p e
  assume inv: "mock_inv H d" and "mock_GetLastKeyIndex ord p d = Inl e"
  then have l: "fst (fold (last_index_step p) (go_range ord (mockKeyStore d)) (- 1, False)) = - 1"
    by (auto simp: mock_GetLastKeyIndex_def Let_def split: if_splits)
  show "next_key (mock_abs H d) \<lparr>Change = p, Index = 0\<rparr>"
    using last_index_fold [OF refl, where p = p and es = "go_range ord (mockKeyStore d)" and ?s0.0 = "(- 1, False)"] l
    by (fastforce simp: mock_key_entry [OF inv] next_key_def)
next
  fix d sa kp
  assume "mock_inv H d" "mock_GetPathForKey sa d = Inr kp"
  then show "\<exists>u. aKeys (mock_abs H d) sa = Some (kp, u)"
    by (auto simp: mock_GetPathForKey_def mock_abs_def split: option.splits if_splits)
next
  fix d p "is"
  assume inv: "mock_inv H d" and "mock_GetUnused ord p d = Inr is"
  then have "set is = (\<lambda>e. Index (ke_path e)) `
      {e \<in> set (go_range ord (mockKeyStore d)). \<not> ke_used e \<and> Change (ke_path e) = p}"
    by (auto simp: mock_GetUnused_def)
  then show "set is = {i. \<exists>sa. aKeys (mock_abs H d) sa = Some (\<lparr>Change = p, Index = i\<rparr>, False)}"
    by (auto simp: mock_key_entry [OF inv] path_eq)
next
  fix d kps
  assume inv: "mock_inv H d" and kps: "mock_key_GetAll ord d = Inr kps"
  have "ran (aKeys (mock_abs H d)) = (\<lambda>e. (ke_path e, ke_used e)) ` set (go_range ord (mockKeyStore d))"
    by (auto simp: ran_def mock_key_entry [OF inv] image_iff) blast
  then show "set kps = fst ` ran (aKeys (mock_abs H d))"
    using kps by (auto simp: mock_key_GetAll_def image_image)
next
  fix d p n
  assume inv: "mock_inv H d" and "mock_GetLookaheadWindows ord d p = Some n"
  then have "n = mock_window ord p d" by (auto simp: mock_GetLookaheadWindows_def split: if_splits)
  then show "0 \<le> n \<and> n \<le> int (card (unused_keys (mock_abs H d) p))"
    using mock_window_bound [OF inv] by simp
next
  show "dom (mock_GetLookaheadWindows ord d) = {EXTERNAL, INTERNAL}" for d
    by (auto simp: mock_GetLookaheadWindows_def)
next
  fix d
  assume inv: "mock_inv H d"
  show "finite (dom (aKeys (mock_abs H d)))"
  proof (rule finite_subset)
    show "dom (aKeys (mock_abs H d)) \<subseteq> ke_scriptAddress ` set (go_range ord (mockKeyStore d))"
      by (auto simp: mock_key_entry [OF inv])
  qed simp
next
  fix d sa kp u
  assume "mock_inv H d" "aKeys (mock_abs H d) sa = Some (kp, u)"
  then show "length sa = 20 \<and> Change kp \<in> {EXTERNAL, INTERNAL}"
    by (auto simp: mock_abs_def mock_inv_def Encode_inj entry_ok_def dest: keyed_lookup)
qed

section \<open>Coins and spent coins\<close>

locale mock_coins = go_order ord + hash_codec H for ord and H
begin

lemma mock_utxo_map:
  assumes "keyed (\<lambda>u. OutPoint_String H (Op u)) wf_utxo m"
  shows "lists_map Op (go_range ord m) (\<lambda>op. if wf_op op then map_of m (OutPoint_String H op) else None)"
proof -
  have L: "lists_map (\<lambda>u. OutPoint_String H (Op u)) (go_range ord m) (map_of m)" by (rule keyed_lists [OF assms])
  have wf: "wf_op (Op u)" if "u \<in> set (go_range ord m)" for u
    using lists_map_mem [OF L that] keyed_lookup [OF assms] by (simp add: wf_utxo_def)
  have "distinct (map (OutPoint_String H) (map Op (go_range ord m)))" using L by (simp add: lists_map_def comp_def)
  then have "distinct (map Op (go_range ord m))"
    using distinct_map [of "OutPoint_String H" "map Op (go_range ord m)"] by blast
  then show ?thesis
    using L wf by (auto simp: lists_map_def OutPoint_String_eq)
qed

lemma mock_utxo_with:
  assumes inv: "mock_inv H d" and "wf_utxo u" "with_utxo H u g d = (d', r)" "\<And>v. Op (g v) = Op v"
  shows "mock_inv H d' \<and> mock_abs H d' = (if isl r then mock_abs H d
    else (mock_abs H d)\<lparr>aUtxos := alter (aUtxos (mock_abs H d)) (Op u) g\<rparr>)"
proof -
  obtain es where es: "with_entry ''not found'' (OutPoint_String H (Op u)) g (mockUtxoStore d) = (es, r)" "d' = d\<lparr>mockUtxoStore := es\<rparr>"
    using assms(3) by (auto simp: with_utxo_def split: prod.splits)
  have "(\<lambda>op. if wf_op op then alter (map_of (mockUtxoStore d)) (OutPoint_String H (Op u)) g (OutPoint_String H op) else None) =
      alter (aUtxos (mock_abs H d)) (Op u) g"
    using assms(2) by (auto simp: fun_eq_iff alter_def mock_abs_def OutPoint_String_eq wf_utxo_def)
  moreover have "keyed (\<lambda>u. OutPoint_String H (Op u)) wf_utxo es \<and>
      map_of es = (if isl r then map_of (mockUtxoStore d) else alter (map_of (mockUtxoStore d)) (OutPoint_String H (Op u)) g) \<and>
      (isl r \<longrightarrow> es = mockUtxoStore d)"
    using inv assms(4) by (intro with_entry_step [OF _ es(1)]) (simp_all add: mock_inv_def wf_utxo_def)
  ultimately show ?thesis
    using inv by (cases "isl r") (simp_all add: es(2) mock_inv_def mock_abs_def cong: if_cong)
qed

end

text \<open>With the flag that \<open>UnFreeze\<close> writes corrected, the mock keeps the contract of the coins; as it is, it
  does not.\<close>

definition thawing :: "hash_lib \<Rightarrow> mock Utxos \<Rightarrow> mock Utxos" where
  "thawing H I = I\<lparr>U_UnFreeze := (\<lambda>u. with_utxo H u (\<lambda>v. v\<lparr>Frozen := False\<rparr>))\<rparr>"

lemmas thawing_simps = thawing_def Utxos.update_convs Utxos.select_convs

sublocale mock_coins \<subseteq> mock_utxo: utxo_store "thawing H (DS_Utxos (MockDatastore H ord))" "mock_abs H" "mock_inv H"
proof (unfold_locales; (unfold mock_datastore_simps thawing_simps)?)
  fix d u d' r
  assume "mock_inv H d" "wf_utxo u" "mock_utxo_Put H u d = (d', r)"
  then show "mock_inv H d' \<and> mock_abs H d' = (if isl r then mock_abs H d
      else (mock_abs H d)\<lparr>aUtxos := (aUtxos (mock_abs H d))(Op u \<mapsto> u)\<rparr>)"
    using keyed_update [of "\<lambda>u. OutPoint_String H (Op u)" wf_utxo "mockUtxoStore d" u]
    by (auto simp: mock_utxo_Put_def mock_inv_def mock_abs_def update_conv' fun_eq_iff OutPoint_String_eq wf_utxo_def)
next
  fix d u d' r
  assume inv: "mock_inv H d" and u: "wf_utxo u" "mock_utxo_Delete H u d = (d', r)"
  obtain es where es: "without_entry (OutPoint_String H (Op u)) (mockUtxoStore d) = (es, r)" "d' = d\<lparr>mockUtxoStore := es\<rparr>"
    using u(2) by (auto simp: mock_utxo_Delete_def split: prod.splits)
  show "mock_inv H d' \<and> mock_abs H d' = (if isl r then mock_abs H d
      else (mock_abs H d)\<lparr>aUtxos := (aUtxos (mock_abs H d))(Op u := None)\<rparr>)"
    using without_entry_step [OF _ es(1), of "\<lambda>u. OutPoint_String H (Op u)" wf_utxo] inv u(1)
    by (auto simp: es(2) mock_inv_def mock_abs_def fun_eq_iff OutPoint_String_eq wf_utxo_def)
next
  show "lists_map Op us (aUtxos (mock_abs H d))" if "mock_inv H d" "mock_utxo_GetAll ord d = Inr us" for d us
    using that mock_utxo_map [of "mockUtxoStore d"] by (auto simp: mock_utxo_GetAll_def mock_inv_def mock_abs_def)
next
  show "wf_utxo u" if "mock_inv H d" "aUtxos (mock_abs H d) op = Some u" for d op u
    using that by (auto simp: mock_abs_def mock_inv_def dest: keyed_lookup split: if_splits)
qed (unfold mock_utxo_Freeze_def mock_utxo_SetWatchOnly_def, (rule mock_utxo_with; simp)+)

interpretation mock_rev: mock_coins rev chainhash_lib
  by (intro mock_coins.intro rev_order.go_order_axioms chainhash.hash_codec_axioms)

definition ex_mock :: mock where
  "ex_mock = \<lparr>mockConfig = 0, mockStorage = [], mockKeyStore = [], mockUtxoStore = [], mockStxoStore = [],
     mockTxnStore = [], mockSubscriptionsStore = []\<rparr>"

definition ex_frozen :: Utxo where
  "ex_frozen = \<lparr>Op = ex_op, AtHeight = 1, UValue = 5, ScriptPubkey = [], WatchOnly = False, Frozen = True\<rparr>"

lemma mock_never_thaws:
  "map_of (mockUtxoStore (fst (mock_utxo_UnFreeze H u m))) k = Some v \<Longrightarrow> map_of (mockUtxoStore m) k = Some w \<Longrightarrow> Frozen v = Frozen w"
  by (auto simp: mock_utxo_UnFreeze_def with_utxo_def with_entry_def update_conv' split: option.splits if_splits)

lemma mock_not_utxo_store: "\<not> utxo_store (DS_Utxos (MockDatastore chainhash_lib ord)) (mock_abs chainhash_lib) (mock_inv chainhash_lib)"
proof
  assume u: "utxo_store (DS_Utxos (MockDatastore chainhash_lib ord)) (mock_abs chainhash_lib) (mock_inv chainhash_lib)"
  let ?k = "OutPoint_String chainhash_lib ex_op"
  let ?m = "ex_mock\<lparr>mockUtxoStore := [(?k, ex_frozen)]\<rparr>"
  have wf: "wf_op ex_op" "wf_utxo ex_frozen" "Op ex_frozen = ex_op" by (simp_all add: ex_frozen_def wf_utxo_def wf_op_def ex_op_def)
  have inv: "mock_inv chainhash_lib ?m" using wf by (simp add: mock_inv_def keyed_def ex_mock_def)
  have un: "mock_utxo_UnFreeze chainhash_lib ex_frozen ?m = (?m, Inr ())"
    by (simp add: mock_utxo_UnFreeze_def with_utxo_def with_entry_def wf(3)) (simp add: ex_frozen_def)
  have "U_UnFreeze (DS_Utxos (MockDatastore chainhash_lib ord)) ex_frozen ?m = (?m, Inr ())"
    using un unfolding mock_datastore_simps .
  from utxo_store.U_UnFreeze [OF u inv wf(2) this]
  have "mock_abs chainhash_lib ?m = (mock_abs chainhash_lib ?m)
      \<lparr>aUtxos := alter (aUtxos (mock_abs chainhash_lib ?m)) ex_op (\<lambda>v. v\<lparr>Frozen := False\<rparr>)\<rparr>"
    by (simp only: wf(3) sum.disc if_False)
  moreover have sel: "aUtxos (a\<lparr>aUtxos := f\<rparr>) = f" for a f by simp
  ultimately
  have "aUtxos (mock_abs chainhash_lib ?m) = alter (aUtxos (mock_abs chainhash_lib ?m)) ex_op (\<lambda>v. v\<lparr>Frozen := False\<rparr>)"
    using arg_cong [of _ _ aUtxos] sel by metis
  from fun_cong [OF this, of ex_op] have "Some ex_frozen = Some (ex_frozen\<lparr>Frozen := False\<rparr>)"
    by (simp add: mock_abs_def alter_def wf(1))
  then show False by (simp add: ex_frozen_def)
qed

text \<open>Two coins spent by one transaction have one entry: the second replaces the first.\<close>

lemma update_twice: "AList.update k v (AList.update k w m) = AList.update k v m"
  by (induction m) auto

lemma mock_spends_collide:
  "SpendTxid s = SpendTxid t \<Longrightarrow> fst (mock_stxo_Put H t (fst (mock_stxo_Put H s m))) = fst (mock_stxo_Put H t m)"
  by (simp add: mock_stxo_Put_def update_twice)

end
