(* ===== verification/Spec2Isabelle.thy ===== *)
theory Spec2Isabelle
  imports Sqlite_Props Tip_Notify Keep_Alive Rpc_Tool Cmd_Tools Elx_Net Mock_Laws
begin

text \<open>
  A model of the go-electrum-client, an Electrum wallet client in Go, and what makes it correct.

  \<^bold>\<open>The program.\<close>  A \<^emph>\<open>client\<close> (\<open>client/btc\<close>) controls a \<^emph>\<open>wallet\<close> (\<open>wallet/wltbtc\<close>), which keeps keys,
  coins, spent coins, transactions and subscriptions in a \<^emph>\<open>datastore\<close> (\<open>wallet/bdb\<close> on bbolt or \<open>wallet/db\<close>
  on sqlite), and a \<^emph>\<open>network\<close> of ElectrumX servers (\<open>electrumx\<close>): one leader node, which keeps the file and
  the map of block headers in step with the server, and peer nodes that replace it when its connection ends.
  Each node talks JSON-RPC over one server connection.  The packages for dash and firo repeat those for btc.

  \<^bold>\<open>Conventions\<close> (theory \<open>Prelude\<close>).  A function that returns \<open>(x, err)\<close> is a function into \<open>'a result\<close>:
  \<open>Inl (Err m)\<close> is a returned error, \<open>Inl (Panic m)\<close> a panic or a \<open>log.Fatal\<close>.  A method that changes state takes
  the state and returns it beside its result, so that what was changed before an early return stays visible.
  An \<open>option\<close> around that is termination: \<open>None\<close> is a loop that does not end, or fuel that ran out.  Integers are
  \<open>int\<close>, with the wrap-around written out (\<open>wrap64\<close>, \<open>u32\<close>, \<open>32 word\<close>) where a value from outside can reach the
  bound.  Names are those of the source, with a prefix where a HOL name would clash.

  \<^bold>\<open>What is a parameter.\<close>  Everything not under \<open>src/\<close>: btcd (wire format, scripts, addresses, \<open>chainhash\<close>,
  \<open>hdkeychain\<close>, coin selection, the script engine), \<open>bip39\<close>, \<open>secretbox\<close>, bbolt, sqlite, \<open>cast\<close>, the operating
  system's files, and the remote server.  What the code relies on of them is stated as locales
  (\<open>hash_codec\<close>, \<open>wire_codec\<close>, \<open>bolt_db\<close>, \<open>sqlite_db\<close>, \<open>secret_box\<close>, \<open>hd_keys\<close>, \<open>spend_api\<close>, \<open>wire_sizes\<close>,
  \<open>wallet_codec\<close>) that are interpreted on concrete instances, which the witnesses evaluate.  The server is an
  argument without laws wherever a property does not say that it is honest: its answer to each request is a function of
  the number of calls so far.

  \<^bold>\<open>Network side.\<close>
  \<^item> \<open>Hex_Hash\<close>, \<open>Strconv\<close>: hex strings, \<open>WireHash\<close>, and Go's number and string functions, with round trips.
  \<^item> \<open>Chain_Config\<close>: \<open>electrumx/electrumx.go\<close> and \<open>elxbtc\<close>, \<open>elxdash\<close>, \<open>elxfiro\<close>; the header deserializers read
    exactly one header of the configured size (\<open>header_codec\<close>).
  \<^item> \<open>Headers\<close>, \<open>Header_Chain\<close>: \<open>electrumx/headers.go\<close>, the record \<open>headers\<close> with file, maps and tip.  The
    invariant says that file and map agree and that the headers form a linked chain; every operation keeps it or
    is shown where it does not; \<open>verifyAll\<close> decides it; a restart rebuilds the maps from the file.
  \<^item> \<open>Session_Cost\<close>: \<open>node_session.go\<close> with \<open>float32\<close> rounding on \<open>int\<close>.
  \<^item> \<open>Node_Headers\<close>, \<open>Header_Sync\<close>, \<open>Header_Live\<close>, \<open>Header_Reorg\<close>, \<open>Header_Initial\<close>: \<open>node_headers.go\<close>.  Safety
    against any server, progress with an honest one, recovery from forks, and the initial synchronisation; its
    loop asks for 2016 headers a turn and has fuel, and one unit for each 2016 missing headers and one more is
    shown to be enough with an honest server, while a server may keep the loop going for ever.
  \<^item> \<open>Json_Rpc\<close>, \<open>Server_Conn\<close>: \<open>jsonrpc.go\<close> and \<open>server_connection.go\<close>, a step relation over the reader, the
    requests in flight and the end of the connection.  \<open>Keep_Alive\<close>: the reader beside the goroutine \<open>keepAlive\<close>, with the
    clock, the ticker and the read deadline, and when that deadline can pass.  \<open>Verbose_Rpc\<close>: the calls whose results hold \<open>float64\<close> numbers,
    with the decimal parsing and rounding of Go, and a bound on what the conversion of a fee rate loses.
  \<^item> \<open>Known_Servers\<close>, \<open>Node_Api\<close>, \<open>Network_Peers\<close>: \<open>network_servers.go\<close>, \<open>node.go\<close>, \<open>node_scripthash.go\<close> and
    \<open>network.go\<close>, the runs of the monitor as a step relation with the random choices as arguments.
  \<^item> \<open>Elx_Net\<close>: the methods of \<open>ElectrumXInterface\<close> through the network to the leader's node and its connection, and
    this stack as the \<open>ElectrumX\<close> record the client works on; what a call may change, and the client's rescan over it.

  \<^bold>\<open>Wallet side.\<close>
  \<^item> \<open>Datastore\<close>, \<open>Store_Laws\<close>: \<open>wallet/datastore.go\<close> and \<open>wallet/util.go\<close>; the abstract store of five maps, the
    encrypted storage and the creation date, and a locale for each interface that says what each operation does to it.
  \<^item> \<open>Bolt_Store\<close>, \<open>Bolt_Laws\<close>, \<open>Bolt_Props\<close> and \<open>Sqlite_Store\<close>, \<open>Sqlite_Laws\<close>, \<open>Sqlite_Datastore\<close>, \<open>Sqlite_Props\<close>:
    the two datastores over the calls of their databases.  Both are shown to keep every interface of
    \<open>Store_Laws\<close>, so that all that follows holds on either, and are compared where they differ.
  \<^item> \<open>Mock_Store\<close>, \<open>Mock_Laws\<close>: the in-memory datastore of \<open>wltbtc/mock.go\<close>, for every order of map iteration.  It keeps
    the same interfaces except those of the coins, where \<open>UnFreeze\<close> writes the wrong flag, and of the spent coins.
  \<^item> \<open>Key_Manager\<close>, \<open>Key_Props\<close>: \<open>keys.go\<close>.  The search for a derivable index is a \<open>partial_function\<close>, and
    returning is characterised exactly.
  \<^item> \<open>Tx_Store\<close>, \<open>Tx_Laws\<close>, \<open>Add_Laws\<close>, \<open>Tx_Props\<close>: \<open>txstore.go\<close>.  \<open>markAsDead\<close> recurses over the spent coins
    with fuel, and more fuel than there are spent coins is enough because each call removes one.
  \<^item> \<open>Wallet\<close>, \<open>Wallet_Laws\<close>, \<open>Wallet_Props\<close>, \<open>Spend\<close>, \<open>Spend_Props\<close>, \<open>Sweep\<close>, \<open>Sweep_Props\<close>: \<open>wallet.go\<close>,
    \<open>storage.go\<close>, \<open>subscribe.go\<close>, \<open>fees.go\<close>, \<open>send.go\<close>, \<open>sign.go\<close>, \<open>bumpfee.go\<close>, \<open>txsizes.go\<close>, \<open>sizes.go\<close>, \<open>sweep.go\<close>.
    Loading gives back what was made, the balance is the total of the coins, spending and signing touch the
    wallet's own spendable coins only.

  \<^bold>\<open>Client side.\<close>
  \<^item> \<open>Client\<close>, \<open>Rescan_Props\<close>, \<open>Client_Props\<close>: \<open>client.go\<close>, \<open>rescan.go\<close>, \<open>wallet_synchronize.go\<close>,
    \<open>client_wallet.go\<close>, \<open>client_node.go\<close>, \<open>import_sweep.go\<close> over a wallet and a network interface; the field that
    holds the wallet is nil, a nil pointer in an interface, or a wallet.
  \<^item> \<open>Tip_Notify\<close>: the goroutine and the calls of \<open>blockchain.go\<close> as a state machine with its lock and channels.
  \<^item> \<open>Rpc_Tool\<close>: the test service \<open>serve_rpc.go\<close> and its command line client.
  \<^item> \<open>Cmd_Tools\<close>: \<open>client/config.go\<close> and the nine tools of \<open>cmd/\<close>.

  \<^bold>\<open>How the lemmas are used.\<close>  The interface locales of \<open>Store_Laws\<close> carry the proofs about the wallet: the client
  theories prove their lemmas for any datastore that keeps the contracts, the database theories make
  both datastores instances by \<open>sublocale\<close>, and the properties combine the two.  The theorems whose text starts
  with a claim number are the properties; each of them that has hypotheses is followed by a witness that
  applies it to a concrete input.  Theorems about a defect of the code state the behaviour as it is.

  \<^bold>\<open>Not modelled.\<close>  The copies of the wallet and the client for dash and firo (package and type names apart they are
  the text modelled here; the one exception, \<open>RecreateWallet\<close> of firo, is in \<open>Client\<close>); sockets (dialling, TLS and the
  write deadline; a send either succeeds or fails); the fixtures and test
  functions beside the mock datastore, the dump tool of the bbolt file and debugging output; mutexes that only make an operation atomic (the two that
  matter, in \<open>server_connection.go\<close> and \<open>blockchain.go\<close>, are in their step relations); opening of the
  database files beyond its result.
\<close>

end
